(* ===== verification/Prelude.thy ===== *)
theory Prelude
  imports Complex_Main "HOL-Library.Word" "HOL-Library.Signed_Division"
begin

text \<open>
  Shared vocabulary of the development: the integer types of the C++ sources as words,
  C++ integer division and remainder on mathematical integers, wrap-around arithmetic
  modulo a power of two, and the named collections of facts the component theories fill.
\<close>

unbundle bit_operations_syntax

named_theorems consts_simp
named_theorems enum_simp
named_theorems step_simp

subsection \<open>Integer types\<close>

type_synonym uint8 = "8 word"
type_synonym uint16 = "16 word"
type_synonym uint32 = "32 word"
type_synonym uint64 = "64 word"

text \<open>
  Signed fields of the messages and of the process data are kept as words of the same
  width and read with \<open>sint\<close>; the C++ promotions to \<open>int\<close> and \<open>int64_t\<close> are written
  out with \<open>sint\<close> and \<open>uint\<close>. Nanosecond counts (\<open>RTT::os::TimeService::nsecs\<close>, a signed
  64-bit integer) are mathematical integers where their range cannot be exhausted, and
  64-bit words in the one place that multiplies them up (the time stamp handler).
\<close>

type_synonym nsecs = int

subsection \<open>C++ integer division and remainder\<close>

text \<open>
  The operators \<open>/\<close> and \<open>%\<close> of C++ truncate towards zero, which is what the signed
  division of the library does.
\<close>

definition cdiv :: "int \<Rightarrow> int \<Rightarrow> int" where
  "cdiv a b = a sdiv b"

definition crem :: "int \<Rightarrow> int \<Rightarrow> int" where
  "crem a b = a smod b"

lemma cdiv_nonneg: "0 \<le> a \<Longrightarrow> 0 < b \<Longrightarrow> cdiv a b = a div b"
  by (cases "a = 0") (auto simp: cdiv_def signed_divide_int_def)

lemma crem_nonneg: "0 \<le> a \<Longrightarrow> 0 < b \<Longrightarrow> crem a b = a mod b"
  by (cases "a = 0")
    (simp_all add: crem_def signed_modulo_int_def signed_divide_int_def minus_div_mult_eq_mod)

lemma crem_neg: "a < 0 \<Longrightarrow> 0 < b \<Longrightarrow> crem a b = - ((- a) mod b)"
  using minus_div_mult_eq_mod [of "- a" b]
  by (simp add: crem_def signed_modulo_int_def signed_divide_int_def)

lemma crem_lower: "0 < b \<Longrightarrow> - b < crem a b"
proof (cases "a < 0")
  case True
  moreover assume "0 < b"
  ultimately show ?thesis using pos_mod_bound [of b "- a"] by (simp add: crem_neg)
next
  case False
  assume b: "0 < b"
  with False have "crem a b = a mod b" by (simp add: crem_nonneg)
  moreover from b have "0 \<le> a mod b" by (rule pos_mod_sign)
  ultimately show ?thesis using b by linarith
qed

lemma crem_upper: "0 < b \<Longrightarrow> crem a b < b"
proof (cases "a < 0")
  case True
  assume b: "0 < b"
  with True have "crem a b = - ((- a) mod b)" by (simp add: crem_neg)
  moreover from b have "0 \<le> (- a) mod b" by (rule pos_mod_sign)
  ultimately show ?thesis using b by linarith
next
  case False
  moreover assume "0 < b"
  ultimately show ?thesis by (simp add: crem_nonneg)
qed

lemma crem_cong: "0 < b \<Longrightarrow> crem a b mod b = a mod b"
proof (cases "a < 0")
  case True
  assume "0 < b"
  then show ?thesis using True by (simp add: crem_neg mod_minus_eq)
next
  case False
  then show "0 < b \<Longrightarrow> ?thesis" by (simp add: crem_nonneg)
qed

text \<open>
  The idiom \<open>(a % b + b) % b\<close>, which the sources use in several places to turn the
  remainder into a modulo, does give the modulo.
\<close>

lemma crem_fixup: "0 < b \<Longrightarrow> crem (crem a b + b) b = a mod b"
proof -
  assume b: "0 < b"
  from crem_lower [OF b, of a] have "0 \<le> crem a b + b" by simp
  with b have "crem (crem a b + b) b = (crem a b + b) mod b" by (simp add: crem_nonneg)
  also have "\<dots> = a mod b" using b by (simp add: crem_cong)
  finally show ?thesis .
qed

subsection \<open>Two's complement wrap-around on integers\<close>

text \<open>
  \<open>wrap_half m x\<close> is the representative of \<open>x\<close> modulo \<open>m\<close> in the half-open interval
  from \<open>- (m div 2)\<close>: what the rollover compensation of the encoders computes.
\<close>

definition wrap_half :: "int \<Rightarrow> int \<Rightarrow> int" where
  "wrap_half m x = (x + m div 2) mod m - m div 2"

lemma wrap_half_lower: "0 < m \<Longrightarrow> - (m div 2) \<le> wrap_half m x"
  by (simp add: wrap_half_def)

lemma wrap_half_upper: "0 < m \<Longrightarrow> even m \<Longrightarrow> wrap_half m x < m div 2"
proof -
  assume m: "0 < m" "even m"
  then have "(x + m div 2) mod m < m" by simp
  moreover from m have "m = m div 2 + m div 2" by (metis dvd_div_mult_self mult_2_right)
  ultimately show ?thesis unfolding wrap_half_def by linarith
qed

lemma wrap_half_cong: "wrap_half m x mod m = x mod m"
  by (simp add: wrap_half_def mod_diff_left_eq)

lemma wrap_half_id:
  assumes "0 < m" "even m" "- (m div 2) \<le> x" "x < m div 2"
  shows "wrap_half m x = x"
proof -
  from assms have "m = m div 2 + m div 2" by (metis dvd_div_mult_self mult_2_right)
  with assms have "0 \<le> x + m div 2" "x + m div 2 < m" by linarith+
  then show ?thesis by (simp add: wrap_half_def)
qed

lemma wrap_half_eqI: "x mod m = y mod m \<Longrightarrow> wrap_half m x = wrap_half m y"
  unfolding wrap_half_def by (metis mod_add_left_eq)

lemma sint_word16_wrap: "sint (word_of_int x :: uint16) = wrap_half 65536 x"
proof -
  have "sint (word_of_int x :: uint16) = signed_take_bit 15 x"
    by (simp add: sint_sbintrunc')
  also have "\<dots> = wrap_half 65536 x"
    by (simp add: signed_take_bit_eq_take_bit_shift take_bit_eq_mod wrap_half_def)
  finally show ?thesis .
qed

lemma sint_word32_wrap: "sint (word_of_int x :: uint32) = wrap_half 4294967296 x"
proof -
  have "sint (word_of_int x :: uint32) = signed_take_bit 31 x"
    by (simp add: sint_sbintrunc')
  also have "\<dots> = wrap_half 4294967296 x"
    by (simp add: signed_take_bit_eq_take_bit_shift take_bit_eq_mod wrap_half_def)
  finally show ?thesis .
qed

text \<open>
  The drivers' rollover compensation of 16-bit counters, whose remainder can be negative,
  gives the difference of the counters once it is narrowed to 16 bits.
\<close>

lemma crem_narrow16:
  "(word_of_int (crem (a + 32768 - b) 65536 - 32768) :: uint16) = word_of_int (a - b)"
proof -
  let ?x = "a + 32768 - b"
  have "(crem ?x 65536 - 32768) mod 65536 = (?x - 32768) mod 65536"
    by (rule mod_diff_cong) (simp_all add: crem_cong)
  also have "?x - 32768 = a - b" by simp
  finally have "(crem ?x 65536 - 32768) mod 65536 = (a - b) mod 65536" .
  then show ?thesis by (simp only: word_of_int_eq_iff take_bit_eq_mod) simp
qed

lemma sint_diff_16: "sint (a - b :: uint16) = wrap_half 65536 (uint a - uint b)"
proof -
  have "a - b = word_of_int (uint a - uint b)" by simp
  then show ?thesis by (simp only: sint_word16_wrap)
qed

lemma sint_word32_id:
  "- 2147483648 \<le> x \<Longrightarrow> x < 2147483648 \<Longrightarrow> sint (word_of_int x :: uint32) = x"
  by (simp add: sint_word32_wrap wrap_half_id)

lemma sint_word64_id:
  assumes "- 9223372036854775808 \<le> x" and "x < 9223372036854775808"
  shows "sint (word_of_int x :: uint64) = x"
proof -
  have "sint (word_of_int x :: uint64) = signed_take_bit 63 x"
    by (simp add: sint_sbintrunc')
  also have "\<dots> = x" using assms by (simp add: signed_take_bit_int_eq_self)
  finally show ?thesis .
qed

text \<open>Arithmetic modulo a power of two does not see the 32-bit wrap.\<close>

lemma mod_weaken: "(a::int) mod n = b mod n \<Longrightarrow> m dvd n \<Longrightarrow> a mod m = b mod m"
  by (metis mod_mod_cancel)

lemma mod_add_diff: "(a + w mod m - l mod m) mod m = (a + w - l) mod (m::int)"
proof -
  have "(a + w mod m - l mod m) mod m = ((a + w mod m) - l) mod m" by (rule mod_diff_right_eq)
  also have "\<dots> = ((a - l) + w mod m) mod m" by (simp add: algebra_simps)
  also have "\<dots> = ((a - l) + w) mod m" by (rule mod_add_right_eq)
  finally show ?thesis by (simp add: algebra_simps)
qed

lemma two_power_dvd_32: "b \<le> 32 \<Longrightarrow> (2::int) ^ b dvd 4294967296"
  using le_imp_power_dvd [of b 32 "2::int"] by simp

lemma sint_mod_32: "sint (w :: uint32) mod 4294967296 = uint w mod 4294967296"
proof -
  have "uint w = take_bit 32 (sint w)" using uint_sint [of w] by simp
  then show ?thesis by (simp add: take_bit_eq_mod)
qed

lemma uint_diff_mod_32: "uint (x - y :: uint32) mod 4294967296 = (uint x - uint y) mod 4294967296"
  by (simp add: uint_word_ariths)

lemma uint_add_mod_32:
  "uint (x + word_of_int i :: uint32) mod 4294967296 = (uint x + i) mod 4294967296"
  by (simp add: uint_word_ariths uint_word_of_int mod_add_right_eq take_bit_eq_mod)

lemmas sint_mod_two_power = mod_weaken [OF sint_mod_32 two_power_dvd_32]
  and uint_diff_mod_two_power = mod_weaken [OF uint_diff_mod_32 two_power_dvd_32]
  and uint_add_mod_two_power = mod_weaken [OF uint_add_mod_32 two_power_dvd_32]

subsection \<open>Lists and runs\<close>

text \<open>Runs of a step function over a list of inputs, the last state being the result.\<close>

primrec run :: "('s \<Rightarrow> 'i \<Rightarrow> 's) \<Rightarrow> 's \<Rightarrow> 'i list \<Rightarrow> 's" where
  "run f s [] = s"
| "run f s (i # is) = run f (f s i) is"

lemma run_append [simp]: "run f s (xs @ ys) = run f (run f s xs) ys"
  by (induction xs arbitrary: s) auto

lemma run_invariant:
  assumes "\<And>s i. P s \<Longrightarrow> P (f s i)" and "P s"
  shows "P (run f s is)"
  using assms(2) by (induction "is" arbitrary: s) (auto intro: assms(1))

lemma run_replicate_Suc: "run f s (replicate (Suc n) i) = f (run f s (replicate n i)) i"
  by (subst replicate_Suc, subst replicate_append_same [symmetric]) simp

text \<open>Decimal digits, as the output streams print an integer.\<close>

fun dec_digits :: "nat \<Rightarrow> string" where
  "dec_digits n = (if n < 10 then [char_of (48 + n)] else dec_digits (n div 10) @ [char_of (48 + n mod 10)])"

declare dec_digits.simps [simp del]

definition digit_value :: "char \<Rightarrow> nat" where
  "digit_value c = of_char c - 48"

lemma dec_digits_value: "foldl (\<lambda>a c. 10 * a + digit_value c) 0 (dec_digits n) = n"
proof (induction n rule: dec_digits.induct)
  case (1 n)
  show ?case
  proof (cases "n < 10")
    case True
    then show ?thesis by (simp add: dec_digits.simps digit_value_def of_char_of)
  next
    case False
    have "(48 + n mod 10) mod 256 = 48 + n mod 10"
      by (rule mod_less) (use mod_less_divisor [of 10 n] in linarith)
    then have "digit_value (char_of (48 + n mod 10)) = n mod 10"
      by (simp add: digit_value_def of_char_of)
    then show ?thesis using 1 False by (subst dec_digits.simps) simp
  qed
qed

lemma dec_digits_inject [simp]: "dec_digits m = dec_digits n \<longleftrightarrow> m = n"
  by (metis dec_digits_value)

lemma dec_digits_digit: "c \<in> set (dec_digits n) \<Longrightarrow> 48 \<le> (of_char c :: nat) \<and> (of_char c :: nat) \<le> 57"
proof (induction n rule: dec_digits.induct)
  case (1 n)
  have "48 + n mod 10 < 256 \<and> n mod 10 \<le> 9"
    using mod_less_divisor [of 10 n] by linarith
  then show ?case using 1 by (subst (asm) dec_digits.simps) (auto simp: of_char_of split: if_splits)
qed

subsection \<open>Latched states\<close>

text \<open>
  A state that only certain requests leave: the contract of the emergency stop. \<open>get\<close> reads
  the state, \<open>put\<close> is the setter, \<open>stop\<close> the latched state, \<open>target\<close> the state a request asks
  for, and \<open>releases\<close> says which requests may leave the latched state.
\<close>

locale latch =
  fixes get :: "'s \<Rightarrow> 'a" and put :: "'r \<Rightarrow> 's \<Rightarrow> 's" and stop :: 'a
    and target :: "'r \<Rightarrow> 'a" and releases :: "'r \<Rightarrow> bool"
  assumes get_put: "get (put r s) = (if get s = stop \<and> \<not> releases r then stop else target r)"
begin

lemma put_stop: "target r = stop \<Longrightarrow> get (put r s) = stop"
  by (simp add: get_put)

lemma latched: "get s = stop \<Longrightarrow> \<not> releases r \<Longrightarrow> get (put r s) = stop"
  by (simp add: get_put)

lemma latched_run:
  "get s = stop \<Longrightarrow> list_all (\<lambda>r. \<not> releases r) rs \<Longrightarrow> get (run (\<lambda>s r. put r s) s rs) = stop"
  by (induction rs arbitrary: s) (auto simp: get_put)

text \<open>However requests interleave, a stop among them survives all that do not release it.\<close>

lemma stopped_run:
  "stop \<in> target ` set rs \<Longrightarrow> list_all (\<lambda>r. \<not> releases r) rs \<Longrightarrow>
   get (run (\<lambda>s r. put r s) s rs) = stop"
proof (induction rs arbitrary: s)
  case (Cons r rs)
  show ?case
  proof (cases "target r = stop")
    case True
    then show ?thesis using latched_run [OF put_stop [OF True]] Cons.prems by simp
  next
    case False
    then show ?thesis using Cons by auto
  qed
qed simp

lemma leaves_by_release: "get s = stop \<Longrightarrow> get (put r s) \<noteq> stop \<Longrightarrow> releases r"
  by (auto simp: get_put split: if_splits)

end

end
