(* ===== verification/Doubles.thy ===== *)
theory Doubles
  imports Prelude
begin

text \<open>
  The C++ type \<open>double\<close> (and the message types float64 and float32). A value is a real
  number, one of the two infinities, or not-a-number. The arithmetic is exact: rounding,
  overflow to infinity and the sign of zero are not modelled; what is modelled is how
  NaN and the infinities arise and spread, and that every comparison with NaN is false,
  which the safety code of RT Ops depends on. A division by zero takes the zero as
  positive, as the zeros of the sources (sums and differences of equal values) are.
\<close>

datatype dbl = Fin real | PInf | NInf | NaN

named_theorems dbl_simp

text \<open>\<open>std::isfinite\<close>, \<open>std::isnan\<close>.\<close>

fun isfinite :: "dbl \<Rightarrow> bool" where
  "isfinite (Fin _) = True"
| "isfinite _ = False"

text \<open>The real number of a finite value.\<close>

fun real_of_dbl :: "dbl \<Rightarrow> real" where
  "real_of_dbl (Fin r) = r"
| "real_of_dbl _ = 0"

lemma isfinite_iff: "isfinite x \<longleftrightarrow> (\<exists>r. x = Fin r)"
  by (cases x) auto

lemma isfiniteE: "isfinite x \<Longrightarrow> (\<And>r. x = Fin r \<Longrightarrow> P) \<Longrightarrow> P"
  by (cases x) auto

subsection \<open>Arithmetic\<close>

instantiation dbl :: "{zero, one, plus, minus, uminus, times, inverse, ord}"
begin

definition zero_dbl :: dbl where
  "zero_dbl = Fin 0"

definition one_dbl :: dbl where
  "one_dbl = Fin 1"

fun uminus_dbl :: "dbl \<Rightarrow> dbl" where
  "uminus_dbl (Fin a) = Fin (- a)"
| "uminus_dbl PInf = NInf"
| "uminus_dbl NInf = PInf"
| "uminus_dbl NaN = NaN"

fun plus_dbl :: "dbl \<Rightarrow> dbl \<Rightarrow> dbl" where
  "plus_dbl NaN y = NaN"
| "plus_dbl x NaN = NaN"
| "plus_dbl (Fin a) (Fin b) = Fin (a + b)"
| "plus_dbl PInf NInf = NaN"
| "plus_dbl NInf PInf = NaN"
| "plus_dbl PInf y = PInf"
| "plus_dbl NInf y = NInf"
| "plus_dbl x PInf = PInf"
| "plus_dbl x NInf = NInf"

definition minus_dbl :: "dbl \<Rightarrow> dbl \<Rightarrow> dbl" where
  "minus_dbl x y = x + (- y)"

text \<open>The infinity with the sign of a real; an infinity times zero is NaN.\<close>

definition signed_inf :: "real \<Rightarrow> dbl" where
  "signed_inf s = (if 0 < s then PInf else if s < 0 then NInf else NaN)"

fun dbl_sgn :: "dbl \<Rightarrow> real" where
  "dbl_sgn (Fin a) = sgn a"
| "dbl_sgn PInf = 1"
| "dbl_sgn NInf = - 1"
| "dbl_sgn NaN = 0"

fun times_dbl :: "dbl \<Rightarrow> dbl \<Rightarrow> dbl" where
  "times_dbl NaN y = NaN"
| "times_dbl x NaN = NaN"
| "times_dbl (Fin a) (Fin b) = Fin (a * b)"
| "times_dbl x y = signed_inf (dbl_sgn x * dbl_sgn y)"

fun divide_dbl :: "dbl \<Rightarrow> dbl \<Rightarrow> dbl" where
  "divide_dbl NaN y = NaN"
| "divide_dbl x NaN = NaN"
| "divide_dbl (Fin a) (Fin b) = (if b = 0 then signed_inf a else Fin (a / b))"
| "divide_dbl (Fin a) y = Fin 0"
| "divide_dbl x (Fin b) = signed_inf (dbl_sgn x * (if b < 0 then - 1 else 1))"
| "divide_dbl x y = NaN"

definition inverse_dbl :: "dbl \<Rightarrow> dbl" where
  "inverse_dbl x = Fin 1 div x"

fun less_dbl :: "dbl \<Rightarrow> dbl \<Rightarrow> bool" where
  "less_dbl (Fin a) (Fin b) = (a < b)"
| "less_dbl (Fin a) PInf = True"
| "less_dbl NInf (Fin b) = True"
| "less_dbl NInf PInf = True"
| "less_dbl _ _ = False"

fun less_eq_dbl :: "dbl \<Rightarrow> dbl \<Rightarrow> bool" where
  "less_eq_dbl (Fin a) (Fin b) = (a \<le> b)"
| "less_eq_dbl (Fin a) PInf = True"
| "less_eq_dbl NInf (Fin b) = True"
| "less_eq_dbl NInf PInf = True"
| "less_eq_dbl NInf NInf = True"
| "less_eq_dbl PInf PInf = True"
| "less_eq_dbl _ _ = False"

instance ..

end

text \<open>The comparison \<open>==\<close>, false when an operand is NaN.\<close>

fun dbl_eq :: "dbl \<Rightarrow> dbl \<Rightarrow> bool" where
  "dbl_eq (Fin a) (Fin b) = (a = b)"
| "dbl_eq PInf PInf = True"
| "dbl_eq NInf NInf = True"
| "dbl_eq _ _ = False"

lemma zero_dbl_Fin [simp]: "(0::dbl) = Fin 0"
  by (simp add: zero_dbl_def)

lemma one_dbl_Fin [simp]: "(1::dbl) = Fin 1"
  by (simp add: one_dbl_def)

lemma Fin_minus [simp]: "Fin a - Fin b = Fin (a - b)"
  by (simp add: minus_dbl_def)

lemma NaN_minus [simp]: "NaN - y = NaN" "x - NaN = (NaN::dbl)"
  by (simp_all add: minus_dbl_def, cases x, simp_all)

lemma NaN_arith [simp]: "x + NaN = NaN" "x * NaN = NaN" "x / NaN = (NaN::dbl)"
  by (cases x; simp)+

lemma NaN_less [simp]: "\<not> NaN < x" "\<not> x < NaN" "\<not> NaN \<le> x" "\<not> x \<le> (NaN::dbl)"
  by (cases x; simp)+

lemma less_dbl_asym: "x < y \<Longrightarrow> \<not> y < (x::dbl)"
  by (cases x; cases y; simp)

lemma not_less_finite:
  "isfinite x \<Longrightarrow> isfinite y \<Longrightarrow> \<not> x < y \<longleftrightarrow> real_of_dbl y \<le> real_of_dbl x"
  by (cases x; cases y; simp add: not_less)

lemma less_finite:
  "isfinite x \<Longrightarrow> isfinite y \<Longrightarrow> x < y \<longleftrightarrow> real_of_dbl x < real_of_dbl y"
  by (cases x; cases y; simp)

lemma dbl_eq_finite: "dbl_eq x y \<Longrightarrow> x = y"
  by (cases x; cases y; simp)

subsection \<open>Library functions\<close>

text \<open>\<open>std::min\<close> and \<open>std::max\<close>, with the order of their comparison.\<close>

definition std_min :: "dbl \<Rightarrow> dbl \<Rightarrow> dbl" where
  "std_min a b = (if b < a then b else a)"

definition std_max :: "dbl \<Rightarrow> dbl \<Rightarrow> dbl" where
  "std_max a b = (if a < b then b else a)"

text \<open>\<open>fabs\<close>, and \<open>abs\<close> at type double.\<close>

fun fabs :: "dbl \<Rightarrow> dbl" where
  "fabs (Fin a) = Fin \<bar>a\<bar>"
| "fabs PInf = PInf"
| "fabs NInf = PInf"
| "fabs NaN = NaN"

text \<open>Trigonometry and roots; NaN outside the domain.\<close>

fun dbl_lift :: "(real \<Rightarrow> bool) \<Rightarrow> (real \<Rightarrow> real) \<Rightarrow> dbl \<Rightarrow> dbl" where
  "dbl_lift ok f (Fin a) = (if ok a then Fin (f a) else NaN)"
| "dbl_lift ok f _ = NaN"

definition dbl_sin :: "dbl \<Rightarrow> dbl" where
  "dbl_sin = dbl_lift (\<lambda>_. True) sin"

definition dbl_cos :: "dbl \<Rightarrow> dbl" where
  "dbl_cos = dbl_lift (\<lambda>_. True) cos"

definition dbl_acos :: "dbl \<Rightarrow> dbl" where
  "dbl_acos = dbl_lift (\<lambda>a. - 1 \<le> a \<and> a \<le> 1) arccos"

fun dbl_sqrt :: "dbl \<Rightarrow> dbl" where
  "dbl_sqrt (Fin a) = (if a < 0 then NaN else Fin (sqrt a))"
| "dbl_sqrt PInf = PInf"
| "dbl_sqrt _ = NaN"

fun dbl_log :: "dbl \<Rightarrow> dbl" where
  "dbl_log (Fin a) = (if 0 < a then Fin (ln a) else if a = 0 then NInf else NaN)"
| "dbl_log PInf = PInf"
| "dbl_log _ = NaN"

definition real_atan2 :: "real \<Rightarrow> real \<Rightarrow> real" where
  "real_atan2 y x =
     (if 0 < x then arctan (y / x)
      else if x < 0 then (if 0 \<le> y then arctan (y / x) + pi else arctan (y / x) - pi)
      else if 0 < y then pi / 2 else if y < 0 then - (pi / 2) else 0)"

fun dbl_atan2 :: "dbl \<Rightarrow> dbl \<Rightarrow> dbl" where
  "dbl_atan2 NaN x = NaN"
| "dbl_atan2 y NaN = NaN"
| "dbl_atan2 (Fin y) (Fin x) = Fin (real_atan2 y x)"
| "dbl_atan2 (Fin y) PInf = Fin 0"
| "dbl_atan2 (Fin y) NInf = Fin (if 0 \<le> y then pi else - pi)"
| "dbl_atan2 PInf (Fin x) = Fin (pi / 2)"
| "dbl_atan2 NInf (Fin x) = Fin (- (pi / 2))"
| "dbl_atan2 PInf PInf = Fin (pi / 4)"
| "dbl_atan2 NInf PInf = Fin (- (pi / 4))"
| "dbl_atan2 PInf NInf = Fin (3 * pi / 4)"
| "dbl_atan2 NInf NInf = Fin (- (3 * pi / 4))"

lemma dbl_fun_Fin [simp]:
  "dbl_sin (Fin a) = Fin (sin a)"
  "dbl_cos (Fin a) = Fin (cos a)"
  "dbl_acos (Fin a) = (if - 1 \<le> a \<and> a \<le> 1 then Fin (arccos a) else NaN)"
  by (simp_all add: dbl_sin_def dbl_cos_def dbl_acos_def)

lemma dbl_fun_NaN [simp]: "dbl_sin NaN = NaN" "dbl_cos NaN = NaN" "dbl_acos NaN = NaN"
  by (simp_all add: dbl_sin_def dbl_cos_def dbl_acos_def)

subsection \<open>Conversions\<close>

text \<open>From an integer type, exact.\<close>

definition of_int_dbl :: "int \<Rightarrow> dbl" where
  "of_int_dbl i = Fin (of_int i)"

text \<open>
  The cast of a double to \<open>int32_t\<close>: truncation towards zero; a value whose truncation
  does not fit, and NaN, is undefined behaviour, which is \<open>None\<close>.
\<close>

definition real_trunc :: "real \<Rightarrow> int" where
  "real_trunc r = (if 0 \<le> r then \<lfloor>r\<rfloor> else \<lceil>r\<rceil>)"

fun to_int32 :: "dbl \<Rightarrow> uint32 option" where
  "to_int32 (Fin r) =
     (if - 2147483648 \<le> real_trunc r \<and> real_trunc r < 2147483648
      then Some (word_of_int (real_trunc r)) else None)"
| "to_int32 _ = None"

text \<open>\<open>fmod\<close> with a finite, positive divisor: the remainder of the truncated quotient.\<close>

definition real_fmod :: "real \<Rightarrow> real \<Rightarrow> real" where
  "real_fmod x y = x - y * of_int (real_trunc (x / y))"

fun dbl_fmod :: "dbl \<Rightarrow> real \<Rightarrow> dbl" where
  "dbl_fmod (Fin x) y = Fin (real_fmod x y)"
| "dbl_fmod _ y = NaN"

lemma real_fmod_bounds:
  assumes "0 < y"
  shows "- y < real_fmod x y" and "real_fmod x y < y" and "0 \<le> x \<Longrightarrow> 0 \<le> real_fmod x y"
proof -
  let ?t = "real_of_int (real_trunc (x / y))"
  have q: "x = y * (x / y)" using assms by simp
  have "\<bar>x / y - ?t\<bar> < 1" and "0 \<le> x / y \<Longrightarrow> ?t \<le> x / y"
    unfolding real_trunc_def by (auto simp: abs_if not_le) linarith+
  then have t: "x / y - ?t < 1" "- 1 < x / y - ?t" "0 \<le> x / y \<Longrightarrow> 0 \<le> x / y - ?t" by linarith+
  have e: "real_fmod x y = y * (x / y - ?t)"
    unfolding real_fmod_def using assms by (simp add: right_diff_distrib)
  from t(1) assms show "real_fmod x y < y" unfolding e by simp
  have "y * (- 1) < y * (x / y - ?t)" using t(2) assms by (intro mult_strict_left_mono)
  then show "- y < real_fmod x y" unfolding e by simp
  show "0 \<le> x \<Longrightarrow> 0 \<le> real_fmod x y" unfolding e using t(3) assms by simp
qed

lemma real_fmod_cong: "\<exists>k::int. real_fmod x y = x + of_int k * y"
  by (rule exI [of _ "- real_trunc (x / y)"]) (simp add: real_fmod_def)

lemma real_trunc_abs: "\<bar>real_of_int (real_trunc r)\<bar> \<le> \<bar>r\<bar>"
proof (cases "0 \<le> r")
  case True
  then show ?thesis by (simp add: real_trunc_def)
next
  case False
  then have "r \<le> real_of_int \<lceil>r\<rceil>" "\<lceil>r\<rceil> \<le> 0" by linarith+
  with False show ?thesis by (simp add: real_trunc_def)
qed

lemma real_trunc_bound: "\<bar>r\<bar> \<le> real_of_int n \<Longrightarrow> \<bar>real_trunc r\<bar> \<le> n"
  using real_trunc_abs [of r] by linarith

lemma to_int32_bounded:
  assumes "\<bar>r\<bar> \<le> real_of_int n" and "n < 2147483648"
  shows "\<exists>w. to_int32 (Fin r) = Some w \<and> \<bar>sint w\<bar> \<le> n \<and> sint w = real_trunc r"
proof -
  from assms(1) have b: "\<bar>real_trunc r\<bar> \<le> n" by (rule real_trunc_bound)
  with assms(2) have "- 2147483648 \<le> real_trunc r" "real_trunc r < 2147483648" by linarith+
  moreover from this have "sint (word_of_int (real_trunc r) :: uint32) = real_trunc r"
    by (simp add: sint_word32_wrap wrap_half_id)
  ultimately show ?thesis using b by simp
qed

subsection \<open>Clamping\<close>

text \<open>
  The contract of the functions that limit a value to an interval, for a finite value and
  an interval that is not empty. What they do to a NaN differs and is not part of it.
\<close>

locale clamping =
  fixes clamp :: "dbl \<Rightarrow> real \<Rightarrow> real \<Rightarrow> dbl"
  assumes clamp_Fin: "lo \<le> hi \<Longrightarrow> clamp (Fin r) lo hi = Fin (max lo (min hi r))"
begin

lemma clamp_finite: "lo \<le> hi \<Longrightarrow> isfinite x \<Longrightarrow> isfinite (clamp x lo hi)"
  by (auto simp: isfinite_iff clamp_Fin)

lemma clamp_bounds:
  assumes "lo \<le> hi" and "isfinite x"
  shows "lo \<le> real_of_dbl (clamp x lo hi)" and "real_of_dbl (clamp x lo hi) \<le> hi"
  using assms by (auto simp: isfinite_iff clamp_Fin)

lemma clamp_inside: "lo \<le> r \<Longrightarrow> r \<le> hi \<Longrightarrow> clamp (Fin r) lo hi = Fin r"
  by (simp add: clamp_Fin)

lemma clamp_idem: "lo \<le> hi \<Longrightarrow> isfinite x \<Longrightarrow> clamp (clamp x lo hi) lo hi = clamp x lo hi"
  by (auto simp: isfinite_iff clamp_Fin)

lemma clamp_mono:
  "lo \<le> hi \<Longrightarrow> r \<le> s \<Longrightarrow> real_of_dbl (clamp (Fin r) lo hi) \<le> real_of_dbl (clamp (Fin s) lo hi)"
  by (simp add: clamp_Fin)

end

text \<open>The macro CLAMP of drl_math.h.\<close>

definition CLAMP :: "dbl \<Rightarrow> real \<Rightarrow> real \<Rightarrow> dbl" where
  "CLAMP x lo hi = (if x < Fin lo then Fin lo else if Fin hi < x then Fin hi else x)"

interpretation macro: clamping CLAMP
  by unfold_locales (auto simp: CLAMP_def)

lemma CLAMP_NaN: "CLAMP NaN lo hi = NaN"
  by (simp add: CLAMP_def)

lemma CLAMP_Inf: "CLAMP PInf lo hi = Fin hi" "CLAMP NInf lo hi = Fin lo"
  by (simp_all add: CLAMP_def)

end
