(* ===== verification/Globals.thy ===== *)
theory Globals
  imports Doubles
begin

text \<open>
  The enumerations and constants shared by every component: atrias_shared/globals.h,
  robot_definitions/robot_invariant_defs.h, and the per-robot headers. The header
  robot_variant_defs.h that the code includes is chosen at build time among the bipeds of
  robot_definitions; the model takes it as a parameter, a record of type robot_variant,
  and the two bipeds that define every constant the code uses are its instances.
\<close>

subsection \<open>Medulla states (robot_invariant_defs.h)\<close>

text \<open>
  \<open>medulla_state_t\<close> is a plain C enumeration that travels in 8-bit message fields, and any
  value of the field can occur, so it stays a word.
\<close>

type_synonym medulla_state_t = uint8

definition medulla_state_idle :: medulla_state_t where
  [consts_simp]: "medulla_state_idle = 0"

definition medulla_state_init :: medulla_state_t where
  [consts_simp]: "medulla_state_init = 1"

definition medulla_state_run :: medulla_state_t where
  [consts_simp]: "medulla_state_run = 2"

definition medulla_state_stop :: medulla_state_t where
  [consts_simp]: "medulla_state_stop = 3"

definition medulla_state_halt :: medulla_state_t where
  [consts_simp]: "medulla_state_halt = 4"

definition medulla_state_error :: medulla_state_t where
  [consts_simp]: "medulla_state_error = 5"

definition medulla_state_reset :: medulla_state_t where
  [consts_simp]: "medulla_state_reset = 6"

definition medulla_state_watchdog :: medulla_state_t where
  [consts_simp]: "medulla_state_watchdog = 7"

subsection \<open>RT Ops states and events (globals.h)\<close>

text \<open>
  A scoped enumeration over \<open>uint8_t\<close> can hold every value of its underlying type, and the
  code casts wire values to it unchecked: the last constructor stands for the values that
  no enumerator names, which the \<open>default:\<close> branches handle.
\<close>

datatype RtOpsState =
    NO_CONTROLLER_LOADED
  | DISABLED
  | ENABLED
  | RESET
  | E_STOP
  | HALT
  | UnnamedState uint8

fun RtOpsState_of :: "uint8 \<Rightarrow> RtOpsState" where
  "RtOpsState_of w =
     (if w = 0 then NO_CONTROLLER_LOADED else if w = 1 then DISABLED
      else if w = 2 then ENABLED else if w = 3 then RESET
      else if w = 4 then E_STOP else if w = 5 then HALT else UnnamedState w)"

fun RtOpsState_t :: "RtOpsState \<Rightarrow> uint8" where
  "RtOpsState_t NO_CONTROLLER_LOADED = 0"
| "RtOpsState_t DISABLED = 1"
| "RtOpsState_t ENABLED = 2"
| "RtOpsState_t RESET = 3"
| "RtOpsState_t E_STOP = 4"
| "RtOpsState_t HALT = 5"
| "RtOpsState_t (UnnamedState w) = w"

lemma RtOpsState_roundtrip: "RtOpsState_t (RtOpsState_of w) = w"
  by simp

fun named_state :: "RtOpsState \<Rightarrow> bool" where
  "named_state (UnnamedState _) = False"
| "named_state _ = True"

lemma RtOpsState_of_t: "named_state s \<Longrightarrow> RtOpsState_of (RtOpsState_t s) = s"
  by (cases s) simp_all

datatype RtOpsEvent =
    NO_EVENT
  | INVALID_CM_COMMAND
  | INVALID_RT_OPS_STATE
  | MISSED_DEADLINE
  | CM_COMMAND_ESTOP
  | ACK_NO_CONTROLLER_LOADED
  | ACK_DISABLE
  | ACK_ENABLE
  | ACK_RESET
  | ACK_E_STOP
  | ACK_HALT
  | ACK_INVALID
  | CONTROLLER_ESTOP
  | MEDULLA_ESTOP
  | SAFETY
  | CONTROLLER_CUSTOM

fun RtOpsEvent_t :: "RtOpsEvent \<Rightarrow> uint8" where
  "RtOpsEvent_t NO_EVENT = 0"
| "RtOpsEvent_t INVALID_CM_COMMAND = 1"
| "RtOpsEvent_t INVALID_RT_OPS_STATE = 2"
| "RtOpsEvent_t MISSED_DEADLINE = 3"
| "RtOpsEvent_t CM_COMMAND_ESTOP = 4"
| "RtOpsEvent_t ACK_NO_CONTROLLER_LOADED = 5"
| "RtOpsEvent_t ACK_DISABLE = 6"
| "RtOpsEvent_t ACK_ENABLE = 7"
| "RtOpsEvent_t ACK_RESET = 8"
| "RtOpsEvent_t ACK_E_STOP = 9"
| "RtOpsEvent_t ACK_HALT = 10"
| "RtOpsEvent_t ACK_INVALID = 11"
| "RtOpsEvent_t CONTROLLER_ESTOP = 12"
| "RtOpsEvent_t MEDULLA_ESTOP = 13"
| "RtOpsEvent_t SAFETY = 14"
| "RtOpsEvent_t CONTROLLER_CUSTOM = 15"

lemma RtOpsEvent_t_inject: "RtOpsEvent_t a = RtOpsEvent_t b \<longleftrightarrow> a = b"
  by (cases a; cases b; simp)

type_synonym RtOpsEventMetadata_t = uint8

datatype RtOpsEventSafetyMetadata =
    BOOM_MEDULLA_HALT
  | LEFT_HIP_MEDULLA_HALT
  | LEFT_LEG_A_MEDULLA_HALT
  | LEFT_LEG_B_MEDULLA_HALT
  | RIGHT_HIP_MEDULLA_HALT
  | RIGHT_LEG_A_MEDULLA_HALT
  | RIGHT_LEG_B_MEDULLA_HALT
  | LEFT_LEG_A_TOO_SMALL
  | LEFT_LEG_A_TOO_LARGE
  | LEFT_LEG_B_TOO_SMALL
  | LEFT_LEG_B_TOO_LARGE
  | RIGHT_LEG_A_TOO_SMALL
  | RIGHT_LEG_A_TOO_LARGE
  | RIGHT_LEG_B_TOO_SMALL
  | RIGHT_LEG_B_TOO_LARGE
  | LEFT_LEG_TOO_LONG
  | LEFT_LEG_TOO_SHORT
  | RIGHT_LEG_TOO_LONG
  | RIGHT_LEG_TOO_SHORT

fun safety_metadata :: "RtOpsEventSafetyMetadata \<Rightarrow> RtOpsEventMetadata_t" where
  "safety_metadata BOOM_MEDULLA_HALT = 1"
| "safety_metadata LEFT_HIP_MEDULLA_HALT = 2"
| "safety_metadata LEFT_LEG_A_MEDULLA_HALT = 3"
| "safety_metadata LEFT_LEG_B_MEDULLA_HALT = 4"
| "safety_metadata RIGHT_HIP_MEDULLA_HALT = 5"
| "safety_metadata RIGHT_LEG_A_MEDULLA_HALT = 6"
| "safety_metadata RIGHT_LEG_B_MEDULLA_HALT = 7"
| "safety_metadata LEFT_LEG_A_TOO_SMALL = 8"
| "safety_metadata LEFT_LEG_A_TOO_LARGE = 9"
| "safety_metadata LEFT_LEG_B_TOO_SMALL = 10"
| "safety_metadata LEFT_LEG_B_TOO_LARGE = 11"
| "safety_metadata RIGHT_LEG_A_TOO_SMALL = 12"
| "safety_metadata RIGHT_LEG_A_TOO_LARGE = 13"
| "safety_metadata RIGHT_LEG_B_TOO_SMALL = 14"
| "safety_metadata RIGHT_LEG_B_TOO_LARGE = 15"
| "safety_metadata LEFT_LEG_TOO_LONG = 16"
| "safety_metadata LEFT_LEG_TOO_SHORT = 17"
| "safety_metadata RIGHT_LEG_TOO_LONG = 18"
| "safety_metadata RIGHT_LEG_TOO_SHORT = 19"

datatype RobotConfiguration =
    DISABLE
  | UNKNOWN
  | BIPED_FULL
  | LEFT_LEG_NOHIP
  | LEFT_LEG_HIP
  | BIPED_NOHIP

type_synonym RobotConfiguration_t = uint8

fun RobotConfiguration_t :: "RobotConfiguration \<Rightarrow> RobotConfiguration_t" where
  "RobotConfiguration_t DISABLE = 0"
| "RobotConfiguration_t UNKNOWN = 1"
| "RobotConfiguration_t BIPED_FULL = 2"
| "RobotConfiguration_t LEFT_LEG_NOHIP = 3"
| "RobotConfiguration_t LEFT_LEG_HIP = 4"
| "RobotConfiguration_t BIPED_NOHIP = 5"

subsection \<open>Constants of every robot (robot_invariant_defs.h, globals.h)\<close>

definition CONTROLLER_LOOP_PERIOD_NS :: int where
  [consts_simp]: "CONTROLLER_LOOP_PERIOD_NS = 1000000"

definition CONTROLLER_LOOP_OFFSET_NS :: int where
  [consts_simp]: "CONTROLLER_LOOP_OFFSET_NS = 300000"

definition SECOND_IN_NANOSECONDS :: int where
  [consts_simp]: "SECOND_IN_NANOSECONDS = 1000000000"

definition LEG_A_CALIB_LOC :: real where
  [consts_simp]: "LEG_A_CALIB_LOC = 1.3089969389957472"

definition LEG_A_MOTOR_MIN_LOC :: real where
  [consts_simp]: "LEG_A_MOTOR_MIN_LOC = - 0.305432619"

definition LEG_A_MOTOR_MAX_LOC :: real where
  [consts_simp]: "LEG_A_MOTOR_MAX_LOC = 2.35619449"

definition LEG_B_CALIB_LOC :: real where
  [consts_simp]: "LEG_B_CALIB_LOC = 1.8325957145940461"

definition LEG_B_MOTOR_MIN_LOC :: real where
  [consts_simp]: "LEG_B_MOTOR_MIN_LOC = 0.785398163"

definition LEG_B_MOTOR_MAX_LOC :: real where
  [consts_simp]: "LEG_B_MOTOR_MAX_LOC = 3.44702527"

definition LEG_LOC_DIFF_MIN :: real where
  [consts_simp]: "LEG_LOC_DIFF_MIN = 0.45"

definition LEG_LOC_DIFF_MAX :: real where
  [consts_simp]: "LEG_LOC_DIFF_MAX = 2"

definition LEG_LOC_SAFETY_DISTANCE :: real where
  [consts_simp]: "LEG_LOC_SAFETY_DISTANCE = 0.2"

definition MAX_ACCEPTABLE_ENCODER_CHANGE :: int where
  [consts_simp]: "MAX_ACCEPTABLE_ENCODER_CHANGE = 2000000"

definition ACCEL_PER_AMP :: real where
  [consts_simp]: "ACCEL_PER_AMP = 1.7185879"

definition MOTOR_VEL_MRGN :: real where
  [consts_simp]: "MOTOR_VEL_MRGN = 0.1"

definition AVAIL_HALT_AMPS :: real where
  [consts_simp]: "AVAIL_HALT_AMPS = 30"

definition MTR_MAX_COUNT :: int where
  [consts_simp]: "MTR_MAX_COUNT = 19900"

definition MAX_LEG_POS_ADJUSTMENT :: real where
  [consts_simp]: "MAX_LEG_POS_ADJUSTMENT = 0.1"

definition MEDULLA_ADC_MAX_VOLTS :: real where
  [consts_simp]: "MEDULLA_ADC_MAX_VOLTS = 2.7"

definition MEDULLA_ADC_OFFSET_COUNTS :: int where
  [consts_simp]: "MEDULLA_ADC_OFFSET_COUNTS = 172"

definition MOTOR_VOLTAGE_C_OFFSET :: real where
  [consts_simp]: "MOTOR_VOLTAGE_C_OFFSET = 1300"

definition MOTOR_VOLTAGE_V_CAL :: real where
  [consts_simp]: "MOTOR_VOLTAGE_V_CAL = 60.2"

definition MOTOR_VOLTAGE_C_CAL :: real where
  [consts_simp]: "MOTOR_VOLTAGE_C_CAL = 3600"

definition MEDULLA_RESET_TIME_MS :: int where
  [consts_simp]: "MEDULLA_RESET_TIME_MS = 5"

definition INC_ENC_RAD_PER_TICK :: real where
  [consts_simp]: "INC_ENC_RAD_PER_TICK = 0.00000897597901026"

definition MEDULLA_TIMER_FREQ :: real where
  [consts_simp]: "MEDULLA_TIMER_FREQ = 32000000"

definition BOOM_ENCODER_BITS :: nat where
  [consts_simp]: "BOOM_ENCODER_BITS = 17"

definition PITCH_ENCODER_RAD_PER_TICK :: real where
  [consts_simp]: "PITCH_ENCODER_RAD_PER_TICK = 0.00002396844"

definition BOOM_Z_ENCODER_RAD_PER_TICK :: real where
  [consts_simp]: "BOOM_Z_ENCODER_RAD_PER_TICK = - 0.00000684812851734661263267"

definition LEFT_MOTOR_HIP_DIRECTION :: real where
  [consts_simp]: "LEFT_MOTOR_HIP_DIRECTION = 1"

definition RIGHT_MOTOR_HIP_DIRECTION :: real where
  [consts_simp]: "RIGHT_MOTOR_HIP_DIRECTION = - 1"

definition HIP_INC_ENCODER_RAD_PER_TICK :: real where
  [consts_simp]: "HIP_INC_ENCODER_RAD_PER_TICK = 0.000009889017906384604997"

definition HIP_ABS_ENCODER_RAD_PER_TICK :: real where
  [consts_simp]: "HIP_ABS_ENCODER_RAD_PER_TICK = 0.000766990393942820614859"

definition STARTUP_TIME :: real where
  [consts_simp]: "STARTUP_TIME = 4"

definition BOOM_X_GEAR_RATIO :: real where
  [consts_simp]: "BOOM_X_GEAR_RATIO = 9.6"

definition ROBOT_CURRENT_NEG_50A_OFFSET :: int where
  [consts_simp]: "ROBOT_CURRENT_NEG_50A_OFFSET = 3405"

definition ROBOT_CURRENT_POS_50A_OFFSET :: int where
  [consts_simp]: "ROBOT_CURRENT_POS_50A_OFFSET = 1252"

definition ROBOT_CURRENT_50A_GAIN :: real where
  [consts_simp]: "ROBOT_CURRENT_50A_GAIN = 0.0225"

definition MEDULLA_VENDOR_ID :: uint32 where
  [consts_simp]: "MEDULLA_VENDOR_ID = 0x60F"

definition MEDULLA_LEG_PRODUCT_CODE :: uint32 where
  [consts_simp]: "MEDULLA_LEG_PRODUCT_CODE = 1"

definition MEDULLA_HIP_PRODUCT_CODE :: uint32 where
  [consts_simp]: "MEDULLA_HIP_PRODUCT_CODE = 2"

definition MEDULLA_BOOM_PRODUCT_CODE :: uint32 where
  [consts_simp]: "MEDULLA_BOOM_PRODUCT_CODE = 3"

definition MEDULLA_IMU_PRODUCT_CODE :: uint32 where
  [consts_simp]: "MEDULLA_IMU_PRODUCT_CODE = 6"

definition KPA_SLAVE_CARD_PRODUCT_CODE :: uint32 where
  [consts_simp]: "KPA_SLAVE_CARD_PRODUCT_CODE = 5"

definition MEDULLA_LEFT_LEG_A_ID :: uint8 where
  [consts_simp]: "MEDULLA_LEFT_LEG_A_ID = 1"

definition MEDULLA_LEFT_LEG_B_ID :: uint8 where
  [consts_simp]: "MEDULLA_LEFT_LEG_B_ID = 2"

definition MEDULLA_RIGHT_LEG_A_ID :: uint8 where
  [consts_simp]: "MEDULLA_RIGHT_LEG_A_ID = 3"

definition MEDULLA_RIGHT_LEG_B_ID :: uint8 where
  [consts_simp]: "MEDULLA_RIGHT_LEG_B_ID = 4"

definition MEDULLA_LEFT_HIP_ID :: uint8 where
  [consts_simp]: "MEDULLA_LEFT_HIP_ID = 0x10"

definition MEDULLA_RIGHT_HIP_ID :: uint8 where
  [consts_simp]: "MEDULLA_RIGHT_HIP_ID = 0x11"

definition MEDULLA_BOOM_ID :: uint8 where
  [consts_simp]: "MEDULLA_BOOM_ID = 0x20"

definition MEDULLA_IMU_ID :: uint8 where
  [consts_simp]: "MEDULLA_IMU_ID = 0x30"

definition MEDULLA_LEG_INPUTS_SIZE :: nat where
  [consts_simp]: "MEDULLA_LEG_INPUTS_SIZE = 47"

definition MEDULLA_LEG_OUTPUTS_SIZE :: nat where
  [consts_simp]: "MEDULLA_LEG_OUTPUTS_SIZE = 7"

definition MEDULLA_HIP_INPUTS_SIZE :: nat where
  [consts_simp]: "MEDULLA_HIP_INPUTS_SIZE = 31"

definition MEDULLA_HIP_OUTPUTS_SIZE :: nat where
  [consts_simp]: "MEDULLA_HIP_OUTPUTS_SIZE = 7"

definition MEDULLA_BOOM_INPUTS_SIZE :: nat where
  [consts_simp]: "MEDULLA_BOOM_INPUTS_SIZE = 24"

definition MEDULLA_BOOM_OUTPUTS_SIZE :: nat where
  [consts_simp]: "MEDULLA_BOOM_OUTPUTS_SIZE = 3"

definition MEDULLA_IMU_INPUTS_SIZE :: nat where
  [consts_simp]: "MEDULLA_IMU_INPUTS_SIZE = 36"

definition MEDULLA_IMU_OUTPUTS_SIZE :: nat where
  [consts_simp]: "MEDULLA_IMU_OUTPUTS_SIZE = 3"

definition MEDULLA_LEG_TX_PDO_COUNT :: nat where
  [consts_simp]: "MEDULLA_LEG_TX_PDO_COUNT = 24"

definition MEDULLA_LEG_RX_PDO_COUNT :: nat where
  [consts_simp]: "MEDULLA_LEG_RX_PDO_COUNT = 3"

definition MEDULLA_HIP_TX_PDO_COUNT :: nat where
  [consts_simp]: "MEDULLA_HIP_TX_PDO_COUNT = 17"

definition MEDULLA_HIP_RX_PDO_COUNT :: nat where
  [consts_simp]: "MEDULLA_HIP_RX_PDO_COUNT = 3"

definition MEDULLA_BOOM_TX_PDO_COUNT :: nat where
  [consts_simp]: "MEDULLA_BOOM_TX_PDO_COUNT = 11"

definition MEDULLA_BOOM_RX_PDO_COUNT :: nat where
  [consts_simp]: "MEDULLA_BOOM_RX_PDO_COUNT = 2"

definition MEDULLA_IMU_TX_PDO_COUNT :: nat where
  [consts_simp]: "MEDULLA_IMU_TX_PDO_COUNT = 14"

definition MEDULLA_IMU_RX_PDO_COUNT :: nat where
  [consts_simp]: "MEDULLA_IMU_RX_PDO_COUNT = 2"

subsection \<open>Constants of one robot\<close>

text \<open>
  The per-leg headers leg1_definitions.h to leg6_definitions.h, which the variant header
  includes once as the left and once as the right leg.
\<close>

record leg_variant =
  LEG_A_CALIB_VAL :: int
  LEG_B_CALIB_VAL :: int
  LEG_A_RAD_PER_CNT :: real
  LEG_B_RAD_PER_CNT :: real
  TRAN_A_CALIB_VAL :: int
  TRAN_B_CALIB_VAL :: int
  TRAN_A_RAD_PER_CNT :: real
  TRAN_B_RAD_PER_CNT :: real
  MOTOR_A_DIRECTION :: real
  MOTOR_B_DIRECTION :: real

definition leg1_definitions :: leg_variant where
  "leg1_definitions =
     \<lparr>LEG_A_CALIB_VAL = 263824027, LEG_B_CALIB_VAL = 263616696,
      LEG_A_RAD_PER_CNT = (9.8039216 / 10 ^ 9), LEG_B_RAD_PER_CNT = - (9.8039216 / 10 ^ 9),
      TRAN_A_CALIB_VAL = 197682859, TRAN_B_CALIB_VAL = 198854199,
      TRAN_A_RAD_PER_CNT = (9.8039216 / 10 ^ 9), TRAN_B_RAD_PER_CNT = - (9.8039216 / 10 ^ 9),
      MOTOR_A_DIRECTION = - 1.0, MOTOR_B_DIRECTION = 1.0\<rparr>"

definition leg2_definitions :: leg_variant where
  "leg2_definitions =
     \<lparr>LEG_A_CALIB_VAL = 263935840, LEG_B_CALIB_VAL = 261914899,
      LEG_A_RAD_PER_CNT = (9.8039216 / 10 ^ 9), LEG_B_RAD_PER_CNT = - (9.8039216 / 10 ^ 9),
      TRAN_A_CALIB_VAL = 142278000, TRAN_B_CALIB_VAL = 142215958,
      TRAN_A_RAD_PER_CNT = - (9.8039216 / 10 ^ 9), TRAN_B_RAD_PER_CNT = (9.8039216 / 10 ^ 9),
      MOTOR_A_DIRECTION = - 1.0, MOTOR_B_DIRECTION = 1.0\<rparr>"

definition leg3_definitions :: leg_variant where
  "leg3_definitions =
     \<lparr>LEG_A_CALIB_VAL = 265298130, LEG_B_CALIB_VAL = 175868437,
      LEG_A_RAD_PER_CNT = (9.8039216 / 10 ^ 9), LEG_B_RAD_PER_CNT = (9.8039216 / 10 ^ 9),
      TRAN_A_CALIB_VAL = 142278860, TRAN_B_CALIB_VAL = 142304910,
      TRAN_A_RAD_PER_CNT = - (9.8039216 / 10 ^ 9), TRAN_B_RAD_PER_CNT = (9.8039216 / 10 ^ 9),
      MOTOR_A_DIRECTION = - 1.0, MOTOR_B_DIRECTION = 1.0\<rparr>"

definition leg4_definitions :: leg_variant where
  "leg4_definitions =
     \<lparr>LEG_A_CALIB_VAL = 265239580, LEG_B_CALIB_VAL = 174863762,
      LEG_A_RAD_PER_CNT = (9.8039216 / 10 ^ 9), LEG_B_RAD_PER_CNT = (9.8039216 / 10 ^ 9),
      TRAN_A_CALIB_VAL = 141352160, TRAN_B_CALIB_VAL = 142427224,
      TRAN_A_RAD_PER_CNT = - (9.8039216 / 10 ^ 9), TRAN_B_RAD_PER_CNT = (9.8039216 / 10 ^ 9),
      MOTOR_A_DIRECTION = - 1.0, MOTOR_B_DIRECTION = 1.0\<rparr>"

definition leg5_definitions :: leg_variant where
  "leg5_definitions =
     \<lparr>LEG_A_CALIB_VAL = 175078265, LEG_B_CALIB_VAL = 263601801,
      LEG_A_RAD_PER_CNT = - (9.8039216 / 10 ^ 9), LEG_B_RAD_PER_CNT = - (9.8039216 / 10 ^ 9),
      TRAN_A_CALIB_VAL = 197470025, TRAN_B_CALIB_VAL = 197869041,
      TRAN_A_RAD_PER_CNT = (9.8039216 / 10 ^ 9), TRAN_B_RAD_PER_CNT = - (9.8039216 / 10 ^ 9),
      MOTOR_A_DIRECTION = - 1.0, MOTOR_B_DIRECTION = 1.0\<rparr>"

definition leg6_definitions :: leg_variant where
  "leg6_definitions =
     \<lparr>LEG_A_CALIB_VAL = 264791392, LEG_B_CALIB_VAL = 265506465,
      LEG_A_RAD_PER_CNT = (9.8039216 / 10 ^ 9), LEG_B_RAD_PER_CNT = - (9.8039216 / 10 ^ 9),
      TRAN_A_CALIB_VAL = 199141730, TRAN_B_CALIB_VAL = 199584463,
      TRAN_A_RAD_PER_CNT = (9.8039216 / 10 ^ 9), TRAN_B_RAD_PER_CNT = - (9.8039216 / 10 ^ 9),
      MOTOR_A_DIRECTION = - 1.0, MOTOR_B_DIRECTION = 1.0\<rparr>"

record robot_variant =
  left_leg :: leg_variant
  right_leg :: leg_variant
  BOOM_PITCH_VERTICAL_VALUE :: int
  BOOM_HEIGHT :: real
  BOOM_LENGTH :: real
  BOOM_TORSO_OFFSET :: real
  TORSO_LENGTH :: real
  BOOM_X_METERS_PER_TICK :: real
  BOOM_Z_CALIB_VAL :: int
  BOOM_Z_CALIB_LOC :: real
  LEFT_HIP_CALIB_VAL :: int
  RIGHT_HIP_CALIB_VAL :: int
  LEFT_HIP_CALIB_POS :: real
  RIGHT_HIP_CALIB_POS :: real
  MTR_MAX_CURRENT :: real
  MTR_HIP_MAX_CURRENT :: real
  MAX_MTR_CURRENT_CMD :: real
  MIN_MTR_CURRENT_CMD :: real
  MAX_HIP_MTR_CURRENT_CMD :: real
  MIN_HIP_MTR_CURRENT_CMD :: real
  TOE_THRESH :: int

definition biped1 :: robot_variant where
  "biped1 =
     \<lparr>left_leg = leg3_definitions,
      right_leg = leg2_definitions,
      BOOM_PITCH_VERTICAL_VALUE = 45433,
      BOOM_HEIGHT = 1.0287,
      BOOM_LENGTH = 2.006,
      BOOM_TORSO_OFFSET = 1.6968,
      TORSO_LENGTH = 0.3434,
      BOOM_X_METERS_PER_TICK = - 0.00000937522094511213193198,
      BOOM_Z_CALIB_VAL = 120558,
      BOOM_Z_CALIB_LOC = 3.14159265359,
      LEFT_HIP_CALIB_VAL = 1337,
      RIGHT_HIP_CALIB_VAL = 3309,
      LEFT_HIP_CALIB_POS = 4.5309,
      RIGHT_HIP_CALIB_POS = 4.8849,
      MTR_MAX_CURRENT = 60.0,
      MTR_HIP_MAX_CURRENT = 60.0,
      MAX_MTR_CURRENT_CMD = 60.0,
      MIN_MTR_CURRENT_CMD = - 60.0,
      MAX_HIP_MTR_CURRENT_CMD = 60.0,
      MIN_HIP_MTR_CURRENT_CMD = - 60.0,
      TOE_THRESH = 500\<rparr>"

definition biped3 :: robot_variant where
  "biped3 =
     \<lparr>left_leg = leg5_definitions,
      right_leg = leg6_definitions,
      BOOM_PITCH_VERTICAL_VALUE = 45741,
      BOOM_HEIGHT = 1.0071125,
      BOOM_LENGTH = 2.006,
      BOOM_TORSO_OFFSET = 1.6968,
      TORSO_LENGTH = 0.3434,
      BOOM_X_METERS_PER_TICK = - 0.00000937522094511213193198,
      BOOM_Z_CALIB_VAL = 17470,
      BOOM_Z_CALIB_LOC = 2.951490384953993,
      LEFT_HIP_CALIB_VAL = 5737,
      RIGHT_HIP_CALIB_VAL = 444,
      LEFT_HIP_CALIB_POS = 4.55007335,
      RIGHT_HIP_CALIB_POS = 4.89041256,
      MTR_MAX_CURRENT = 60.0,
      MTR_HIP_MAX_CURRENT = 60.0,
      MAX_MTR_CURRENT_CMD = 60.0,
      MIN_MTR_CURRENT_CMD = - 60.0,
      MAX_HIP_MTR_CURRENT_CMD = 60.0,
      MIN_HIP_MTR_CURRENT_CMD = - 60.0,
      TOE_THRESH = 500\<rparr>"

text \<open>
  What the lemmas of the other theories need of the variant: symmetric current limits that
  do not exceed the full scale, and motor directions of modulus one.
\<close>

definition leg_ok :: "leg_variant \<Rightarrow> bool" where
  "leg_ok l \<longleftrightarrow> \<bar>MOTOR_A_DIRECTION l\<bar> = 1 \<and> \<bar>MOTOR_B_DIRECTION l\<bar> = 1"

definition variant_ok :: "robot_variant \<Rightarrow> bool" where
  "variant_ok v \<longleftrightarrow> leg_ok (left_leg v) \<and> leg_ok (right_leg v) \<and>
     0 < MAX_MTR_CURRENT_CMD v \<and> MIN_MTR_CURRENT_CMD v = - MAX_MTR_CURRENT_CMD v \<and>
     0 < MAX_HIP_MTR_CURRENT_CMD v \<and>
     MIN_HIP_MTR_CURRENT_CMD v = - MAX_HIP_MTR_CURRENT_CMD v \<and>
     MAX_MTR_CURRENT_CMD v \<le> MTR_MAX_CURRENT v \<and>
     MAX_HIP_MTR_CURRENT_CMD v \<le> MTR_HIP_MAX_CURRENT v \<and> 0 < TOE_THRESH v"

lemma variant_ok_bipeds: "variant_ok biped1" "variant_ok biped3"
  by (simp_all add: variant_ok_def leg_ok_def biped1_def biped3_def
      leg1_definitions_def leg2_definitions_def leg3_definitions_def leg4_definitions_def
      leg5_definitions_def leg6_definitions_def)

end
