(* ===== verification/Messages.thy ===== *)
theory Messages
  imports Globals
begin

text \<open>
  The ROS messages of atrias_msgs/msg that the modelled components exchange, one record
  per message. Fields whose name occurs in several messages carry a prefix: co_ in
  controller_output, hip_ in robot_state_hip, half_ for the knee force of
  one leg half. The classes that the message generator makes zero every numeric field when
  they are default-constructed; those values are the constants ending in _zero. The hip
  message's former IMU block and the IMU message, which no modelled code reads or writes,
  are left out.
\<close>

record std_header =
  stamp_sec :: uint32
  stamp_nsec :: uint32

definition std_header_zero :: std_header where
  [consts_simp]: "std_header_zero =
     \<lparr>stamp_sec = 0, stamp_nsec = 0\<rparr>"

record controller_output_leg =
  motorCurrentA :: dbl
  motorCurrentB :: dbl
  motorCurrentHip :: dbl

definition controller_output_leg_zero :: controller_output_leg where
  [consts_simp]: "controller_output_leg_zero =
     \<lparr>motorCurrentA = 0, motorCurrentB = 0, motorCurrentHip = 0\<rparr>"

record controller_output =
  co_command :: uint8
  co_lLeg :: controller_output_leg
  co_rLeg :: controller_output_leg

definition controller_output_zero :: controller_output where
  [consts_simp]: "controller_output_zero =
     \<lparr>co_command = 0, co_lLeg = controller_output_leg_zero, co_rLeg =
      controller_output_leg_zero\<rparr>"

record robot_state_hip =
  hip_medullaState :: uint8
  hip_errorFlags :: uint8
  hip_limitSwitches :: uint8
  legBodyAngle :: dbl
  legBodyVelocity :: dbl
  absoluteBodyAngle :: dbl
  hip_motorCurrent :: dbl
  motorThermA :: dbl
  motorThermB :: dbl
  motorThermC :: dbl
  hip_logicVoltage :: dbl
  hip_motorVoltage :: dbl

definition robot_state_hip_zero :: robot_state_hip where
  [consts_simp]: "robot_state_hip_zero =
     \<lparr>hip_medullaState = 0, hip_errorFlags = 0, hip_limitSwitches = 0, legBodyAngle =
      0, legBodyVelocity = 0, absoluteBodyAngle = 0, hip_motorCurrent = 0, motorThermA
      = 0, motorThermB = 0, motorThermC = 0, hip_logicVoltage = 0, hip_motorVoltage =
      0\<rparr>"

record robot_state_legHalf =
  medullaState :: uint8
  errorFlags :: uint8
  limitSwitches :: uint8
  legAngle :: dbl
  legVelocity :: dbl
  motorAngle :: dbl
  motorVelocity :: dbl
  rotorAngle :: dbl
  rotorVelocity :: dbl
  motorCurrent :: dbl
  amp1Current :: dbl
  amp2Current :: dbl
  negDeflectSwitch :: bool
  posDeflectSwitch :: bool
  motorNegLimitSwitch :: bool
  motorPosLimitSwitch :: bool
  motorTherms :: "dbl list"
  logicVoltage :: dbl
  motorVoltage :: dbl
  half_kneeForce :: uint32

definition robot_state_legHalf_zero :: robot_state_legHalf where
  [consts_simp]: "robot_state_legHalf_zero =
     \<lparr>medullaState = 0, errorFlags = 0, limitSwitches = 0, legAngle = 0, legVelocity =
      0, motorAngle = 0, motorVelocity = 0, rotorAngle = 0, rotorVelocity = 0,
      motorCurrent = 0, amp1Current = 0, amp2Current = 0, negDeflectSwitch = False,
      posDeflectSwitch = False, motorNegLimitSwitch = False, motorPosLimitSwitch =
      False, motorTherms = replicate 6 0, logicVoltage = 0, motorVoltage = 0,
      half_kneeForce = 0\<rparr>"

record robot_state_leg =
  hipMedullaState :: uint8
  hip :: robot_state_hip
  halfA :: "robot_state_legHalf"
  halfB :: "robot_state_legHalf"
  toeSwitch :: uint16
  onGround :: bool
  legRetractSwitch :: bool
  motorRetractSwitch :: bool
  legExtendSwitch :: bool
  kneeForce :: uint32

definition robot_state_leg_zero :: robot_state_leg where
  [consts_simp]: "robot_state_leg_zero =
     \<lparr>hipMedullaState = 0, hip = robot_state_hip_zero, halfA =
      robot_state_legHalf_zero, halfB = robot_state_legHalf_zero, toeSwitch = 0,
      onGround = False, legRetractSwitch = False, motorRetractSwitch = False,
      legExtendSwitch = False, kneeForce = 0\<rparr>"

record robot_state_location =
  xPosition :: dbl
  yPosition :: dbl
  zPosition :: dbl
  xVelocity :: dbl
  yVelocity :: dbl
  zVelocity :: dbl
  boomAngle :: dbl
  boomAngleVelocity :: dbl
  xAngle :: dbl
  xAngleVelocity :: dbl
  bodyPitch :: dbl
  imuPitch :: dbl
  bodyPitchVelocity :: dbl
  imuPitchVelocity :: dbl
  zEncoderRaw :: uint32
  pitchEncoderRaw :: uint32

definition robot_state_location_zero :: robot_state_location where
  [consts_simp]: "robot_state_location_zero =
     \<lparr>xPosition = 0, yPosition = 0, zPosition = 0, xVelocity = 0, yVelocity = 0,
      zVelocity = 0, boomAngle = 0, boomAngleVelocity = 0, xAngle = 0, xAngleVelocity
      = 0, bodyPitch = 0, imuPitch = 0, bodyPitchVelocity = 0, imuPitchVelocity = 0,
      zEncoderRaw = 0, pitchEncoderRaw = 0\<rparr>"

record robot_state_timing =
  controllerTime :: uint64
  receiveDCTime :: uint64
  lastTransmitDCTime :: uint64
  overshoot :: uint32
  dcCorrection :: uint32
  sleepTime :: uint32
  targetTime :: uint64

definition robot_state_timing_zero :: robot_state_timing where
  [consts_simp]: "robot_state_timing_zero =
     \<lparr>controllerTime = 0, receiveDCTime = 0, lastTransmitDCTime = 0, overshoot = 0,
      dcCorrection = 0, sleepTime = 0, targetTime = 0\<rparr>"

record robot_state =
  header :: std_header
  rtOpsState :: uint8
  robotConfiguration :: uint8
  timing :: robot_state_timing
  disableSafeties :: bool
  lLeg :: robot_state_leg
  rLeg :: robot_state_leg
  currentPositive :: dbl
  currentNegative :: dbl
  position :: robot_state_location
  boomMedullaState :: uint8
  boomLogicVoltage :: dbl
  boomMedullaErrorFlags :: uint8

definition robot_state_zero :: robot_state where
  [consts_simp]: "robot_state_zero =
     \<lparr>header = std_header_zero, rtOpsState = 0, robotConfiguration = 0, timing =
      robot_state_timing_zero, disableSafeties = False, lLeg = robot_state_leg_zero,
      rLeg = robot_state_leg_zero, currentPositive = 0, currentNegative = 0, position
      = robot_state_location_zero, boomMedullaState = 0, boomLogicVoltage = 0,
      boomMedullaErrorFlags = 0\<rparr>"

end
