(* ===== verification/OpsLogger.thy ===== *)
theory OpsLogger
  imports Messages
begin

text \<open>
  The logger of RT Ops (atrias_rt_ops/src/OpsLogger.cpp), with the publish timer of
  atrias_shared/GuiPublishTimer.h that paces its GUI port. The ports are lists of the
  messages written so far, oldest first; the clock readings are arguments.
\<close>

subsection \<open>The publish timer\<close>

record GuiPublishTimer =
  lastTime :: nsecs
  timeOut :: nsecs

definition MILLISECOND_IN_NANOSECONDS :: int where
  [consts_simp]: "MILLISECOND_IN_NANOSECONDS = 1000000"

text \<open>
  The constructor takes an unsigned 32-bit period, and the subtraction in it is unsigned:
  a period of 0 wraps to a time-out of about fifty days.
\<close>

definition new_GuiPublishTimer :: "uint32 \<Rightarrow> GuiPublishTimer" where
  "new_GuiPublishTimer msecPerCall =
     \<lparr>lastTime = 0, timeOut = uint (msecPerCall - 1) * MILLISECOND_IN_NANOSECONDS\<rparr>"

definition readyToSend :: "nsecs \<Rightarrow> GuiPublishTimer \<Rightarrow> bool \<times> GuiPublishTimer" where
  "readyToSend thisTime t =
     (if thisTime - lastTime t > timeOut t then (True, t\<lparr>lastTime := thisTime\<rparr>)
      else (False, t))"

text \<open>The times at which a timer fires over a list of clock readings.\<close>

primrec fire_times :: "GuiPublishTimer \<Rightarrow> nsecs list \<Rightarrow> nsecs list" where
  "fire_times t [] = []"
| "fire_times t (n # ns) =
     (let (r, t') = readyToSend n t in (if r then [n] else []) @ fire_times t' ns)"

lemma timeOut_readyToSend [simp]: "timeOut (snd (readyToSend n t)) = timeOut t"
  by (simp add: readyToSend_def)

text \<open>Successive firings are more than the time-out apart, whatever the readings are.\<close>

lemma fire_times_later:
  "0 \<le> timeOut t \<Longrightarrow> n \<in> set (fire_times t ns) \<Longrightarrow> timeOut t < n - lastTime t"
proof (induction ns arbitrary: t)
  case (Cons m ns)
  then show ?case using Cons.IH [of "t\<lparr>lastTime := m\<rparr>"]
    by (auto simp: readyToSend_def Let_def split: if_splits)
qed simp

lemma fire_times_sorted:
  "0 \<le> timeOut t \<Longrightarrow> sorted_wrt (\<lambda>a b. timeOut t < b - a) (fire_times t ns)"
proof (induction ns arbitrary: t)
  case (Cons m ns)
  then show ?case
    using Cons.IH [of "t\<lparr>lastTime := m\<rparr>"] fire_times_later [of "t\<lparr>lastTime := m\<rparr>" _ ns]
    by (auto simp: readyToSend_def Let_def)
qed simp

subsection \<open>State\<close>

record log_data =
  ld_header :: std_header
  ld_currentPositive :: dbl
  ld_currentNegative :: dbl
  ld_lAClampedCmd :: dbl
  ld_lBClampedCmd :: dbl
  ld_lHipClampedCmd :: dbl
  ld_rAClampedCmd :: dbl
  ld_rBClampedCmd :: dbl
  ld_rHipClampedCmd :: dbl
  ld_lARawCmd :: dbl
  ld_lBRawCmd :: dbl
  ld_lHipRawCmd :: dbl
  ld_rARawCmd :: dbl
  ld_rBRawCmd :: dbl
  ld_rHipRawCmd :: dbl
  ld_lKneeForce :: uint32
  ld_rKneeForce :: uint32
  ld_lALegAngle :: dbl
  ld_lBLegAngle :: dbl
  ld_rALegAngle :: dbl
  ld_rBLegAngle :: dbl
  ld_lALegVelocity :: dbl
  ld_lBLegVelocity :: dbl
  ld_rALegVelocity :: dbl
  ld_rBLegVelocity :: dbl
  ld_lAMotorAngle :: dbl
  ld_lBMotorAngle :: dbl
  ld_rAMotorAngle :: dbl
  ld_rBMotorAngle :: dbl
  ld_lAMotorVelocity :: dbl
  ld_lBMotorVelocity :: dbl
  ld_rAMotorVelocity :: dbl
  ld_rBMotorVelocity :: dbl
  ld_lARotorAngle :: dbl
  ld_lBRotorAngle :: dbl
  ld_rARotorAngle :: dbl
  ld_rBRotorAngle :: dbl
  ld_lARotorVelocity :: dbl
  ld_lBRotorVelocity :: dbl
  ld_rARotorVelocity :: dbl
  ld_rBRotorVelocity :: dbl
  ld_lLegBodyAngle :: dbl
  ld_rLegBodyAngle :: dbl
  ld_lLegBodyVelocity :: dbl
  ld_rLegBodyVelocity :: dbl
  ld_xPosition :: dbl
  ld_xVelocity :: dbl
  ld_yPosition :: dbl
  ld_yVelocity :: dbl
  ld_zPosition :: dbl
  ld_zVelocity :: dbl
  ld_xAngle :: dbl
  ld_xAngleVelocity :: dbl
  ld_bodyPitch :: dbl
  ld_bodyPitchVelocity :: dbl
  ld_boomAngle :: dbl
  ld_boomAngleVelocity :: dbl
  ld_lToeSwitch :: uint16
  ld_rToeSwitch :: uint16
  ld_rtOpsState :: uint8
  ld_controllerTime :: uint64
  ld_lAMotorTherm0 :: dbl
  ld_lAMotorTherm1 :: dbl
  ld_lAMotorTherm2 :: dbl
  ld_lAMotorTherm3 :: dbl
  ld_lAMotorTherm4 :: dbl
  ld_lAMotorTherm5 :: dbl
  ld_lBMotorTherm0 :: dbl
  ld_lBMotorTherm1 :: dbl
  ld_lBMotorTherm2 :: dbl
  ld_lBMotorTherm3 :: dbl
  ld_lBMotorTherm4 :: dbl
  ld_lBMotorTherm5 :: dbl
  ld_rAMotorTherm0 :: dbl
  ld_rAMotorTherm1 :: dbl
  ld_rAMotorTherm2 :: dbl
  ld_rAMotorTherm3 :: dbl
  ld_rAMotorTherm4 :: dbl
  ld_rAMotorTherm5 :: dbl
  ld_rBMotorTherm0 :: dbl
  ld_rBMotorTherm1 :: dbl
  ld_rBMotorTherm2 :: dbl
  ld_rBMotorTherm3 :: dbl
  ld_rBMotorTherm4 :: dbl
  ld_rBMotorTherm5 :: dbl
  ld_lAMotorVoltage :: dbl
  ld_lBMotorVoltage :: dbl
  ld_lHipMotorVoltage :: dbl
  ld_rAMotorVoltage :: dbl
  ld_rBMotorVoltage :: dbl
  ld_rHipMotorVoltage :: dbl

record rt_ops_cycle =
  cyc_header :: std_header
  cyc_robotState :: robot_state
  startTime :: nsecs
  endTime :: nsecs
  cyc_controllerOutput :: controller_output
  cyc_commandedOutput :: controller_output

definition rt_ops_cycle_zero :: rt_ops_cycle where
  "rt_ops_cycle_zero =
     \<lparr>cyc_header = std_header_zero, cyc_robotState = robot_state_zero, startTime = 0, endTime = 0,
      cyc_controllerOutput = controller_output_zero, cyc_commandedOutput = controller_output_zero\<rparr>"

record rt_ops_event =
  event :: uint8
  metadata :: RtOpsEventMetadata_t

record ops_logger =
  rtOpsCycle :: rt_ops_cycle
  guiPublishTimer :: GuiPublishTimer
  logCyclicOut :: "log_data list"
  guiCyclicOut :: "rt_ops_cycle list"
  eventOut :: "rt_ops_event list"

definition new_OpsLogger :: ops_logger where
  "new_OpsLogger =
     \<lparr>rtOpsCycle = rt_ops_cycle_zero, guiPublishTimer = new_GuiPublishTimer 50,
      logCyclicOut = [], guiCyclicOut = [], eventOut = []\<rparr>"

subsection \<open>Operations\<close>

text \<open>\<open>beginCycle\<close> reads the clock twice: for the start time and inside the timer.\<close>

definition beginCycle :: "nsecs \<Rightarrow> nsecs \<Rightarrow> ops_logger \<Rightarrow> ops_logger" where
  "beginCycle start now l =
     (let (ready, timer) = readyToSend now (guiPublishTimer l);
          l1 = l\<lparr>guiPublishTimer := timer\<rparr>;
          l2 = (if ready then l1\<lparr>guiCyclicOut := guiCyclicOut l1 @ [rtOpsCycle l1]\<rparr> else l1)
      in l2\<lparr>rtOpsCycle := (rtOpsCycle l2)\<lparr>startTime := start\<rparr>\<rparr>)"

definition logControllerOutput :: "controller_output \<Rightarrow> ops_logger \<Rightarrow> ops_logger" where
  "logControllerOutput out l =
     l\<lparr>rtOpsCycle := (rtOpsCycle l)\<lparr>cyc_controllerOutput := out\<rparr>\<rparr>"

definition logClampedControllerOutput :: "controller_output \<Rightarrow> ops_logger \<Rightarrow> ops_logger" where
  "logClampedControllerOutput out l =
     l\<lparr>rtOpsCycle := (rtOpsCycle l)\<lparr>cyc_commandedOutput := out\<rparr>\<rparr>"

definition endCycle :: "nsecs \<Rightarrow> ops_logger \<Rightarrow> ops_logger" where
  "endCycle now l = l\<lparr>rtOpsCycle := (rtOpsCycle l)\<lparr>endTime := now\<rparr>\<rparr>"

text \<open>\<open>sendEvent\<close>, with the message it writes. Its metadata defaults to 0.\<close>

definition event_msg :: "RtOpsEvent \<Rightarrow> RtOpsEventMetadata_t \<Rightarrow> rt_ops_event" where
  "event_msg ev md = \<lparr>event = RtOpsEvent_t ev, metadata = md\<rparr>"

definition log_event :: "RtOpsEvent \<Rightarrow> RtOpsEventMetadata_t \<Rightarrow> ops_logger \<Rightarrow> ops_logger" where
  "log_event ev md l = l\<lparr>eventOut := eventOut l @ [event_msg ev md]\<rparr>"

text \<open>
  \<open>packLogData\<close> fills the log message from the cycle record: commands from the two
  controller outputs, the rest from the robot state.
\<close>

definition packLogData :: "rt_ops_cycle \<Rightarrow> log_data" where
  "packLogData cyc =
     (let rs = cyc_robotState cyc; co_raw = cyc_controllerOutput cyc; co_clamped = cyc_commandedOutput cyc
      in \<lparr>ld_header = header rs,
        ld_currentPositive = currentPositive rs,
        ld_currentNegative = currentNegative rs,
        ld_lAClampedCmd = motorCurrentA (co_lLeg co_clamped),
        ld_lBClampedCmd = motorCurrentB (co_lLeg co_clamped),
        ld_lHipClampedCmd = motorCurrentHip (co_lLeg co_clamped),
        ld_rAClampedCmd = motorCurrentA (co_rLeg co_clamped),
        ld_rBClampedCmd = motorCurrentB (co_rLeg co_clamped),
        ld_rHipClampedCmd = motorCurrentHip (co_rLeg co_clamped),
        ld_lARawCmd = motorCurrentA (co_lLeg co_raw),
        ld_lBRawCmd = motorCurrentB (co_lLeg co_raw),
        ld_lHipRawCmd = motorCurrentHip (co_lLeg co_raw),
        ld_rARawCmd = motorCurrentA (co_rLeg co_raw),
        ld_rBRawCmd = motorCurrentB (co_rLeg co_raw),
        ld_rHipRawCmd = motorCurrentHip (co_rLeg co_raw),
        ld_lKneeForce = kneeForce (lLeg rs),
        ld_rKneeForce = kneeForce (rLeg rs),
        ld_lALegAngle = legAngle (halfA (lLeg rs)),
        ld_lBLegAngle = legAngle (halfB (lLeg rs)),
        ld_rALegAngle = legAngle (halfA (rLeg rs)),
        ld_rBLegAngle = legAngle (halfB (rLeg rs)),
        ld_lALegVelocity = legVelocity (halfA (lLeg rs)),
        ld_lBLegVelocity = legVelocity (halfB (lLeg rs)),
        ld_rALegVelocity = legVelocity (halfA (rLeg rs)),
        ld_rBLegVelocity = legVelocity (halfB (rLeg rs)),
        ld_lAMotorAngle = motorAngle (halfA (lLeg rs)),
        ld_lBMotorAngle = motorAngle (halfB (lLeg rs)),
        ld_rAMotorAngle = motorAngle (halfA (rLeg rs)),
        ld_rBMotorAngle = motorAngle (halfB (rLeg rs)),
        ld_lAMotorVelocity = motorVelocity (halfA (lLeg rs)),
        ld_lBMotorVelocity = motorVelocity (halfB (lLeg rs)),
        ld_rAMotorVelocity = motorVelocity (halfA (rLeg rs)),
        ld_rBMotorVelocity = motorVelocity (halfB (rLeg rs)),
        ld_lARotorAngle = rotorAngle (halfA (lLeg rs)),
        ld_lBRotorAngle = rotorAngle (halfB (lLeg rs)),
        ld_rARotorAngle = rotorAngle (halfA (rLeg rs)),
        ld_rBRotorAngle = rotorAngle (halfB (rLeg rs)),
        ld_lARotorVelocity = rotorVelocity (halfA (lLeg rs)),
        ld_lBRotorVelocity = rotorVelocity (halfB (lLeg rs)),
        ld_rARotorVelocity = rotorVelocity (halfA (rLeg rs)),
        ld_rBRotorVelocity = rotorVelocity (halfB (rLeg rs)),
        ld_lLegBodyAngle = legBodyAngle (hip (lLeg rs)),
        ld_rLegBodyAngle = legBodyAngle (hip (rLeg rs)),
        ld_lLegBodyVelocity = legBodyVelocity (hip (lLeg rs)),
        ld_rLegBodyVelocity = legBodyVelocity (hip (lLeg rs)),
        ld_xPosition = xPosition (position rs),
        ld_xVelocity = xVelocity (position rs),
        ld_yPosition = yPosition (position rs),
        ld_yVelocity = yVelocity (position rs),
        ld_zPosition = zPosition (position rs),
        ld_zVelocity = zVelocity (position rs),
        ld_xAngle = xAngle (position rs),
        ld_xAngleVelocity = xAngleVelocity (position rs),
        ld_bodyPitch = bodyPitch (position rs),
        ld_bodyPitchVelocity = bodyPitchVelocity (position rs),
        ld_boomAngle = boomAngle (position rs),
        ld_boomAngleVelocity = boomAngleVelocity (position rs),
        ld_lToeSwitch = toeSwitch (lLeg rs),
        ld_rToeSwitch = toeSwitch (rLeg rs),
        ld_rtOpsState = rtOpsState rs,
        ld_controllerTime = controllerTime (timing rs),
        ld_lAMotorTherm0 = motorTherms (halfA (lLeg rs)) ! 0,
        ld_lAMotorTherm1 = motorTherms (halfA (lLeg rs)) ! 1,
        ld_lAMotorTherm2 = motorTherms (halfA (lLeg rs)) ! 2,
        ld_lAMotorTherm3 = motorTherms (halfA (lLeg rs)) ! 3,
        ld_lAMotorTherm4 = motorTherms (halfA (lLeg rs)) ! 4,
        ld_lAMotorTherm5 = motorTherms (halfA (lLeg rs)) ! 5,
        ld_lBMotorTherm0 = motorTherms (halfB (lLeg rs)) ! 0,
        ld_lBMotorTherm1 = motorTherms (halfB (lLeg rs)) ! 1,
        ld_lBMotorTherm2 = motorTherms (halfB (lLeg rs)) ! 2,
        ld_lBMotorTherm3 = motorTherms (halfB (lLeg rs)) ! 3,
        ld_lBMotorTherm4 = motorTherms (halfB (lLeg rs)) ! 4,
        ld_lBMotorTherm5 = motorTherms (halfB (lLeg rs)) ! 5,
        ld_rAMotorTherm0 = motorTherms (halfA (rLeg rs)) ! 0,
        ld_rAMotorTherm1 = motorTherms (halfA (rLeg rs)) ! 1,
        ld_rAMotorTherm2 = motorTherms (halfA (rLeg rs)) ! 2,
        ld_rAMotorTherm3 = motorTherms (halfA (rLeg rs)) ! 3,
        ld_rAMotorTherm4 = motorTherms (halfA (rLeg rs)) ! 4,
        ld_rAMotorTherm5 = motorTherms (halfA (rLeg rs)) ! 5,
        ld_rBMotorTherm0 = motorTherms (halfB (rLeg rs)) ! 0,
        ld_rBMotorTherm1 = motorTherms (halfB (rLeg rs)) ! 1,
        ld_rBMotorTherm2 = motorTherms (halfB (rLeg rs)) ! 2,
        ld_rBMotorTherm3 = motorTherms (halfB (rLeg rs)) ! 3,
        ld_rBMotorTherm4 = motorTherms (halfB (rLeg rs)) ! 4,
        ld_rBMotorTherm5 = motorTherms (halfB (rLeg rs)) ! 5,
        ld_lAMotorVoltage = motorVoltage (halfA (lLeg rs)),
        ld_lBMotorVoltage = motorVoltage (halfB (lLeg rs)),
        ld_lHipMotorVoltage = hip_motorVoltage (hip (lLeg rs)),
        ld_rAMotorVoltage = motorVoltage (halfA (rLeg rs)),
        ld_rBMotorVoltage = motorVoltage (halfB (rLeg rs)),
        ld_rHipMotorVoltage = hip_motorVoltage (hip (rLeg rs))\<rparr>)"

definition logRobotState :: "robot_state \<Rightarrow> ops_logger \<Rightarrow> ops_logger" where
  "logRobotState state l =
     l\<lparr>logCyclicOut := logCyclicOut l @ [packLogData (rtOpsCycle l)],
       rtOpsCycle := (rtOpsCycle l)\<lparr>cyc_header := header state, cyc_robotState := state\<rparr>\<rparr>"

lemmas logger_defs = beginCycle_def logControllerOutput_def logClampedControllerOutput_def
  endCycle_def log_event_def logRobotState_def readyToSend_def

text \<open>Which ports an operation writes: only \<open>log_event\<close> writes the event port.\<close>

lemma logger_eventOut [simp]:
  "eventOut (beginCycle s n l) = eventOut l"
  "eventOut (logControllerOutput co l) = eventOut l"
  "eventOut (logClampedControllerOutput co l) = eventOut l"
  "eventOut (endCycle n l) = eventOut l"
  "eventOut (logRobotState rs l) = eventOut l"
  "eventOut (log_event ev md l) = eventOut l @ [event_msg ev md]"
  by (simp_all add: logger_defs Let_def)

end
