(* ===== verification/RtState.thy ===== *)
theory RtState
  imports OpsLogger
begin

text \<open>
  The state of the RT Ops component and the small objects it is made of
  (atrias_rt_ops/src: RobotStateHandler.cpp, TimestampHandler.cpp, EStopDiags.cpp, and the
  setter of StateMachine.cpp). The C++ objects point at each other through RTOps; here they
  are one record that every operation takes and returns. Effects on the middleware are
  appended to lists: the outputs sent to the connector, the events and logs of the logger,
  the asynchronous print requests, and the calls that connect the controller.
\<close>

datatype orocos_call = ConnectToController | DisconnectController

datatype loop_pc =
    AtTop
  | RunDone controller_output
  | StateRead RtOpsState controller_output
  | CalcDone controller_output
  | AtWait
  | Exited

text \<open>
  \<open>loop_at\<close> is the place of the control thread in \<open>ControllerLoop::loop\<close> with the value of
  its local variable; the other fields are the members of the C++ objects. The semaphore
  \<open>signal\<close> is its count. The members lAMinVel and so on of Safety are written only by code
  that is never reached and are left out.
\<close>

record rt_ops =
  currentState :: RtOpsState
  resetCounter :: int
  isHalting :: bool
  controllerLoaded :: bool
  loop_done :: bool
  signal :: nat
  robotState :: robot_state
  timestamp :: uint64
  opsLogger :: ops_logger
  printEStop_sent :: "RtOpsEvent list"
  controllerCalls :: "orocos_call list"
  sentOutputs :: "controller_output list"
  loop_at :: loop_pc

definition sendEvent_md :: "RtOpsEvent \<Rightarrow> RtOpsEventMetadata_t \<Rightarrow> rt_ops \<Rightarrow> rt_ops" where
  "sendEvent_md ev md s = s\<lparr>opsLogger := log_event ev md (opsLogger s)\<rparr>"

definition sendEvent :: "RtOpsEvent \<Rightarrow> rt_ops \<Rightarrow> rt_ops" where
  "sendEvent ev s = sendEvent_md ev 0 s"

abbreviation events :: "rt_ops \<Rightarrow> rt_ops_event list" where
  "events s \<equiv> eventOut (opsLogger s)"

subsection \<open>Emergency stop diagnostics\<close>

definition printEStop :: "RtOpsEvent \<Rightarrow> rt_ops \<Rightarrow> rt_ops" where
  "printEStop ev s = s\<lparr>printEStop_sent := printEStop_sent s @ [ev]\<rparr>"

fun printEStopBackend :: "RtOpsEvent \<Rightarrow> string list" where
  "printEStopBackend INVALID_CM_COMMAND =
     [''EStop occurred'', ''EStop reason: Invalid Controller Manager Command. '' @
                          ''This should never happen!'']"
| "printEStopBackend INVALID_RT_OPS_STATE =
     [''EStop occurred'', ''EStop reason: Invalid RT Ops State. '' @
                          ''This should never happen!'']"
| "printEStopBackend CM_COMMAND_ESTOP =
     [''EStop occurred'', ''EStop reason: Controller Manager commanded an EStop. '' @
                          ''This is usually just a forwarded EStop command from the GUI.'']"
| "printEStopBackend CONTROLLER_ESTOP =
     [''EStop occurred'', ''EStop reason: Controller commanded an EStop. '']"
| "printEStopBackend MEDULLA_ESTOP =
     [''EStop occurred'', ''EStop reason: One or more Medullas went into EStop automatically. '' @
                          ''Look at the Medulla error flags to identify the cause. '' @
                          ''Note: As a kludge, this is currently sent when the safeties detect '' @
                          ''a failing halt.'']"
| "printEStopBackend SAFETY =
     [''EStop occurred'', ''EStop reason: Safeties (hard stop collision avoidance) triggered. '']"
| "printEStopBackend ev =
     [''EStop occurred'', ''EStop reason unknown! Someone called eStop() without specifying '' @
                          ''a valid reason. Reason given (integer): '' @
                          dec_digits (unat (RtOpsEvent_t ev))]"

subsection \<open>The state and its setter\<close>

definition setState :: "RtOpsState \<Rightarrow> rt_ops \<Rightarrow> rt_ops" where
  "setState new_state s =
     (if currentState s = E_STOP \<and> new_state \<noteq> RESET then s
      else s\<lparr>currentState := new_state\<rparr>)"

interpretation rt_latch: latch currentState setState E_STOP "\<lambda>n. n" "\<lambda>n. n = RESET"
  by unfold_locales (simp add: setState_def)

definition getRtOpsState :: "rt_ops \<Rightarrow> RtOpsState" where
  "getRtOpsState s = currentState s"

definition eStop :: "RtOpsEvent \<Rightarrow> rt_ops \<Rightarrow> rt_ops" where
  "eStop ev s = printEStop ev (sendEvent ev (setState E_STOP s))"

text \<open>
  The constructor of StateMachine calls the setter before \<open>currentState\<close> has been
  initialised: \<open>garbage\<close> is what the memory held. The other objects are constructed by RTOps.
\<close>

definition new_RTOps :: "RtOpsState \<Rightarrow> rt_ops" where
  "new_RTOps garbage =
     setState NO_CONTROLLER_LOADED
       \<lparr>currentState = garbage, resetCounter = 0, isHalting = False, controllerLoaded = False,
        loop_done = False, signal = 0, robotState = robot_state_zero, timestamp = 0,
        opsLogger = new_OpsLogger, printEStop_sent = [], controllerCalls = [],
        sentOutputs = [], loop_at = AtTop\<rparr>"

subsection \<open>The robot state store\<close>

definition getRobotState :: "rt_ops \<Rightarrow> robot_state" where
  "getRobotState s = robotState s"

definition medulla_in_error :: "robot_state \<Rightarrow> bool" where
  "medulla_in_error st \<longleftrightarrow>
     boomMedullaState st = medulla_state_error \<or>
     hip_medullaState (hip (lLeg st)) = medulla_state_error \<or>
     medullaState (halfA (lLeg st)) = medulla_state_error \<or>
     medullaState (halfB (lLeg st)) = medulla_state_error \<or>
     hip_medullaState (hip (rLeg st)) = medulla_state_error \<or>
     medullaState (halfA (rLeg st)) = medulla_state_error \<or>
     medullaState (halfB (rLeg st)) = medulla_state_error"

definition checkForNewErrors :: "robot_state \<Rightarrow> rt_ops \<Rightarrow> rt_ops" where
  "checkForNewErrors state s =
     (if getRtOpsState s = E_STOP \<or> getRtOpsState s = RESET then s
      else if medulla_in_error state then eStop MEDULLA_ESTOP s else s)"

text \<open>The C++ takes the new state by reference and fills in its \<open>rtOpsState\<close>.\<close>

definition setRobotState :: "robot_state \<Rightarrow> rt_ops \<Rightarrow> robot_state \<times> rt_ops" where
  "setRobotState newState s =
     (let newState = newState\<lparr>rtOpsState := RtOpsState_t (getRtOpsState s)\<rparr>;
          s = checkForNewErrors newState s
      in (newState, s\<lparr>robotState := newState\<rparr>))"

subsection \<open>Time stamps\<close>

text \<open>
  The literal is a \<open>long long\<close> and the stamp fields are unsigned 32-bit, so the sum is in
  64-bit arithmetic. Reading back divides and takes the remainder, and stores 32 bits.
\<close>

definition stamp_ns :: "std_header \<Rightarrow> uint64" where
  "stamp_ns h = 1000000000 * ucast (stamp_sec h) + ucast (stamp_nsec h)"

definition setTimestamp :: "std_header \<Rightarrow> rt_ops \<Rightarrow> rt_ops" where
  "setTimestamp h s = s\<lparr>timestamp := stamp_ns h\<rparr>"

definition getTimestamp :: "rt_ops \<Rightarrow> uint64" where
  "getTimestamp s = timestamp s"

definition getTimestampHeader :: "rt_ops \<Rightarrow> std_header" where
  "getTimestampHeader s =
     \<lparr>stamp_sec = word_of_int (cdiv (sint (timestamp s)) SECOND_IN_NANOSECONDS),
      stamp_nsec = word_of_int (crem (sint (timestamp s)) SECOND_IN_NANOSECONDS)\<rparr>"

lemma stamp_ns_value:
  "sint (stamp_ns h) = 1000000000 * uint (stamp_sec h) + uint (stamp_nsec h)"
proof -
  let ?v = "1000000000 * uint (stamp_sec h) + uint (stamp_nsec h)"
  have "0 \<le> uint (stamp_sec h)" "uint (stamp_sec h) < 2 ^ 32"
    "0 \<le> uint (stamp_nsec h)" "uint (stamp_nsec h) < 2 ^ 32"
    using uint_lt2p [of "stamp_sec h"] uint_lt2p [of "stamp_nsec h"] by simp_all
  then have b: "0 \<le> uint (stamp_sec h)" "uint (stamp_sec h) < 4294967296"
    "0 \<le> uint (stamp_nsec h)" "uint (stamp_nsec h) < 4294967296"
    by simp_all
  have "stamp_ns h = word_of_int ?v"
    by (simp only: stamp_ns_def ucast_eq of_int_add of_int_mult of_int_numeral)
  moreover have "sint (word_of_int ?v :: uint64) = ?v"
    by (rule sint_word64_id) (use b in linarith)+
  ultimately show ?thesis by simp
qed

subsection \<open>Frame facts\<close>

lemma sendEvent_simps [simp]:
  "currentState (sendEvent_md ev md s) = currentState s"
  "resetCounter (sendEvent_md ev md s) = resetCounter s"
  "isHalting (sendEvent_md ev md s) = isHalting s"
  "controllerLoaded (sendEvent_md ev md s) = controllerLoaded s"
  "robotState (sendEvent_md ev md s) = robotState s"
  "sentOutputs (sendEvent_md ev md s) = sentOutputs s"
  "loop_at (sendEvent_md ev md s) = loop_at s"
  "loop_done (sendEvent_md ev md s) = loop_done s"
  "signal (sendEvent_md ev md s) = signal s"
  "controllerCalls (sendEvent_md ev md s) = controllerCalls s"
  "printEStop_sent (sendEvent_md ev md s) = printEStop_sent s"
  "events (sendEvent_md ev md s) = events s @ [event_msg ev md]"
  by (simp_all add: sendEvent_md_def)

lemma setState_simps [simp]:
  "resetCounter (setState n s) = resetCounter s"
  "isHalting (setState n s) = isHalting s"
  "controllerLoaded (setState n s) = controllerLoaded s"
  "robotState (setState n s) = robotState s"
  "sentOutputs (setState n s) = sentOutputs s"
  "loop_at (setState n s) = loop_at s"
  "loop_done (setState n s) = loop_done s"
  "signal (setState n s) = signal s"
  "controllerCalls (setState n s) = controllerCalls s"
  "printEStop_sent (setState n s) = printEStop_sent s"
  "events (setState n s) = events s"
  by (simp_all add: setState_def)

lemma eStop_simps [simp]:
  "currentState (eStop ev s) = E_STOP"
  "resetCounter (eStop ev s) = resetCounter s"
  "isHalting (eStop ev s) = isHalting s"
  "controllerLoaded (eStop ev s) = controllerLoaded s"
  "robotState (eStop ev s) = robotState s"
  "sentOutputs (eStop ev s) = sentOutputs s"
  "loop_at (eStop ev s) = loop_at s"
  "loop_done (eStop ev s) = loop_done s"
  "signal (eStop ev s) = signal s"
  "controllerCalls (eStop ev s) = controllerCalls s"
  "printEStop_sent (eStop ev s) = printEStop_sent s @ [ev]"
  "events (eStop ev s) = events s @ [event_msg ev 0]"
  by (simp_all add: eStop_def printEStop_def sendEvent_def rt_latch.put_stop)

lemma checkForNewErrors_simps [simp]:
  "resetCounter (checkForNewErrors st s) = resetCounter s"
  "isHalting (checkForNewErrors st s) = isHalting s"
  "controllerLoaded (checkForNewErrors st s) = controllerLoaded s"
  "sentOutputs (checkForNewErrors st s) = sentOutputs s"
  "loop_at (checkForNewErrors st s) = loop_at s"
  "loop_done (checkForNewErrors st s) = loop_done s"
  "signal (checkForNewErrors st s) = signal s"
  by (simp_all add: checkForNewErrors_def)

subsection \<open>Properties\<close>

text \<open>
  A time stamp written from a message header is read back exactly, as long as the
  header is normalised; the 64-bit sum does not overflow for any header.
\<close>

lemma timestamp_roundtrip:
  assumes "uint (stamp_nsec h) < SECOND_IN_NANOSECONDS"
  shows "getTimestampHeader (setTimestamp h s) = h \<and>
    sint (getTimestamp (setTimestamp h s)) = 1000000000 * uint (stamp_sec h) + uint (stamp_nsec h)"
proof -
  let ?s = "uint (stamp_sec h)" and ?n = "uint (stamp_nsec h)"
  have n: "?n < 1000000000" using assms by (simp add: consts_simp)
  have "cdiv (1000000000 * ?s + ?n) 1000000000 = (1000000000 * ?s + ?n) div 1000000000"
    by (rule cdiv_nonneg) simp_all
  also have "\<dots> = ?s" using n by simp
  finally have d: "cdiv (1000000000 * ?s + ?n) 1000000000 = ?s" .
  have "crem (1000000000 * ?s + ?n) 1000000000 = (1000000000 * ?s + ?n) mod 1000000000"
    by (rule crem_nonneg) simp_all
  also have "\<dots> = ?n" using n by simp
  finally have r: "crem (1000000000 * ?s + ?n) 1000000000 = ?n" .
  show ?thesis
    by (simp add: getTimestampHeader_def setTimestamp_def getTimestamp_def stamp_ns_value d r
        consts_simp)
qed

lemma timestamp_roundtrip_witness:
  "getTimestampHeader (setTimestamp \<lparr>stamp_sec = 1400000000, stamp_nsec = 999999999\<rparr>
     (new_RTOps NO_CONTROLLER_LOADED)) = \<lparr>stamp_sec = 1400000000, stamp_nsec = 999999999\<rparr>"
  using timestamp_roundtrip [of "\<lparr>stamp_sec = 1400000000, stamp_nsec = 999999999\<rparr>"
      "new_RTOps NO_CONTROLLER_LOADED"]
  by (simp add: SECOND_IN_NANOSECONDS_def)

end
