(* ===== verification/Safety.thy ===== *)
theory Safety
  imports RtState
begin

text \<open>
  The safety checks of RT Ops (atrias_rt_ops/src/Safety.cpp): the test of the controller's
  output, the prediction of where a motor would stop, and the collision check on the
  predicted positions.
\<close>

subsection \<open>Predictions\<close>

text \<open>
  \<open>abs\<close> is taken at type double, the overload of \<open>cmath\<close>.
\<close>

definition predictStop :: "dbl \<Rightarrow> dbl \<Rightarrow> dbl" where
  "predictStop pos vel =
     pos + vel * fabs vel / (Fin 2 * Fin ACCEL_PER_AMP * Fin AVAIL_HALT_AMPS)"

definition decelRate :: real where
  "decelRate =
     AVAIL_HALT_AMPS * ACCEL_PER_AMP * real_of_int CONTROLLER_LOOP_PERIOD_NS
       / real_of_int SECOND_IN_NANOSECONDS"

text \<open>
  The halt check of one motor returns its verdict and the updated velocity interval, which
  the C++ takes by reference.
\<close>

definition motorHaltCheck :: "dbl \<Rightarrow> dbl \<Rightarrow> dbl \<Rightarrow> bool \<times> dbl \<times> dbl" where
  "motorHaltCheck vel minVel maxVel =
     (let minVel = std_min (minVel + Fin decelRate) (Fin (- MOTOR_VEL_MRGN));
          maxVel = std_max (maxVel - Fin decelRate) (Fin MOTOR_VEL_MRGN)
      in (if vel < minVel then True else if maxVel < vel then True else False, minVel, maxVel))"

subsection \<open>The output of the controller\<close>

definition leg_finite :: "controller_output_leg \<Rightarrow> bool" where
  "leg_finite l \<longleftrightarrow>
     isfinite (motorCurrentA l) \<and> isfinite (motorCurrentB l) \<and> isfinite (motorCurrentHip l)"

definition output_finite :: "controller_output \<Rightarrow> bool" where
  "output_finite co \<longleftrightarrow> leg_finite (co_lLeg co) \<and> leg_finite (co_rLeg co)"

text \<open>
  In HALT the function returns true at once: the statements after that return, which would
  call \<open>motorHaltCheck\<close>, are never reached.
\<close>

definition shouldEStop :: "controller_output \<Rightarrow> rt_ops \<Rightarrow> bool \<times> rt_ops" where
  "shouldEStop co s =
     (if \<not> isfinite (motorCurrentA (co_lLeg co)) \<or>
         \<not> isfinite (motorCurrentB (co_lLeg co)) \<or>
         \<not> isfinite (motorCurrentHip (co_lLeg co)) \<or>
         \<not> isfinite (motorCurrentA (co_rLeg co)) \<or>
         \<not> isfinite (motorCurrentB (co_rLeg co)) \<or>
         \<not> isfinite (motorCurrentHip (co_rLeg co))
      then (True, s)
      else if getRtOpsState s \<noteq> HALT then (False, s\<lparr>isHalting := False\<rparr>)
      else (True, s))"

subsection \<open>Collisions\<close>

definition safetyEvent :: "RtOpsEventSafetyMetadata \<Rightarrow> rt_ops \<Rightarrow> rt_ops" where
  "safetyEvent m s = sendEvent_md SAFETY (safety_metadata m) s"

definition checkCollision :: "dbl \<Rightarrow> dbl \<Rightarrow> dbl \<Rightarrow> dbl \<Rightarrow> rt_ops \<Rightarrow> bool \<times> rt_ops" where
  "checkCollision lLegAPred lLegBPred rLegAPred rLegBPred s =
     (let robotState = getRobotState s;
          lLegAngleDiff = lLegBPred - lLegAPred;
          rLegAngleDiff = rLegBPred - rLegAPred
      in if lLegAPred < Fin (LEG_A_MOTOR_MIN_LOC + LEG_LOC_SAFETY_DISTANCE)
         then (True, safetyEvent LEFT_LEG_A_TOO_SMALL s)
         else if Fin (LEG_A_MOTOR_MAX_LOC - LEG_LOC_SAFETY_DISTANCE) < lLegAPred
         then (True, safetyEvent LEFT_LEG_A_TOO_LARGE s)
         else if lLegBPred < Fin (LEG_B_MOTOR_MIN_LOC + LEG_LOC_SAFETY_DISTANCE)
         then (True, safetyEvent LEFT_LEG_B_TOO_SMALL s)
         else if Fin (LEG_B_MOTOR_MAX_LOC - LEG_LOC_SAFETY_DISTANCE) < lLegBPred
         then (True, safetyEvent LEFT_LEG_B_TOO_LARGE s)
         else if lLegAngleDiff < Fin LEG_LOC_DIFF_MIN
         then (True, safetyEvent LEFT_LEG_TOO_LONG s)
         else if Fin LEG_LOC_DIFF_MAX < lLegAngleDiff
         then (True, safetyEvent LEFT_LEG_TOO_SHORT s)
         else if robotConfiguration robotState = RobotConfiguration_t LEFT_LEG_HIP \<or>
                 robotConfiguration robotState = RobotConfiguration_t LEFT_LEG_NOHIP
         then (False, s)
         else if rLegAPred < Fin (LEG_A_MOTOR_MIN_LOC + LEG_LOC_SAFETY_DISTANCE)
         then (True, safetyEvent RIGHT_LEG_A_TOO_SMALL s)
         else if Fin (LEG_A_MOTOR_MAX_LOC - LEG_LOC_SAFETY_DISTANCE) < rLegAPred
         then (True, safetyEvent RIGHT_LEG_A_TOO_LARGE s)
         else if rLegBPred < Fin (LEG_B_MOTOR_MIN_LOC + LEG_LOC_SAFETY_DISTANCE)
         then (True, safetyEvent RIGHT_LEG_B_TOO_SMALL s)
         else if Fin (LEG_B_MOTOR_MAX_LOC - LEG_LOC_SAFETY_DISTANCE) < rLegBPred
         then (True, safetyEvent RIGHT_LEG_B_TOO_LARGE s)
         else if rLegAngleDiff < Fin LEG_LOC_DIFF_MIN
         then (True, safetyEvent RIGHT_LEG_TOO_LONG s)
         else if Fin LEG_LOC_DIFF_MAX < rLegAngleDiff
         then (True, safetyEvent RIGHT_LEG_TOO_SHORT s)
         else (False, s))"

text \<open>
  The code makes the four predictions and the check twice, once from the motor angles and
  once from the rotor angles; \<open>angle\<close> is the field it reads.
\<close>

definition checkPredicted :: "(robot_state_legHalf \<Rightarrow> dbl) \<Rightarrow> rt_ops \<Rightarrow> bool \<times> rt_ops" where
  "checkPredicted angle s =
     (let robotState = getRobotState s;
          lLegAPred = predictStop (angle (halfA (lLeg robotState))) (rotorVelocity (halfA (lLeg robotState)));
          lLegBPred = predictStop (angle (halfB (lLeg robotState))) (rotorVelocity (halfB (lLeg robotState)));
          rLegAPred = predictStop (angle (halfA (rLeg robotState))) (rotorVelocity (halfA (rLeg robotState)));
          rLegBPred = predictStop (angle (halfB (rLeg robotState))) (rotorVelocity (halfB (rLeg robotState)))
      in checkCollision lLegAPred lLegBPred rLegAPred rLegBPred s)"

definition shouldHalt :: "rt_ops \<Rightarrow> bool \<times> rt_ops" where
  "shouldHalt s =
     (let robotState = getRobotState s
      in if boomMedullaState robotState = medulla_state_halt
         then (True, safetyEvent BOOM_MEDULLA_HALT s)
         else if hipMedullaState (lLeg robotState) = medulla_state_halt
         then (True, safetyEvent LEFT_HIP_MEDULLA_HALT s)
         else if medullaState (halfA (lLeg robotState)) = medulla_state_halt
         then (True, safetyEvent LEFT_LEG_A_MEDULLA_HALT s)
         else if medullaState (halfB (lLeg robotState)) = medulla_state_halt
         then (True, safetyEvent LEFT_LEG_B_MEDULLA_HALT s)
         else if hipMedullaState (rLeg robotState) = medulla_state_halt
         then (True, safetyEvent RIGHT_HIP_MEDULLA_HALT s)
         else if medullaState (halfA (rLeg robotState)) = medulla_state_halt
         then (True, safetyEvent RIGHT_LEG_A_MEDULLA_HALT s)
         else if medullaState (halfB (rLeg robotState)) = medulla_state_halt
         then (True, safetyEvent RIGHT_LEG_B_MEDULLA_HALT s)
         else if robotConfiguration robotState = RobotConfiguration_t DISABLE \<or>
                 disableSafeties robotState
         then (False, s)
         else
           let (collision, s) = checkPredicted motorAngle s
           in if collision then (True, s)
              else
                let (collision, s) = checkPredicted rotorAngle s
                in if collision then (True, s) else (False, s))"

subsection \<open>What the checks decide\<close>

text \<open>The verdicts without the events: conditions on the robot state alone.\<close>

definition leg_collides :: "dbl \<Rightarrow> dbl \<Rightarrow> bool" where
  "leg_collides a b \<longleftrightarrow>
     a < Fin (LEG_A_MOTOR_MIN_LOC + LEG_LOC_SAFETY_DISTANCE) \<or>
     Fin (LEG_A_MOTOR_MAX_LOC - LEG_LOC_SAFETY_DISTANCE) < a \<or>
     b < Fin (LEG_B_MOTOR_MIN_LOC + LEG_LOC_SAFETY_DISTANCE) \<or>
     Fin (LEG_B_MOTOR_MAX_LOC - LEG_LOC_SAFETY_DISTANCE) < b \<or>
     b - a < Fin LEG_LOC_DIFF_MIN \<or> Fin LEG_LOC_DIFF_MAX < b - a"

definition one_leg :: "robot_state \<Rightarrow> bool" where
  "one_leg st \<longleftrightarrow> robotConfiguration st = RobotConfiguration_t LEFT_LEG_HIP \<or>
     robotConfiguration st = RobotConfiguration_t LEFT_LEG_NOHIP"

lemma safetyEvent_simps [simp]:
  "currentState (safetyEvent m s) = currentState s"
  "resetCounter (safetyEvent m s) = resetCounter s"
  "isHalting (safetyEvent m s) = isHalting s"
  "controllerLoaded (safetyEvent m s) = controllerLoaded s"
  "robotState (safetyEvent m s) = robotState s"
  "sentOutputs (safetyEvent m s) = sentOutputs s"
  "loop_at (safetyEvent m s) = loop_at s"
  "loop_done (safetyEvent m s) = loop_done s"
  "controllerCalls (safetyEvent m s) = controllerCalls s"
  "printEStop_sent (safetyEvent m s) = printEStop_sent s"
  "events (safetyEvent m s) = events s @ [event_msg SAFETY (safety_metadata m)]"
  by (simp_all add: safetyEvent_def)

lemma checkCollision_fst:
  "fst (checkCollision lA lB rA rB s) \<longleftrightarrow>
     leg_collides lA lB \<or> \<not> one_leg (robotState s) \<and> leg_collides rA rB"
  unfolding checkCollision_def leg_collides_def one_leg_def Let_def getRobotState_def
  by (simp del: RobotConfiguration_t.simps)

text \<open>A check changes the state by at most one safety event.\<close>

definition reports :: "bool \<Rightarrow> rt_ops \<Rightarrow> rt_ops \<Rightarrow> bool" where
  "reports b s s' \<longleftrightarrow>
     (if b then \<exists>m. s' = safetyEvent m s else s' = s)"

lemma reports_True: "reports True s (safetyEvent m s)"
  by (auto simp: reports_def)

lemma reports_False: "reports False s s"
  by (simp add: reports_def)

lemma checkCollision_reports: "reports (fst (checkCollision lA lB rA rB s)) s (snd (checkCollision lA lB rA rB s))"
  unfolding checkCollision_def Let_def
  by (simp add: reports_True reports_False del: RobotConfiguration_t.simps)

definition medulla_halted :: "robot_state \<Rightarrow> bool" where
  "medulla_halted st \<longleftrightarrow>
     boomMedullaState st = medulla_state_halt \<or>
     hipMedullaState (lLeg st) = medulla_state_halt \<or>
     medullaState (halfA (lLeg st)) = medulla_state_halt \<or>
     medullaState (halfB (lLeg st)) = medulla_state_halt \<or>
     hipMedullaState (rLeg st) = medulla_state_halt \<or>
     medullaState (halfA (rLeg st)) = medulla_state_halt \<or>
     medullaState (halfB (rLeg st)) = medulla_state_halt"

definition safeties_disabled :: "robot_state \<Rightarrow> bool" where
  "safeties_disabled st \<longleftrightarrow>
     robotConfiguration st = RobotConfiguration_t DISABLE \<or> disableSafeties st"

text \<open>A leg about to collide, by the transmission encoders or by the rotor encoders.\<close>

definition leg_danger :: "(robot_state_legHalf \<Rightarrow> dbl) \<Rightarrow> robot_state_leg \<Rightarrow> bool" where
  "leg_danger angle l \<longleftrightarrow>
     leg_collides (predictStop (angle (halfA l)) (rotorVelocity (halfA l)))
       (predictStop (angle (halfB l)) (rotorVelocity (halfB l)))"

definition robot_danger :: "(robot_state_legHalf \<Rightarrow> dbl) \<Rightarrow> robot_state \<Rightarrow> bool" where
  "robot_danger angle st \<longleftrightarrow>
     leg_danger angle (lLeg st) \<or> \<not> one_leg st \<and> leg_danger angle (rLeg st)"

lemma reports_robotState: "reports b s s' \<Longrightarrow> robotState s' = robotState s"
  by (auto simp: reports_def split: if_splits)

lemma reports_cases:
  assumes "reports b s s'"
  obtains (event) m where b "s' = safetyEvent m s" | (quiet) "\<not> b" "s' = s"
  using assms by (auto simp: reports_def split: if_splits)

lemma checkPredicted_spec:
  obtains s' where "checkPredicted angle s = (robot_danger angle (robotState s), s')"
    "reports (robot_danger angle (robotState s)) s s'"
proof -
  have "fst (checkPredicted angle s) = robot_danger angle (robotState s)"
    by (simp add: checkPredicted_def checkCollision_fst robot_danger_def leg_danger_def
        getRobotState_def Let_def)
  moreover have "reports (fst (checkPredicted angle s)) s (snd (checkPredicted angle s))"
    unfolding checkPredicted_def Let_def by (rule checkCollision_reports)
  ultimately show ?thesis by (cases "checkPredicted angle s") (use that in auto)
qed

lemma shouldHalt_medulla:
  "medulla_halted (robotState s) \<Longrightarrow> \<exists>m. shouldHalt s = (True, safetyEvent m s)"
  unfolding shouldHalt_def medulla_halted_def getRobotState_def Let_def
  by (simp del: RobotConfiguration_t.simps) blast

lemma shouldHalt_disabled:
  "\<not> medulla_halted (robotState s) \<Longrightarrow> safeties_disabled (robotState s) \<Longrightarrow>
   shouldHalt s = (False, s)"
  unfolding shouldHalt_def medulla_halted_def safeties_disabled_def getRobotState_def Let_def
  by (simp del: RobotConfiguration_t.simps)

lemma shouldHalt_checks:
  assumes "\<not> medulla_halted (robotState s)" and "\<not> safeties_disabled (robotState s)"
  shows "\<exists>s'. shouldHalt s =
      (robot_danger motorAngle (robotState s) \<or> robot_danger rotorAngle (robotState s), s') \<and>
    reports (robot_danger motorAngle (robotState s) \<or> robot_danger rotorAngle (robotState s)) s s'"
proof -
  obtain s1 where 1: "checkPredicted motorAngle s = (robot_danger motorAngle (robotState s), s1)"
    "reports (robot_danger motorAngle (robotState s)) s s1" by (rule checkPredicted_spec)
  from 1(2) have st: "robotState s1 = robotState s" by (rule reports_robotState)
  obtain s2 where 2: "checkPredicted rotorAngle s1 = (robot_danger rotorAngle (robotState s), s2)"
    "reports (robot_danger rotorAngle (robotState s)) s1 s2"
    by (rule checkPredicted_spec [of rotorAngle s1, unfolded st])
  have "shouldHalt s =
    (if robot_danger motorAngle (robotState s) then (True, s1)
     else if robot_danger rotorAngle (robotState s) then (True, s2) else (False, s2))"
    using assms 1(1) 2(1)
    unfolding shouldHalt_def medulla_halted_def safeties_disabled_def getRobotState_def Let_def
    by (simp del: RobotConfiguration_t.simps)
  then show ?thesis using 1(2) 2(2) by (auto simp: reports_def)
qed

text \<open>The verdict of the halt check, as a condition on the robot state.\<close>

definition must_halt :: "robot_state \<Rightarrow> bool" where
  "must_halt st \<longleftrightarrow> medulla_halted st \<or>
     \<not> safeties_disabled st \<and> (robot_danger motorAngle st \<or> robot_danger rotorAngle st)"

lemma shouldHalt_spec:
  obtains s' where "shouldHalt s = (must_halt (robotState s), s')"
    "reports (must_halt (robotState s)) s s'"
proof (cases "medulla_halted (robotState s)")
  case True
  with shouldHalt_medulla [OF True] that show ?thesis
    by (auto simp: must_halt_def reports_True)
next
  case False
  then show ?thesis
  proof (cases "safeties_disabled (robotState s)")
    case True
    with False shouldHalt_disabled [OF False True] that show ?thesis
      by (auto simp: must_halt_def reports_False)
  next
    case ok: False
    with False shouldHalt_checks [OF False ok] that show ?thesis
      by (auto simp: must_halt_def)
  qed
qed

lemma shouldHalt_fst: "fst (shouldHalt s) \<longleftrightarrow> must_halt (robotState s)"
  by (rule shouldHalt_spec [of s]) simp

lemma shouldHalt_quiet: "\<not> must_halt (robotState s) \<Longrightarrow> shouldHalt s = (False, s)"
  by (rule shouldHalt_spec [of s]) (auto simp: reports_def)

lemma reports_simps:
  assumes "reports b s s'"
  shows "currentState s' = currentState s" "resetCounter s' = resetCounter s"
    "isHalting s' = isHalting s" "controllerLoaded s' = controllerLoaded s"
    "sentOutputs s' = sentOutputs s" "loop_at s' = loop_at s" "loop_done s' = loop_done s"
    "controllerCalls s' = controllerCalls s" "printEStop_sent s' = printEStop_sent s"
  using assms by (auto simp: reports_def split: if_splits)

lemma shouldHalt_snd [simp]:
  "currentState (snd (shouldHalt s)) = currentState s"
  "resetCounter (snd (shouldHalt s)) = resetCounter s"
  "isHalting (snd (shouldHalt s)) = isHalting s"
  "controllerLoaded (snd (shouldHalt s)) = controllerLoaded s"
  "robotState (snd (shouldHalt s)) = robotState s"
  "sentOutputs (snd (shouldHalt s)) = sentOutputs s"
  "loop_at (snd (shouldHalt s)) = loop_at s"
  "loop_done (snd (shouldHalt s)) = loop_done s"
  "controllerCalls (snd (shouldHalt s)) = controllerCalls s"
  "printEStop_sent (snd (shouldHalt s)) = printEStop_sent s"
  by (rule shouldHalt_spec [of s]; simp add: reports_simps reports_robotState)+

lemma shouldEStop_simps [simp]:
  "currentState (snd (shouldEStop co s)) = currentState s"
  "resetCounter (snd (shouldEStop co s)) = resetCounter s"
  "controllerLoaded (snd (shouldEStop co s)) = controllerLoaded s"
  "robotState (snd (shouldEStop co s)) = robotState s"
  "sentOutputs (snd (shouldEStop co s)) = sentOutputs s"
  "loop_at (snd (shouldEStop co s)) = loop_at s"
  "events (snd (shouldEStop co s)) = events s"
  "fst (shouldEStop co s) \<longleftrightarrow> \<not> output_finite co \<or> currentState s = HALT"
  by (auto simp: shouldEStop_def getRtOpsState_def output_finite_def leg_finite_def)

subsection \<open>Properties\<close>

text \<open>
  C24. The halt check returns true exactly when one of the medulla states that it looks at, of the
  leg halves, the hips and the boom, is halt or, with the safeties enabled, one of the two
  predictions leaves its interval or brings the motors of a leg too close or too far apart (the
  right leg counts only when there is one); it then writes exactly one SAFETY event, and
  otherwise changes nothing.
\<close>

lemma shouldHalt_characterised:
  "fst (shouldHalt s) = must_halt (robotState s) \<and>
   (if must_halt (robotState s) then \<exists>m. snd (shouldHalt s) = safetyEvent m s
    else snd (shouldHalt s) = s)"
  by (rule shouldHalt_spec [of s]) (auto simp: reports_def)

text \<open>
  The halt state of the hip medullas is never noticed: the drivers report it in the field
  of the hip message, and the verdict does not depend on that field.
\<close>

lemma shouldHalt_ignores_hip_state:
  "fst (shouldHalt (s\<lparr>robotState := (robotState s)
      \<lparr>lLeg := (lLeg (robotState s))\<lparr>hip := (hip (lLeg (robotState s)))\<lparr>hip_medullaState := a\<rparr>\<rparr>,
       rLeg := (rLeg (robotState s))\<lparr>hip := (hip (rLeg (robotState s)))\<lparr>hip_medullaState := b\<rparr>\<rparr>\<rparr>\<rparr>))
   = fst (shouldHalt s)"
  by (simp add: shouldHalt_fst must_halt_def medulla_halted_def safeties_disabled_def
      robot_danger_def leg_danger_def one_leg_def del: RobotConfiguration_t.simps)

text \<open>
  A sensor that reads NaN makes the collision check of its leg pass: with the rotor
  velocities of all four motors NaN the check never halts the robot, wherever the motors are.
\<close>

lemma NaN_velocity_fails_open:
  assumes "rotorVelocity (halfA (lLeg (robotState s))) = NaN"
    and "rotorVelocity (halfB (lLeg (robotState s))) = NaN"
    and "rotorVelocity (halfA (rLeg (robotState s))) = NaN"
    and "rotorVelocity (halfB (rLeg (robotState s))) = NaN"
    and "\<not> medulla_halted (robotState s)"
  shows "shouldHalt s = (False, s)"
proof -
  have "predictStop pos NaN = NaN" for pos by (simp add: predictStop_def)
  then have "\<not> must_halt (robotState s)"
    using assms by (simp add: must_halt_def robot_danger_def leg_danger_def leg_collides_def)
  then show ?thesis by (rule shouldHalt_quiet)
qed

lemma NaN_velocity_fails_open_witness:
  "\<exists>s. rotorVelocity (halfA (lLeg (robotState s))) = NaN \<and>
     motorAngle (halfA (lLeg (robotState s))) = Fin 100 \<and> shouldHalt s = (False, s)"
proof -
  let ?h = "robot_state_legHalf_zero\<lparr>rotorVelocity := NaN, motorAngle := Fin 100\<rparr>"
  let ?l = "robot_state_leg_zero\<lparr>halfA := ?h, halfB := ?h\<rparr>"
  let ?st = "robot_state_zero\<lparr>robotConfiguration := RobotConfiguration_t UNKNOWN,
    lLeg := ?l, rLeg := ?l\<rparr>"
  let ?s = "(new_RTOps NO_CONTROLLER_LOADED)\<lparr>robotState := ?st\<rparr>"
  have "shouldHalt ?s = (False, ?s)"
    by (rule NaN_velocity_fails_open)
      (simp_all add: medulla_halted_def robot_state_zero_def robot_state_leg_zero_def
        robot_state_legHalf_zero_def consts_simp)
  then show ?thesis by (intro exI [of _ ?s]) simp
qed

end
