(* ===== verification/StateMachine.thy ===== *)
theory StateMachine
  imports Safety
begin

text \<open>
  The state machine of RT Ops (atrias_rt_ops/src/StateMachine.cpp), with the two operations
  of ControllerLoop.cpp it calls to connect and disconnect the controller.
\<close>

subsection \<open>Loading and unloading the controller\<close>

definition setControllerLoaded :: "rt_ops \<Rightarrow> rt_ops" where
  "setControllerLoaded s =
     (if controllerLoaded s then s
      else s\<lparr>controllerCalls := controllerCalls s @ [ConnectToController],
             controllerLoaded := True\<rparr>)"

definition setControllerUnloaded :: "rt_ops \<Rightarrow> rt_ops" where
  "setControllerUnloaded s =
     (if \<not> controllerLoaded s then s
      else s\<lparr>controllerLoaded := False,
             controllerCalls := controllerCalls s @ [DisconnectController]\<rparr>)"

subsection \<open>Commands of the controller manager\<close>

definition ackCMState :: "RtOpsState \<Rightarrow> rt_ops \<Rightarrow> rt_ops" where
  "ackCMState state s =
     (case state of
        NO_CONTROLLER_LOADED \<Rightarrow> sendEvent ACK_NO_CONTROLLER_LOADED s
      | DISABLED \<Rightarrow> sendEvent ACK_DISABLE s
      | ENABLED \<Rightarrow> sendEvent ACK_ENABLE s
      | RESET \<Rightarrow> s
      | E_STOP \<Rightarrow> sendEvent ACK_E_STOP s
      | HALT \<Rightarrow> sendEvent ACK_HALT s
      | UnnamedState _ \<Rightarrow> eStop ACK_INVALID s)"

definition newCMState :: "RtOpsState \<Rightarrow> rt_ops \<Rightarrow> rt_ops" where
  "newCMState new_state s =
     (case new_state of
        NO_CONTROLLER_LOADED \<Rightarrow>
          ackCMState new_state (setState new_state (setControllerUnloaded s))
      | DISABLED \<Rightarrow>
          ackCMState new_state (setState new_state (setControllerLoaded s))
      | ENABLED \<Rightarrow>
          (let (halt, s) = shouldHalt s;
               new_state = (if halt then DISABLED else new_state)
           in ackCMState new_state (setState new_state s))
      | RESET \<Rightarrow>
          ackCMState new_state (setState new_state (setControllerUnloaded s))
      | E_STOP \<Rightarrow>
          ackCMState new_state (setState new_state (eStop CM_COMMAND_ESTOP s))
      | HALT \<Rightarrow>
          ackCMState new_state (setState new_state s)
      | UnnamedState _ \<Rightarrow>
          setControllerUnloaded (eStop INVALID_CM_COMMAND s))"

subsection \<open>The state sent to the medullas\<close>

text \<open>
  \<open>calcState\<close> reads the state once, under its lock, and then switches on the value read;
  the two parts are separate here because other threads can run between them.
\<close>

definition calcState_on ::
  "RtOpsState \<Rightarrow> controller_output \<Rightarrow> rt_ops \<Rightarrow> medulla_state_t \<times> rt_ops" where
  "calcState_on state controllerOutput s =
     (case state of
        E_STOP \<Rightarrow> (medulla_state_error, s)
      | NO_CONTROLLER_LOADED \<Rightarrow> (medulla_state_idle, s)
      | DISABLED \<Rightarrow> (medulla_state_idle, s)
      | RESET \<Rightarrow>
          (let s = s\<lparr>resetCounter := resetCounter s + 1\<rparr>;
               s = (if resetCounter s > MEDULLA_RESET_TIME_MS
                    then sendEvent ACK_RESET
                           (setState NO_CONTROLLER_LOADED (s\<lparr>resetCounter := 0\<rparr>))
                    else s)
           in (medulla_state_reset, s))
      | ENABLED \<Rightarrow>
          (let s = (if co_command controllerOutput = medulla_state_error
                    then eStop CONTROLLER_ESTOP s else s);
               (estop, s) = shouldEStop controllerOutput s
           in if estop then (medulla_state_error, eStop MEDULLA_ESTOP s)
              else
                let (halt, s) = shouldHalt s
                in if halt then (medulla_state_halt, setState HALT s)
                   else (co_command controllerOutput, s))
      | HALT \<Rightarrow> (medulla_state_halt, s)
      | UnnamedState _ \<Rightarrow> (medulla_state_error, eStop INVALID_RT_OPS_STATE s))"

definition calcState :: "controller_output \<Rightarrow> rt_ops \<Rightarrow> medulla_state_t \<times> rt_ops" where
  "calcState controllerOutput s = calcState_on (getRtOpsState s) controllerOutput s"

subsection \<open>Frame facts\<close>

lemma controllerLoading_simps [simp]:
  "currentState (setControllerLoaded s) = currentState s"
  "currentState (setControllerUnloaded s) = currentState s"
  "resetCounter (setControllerLoaded s) = resetCounter s"
  "resetCounter (setControllerUnloaded s) = resetCounter s"
  "robotState (setControllerLoaded s) = robotState s"
  "robotState (setControllerUnloaded s) = robotState s"
  "sentOutputs (setControllerLoaded s) = sentOutputs s"
  "sentOutputs (setControllerUnloaded s) = sentOutputs s"
  "loop_at (setControllerLoaded s) = loop_at s"
  "loop_done (setControllerLoaded s) = loop_done s"
  "loop_at (setControllerUnloaded s) = loop_at s"
  "loop_done (setControllerUnloaded s) = loop_done s"
  "events (setControllerLoaded s) = events s"
  "events (setControllerUnloaded s) = events s"
  "controllerLoaded (setControllerLoaded s)"
  "\<not> controllerLoaded (setControllerUnloaded s)"
  by (simp_all add: setControllerLoaded_def setControllerUnloaded_def)

lemma ackCMState_simps [simp]:
  "currentState (ackCMState n s) = (if named_state n then currentState s else E_STOP)"
  "resetCounter (ackCMState n s) = resetCounter s"
  "robotState (ackCMState n s) = robotState s"
  "sentOutputs (ackCMState n s) = sentOutputs s"
  "loop_at (ackCMState n s) = loop_at s"
  "loop_done (ackCMState n s) = loop_done s"
  "controllerLoaded (ackCMState n s) = controllerLoaded s"
  "controllerCalls (ackCMState n s) = controllerCalls s"
  by (cases n; simp add: ackCMState_def sendEvent_def)+

lemma newCMState_simps [simp]:
  "resetCounter (newCMState n s) = resetCounter s"
  "robotState (newCMState n s) = robotState s"
  "sentOutputs (newCMState n s) = sentOutputs s"
  "loop_at (newCMState n s) = loop_at s"
  "loop_done (newCMState n s) = loop_done s"
  by (cases n; simp add: newCMState_def split_beta Let_def)+

lemma calcState_on_simps [simp]:
  "robotState (snd (calcState_on st co s)) = robotState s"
  "sentOutputs (snd (calcState_on st co s)) = sentOutputs s"
  "loop_at (snd (calcState_on st co s)) = loop_at s"
  "controllerLoaded (snd (calcState_on st co s)) = controllerLoaded s"
  by (cases st; simp add: calcState_on_def split_beta Let_def sendEvent_def)+

text \<open>The command the loop forwards is \<open>run\<close> only for a finite output, read in ENABLED.\<close>

lemma calcState_on_run:
  assumes "fst (calcState_on st co s) = medulla_state_run"
  shows "st = ENABLED" and "output_finite co" and "co_command co = medulla_state_run"
    and "\<not> must_halt (robotState s)" and "currentState s \<noteq> HALT"
  using assms
  by (cases st;
      auto simp: calcState_on_def split_beta Let_def consts_simp shouldHalt_fst split: if_splits)+

text \<open>The state a command of the controller manager leads to.\<close>

lemma newCMState_currentState:
  "currentState (newCMState n s) =
     (if currentState s = E_STOP \<and> n \<noteq> RESET then E_STOP
      else case n of
             ENABLED \<Rightarrow> if must_halt (robotState s) then DISABLED else ENABLED
           | UnnamedState _ \<Rightarrow> E_STOP
           | _ \<Rightarrow> n)"
  by (cases n)
    (simp_all add: newCMState_def split_beta Let_def rt_latch.get_put shouldHalt_fst)

lemma calcState_on_currentState:
  "currentState (snd (calcState_on st co s)) =
     (case st of
        RESET \<Rightarrow>
          if resetCounter s + 1 > MEDULLA_RESET_TIME_MS \<and> currentState s \<noteq> E_STOP
          then NO_CONTROLLER_LOADED else currentState s
      | ENABLED \<Rightarrow>
          if co_command co = medulla_state_error \<or> \<not> output_finite co \<or>
             currentState s \<in> {E_STOP, HALT} then E_STOP
          else if must_halt (robotState s) then HALT else currentState s
      | UnnamedState _ \<Rightarrow> E_STOP
      | _ \<Rightarrow> currentState s)"
  by (cases st)
    (auto simp: calcState_on_def split_beta Let_def rt_latch.get_put shouldHalt_fst sendEvent_def)

end
