(* ===== verification/ControllerLoop.thy ===== *)
theory ControllerLoop
  imports StateMachine
begin

text \<open>
  The control loop of RT Ops (atrias_rt_ops/src/ControllerLoop.cpp). One iteration of
  \<open>loop\<close> is cut where another thread can see or change the shared state: reading the robot
  state and running the controller, reading the state of the state machine, acting on it,
  and sending the output. The controller is external: its answer is an argument.
\<close>

definition clamp_leg :: "robot_variant \<Rightarrow> controller_output_leg \<Rightarrow> controller_output_leg" where
  "clamp_leg v l =
     l\<lparr>motorCurrentA := CLAMP (motorCurrentA l) (MIN_MTR_CURRENT_CMD v) (MAX_MTR_CURRENT_CMD v),
       motorCurrentB := CLAMP (motorCurrentB l) (MIN_MTR_CURRENT_CMD v) (MAX_MTR_CURRENT_CMD v),
       motorCurrentHip :=
         CLAMP (motorCurrentHip l) (MIN_HIP_MTR_CURRENT_CMD v) (MAX_HIP_MTR_CURRENT_CMD v)\<rparr>"

definition clampControllerOutput :: "robot_variant \<Rightarrow> controller_output \<Rightarrow> controller_output" where
  "clampControllerOutput v co =
     co\<lparr>co_lLeg := clamp_leg v (co_lLeg co), co_rLeg := clamp_leg v (co_rLeg co)\<rparr>"

definition zero_leg :: "controller_output_leg \<Rightarrow> controller_output_leg" where
  "zero_leg l = l\<lparr>motorCurrentA := 0, motorCurrentB := 0, motorCurrentHip := 0\<rparr>"

definition disable_unless_run :: "controller_output \<Rightarrow> controller_output" where
  "disable_unless_run co =
     (if co_command co \<noteq> medulla_state_run
      then co\<lparr>co_lLeg := zero_leg (co_lLeg co), co_rLeg := zero_leg (co_rLeg co)\<rparr> else co)"

subsection \<open>The loop\<close>

text \<open>
  The top of the loop: copy the robot state, take its time stamp, and run the controller if
  one is loaded. Otherwise the output is the freshly constructed message. The controller
  gets the copied robot state.
\<close>

type_synonym controller = "robot_state \<Rightarrow> controller_output"

definition loop_compute :: "controller \<Rightarrow> rt_ops \<Rightarrow> controller_output \<times> rt_ops" where
  "loop_compute runController s =
     (let state = getRobotState s;
          s = setTimestamp (header state) s
      in (if controllerLoaded s then runController state else controller_output_zero, s))"

definition loop_calc ::
  "RtOpsState \<Rightarrow> controller_output \<Rightarrow> rt_ops \<Rightarrow> controller_output \<times> rt_ops" where
  "loop_calc state co s =
     (let (command, s) = calcState_on state co s in (co\<lparr>co_command := command\<rparr>, s))"

definition loop_send :: "robot_variant \<Rightarrow> nsecs \<Rightarrow> controller_output \<Rightarrow> rt_ops \<Rightarrow> rt_ops" where
  "loop_send v now co s =
     (let s = s\<lparr>opsLogger := logControllerOutput co (opsLogger s)\<rparr>;
          co = clampControllerOutput v co;
          s = s\<lparr>opsLogger := logClampedControllerOutput co (opsLogger s)\<rparr>;
          co = disable_unless_run co;
          s = s\<lparr>sentOutputs := sentOutputs s @ [co]\<rparr>
      in s\<lparr>opsLogger := endCycle now (opsLogger s)\<rparr>)"

text \<open>One whole iteration, when no other thread runs in between.\<close>

definition loop_body :: "robot_variant \<Rightarrow> controller \<Rightarrow> nsecs \<Rightarrow> rt_ops \<Rightarrow> rt_ops" where
  "loop_body v runController now s =
     (let (co, s) = loop_compute runController s;
          (co, s) = loop_calc (getRtOpsState s) co s
      in loop_send v now co s)"

subsection \<open>Signals and shutdown\<close>

definition cycleLoop :: "rt_ops \<Rightarrow> rt_ops" where
  "cycleLoop s = (if signal s = 0 then s\<lparr>signal := signal s + 1\<rparr> else s)"

definition breakLoop :: "rt_ops \<Rightarrow> bool \<times> rt_ops" where
  "breakLoop s = (let s = cycleLoop (s\<lparr>loop_done := True\<rparr>) in (loop_done s, s))"

definition initialize_loop :: "rt_ops \<Rightarrow> bool \<times> rt_ops" where
  "initialize_loop s = (let s = s\<lparr>loop_done := False\<rparr> in (\<not> loop_done s, s))"

subsection \<open>What may be sent\<close>

text \<open>
  A safe output: every current is a number within the limits of its motor, and all are zero
  unless the command is \<open>run\<close>.
\<close>

definition leg_within :: "robot_variant \<Rightarrow> controller_output_leg \<Rightarrow> bool" where
  "leg_within v l \<longleftrightarrow> leg_finite l \<and>
     real_of_dbl (motorCurrentA l) \<in> {MIN_MTR_CURRENT_CMD v .. MAX_MTR_CURRENT_CMD v} \<and>
     real_of_dbl (motorCurrentB l) \<in> {MIN_MTR_CURRENT_CMD v .. MAX_MTR_CURRENT_CMD v} \<and>
     real_of_dbl (motorCurrentHip l) \<in> {MIN_HIP_MTR_CURRENT_CMD v .. MAX_HIP_MTR_CURRENT_CMD v}"

definition safe_output :: "robot_variant \<Rightarrow> controller_output \<Rightarrow> bool" where
  "safe_output v co \<longleftrightarrow> leg_within v (co_lLeg co) \<and> leg_within v (co_rLeg co) \<and>
     (co_command co \<noteq> medulla_state_run \<longrightarrow>
      co_lLeg co = controller_output_leg_zero \<and> co_rLeg co = controller_output_leg_zero)"

lemma variant_limits:
  assumes "variant_ok v"
  shows "MIN_MTR_CURRENT_CMD v \<le> MAX_MTR_CURRENT_CMD v"
    "MIN_HIP_MTR_CURRENT_CMD v \<le> MAX_HIP_MTR_CURRENT_CMD v"
    "MIN_MTR_CURRENT_CMD v \<le> 0" "0 \<le> MAX_MTR_CURRENT_CMD v"
    "MIN_HIP_MTR_CURRENT_CMD v \<le> 0" "0 \<le> MAX_HIP_MTR_CURRENT_CMD v"
  using assms by (simp_all add: variant_ok_def)

lemma clamp_leg_within: "variant_ok v \<Longrightarrow> leg_finite l \<Longrightarrow> leg_within v (clamp_leg v l)"
  by (simp add: leg_within_def clamp_leg_def leg_finite_def variant_limits
      macro.clamp_finite macro.clamp_bounds)

lemma zero_leg_eq: "zero_leg l = controller_output_leg_zero"
  by (cases l) (simp add: zero_leg_def controller_output_leg_zero_def)

lemma zero_leg_within: "variant_ok v \<Longrightarrow> leg_within v controller_output_leg_zero"
  by (simp add: leg_within_def leg_finite_def controller_output_leg_zero_def variant_limits)

lemma sent_output_safe:
  assumes "variant_ok v" and "co_command co = medulla_state_run \<Longrightarrow> output_finite co"
  shows "safe_output v (disable_unless_run (clampControllerOutput v co))"
proof (cases "co_command co = medulla_state_run")
  case True
  with assms show ?thesis
    by (simp add: safe_output_def disable_unless_run_def clampControllerOutput_def
        output_finite_def clamp_leg_within)
next
  case False
  then show ?thesis
    using assms(1) by (simp add: safe_output_def disable_unless_run_def clampControllerOutput_def
        zero_leg_eq zero_leg_within)
qed

text \<open>An output that is already within the limits passes through the clamp unchanged.\<close>

lemma clamp_leg_inside: "leg_within v l \<Longrightarrow> clamp_leg v l = l"
  by (cases l) (auto simp: leg_within_def clamp_leg_def leg_finite_def isfinite_iff
      macro.clamp_inside)

subsection \<open>Frame facts\<close>

lemma loop_compute_simps [simp]:
  "currentState (snd (loop_compute ctl s)) = currentState s"
  "resetCounter (snd (loop_compute ctl s)) = resetCounter s"
  "robotState (snd (loop_compute ctl s)) = robotState s"
  "sentOutputs (snd (loop_compute ctl s)) = sentOutputs s"
  "controllerLoaded (snd (loop_compute ctl s)) = controllerLoaded s"
  "loop_at (snd (loop_compute ctl s)) = loop_at s"
  "events (snd (loop_compute ctl s)) = events s"
  "printEStop_sent (snd (loop_compute ctl s)) = printEStop_sent s"
  by (simp_all add: loop_compute_def Let_def setTimestamp_def)

lemma loop_send_simps [simp]:
  "currentState (loop_send v n co s) = currentState s"
  "resetCounter (loop_send v n co s) = resetCounter s"
  "robotState (loop_send v n co s) = robotState s"
  "controllerLoaded (loop_send v n co s) = controllerLoaded s"
  "loop_at (loop_send v n co s) = loop_at s"
  "events (loop_send v n co s) = events s"
  "printEStop_sent (loop_send v n co s) = printEStop_sent s"
  "sentOutputs (loop_send v n co s) =
     sentOutputs s @ [disable_unless_run (clampControllerOutput v co)]"
  by (simp_all add: loop_send_def Let_def)

lemma loop_calc_fst:
  "fst (loop_calc st co s) = co\<lparr>co_command := fst (calcState_on st co s)\<rparr>"
  by (simp add: loop_calc_def split_beta)

lemma loop_calc_snd [simp]: "snd (loop_calc st co s) = snd (calcState_on st co s)"
  by (simp add: loop_calc_def split_beta)

lemma loop_calc_run_finite:
  "co_command (fst (loop_calc st co s)) = medulla_state_run \<Longrightarrow>
   output_finite (fst (loop_calc st co s))"
  using calcState_on_run(2) [of st co s] by (simp add: loop_calc_fst output_finite_def)

lemma loop_body_eq:
  "loop_body v ctl now s =
     (let s1 = snd (loop_compute ctl s); r = loop_calc (currentState s) (fst (loop_compute ctl s)) s1
      in loop_send v now (fst r) (snd r))"
  by (simp add: loop_body_def split_beta Let_def getRtOpsState_def)

text \<open>The operations of the loop do not look at the place of the loop.\<close>

lemma loop_at_frame:
  "setState n (s\<lparr>loop_at := x\<rparr>) = (setState n s)\<lparr>loop_at := x\<rparr>"
  "sendEvent_md ev md (s\<lparr>loop_at := x\<rparr>) = (sendEvent_md ev md s)\<lparr>loop_at := x\<rparr>"
  "sendEvent ev (s\<lparr>loop_at := x\<rparr>) = (sendEvent ev s)\<lparr>loop_at := x\<rparr>"
  "eStop ev (s\<lparr>loop_at := x\<rparr>) = (eStop ev s)\<lparr>loop_at := x\<rparr>"
  "safetyEvent m (s\<lparr>loop_at := x\<rparr>) = (safetyEvent m s)\<lparr>loop_at := x\<rparr>"
  by (simp_all add: setState_def sendEvent_def sendEvent_md_def eStop_def printEStop_def
      safetyEvent_def)

lemma checkCollision_loop_at:
  "checkCollision a b c d (s\<lparr>loop_at := x\<rparr>) =
     (fst (checkCollision a b c d s), (snd (checkCollision a b c d s))\<lparr>loop_at := x\<rparr>)"
  unfolding checkCollision_def Let_def getRobotState_def
  by (simp add: loop_at_frame del: RobotConfiguration_t.simps)

lemma checkPredicted_loop_at:
  "checkPredicted angle (s\<lparr>loop_at := x\<rparr>) =
     (fst (checkPredicted angle s), (snd (checkPredicted angle s))\<lparr>loop_at := x\<rparr>)"
  by (simp add: checkPredicted_def Let_def getRobotState_def checkCollision_loop_at)

lemma shouldHalt_loop_at:
  "shouldHalt (s\<lparr>loop_at := x\<rparr>) = (fst (shouldHalt s), (snd (shouldHalt s))\<lparr>loop_at := x\<rparr>)"
  unfolding shouldHalt_def Let_def getRobotState_def
  by (simp add: loop_at_frame checkPredicted_loop_at split_beta del: RobotConfiguration_t.simps)

lemma shouldEStop_loop_at:
  "shouldEStop co (s\<lparr>loop_at := x\<rparr>) = (fst (shouldEStop co s), (snd (shouldEStop co s))\<lparr>loop_at := x\<rparr>)"
  by (simp add: shouldEStop_def getRtOpsState_def)

lemma calcState_on_loop_at:
  "calcState_on st co (s\<lparr>loop_at := x\<rparr>) =
     (fst (calcState_on st co s), (snd (calcState_on st co s))\<lparr>loop_at := x\<rparr>)"
  by (cases st)
    (simp_all add: calcState_on_def split_beta Let_def loop_at_frame shouldEStop_loop_at
      shouldHalt_loop_at, simp add: setState_def sendEvent_def sendEvent_md_def)

end
