(* ===== verification/RtOps.thy ===== *)
theory RtOps
  imports ControllerLoop
begin

text \<open>
  RT Ops as a whole (atrias_rt_ops/src/RTOps.cpp): the callbacks the other components and
  the middleware call, and the transitions of the system in which the control loop's thread
  interleaves with them.
\<close>

subsection \<open>Callbacks\<close>

text \<open>\<open>start\<close> and \<open>now\<close> are the two clock readings of \<open>beginCycle\<close>.\<close>

definition newStateCallback :: "nsecs \<Rightarrow> nsecs \<Rightarrow> robot_state \<Rightarrow> rt_ops \<Rightarrow> rt_ops" where
  "newStateCallback start now state s =
     (let s = s\<lparr>opsLogger := beginCycle start now (opsLogger s)\<rparr>;
          (state, s) = setRobotState state s;
          s = cycleLoop s
      in s\<lparr>opsLogger := logRobotState state (opsLogger s)\<rparr>)"

text \<open>The port holds new data, which is cast to a state, or it does not.\<close>

definition updateHook :: "uint8 option \<Rightarrow> rt_ops \<Rightarrow> rt_ops" where
  "updateHook cmIn s =
     (case cmIn of Some w \<Rightarrow> newCMState (RtOpsState_of w) s | None \<Rightarrow> s)"

definition getROSHeader :: "rt_ops \<Rightarrow> std_header" where
  "getROSHeader s = getTimestampHeader s"

subsection \<open>Transitions\<close>

datatype rt_label =
    LoopStep
  | NewRobotState robot_state
  | CMCommand uint8
  | CustomEvent RtOpsEvent RtOpsEventMetadata_t
  | BreakLoop

inductive rt_step :: "robot_variant \<Rightarrow> rt_ops \<Rightarrow> rt_label \<Rightarrow> rt_ops \<Rightarrow> bool"
  for v :: robot_variant where
  compute: "loop_at s = AtTop \<Longrightarrow> \<not> loop_done s \<Longrightarrow> loop_compute ctl s = (co, s') \<Longrightarrow>
    rt_step v s LoopStep (s'\<lparr>loop_at := RunDone co\<rparr>)"
| exit: "loop_at s = AtTop \<Longrightarrow> loop_done s \<Longrightarrow> rt_step v s LoopStep (s\<lparr>loop_at := Exited\<rparr>)"
| read: "loop_at s = RunDone co \<Longrightarrow>
    rt_step v s LoopStep (s\<lparr>loop_at := StateRead (getRtOpsState s) co\<rparr>)"
| calc: "loop_at s = StateRead st co \<Longrightarrow> loop_calc st co s = (co', s') \<Longrightarrow>
    rt_step v s LoopStep (s'\<lparr>loop_at := CalcDone co'\<rparr>)"
| send: "loop_at s = CalcDone co \<Longrightarrow>
    rt_step v s LoopStep ((loop_send v now co s)\<lparr>loop_at := AtWait\<rparr>)"
| wake: "loop_at s = AtWait \<Longrightarrow> 0 < signal s \<Longrightarrow>
    rt_step v s LoopStep (s\<lparr>signal := signal s - 1, loop_at := AtTop\<rparr>)"
| new_state: "rt_step v s (NewRobotState st) (newStateCallback start now st s)"
| cm_command: "rt_step v s (CMCommand w) (updateHook (Some w) s)"
| custom_event: "rt_step v s (CustomEvent ev md) (sendEvent_md ev md s)"
| break_loop: "rt_step v s BreakLoop (snd (breakLoop s))"

inductive_cases rt_step_LoopE: "rt_step v s LoopStep s'"

inductive rt_reach :: "robot_variant \<Rightarrow> rt_ops \<Rightarrow> bool" for v :: robot_variant where
  init: "rt_reach v (new_RTOps garbage)"
| step: "rt_reach v s \<Longrightarrow> rt_step v s l s' \<Longrightarrow> rt_reach v s'"

text \<open>Runs with their labels, from any state.\<close>

inductive rt_run :: "robot_variant \<Rightarrow> rt_ops \<Rightarrow> rt_label list \<Rightarrow> rt_ops \<Rightarrow> bool"
  for v :: robot_variant where
  nil: "rt_run v s [] s"
| cons: "rt_step v s l s' \<Longrightarrow> rt_run v s' ls s'' \<Longrightarrow> rt_run v s (l # ls) s''"

lemma rt_run_invariant:
  assumes "rt_run v s ls s'" and "\<And>s l s'. rt_step v s l s' \<Longrightarrow> l \<in> L \<Longrightarrow> P s \<Longrightarrow> P s'"
    and "set ls \<subseteq> L" and "P s"
  shows "P s'"
  using assms(1,3,4) by (induction rule: rt_run.induct) (auto intro: assms(2))

lemma rt_run_append:
  "rt_run v s ls s' \<Longrightarrow> rt_run v s' ls' s'' \<Longrightarrow> rt_run v s (ls @ ls') s''"
  by (induction rule: rt_run.induct) (auto intro: rt_run.intros)

lemma rt_reach_run: "rt_run v s ls s' \<Longrightarrow> rt_reach v s \<Longrightarrow> rt_reach v s'"
  by (induction rule: rt_run.induct) (auto intro: rt_reach.step)

subsection \<open>Frame facts of the callbacks\<close>

lemma cycleLoop_simps [simp]:
  "currentState (cycleLoop s) = currentState s"
  "resetCounter (cycleLoop s) = resetCounter s"
  "robotState (cycleLoop s) = robotState s"
  "sentOutputs (cycleLoop s) = sentOutputs s"
  "controllerLoaded (cycleLoop s) = controllerLoaded s"
  "opsLogger (cycleLoop s) = opsLogger s"
  "loop_at (cycleLoop s) = loop_at s"
  "printEStop_sent (cycleLoop s) = printEStop_sent s"
  by (simp_all add: cycleLoop_def)

lemma breakLoop_simps [simp]:
  "currentState (snd (breakLoop s)) = currentState s"
  "resetCounter (snd (breakLoop s)) = resetCounter s"
  "sentOutputs (snd (breakLoop s)) = sentOutputs s"
  "loop_at (snd (breakLoop s)) = loop_at s"
  "events (snd (breakLoop s)) = events s"
  "printEStop_sent (snd (breakLoop s)) = printEStop_sent s"
  by (simp_all add: breakLoop_def Let_def)

lemma newStateCallback_simps [simp]:
  "resetCounter (newStateCallback t0 t1 st s) = resetCounter s"
  "sentOutputs (newStateCallback t0 t1 st s) = sentOutputs s"
  "loop_at (newStateCallback t0 t1 st s) = loop_at s"
  "controllerLoaded (newStateCallback t0 t1 st s) = controllerLoaded s"
  by (simp_all add: newStateCallback_def setRobotState_def Let_def)

lemma newStateCallback_robotState:
  "robotState (newStateCallback t0 t1 st s) = st\<lparr>rtOpsState := RtOpsState_t (currentState s)\<rparr>"
  by (simp add: newStateCallback_def setRobotState_def Let_def getRtOpsState_def)

lemma newStateCallback_currentState:
  "currentState (newStateCallback t0 t1 st s) =
     (if currentState s \<notin> {E_STOP, RESET} \<and> medulla_in_error st then E_STOP else currentState s)"
  by (simp add: newStateCallback_def setRobotState_def Let_def checkForNewErrors_def
      getRtOpsState_def medulla_in_error_def)

lemma updateHook_simps [simp]:
  "resetCounter (updateHook c s) = resetCounter s"
  "sentOutputs (updateHook c s) = sentOutputs s"
  "loop_at (updateHook c s) = loop_at s"
  by (simp_all add: updateHook_def split: option.split)

subsection \<open>Outputs\<close>

text \<open>
  What holds in every reachable state: every output sent is safe, and an output that the
  loop has computed but not yet sent has the command \<open>run\<close> only if its currents are finite.
\<close>

definition outputs_inv :: "robot_variant \<Rightarrow> rt_ops \<Rightarrow> bool" where
  "outputs_inv v s \<longleftrightarrow>
     (\<forall>co \<in> set (sentOutputs s). safe_output v co) \<and>
     (case loop_at s of
        CalcDone co \<Rightarrow> co_command co = medulla_state_run \<longrightarrow> output_finite co
      | _ \<Rightarrow> True)"

lemma outputs_inv_step:
  assumes "variant_ok v" and "rt_step v s l s'" and "outputs_inv v s"
  shows "outputs_inv v s'"
  using assms(2)
proof cases
  case (compute ctl co t)
  then have "sentOutputs t = sentOutputs s" using loop_compute_simps(4) [of ctl s] by simp
  with compute assms(3) show ?thesis by (simp add: outputs_inv_def)
next
  case (calc st co co' t)
  then have "sentOutputs t = sentOutputs s"
    "co_command co' = medulla_state_run \<Longrightarrow> output_finite co'"
    using calcState_on_simps(2) [of st co s] loop_calc_run_finite [of st co s]
      loop_calc_snd [of st co s] by simp_all
  with calc assms(3) show ?thesis by (simp add: outputs_inv_def)
next
  case (send co now)
  with assms(3) have "co_command co = medulla_state_run \<Longrightarrow> output_finite co"
    by (simp add: outputs_inv_def)
  with sent_output_safe [OF assms(1)] send assms(3) show ?thesis
    by (simp add: outputs_inv_def)
qed (use assms(3) in \<open>simp_all add: outputs_inv_def\<close>)

lemma outputs_inv_reach: "rt_reach v s \<Longrightarrow> variant_ok v \<Longrightarrow> outputs_inv v s"
proof (induction rule: rt_reach.induct)
  case (init garbage)
  then show ?case by (simp add: outputs_inv_def new_RTOps_def)
next
  case (step s l s')
  then show ?case by (blast intro: outputs_inv_step)
qed

lemma loop_body_run:
  assumes "loop_at s = AtTop" and "\<not> loop_done s"
  shows "rt_run v s [LoopStep, LoopStep, LoopStep, LoopStep]
    ((loop_body v ctl now s)\<lparr>loop_at := AtWait\<rparr>)"
proof -
  obtain co s1 where 1: "loop_compute ctl s = (co, s1)" by (cases "loop_compute ctl s")
  obtain c2 s2 where 2: "loop_calc (currentState s) co s1 = (c2, s2)"
    by (cases "loop_calc (currentState s) co s1")
  have cs: "currentState s1 = currentState s" using loop_compute_simps(1) [of ctl s] 1 by simp
  have c: "loop_calc st co (s1\<lparr>loop_at := x\<rparr>) =
      (fst (loop_calc st co s1), (snd (loop_calc st co s1))\<lparr>loop_at := x\<rparr>)" for st x
    by (simp add: loop_calc_def calcState_on_loop_at split_beta)
  have "rt_step v s LoopStep (s1\<lparr>loop_at := RunDone co\<rparr>)"
    using assms 1 by (rule rt_step.compute)
  moreover have "rt_step v (s1\<lparr>loop_at := RunDone co\<rparr>) LoopStep
      (s1\<lparr>loop_at := StateRead (currentState s) co\<rparr>)"
    using rt_step.read [of "s1\<lparr>loop_at := RunDone co\<rparr>" co v] cs by (simp add: getRtOpsState_def)
  moreover have "rt_step v (s1\<lparr>loop_at := StateRead (currentState s) co\<rparr>) LoopStep
      (s2\<lparr>loop_at := CalcDone c2\<rparr>)"
    using rt_step.calc [of "s1\<lparr>loop_at := StateRead (currentState s) co\<rparr>" "currentState s" co c2
        "s2\<lparr>loop_at := StateRead (currentState s) co\<rparr>" v] c 2 by simp
  moreover have "rt_step v (s2\<lparr>loop_at := CalcDone c2\<rparr>) LoopStep
      ((loop_send v now c2 (s2\<lparr>loop_at := CalcDone c2\<rparr>))\<lparr>loop_at := AtWait\<rparr>)"
    by (rule rt_step.send) simp
  moreover have "(loop_send v now c2 (s2\<lparr>loop_at := CalcDone c2\<rparr>))\<lparr>loop_at := AtWait\<rparr> =
      (loop_body v ctl now s)\<lparr>loop_at := AtWait\<rparr>"
    by (simp add: loop_body_def 1 2 cs getRtOpsState_def loop_send_def Let_def)
  ultimately show ?thesis by (metis rt_run.nil rt_run.cons)
qed

subsection \<open>The emergency stop\<close>

lemma estop_step:
  assumes "rt_step v s l s'" and "l \<noteq> CMCommand 3" and "currentState s = E_STOP"
  shows "currentState s' = E_STOP"
  using assms(1)
proof cases
  case (compute ctl co t)
  then show ?thesis using assms(3) loop_compute_simps(1) [of ctl s] by simp
next
  case (calc st co co' t)
  then show ?thesis using assms(3) calcState_on_currentState [of st co s] loop_calc_snd [of st co s]
    by (simp split: RtOpsState.splits if_splits)
next
  case (cm_command w)
  then show ?thesis using assms(2,3)
    by (simp add: updateHook_def newCMState_currentState)
qed (use assms(3) in \<open>simp_all add: getRtOpsState_def newStateCallback_currentState\<close>)

text \<open>What the loop still holds when the machine has been in E_STOP since the loop's top.\<close>

definition stopped_inv :: "controller_output list \<Rightarrow> rt_ops \<Rightarrow> bool" where
  "stopped_inv sent s \<longleftrightarrow> currentState s = E_STOP \<and>
     (case loop_at s of
        StateRead st co \<Rightarrow> st = E_STOP
      | CalcDone co \<Rightarrow> co_command co = medulla_state_error
      | _ \<Rightarrow> True) \<and>
     (\<exists>outs. sentOutputs s = sent @ outs \<and>
       (\<forall>co \<in> set outs. co_command co = medulla_state_error \<and>
         co_lLeg co = controller_output_leg_zero \<and> co_rLeg co = controller_output_leg_zero))"

lemma disable_not_run:
  assumes "co_command co \<noteq> medulla_state_run"
  shows "co_command (disable_unless_run (clampControllerOutput v co)) = co_command co"
    and "co_lLeg (disable_unless_run (clampControllerOutput v co)) = controller_output_leg_zero"
    and "co_rLeg (disable_unless_run (clampControllerOutput v co)) = controller_output_leg_zero"
  using assms by (simp_all add: disable_unless_run_def clampControllerOutput_def zero_leg_eq)

lemma disable_command:
  "co_command (disable_unless_run (clampControllerOutput v co)) = co_command co"
  by (simp add: disable_unless_run_def clampControllerOutput_def)

lemma stopped_inv_step:
  assumes "rt_step v s l s'" and "l \<noteq> CMCommand 3" and inv: "stopped_inv sent s"
  shows "stopped_inv sent s'"
proof -
  from inv have "currentState s = E_STOP" by (simp add: stopped_inv_def)
  with estop_step [OF assms(1,2)] have E: "currentState s' = E_STOP" .
  from assms(1) show ?thesis
  proof cases
    case (compute ctl co t)
    then have "sentOutputs t = sentOutputs s" using loop_compute_simps(4) [of ctl s] by simp
    with compute inv E show ?thesis by (simp add: stopped_inv_def)
  next
    case (calc st co co' t)
    with inv have "st = E_STOP" by (simp add: stopped_inv_def)
    with calc have "co_command co' = medulla_state_error" "sentOutputs t = sentOutputs s"
      by (auto simp: loop_calc_def calcState_on_def)
    with calc inv E show ?thesis by (simp add: stopped_inv_def)
  next
    case (send co now)
    with inv have "co_command co = medulla_state_error" by (simp add: stopped_inv_def)
    moreover from this have "co_command co \<noteq> medulla_state_run" by (simp add: consts_simp)
    ultimately show ?thesis using disable_not_run [of co v] send inv E
      by (fastforce simp: stopped_inv_def)
  qed (use inv E in \<open>simp_all add: stopped_inv_def getRtOpsState_def\<close>)
qed

text \<open>
  Wherever the loop is when the machine is in E_STOP: what it sends from then on, until a reset, stops the robot, but for
  one output that it may already have been preparing.
\<close>

definition between_outputs :: "rt_ops \<Rightarrow> bool" where
  "between_outputs s \<longleftrightarrow> loop_at s \<in> {AtTop, AtWait} \<union> range RunDone"

definition stop_output :: "controller_output \<Rightarrow> bool" where
  "stop_output co \<longleftrightarrow> co_command co = medulla_state_error \<and>
     co_lLeg co = controller_output_leg_zero \<and> co_rLeg co = controller_output_leg_zero"

text \<open>The machine is in E_STOP and has sent nothing yet, or it has, and is stopped.\<close>

definition stopping_inv :: "controller_output list \<Rightarrow> rt_ops \<Rightarrow> bool" where
  "stopping_inv sent s \<longleftrightarrow> currentState s = E_STOP \<and>
     (sentOutputs s = sent \<or> (\<exists>first. stopped_inv (sent @ [first]) s))"

lemma stopping_inv_step:
  assumes "rt_step v s l s'" and "l \<noteq> CMCommand 3" and inv: "stopping_inv sent s"
  shows "stopping_inv sent s'"
proof (cases "sentOutputs s = sent")
  case False
  then obtain first where "stopped_inv (sent @ [first]) s" using inv by (auto simp: stopping_inv_def)
  from stopped_inv_step [OF assms(1,2) this] show ?thesis by (auto simp: stopping_inv_def stopped_inv_def)
next
  case True
  have E: "currentState s' = E_STOP" using inv estop_step [OF assms(1,2)] by (simp add: stopping_inv_def)
  from assms(1) show ?thesis
  proof cases
    case (compute ctl co t)
    then show ?thesis using True E loop_compute_simps(4) [of ctl s] by (simp add: stopping_inv_def)
  next
    case (calc st co co' t)
    then have "sentOutputs t = sentOutputs s" using loop_calc_snd [of st co s] by simp
    then show ?thesis using True E calc by (simp add: stopping_inv_def)
  next
    case (send co now)
    then show ?thesis using True E by (auto simp: stopping_inv_def stopped_inv_def)
  qed (use True E in \<open>simp_all add: stopping_inv_def\<close>)
qed

lemma estop_outputs:
  assumes "rt_run v s ls s'" and "currentState s = E_STOP" and "CMCommand 3 \<notin> set ls"
  shows "currentState s' = E_STOP \<and> (\<exists>outs. sentOutputs s' = sentOutputs s @ outs \<and>
    list_all stop_output (if between_outputs s then outs else tl outs))"
proof (cases "between_outputs s")
  case True
  then have "stopped_inv (sentOutputs s) s" using assms(2) by (auto simp: stopped_inv_def between_outputs_def)
  then have "stopped_inv (sentOutputs s) s'"
    using assms(3) stopped_inv_step
    by (intro rt_run_invariant [OF assms(1), where L = "- {CMCommand 3}" and P = "stopped_inv (sentOutputs s)"]) auto
  then show ?thesis using True by (auto simp: stopped_inv_def list_all_iff stop_output_def)
next
  case False
  have "stopping_inv (sentOutputs s) s" using assms(2) by (simp add: stopping_inv_def)
  then have "stopping_inv (sentOutputs s) s'"
    using assms(3) stopping_inv_step
    by (intro rt_run_invariant [OF assms(1), where L = "- {CMCommand 3}" and P = "stopping_inv (sentOutputs s)"]) auto
  then show ?thesis using False by (auto simp: stopping_inv_def stopped_inv_def list_all_iff stop_output_def)
qed

subsection \<open>Entering the emergency stop is reported\<close>

text \<open>An operation that reports what it stops for, in the event log and to the diagnostics.\<close>

definition reports_stop :: "rt_ops \<Rightarrow> rt_ops \<Rightarrow> bool" where
  "reports_stop s s' \<longleftrightarrow> (\<exists>ev p q p'.
     printEStop_sent s' = printEStop_sent s @ p' @ [ev] \<and>
     events s' = events s @ p @ event_msg ev 0 # q)"

lemma newCMState_reports_stop:
  assumes "currentState s \<noteq> E_STOP" and "currentState (newCMState n s) = E_STOP"
  shows "reports_stop s (newCMState n s)"
proof -
  from assms have "n = E_STOP \<or> (\<exists>w. n = UnnamedState w)"
    by (cases n) (auto simp: newCMState_currentState split: if_splits)
  then show ?thesis
  proof
    assume "n = E_STOP"
    then show ?thesis unfolding reports_stop_def
      by (intro exI [of _ CM_COMMAND_ESTOP] exI [of _ "[]"] exI [of _ "[event_msg ACK_E_STOP 0]"])
        (simp add: newCMState_def ackCMState_def sendEvent_def)
  next
    assume "\<exists>w. n = UnnamedState w"
    then show ?thesis unfolding reports_stop_def
      by (intro exI [of _ INVALID_CM_COMMAND] exI [of _ "[]"])
        (auto simp: newCMState_def setControllerUnloaded_def)
  qed
qed

lemma calcState_on_reports_stop:
  assumes "currentState s \<noteq> E_STOP" and "currentState (snd (calcState_on st co s)) = E_STOP"
  shows "reports_stop s (snd (calcState_on st co s))"
proof (cases st)
  case ENABLED
  let ?s1 = "if co_command co = medulla_state_error then eStop CONTROLLER_ESTOP s else s"
  let ?s2 = "snd (shouldEStop co ?s1)"
  have p2: "printEStop_sent ?s2 = printEStop_sent ?s1"
    by (simp add: shouldEStop_def)
  show ?thesis
  proof (cases "fst (shouldEStop co ?s1)")
    case True
    then have "snd (calcState_on st co s) = eStop MEDULLA_ESTOP ?s2"
      by (simp add: ENABLED calcState_on_def split_beta Let_def)
    then show ?thesis unfolding reports_stop_def
      by (intro exI [of _ MEDULLA_ESTOP] exI [of _ "[]"]
          exI [of _ "if co_command co = medulla_state_error then [event_msg CONTROLLER_ESTOP 0] else []"]
          exI [of _ "if co_command co = medulla_state_error then [CONTROLLER_ESTOP] else []"])
        (simp add: p2)
  next
    case False
    then have r: "snd (calcState_on st co s) =
        (if fst (shouldHalt ?s2) then setState HALT (snd (shouldHalt ?s2)) else snd (shouldHalt ?s2))"
      by (simp add: ENABLED calcState_on_def split_beta Let_def)
    from False assms have e: "co_command co = medulla_state_error"
      by (auto simp: ENABLED calcState_on_currentState split: if_splits)
    from shouldHalt_spec [of ?s2] obtain s3 where s3: "snd (shouldHalt ?s2) = s3"
        "reports (must_halt (robotState ?s2)) ?s2 s3" by (metis snd_conv)
    then have "printEStop_sent s3 = printEStop_sent s @ [CONTROLLER_ESTOP]"
      and "\<exists>q. events s3 = events s @ event_msg CONTROLLER_ESTOP 0 # q"
      using e p2 by (auto simp: reports_def split: if_splits)
    then obtain q where "printEStop_sent (snd (calcState_on st co s)) =
        printEStop_sent s @ [] @ [CONTROLLER_ESTOP]"
      "events (snd (calcState_on st co s)) = events s @ [] @ event_msg CONTROLLER_ESTOP 0 # q"
      using r s3(1) by auto
    then show ?thesis unfolding reports_stop_def by blast
  qed
next
  case (UnnamedState w)
  then show ?thesis unfolding reports_stop_def
    by (intro exI [of _ INVALID_RT_OPS_STATE] exI [of _ "[]"]) (simp add: calcState_on_def)
qed (use assms in \<open>simp_all add: calcState_on_currentState split: if_splits\<close>)

lemma step_reports_stop:
  assumes "rt_step v s l s'" and "currentState s \<noteq> E_STOP" and "currentState s' = E_STOP"
  shows "reports_stop s s'"
  using assms(1)
proof cases
  case (compute ctl co t)
  then show ?thesis using assms(2,3) loop_compute_simps(1) [of ctl s] by simp
next
  case (calc st co co' t)
  then have t: "t = snd (calcState_on st co s)" using loop_calc_snd [of st co s] by simp
  with calc assms(2,3) calcState_on_reports_stop [of s st co]
  show ?thesis by (simp add: reports_stop_def)
next
  case (cm_command w)
  then show ?thesis using assms(2,3) newCMState_reports_stop [of s "RtOpsState_of w"]
    by (simp add: updateHook_def)
next
  case (new_state st start now)
  with assms(2,3) have "medulla_in_error st" "currentState s \<noteq> RESET"
    by (auto simp: newStateCallback_currentState split: if_splits)
  with new_state assms(2) show ?thesis unfolding reports_stop_def
    by (intro exI [of _ MEDULLA_ESTOP] exI [of _ "[]"])
      (simp add: newStateCallback_def setRobotState_def Let_def checkForNewErrors_def
        getRtOpsState_def medulla_in_error_def)
qed (use assms(2,3) in simp_all)

subsection \<open>One iteration of the loop\<close>

definition controller_answer :: "controller \<Rightarrow> rt_ops \<Rightarrow> controller_output" where
  "controller_answer ctl s =
     (if controllerLoaded s then ctl (robotState s) else controller_output_zero)"

lemma loop_compute_fst: "fst (loop_compute ctl s) = controller_answer ctl s"
  by (simp add: loop_compute_def controller_answer_def Let_def getRobotState_def setTimestamp_def)

lemma must_halt_compute: "must_halt (robotState (snd (loop_compute ctl s))) = must_halt (robotState s)"
  by simp

text \<open>The command the loop sends, by the state it runs in.\<close>

definition iteration_command :: "RtOpsState \<Rightarrow> bool \<Rightarrow> controller_output \<Rightarrow> medulla_state_t" where
  "iteration_command st halt co =
     (case st of
        E_STOP \<Rightarrow> medulla_state_error
      | NO_CONTROLLER_LOADED \<Rightarrow> medulla_state_idle
      | DISABLED \<Rightarrow> medulla_state_idle
      | RESET \<Rightarrow> medulla_state_reset
      | ENABLED \<Rightarrow> if \<not> output_finite co then medulla_state_error
                   else if halt then medulla_state_halt else co_command co
      | HALT \<Rightarrow> medulla_state_halt
      | UnnamedState _ \<Rightarrow> medulla_state_error)"

lemma calcState_on_command:
  assumes "currentState s = st"
  shows "fst (calcState_on st co s) = iteration_command st (must_halt (robotState s)) co"
  using assms
  by (cases st) (simp_all add: calcState_on_def iteration_command_def split_beta Let_def shouldHalt_fst)

lemma loop_body_sent:
  "sentOutputs (loop_body v ctl now s) = sentOutputs s @ [disable_unless_run (clampControllerOutput v
     ((controller_answer ctl s)\<lparr>co_command :=
        iteration_command (currentState s) (must_halt (robotState s)) (controller_answer ctl s)\<rparr>))]"
  by (simp add: loop_body_eq Let_def loop_calc_fst loop_compute_fst calcState_on_command)

lemma loop_body_currentState:
  "currentState (loop_body v ctl now s) =
     currentState (snd (calcState_on (currentState s) (controller_answer ctl s)
       (snd (loop_compute ctl s))))"
  by (simp add: loop_body_eq Let_def loop_compute_fst)

lemma loop_body_other [simp]:
  "robotState (loop_body v ctl now s) = robotState s"
  "controllerLoaded (loop_body v ctl now s) = controllerLoaded s"
  by (simp_all add: loop_body_eq Let_def)

text \<open>The iterations of a reset.\<close>

lemma loop_body_reset:
  assumes "currentState s = RESET"
  shows "resetCounter (loop_body v ctl now s) =
      (if MEDULLA_RESET_TIME_MS < resetCounter s + 1 then 0 else resetCounter s + 1)"
    and "currentState (loop_body v ctl now s) =
      (if MEDULLA_RESET_TIME_MS < resetCounter s + 1 then NO_CONTROLLER_LOADED else RESET)"
    and "events (loop_body v ctl now s) = events s @
      (if MEDULLA_RESET_TIME_MS < resetCounter s + 1 then [event_msg ACK_RESET 0] else [])"
    and "co_command (last (sentOutputs (loop_body v ctl now s))) = medulla_state_reset"
  using assms
  by (simp_all add: loop_body_eq Let_def calcState_on_def rt_latch.get_put sendEvent_def
      disable_command loop_calc_fst setState_def)

definition iterate_loop :: "robot_variant \<Rightarrow> rt_ops \<Rightarrow> (controller \<times> nsecs) list \<Rightarrow> rt_ops" where
  "iterate_loop v = run (\<lambda>s (ctl, now). loop_body v ctl now s)"

lemma reset_iterations:
  assumes "currentState s = RESET" and "0 \<le> resetCounter s"
    and "resetCounter s + int (length cs) \<le> MEDULLA_RESET_TIME_MS"
  shows "currentState (iterate_loop v s cs) = RESET \<and>
    resetCounter (iterate_loop v s cs) = resetCounter s + int (length cs) \<and>
    events (iterate_loop v s cs) = events s"
  using assms
proof (induction cs arbitrary: s)
  case Nil
  then show ?case by (simp add: iterate_loop_def)
next
  case (Cons c cs)
  obtain ctl now where c: "c = (ctl, now)" by (cases c)
  let ?s = "loop_body v ctl now s"
  from Cons.prems have "currentState ?s = RESET" "resetCounter ?s = resetCounter s + 1"
    "events ?s = events s"
    by (simp_all add: loop_body_reset)
  with Cons.IH [of ?s] Cons.prems show ?case by (simp add: c iterate_loop_def)
qed

subsection \<open>A concrete run\<close>

text \<open>
  A machine that has loaded and enabled a controller, for the instances of the properties,
  and a controller whose answer holds a NaN.
\<close>

definition enabled_machine :: rt_ops where
  "enabled_machine = updateHook (Some 2) (updateHook (Some 1) (new_RTOps NO_CONTROLLER_LOADED))"

definition nan_controller :: controller where
  "nan_controller st =
     controller_output_zero\<lparr>co_command := medulla_state_run,
       co_lLeg := controller_output_leg_zero\<lparr>motorCurrentA := NaN\<rparr>\<rparr>"

lemma not_must_halt_zero: "\<not> must_halt robot_state_zero"
  by (simp add: must_halt_def medulla_halted_def safeties_disabled_def robot_state_zero_def
      robot_state_leg_zero_def robot_state_legHalf_zero_def robot_state_hip_zero_def consts_simp)

lemma new_RTOps_simps [simp]:
  "currentState (new_RTOps garbage) = (if garbage = E_STOP then E_STOP else NO_CONTROLLER_LOADED)"
  "robotState (new_RTOps garbage) = robot_state_zero"
  "loop_at (new_RTOps garbage) = AtTop"
  "\<not> loop_done (new_RTOps garbage)"
  "sentOutputs (new_RTOps garbage) = []"
  "events (new_RTOps garbage) = []"
  "printEStop_sent (new_RTOps garbage) = []"
  "resetCounter (new_RTOps garbage) = 0"
  "\<not> controllerLoaded (new_RTOps garbage)"
  by (simp_all add: new_RTOps_def rt_latch.get_put new_OpsLogger_def)

lemma enabled_machine_simps:
  "currentState enabled_machine = ENABLED" "controllerLoaded enabled_machine"
  "robotState enabled_machine = robot_state_zero" "loop_at enabled_machine = AtTop"
  "\<not> loop_done enabled_machine" "sentOutputs enabled_machine = []"
  by (simp_all add: enabled_machine_def updateHook_def newCMState_currentState not_must_halt_zero,
      simp add: newCMState_def split_beta Let_def)

lemma enabled_machine_reach: "rt_reach v enabled_machine"
  unfolding enabled_machine_def by (intro rt_reach.step [OF _ rt_step.cm_command] rt_reach.init)

subsection \<open>Properties\<close>

text \<open>
  C1. In every reachable state of RT Ops, whatever the controllers returned (NaN included),
  however the control loop interleaved with robot states, commands and events, and whatever
  state the memory of the state machine started with: every output sent to the robot has
  finite currents within the limits of the variant, and zero currents unless it commands run.
\<close>

theorem sent_outputs_safe:
  assumes "rt_reach v s" and "variant_ok v" and "co \<in> set (sentOutputs s)"
  shows "safe_output v co"
  using outputs_inv_reach [OF assms(1,2)] assms(3) by (simp add: outputs_inv_def)

lemma sent_outputs_safe_witness:
  "\<exists>s co. rt_reach biped1 s \<and> co \<in> set (sentOutputs s) \<and> safe_output biped1 co"
proof -
  let ?s = "(loop_body biped1 nan_controller 0 enabled_machine)\<lparr>loop_at := AtWait\<rparr>"
  have "rt_reach biped1 ?s"
    by (rule rt_reach_run [OF loop_body_run enabled_machine_reach]) (simp_all add: enabled_machine_simps)
  moreover have "last (sentOutputs ?s) \<in> set (sentOutputs ?s)"
    by (simp add: loop_body_sent)
  ultimately show ?thesis
    using sent_outputs_safe [of biped1 ?s "last (sentOutputs ?s)"] variant_ok_bipeds(1) by blast
qed

text \<open>
  C2. Once in E_STOP, RT Ops stays there whatever happens in any interleaving, until the controller manager commands RESET,
  and every output that its loop sends from then on commands error with zero currents; only when the stop finds the loop
  between reading the state and sending, the first output may still be the one it was preparing.
\<close>

theorem estop_latched:
  assumes "rt_run v s ls s'" and "currentState s = E_STOP" and "CMCommand 3 \<notin> set ls"
  shows "currentState s' = E_STOP \<and>
    (\<exists>outs. sentOutputs s' = sentOutputs s @ outs \<and>
      (\<forall>co \<in> set (if loop_at s \<in> {AtTop, AtWait} \<union> range RunDone then outs else tl outs).
         co_command co = medulla_state_error \<and>
         co_lLeg co = controller_output_leg_zero \<and> co_rLeg co = controller_output_leg_zero))"
  using estop_outputs [OF assms] by (simp add: list_all_iff stop_output_def between_outputs_def)

lemma estop_latched_witness:
  "\<exists>s'. rt_run biped1 (eStop MEDULLA_ESTOP enabled_machine) [CMCommand 2, LoopStep] s' \<and>
     currentState s' = E_STOP"
proof -
  let ?s = "eStop MEDULLA_ESTOP enabled_machine"
  let ?s1 = "updateHook (Some 2) ?s"
  let ?r = "loop_compute nan_controller ?s1"
  have "rt_step biped1 ?s1 LoopStep ((snd ?r)\<lparr>loop_at := RunDone (fst ?r)\<rparr>)"
    by (rule rt_step.compute [OF _ _ surjective_pairing])
      (simp_all add: enabled_machine_simps updateHook_def)
  then have r: "rt_run biped1 ?s [CMCommand 2, LoopStep] ((snd ?r)\<lparr>loop_at := RunDone (fst ?r)\<rparr>)"
    by (blast intro: rt_run.intros rt_step.cm_command)
  from estop_latched [OF r] show ?thesis
    using r by (auto simp: enabled_machine_simps)
qed

text \<open>
  C25. Every transition of RT Ops into E_STOP writes the reason to the event port and sends
  the same reason to the diagnostics.
\<close>

theorem estop_entry_reported:
  assumes "rt_step v s l s'" and "currentState s \<noteq> E_STOP" and "currentState s' = E_STOP"
  shows "\<exists>ev p q p'. printEStop_sent s' = printEStop_sent s @ p' @ [ev] \<and>
    events s' = events s @ p @ event_msg ev 0 # q"
  using step_reports_stop [OF assms] by (simp add: reports_stop_def)

lemma estop_entry_reported_witness:
  "\<exists>ev p q p'. printEStop_sent (updateHook (Some 4) enabled_machine) =
      printEStop_sent enabled_machine @ p' @ [ev] \<and>
    events (updateHook (Some 4) enabled_machine) = events enabled_machine @ p @ event_msg ev 0 # q"
  by (rule estop_entry_reported [OF rt_step.cm_command [of biped1]])
    (simp_all add: enabled_machine_simps updateHook_def newCMState_currentState)

text \<open>
  C3. The output of one undisturbed iteration, for every state: error in E_STOP, idle with no
  enabled controller, reset, halt, and in ENABLED the controller's own command, unless its
  currents are not all finite (error) or the halt check fires (halt). The currents are the
  controller's, clamped, exactly when the command is run, and zero otherwise.
\<close>

theorem iteration_output:
  fixes v ctl s
  defines "co \<equiv> controller_answer ctl s"
  defines "cmd \<equiv> iteration_command (currentState s) (must_halt (robotState s)) co"
  shows "\<exists>sent. sentOutputs (loop_body v ctl now s) = sentOutputs s @ [sent] \<and>
    co_command sent = cmd \<and>
    co_lLeg sent = (if cmd = medulla_state_run then clamp_leg v (co_lLeg co)
                    else controller_output_leg_zero) \<and>
    co_rLeg sent = (if cmd = medulla_state_run then clamp_leg v (co_rLeg co)
                    else controller_output_leg_zero)"
  unfolding loop_body_sent cmd_def co_def
  by (simp add: disable_unless_run_def clampControllerOutput_def zero_leg_eq)

text \<open>
  C23. An enabled controller that returns a NaN or an infinity anywhere stops the robot: the
  iteration ends in E_STOP with the event MEDULLA_ESTOP, and sends error with zero currents.
\<close>

theorem nonfinite_output_stops:
  assumes "currentState s = ENABLED" and "controllerLoaded s"
    and "\<not> output_finite (ctl (robotState s))"
  shows "currentState (loop_body v ctl now s) = E_STOP \<and>
    last (events (loop_body v ctl now s)) = event_msg MEDULLA_ESTOP 0 \<and>
    last (sentOutputs (loop_body v ctl now s)) =
      \<lparr>co_command = medulla_state_error, co_lLeg = controller_output_leg_zero,
       co_rLeg = controller_output_leg_zero\<rparr>"
proof -
  let ?co = "ctl (robotState s)"
  from assms have a: "controller_answer ctl s = ?co" by (simp add: controller_answer_def)
  have "last (events (loop_body v ctl now s)) = event_msg MEDULLA_ESTOP 0"
    using assms by (simp add: loop_body_eq Let_def loop_compute_fst a calcState_on_def split_beta)
  moreover have "last (sentOutputs (loop_body v ctl now s)) =
      \<lparr>co_command = medulla_state_error, co_lLeg = controller_output_leg_zero,
       co_rLeg = controller_output_leg_zero\<rparr>"
    using assms
    by (simp add: loop_body_sent a iteration_command_def disable_unless_run_def
        clampControllerOutput_def zero_leg_eq consts_simp)
  ultimately show ?thesis
    using assms by (simp add: loop_body_currentState calcState_on_currentState a)
qed

lemma nonfinite_output_stops_witness:
  "currentState (loop_body biped1 nan_controller 0 enabled_machine) = E_STOP"
  using nonfinite_output_stops [of enabled_machine nan_controller biped1 0]
  by (simp add: enabled_machine_simps nan_controller_def output_finite_def leg_finite_def)

text \<open>
  C26. A reset takes MEDULLA_RESET_TIME_MS + 1 iterations of the loop less the count left by an
  earlier, interrupted reset; it then ends in NO_CONTROLLER_LOADED with the counter cleared,
  and exactly one ACK_RESET is sent, in its last iteration.
\<close>

theorem reset_completes:
  assumes "currentState s = RESET" and "0 \<le> resetCounter s"
    and "resetCounter s + int (length cs) = MEDULLA_RESET_TIME_MS"
  shows "let s' = iterate_loop v s (cs @ [c]) in
    currentState (iterate_loop v s cs) = RESET \<and> events (iterate_loop v s cs) = events s \<and>
    currentState s' = NO_CONTROLLER_LOADED \<and> resetCounter s' = 0 \<and>
    events s' = events s @ [event_msg ACK_RESET 0]"
proof -
  from reset_iterations [OF assms(1,2), of cs v] assms(3)
  have 1: "currentState (iterate_loop v s cs) = RESET"
    "resetCounter (iterate_loop v s cs) = MEDULLA_RESET_TIME_MS"
    "events (iterate_loop v s cs) = events s" by simp_all
  obtain ctl now where c: "c = (ctl, now)" by (cases c)
  have "iterate_loop v s (cs @ [c]) = loop_body v ctl now (iterate_loop v s cs)"
    by (simp add: iterate_loop_def c)
  with loop_body_reset [OF 1(1), of v ctl now] 1 show ?thesis by (simp add: Let_def)
qed

lemma reset_completes_witness:
  "let s = updateHook (Some 3) enabled_machine; c = (nan_controller, 0);
       s' = iterate_loop biped1 s (replicate 5 c @ [c])
   in currentState s' = NO_CONTROLLER_LOADED \<and> events s' = events s @ [event_msg ACK_RESET 0]"
proof -
  have "resetCounter enabled_machine = 0" by (simp add: enabled_machine_def)
  then show ?thesis
    using reset_completes [of "updateHook (Some 3) enabled_machine"
        "replicate 5 (nan_controller, 0)" biped1 "(nan_controller, 0)"]
    by (simp add: enabled_machine_simps updateHook_def newCMState_currentState consts_simp Let_def)
qed

text \<open>
  What a command of the controller manager does: the state it leads to, given that only
  RESET leaves E_STOP and that enabling a robot that must halt disables it; whether the
  controller is connected afterwards; and that the commands do not touch the reset counter.
\<close>

theorem newCMState_effect:
  "currentState (newCMState n s) =
     (if currentState s = E_STOP \<and> n \<noteq> RESET then E_STOP
      else case n of
             ENABLED \<Rightarrow> if must_halt (robotState s) then DISABLED else ENABLED
           | UnnamedState _ \<Rightarrow> E_STOP
           | _ \<Rightarrow> n) \<and>
   controllerLoaded (newCMState n s) =
     (case n of NO_CONTROLLER_LOADED \<Rightarrow> False | DISABLED \<Rightarrow> True | RESET \<Rightarrow> False
        | UnnamedState _ \<Rightarrow> False | _ \<Rightarrow> controllerLoaded s) \<and>
   resetCounter (newCMState n s) = resetCounter s"
  by (cases n) (simp_all add: newCMState_currentState, simp_all add: newCMState_def split_beta Let_def)

text \<open>
  A command that E_STOP refuses is acknowledged all the same: ENABLED (on a robot that
  need not halt) leaves the machine in E_STOP and sends ACK_ENABLE.
\<close>

theorem refused_enable_acknowledged:
  assumes "currentState s = E_STOP" and "\<not> must_halt (robotState s)"
  shows "newCMState ENABLED s = sendEvent ACK_ENABLE s"
proof -
  from assms(2) have "shouldHalt s = (False, s)" by (rule shouldHalt_quiet)
  then show ?thesis
    using assms(1) by (simp add: newCMState_def ackCMState_def setState_def)
qed

lemma refused_enable_acknowledged_witness:
  "newCMState ENABLED (eStop MEDULLA_ESTOP enabled_machine) =
     sendEvent ACK_ENABLE (eStop MEDULLA_ESTOP enabled_machine)"
  by (rule refused_enable_acknowledged) (simp_all add: enabled_machine_simps not_must_halt_zero)

text \<open>
  The halt decision of the loop can undo a reset: when the loop has read ENABLED and the
  RESET command arrives before it acts, a halt check that fires leaves the machine in HALT,
  and the command is never acknowledged.
\<close>

theorem reset_lost_to_halt:
  assumes "loop_at s = StateRead ENABLED co" and "currentState s = ENABLED"
    and "output_finite co" and "co_command co \<noteq> medulla_state_error"
    and "must_halt (robotState s)"
  shows "\<exists>s' m. rt_run v s [CMCommand 3, LoopStep] s' \<and> currentState s' = HALT \<and>
    events s' = events s @ [event_msg SAFETY m]"
proof -
  let ?s1 = "updateHook (Some 3) s"
  let ?r = "loop_calc ENABLED co ?s1"
  have s1: "currentState ?s1 = RESET" "robotState ?s1 = robotState s" "events ?s1 = events s"
    "loop_at ?s1 = StateRead ENABLED co"
    using assms by (simp_all add: updateHook_def newCMState_def ackCMState_def setState_def)
  have "rt_step v s (CMCommand 3) ?s1" by (rule rt_step.cm_command)
  moreover have "rt_step v ?s1 LoopStep ((snd ?r)\<lparr>loop_at := CalcDone (fst ?r)\<rparr>)"
    by (rule rt_step.calc [OF s1(4) surjective_pairing])
  ultimately have "rt_run v s [CMCommand 3, LoopStep] ((snd ?r)\<lparr>loop_at := CalcDone (fst ?r)\<rparr>)"
    by (blast intro: rt_run.intros)
  moreover have "currentState (snd ?r) = HALT"
    using assms s1 by (simp add: calcState_on_currentState)
  moreover obtain m where "events (snd ?r) = events s @ [event_msg SAFETY m]"
  proof -
    let ?s2 = "snd (shouldEStop co ?s1)"
    obtain s3 where s3: "shouldHalt ?s2 = (True, s3)" "reports True ?s2 s3"
      using shouldHalt_spec [of ?s2] assms(5) s1(2) by auto
    then have "events (snd ?r) = events s3"
      using assms s1 by (simp add: calcState_on_def split_beta Let_def)
    with s3(2) s1(3) that show ?thesis by (auto simp: reports_def)
  qed
  ultimately show ?thesis
    by (intro exI [of _ "(snd ?r)\<lparr>loop_at := CalcDone (fst ?r)\<rparr>"] exI [of _ m]) simp
qed

lemma reset_lost_to_halt_witness:
  "\<exists>s s'. currentState s = ENABLED \<and> rt_run biped1 s [CMCommand 3, LoopStep] s' \<and>
     currentState s' = HALT"
proof -
  let ?co = "controller_output_zero\<lparr>co_command := medulla_state_run\<rparr>"
  let ?s = "enabled_machine\<lparr>robotState := robot_state_zero\<lparr>boomMedullaState := medulla_state_halt\<rparr>,
              loop_at := StateRead ENABLED ?co\<rparr>"
  have "\<exists>s' m. rt_run biped1 ?s [CMCommand 3, LoopStep] s' \<and> currentState s' = HALT \<and>
      events s' = events ?s @ [event_msg SAFETY m]"
    by (rule reset_lost_to_halt [where co = ?co])
      (simp_all add: enabled_machine_simps output_finite_def leg_finite_def must_halt_def
        medulla_halted_def consts_simp)
  then obtain s' where "rt_run biped1 ?s [CMCommand 3, LoopStep] s'" "currentState s' = HALT"
    by blast
  moreover have "currentState ?s = ENABLED" by (simp add: enabled_machine_simps)
  ultimately show ?thesis by blast
qed

end
