(* ===== verification/Encoder.thy ===== *)
theory Encoder
  imports Messages
begin

text \<open>
  The rollover-compensating encoder of the medulla drivers
  (atrias_medulla_drivers/src/Encoder.cpp), and the contract that it shares with the other
  rollover compensations of the drivers: following a position from readings modulo a power
  of two.
\<close>

subsection \<open>Following a wrapped position\<close>

text \<open>
  Positions that the readings report modulo \<open>m\<close>, each less than half a turn from the one
  before. \<open>val\<close> is the reading in an input.
\<close>

fun follows :: "int \<Rightarrow> ('r \<Rightarrow> int) \<Rightarrow> ('r \<Rightarrow> bool) \<Rightarrow> int \<Rightarrow> ('r \<times> int) list \<Rightarrow> bool" where
  "follows m val valid p [] = True"
| "follows m val valid p ((r, q) # xs) =
     (valid r \<and> val r mod m = q mod m \<and> - (m div 2) \<le> q - p \<and> q - p < m div 2 \<and>
      follows m val valid q xs)"

text \<open>
  \<open>val\<close> is the reading in an input, \<open>last\<close> the reading the state remembers, \<open>pos\<close> the
  position it has accumulated. An update moves the position by the shortest way round from
  the remembered reading to the new one.
\<close>

locale wrap_tracker =
  fixes m :: int and val :: "'r \<Rightarrow> int" and valid :: "'r \<Rightarrow> bool" and ok :: "'s \<Rightarrow> bool"
    and pos :: "'s \<Rightarrow> int" and last :: "'s \<Rightarrow> int" and upd :: "'r \<Rightarrow> 's \<Rightarrow> 's"
  assumes m_pos: "0 < m" and m_even: "even m"
    and upd_pos: "ok s \<Longrightarrow> valid r \<Longrightarrow> pos (upd r s) = pos s + wrap_half m (val r - last s)"
    and upd_last: "ok s \<Longrightarrow> valid r \<Longrightarrow> last (upd r s) mod m = val r mod m"
    and upd_ok: "ok s \<Longrightarrow> valid r \<Longrightarrow> ok (upd r s)"
begin

text \<open>The accumulated position and the remembered reading keep their distance modulo \<open>m\<close>.\<close>

lemma upd_distance:
  assumes "ok s" and "valid r"
  shows "(pos (upd r s) - last (upd r s)) mod m = (pos s - last s) mod m"
proof -
  have "(pos (upd r s) - last (upd r s)) mod m
      = (pos s + wrap_half m (val r - last s) mod m - last (upd r s) mod m) mod m"
    unfolding upd_pos [OF assms] by (rule mod_add_diff [symmetric])
  also have "\<dots> = (pos s + (val r - last s) mod m - val r mod m) mod m"
    using assms by (simp add: upd_last wrap_half_cong)
  also have "\<dots> = (pos s + (val r - last s) - val r) mod m"
    by (rule mod_add_diff)
  also have "\<dots> = (pos s - last s) mod m" by simp
  finally show ?thesis .
qed

lemma run_ok: "ok s \<Longrightarrow> list_all valid rs \<Longrightarrow> ok (run (\<lambda>s r. upd r s) s rs)"
  by (induction rs arbitrary: s) (auto simp: upd_ok)

lemma run_distance:
  "ok s \<Longrightarrow> list_all valid rs \<Longrightarrow>
   (pos (run (\<lambda>s r. upd r s) s rs) - last (run (\<lambda>s r. upd r s) s rs)) mod m = (pos s - last s) mod m"
  by (induction rs arbitrary: s) (auto simp: upd_ok upd_distance)

lemma upd_exact:
  assumes "ok s" "valid r" "last s mod m = p mod m" "val r mod m = q mod m"
    and "- (m div 2) \<le> q - p" "q - p < m div 2"
  shows "pos (upd r s) = pos s + (q - p)"
proof -
  have "(val r - last s) mod m = (q - p) mod m"
    using assms(3,4) by (metis mod_diff_eq)
  then have "wrap_half m (val r - last s) = wrap_half m (q - p)" by (rule wrap_half_eqI)
  also have "\<dots> = q - p" using assms m_pos m_even by (intro wrap_half_id) auto
  finally show ?thesis using assms by (simp add: upd_pos)
qed

lemma run_exact:
  assumes "ok s" and "last s mod m = p mod m" and "follows m val valid p xs"
  shows "pos (run (\<lambda>s r. upd r s) s (map fst xs)) = pos s + (List.last (p # map snd xs) - p)"
  using assms
proof (induction xs arbitrary: s p)
  case (Cons x xs)
  obtain r q where x: "x = (r, q)" by (cases x)
  from Cons.prems(3) have r: "valid r" "val r mod m = q mod m" "- (m div 2) \<le> q - p" "q - p < m div 2"
    "follows m val valid q xs" by (auto simp: x)
  from r(1) Cons.prems(1) have "ok (upd r s)" "last (upd r s) mod m = q mod m"
    by (simp_all add: upd_ok upd_last r(2))
  from Cons.IH [OF this r(5)] upd_exact [OF Cons.prems(1) r(1) Cons.prems(2) r(2,3,4)] show ?case
    by (simp add: x)
qed simp

end

subsection \<open>The encoder\<close>

record Encoder =
  calibPos :: dbl
  calibValue :: uint32
  calibrated :: bool
  curPos :: int
  deltaPos :: int
  enc_deltaTime :: dbl
  lastReading :: uint32
  lastTimestamp :: uint16
  numBits :: nat
  scalingRatio :: dbl

definition enc_mod :: "int \<Rightarrow> int \<Rightarrow> int" where
  "enc_mod a b = (let out = crem a b; out = out + b in crem out b)"

definition getPos :: "Encoder \<Rightarrow> dbl" where
  "getPos e = calibPos e + scalingRatio e * of_int_dbl (curPos e)"

definition getVel :: "Encoder \<Rightarrow> dbl" where
  "getVel e = scalingRatio e * of_int_dbl (deltaPos e) / enc_deltaTime e"

definition enc_init :: "nat \<Rightarrow> uint32 \<Rightarrow> dbl \<Rightarrow> dbl \<Rightarrow> Encoder \<Rightarrow> Encoder" where
  "enc_init bits calibReading calibLoc scaling e =
     e\<lparr>numBits := bits, calibValue := calibReading, calibPos := calibLoc,
       scalingRatio := scaling, calibrated := False\<rparr>"

text \<open>
  \<open>curPos\<close> has 64 bits and \<open>deltaPos\<close> 32; the differences of readings are unsigned 32-bit and
  are then widened (for \<open>curPos\<close>) or reinterpreted as signed (for \<open>deltaPos\<close>).
\<close>

definition enc_calibrate :: "uint32 \<Rightarrow> uint16 \<Rightarrow> Encoder \<Rightarrow> Encoder" where
  "enc_calibrate reading tstamp e =
     (let range = 2 ^ numBits e; halfRange = cdiv range 2
      in e\<lparr>curPos := enc_mod (uint (reading - calibValue e) + halfRange) range - halfRange,
           lastReading := reading, lastTimestamp := tstamp, calibrated := True\<rparr>)"

definition enc_update :: "uint32 \<Rightarrow> nsecs \<Rightarrow> uint16 \<Rightarrow> Encoder \<Rightarrow> Encoder" where
  "enc_update reading delta_time tstamp e =
     (let range = 2 ^ numBits e; halfRange = cdiv range 2;
          e = (if \<not> calibrated e then enc_calibrate reading tstamp e else e);
          d = sint (reading - lastReading e);
          d = enc_mod (d + halfRange) range - halfRange
      in e\<lparr>deltaPos := d,
           curPos := curPos e + d,
           lastReading := lastReading e + word_of_int d,
           enc_deltaTime := of_int_dbl delta_time / of_int_dbl SECOND_IN_NANOSECONDS
             + of_int_dbl (sint (tstamp - lastTimestamp e)) / Fin MEDULLA_TIMER_FREQ,
           lastTimestamp := tstamp\<rparr>)"

lemma enc_mod_eq: "0 < b \<Longrightarrow> enc_mod a b = a mod b"
  by (simp add: enc_mod_def crem_fixup)

lemma half_range: "1 \<le> b \<Longrightarrow> cdiv (2 ^ b) 2 = (2 ^ b :: int) div 2"
  by (simp add: cdiv_nonneg)

definition enc_ok :: "nat \<Rightarrow> Encoder \<Rightarrow> bool" where
  "enc_ok b e \<longleftrightarrow> calibrated e \<and> numBits e = b \<and> 1 \<le> b \<and> b \<le> 31"

lemma enc_update_calibrated:
  assumes "enc_ok b e"
  shows "deltaPos (enc_update r dt ts e) = wrap_half (2 ^ b) (uint r - uint (lastReading e))"
    and "curPos (enc_update r dt ts e) =
      curPos e + wrap_half (2 ^ b) (uint r - uint (lastReading e))"
    and "lastReading (enc_update r dt ts e) =
      lastReading e + word_of_int (wrap_half (2 ^ b) (uint r - uint (lastReading e)))"
    and "enc_ok b (enc_update r dt ts e)"
proof -
  have b: "b \<le> 32" "1 \<le> b" using assms by (auto simp: enc_ok_def)
  have "(sint (r - lastReading e)) mod 2 ^ b = (uint r - uint (lastReading e)) mod 2 ^ b"
    using b by (simp add: sint_mod_two_power uint_diff_mod_two_power)
  then have d: "enc_mod (sint (r - lastReading e) + 2 ^ b div 2) (2 ^ b) - 2 ^ b div 2 =
      wrap_half (2 ^ b) (uint r - uint (lastReading e))"
    by (metis enc_mod_eq wrap_half_def wrap_half_eqI zero_less_numeral zero_less_power)
  show delta: "deltaPos (enc_update r dt ts e) = wrap_half (2 ^ b) (uint r - uint (lastReading e))"
    and "curPos (enc_update r dt ts e) =
      curPos e + wrap_half (2 ^ b) (uint r - uint (lastReading e))"
    and "enc_ok b (enc_update r dt ts e)"
    using assms by (simp_all add: enc_update_def Let_def enc_ok_def half_range d)
  have "lastReading (enc_update r dt ts e) =
      lastReading e + word_of_int (deltaPos (enc_update r dt ts e))"
    using assms by (simp add: enc_update_def Let_def enc_ok_def)
  then show "lastReading (enc_update r dt ts e) =
      lastReading e + word_of_int (wrap_half (2 ^ b) (uint r - uint (lastReading e)))"
    by (simp only: delta)
qed

lemma enc_update_last_mod:
  assumes "enc_ok b e"
  shows "uint (lastReading (enc_update r dt ts e)) mod 2 ^ b = uint r mod 2 ^ b"
proof -
  let ?l = "uint (lastReading e)"
  have "b \<le> 32" using assms by (simp add: enc_ok_def)
  then have "uint (lastReading (enc_update r dt ts e)) mod 2 ^ b =
      (?l + wrap_half (2 ^ b) (uint r - ?l)) mod 2 ^ b"
    unfolding enc_update_calibrated(3) [OF assms] by (rule uint_add_mod_two_power)
  also have "\<dots> = (?l + (uint r - ?l)) mod 2 ^ b"
    by (metis mod_add_right_eq wrap_half_cong)
  finally show ?thesis by simp
qed

lemma enc_calibrate_simps [simp]:
  "calibrated (enc_calibrate r ts e)" "numBits (enc_calibrate r ts e) = numBits e"
  by (simp_all add: enc_calibrate_def Let_def)

lemma enc_update_first:
  "\<not> calibrated e \<Longrightarrow> enc_update r dt ts e = enc_update r dt ts (enc_calibrate r ts e)"
  unfolding enc_update_def Let_def by simp

text \<open>The encoder follows its readings, whatever the times are.\<close>

interpretation enc17: wrap_tracker "2 ^ 17" "\<lambda>(r, dt, ts). uint r" "\<lambda>_. True" "enc_ok 17" curPos
  "\<lambda>e. uint (lastReading e)" "\<lambda>(r, dt, ts). enc_update r dt ts"
  by unfold_locales
    (auto simp: enc_update_calibrated simp del: power_numeral intro: enc_update_last_mod)

text \<open>
  An encoder initialised with a calibration reading and then updated follows the position
  that its readings report modulo 2 to the 17, exactly and through every rollover, as long as
  the position moves by less than half a turn between updates; its first position is the
  representative nearest to the calibration reading. The times do not matter to the position.
\<close>

theorem encoder_follows:
  assumes "uint r0 mod 2 ^ 17 = p0 mod 2 ^ 17"
    and "follows (2 ^ 17) (\<lambda>(r, dt, ts). uint r) (\<lambda>_. True) p0 xs"
  shows "curPos (run (\<lambda>e (r, dt, ts). enc_update r dt ts e)
           (enc_update r0 dt0 ts0 (enc_init BOOM_ENCODER_BITS calib loc scale e)) (map fst xs))
    = wrap_half (2 ^ 17) (p0 - uint calib) + (last (p0 # map snd xs) - p0)"
proof -
  let ?e = "enc_init BOOM_ENCODER_BITS calib loc scale e"
  let ?first = "enc_update r0 dt0 ts0 ?e"
  let ?c = "enc_calibrate r0 ts0 ?e"
  have c: "enc_ok 17 ?c" by (simp add: enc_ok_def enc_init_def consts_simp)
  have l: "lastReading ?c = r0" by (simp add: enc_calibrate_def Let_def)
  have eq: "?first = enc_update r0 dt0 ts0 ?c"
    by (rule enc_update_first) (simp add: enc_init_def)
  have z: "wrap_half (2 ^ 17) 0 = 0" by (simp add: wrap_half_def)
  from enc_update_calibrated(4) [OF c] have ok: "enc_ok 17 ?first" by (simp only: eq)
  from enc_update_last_mod [OF c] have "uint (lastReading ?first) mod 2 ^ 17 = uint r0 mod 2 ^ 17"
    by (simp only: eq)
  with assms(1) have last: "uint (lastReading ?first) mod 2 ^ 17 = p0 mod 2 ^ 17" by (rule trans [rotated])
  from enc_update_calibrated(2) [OF c] have "curPos ?first = curPos ?c + wrap_half (2 ^ 17) 0"
    by (simp only: eq l diff_self)
  then have "curPos ?first = curPos ?c" by (simp only: z add_0_right)
  also have "curPos ?c = wrap_half (2 ^ 17) (uint (r0 - calib))"
    by (simp add: enc_calibrate_def Let_def enc_init_def enc_mod_eq half_range wrap_half_def
        consts_simp cdiv_nonneg)
  also have "\<dots> = wrap_half (2 ^ 17) (p0 - uint calib)"
  proof (rule wrap_half_eqI)
    have "uint (r0 - calib) mod 2 ^ 17 = (uint r0 - uint calib) mod 2 ^ 17"
      by (rule uint_diff_mod_two_power) simp
    also have "\<dots> = (p0 - uint calib) mod 2 ^ 17"
      using assms(1) by (metis mod_diff_left_eq)
    finally show "uint (r0 - calib) mod 2 ^ 17 = (p0 - uint calib) mod 2 ^ 17" .
  qed
  finally show ?thesis
    using enc17.run_exact [OF ok last assms(2)] by (simp add: split_def)
qed

lemma encoder_follows_witness:
  "\<forall>e. curPos (run (\<lambda>e (r, dt, ts). enc_update r dt ts e)
     (enc_update 131000 0 0 (enc_init BOOM_ENCODER_BITS 130000 0 1 e))
     [(131071, 1000000, 5), (3, 1000000, 7)]) = 1075"
  using encoder_follows [of 131000 131000
      "[((131071, 1000000, 5), 131071), ((3, 1000000, 7), 131075)]" 0 0 130000 0 1]
  by (simp add: wrap_half_def)

end
