(* ===== verification/Medulla.thy ===== *)
theory Medulla
  imports Encoder
begin

text \<open>
  What the medulla drivers share (atrias_medulla_drivers/src/Medulla.cpp and Medulla.h): the
  conversions of raw values, the table of process data objects, which
  MedullaManager::fillInPDORegData lays out in the process image, and the handling of the
  timing counter that tells fresh data from stale.
\<close>

subsection \<open>Conversions\<close>

definition processADCValue :: "uint16 \<Rightarrow> dbl" where
  "processADCValue adc_value =
     (of_int_dbl (uint adc_value) - of_int_dbl MEDULLA_ADC_OFFSET_COUNTS)
       * (Fin MEDULLA_ADC_MAX_VOLTS / Fin 4095)"

definition decodeLogicVoltage :: "uint16 \<Rightarrow> dbl" where
  "decodeLogicVoltage adc_value = processADCValue adc_value * Fin 6"

definition decodeMotorVoltage :: "uint16 \<Rightarrow> dbl" where
  "decodeMotorVoltage adc_value =
     (of_int_dbl (uint adc_value) - Fin MOTOR_VOLTAGE_C_OFFSET) * Fin MOTOR_VOLTAGE_V_CAL
       / (Fin MOTOR_VOLTAGE_C_CAL - Fin MOTOR_VOLTAGE_C_OFFSET)"

definition processThermistorValue :: "uint16 \<Rightarrow> dbl" where
  "processThermistorValue adc_value =
     Fin 1 / (Fin 1 / Fin 298.15 + Fin 1 / Fin 3988 *
       dbl_log (Fin 4700 / (Fin 3.26 / processADCValue adc_value - Fin 1) / Fin 10000))
     - Fin 273.15"

text \<open>The argument is a signed 16-bit value.\<close>

definition processAmplifierCurrent :: "uint16 \<Rightarrow> dbl" where
  "processAmplifierCurrent value = of_int_dbl (sint value) * Fin 60 / Fin 8192"

subsection \<open>Process data objects\<close>

text \<open>
  The table of a driver lists the sizes of its entries: first what is sent to the medulla,
  then what is received. Laying it out stores in each entry's pointer the running address,
  here the offset from the start of the slave's output or input area.
\<close>

record PDORegData =
  pdo_outputs :: nat
  pdo_inputs :: nat
  pdoEntrySizes :: "nat list"

fun fill_pointers :: "nat \<Rightarrow> nat list \<Rightarrow> nat list" where
  "fill_pointers cur [] = []"
| "fill_pointers cur (sz # sizes) = cur # fill_pointers (cur + sz) sizes"

definition fillInPDORegData :: "PDORegData \<Rightarrow> nat list \<times> nat list" where
  "fillInPDORegData d =
     (fill_pointers 0 (take (pdo_outputs d) (pdoEntrySizes d)),
      fill_pointers 0 (take (pdo_inputs d) (drop (pdo_outputs d) (pdoEntrySizes d))))"

definition leg_PDORegData :: PDORegData where
  "leg_PDORegData =
     \<lparr>pdo_outputs = MEDULLA_LEG_RX_PDO_COUNT, pdo_inputs = MEDULLA_LEG_TX_PDO_COUNT,
      pdoEntrySizes =
        [1, 2, 4,
         1, 1, 1, 1, 1, 2, 4, 2, 4, 2, 2, 2, 2, 2, 2, 2, 2, 2, 2, 2, 2, 2, 2, 2]\<rparr>"

definition hip_PDORegData :: PDORegData where
  "hip_PDORegData =
     \<lparr>pdo_outputs = MEDULLA_HIP_RX_PDO_COUNT, pdo_inputs = MEDULLA_HIP_TX_PDO_COUNT,
      pdoEntrySizes = [1, 2, 4, 1, 1, 1, 1, 1, 4, 2, 2, 2, 2, 2, 2, 2, 2, 2, 2, 2]\<rparr>"

definition boom_PDORegData :: PDORegData where
  "boom_PDORegData =
     \<lparr>pdo_outputs = MEDULLA_BOOM_RX_PDO_COUNT, pdo_inputs = MEDULLA_BOOM_TX_PDO_COUNT,
      pdoEntrySizes = [1, 2, 1, 1, 1, 1, 4, 2, 4, 2, 4, 2, 2]\<rparr>"

definition imu_PDORegData :: PDORegData where
  "imu_PDORegData =
     \<lparr>pdo_outputs = MEDULLA_IMU_RX_PDO_COUNT, pdo_inputs = MEDULLA_IMU_TX_PDO_COUNT,
      pdoEntrySizes = [1, 2, 1, 1, 1, 1, 4, 4, 4, 4, 4, 4, 1, 1, 2, 4]\<rparr>"

lemma fill_pointers_nth:
  "i < length sizes \<Longrightarrow> fill_pointers cur sizes ! i = cur + sum_list (take i sizes)"
proof (induction sizes arbitrary: cur i)
  case (Cons sz sizes)
  then show ?case by (cases i) auto
qed simp

lemma length_fill_pointers [simp]: "length (fill_pointers cur sizes) = length sizes"
  by (induction sizes arbitrary: cur) auto

text \<open>Distinct entries occupy disjoint bytes, and all of them lie within the total size.\<close>

lemma fill_pointers_disjoint:
  assumes "i < j" and "j < length sizes"
  shows "fill_pointers cur sizes ! i + sizes ! i \<le> fill_pointers cur sizes ! j"
proof -
  obtain k where "j = Suc i + k" using assms(1) less_iff_Suc_add by auto
  then have "sum_list (take (Suc i) sizes) \<le> sum_list (take j sizes)"
    by (simp only: take_add sum_list_append le_add1)
  moreover have "sum_list (take (Suc i) sizes) = sum_list (take i sizes) + sizes ! i"
    using assms by (simp add: take_Suc_conv_app_nth)
  ultimately show ?thesis using assms by (simp add: fill_pointers_nth)
qed

subsection \<open>Fresh data\<close>

text \<open>
  The time since the previous data, from the 8-bit counters: both are widened, 256 is added
  and the remainder taken.
\<close>

definition elapsed_ns :: "uint8 \<Rightarrow> uint8 \<Rightarrow> nsecs" where
  "elapsed_ns counter value = crem (uint counter + 256 - uint value) 256 * CONTROLLER_LOOP_PERIOD_NS"

lemma elapsed_ns_eq: "elapsed_ns c v = uint (c - v) * CONTROLLER_LOOP_PERIOD_NS"
proof -
  have "uint v < 256" using uint_lt2p [of v] by simp
  then have "0 \<le> uint c + 256 - uint v" using uint_ge_0 [of c] by linarith
  then have "crem (uint c + 256 - uint v) 256 = (uint c + 256 - uint v) mod 256"
    by (simp add: crem_nonneg)
  also have "\<dots> = (uint c - uint v) mod 256"
    by (metis add_diff_eq diff_add_eq mod_add_self2)
  also have "\<dots> = uint (c - v)" by (simp add: uint_word_ariths)
  finally show ?thesis by (simp add: elapsed_ns_def)
qed

lemma elapsed_ns_pos: "c \<noteq> v \<Longrightarrow> 1000000 \<le> elapsed_ns c v"
proof -
  assume "c \<noteq> v"
  then have "uint (c - v) \<noteq> 0" by (simp add: uint_0_iff)
  with uint_ge_0 [of "c - v"] have "1 \<le> uint (c - v)" by linarith
  then show ?thesis by (simp add: elapsed_ns_eq consts_simp)
qed

text \<open>
  The contract of the receive operations: data whose counter the driver has seen changes
  nothing, and processing data makes its counter the one seen.
\<close>

locale medulla_driver =
  fixes counter_in :: "'i \<Rightarrow> uint8" and seen :: "'s \<Rightarrow> uint8"
    and receive :: "'i \<Rightarrow> 's \<times> robot_state \<Rightarrow> 's \<times> robot_state"
  assumes stale: "counter_in i = seen s \<Longrightarrow> receive i (s, rs) = (s, rs)"
    and sees: "seen (fst (receive i (s, rs))) = counter_in i"
begin

lemma receive_twice: "receive i (receive i x) = receive i x"
  by (cases "receive i x", cases x) (metis fst_conv sees stale)

text \<open>However often the same data is processed, only the first time counts.\<close>

lemma receive_again: "run (\<lambda>x i. receive i x) x (replicate (Suc n) i) = receive i x"
  by (induction n) (simp_all add: run_replicate_Suc receive_twice del: replicate.simps, simp)

end

subsection \<open>Properties\<close>

lemma pdo_sums:
  "sum_list (take (pdo_outputs leg_PDORegData) (pdoEntrySizes leg_PDORegData)) = MEDULLA_LEG_OUTPUTS_SIZE"
  "sum_list (take (pdo_outputs hip_PDORegData) (pdoEntrySizes hip_PDORegData)) = MEDULLA_HIP_OUTPUTS_SIZE"
  "sum_list (take (pdo_outputs boom_PDORegData) (pdoEntrySizes boom_PDORegData)) = MEDULLA_BOOM_OUTPUTS_SIZE"
  "sum_list (take (pdo_outputs imu_PDORegData) (pdoEntrySizes imu_PDORegData)) = MEDULLA_IMU_OUTPUTS_SIZE"
  "sum_list (drop (pdo_outputs leg_PDORegData) (pdoEntrySizes leg_PDORegData)) = MEDULLA_LEG_INPUTS_SIZE"
  "sum_list (drop (pdo_outputs hip_PDORegData) (pdoEntrySizes hip_PDORegData)) = MEDULLA_HIP_INPUTS_SIZE"
  "sum_list (drop (pdo_outputs boom_PDORegData) (pdoEntrySizes boom_PDORegData)) = MEDULLA_BOOM_INPUTS_SIZE"
  "sum_list (drop (pdo_outputs imu_PDORegData) (pdoEntrySizes imu_PDORegData)) = MEDULLA_IMU_INPUTS_SIZE"
  by (simp_all add: leg_PDORegData_def hip_PDORegData_def boom_PDORegData_def imu_PDORegData_def consts_simp)

lemma pdo_counts:
  "length (pdoEntrySizes leg_PDORegData) = pdo_outputs leg_PDORegData + pdo_inputs leg_PDORegData"
  "length (pdoEntrySizes hip_PDORegData) = pdo_outputs hip_PDORegData + pdo_inputs hip_PDORegData"
  "length (pdoEntrySizes boom_PDORegData) = pdo_outputs boom_PDORegData + pdo_inputs boom_PDORegData"
  "length (pdoEntrySizes imu_PDORegData) = pdo_outputs imu_PDORegData + pdo_inputs imu_PDORegData"
  by (simp_all add: leg_PDORegData_def hip_PDORegData_def boom_PDORegData_def imu_PDORegData_def consts_simp)

text \<open>
  The process image: for each kind of medulla the entries the driver registers occupy
  disjoint byte ranges, in order, and fill exactly the output and the input area of the
  sizes the EtherCAT slaves declare.
\<close>

theorem pdo_layout:
  assumes "(d, out_size, in_size) \<in>
      {(leg_PDORegData, MEDULLA_LEG_OUTPUTS_SIZE, MEDULLA_LEG_INPUTS_SIZE),
       (hip_PDORegData, MEDULLA_HIP_OUTPUTS_SIZE, MEDULLA_HIP_INPUTS_SIZE),
       (boom_PDORegData, MEDULLA_BOOM_OUTPUTS_SIZE, MEDULLA_BOOM_INPUTS_SIZE),
       (imu_PDORegData, MEDULLA_IMU_OUTPUTS_SIZE, MEDULLA_IMU_INPUTS_SIZE)}"
    and "i < j"
  defines "outs \<equiv> take (pdo_outputs d) (pdoEntrySizes d)"
    and "ins \<equiv> take (pdo_inputs d) (drop (pdo_outputs d) (pdoEntrySizes d))"
  shows "(j < length outs \<longrightarrow>
            fst (fillInPDORegData d) ! i + outs ! i \<le> fst (fillInPDORegData d) ! j) \<and>
         (j < length ins \<longrightarrow>
            snd (fillInPDORegData d) ! i + ins ! i \<le> snd (fillInPDORegData d) ! j) \<and>
         sum_list outs = out_size \<and> sum_list ins = in_size \<and>
         length outs + length ins = length (pdoEntrySizes d)"
proof -
  have "sum_list outs = out_size \<and> sum_list ins = in_size \<and>
      length outs + length ins = length (pdoEntrySizes d)"
    using assms(1) unfolding outs_def ins_def by (auto simp: pdo_sums pdo_counts)
  moreover have "fillInPDORegData d = (fill_pointers 0 outs, fill_pointers 0 ins)"
    by (simp add: fillInPDORegData_def outs_def ins_def)
  ultimately show ?thesis using fill_pointers_disjoint [OF assms(2)] by simp
qed

lemma pdo_layout_witness:
  "sum_list (take (pdo_outputs leg_PDORegData) (pdoEntrySizes leg_PDORegData)) = 7 \<and>
   fst (fillInPDORegData leg_PDORegData) = [0, 1, 3]"
proof -
  from pdo_layout [of leg_PDORegData MEDULLA_LEG_OUTPUTS_SIZE MEDULLA_LEG_INPUTS_SIZE 1 2]
  have "sum_list (take (pdo_outputs leg_PDORegData) (pdoEntrySizes leg_PDORegData)) =
      MEDULLA_LEG_OUTPUTS_SIZE" by simp
  moreover have "fst (fillInPDORegData leg_PDORegData) = [0, 1, 3]"
    by (simp add: fillInPDORegData_def leg_PDORegData_def consts_simp)
  ultimately show ?thesis by (simp add: MEDULLA_LEG_OUTPUTS_SIZE_def)
qed

text \<open>
  The elapsed time that the drivers compute from the 8-bit timing counters is the number of
  controller periods modulo 256: for fresh data at least one and at most 255 periods, never
  zero or negative.
\<close>

theorem elapsed_time:
  "elapsed_ns c v = uint (c - v) * CONTROLLER_LOOP_PERIOD_NS \<and>
   (if c = v then elapsed_ns c v = 0
    else 1000000 \<le> elapsed_ns c v \<and> elapsed_ns c v \<le> 255000000)"
proof -
  have "uint (c - v) \<le> 255" using uint_lt2p [of "c - v"] by simp
  then show ?thesis using elapsed_ns_pos [of c v] by (simp add: elapsed_ns_eq consts_simp)
qed

end
