(* ===== verification/LegMedulla.thy ===== *)
theory LegMedulla
  imports Medulla
begin

text \<open>
  The driver of the leg medullas (atrias_medulla_drivers/src/LegMedulla.cpp). The process
  data the C++ reads and writes through its pointers are the records \<open>leg_inputs\<close> and
  \<open>leg_outputs\<close>; the members of the class are \<open>LegMedulla\<close>. Each \<open>switch (*id)\<close> of the code
  does the same to one of four leg halves with that half's constants: here it is a
  \<open>leg_slot\<close>, and an identifier that no case names changes nothing.
\<close>

subsection \<open>Data\<close>

record leg_inputs =
  li_id :: uint8
  li_state :: uint8
  li_timingCounter :: uint8
  li_errorFlags :: uint8
  li_limitSwitch :: uint8
  li_toeSensor :: uint16
  li_motorEncoder :: uint32
  li_motorEncoderTimestamp :: uint16
  li_legEncoder :: uint32
  li_legEncoderTimestamp :: uint16
  li_incrementalEncoder :: uint16
  li_incrementalEncoderTimestamp :: uint16
  li_motorVoltage :: uint16
  li_logicVoltage :: uint16
  li_thermistor0 :: uint16
  li_thermistor1 :: uint16
  li_thermistor2 :: uint16
  li_thermistor3 :: uint16
  li_thermistor4 :: uint16
  li_thermistor5 :: uint16
  li_amp1MeasuredCurrent :: uint16
  li_amp2MeasuredCurrent :: uint16
  li_kneeForce1 :: uint16
  li_kneeForce2 :: uint16

record leg_outputs =
  lo_command :: uint8
  lo_counter :: uint16
  lo_motorCurrent :: uint32

record LegMedulla =
  lm_local_counter :: uint16
  motorEncoderValue :: int
  legEncoderValue :: int
  motorEncoderTimestampValue :: int
  legEncoderTimestampValue :: int
  incrementalEncoderStart :: dbl
  incrementalEncoderPos :: int
  incrementalEncoderValue :: uint16
  incrementalEncoderTimestampValue :: uint16
  lm_timingCounterValue :: uint8
  legPositionOffset :: dbl
  zeroToeSensor :: uint16
  newToeBool :: bool
  oldToeBool :: bool
  toeBool :: bool
  toeCounter :: uint16
  skipMotorEncoder :: bool
  skipLegEncoder :: bool
  legEncoderDt :: dbl
  motorEncoderDt :: dbl

datatype leg_slot = LeftA | LeftB | RightA | RightB

definition leg_slot_of :: "uint8 \<Rightarrow> leg_slot option" where
  "leg_slot_of i =
     (if i = MEDULLA_LEFT_LEG_A_ID then Some LeftA
      else if i = MEDULLA_LEFT_LEG_B_ID then Some LeftB
      else if i = MEDULLA_RIGHT_LEG_A_ID then Some RightA
      else if i = MEDULLA_RIGHT_LEG_B_ID then Some RightB else None)"

fun get_half :: "leg_slot \<Rightarrow> robot_state \<Rightarrow> robot_state_legHalf" where
  "get_half LeftA rs = halfA (lLeg rs)"
| "get_half LeftB rs = halfB (lLeg rs)"
| "get_half RightA rs = halfA (rLeg rs)"
| "get_half RightB rs = halfB (rLeg rs)"

fun map_half ::
  "leg_slot \<Rightarrow> (robot_state_legHalf \<Rightarrow> robot_state_legHalf) \<Rightarrow> robot_state \<Rightarrow> robot_state" where
  "map_half LeftA f rs = rs\<lparr>lLeg := (lLeg rs)\<lparr>halfA := f (halfA (lLeg rs))\<rparr>\<rparr>"
| "map_half LeftB f rs = rs\<lparr>lLeg := (lLeg rs)\<lparr>halfB := f (halfB (lLeg rs))\<rparr>\<rparr>"
| "map_half RightA f rs = rs\<lparr>rLeg := (rLeg rs)\<lparr>halfA := f (halfA (rLeg rs))\<rparr>\<rparr>"
| "map_half RightB f rs = rs\<lparr>rLeg := (rLeg rs)\<lparr>halfB := f (halfB (rLeg rs))\<rparr>\<rparr>"

fun get_leg :: "leg_slot \<Rightarrow> robot_state \<Rightarrow> robot_state_leg" where
  "get_leg LeftA rs = lLeg rs"
| "get_leg LeftB rs = lLeg rs"
| "get_leg RightA rs = rLeg rs"
| "get_leg RightB rs = rLeg rs"

fun map_leg ::
  "leg_slot \<Rightarrow> (robot_state_leg \<Rightarrow> robot_state_leg) \<Rightarrow> robot_state \<Rightarrow> robot_state" where
  "map_leg LeftA f rs = rs\<lparr>lLeg := f (lLeg rs)\<rparr>"
| "map_leg LeftB f rs = rs\<lparr>lLeg := f (lLeg rs)\<rparr>"
| "map_leg RightA f rs = rs\<lparr>rLeg := f (rLeg rs)\<rparr>"
| "map_leg RightB f rs = rs\<lparr>rLeg := f (rLeg rs)\<rparr>"

text \<open>The constants of a leg half: LEFT_TRAN_A_CALIB_VAL and the like.\<close>

fun TRAN_CALIB_VAL :: "robot_variant \<Rightarrow> leg_slot \<Rightarrow> int" where
  "TRAN_CALIB_VAL v LeftA = TRAN_A_CALIB_VAL (left_leg v)"
| "TRAN_CALIB_VAL v LeftB = TRAN_B_CALIB_VAL (left_leg v)"
| "TRAN_CALIB_VAL v RightA = TRAN_A_CALIB_VAL (right_leg v)"
| "TRAN_CALIB_VAL v RightB = TRAN_B_CALIB_VAL (right_leg v)"

fun TRAN_RAD_PER_CNT :: "robot_variant \<Rightarrow> leg_slot \<Rightarrow> real" where
  "TRAN_RAD_PER_CNT v LeftA = TRAN_A_RAD_PER_CNT (left_leg v)"
| "TRAN_RAD_PER_CNT v LeftB = TRAN_B_RAD_PER_CNT (left_leg v)"
| "TRAN_RAD_PER_CNT v RightA = TRAN_A_RAD_PER_CNT (right_leg v)"
| "TRAN_RAD_PER_CNT v RightB = TRAN_B_RAD_PER_CNT (right_leg v)"

fun LEG_CALIB_VAL :: "robot_variant \<Rightarrow> leg_slot \<Rightarrow> int" where
  "LEG_CALIB_VAL v LeftA = LEG_A_CALIB_VAL (left_leg v)"
| "LEG_CALIB_VAL v LeftB = LEG_B_CALIB_VAL (left_leg v)"
| "LEG_CALIB_VAL v RightA = LEG_A_CALIB_VAL (right_leg v)"
| "LEG_CALIB_VAL v RightB = LEG_B_CALIB_VAL (right_leg v)"

fun LEG_RAD_PER_CNT :: "robot_variant \<Rightarrow> leg_slot \<Rightarrow> real" where
  "LEG_RAD_PER_CNT v LeftA = LEG_A_RAD_PER_CNT (left_leg v)"
| "LEG_RAD_PER_CNT v LeftB = LEG_B_RAD_PER_CNT (left_leg v)"
| "LEG_RAD_PER_CNT v RightA = LEG_A_RAD_PER_CNT (right_leg v)"
| "LEG_RAD_PER_CNT v RightB = LEG_B_RAD_PER_CNT (right_leg v)"

fun LEG_CALIB_LOC :: "leg_slot \<Rightarrow> real" where
  "LEG_CALIB_LOC LeftA = LEG_A_CALIB_LOC"
| "LEG_CALIB_LOC LeftB = LEG_B_CALIB_LOC"
| "LEG_CALIB_LOC RightA = LEG_A_CALIB_LOC"
| "LEG_CALIB_LOC RightB = LEG_B_CALIB_LOC"

fun MOTOR_DIRECTION :: "robot_variant \<Rightarrow> leg_slot \<Rightarrow> real" where
  "MOTOR_DIRECTION v LeftA = MOTOR_A_DIRECTION (left_leg v)"
| "MOTOR_DIRECTION v LeftB = MOTOR_B_DIRECTION (left_leg v)"
| "MOTOR_DIRECTION v RightA = MOTOR_A_DIRECTION (right_leg v)"
| "MOTOR_DIRECTION v RightB = MOTOR_B_DIRECTION (right_leg v)"

text \<open>The current that the controller commands for a leg half.\<close>

fun motor_command :: "leg_slot \<Rightarrow> controller_output \<Rightarrow> dbl" where
  "motor_command LeftA co = motorCurrentA (co_lLeg co)"
| "motor_command LeftB co = motorCurrentB (co_lLeg co)"
| "motor_command RightA co = motorCurrentA (co_rLeg co)"
| "motor_command RightB co = motorCurrentB (co_rLeg co)"

subsection \<open>Positions\<close>

definition encTicksToRad :: "uint32 \<Rightarrow> int \<Rightarrow> real \<Rightarrow> real \<Rightarrow> dbl" where
  "encTicksToRad ticks calib_val rad_per_tick calib_val_rad =
     Fin calib_val_rad + of_int_dbl (uint ticks - calib_val) * Fin rad_per_tick"

definition processPositions ::
  "robot_variant \<Rightarrow> leg_inputs \<Rightarrow> LegMedulla \<Rightarrow> robot_state \<Rightarrow> robot_state" where
  "processPositions v i m rs =
     (case leg_slot_of (li_id i) of
        None \<Rightarrow> rs
      | Some sl \<Rightarrow>
          (let rs = (if skipMotorEncoder m then rs
                     else map_half sl (\<lambda>h. h\<lparr>motorAngle :=
                       encTicksToRad (li_motorEncoder i) (TRAN_CALIB_VAL v sl)
                         (TRAN_RAD_PER_CNT v sl) (LEG_CALIB_LOC sl)\<rparr>) rs)
           in if skipLegEncoder m then rs
              else map_half sl (\<lambda>h. h\<lparr>legAngle :=
                encTicksToRad (li_legEncoder i) (LEG_CALIB_VAL v sl)
                  (LEG_RAD_PER_CNT v sl) (LEG_CALIB_LOC sl) + legPositionOffset m\<rparr>) rs))"

definition limit_offset :: "dbl \<Rightarrow> dbl" where
  "limit_offset off =
     (if Fin MAX_LEG_POS_ADJUSTMENT < fabs off
      then off * (Fin MAX_LEG_POS_ADJUSTMENT / fabs off) else off)"

definition updatePositionOffsets ::
  "robot_variant \<Rightarrow> leg_inputs \<Rightarrow> LegMedulla \<Rightarrow> LegMedulla" where
  "updatePositionOffsets v i m =
     (let m = m\<lparr>skipMotorEncoder := False, skipLegEncoder := False,
                legPositionOffset := 0, incrementalEncoderPos := 0\<rparr>;
          rs = processPositions v i m robot_state_zero;
          m = (case leg_slot_of (li_id i) of
                 None \<Rightarrow> m
               | Some sl \<Rightarrow>
                   m\<lparr>legPositionOffset := motorAngle (get_half sl rs) - legAngle (get_half sl rs),
                     incrementalEncoderStart := motorAngle (get_half sl rs)\<rparr>)
      in m\<lparr>legPositionOffset := limit_offset (legPositionOffset m)\<rparr>)"

definition leg_postOpInit :: "robot_variant \<Rightarrow> leg_inputs \<Rightarrow> LegMedulla \<Rightarrow> LegMedulla" where
  "leg_postOpInit v i m =
     updatePositionOffsets v i
       (m\<lparr>motorEncoderValue := uint (li_motorEncoder i),
          motorEncoderTimestampValue := sint (li_motorEncoderTimestamp i),
          legEncoderValue := uint (li_legEncoder i),
          legEncoderTimestampValue := sint (li_legEncoderTimestamp i),
          incrementalEncoderValue := li_incrementalEncoder i,
          incrementalEncoderTimestampValue := li_incrementalEncoderTimestamp i,
          lm_timingCounterValue := li_timingCounter i,
          zeroToeSensor := li_toeSensor i,
          oldToeBool := False, toeBool := False, toeCounter := 0,
          legEncoderDt := 0, motorEncoderDt := 0\<rparr>)"

text \<open>
  The 64-bit difference is narrowed to 32 bits. \<open>abs\<close> of the least 32-bit integer is undefined
  in C++; here it is that integer itself, which is what the machine computes.
\<close>

definition abs_int32 :: "uint32 \<Rightarrow> int" where
  "abs_int32 w = (if sint w < 0 then sint (- w) else sint w)"

definition bad_reading :: "uint32 \<Rightarrow> int \<Rightarrow> bool" where
  "bad_reading reading value =
     (let delta = word_of_int (uint reading - value) :: uint32
      in delta = 0 \<or> abs_int32 delta > MAX_ACCEPTABLE_ENCODER_CHANGE)"

definition checkErroneousEncoderValues :: "leg_inputs \<Rightarrow> LegMedulla \<Rightarrow> LegMedulla" where
  "checkErroneousEncoderValues i m =
     m\<lparr>skipMotorEncoder := bad_reading (li_motorEncoder i) (motorEncoderValue m),
       skipLegEncoder := bad_reading (li_legEncoder i) (legEncoderValue m)\<rparr>"

subsection \<open>Velocities\<close>

definition leg_dt :: "nsecs \<Rightarrow> uint16 \<Rightarrow> int \<Rightarrow> dbl" where
  "leg_dt deltaTime tstamp tstampValue =
     of_int_dbl deltaTime / Fin 1000000000 + of_int_dbl (sint tstamp - tstampValue) / Fin MEDULLA_TIMER_FREQ"

definition processVelocities ::
  "robot_variant \<Rightarrow> nsecs \<Rightarrow> leg_inputs \<Rightarrow> LegMedulla \<Rightarrow> robot_state \<Rightarrow> LegMedulla \<times> robot_state" where
  "processVelocities v deltaTime i m rs =
     (let m = m\<lparr>motorEncoderDt := motorEncoderDt m +
                  leg_dt deltaTime (li_motorEncoderTimestamp i) (motorEncoderTimestampValue m),
                legEncoderDt := legEncoderDt m +
                  leg_dt deltaTime (li_legEncoderTimestamp i) (legEncoderTimestampValue m)\<rparr>;
          rs = (case leg_slot_of (li_id i) of
                  None \<Rightarrow> rs
                | Some sl \<Rightarrow>
                    (let rs = (if skipMotorEncoder m then rs
                               else map_half sl (\<lambda>h. h\<lparr>motorVelocity :=
                                 of_int_dbl (uint (li_motorEncoder i) - motorEncoderValue m)
                                   * Fin (TRAN_RAD_PER_CNT v sl) / motorEncoderDt m\<rparr>) rs)
                     in if skipLegEncoder m then rs
                        else map_half sl (\<lambda>h. h\<lparr>legVelocity :=
                          of_int_dbl (uint (li_legEncoder i) - legEncoderValue m)
                            * Fin (LEG_RAD_PER_CNT v sl) / legEncoderDt m\<rparr>) rs));
          m = m\<lparr>motorEncoderValue := uint (li_motorEncoder i),
                motorEncoderTimestampValue := sint (li_motorEncoderTimestamp i),
                legEncoderValue := uint (li_legEncoder i),
                legEncoderTimestampValue := sint (li_legEncoderTimestamp i)\<rparr>;
          m = (if skipMotorEncoder m then m else m\<lparr>motorEncoderDt := 0\<rparr>);
          m = (if skipLegEncoder m then m else m\<lparr>legEncoderDt := 0\<rparr>)
      in (m, rs))"

subsection \<open>The incremental encoder\<close>

text \<open>The result of the integer expression is narrowed to 16 bits by the assignment.\<close>

definition incremental_delta :: "uint16 \<Rightarrow> uint16 \<Rightarrow> uint16" where
  "incremental_delta reading value =
     word_of_int (crem (uint reading + 32768 - uint value) 65536 - 32768)"

definition processIncrementalEncoders ::
  "robot_variant \<Rightarrow> nsecs \<Rightarrow> leg_inputs \<Rightarrow> LegMedulla \<Rightarrow> robot_state \<Rightarrow> LegMedulla \<times> robot_state" where
  "processIncrementalEncoders v deltaTime i m rs =
     (let delta = incremental_delta (li_incrementalEncoder i) (incrementalEncoderValue m);
          m = m\<lparr>incrementalEncoderValue := incrementalEncoderValue m + delta,
                incrementalEncoderPos := incrementalEncoderPos m + sint delta\<rparr>;
          adjustedTime = of_int_dbl deltaTime / of_int_dbl SECOND_IN_NANOSECONDS +
            of_int_dbl (uint (li_incrementalEncoderTimestamp i)
                        - uint (incrementalEncoderTimestampValue m)) / Fin MEDULLA_TIMER_FREQ;
          m = m\<lparr>incrementalEncoderTimestampValue := li_incrementalEncoderTimestamp i\<rparr>
      in (m,
          case leg_slot_of (li_id i) of
            None \<Rightarrow> rs
          | Some sl \<Rightarrow>
              map_half sl (\<lambda>h. h\<lparr>
                rotorAngle := incrementalEncoderStart m -
                  Fin INC_ENC_RAD_PER_TICK * of_int_dbl (incrementalEncoderPos m)
                    * Fin (MOTOR_DIRECTION v sl),
                rotorVelocity := of_int_dbl (sint delta) * Fin INC_ENC_RAD_PER_TICK
                    * - Fin (MOTOR_DIRECTION v sl) / adjustedTime\<rparr>) rs))"

subsection \<open>The other sensors\<close>

definition leg_processThermistors :: "leg_inputs \<Rightarrow> robot_state \<Rightarrow> robot_state" where
  "leg_processThermistors i rs =
     (case leg_slot_of (li_id i) of
        None \<Rightarrow> rs
      | Some sl \<Rightarrow>
          map_half sl (\<lambda>h. h\<lparr>motorTherms :=
            [processThermistorValue (li_thermistor0 i), processThermistorValue (li_thermistor1 i),
             processThermistorValue (li_thermistor2 i), processThermistorValue (li_thermistor3 i),
             processThermistorValue (li_thermistor4 i), processThermistorValue (li_thermistor5 i)]\<rparr>) rs)"

definition leg_processCurrents :: "leg_inputs \<Rightarrow> robot_state \<Rightarrow> robot_state" where
  "leg_processCurrents i rs =
     (let current1 = processAmplifierCurrent (li_amp1MeasuredCurrent i);
          current2 = processAmplifierCurrent (li_amp2MeasuredCurrent i)
      in case leg_slot_of (li_id i) of
           None \<Rightarrow> rs
         | Some sl \<Rightarrow>
             map_half sl (\<lambda>h. h\<lparr>amp1Current := current1, amp2Current := current2,
               motorCurrent := current1 + current2\<rparr>) rs)"

definition latch_switches :: "bool \<Rightarrow> uint8 \<Rightarrow> uint8 \<Rightarrow> uint8" where
  "latch_switches rst new old = (if rst then 0 else old) OR new"

definition half_switches :: "uint8 \<Rightarrow> robot_state_legHalf \<Rightarrow> robot_state_legHalf" where
  "half_switches sw h =
     h\<lparr>limitSwitches := sw, motorNegLimitSwitch := bit sw 0, motorPosLimitSwitch := bit sw 1,
       negDeflectSwitch := bit sw 2, posDeflectSwitch := bit sw 3\<rparr>"

fun leg_processLimitSwitches_slot ::
  "leg_slot \<Rightarrow> uint8 \<Rightarrow> robot_state_leg \<Rightarrow> bool \<Rightarrow> robot_state_leg" where
  "leg_processLimitSwitches_slot LeftA limitSwitch leg rst =
     (let sw = latch_switches rst limitSwitch (limitSwitches (halfA leg))
      in leg\<lparr>halfA := half_switches sw (halfA leg), legExtendSwitch := bit sw 4,
             legRetractSwitch := bit sw 5\<rparr>)"
| "leg_processLimitSwitches_slot RightA limitSwitch leg rst =
     (let sw = latch_switches rst limitSwitch (limitSwitches (halfA leg))
      in leg\<lparr>halfA := half_switches sw (halfA leg), legExtendSwitch := bit sw 4,
             legRetractSwitch := bit sw 5\<rparr>)"
| "leg_processLimitSwitches_slot LeftB limitSwitch leg rst =
     (let sw = latch_switches rst limitSwitch (limitSwitches (halfB leg))
      in leg\<lparr>halfB := half_switches sw (halfB leg), motorRetractSwitch := bit sw 4\<rparr>)"
| "leg_processLimitSwitches_slot RightB limitSwitch leg rst =
     (let sw = latch_switches rst limitSwitch (limitSwitches (halfB leg))
      in leg\<lparr>halfB := half_switches sw (halfB leg), motorRetractSwitch := bit sw 4\<rparr>)"

definition leg_processLimitSwitches :: "leg_inputs \<Rightarrow> bool \<Rightarrow> robot_state \<Rightarrow> robot_state" where
  "leg_processLimitSwitches i rst rs =
     (case leg_slot_of (li_id i) of
        None \<Rightarrow> rs
      | Some sl \<Rightarrow>
          map_leg sl (\<lambda>leg. leg_processLimitSwitches_slot sl (li_limitSwitch i) leg rst) rs)"

text \<open>The knee force of a leg is the sum of those of its halves, as 32-bit integers.\<close>

definition processStrainGauges :: "leg_inputs \<Rightarrow> robot_state \<Rightarrow> robot_state" where
  "processStrainGauges i rs =
     (case leg_slot_of (li_id i) of
        None \<Rightarrow> rs
      | Some sl \<Rightarrow>
          (let rs = map_half sl (\<lambda>h. h\<lparr>half_kneeForce := ucast (li_kneeForce1 i)\<rparr>) rs
           in map_leg sl (\<lambda>leg. leg\<lparr>kneeForce :=
                half_kneeForce (halfA leg) + half_kneeForce (halfB leg)\<rparr>) rs))"

definition leg_processVoltages :: "leg_inputs \<Rightarrow> robot_state \<Rightarrow> robot_state" where
  "leg_processVoltages i rs =
     (case leg_slot_of (li_id i) of
        None \<Rightarrow> rs
      | Some sl \<Rightarrow>
          map_half sl (\<lambda>h. h\<lparr>motorVoltage := decodeMotorVoltage (li_motorVoltage i),
            logicVoltage := processADCValue (li_logicVoltage i) * Fin 6\<rparr>) rs)"

text \<open>
  The toe switch: a threshold over the reading at start-up, with the reading of a lost
  sensor excluded, and a debouncing counter.
\<close>

definition toe_contact :: "robot_variant \<Rightarrow> uint16 \<Rightarrow> uint16 \<Rightarrow> bool" where
  "toe_contact v zero toeSensor \<longleftrightarrow>
     sint toeSensor - sint zero > TOE_THRESH v \<and> sint toeSensor \<noteq> 4095"

definition toeDetect :: "robot_variant \<Rightarrow> leg_inputs \<Rightarrow> LegMedulla \<Rightarrow> bool \<times> LegMedulla" where
  "toeDetect v i m =
     (let m = m\<lparr>newToeBool := toe_contact v (zeroToeSensor m) (li_toeSensor i)\<rparr>;
          m = (if newToeBool m = oldToeBool m then m\<lparr>toeCounter := toeCounter m + 1\<rparr>
               else m\<lparr>toeCounter := 0\<rparr>);
          m = (if 50 \<le> toeCounter m then m\<lparr>toeBool := newToeBool m, toeCounter := 50\<rparr> else m);
          m = m\<lparr>oldToeBool := newToeBool m\<rparr>
      in (toeBool m, m))"

subsection \<open>Receiving and transmitting\<close>

definition leg_status :: "robot_variant \<Rightarrow> leg_inputs \<Rightarrow> LegMedulla \<Rightarrow> robot_state \<Rightarrow> LegMedulla \<times> robot_state" where
  "leg_status v i m rs =
     (case leg_slot_of (li_id i) of
        None \<Rightarrow> (m, rs)
      | Some sl \<Rightarrow>
          (let rs = map_half sl (\<lambda>h. h\<lparr>medullaState := li_state i, errorFlags := li_errorFlags i\<rparr>) rs
           in if sl = LeftB \<or> sl = RightB
              then let (contact, m) = toeDetect v i m
                   in (m, map_leg sl (\<lambda>leg. leg\<lparr>toeSwitch := li_toeSensor i, onGround := contact\<rparr>) rs)
              else (m, rs)))"

definition leg_processReceiveData ::
  "robot_variant \<Rightarrow> leg_inputs \<Rightarrow> LegMedulla \<times> robot_state \<Rightarrow> LegMedulla \<times> robot_state" where
  "leg_processReceiveData v i = (\<lambda>(m, rs).
     if li_timingCounter i = lm_timingCounterValue m then (m, rs)
     else
       (let deltaTime = elapsed_ns (li_timingCounter i) (lm_timingCounterValue m);
            m = m\<lparr>lm_timingCounterValue := li_timingCounter i\<rparr>;
            m = checkErroneousEncoderValues i m;
            rs = processPositions v i m rs;
            (m, rs) = processVelocities v deltaTime i m rs;
            (m, rs) = processIncrementalEncoders v deltaTime i m rs;
            rs = leg_processThermistors i rs;
            rs = leg_processLimitSwitches i (li_state i = medulla_state_idle) rs;
            rs = leg_processVoltages i rs;
            rs = leg_processCurrents i rs;
            rs = processStrainGauges i rs
        in leg_status v i m rs))"

text \<open>The current in amplifier counts; \<open>None\<close> where the conversion to 32 bits is undefined.\<close>

definition leg_calcMotorCurrentOut ::
  "robot_variant \<Rightarrow> uint8 \<Rightarrow> controller_output \<Rightarrow> uint32 option" where
  "leg_calcMotorCurrentOut v ident co =
     (if co_command co \<noteq> medulla_state_run then Some 0
      else
        let torqueCmd = (case leg_slot_of ident of
                           None \<Rightarrow> 0
                         | Some sl \<Rightarrow> motor_command sl co * Fin (MOTOR_DIRECTION v sl))
        in to_int32 (of_int_dbl MTR_MAX_COUNT * torqueCmd / Fin (MTR_MAX_CURRENT v)))"

definition leg_processTransmitData ::
  "robot_variant \<Rightarrow> uint8 \<Rightarrow> controller_output \<Rightarrow> LegMedulla \<Rightarrow> (leg_outputs \<times> LegMedulla) option" where
  "leg_processTransmitData v ident co m =
     (let m = m\<lparr>lm_local_counter := lm_local_counter m + 1\<rparr>
      in case leg_calcMotorCurrentOut v ident co of
           None \<Rightarrow> None
         | Some current \<Rightarrow>
             Some (\<lparr>lo_command = co_command co, lo_counter = lm_local_counter m,
                    lo_motorCurrent = current\<rparr>, m))"

subsection \<open>Frame facts\<close>

lemma leg_slot_of_cases [simp]:
  "leg_slot_of 1 = Some LeftA" "leg_slot_of 2 = Some LeftB"
  "leg_slot_of 3 = Some RightA" "leg_slot_of 4 = Some RightB"
  by (simp_all add: leg_slot_of_def consts_simp)

lemma get_map_half [simp]:
  "get_half sl (map_half sl f rs) = f (get_half sl rs)"
  "sl \<noteq> sl' \<Longrightarrow> get_half sl (map_half sl' f rs) = get_half sl rs"
  by (cases sl; simp) (cases sl; cases sl'; simp)

text \<open>What the leg drivers leave alone: everything but the leg halves and the leg's switches.\<close>

definition leg_frame :: "robot_state \<Rightarrow> robot_state \<Rightarrow> bool" where
  "leg_frame rs rs' \<longleftrightarrow>
     header rs' = header rs \<and> rtOpsState rs' = rtOpsState rs \<and>
     robotConfiguration rs' = robotConfiguration rs \<and> timing rs' = timing rs \<and>
     disableSafeties rs' = disableSafeties rs \<and> position rs' = position rs \<and>
     boomMedullaState rs' = boomMedullaState rs \<and>
     hip (lLeg rs') = hip (lLeg rs) \<and> hip (rLeg rs') = hip (rLeg rs) \<and>
     hipMedullaState (lLeg rs') = hipMedullaState (lLeg rs) \<and>
     hipMedullaState (rLeg rs') = hipMedullaState (rLeg rs)"

lemma leg_frame_refl: "leg_frame rs rs"
  by (simp add: leg_frame_def)

lemma leg_frame_trans: "leg_frame a b \<Longrightarrow> leg_frame b c \<Longrightarrow> leg_frame a c"
  by (simp add: leg_frame_def)

lemma map_half_frame: "leg_frame rs (map_half sl f rs)"
  by (cases sl) (simp_all add: leg_frame_def)

lemma map_leg_frame:
  "(\<And>l. hip (f l) = hip l \<and> hipMedullaState (f l) = hipMedullaState l) \<Longrightarrow>
   leg_frame rs (map_leg sl f rs)"
  by (cases sl) (simp_all add: leg_frame_def)

lemma processLimitSwitches_slot_frame:
  "hip (leg_processLimitSwitches_slot sl w leg rst) = hip leg \<and>
   hipMedullaState (leg_processLimitSwitches_slot sl w leg rst) = hipMedullaState leg"
  by (cases sl) (simp_all add: Let_def)

lemma leg_status_frame: "leg_frame rs (snd (leg_status v i m rs))"
proof (cases "leg_slot_of (li_id i)")
  case None
  then show ?thesis by (simp add: leg_status_def leg_frame_refl)
next
  case (Some sl)
  then show ?thesis by (cases sl) (simp_all add: leg_status_def Let_def split_beta leg_frame_def)
qed

lemma leg_stages_frame:
  "leg_frame rs (processPositions v i m rs)"
  "leg_frame rs (snd (processVelocities v dt i m rs))"
  "leg_frame rs (snd (processIncrementalEncoders v dt i m rs))"
  "leg_frame rs (leg_processThermistors i rs)"
  "leg_frame rs (leg_processLimitSwitches i rst rs)"
  "leg_frame rs (leg_processVoltages i rs)"
  "leg_frame rs (leg_processCurrents i rs)"
  "leg_frame rs (processStrainGauges i rs)"
  by (auto simp: processPositions_def processVelocities_def processIncrementalEncoders_def
      leg_processThermistors_def leg_processLimitSwitches_def leg_processVoltages_def
      leg_processCurrents_def processStrainGauges_def Let_def
      processLimitSwitches_slot_frame split_beta
      split: option.split intro!: map_half_frame map_leg_frame leg_frame_refl
      intro: leg_frame_trans [OF map_half_frame map_half_frame]
        leg_frame_trans [OF map_half_frame map_leg_frame])

lemma leg_receive_frame: "leg_frame rs (snd (leg_processReceiveData v i (m, rs)))"
  unfolding leg_processReceiveData_def Let_def split_beta
  by (simp add: leg_frame_refl, intro impI leg_frame_trans [OF _ leg_status_frame]
      leg_frame_trans [OF _ leg_stages_frame(8)] leg_frame_trans [OF _ leg_stages_frame(7)]
      leg_frame_trans [OF _ leg_stages_frame(6)] leg_frame_trans [OF _ leg_stages_frame(5)]
      leg_frame_trans [OF _ leg_stages_frame(4)] leg_frame_trans [OF _ leg_stages_frame(3)]
      leg_frame_trans [OF _ leg_stages_frame(2)] leg_stages_frame(1))

lemma leg_stages_counter [simp]:
  "lm_timingCounterValue (checkErroneousEncoderValues i m) = lm_timingCounterValue m"
  "lm_timingCounterValue (fst (processVelocities v dt i m rs)) = lm_timingCounterValue m"
  "lm_timingCounterValue (fst (processIncrementalEncoders v dt i m rs)) = lm_timingCounterValue m"
  "lm_timingCounterValue (fst (leg_status v i m rs)) = lm_timingCounterValue m"
  by (simp_all add: checkErroneousEncoderValues_def processVelocities_def
      processIncrementalEncoders_def leg_status_def toeDetect_def Let_def split_beta
      split: option.split)

text \<open>The leg driver follows the contract of the drivers.\<close>

interpretation leg_driver: medulla_driver li_timingCounter lm_timingCounterValue
  "leg_processReceiveData v" for v
  by unfold_locales (simp_all add: leg_processReceiveData_def Let_def split_beta)

subsection \<open>The incremental encoder follows the rotor\<close>

lemma incremental_delta_eq: "incremental_delta reading value = reading - value"
  unfolding incremental_delta_def crem_narrow16 by simp

definition inc_advance :: "leg_inputs \<Rightarrow> LegMedulla \<Rightarrow> LegMedulla" where
  "inc_advance i m =
     m\<lparr>incrementalEncoderValue := li_incrementalEncoder i,
       incrementalEncoderPos := incrementalEncoderPos m +
         wrap_half 65536 (uint (li_incrementalEncoder i) - uint (incrementalEncoderValue m)),
       incrementalEncoderTimestampValue := li_incrementalEncoderTimestamp i\<rparr>"

lemma processIncrementalEncoders_fst:
  "fst (processIncrementalEncoders v dt i m rs) = inc_advance i m"
  by (simp add: processIncrementalEncoders_def Let_def incremental_delta_eq inc_advance_def sint_diff_16)

interpretation leg_inc: wrap_tracker 65536 "\<lambda>i. uint (li_incrementalEncoder i)" "\<lambda>_. True" "\<lambda>_. True"
  incrementalEncoderPos "\<lambda>m. uint (incrementalEncoderValue m)" inc_advance
  by unfold_locales (auto simp: inc_advance_def)

definition leg_inc_run ::
  "robot_variant \<Rightarrow> LegMedulla \<times> robot_state \<Rightarrow> (nsecs \<times> leg_inputs) list \<Rightarrow> LegMedulla \<times> robot_state" where
  "leg_inc_run v = run (\<lambda>(m, rs) (dt, i). processIncrementalEncoders v dt i m rs)"

lemma leg_inc_run_fst: "fst (leg_inc_run v (m, rs) xs) = run (\<lambda>m i. inc_advance i m) m (map snd xs)"
proof (induction xs arbitrary: m rs)
  case Nil
  then show ?case by (simp add: leg_inc_run_def)
next
  case (Cons x xs)
  obtain dt i where x: "x = (dt, i)" by (cases x)
  obtain m' rs' where p: "processIncrementalEncoders v dt i m rs = (m', rs')"
    by (cases "processIncrementalEncoders v dt i m rs")
  then have "m' = inc_advance i m" using processIncrementalEncoders_fst [of v dt i m rs] by simp
  with Cons.IH [of m' rs'] show ?case by (simp add: leg_inc_run_def x p)
qed

lemma inc_run_start:
  "incrementalEncoderStart (run (\<lambda>m i. inc_advance i m) m xs) = incrementalEncoderStart m"
  by (induction xs arbitrary: m) (simp_all add: inc_advance_def)

lemma processIncrementalEncoders_rotorAngle:
  assumes "leg_slot_of (li_id i) = Some sl"
  shows "rotorAngle (get_half sl (snd (processIncrementalEncoders v dt i m rs))) =
    incrementalEncoderStart m - Fin INC_ENC_RAD_PER_TICK
      * of_int_dbl (incrementalEncoderPos (inc_advance i m)) * Fin (MOTOR_DIRECTION v sl)"
  using assms
  by (simp add: processIncrementalEncoders_def Let_def incremental_delta_eq sint_diff_16 inc_advance_def)

subsection \<open>The toe switch\<close>

lemma toeDetect_eq:
  fixes v i
  assumes "unat (toeCounter m) \<le> 50"
  defines "c \<equiv> toe_contact v (zeroToeSensor m) (li_toeSensor i)"
  shows "unat (toeCounter (snd (toeDetect v i m))) =
      (if c = oldToeBool m then min 50 (unat (toeCounter m) + 1) else 0)"
    and "toeBool (snd (toeDetect v i m)) =
      (if c = oldToeBool m \<and> 49 \<le> unat (toeCounter m) then c else toeBool m)"
    and "oldToeBool (snd (toeDetect v i m)) = c"
    and "zeroToeSensor (snd (toeDetect v i m)) = zeroToeSensor m"
    and "fst (toeDetect v i m) = toeBool (snd (toeDetect v i m))"
proof -
  have s: "unat (toeCounter m + 1) = unat (toeCounter m) + 1"
    using assms(1) by (simp add: unat_word_ariths)
  have g: "50 \<le> w \<longleftrightarrow> 50 \<le> unat w" for w :: uint16
    by (simp add: word_le_nat_alt)
  show "unat (toeCounter (snd (toeDetect v i m))) =
      (if c = oldToeBool m then min 50 (unat (toeCounter m) + 1) else 0)"
    and "toeBool (snd (toeDetect v i m)) =
      (if c = oldToeBool m \<and> 49 \<le> unat (toeCounter m) then c else toeBool m)"
    and "oldToeBool (snd (toeDetect v i m)) = c"
    and "zeroToeSensor (snd (toeDetect v i m)) = zeroToeSensor m"
    and "fst (toeDetect v i m) = toeBool (snd (toeDetect v i m))"
    by (auto simp: toeDetect_def Let_def c_def g s min_def)
qed

definition toe_run :: "robot_variant \<Rightarrow> LegMedulla \<Rightarrow> leg_inputs list \<Rightarrow> LegMedulla" where
  "toe_run v = run (\<lambda>m i. snd (toeDetect v i m))"

text \<open>Samples that agree with the last one count up to 50.\<close>

lemma toe_run_agreeing:
  assumes "unat (toeCounter m) \<le> 50" and "oldToeBool m = b"
    and "list_all (\<lambda>i. toe_contact v (zeroToeSensor m) (li_toeSensor i) = b) is"
    and "unat (toeCounter m) = 50 \<Longrightarrow> toeBool m = b"
  shows "toeBool (toe_run v m is) =
    (if 50 \<le> unat (toeCounter m) + length is then b else toeBool m)"
  using assms
proof (induction "is" arbitrary: m)
  case Nil
  then show ?case by (auto simp: toe_run_def)
next
  case (Cons i xs)
  let ?m = "snd (toeDetect v i m)"
  note e = toeDetect_eq [OF Cons.prems(1), of v i]
  from Cons.prems have c: "toe_contact v (zeroToeSensor m) (li_toeSensor i) = b" by simp
  have "toeBool (toe_run v ?m xs) = (if 50 \<le> unat (toeCounter ?m) + length xs then b else toeBool ?m)"
    using Cons.prems by (intro Cons.IH) (auto simp: e c)
  then show ?case using Cons.prems by (auto simp: toe_run_def e c min_def)
qed

subsection \<open>A concrete leg\<close>

text \<open>Process data of zeros and a driver that has seen them, for the instances of the properties.\<close>

definition leg_inputs_zero :: leg_inputs where
  "leg_inputs_zero =
     \<lparr>li_id = 0, li_state = 0, li_timingCounter = 0, li_errorFlags = 0, li_limitSwitch = 0,
      li_toeSensor = 0, li_motorEncoder = 0, li_motorEncoderTimestamp = 0, li_legEncoder = 0,
      li_legEncoderTimestamp = 0, li_incrementalEncoder = 0, li_incrementalEncoderTimestamp = 0,
      li_motorVoltage = 0, li_logicVoltage = 0, li_thermistor0 = 0, li_thermistor1 = 0,
      li_thermistor2 = 0, li_thermistor3 = 0, li_thermistor4 = 0, li_thermistor5 = 0,
      li_amp1MeasuredCurrent = 0, li_amp2MeasuredCurrent = 0, li_kneeForce1 = 0, li_kneeForce2 = 0\<rparr>"

definition leg_driver_zero :: LegMedulla where
  "leg_driver_zero =
     \<lparr>lm_local_counter = 0, motorEncoderValue = 0, legEncoderValue = 0,
      motorEncoderTimestampValue = 0, legEncoderTimestampValue = 0, incrementalEncoderStart = 0,
      incrementalEncoderPos = 0, incrementalEncoderValue = 0, incrementalEncoderTimestampValue = 0,
      lm_timingCounterValue = 0, legPositionOffset = 0, zeroToeSensor = 0, newToeBool = False,
      oldToeBool = False, toeBool = False, toeCounter = 0, skipMotorEncoder = False,
      skipLegEncoder = False, legEncoderDt = 0, motorEncoderDt = 0\<rparr>"

subsection \<open>Properties\<close>

text \<open>
  C34. The rotor angle that a leg driver reports follows the motor through every rollover of the
  16-bit incremental encoder: as long as the shaft moves by less than half a revolution of
  the counter between readings, the reported angle is the start angle minus the scaled
  displacement, whatever the time stamps are.
\<close>

theorem rotor_follows:
  assumes "leg_slot_of (li_id (snd x)) = Some sl"
    and "uint (incrementalEncoderValue m) mod 65536 = p0 mod 65536"
    and "follows 65536 (\<lambda>i. uint (li_incrementalEncoder i)) (\<lambda>_. True) p0
           (map (\<lambda>(y, p). (snd y, p)) (xs @ [(x, p)]))"
  shows "rotorAngle (get_half sl (snd (leg_inc_run v (m, rs) (map fst (xs @ [(x, p)]))))) =
    incrementalEncoderStart m - Fin INC_ENC_RAD_PER_TICK
      * of_int_dbl (incrementalEncoderPos m + (p - p0)) * Fin (MOTOR_DIRECTION v sl)"
proof -
  obtain dt i where x: "x = (dt, i)" by (cases x)
  obtain m' rs' where r: "leg_inc_run v (m, rs) (map fst xs) = (m', rs')"
    by (cases "leg_inc_run v (m, rs) (map fst xs)")
  have m': "m' = run (\<lambda>m i. inc_advance i m) m (map snd (map fst xs))"
    using leg_inc_run_fst [of v m rs "map fst xs"] r by simp
  have "incrementalEncoderPos (run (\<lambda>m i. inc_advance i m) m
      (map fst (map (\<lambda>(y, p). (snd y, p)) (xs @ [(x, p)])))) =
    incrementalEncoderPos m + (last (p0 # map snd (map (\<lambda>(y, p). (snd y, p)) (xs @ [(x, p)]))) - p0)"
    by (rule leg_inc.run_exact [OF TrueI assms(2,3)])
  moreover have "map fst (map (\<lambda>(y, p). (snd y, p)) (xs @ [(x, p)])) = map snd (map fst xs) @ [i]"
    by (simp add: x split_def)
  ultimately have pos: "incrementalEncoderPos (inc_advance i m') = incrementalEncoderPos m + (p - p0)"
    by (simp add: m' split_def comp_def)
  have "snd (leg_inc_run v (m, rs) (map fst (xs @ [(x, p)]))) =
      snd (processIncrementalEncoders v dt i m' rs')"
    using r by (simp add: leg_inc_run_def x)
  moreover have "incrementalEncoderStart m' = incrementalEncoderStart m"
    by (simp add: m' inc_run_start)
  ultimately show ?thesis
    using processIncrementalEncoders_rotorAngle [of i sl v dt m' rs'] assms(1)
    by (simp add: x pos)
qed

lemma rotor_follows_witness:
  "rotorAngle (halfA (lLeg (snd (leg_inc_run biped1 (leg_driver_zero, robot_state_zero)
     [(1000000, leg_inputs_zero\<lparr>li_id := 1, li_incrementalEncoder := 30000\<rparr>),
      (1000000, leg_inputs_zero\<lparr>li_id := 1, li_incrementalEncoder := 60000\<rparr>),
      (1000000, leg_inputs_zero\<lparr>li_id := 1, li_incrementalEncoder := 24464\<rparr>)]))))
   = Fin (INC_ENC_RAD_PER_TICK * 90000)"
  using rotor_follows [of "(1000000, leg_inputs_zero\<lparr>li_id := 1, li_incrementalEncoder := 24464\<rparr>)"
      LeftA leg_driver_zero 0
      "[((1000000, leg_inputs_zero\<lparr>li_id := 1, li_incrementalEncoder := 30000\<rparr>), 30000),
        ((1000000, leg_inputs_zero\<lparr>li_id := 1, li_incrementalEncoder := 60000\<rparr>), 60000)]" 90000
      biped1 robot_state_zero]
  by (simp add: leg_inputs_zero_def leg_driver_zero_def biped1_def leg3_definitions_def of_int_dbl_def)

text \<open>
  The toe switch is debounced: after a change of the thresholded sensor the reported
  contact keeps its value for the first fifty samples of the new value and takes it on from
  the fifty-first on, so shorter glitches never reach the robot state.
\<close>

theorem toe_debounced:
  assumes "unat (toeCounter m) \<le> 50" and "oldToeBool m \<noteq> b" and "is \<noteq> []"
    and "list_all (\<lambda>i. toe_contact v (zeroToeSensor m) (li_toeSensor i) = b) is"
  shows "toeBool (toe_run v m is) = (if length is \<le> 50 then toeBool m else b)"
proof -
  from assms(3) obtain i xs where "is": "is = i # xs" by (cases "is") auto
  let ?m = "snd (toeDetect v i m)"
  note e = toeDetect_eq [OF assms(1), of v i]
  from assms(4) have c: "toe_contact v (zeroToeSensor m) (li_toeSensor i) = b" by (simp add: "is")
  have "toeBool (toe_run v ?m xs) = (if 50 \<le> unat (toeCounter ?m) + length xs then b else toeBool ?m)"
    using assms by (intro toe_run_agreeing) (auto simp: e c "is")
  then show ?thesis using assms(2) by (auto simp: toe_run_def e c "is")
qed

lemma toe_debounced_witness:
  "toeBool (toe_run biped1 leg_driver_zero
     (replicate 50 (leg_inputs_zero\<lparr>li_toeSensor := 2000\<rparr>))) = False \<and>
   toeBool (toe_run biped1 leg_driver_zero
     (replicate 51 (leg_inputs_zero\<lparr>li_toeSensor := 2000\<rparr>))) = True"
  using toe_debounced [of leg_driver_zero True "replicate 50 (leg_inputs_zero\<lparr>li_toeSensor := 2000\<rparr>)" biped1]
    toe_debounced [of leg_driver_zero True "replicate 51 (leg_inputs_zero\<lparr>li_toeSensor := 2000\<rparr>)" biped1]
  by (simp add: leg_driver_zero_def toe_contact_def biped1_def list_all_iff)

text \<open>
  The limit switches are latched: a bit of the stored switches is set after an update
  exactly if the medulla reports it now, or it was stored before and the medulla is not idle.
\<close>

theorem limit_switches_latched:
  assumes "leg_slot_of (li_id i) = Some sl"
  shows "bit (limitSwitches (get_half sl (leg_processLimitSwitches i (li_state i = medulla_state_idle) rs))) n
    \<longleftrightarrow> bit (li_limitSwitch i) n \<or>
        (li_state i \<noteq> medulla_state_idle \<and> bit (limitSwitches (get_half sl rs)) n)"
  using assms
  by (cases sl)
    (auto simp: leg_processLimitSwitches_def latch_switches_def half_switches_def Let_def bit_or_iff)

lemma limit_switches_latched_witness:
  "bit (limitSwitches (halfB (rLeg (leg_processLimitSwitches
     (leg_inputs_zero\<lparr>li_id := 4, li_state := 2, li_limitSwitch := 2\<rparr>) False robot_state_zero)))) 1"
  using limit_switches_latched [of "leg_inputs_zero\<lparr>li_id := 4, li_state := 2, li_limitSwitch := 2\<rparr>"
      RightB robot_state_zero 1]
  by (simp add: leg_inputs_zero_def medulla_state_idle_def bit_simps)

text \<open>
  A safe output is never undefined behaviour for a leg driver: the conversion to amplifier
  counts succeeds, its result is at most full scale in either direction, and it is zero
  unless the command is run.
\<close>

theorem leg_current_bounded:
  assumes "variant_ok v" and "isfinite (motor_command sl co)"
    and "\<bar>real_of_dbl (motor_command sl co)\<bar> \<le> MAX_MTR_CURRENT_CMD v"
    and "leg_slot_of ident = Some sl"
  shows "\<exists>w. leg_calcMotorCurrentOut v ident co = Some w \<and> \<bar>sint w\<bar> \<le> MTR_MAX_COUNT \<and>
    (co_command co \<noteq> medulla_state_run \<longrightarrow> w = 0)"
proof (cases "co_command co = medulla_state_run")
  case False
  then show ?thesis by (simp add: leg_calcMotorCurrentOut_def consts_simp)
next
  case True
  obtain r where r: "motor_command sl co = Fin r" using assms(2) by (rule isfiniteE)
  have dir: "\<bar>MOTOR_DIRECTION v sl\<bar> = 1" using assms(1)
    by (cases sl) (simp_all add: variant_ok_def leg_ok_def)
  have lim: "0 < MTR_MAX_CURRENT v" "\<bar>r\<bar> \<le> MTR_MAX_CURRENT v"
    using assms(1,3) r by (simp_all add: variant_ok_def)
  let ?x = "19900 * (r * MOTOR_DIRECTION v sl) / MTR_MAX_CURRENT v"
  have "\<bar>?x\<bar> = 19900 * (\<bar>r\<bar> / MTR_MAX_CURRENT v)"
    using lim dir by (simp add: abs_mult)
  also have "\<dots> \<le> 19900 * 1"
    using lim by (intro mult_left_mono) simp_all
  finally have "\<bar>?x\<bar> \<le> real_of_int 19900" by simp
  then obtain w where "to_int32 (Fin ?x) = Some w" "\<bar>sint w\<bar> \<le> 19900"
    using to_int32_bounded [of ?x 19900] by auto
  moreover have "leg_calcMotorCurrentOut v ident co = to_int32 (Fin ?x)"
    using True assms(4) lim(1) r
    by (simp add: leg_calcMotorCurrentOut_def of_int_dbl_def consts_simp del: to_int32.simps)
  ultimately show ?thesis using True by (simp add: consts_simp)
qed

lemma leg_current_bounded_witness:
  "\<exists>w. leg_calcMotorCurrentOut biped1 1
       (controller_output_zero\<lparr>co_command := 2,
          co_lLeg := controller_output_leg_zero\<lparr>motorCurrentA := Fin 60\<rparr>\<rparr>) = Some w \<and>
     \<bar>sint w\<bar> \<le> MTR_MAX_COUNT"
  using leg_current_bounded [OF variant_ok_bipeds(1), of LeftA
      "controller_output_zero\<lparr>co_command := 2,
         co_lLeg := controller_output_leg_zero\<lparr>motorCurrentA := Fin 60\<rparr>\<rparr>" 1]
  by (auto simp: biped1_def)

text \<open>
  The velocity after a rejected reading: the code keeps the time running over the rejected
  sample but remembers the rejected reading itself, so the next accepted velocity is the
  change since the bad reading divided by the time since the last good one.
\<close>

theorem velocity_after_rejected_reading:
  fixes v dt1 i1 m rs
  assumes "leg_slot_of (li_id i1) = Some sl" "leg_slot_of (li_id i2) = Some sl"
    and "skipMotorEncoder m"
  defines "m1 \<equiv> fst (processVelocities v dt1 i1 m rs)"
  shows "motorVelocity (get_half sl (snd (processVelocities v dt2 i2 (m1\<lparr>skipMotorEncoder := False\<rparr>) rs'))) =
    of_int_dbl (uint (li_motorEncoder i2) - uint (li_motorEncoder i1)) * Fin (TRAN_RAD_PER_CNT v sl)
      / (motorEncoderDt m + leg_dt dt1 (li_motorEncoderTimestamp i1) (motorEncoderTimestampValue m)
         + leg_dt dt2 (li_motorEncoderTimestamp i2) (sint (li_motorEncoderTimestamp i1)))"
proof -
  have "motorEncoderValue m1 = uint (li_motorEncoder i1)"
    "motorEncoderTimestampValue m1 = sint (li_motorEncoderTimestamp i1)"
    "motorEncoderDt m1 =
       motorEncoderDt m + leg_dt dt1 (li_motorEncoderTimestamp i1) (motorEncoderTimestampValue m)"
    using assms(3) by (simp_all add: m1_def processVelocities_def Let_def)
  then show ?thesis using assms(2)
    by (simp add: processVelocities_def Let_def)
qed

lemma velocity_after_rejected_reading_witness:
  "motorVelocity (halfA (lLeg (snd (processVelocities biped1 1000000
       (leg_inputs_zero\<lparr>li_id := 1, li_motorEncoder := 5000100\<rparr>)
       ((fst (processVelocities biped1 1000000
          (leg_inputs_zero\<lparr>li_id := 1, li_motorEncoder := 5000000\<rparr>)
          (leg_driver_zero\<lparr>skipMotorEncoder := True\<rparr>) robot_state_zero))\<lparr>skipMotorEncoder := False\<rparr>)
       robot_state_zero)))) =
   Fin (100 * TRAN_RAD_PER_CNT biped1 LeftA / 0.002)"
  using velocity_after_rejected_reading
      [where ?i1.0 = "leg_inputs_zero\<lparr>li_id := 1, li_motorEncoder := 5000000\<rparr>" and sl = LeftA
       and ?i2.0 = "leg_inputs_zero\<lparr>li_id := 1, li_motorEncoder := 5000100\<rparr>"
       and m = "leg_driver_zero\<lparr>skipMotorEncoder := True\<rparr>" and v = biped1 and ?dt1.0 = 1000000
       and rs = robot_state_zero and ?dt2.0 = 1000000 and rs' = robot_state_zero]
  by (simp add: leg_inputs_zero_def leg_driver_zero_def leg_dt_def of_int_dbl_def consts_simp
      biped1_def leg3_definitions_def)

end
