(* ===== verification/HipMedulla.thy ===== *)
theory HipMedulla
  imports Medulla
begin

text \<open>
  The driver of the hip medullas (atrias_medulla_drivers/src/HipMedulla.cpp). The inputs that
  the code has commented out of its process data (the former IMU) are left out.
\<close>

subsection \<open>Data\<close>

record hip_inputs =
  hi_id :: uint8
  hi_state :: uint8
  hi_timingCounter :: uint8
  hi_errorFlags :: uint8
  hi_limitSwitches :: uint8
  hi_hipEncoder :: uint32
  hi_hipEncoderTimestamp :: uint16
  hi_motorVoltage :: uint16
  hi_logicVoltage :: uint16
  hi_thermistor0 :: uint16
  hi_thermistor1 :: uint16
  hi_thermistor2 :: uint16
  hi_ampMeasuredCurrent :: uint16
  hi_incrementalEncoder :: uint16
  hi_incrementalEncoderTimestamp :: uint16
  hi_currentPositive :: uint16
  hi_currentNegative :: uint16

record hip_outputs =
  ho_command :: uint8
  ho_counter :: uint16
  ho_motorCurrent :: uint32

record HipMedulla =
  hm_local_counter :: uint16
  hm_timingCounterValue :: uint8
  hm_incrementalEncoderValue :: uint16
  hm_incrementalEncoderTimestampValue :: int
  incrementalEncoderInitialized :: bool

subsection \<open>Operations\<close>

definition hip_postOpInit :: "hip_inputs \<Rightarrow> HipMedulla \<Rightarrow> HipMedulla" where
  "hip_postOpInit i m =
     m\<lparr>hm_timingCounterValue := hi_timingCounter i,
       hm_incrementalEncoderValue := hi_incrementalEncoder i,
       hm_incrementalEncoderTimestampValue := sint (hi_incrementalEncoderTimestamp i),
       incrementalEncoderInitialized := False\<rparr>"

text \<open>Unlike the leg driver, this one does not look at the command.\<close>

definition hip_calcMotorCurrentOut ::
  "robot_variant \<Rightarrow> uint8 \<Rightarrow> controller_output \<Rightarrow> uint32 option" where
  "hip_calcMotorCurrentOut v ident co =
     (let torqueCmd =
            (if ident = MEDULLA_LEFT_HIP_ID
             then motorCurrentHip (co_lLeg co) * Fin LEFT_MOTOR_HIP_DIRECTION
             else if ident = MEDULLA_RIGHT_HIP_ID
             then motorCurrentHip (co_rLeg co) * Fin RIGHT_MOTOR_HIP_DIRECTION
             else 0)
      in to_int32 (of_int_dbl MTR_MAX_COUNT * torqueCmd / Fin (MTR_HIP_MAX_CURRENT v)))"

definition updateLimitSwitches :: "hip_inputs \<Rightarrow> bool \<Rightarrow> robot_state_hip \<Rightarrow> robot_state_hip" where
  "updateLimitSwitches i rst h =
     (let h = (if rst then h\<lparr>hip_limitSwitches := 0\<rparr> else h)
      in h\<lparr>hip_limitSwitches := hip_limitSwitches h OR hi_limitSwitches i\<rparr>)"

definition hip_delta :: "uint16 \<Rightarrow> uint16 \<Rightarrow> uint16" where
  "hip_delta reading value =
     word_of_int (crem (uint reading + 32768 - uint value) 65536 - 32768)"

text \<open>The constants of the side; an identifier that is not the left hip's counts as right.\<close>

definition hip_dir :: "uint8 \<Rightarrow> real" where
  "hip_dir ident =
     (if ident = MEDULLA_LEFT_HIP_ID then LEFT_MOTOR_HIP_DIRECTION else RIGHT_MOTOR_HIP_DIRECTION)"

definition hip_calib_val :: "robot_variant \<Rightarrow> uint8 \<Rightarrow> int" where
  "hip_calib_val v ident =
     (if ident = MEDULLA_LEFT_HIP_ID then LEFT_HIP_CALIB_VAL v else RIGHT_HIP_CALIB_VAL v)"

definition hip_calib_pos :: "robot_variant \<Rightarrow> uint8 \<Rightarrow> real" where
  "hip_calib_pos v ident =
     (if ident = MEDULLA_LEFT_HIP_ID then LEFT_HIP_CALIB_POS v else RIGHT_HIP_CALIB_POS v)"

text \<open>The absolute angle, brought into the interval from pi to 2 pi by two remainders.\<close>

definition hip_absolute :: "robot_variant \<Rightarrow> hip_inputs \<Rightarrow> dbl" where
  "hip_absolute v i =
     (let a = of_int_dbl (sint (hi_hipEncoder i) - hip_calib_val v (hi_id i))
                * Fin HIP_ABS_ENCODER_RAD_PER_TICK * Fin (- hip_dir (hi_id i))
              + Fin (hip_calib_pos v (hi_id i));
          a = dbl_fmod a pi;
          a = a + Fin pi;
          a = dbl_fmod a pi
      in a + Fin pi)"

definition updateEncoderValues ::
  "robot_variant \<Rightarrow> nsecs \<Rightarrow> hip_inputs \<Rightarrow> HipMedulla \<Rightarrow> robot_state_hip \<Rightarrow> HipMedulla \<times> robot_state_hip" where
  "updateEncoderValues v delta_time i m h =
     (let actualDeltaTime =
            of_int_dbl delta_time / of_int_dbl SECOND_IN_NANOSECONDS +
            of_int_dbl (sint (hi_incrementalEncoderTimestamp i)
                        - hm_incrementalEncoderTimestampValue m) / Fin MEDULLA_TIMER_FREQ;
          delta = hip_delta (hi_incrementalEncoder i) (hm_incrementalEncoderValue m);
          m = m\<lparr>hm_incrementalEncoderValue := hm_incrementalEncoderValue m + delta,
                hm_incrementalEncoderTimestampValue := sint (hi_incrementalEncoderTimestamp i)\<rparr>;
          dir = hip_dir (hi_id i);
          h = h\<lparr>legBodyVelocity := Fin (dir * HIP_INC_ENCODER_RAD_PER_TICK)
                  * of_int_dbl (sint delta) / actualDeltaTime,
                legBodyAngle := legBodyAngle h +
                  Fin (dir * HIP_INC_ENCODER_RAD_PER_TICK) * of_int_dbl (sint delta),
                absoluteBodyAngle := hip_absolute v i\<rparr>;
          h = h\<lparr>legBodyAngle := legBodyAngle h +
                  (absoluteBodyAngle h - legBodyAngle h) / Fin 100000\<rparr>
      in if \<not> incrementalEncoderInitialized m
         then (m\<lparr>incrementalEncoderInitialized := True\<rparr>, h\<lparr>legBodyAngle := absoluteBodyAngle h\<rparr>)
         else (m, h))"

definition hip_sensors :: "hip_inputs \<Rightarrow> robot_state_hip \<Rightarrow> robot_state_hip" where
  "hip_sensors i h =
     h\<lparr>hip_medullaState := hi_state i, hip_errorFlags := hi_errorFlags i,
       hip_motorVoltage := decodeMotorVoltage (hi_motorVoltage i),
       hip_logicVoltage := decodeLogicVoltage (hi_logicVoltage i),
       motorThermA := processThermistorValue (hi_thermistor0 i),
       motorThermB := processThermistorValue (hi_thermistor1 i),
       motorThermC := processThermistorValue (hi_thermistor2 i),
       hip_motorCurrent := processAmplifierCurrent (hi_ampMeasuredCurrent i)\<rparr>"

definition hip_process ::
  "robot_variant \<Rightarrow> nsecs \<Rightarrow> hip_inputs \<Rightarrow> HipMedulla \<Rightarrow> robot_state_hip \<Rightarrow> HipMedulla \<times> robot_state_hip" where
  "hip_process v deltaTime i m h =
     (let h = updateLimitSwitches i (hi_state i = medulla_state_idle) h;
          (m, h) = updateEncoderValues v deltaTime i m h
      in (m, hip_sensors i h))"

definition hip_processReceiveData ::
  "robot_variant \<Rightarrow> hip_inputs \<Rightarrow> HipMedulla \<times> robot_state \<Rightarrow> HipMedulla \<times> robot_state" where
  "hip_processReceiveData v i = (\<lambda>(m, rs).
     if hi_timingCounter i = hm_timingCounterValue m then (m, rs)
     else
       (let deltaTime = elapsed_ns (hi_timingCounter i) (hm_timingCounterValue m);
            m = m\<lparr>hm_timingCounterValue := hi_timingCounter i\<rparr>
        in if hi_id i = MEDULLA_LEFT_HIP_ID
           then (let (m, h) = hip_process v deltaTime i m (hip (lLeg rs))
                 in (m, rs\<lparr>currentPositive :=
                          of_int_dbl (uint (hi_currentPositive i) - ROBOT_CURRENT_POS_50A_OFFSET)
                            * Fin ROBOT_CURRENT_50A_GAIN,
                        currentNegative :=
                          of_int_dbl (uint (hi_currentNegative i) - ROBOT_CURRENT_NEG_50A_OFFSET)
                            * Fin ROBOT_CURRENT_50A_GAIN,
                        lLeg := (lLeg rs)\<lparr>hip := h\<rparr>\<rparr>))
           else if hi_id i = MEDULLA_RIGHT_HIP_ID
           then (let (m, h) = hip_process v deltaTime i m (hip (rLeg rs))
                 in (m, rs\<lparr>rLeg := (rLeg rs)\<lparr>hip := h\<rparr>\<rparr>))
           else (m, rs)))"

definition hip_processTransmitData ::
  "robot_variant \<Rightarrow> uint8 \<Rightarrow> controller_output \<Rightarrow> HipMedulla \<Rightarrow> (hip_outputs \<times> HipMedulla) option" where
  "hip_processTransmitData v ident co m =
     (let m = m\<lparr>hm_local_counter := hm_local_counter m + 1\<rparr>
      in case hip_calcMotorCurrentOut v ident co of
           None \<Rightarrow> None
         | Some current \<Rightarrow>
             Some (\<lparr>ho_command = co_command co, ho_counter = hm_local_counter m,
                    ho_motorCurrent = current\<rparr>, m))"

subsection \<open>Frame facts and contracts\<close>

lemma hip_process_counter [simp]:
  "hm_timingCounterValue (fst (hip_process v dt i m h)) = hm_timingCounterValue m"
  by (simp add: hip_process_def updateEncoderValues_def Let_def split_beta)

interpretation hip_driver: medulla_driver hi_timingCounter hm_timingCounterValue
  "hip_processReceiveData v" for v
  by unfold_locales (simp_all add: hip_processReceiveData_def Let_def split_beta)

definition hip_advance :: "hip_inputs \<Rightarrow> HipMedulla \<Rightarrow> HipMedulla" where
  "hip_advance i m =
     m\<lparr>hm_incrementalEncoderValue := hi_incrementalEncoder i,
       hm_incrementalEncoderTimestampValue := sint (hi_incrementalEncoderTimestamp i),
       incrementalEncoderInitialized := True\<rparr>"

lemma hip_delta_eq: "hip_delta reading value = reading - value"
  unfolding hip_delta_def crem_narrow16 by simp

lemma updateEncoderValues_fst: "fst (updateEncoderValues v dt i m h) = hip_advance i m"
  by (simp add: updateEncoderValues_def Let_def hip_delta_eq hip_advance_def)

text \<open>What the hip drivers leave alone.\<close>

definition hip_frame :: "robot_state \<Rightarrow> robot_state \<Rightarrow> bool" where
  "hip_frame rs rs' \<longleftrightarrow>
     header rs' = header rs \<and> rtOpsState rs' = rtOpsState rs \<and>
     robotConfiguration rs' = robotConfiguration rs \<and> timing rs' = timing rs \<and>
     disableSafeties rs' = disableSafeties rs \<and> position rs' = position rs \<and>
     boomMedullaState rs' = boomMedullaState rs \<and>
     halfA (lLeg rs') = halfA (lLeg rs) \<and> halfB (lLeg rs') = halfB (lLeg rs) \<and>
     halfA (rLeg rs') = halfA (rLeg rs) \<and> halfB (rLeg rs') = halfB (rLeg rs) \<and>
     hipMedullaState (lLeg rs') = hipMedullaState (lLeg rs) \<and>
     hipMedullaState (rLeg rs') = hipMedullaState (rLeg rs)"

lemma hip_receive_frame: "hip_frame rs (snd (hip_processReceiveData v i (m, rs)))"
  by (simp add: hip_frame_def hip_processReceiveData_def Let_def split_beta)

lemma real_fmod_twice:
  fixes x
  assumes "0 < y"
  defines "a \<equiv> real_fmod (real_fmod x y + y) y"
  shows "0 \<le> a" and "a < y" and "\<exists>k::int. a = x + of_int k * y"
proof -
  have "0 \<le> real_fmod x y + y" using real_fmod_bounds(1) [OF assms(1), of x] by simp
  then show "0 \<le> a" unfolding a_def by (rule real_fmod_bounds(3) [OF assms(1)])
  show "a < y" unfolding a_def by (rule real_fmod_bounds(2) [OF assms(1)])
  obtain k :: int where k: "real_fmod x y = x + of_int k * y"
    using real_fmod_cong by blast
  obtain j :: int where j: "a = real_fmod x y + y + of_int j * y"
    unfolding a_def using real_fmod_cong by blast
  from k j have "a = x + of_int (k + 1 + j) * y" by (simp add: algebra_simps)
  then show "\<exists>k::int. a = x + of_int k * y" ..
qed

subsection \<open>Properties\<close>

text \<open>
  The absolute hip angle is always a number between pi (included) and 2 pi (excluded), and
  differs from the scaled encoder reading by a multiple of pi, for every reading.
\<close>

theorem hip_absolute_range:
  "\<exists>a k. hip_absolute v i = Fin a \<and> pi \<le> a \<and> a < 2 * pi \<and>
     a = of_int (sint (hi_hipEncoder i) - hip_calib_val v (hi_id i)) * HIP_ABS_ENCODER_RAD_PER_TICK
           * - hip_dir (hi_id i) + hip_calib_pos v (hi_id i) + of_int k * pi"
proof -
  let ?x = "of_int (sint (hi_hipEncoder i) - hip_calib_val v (hi_id i)) * HIP_ABS_ENCODER_RAD_PER_TICK
           * - hip_dir (hi_id i) + hip_calib_pos v (hi_id i)"
  let ?a = "real_fmod (real_fmod ?x pi + pi) pi"
  have h: "hip_absolute v i = Fin (?a + pi)"
    by (simp add: hip_absolute_def of_int_dbl_def)
  obtain k :: int where k: "?a = ?x + of_int k * pi"
    using real_fmod_twice(3) [OF pi_gt_zero] by blast
  have "?a + pi = ?x + of_int (k + 1) * pi" unfolding k by (simp add: algebra_simps)
  moreover have "pi \<le> ?a + pi" "?a + pi < 2 * pi"
    using real_fmod_twice(1,2) [OF pi_gt_zero, of ?x] by simp_all
  ultimately show ?thesis using h by blast
qed

text \<open>
  A hip current within its limits is converted to amplifier counts without undefined
  behaviour and within full scale. The hip driver has no test of the command, so that zero
  currents reach a disabled hip rests on RT Ops alone: zero currents give zero counts.
\<close>

theorem hip_current_bounded:
  assumes "variant_ok v" and "isfinite (motorCurrentHip (co_lLeg co))"
    and "isfinite (motorCurrentHip (co_rLeg co))"
    and "\<bar>real_of_dbl (motorCurrentHip (co_lLeg co))\<bar> \<le> MAX_HIP_MTR_CURRENT_CMD v"
    and "\<bar>real_of_dbl (motorCurrentHip (co_rLeg co))\<bar> \<le> MAX_HIP_MTR_CURRENT_CMD v"
  shows "\<exists>w. hip_calcMotorCurrentOut v ident co = Some w \<and> \<bar>sint w\<bar> \<le> MTR_MAX_COUNT \<and>
    (motorCurrentHip (co_lLeg co) = 0 \<and> motorCurrentHip (co_rLeg co) = 0 \<longrightarrow> w = 0)"
proof -
  obtain l r where lr: "motorCurrentHip (co_lLeg co) = Fin l" "motorCurrentHip (co_rLeg co) = Fin r"
    using assms(2,3) by (auto elim!: isfiniteE)
  define t where "t = (if ident = MEDULLA_LEFT_HIP_ID then l
    else if ident = MEDULLA_RIGHT_HIP_ID then - r else 0)"
  have M: "0 < MTR_HIP_MAX_CURRENT v" "MAX_HIP_MTR_CURRENT_CMD v \<le> MTR_HIP_MAX_CURRENT v"
    using assms(1) by (simp_all add: variant_ok_def)
  have t: "\<bar>t\<bar> \<le> MTR_HIP_MAX_CURRENT v"
    using assms(4,5) M lr by (auto simp: t_def)
  let ?x = "19900 * t / MTR_HIP_MAX_CURRENT v"
  have "\<bar>?x\<bar> = 19900 * (\<bar>t\<bar> / MTR_HIP_MAX_CURRENT v)" using M by (simp add: abs_mult)
  also have "\<dots> \<le> 19900 * 1" using M t by (intro mult_left_mono) simp_all
  finally have "\<bar>?x\<bar> \<le> real_of_int 19900" by simp
  then obtain w where w: "to_int32 (Fin ?x) = Some w" "\<bar>sint w\<bar> \<le> 19900"
    using to_int32_bounded [of ?x 19900] by auto
  have c: "hip_calcMotorCurrentOut v ident co = to_int32 (Fin ?x)"
    using M(1) lr by (simp add: hip_calcMotorCurrentOut_def t_def of_int_dbl_def
        MEDULLA_LEFT_HIP_ID_def MEDULLA_RIGHT_HIP_ID_def LEFT_MOTOR_HIP_DIRECTION_def
        RIGHT_MOTOR_HIP_DIRECTION_def MTR_MAX_COUNT_def del: to_int32.simps)
  have "w = 0" if "l = 0" "r = 0"
  proof -
    from that have "t = 0" by (simp add: t_def)
    with w(1) show ?thesis by (simp add: real_trunc_def)
  qed
  with c w lr show ?thesis by (simp add: MTR_MAX_COUNT_def)
qed

lemma hip_current_bounded_witness:
  "\<exists>w. hip_calcMotorCurrentOut biped3 MEDULLA_RIGHT_HIP_ID
       (controller_output_zero\<lparr>co_rLeg := controller_output_leg_zero\<lparr>motorCurrentHip := Fin (- 60)\<rparr>\<rparr>)
     = Some w \<and> \<bar>sint w\<bar> \<le> MTR_MAX_COUNT"
  using hip_current_bounded [OF variant_ok_bipeds(2), of
      "controller_output_zero\<lparr>co_rLeg := controller_output_leg_zero\<lparr>motorCurrentHip := Fin (- 60)\<rparr>\<rparr>"
      MEDULLA_RIGHT_HIP_ID]
  by (auto simp: biped3_def controller_output_zero_def controller_output_leg_zero_def)

end
