(* ===== verification/BoomMedulla.thy ===== *)
theory BoomMedulla
  imports Medulla
begin

text \<open>
  The driver of the boom medulla (atrias_medulla_drivers/src/BoomMedulla.cpp), which measures
  where the robot is on its boom. Differences of readings and accumulated positions are
  \<open>int\<close>s in the code and integers here: readings of the 17-bit encoders cannot overflow them.
\<close>

subsection \<open>Data\<close>

record boom_inputs =
  bi_id :: uint8
  bi_state :: uint8
  bi_timingCounter :: uint8
  bi_errorFlags :: uint8
  bi_xEncoder :: uint32
  bi_xTimestamp :: uint16
  bi_pitchEncoder :: uint32
  bi_pitchTimestamp :: uint16
  bi_zEncoder :: uint32
  bi_zTimestamp :: uint16
  bi_logicVoltage :: uint16

record boom_outputs =
  bo_command :: uint8
  bo_counter :: uint16

record BoomMedulla =
  bm_local_counter :: uint16
  bm_timingCounterValue :: uint8
  xEncoderDecoder :: Encoder
  xAngleDecoder :: Encoder
  pitchEncoderValue :: uint32
  pitchEncoderPos :: int
  pitchTimestampValue :: int
  zEncoderValue :: uint32
  zEncoderPos :: int
  zTimestampValue :: int

subsection \<open>Initialisation\<close>

text \<open>
  The start position: an unsigned 32-bit difference and remainder, then the signed wrap. The
  constructor and this operation leave \<open>timingCounterValue\<close> as it was.
\<close>

definition boom_start_pos :: "uint32 \<Rightarrow> int \<Rightarrow> int" where
  "boom_start_pos reading calib =
     (let p = uint (reading - word_of_int calib) mod 2 ^ BOOM_ENCODER_BITS;
          p = p + 2 ^ BOOM_ENCODER_BITS
      in crem (p + 2 ^ (BOOM_ENCODER_BITS - 1)) (2 ^ BOOM_ENCODER_BITS) - 2 ^ (BOOM_ENCODER_BITS - 1))"

definition boom_postOpInit :: "robot_variant \<Rightarrow> boom_inputs \<Rightarrow> BoomMedulla \<Rightarrow> BoomMedulla" where
  "boom_postOpInit v i m =
     m\<lparr>xEncoderDecoder :=
         enc_init BOOM_ENCODER_BITS (bi_xEncoder i) 0 (Fin (BOOM_X_METERS_PER_TICK v)) (xEncoderDecoder m),
       xAngleDecoder :=
         enc_init BOOM_ENCODER_BITS (bi_xEncoder i) 0
           (Fin (- 2 * pi / 2 ^ BOOM_ENCODER_BITS / BOOM_X_GEAR_RATIO)) (xAngleDecoder m),
       pitchEncoderPos := boom_start_pos (bi_pitchEncoder i) (BOOM_PITCH_VERTICAL_VALUE v),
       pitchEncoderValue := bi_pitchEncoder i,
       pitchTimestampValue := sint (bi_pitchTimestamp i),
       zEncoderPos := boom_start_pos (bi_zEncoder i) (BOOM_Z_CALIB_VAL v),
       zEncoderValue := bi_zEncoder i,
       zTimestampValue := sint (bi_zTimestamp i)\<rparr>"

subsection \<open>Encoders\<close>

definition processXEncoder ::
  "nsecs \<Rightarrow> boom_inputs \<Rightarrow> BoomMedulla \<Rightarrow> robot_state \<Rightarrow> BoomMedulla \<times> robot_state" where
  "processXEncoder deltaTime i m rs =
     (let e = enc_update (bi_xEncoder i) deltaTime (bi_xTimestamp i) (xEncoderDecoder m);
          a = enc_update (bi_xEncoder i) deltaTime (bi_xTimestamp i) (xAngleDecoder m)
      in (m\<lparr>xEncoderDecoder := e, xAngleDecoder := a\<rparr>,
          rs\<lparr>position := (position rs)\<lparr>xPosition := getPos e, xVelocity := getVel e,
               xAngle := getPos a, xAngleVelocity := getVel a\<rparr>\<rparr>))"

definition boom_delta :: "uint32 \<Rightarrow> uint32 \<Rightarrow> int" where
  "boom_delta reading value =
     (let d = sint reading - sint value;
          d = d + 2 ^ BOOM_ENCODER_BITS
      in crem (d + 2 ^ (BOOM_ENCODER_BITS - 1)) (2 ^ BOOM_ENCODER_BITS) - 2 ^ (BOOM_ENCODER_BITS - 1))"

definition boom_dt :: "nsecs \<Rightarrow> uint16 \<Rightarrow> int \<Rightarrow> dbl" where
  "boom_dt deltaTime tstamp tstampValue =
     of_int_dbl deltaTime / of_int_dbl SECOND_IN_NANOSECONDS +
     of_int_dbl (sint tstamp - tstampValue) / Fin MEDULLA_TIMER_FREQ"

definition processPitchEncoder ::
  "nsecs \<Rightarrow> boom_inputs \<Rightarrow> BoomMedulla \<Rightarrow> robot_state \<Rightarrow> BoomMedulla \<times> robot_state" where
  "processPitchEncoder deltaTime i m rs =
     (let d = boom_delta (bi_pitchEncoder i) (pitchEncoderValue m);
          m = m\<lparr>pitchEncoderPos := pitchEncoderPos m + d\<rparr>;
          rs = rs\<lparr>position := (position rs)\<lparr>
                 bodyPitch := of_int_dbl (pitchEncoderPos m) * Fin PITCH_ENCODER_RAD_PER_TICK
                   + Fin (3 * pi / 2),
                 bodyPitchVelocity := of_int_dbl d * Fin PITCH_ENCODER_RAD_PER_TICK
                   / boom_dt deltaTime (bi_pitchTimestamp i) (pitchTimestampValue m)\<rparr>\<rparr>;
          m = m\<lparr>pitchEncoderValue := bi_pitchEncoder i,
                pitchTimestampValue := sint (bi_pitchTimestamp i)\<rparr>
      in (m, rs\<lparr>position := (position rs)\<lparr>pitchEncoderRaw := pitchEncoderValue m\<rparr>\<rparr>))"

text \<open>
  The vertical position. The Y velocity (and a Z velocity that is overwritten below) uses the
  boom's angular velocity before it is updated, the final Z velocity the updated one.
\<close>

definition virtualBoomAngle :: "robot_variant \<Rightarrow> dbl \<Rightarrow> dbl" where
  "virtualBoomAngle v angle = angle + dbl_atan2 (Fin (TORSO_LENGTH v)) (Fin (BOOM_LENGTH v))"

definition boom_zVelocity :: "robot_variant \<Rightarrow> robot_state_location \<Rightarrow> dbl" where
  "boom_zVelocity v p =
     (let pitch = bodyPitch p - Fin (3 * pi / 2); L = Fin (BOOM_LENGTH v); T = Fin (TORSO_LENGTH v);
          off = Fin (BOOM_TORSO_OFFSET v)
      in L * dbl_cos (boomAngle p) * boomAngleVelocity p -
         T * (dbl_cos (boomAngle p) * dbl_sin pitch * dbl_sin off * bodyPitchVelocity p -
              dbl_cos (boomAngle p) * dbl_cos off * boomAngleVelocity p +
              dbl_cos pitch * dbl_sin (boomAngle p) * dbl_sin off * boomAngleVelocity p))"

definition processZEncoder ::
  "robot_variant \<Rightarrow> nsecs \<Rightarrow> boom_inputs \<Rightarrow> BoomMedulla \<Rightarrow> robot_state \<Rightarrow> BoomMedulla \<times> robot_state" where
  "processZEncoder v deltaTime i m rs =
     (let d = boom_delta (bi_zEncoder i) (zEncoderValue m);
          actualDeltaTime = boom_dt deltaTime (bi_zTimestamp i) (zTimestampValue m);
          m = m\<lparr>zEncoderPos := zEncoderPos m + d\<rparr>;
          p = (position rs)\<lparr>boomAngle :=
                of_int_dbl (zEncoderPos m) * Fin BOOM_Z_ENCODER_RAD_PER_TICK + Fin (BOOM_Z_CALIB_LOC v)\<rparr>;
          va = virtualBoomAngle v (boomAngle p);
          p = p\<lparr>yPosition := - dbl_cos va * Fin (BOOM_LENGTH v),
                zPosition := Fin (BOOM_HEIGHT v) + Fin (BOOM_LENGTH v) * dbl_sin va,
                yVelocity := Fin (BOOM_LENGTH v) * boomAngleVelocity p * dbl_sin va,
                zVelocity := Fin (BOOM_LENGTH v) * boomAngleVelocity p * dbl_cos va\<rparr>;
          p = p\<lparr>boomAngleVelocity :=
                of_int_dbl d * Fin BOOM_Z_ENCODER_RAD_PER_TICK / actualDeltaTime\<rparr>;
          p = p\<lparr>zVelocity := boom_zVelocity v p\<rparr>;
          m = m\<lparr>zEncoderValue := bi_zEncoder i, zTimestampValue := sint (bi_zTimestamp i)\<rparr>
      in (m, rs\<lparr>position := p\<lparr>zEncoderRaw := bi_zEncoder i\<rparr>\<rparr>))"

subsection \<open>Receiving and transmitting\<close>

definition boom_processReceiveData ::
  "robot_variant \<Rightarrow> boom_inputs \<Rightarrow> BoomMedulla \<times> robot_state \<Rightarrow> BoomMedulla \<times> robot_state" where
  "boom_processReceiveData v i = (\<lambda>(m, rs).
     if bi_timingCounter i = bm_timingCounterValue m then (m, rs)
     else
       (let deltaTime = elapsed_ns (bi_timingCounter i) (bm_timingCounterValue m);
            m = m\<lparr>bm_timingCounterValue := bi_timingCounter i\<rparr>;
            (m, rs) = processPitchEncoder deltaTime i m rs;
            (m, rs) = processXEncoder deltaTime i m rs;
            (m, rs) = processZEncoder v deltaTime i m rs
        in (m, rs\<lparr>boomMedullaState := bi_state i, boomMedullaErrorFlags := bi_errorFlags i,
                  boomLogicVoltage := decodeLogicVoltage (bi_logicVoltage i)\<rparr>)))"

definition boom_processTransmitData ::
  "controller_output \<Rightarrow> BoomMedulla \<Rightarrow> boom_outputs \<times> BoomMedulla" where
  "boom_processTransmitData co m =
     (let m = m\<lparr>bm_local_counter := bm_local_counter m + 1\<rparr>
      in (\<lparr>bo_command = co_command co, bo_counter = bm_local_counter m\<rparr>, m))"

subsection \<open>Contracts\<close>

lemma boom_stages_counter [simp]:
  "bm_timingCounterValue (fst (processPitchEncoder dt i m rs)) = bm_timingCounterValue m"
  "bm_timingCounterValue (fst (processXEncoder dt i m rs)) = bm_timingCounterValue m"
  "bm_timingCounterValue (fst (processZEncoder v dt i m rs)) = bm_timingCounterValue m"
  by (simp_all add: processPitchEncoder_def processXEncoder_def processZEncoder_def Let_def)

interpretation boom_driver: medulla_driver bi_timingCounter bm_timingCounterValue
  "boom_processReceiveData v" for v
  by unfold_locales (simp_all add: boom_processReceiveData_def Let_def split_beta)

definition pitch_advance :: "boom_inputs \<Rightarrow> BoomMedulla \<Rightarrow> BoomMedulla" where
  "pitch_advance i m =
     m\<lparr>pitchEncoderPos := pitchEncoderPos m + boom_delta (bi_pitchEncoder i) (pitchEncoderValue m),
       pitchEncoderValue := bi_pitchEncoder i, pitchTimestampValue := sint (bi_pitchTimestamp i)\<rparr>"

definition z_advance :: "boom_inputs \<Rightarrow> BoomMedulla \<Rightarrow> BoomMedulla" where
  "z_advance i m =
     m\<lparr>zEncoderPos := zEncoderPos m + boom_delta (bi_zEncoder i) (zEncoderValue m),
       zEncoderValue := bi_zEncoder i, zTimestampValue := sint (bi_zTimestamp i)\<rparr>"

lemma processPitchEncoder_fst: "fst (processPitchEncoder dt i m rs) = pitch_advance i m"
  by (simp add: processPitchEncoder_def Let_def pitch_advance_def)

lemma processZEncoder_fst: "fst (processZEncoder v dt i m rs) = z_advance i m"
  by (simp add: processZEncoder_def Let_def z_advance_def)

definition reading17 :: "uint32 \<Rightarrow> bool" where
  "reading17 w \<longleftrightarrow> uint w < 131072"

lemma sint_reading17: "reading17 w \<Longrightarrow> sint w = uint w"
proof -
  assume "reading17 w"
  then have "uint w < 2147483648" by (simp add: reading17_def)
  moreover have "- 2147483648 \<le> uint w" using uint_ge_0 [of w] by linarith
  ultimately show ?thesis using sint_word32_id [of "uint w"] by simp
qed

lemma boom_delta_eq:
  assumes "reading17 r" and "reading17 value"
  shows "boom_delta r value = wrap_half 131072 (uint r - uint value)"
proof -
  let ?d = "uint r - uint value"
  have "0 \<le> uint r" "uint value < 131072" using assms by (simp_all add: reading17_def)
  then have "0 \<le> ?d + 131072 + 65536" by linarith
  then have "crem (?d + 131072 + 65536) 131072 = (?d + 131072 + 65536) mod 131072"
    by (simp add: crem_nonneg)
  also have "?d + 131072 + 65536 = (?d + 65536) + 131072" by simp
  also have "((?d + 65536) + 131072) mod 131072 = (?d + 65536) mod 131072" by (rule mod_add_self2)
  finally show ?thesis
    using assms by (simp add: boom_delta_def Let_def consts_simp sint_reading17 wrap_half_def)
qed

interpretation boom_pitch: wrap_tracker 131072 "\<lambda>i. uint (bi_pitchEncoder i)"
  "\<lambda>i. reading17 (bi_pitchEncoder i)" "\<lambda>m. reading17 (pitchEncoderValue m)"
  pitchEncoderPos "\<lambda>m. uint (pitchEncoderValue m)" pitch_advance
  by unfold_locales (auto simp: pitch_advance_def boom_delta_eq)

interpretation boom_z: wrap_tracker 131072 "\<lambda>i. uint (bi_zEncoder i)"
  "\<lambda>i. reading17 (bi_zEncoder i)" "\<lambda>m. reading17 (zEncoderValue m)"
  zEncoderPos "\<lambda>m. uint (zEncoderValue m)" z_advance
  by unfold_locales (auto simp: z_advance_def boom_delta_eq)

subsection \<open>Following the boom\<close>

text \<open>One fresh set of process data.\<close>

lemma boom_receive_fresh:
  fixes v rs
  assumes "bi_timingCounter i \<noteq> bm_timingCounterValue m"
  defines "r \<equiv> boom_processReceiveData v i (m, rs)"
  shows "pitchEncoderPos (fst r) = pitchEncoderPos (pitch_advance i m)"
    and "pitchEncoderValue (fst r) = bi_pitchEncoder i"
    and "zEncoderPos (fst r) = zEncoderPos (z_advance i m)"
    and "zEncoderValue (fst r) = bi_zEncoder i"
    and "bm_timingCounterValue (fst r) = bi_timingCounter i"
    and "bodyPitch (position (snd r)) =
      of_int_dbl (pitchEncoderPos (fst r)) * Fin PITCH_ENCODER_RAD_PER_TICK + Fin (3 * pi / 2)"
    and "boomAngle (position (snd r)) =
      of_int_dbl (zEncoderPos (fst r)) * Fin BOOM_Z_ENCODER_RAD_PER_TICK + Fin (BOOM_Z_CALIB_LOC v)"
  using assms(1)
  by (simp_all add: r_def boom_processReceiveData_def Let_def processPitchEncoder_def
      processXEncoder_def processZEncoder_def pitch_advance_def z_advance_def)

definition boom_run ::
  "robot_variant \<Rightarrow> BoomMedulla \<times> robot_state \<Rightarrow> boom_inputs list \<Rightarrow> BoomMedulla \<times> robot_state" where
  "boom_run v = run (\<lambda>s i. boom_processReceiveData v i s)"

lemma boom_run_follows:
  assumes "reading17 (pitchEncoderValue m)" "uint (pitchEncoderValue m) mod 131072 = p mod 131072"
    and "reading17 (zEncoderValue m)" "uint (zEncoderValue m) mod 131072 = z mod 131072"
    and "distinct_adj (bm_timingCounterValue m # map (bi_timingCounter \<circ> fst) xs)"
    and "follows 131072 (\<lambda>i. uint (bi_pitchEncoder i)) (\<lambda>i. reading17 (bi_pitchEncoder i)) p
           (map (\<lambda>(i, q, w). (i, q)) xs)"
    and "follows 131072 (\<lambda>i. uint (bi_zEncoder i)) (\<lambda>i. reading17 (bi_zEncoder i)) z
           (map (\<lambda>(i, q, w). (i, w)) xs)"
  shows "pitchEncoderPos (fst (boom_run v (m, rs) (map fst xs))) =
      pitchEncoderPos m + (last (p # map (fst \<circ> snd) xs) - p) \<and>
    zEncoderPos (fst (boom_run v (m, rs) (map fst xs))) =
      zEncoderPos m + (last (z # map (snd \<circ> snd) xs) - z) \<and>
    (xs \<noteq> [] \<longrightarrow>
      bodyPitch (position (snd (boom_run v (m, rs) (map fst xs)))) =
        of_int_dbl (pitchEncoderPos (fst (boom_run v (m, rs) (map fst xs))))
          * Fin PITCH_ENCODER_RAD_PER_TICK + Fin (3 * pi / 2) \<and>
      boomAngle (position (snd (boom_run v (m, rs) (map fst xs)))) =
        of_int_dbl (zEncoderPos (fst (boom_run v (m, rs) (map fst xs))))
          * Fin BOOM_Z_ENCODER_RAD_PER_TICK + Fin (BOOM_Z_CALIB_LOC v))"
  using assms
proof (induction xs arbitrary: m rs p z)
  case Nil
  then show ?case by (simp add: boom_run_def)
next
  case (Cons x xs)
  obtain i q w where x: "x = (i, q, w)" by (cases x)
  obtain m' rs' where r: "boom_processReceiveData v i (m, rs) = (m', rs')"
    by (cases "boom_processReceiveData v i (m, rs)")
  from Cons.prems(5) have fresh: "bi_timingCounter i \<noteq> bm_timingCounterValue m" by (auto simp: x)
  note f = boom_receive_fresh [OF fresh, of v rs, unfolded r, simplified]
  from Cons.prems(6) have p: "reading17 (bi_pitchEncoder i)" "uint (bi_pitchEncoder i) mod 131072 = q mod 131072"
    "- (131072 div 2) \<le> q - p" "q - p < 131072 div 2"
    "follows 131072 (\<lambda>i. uint (bi_pitchEncoder i)) (\<lambda>i. reading17 (bi_pitchEncoder i)) q
       (map (\<lambda>(i, q, w). (i, q)) xs)" by (simp_all add: x)
  from Cons.prems(7) have z: "reading17 (bi_zEncoder i)" "uint (bi_zEncoder i) mod 131072 = w mod 131072"
    "- (131072 div 2) \<le> w - z" "w - z < 131072 div 2"
    "follows 131072 (\<lambda>i. uint (bi_zEncoder i)) (\<lambda>i. reading17 (bi_zEncoder i)) w
       (map (\<lambda>(i, q, w). (i, w)) xs)" by (simp_all add: x)
  have pp: "pitchEncoderPos m' = pitchEncoderPos m + (q - p)"
    using boom_pitch.upd_exact [OF Cons.prems(1) p(1) Cons.prems(2) p(2,3,4)] f(1) by simp
  have zz: "zEncoderPos m' = zEncoderPos m + (w - z)"
    using boom_z.upd_exact [OF Cons.prems(3) z(1) Cons.prems(4) z(2,3,4)] f(3) by simp
  have run: "boom_run v (m, rs) (map fst (x # xs)) = boom_run v (m', rs') (map fst xs)"
    by (simp add: boom_run_def x r)
  have IH: "pitchEncoderPos (fst (boom_run v (m', rs') (map fst xs))) =
      pitchEncoderPos m' + (last (q # map (fst \<circ> snd) xs) - q) \<and>
    zEncoderPos (fst (boom_run v (m', rs') (map fst xs))) =
      zEncoderPos m' + (last (w # map (snd \<circ> snd) xs) - w) \<and>
    (xs \<noteq> [] \<longrightarrow>
      bodyPitch (position (snd (boom_run v (m', rs') (map fst xs)))) =
        of_int_dbl (pitchEncoderPos (fst (boom_run v (m', rs') (map fst xs))))
          * Fin PITCH_ENCODER_RAD_PER_TICK + Fin (3 * pi / 2) \<and>
      boomAngle (position (snd (boom_run v (m', rs') (map fst xs)))) =
        of_int_dbl (zEncoderPos (fst (boom_run v (m', rs') (map fst xs))))
          * Fin BOOM_Z_ENCODER_RAD_PER_TICK + Fin (BOOM_Z_CALIB_LOC v))"
    using Cons.prems(5) p(1,2,5) z(1,2,5) by (intro Cons.IH) (simp_all add: f x)
  show ?case
  proof (cases "xs = []")
    case True
    then show ?thesis unfolding run using pp zz f(6,7) by (simp add: boom_run_def x)
  next
    case False
    then show ?thesis unfolding run using IH pp zz by (simp add: x comp_def)
  qed
qed

lemma boom_start_pos_eq: "boom_start_pos reading calib = wrap_half 131072 (uint reading - calib)"
proof -
  let ?d = "uint reading - calib"
  have p: "uint (reading - word_of_int calib) mod 131072 = ?d mod 131072"
    using uint_add_mod_two_power [of 17 reading "- calib"] by simp
  have "0 \<le> ?d mod 131072" by simp
  then have "0 \<le> ?d mod 131072 + 131072 + 65536" by linarith
  then have "crem (?d mod 131072 + 131072 + 65536) 131072 = (?d mod 131072 + 131072 + 65536) mod 131072"
    by (simp add: crem_nonneg)
  also have "?d mod 131072 + 131072 + 65536 = (?d mod 131072 + 65536) + 131072" by simp
  also have "(?d mod 131072 + 65536 + 131072) mod 131072 = (?d mod 131072 + 65536) mod 131072"
    by (rule mod_add_self2)
  also have "\<dots> = (?d + 65536) mod 131072" by (rule mod_add_left_eq)
  finally show ?thesis by (simp add: boom_start_pos_def Let_def consts_simp p wrap_half_def)
qed

subsection \<open>Properties\<close>

text \<open>
  After start-up the boom driver follows the boom through every rollover of its two 17-bit
  encoders: starting from the position nearest to the calibration values, and fed with fresh
  data in which each encoder moves by less than half a turn between updates, the reported
  body pitch and boom angle are the exact scaled displacements.
\<close>

theorem boom_follows:
  assumes "reading17 (bi_pitchEncoder i0)" and "reading17 (bi_zEncoder i0)"
    and "distinct_adj (bm_timingCounterValue m # map (bi_timingCounter \<circ> fst) xs)"
    and "follows 131072 (\<lambda>i. uint (bi_pitchEncoder i)) (\<lambda>i. reading17 (bi_pitchEncoder i))
           (uint (bi_pitchEncoder i0)) (map (\<lambda>(i, q, w). (i, q)) xs)"
    and "follows 131072 (\<lambda>i. uint (bi_zEncoder i)) (\<lambda>i. reading17 (bi_zEncoder i))
           (uint (bi_zEncoder i0)) (map (\<lambda>(i, q, w). (i, w)) xs)"
    and "xs \<noteq> []"
  shows "let rs' = snd (boom_run v (boom_postOpInit v i0 m, rs) (map fst xs));
             q = last (map (fst \<circ> snd) xs); w = last (map (snd \<circ> snd) xs);
             q0 = uint (bi_pitchEncoder i0); w0 = uint (bi_zEncoder i0)
         in bodyPitch (position rs') =
              of_int_dbl (wrap_half 131072 (q0 - BOOM_PITCH_VERTICAL_VALUE v) + (q - q0))
                * Fin PITCH_ENCODER_RAD_PER_TICK + Fin (3 * pi / 2) \<and>
            boomAngle (position rs') =
              of_int_dbl (wrap_half 131072 (w0 - BOOM_Z_CALIB_VAL v) + (w - w0))
                * Fin BOOM_Z_ENCODER_RAD_PER_TICK + Fin (BOOM_Z_CALIB_LOC v)"
proof -
  let ?m = "boom_postOpInit v i0 m"
  have m: "pitchEncoderValue ?m = bi_pitchEncoder i0" "zEncoderValue ?m = bi_zEncoder i0"
    "bm_timingCounterValue ?m = bm_timingCounterValue m"
    "pitchEncoderPos ?m = wrap_half 131072 (uint (bi_pitchEncoder i0) - BOOM_PITCH_VERTICAL_VALUE v)"
    "zEncoderPos ?m = wrap_half 131072 (uint (bi_zEncoder i0) - BOOM_Z_CALIB_VAL v)"
    by (simp_all add: boom_postOpInit_def boom_start_pos_eq)
  show ?thesis
    using boom_run_follows [of ?m "uint (bi_pitchEncoder i0)" "uint (bi_zEncoder i0)" xs v rs]
      assms by (simp add: m Let_def)
qed

text \<open>
  The Y velocity that the boom driver reports lags one update behind: it is computed from
  the angular velocity that the robot state held before this update, not from the one that
  the same update computes and reports.
\<close>

theorem yVelocity_uses_previous_rate:
  "let rs' = snd (processZEncoder v dt i m rs)
   in yVelocity (position rs') = Fin (BOOM_LENGTH v) * boomAngleVelocity (position rs)
        * dbl_sin (virtualBoomAngle v (boomAngle (position rs'))) \<and>
      boomAngleVelocity (position rs') =
        of_int_dbl (boom_delta (bi_zEncoder i) (zEncoderValue m)) * Fin BOOM_Z_ENCODER_RAD_PER_TICK
          / boom_dt dt (bi_zTimestamp i) (zTimestampValue m)"
  by (simp add: processZEncoder_def Let_def)

subsection \<open>A concrete boom\<close>

definition boom_inputs_zero :: boom_inputs where
  "boom_inputs_zero =
     \<lparr>bi_id = 0x20, bi_state = 0, bi_timingCounter = 0, bi_errorFlags = 0, bi_xEncoder = 0,
      bi_xTimestamp = 0, bi_pitchEncoder = 0, bi_pitchTimestamp = 0, bi_zEncoder = 0,
      bi_zTimestamp = 0, bi_logicVoltage = 0\<rparr>"

definition encoder_zero :: Encoder where
  "encoder_zero =
     \<lparr>calibPos = 0, calibValue = 0, calibrated = False, curPos = 0, deltaPos = 0,
      enc_deltaTime = 0, lastReading = 0, lastTimestamp = 0, numBits = 0, scalingRatio = 0\<rparr>"

definition boom_driver_zero :: BoomMedulla where
  "boom_driver_zero =
     \<lparr>bm_local_counter = 0, bm_timingCounterValue = 0, xEncoderDecoder = encoder_zero,
      xAngleDecoder = encoder_zero, pitchEncoderValue = 0, pitchEncoderPos = 0,
      pitchTimestampValue = 0, zEncoderValue = 0, zEncoderPos = 0, zTimestampValue = 0\<rparr>"

lemma boom_follows_witness:
  "bodyPitch (position (snd (boom_run biped1 (boom_postOpInit biped1
       (boom_inputs_zero\<lparr>bi_pitchEncoder := 131000\<rparr>) boom_driver_zero, robot_state_zero)
       [boom_inputs_zero\<lparr>bi_timingCounter := 1, bi_pitchEncoder := 28\<rparr>]))) =
   of_int_dbl (wrap_half 131072 (131000 - 45433) + 100) * Fin PITCH_ENCODER_RAD_PER_TICK
     + Fin (3 * pi / 2)"
  using boom_follows [of "boom_inputs_zero\<lparr>bi_pitchEncoder := 131000\<rparr>" boom_driver_zero
      "[(boom_inputs_zero\<lparr>bi_timingCounter := 1, bi_pitchEncoder := 28\<rparr>, 131100, 0)]" biped1
      robot_state_zero]
  by (simp add: reading17_def boom_inputs_zero_def boom_driver_zero_def biped1_def Let_def)

end
