(* ===== verification/ImuMedulla.thy ===== *)
theory ImuMedulla
  imports Medulla
begin

text \<open>
  The driver of the IMU medulla (atrias_medulla_drivers/src/ImuMedulla.cpp). Its process data
  carries single precision numbers, which are \<open>dbl\<close>s here.
\<close>

record imu_inputs =
  ii_id :: uint8
  ii_state :: uint8
  ii_timingCounter :: uint8
  ii_errorFlags :: uint8
  ii_gyrX :: dbl
  ii_gyrY :: dbl
  ii_gyrZ :: dbl
  ii_accX :: dbl
  ii_accY :: dbl
  ii_accZ :: dbl
  ii_status :: uint8
  ii_seq :: uint8
  ii_temperature :: uint16
  ii_crc :: uint32

record imu_outputs =
  io_command :: uint8
  io_counter :: uint16

record ImuMedulla =
  im_local_counter :: uint16
  im_timingCounterValue :: uint8
  im_pitch :: dbl

definition imu_postOpInit :: "imu_inputs \<Rightarrow> ImuMedulla \<Rightarrow> ImuMedulla" where
  "imu_postOpInit i m =
     m\<lparr>im_pitch := Fin (3 * pi / 2) + (Fin (pi / 4) - dbl_atan2 (- ii_accX i) (- ii_accY i))\<rparr>"

definition processIMU ::
  "nsecs \<Rightarrow> imu_inputs \<Rightarrow> ImuMedulla \<Rightarrow> robot_state \<Rightarrow> ImuMedulla \<times> robot_state" where
  "processIMU deltaTime i m rs =
     (let m = m\<lparr>im_pitch := im_pitch m - ii_gyrZ i\<rparr>
      in (m, rs\<lparr>position := (position rs)\<lparr>
            imuPitch := im_pitch m,
            imuPitchVelocity :=
              im_pitch m / (of_int_dbl deltaTime / of_int_dbl SECOND_IN_NANOSECONDS)\<rparr>\<rparr>))"

definition imu_processTransmitData ::
  "controller_output \<Rightarrow> ImuMedulla \<Rightarrow> imu_outputs \<times> ImuMedulla" where
  "imu_processTransmitData co m =
     (let m = m\<lparr>im_local_counter := im_local_counter m + 1\<rparr>
      in (\<lparr>io_command = co_command co, io_counter = im_local_counter m\<rparr>, m))"

definition imu_processReceiveData ::
  "imu_inputs \<Rightarrow> ImuMedulla \<times> robot_state \<Rightarrow> ImuMedulla \<times> robot_state" where
  "imu_processReceiveData i = (\<lambda>(m, rs).
     if ii_timingCounter i = im_timingCounterValue m then (m, rs)
     else
       (let deltaTime = elapsed_ns (ii_timingCounter i) (im_timingCounterValue m);
            m = m\<lparr>im_timingCounterValue := ii_timingCounter i\<rparr>
        in processIMU deltaTime i m rs))"

interpretation imu_driver: medulla_driver ii_timingCounter im_timingCounterValue
  imu_processReceiveData
  by unfold_locales (simp_all add: imu_processReceiveData_def processIMU_def Let_def)

subsection \<open>Properties\<close>

text \<open>
  The pitch rate that the IMU driver reports is the pitch itself divided by the elapsed
  time, not its change: a robot standing still at a finite pitch has a reported rate that is
  not zero unless the pitch is.
\<close>

theorem imu_rate_is_pitch_over_time:
  assumes "ii_timingCounter i \<noteq> im_timingCounterValue m" and "im_pitch m = Fin p"
    and "ii_gyrZ i = 0"
  shows "imuPitch (position (snd (imu_processReceiveData i (m, rs)))) = Fin p \<and>
    (\<exists>dt > 0. imuPitchVelocity (position (snd (imu_processReceiveData i (m, rs)))) = Fin (p / dt))"
proof -
  let ?n = "elapsed_ns (ii_timingCounter i) (im_timingCounterValue m)"
  have "1000000 \<le> ?n" by (rule elapsed_ns_pos [OF assms(1)])
  then have "0 < real_of_int ?n / 1000000000" by simp
  moreover have "imuPitchVelocity (position (snd (imu_processReceiveData i (m, rs)))) =
      Fin (p / (real_of_int ?n / 1000000000))"
    using assms \<open>1000000 \<le> ?n\<close>
    by (simp add: imu_processReceiveData_def processIMU_def Let_def of_int_dbl_def consts_simp)
  moreover have "imuPitch (position (snd (imu_processReceiveData i (m, rs)))) = Fin p"
    using assms by (simp add: imu_processReceiveData_def processIMU_def Let_def)
  ultimately show ?thesis by blast
qed

lemma imu_rate_is_pitch_over_time_witness:
  "\<exists>dt > 0. imuPitchVelocity (position (snd (imu_processReceiveData
     \<lparr>ii_id = 0x30, ii_state = 0, ii_timingCounter = 1, ii_errorFlags = 0, ii_gyrX = 0,
      ii_gyrY = 0, ii_gyrZ = 0, ii_accX = 0, ii_accY = 0, ii_accZ = 0, ii_status = 0,
      ii_seq = 0, ii_temperature = 0, ii_crc = 0\<rparr>
     (\<lparr>im_local_counter = 0, im_timingCounterValue = 0, im_pitch = Fin 4\<rparr>, robot_state_zero)))) =
   Fin (4 / dt)"
  using imu_rate_is_pitch_over_time [of
     "\<lparr>ii_id = 0x30, ii_state = 0, ii_timingCounter = 1, ii_errorFlags = 0, ii_gyrX = 0,
      ii_gyrY = 0, ii_gyrZ = 0, ii_accX = 0, ii_accY = 0, ii_accZ = 0, ii_status = 0,
      ii_seq = 0, ii_temperature = 0, ii_crc = 0\<rparr>"
     "\<lparr>im_local_counter = 0, im_timingCounterValue = 0, im_pitch = Fin 4\<rparr>" 4 robot_state_zero]
  by simp

end
