(* ===== verification/MedullaManager.thy ===== *)
theory MedullaManager
  imports LegMedulla HipMedulla BoomMedulla ImuMedulla "HOL-Library.Monad_Syntax"
begin

text \<open>
  The medulla manager of the EtherCAT connector (atrias_ecat_conn/src/MedullaManager.cpp). It
  finds the medullas among the slaves, binds a driver to the process image of each, and
  passes data between the drivers and the robot state. A driver's pointers into the process
  image are the offsets of \<open>fillInPDORegData\<close> in the area of the slave it is bound to.
\<close>

subsection \<open>The process image\<close>

type_synonym area = "uint8 list"

definition rd8 :: "area \<Rightarrow> nat \<Rightarrow> uint8" where
  "rd8 a p = a ! p"

definition rd16 :: "area \<Rightarrow> nat \<Rightarrow> uint16" where
  "rd16 a p = word_of_int (uint (a ! p) + 256 * uint (a ! (p + 1)))"

definition rd32 :: "area \<Rightarrow> nat \<Rightarrow> uint32" where
  "rd32 a p = word_of_int (uint (a ! p) + 256 * uint (a ! (p + 1)) +
     65536 * uint (a ! (p + 2)) + 16777216 * uint (a ! (p + 3)))"

text \<open>
  The received entries, in the order of the drivers' tables. A single precision number is
  decoded by a function that is a parameter.
\<close>

definition leg_inputs_of :: "area \<Rightarrow> leg_inputs" where
  "leg_inputs_of a =
     (let p = snd (fillInPDORegData leg_PDORegData)
      in \<lparr>li_id = rd8 a (p ! 0), li_state = rd8 a (p ! 1), li_timingCounter = rd8 a (p ! 2),
          li_errorFlags = rd8 a (p ! 3), li_limitSwitch = rd8 a (p ! 4),
          li_toeSensor = rd16 a (p ! 5), li_motorEncoder = rd32 a (p ! 6),
          li_motorEncoderTimestamp = rd16 a (p ! 7), li_legEncoder = rd32 a (p ! 8),
          li_legEncoderTimestamp = rd16 a (p ! 9), li_incrementalEncoder = rd16 a (p ! 10),
          li_incrementalEncoderTimestamp = rd16 a (p ! 11), li_motorVoltage = rd16 a (p ! 12),
          li_logicVoltage = rd16 a (p ! 13), li_thermistor0 = rd16 a (p ! 14),
          li_thermistor1 = rd16 a (p ! 15), li_thermistor2 = rd16 a (p ! 16),
          li_thermistor3 = rd16 a (p ! 17), li_thermistor4 = rd16 a (p ! 18),
          li_thermistor5 = rd16 a (p ! 19), li_amp1MeasuredCurrent = rd16 a (p ! 20),
          li_amp2MeasuredCurrent = rd16 a (p ! 21), li_kneeForce1 = rd16 a (p ! 22),
          li_kneeForce2 = rd16 a (p ! 23)\<rparr>)"

definition hip_inputs_of :: "area \<Rightarrow> hip_inputs" where
  "hip_inputs_of a =
     (let p = snd (fillInPDORegData hip_PDORegData)
      in \<lparr>hi_id = rd8 a (p ! 0), hi_state = rd8 a (p ! 1), hi_timingCounter = rd8 a (p ! 2),
          hi_errorFlags = rd8 a (p ! 3), hi_limitSwitches = rd8 a (p ! 4),
          hi_hipEncoder = rd32 a (p ! 5), hi_hipEncoderTimestamp = rd16 a (p ! 6),
          hi_motorVoltage = rd16 a (p ! 7), hi_logicVoltage = rd16 a (p ! 8),
          hi_thermistor0 = rd16 a (p ! 9), hi_thermistor1 = rd16 a (p ! 10),
          hi_thermistor2 = rd16 a (p ! 11), hi_ampMeasuredCurrent = rd16 a (p ! 12),
          hi_incrementalEncoder = rd16 a (p ! 13), hi_incrementalEncoderTimestamp = rd16 a (p ! 14),
          hi_currentPositive = rd16 a (p ! 15), hi_currentNegative = rd16 a (p ! 16)\<rparr>)"

definition boom_inputs_of :: "area \<Rightarrow> boom_inputs" where
  "boom_inputs_of a =
     (let p = snd (fillInPDORegData boom_PDORegData)
      in \<lparr>bi_id = rd8 a (p ! 0), bi_state = rd8 a (p ! 1), bi_timingCounter = rd8 a (p ! 2),
          bi_errorFlags = rd8 a (p ! 3), bi_xEncoder = rd32 a (p ! 4), bi_xTimestamp = rd16 a (p ! 5),
          bi_pitchEncoder = rd32 a (p ! 6), bi_pitchTimestamp = rd16 a (p ! 7),
          bi_zEncoder = rd32 a (p ! 8), bi_zTimestamp = rd16 a (p ! 9),
          bi_logicVoltage = rd16 a (p ! 10)\<rparr>)"

definition imu_inputs_of :: "(uint32 \<Rightarrow> dbl) \<Rightarrow> area \<Rightarrow> imu_inputs" where
  "imu_inputs_of float_of a =
     (let p = snd (fillInPDORegData imu_PDORegData)
      in \<lparr>ii_id = rd8 a (p ! 0), ii_state = rd8 a (p ! 1), ii_timingCounter = rd8 a (p ! 2),
          ii_errorFlags = rd8 a (p ! 3), ii_gyrX = float_of (rd32 a (p ! 4)),
          ii_gyrY = float_of (rd32 a (p ! 5)), ii_gyrZ = float_of (rd32 a (p ! 6)),
          ii_accX = float_of (rd32 a (p ! 7)), ii_accY = float_of (rd32 a (p ! 8)),
          ii_accZ = float_of (rd32 a (p ! 9)), ii_status = rd8 a (p ! 10), ii_seq = rd8 a (p ! 11),
          ii_temperature = rd16 a (p ! 12), ii_crc = rd32 a (p ! 13)\<rparr>)"

subsection \<open>State\<close>

text \<open>A driver pointer is null or names the driver object and the slave it is bound to.\<close>

record MedullaManager =
  lLegA :: "(nat \<times> LegMedulla) option"
  lLegB :: "(nat \<times> LegMedulla) option"
  rLegA :: "(nat \<times> LegMedulla) option"
  rLegB :: "(nat \<times> LegMedulla) option"
  boom :: "(nat \<times> BoomMedulla) option"
  imu :: "(nat \<times> ImuMedulla) option"
  lLegHip :: "(nat \<times> HipMedulla) option"
  rLegHip :: "(nat \<times> HipMedulla) option"
  mm_robotState :: robot_state

definition new_MedullaManager :: MedullaManager where
  "new_MedullaManager =
     \<lparr>lLegA = None, lLegB = None, rLegA = None, rLegB = None, boom = None, imu = None,
      lLegHip = None, rLegHip = None, mm_robotState = robot_state_zero\<rparr>"

text \<open>What the SOEM library says of a slave, and what the memory of new drivers holds.\<close>

record ec_slave =
  eep_man :: uint32
  eep_id :: uint32
  slave_inputs :: area

record new_memory =
  mem_leg :: LegMedulla
  mem_hip :: HipMedulla
  mem_boom :: BoomMedulla
  mem_imu :: ImuMedulla

subsection \<open>Finding the medullas\<close>

definition calcRobotConfiguration :: "MedullaManager \<Rightarrow> RobotConfiguration" where
  "calcRobotConfiguration mm =
     (if lLegA mm = None \<or> lLegB mm = None then UNKNOWN
      else if rLegA mm = None \<or> rLegB mm = None
      then (if lLegHip mm \<noteq> None then LEFT_LEG_HIP else LEFT_LEG_NOHIP)
      else if lLegHip mm = None \<or> rLegHip mm = None then BIPED_NOHIP
      else BIPED_FULL)"

definition setRobotConfiguration :: "RobotConfiguration \<Rightarrow> MedullaManager \<Rightarrow> MedullaManager" where
  "setRobotConfiguration c mm =
     mm\<lparr>mm_robotState := (mm_robotState mm)\<lparr>robotConfiguration := RobotConfiguration_t c\<rparr>\<rparr>"

definition initBoomMedulla ::
  "robot_variant \<Rightarrow> new_memory \<Rightarrow> nat \<Rightarrow> ec_slave \<Rightarrow> MedullaManager \<Rightarrow> MedullaManager" where
  "initBoomMedulla v g n slave mm =
     mm\<lparr>boom := Some (n, boom_postOpInit v (boom_inputs_of (slave_inputs slave))
                          ((mem_boom g)\<lparr>bm_local_counter := 0\<rparr>))\<rparr>"

definition initImuMedulla ::
  "(uint32 \<Rightarrow> dbl) \<Rightarrow> new_memory \<Rightarrow> nat \<Rightarrow> ec_slave \<Rightarrow> MedullaManager \<Rightarrow> MedullaManager" where
  "initImuMedulla float_of g n slave mm =
     mm\<lparr>imu := Some (n, imu_postOpInit (imu_inputs_of float_of (slave_inputs slave))
                         ((mem_imu g)\<lparr>im_local_counter := 0\<rparr>))\<rparr>"

definition initHipMedulla ::
  "new_memory \<Rightarrow> nat \<Rightarrow> ec_slave \<Rightarrow> MedullaManager \<Rightarrow> MedullaManager" where
  "initHipMedulla g n slave mm =
     (let i = hip_inputs_of (slave_inputs slave);
          medulla = hip_postOpInit i ((mem_hip g)\<lparr>hm_local_counter := 0\<rparr>)
      in if hi_id i = MEDULLA_LEFT_HIP_ID then mm\<lparr>lLegHip := Some (n, medulla)\<rparr>
         else if hi_id i = MEDULLA_RIGHT_HIP_ID then mm\<lparr>rLegHip := Some (n, medulla)\<rparr>
         else mm)"

definition initLegMedulla ::
  "robot_variant \<Rightarrow> new_memory \<Rightarrow> nat \<Rightarrow> ec_slave \<Rightarrow> MedullaManager \<Rightarrow> MedullaManager" where
  "initLegMedulla v g n slave mm =
     (let i = leg_inputs_of (slave_inputs slave);
          medulla = leg_postOpInit v i ((mem_leg g)\<lparr>lm_local_counter := 0\<rparr>)
      in if li_id i = MEDULLA_LEFT_LEG_A_ID then mm\<lparr>lLegA := Some (n, medulla)\<rparr>
         else if li_id i = MEDULLA_LEFT_LEG_B_ID then mm\<lparr>lLegB := Some (n, medulla)\<rparr>
         else if li_id i = MEDULLA_RIGHT_LEG_A_ID then mm\<lparr>rLegA := Some (n, medulla)\<rparr>
         else if li_id i = MEDULLA_RIGHT_LEG_B_ID then mm\<lparr>rLegB := Some (n, medulla)\<rparr>
         else mm)"

definition medulla_init ::
  "robot_variant \<Rightarrow> (uint32 \<Rightarrow> dbl) \<Rightarrow> new_memory \<Rightarrow> MedullaManager \<Rightarrow> nat \<times> ec_slave \<Rightarrow> MedullaManager" where
  "medulla_init v float_of g mm = (\<lambda>(n, slave).
     if eep_man slave \<noteq> MEDULLA_VENDOR_ID then mm
     else if eep_id slave = MEDULLA_LEG_PRODUCT_CODE then initLegMedulla v g n slave mm
     else if eep_id slave = MEDULLA_BOOM_PRODUCT_CODE then initBoomMedulla v g n slave mm
     else if eep_id slave = MEDULLA_IMU_PRODUCT_CODE then initImuMedulla float_of g n slave mm
     else if eep_id slave = MEDULLA_HIP_PRODUCT_CODE then initHipMedulla g n slave mm
     else mm)"

text \<open>SOEM numbers the slaves from 1.\<close>

definition medullasInit ::
  "robot_variant \<Rightarrow> (uint32 \<Rightarrow> dbl) \<Rightarrow> new_memory \<Rightarrow> ec_slave list \<Rightarrow> MedullaManager \<Rightarrow> MedullaManager" where
  "medullasInit v float_of g slaves mm =
     (let mm = run (medulla_init v float_of g) mm (enumerate 1 slaves)
      in setRobotConfiguration (calcRobotConfiguration mm) mm)"

text \<open>The KPA slave card is recognised but not implemented. With no slave at all the code looks at an entry of its table that no slave has filled; this is the result for one that does not name the card.\<close>

definition mm_start ::
  "robot_variant \<Rightarrow> (uint32 \<Rightarrow> dbl) \<Rightarrow> new_memory \<Rightarrow> ec_slave list \<Rightarrow> MedullaManager \<Rightarrow> MedullaManager" where
  "mm_start v float_of g slaves mm =
     (if slaves \<noteq> [] \<and> eep_id (hd slaves) = KPA_SLAVE_CARD_PRODUCT_CODE then mm
      else medullasInit v float_of g slaves mm)"

subsection \<open>Passing data\<close>

text \<open>A driver that is there processes the area of its slave.\<close>

definition receive_opt ::
  "(nat \<Rightarrow> 'd \<times> robot_state \<Rightarrow> 'd \<times> robot_state) \<Rightarrow> (nat \<times> 'd) option \<times> robot_state
     \<Rightarrow> (nat \<times> 'd) option \<times> robot_state" where
  "receive_opt f = (\<lambda>(d, rs).
     case d of None \<Rightarrow> (None, rs)
     | Some (n, d) \<Rightarrow> (let (d, rs) = f n (d, rs) in (Some (n, d), rs)))"

definition mm_processReceiveData ::
  "robot_variant \<Rightarrow> (uint32 \<Rightarrow> dbl) \<Rightarrow> (nat \<Rightarrow> area) \<Rightarrow> MedullaManager \<Rightarrow> MedullaManager" where
  "mm_processReceiveData v float_of inputs mm =
     (let leg = receive_opt (\<lambda>n. leg_processReceiveData v (leg_inputs_of (inputs n)));
          hipd = receive_opt (\<lambda>n. hip_processReceiveData v (hip_inputs_of (inputs n)));
          (la, rs) = leg (lLegA mm, mm_robotState mm);
          (lb, rs) = leg (lLegB mm, rs);
          (ra, rs) = leg (rLegA mm, rs);
          (rb, rs) = leg (rLegB mm, rs);
          (bo, rs) = receive_opt (\<lambda>n. boom_processReceiveData v (boom_inputs_of (inputs n))) (boom mm, rs);
          (im, rs) = receive_opt (\<lambda>n. imu_processReceiveData (imu_inputs_of float_of (inputs n))) (imu mm, rs);
          (lh, rs) = hipd (lLegHip mm, rs);
          (rh, rs) = hipd (rLegHip mm, rs)
      in \<lparr>lLegA = la, lLegB = lb, rLegA = ra, rLegB = rb, boom = bo, imu = im,
          lLegHip = lh, rLegHip = rh, mm_robotState = rs\<rparr>)"

text \<open>
  Transmitting writes the outputs of every driver into the output area of its slave; the
  result lists them, and is \<open>None\<close> where a driver's conversion is undefined.
\<close>

datatype medulla_outputs =
    LegOut leg_outputs
  | HipOut hip_outputs
  | BoomOut boom_outputs
  | ImuOut imu_outputs

definition wr16 :: "uint16 \<Rightarrow> area" where
  "wr16 w = [ucast w, ucast (drop_bit 8 w)]"

definition wr32 :: "uint32 \<Rightarrow> area" where
  "wr32 w = [ucast w, ucast (drop_bit 8 w), ucast (drop_bit 16 w), ucast (drop_bit 24 w)]"

text \<open>The bytes of the output area, in the order of the driver's table.\<close>

fun output_area :: "medulla_outputs \<Rightarrow> area" where
  "output_area (LegOut out) = [lo_command out] @ wr16 (lo_counter out) @ wr32 (lo_motorCurrent out)"
| "output_area (HipOut out) = [ho_command out] @ wr16 (ho_counter out) @ wr32 (ho_motorCurrent out)"
| "output_area (BoomOut out) = [bo_command out] @ wr16 (bo_counter out)"
| "output_area (ImuOut out) = [io_command out] @ wr16 (io_counter out)"

definition transmit_opt ::
  "(nat \<Rightarrow> 'd \<Rightarrow> ('o \<times> 'd) option) \<Rightarrow> ('o \<Rightarrow> medulla_outputs) \<Rightarrow> (nat \<times> 'd) option
     \<Rightarrow> ((nat \<times> 'd) option \<times> (nat \<times> medulla_outputs) list) option" where
  "transmit_opt f tag d =
     (case d of
        None \<Rightarrow> Some (None, [])
      | Some (n, d) \<Rightarrow>
          (case f n d of
             None \<Rightarrow> None
           | Some (out, d) \<Rightarrow> Some (Some (n, d), [(n, tag out)])))"

definition mm_processTransmitData ::
  "robot_variant \<Rightarrow> (nat \<Rightarrow> area) \<Rightarrow> controller_output \<Rightarrow> MedullaManager
     \<Rightarrow> (MedullaManager \<times> (nat \<times> medulla_outputs) list) option" where
  "mm_processTransmitData v inputs co mm =
     (let leg = transmit_opt (\<lambda>n. leg_processTransmitData v (li_id (leg_inputs_of (inputs n))) co) LegOut;
          hipd = transmit_opt (\<lambda>n. hip_processTransmitData v (hi_id (hip_inputs_of (inputs n))) co) HipOut
      in do {
        (la, o1) \<leftarrow> leg (lLegA mm);
        (lb, o2) \<leftarrow> leg (lLegB mm);
        (ra, o3) \<leftarrow> leg (rLegA mm);
        (rb, o4) \<leftarrow> leg (rLegB mm);
        (bo, o5) \<leftarrow> transmit_opt (\<lambda>n d. Some (boom_processTransmitData co d)) BoomOut (boom mm);
        (im, o6) \<leftarrow> transmit_opt (\<lambda>n d. Some (imu_processTransmitData co d)) ImuOut (imu mm);
        (lh, o7) \<leftarrow> hipd (lLegHip mm);
        (rh, o8) \<leftarrow> hipd (rLegHip mm);
        Some (\<lparr>lLegA = la, lLegB = lb, rLegA = ra, rLegB = rb, boom = bo, imu = im,
               lLegHip = lh, rLegHip = rh, mm_robotState = mm_robotState mm\<rparr>,
              o1 @ o2 @ o3 @ o4 @ o5 @ o6 @ o7 @ o8)
      })"

text \<open>
  The time stamp of the robot state. All operands are 64 bits wide and unsigned; the stamp
  fields keep 32 bits of the results.
\<close>

definition setTimingInfo :: "robot_state_timing \<Rightarrow> MedullaManager \<Rightarrow> MedullaManager" where
  "setTimingInfo info mm =
     (let ns = ucast (controllerTime info mod 1000000000) :: uint32;
          s = ucast ((controllerTime info - ucast ns) div 1000000000) :: uint32
      in mm\<lparr>mm_robotState := (mm_robotState mm)
             \<lparr>header := (header (mm_robotState mm))\<lparr>stamp_nsec := ns, stamp_sec := s\<rparr>,
               timing := info\<rparr>\<rparr>)"

definition mm_getRobotState :: "MedullaManager \<Rightarrow> robot_state" where
  "mm_getRobotState mm = mm_robotState mm"

subsection \<open>Receiving twice\<close>

lemma receive_opt_again:
  assumes "\<And>n. medulla_driver counter_in seen (\<lambda>i. f i)"
  shows "receive_opt (\<lambda>n. f (g n)) (fst (receive_opt (\<lambda>n. f (g n)) (d, rs0)), rs) =
    (fst (receive_opt (\<lambda>n. f (g n)) (d, rs0)), rs)"
proof (cases d)
  case None
  then show ?thesis by (simp add: receive_opt_def)
next
  case (Some x)
  obtain n s where x: "x = (n, s)" by (cases x)
  from assms have s: "seen (fst (f (g n) (s, rs0))) = counter_in (g n)"
    by (rule medulla_driver.sees)
  have "f (g n) (fst (f (g n) (s, rs0)), rs) = (fst (f (g n) (s, rs0)), rs)"
    using assms by (rule medulla_driver.stale) (simp add: s)
  then show ?thesis by (simp add: receive_opt_def Some x split_beta Let_def)
qed

lemma receive_opt_twice:
  assumes "\<And>n. medulla_driver counter_in seen (\<lambda>i. f i)"
  shows "receive_opt (\<lambda>n. f (g n)) (receive_opt (\<lambda>n. f (g n)) (d, rs)) =
    receive_opt (\<lambda>n. f (g n)) (d, rs)"
  using receive_opt_again [OF assms, of g d rs "snd (receive_opt (\<lambda>n. f (g n)) (d, rs))"] by simp

lemmas driver_again =
  receive_opt_twice [OF hip_driver.medulla_driver_axioms]
  receive_opt_again [OF leg_driver.medulla_driver_axioms]
  receive_opt_again [OF hip_driver.medulla_driver_axioms]
  receive_opt_again [OF boom_driver.medulla_driver_axioms]
  receive_opt_again [OF imu_driver.medulla_driver_axioms]

subsection \<open>What no driver writes\<close>

lemma receive_opt_keeps:
  assumes "\<And>n d rs. Q (snd (f n (d, rs))) = Q rs"
  shows "Q (snd (receive_opt f (d, rs))) = Q rs"
  using assms by (simp add: receive_opt_def split_beta Let_def split: option.split)

definition hip_states :: "robot_state \<Rightarrow> uint8 \<times> uint8" where
  "hip_states rs = (hipMedullaState (lLeg rs), hipMedullaState (rLeg rs))"

lemma drivers_keep_hip_states:
  "hip_states (snd (leg_processReceiveData v i (m, rs))) = hip_states rs"
  "hip_states (snd (hip_processReceiveData v j (h, rs))) = hip_states rs"
  "hip_states (snd (boom_processReceiveData v k (b, rs))) = hip_states rs"
  "hip_states (snd (imu_processReceiveData l (u, rs))) = hip_states rs"
  using leg_receive_frame [of rs v i m] hip_receive_frame [of rs v j h]
  by (simp_all add: hip_states_def leg_frame_def hip_frame_def boom_processReceiveData_def
      processPitchEncoder_def processXEncoder_def processZEncoder_def imu_processReceiveData_def
      processIMU_def Let_def split_beta)

lemma mm_receive_hip_states:
  "hip_states (mm_robotState (mm_processReceiveData v float_of inputs mm)) =
   hip_states (mm_robotState mm)"
  unfolding mm_processReceiveData_def Let_def split_beta
  by (simp add: receive_opt_keeps [where Q = hip_states] drivers_keep_hip_states)

lemma robotState_updates:
  "mm_robotState (mm\<lparr>lLegA := la\<rparr>) = mm_robotState mm" "mm_robotState (mm\<lparr>lLegB := la\<rparr>) = mm_robotState mm"
  "mm_robotState (mm\<lparr>rLegA := la\<rparr>) = mm_robotState mm" "mm_robotState (mm\<lparr>rLegB := la\<rparr>) = mm_robotState mm"
  "mm_robotState (mm\<lparr>lLegHip := lh\<rparr>) = mm_robotState mm" "mm_robotState (mm\<lparr>rLegHip := lh\<rparr>) = mm_robotState mm"
  "mm_robotState (mm\<lparr>boom := bo\<rparr>) = mm_robotState mm" "mm_robotState (mm\<lparr>imu := im\<rparr>) = mm_robotState mm"
  by simp_all

lemma init_state [simp]:
  "mm_robotState (initLegMedulla v g n slave mm) = mm_robotState mm"
  "mm_robotState (initHipMedulla g n slave mm) = mm_robotState mm"
  "mm_robotState (initBoomMedulla v g n slave mm) = mm_robotState mm"
  "mm_robotState (initImuMedulla float_of g n slave mm) = mm_robotState mm"
  by (simp_all only: initLegMedulla_def initHipMedulla_def initBoomMedulla_def initImuMedulla_def Let_def
      if_distrib [of mm_robotState] robotState_updates if_cancel)

lemma medulla_init_state: "mm_robotState (medulla_init v float_of g mm x) = mm_robotState mm"
  by (cases x) (simp only: medulla_init_def split_beta fst_conv snd_conv prod.case if_distrib [of mm_robotState]
      init_state if_cancel)

lemma medullasInit_hip_states:
  "hip_states (mm_robotState (medullasInit v float_of g slaves mm)) = hip_states (mm_robotState mm)"
proof -
  have "mm_robotState (run (medulla_init v float_of g) mm xs) = mm_robotState mm" for xs
    by (induction xs arbitrary: mm) (simp_all add: medulla_init_state)
  then show ?thesis
    by (simp add: medullasInit_def Let_def setRobotConfiguration_def hip_states_def)
qed

text \<open>The managers that the connector can bring about.\<close>

inductive mm_reach :: "robot_variant \<Rightarrow> (uint32 \<Rightarrow> dbl) \<Rightarrow> MedullaManager \<Rightarrow> bool"
  for v :: robot_variant and float_of :: "uint32 \<Rightarrow> dbl" where
  new: "mm_reach v float_of new_MedullaManager"
| start: "mm_reach v float_of mm \<Longrightarrow> mm_reach v float_of (mm_start v float_of g slaves mm)"
| timing: "mm_reach v float_of mm \<Longrightarrow> mm_reach v float_of (setTimingInfo info mm)"
| receive: "mm_reach v float_of mm \<Longrightarrow> mm_reach v float_of (mm_processReceiveData v float_of inputs mm)"
| transmit: "mm_reach v float_of mm \<Longrightarrow> mm_processTransmitData v inputs co mm = Some (mm', outs) \<Longrightarrow>
    mm_reach v float_of mm'"

lemma mm_transmit_state:
  "mm_processTransmitData v inputs co mm = Some (mm', outs) \<Longrightarrow> mm_robotState mm' = mm_robotState mm"
  by (auto simp: mm_processTransmitData_def Let_def split: bind_splits)

lemma mm_reach_hip_states:
  "mm_reach v float_of mm \<Longrightarrow> hip_states (mm_robotState mm) = (0, 0)"
proof (induction rule: mm_reach.induct)
  case new
  then show ?case
    by (simp add: new_MedullaManager_def hip_states_def robot_state_zero_def robot_state_leg_zero_def)
next
  case (start mm g slaves)
  then show ?case by (simp add: mm_start_def medullasInit_hip_states)
next
  case (timing mm info)
  then show ?case by (simp add: setTimingInfo_def hip_states_def Let_def)
next
  case (receive mm inputs)
  then show ?case by (simp add: mm_receive_hip_states)
next
  case (transmit mm inputs co mm' outs)
  then show ?case by (simp add: mm_transmit_state)
qed

subsection \<open>Transmitting\<close>

fun out_command :: "medulla_outputs \<Rightarrow> uint8" where
  "out_command (LegOut out) = lo_command out"
| "out_command (HipOut out) = ho_command out"
| "out_command (BoomOut out) = bo_command out"
| "out_command (ImuOut out) = io_command out"

fun out_current :: "medulla_outputs \<Rightarrow> int" where
  "out_current (LegOut out) = sint (lo_motorCurrent out)"
| "out_current (HipOut out) = sint (ho_motorCurrent out)"
| "out_current _ = 0"

lemma transmit_opt_ok:
  assumes "\<And>n d. \<exists>out d'. f n d = Some (out, d') \<and> R (tag out)"
  shows "\<exists>d' outs. transmit_opt f tag d = Some (d', outs) \<and> (\<forall>x \<in> set outs. R (snd x))"
proof (cases d)
  case (Some x)
  obtain n s where x: "x = (n, s)" by (cases x)
  from assms obtain out d' where "f n s = Some (out, d')" "R (tag out)" by blast
  then show ?thesis by (simp add: transmit_opt_def Some x)
qed (simp add: transmit_opt_def)

subsection \<open>Properties\<close>

text \<open>
  Processing the same process image twice changes nothing the second time: every driver
  has seen its timing counter, so no velocity is computed over a zero time, whatever drivers
  are present and whatever the image holds.
\<close>

theorem receive_idempotent:
  "mm_processReceiveData v float_of inputs (mm_processReceiveData v float_of inputs mm) =
   mm_processReceiveData v float_of inputs mm"
  unfolding mm_processReceiveData_def Let_def split_beta
  by (simp add: driver_again)

text \<open>
  The robot configuration by the medullas found: unknown without both halves of the left
  leg, one leg (with or without hip) without both halves of the right leg, else a biped, which
  is full exactly with both hips. The right hip of a single leg is disregarded.
\<close>

theorem robot_configuration:
  "(calcRobotConfiguration mm = UNKNOWN \<longleftrightarrow> lLegA mm = None \<or> lLegB mm = None) \<and>
   (calcRobotConfiguration mm \<in> {LEFT_LEG_HIP, LEFT_LEG_NOHIP} \<longleftrightarrow>
      lLegA mm \<noteq> None \<and> lLegB mm \<noteq> None \<and> (rLegA mm = None \<or> rLegB mm = None)) \<and>
   (calcRobotConfiguration mm = BIPED_FULL \<longleftrightarrow>
      None \<notin> {lLegA mm, lLegB mm, rLegA mm, rLegB mm} \<and> None \<notin> {lLegHip mm, rLegHip mm}) \<and>
   calcRobotConfiguration mm \<noteq> DISABLE"
  by (auto simp: calcRobotConfiguration_def)

text \<open>
  The header that the manager derives from the controller time is normalised and denotes
  that time exactly, for every time the 32-bit seconds field can hold.
\<close>

theorem timing_header_exact:
  fixes mm
  assumes "uint (controllerTime info) < 4294967296 * 1000000000"
  defines "h \<equiv> header (mm_robotState (setTimingInfo info mm))"
  shows "uint (stamp_nsec h) < 1000000000 \<and>
    1000000000 * uint (stamp_sec h) + uint (stamp_nsec h) = uint (controllerTime info)"
proof -
  let ?t = "uint (controllerTime info)"
  have n: "uint (stamp_nsec h) = ?t mod 1000000000"
  proof -
    have "?t mod 1000000000 < 4294967296" by (rule less_trans [OF pos_mod_bound]) simp_all
    then show ?thesis
      by (simp add: h_def setTimingInfo_def Let_def unsigned_ucast_eq take_bit_eq_mod uint_mod)
  qed
  have "uint (controllerTime info - ucast (stamp_nsec h)) = ?t - ?t mod 1000000000"
  proof -
    have "uint (ucast (stamp_nsec h) :: uint64) = ?t mod 1000000000"
      using n by (simp add: unsigned_ucast_eq take_bit_eq_mod)
    moreover have "0 \<le> ?t - ?t mod 1000000000" "?t - ?t mod 1000000000 < 2 ^ 64"
      using uint_lt2p [of "controllerTime info"] by (simp_all add: zmod_le_nonneg_dividend)
    ultimately show ?thesis by (simp add: uint_word_ariths)
  qed
  moreover have "(?t - ?t mod 1000000000) div 1000000000 = ?t div 1000000000"
    by (simp add: minus_mod_eq_mult_div)
  moreover have "?t div 1000000000 < 4294967296" using assms(1) by simp
  then have "?t div 1000000000 mod 4294967296 = ?t div 1000000000"
    by (intro mod_pos_pos_trivial) (simp_all add: pos_imp_zdiv_nonneg_iff)
  moreover have "uint (ucast (x div 1000000000) :: uint32) = uint x div 1000000000 mod 4294967296"
    for x :: uint64
    by (simp add: unsigned_ucast_eq take_bit_eq_mod uint_div)
  moreover have "stamp_sec h = ucast ((controllerTime info - ucast (stamp_nsec h)) div 1000000000)"
    by (simp add: h_def setTimingInfo_def Let_def)
  ultimately have s: "uint (stamp_sec h) = ?t div 1000000000" by simp
  show ?thesis by (simp add: n s)
qed

lemma timing_header_exact_witness:
  "1000000000 * uint (stamp_sec (header (mm_robotState (setTimingInfo
       (robot_state_timing_zero\<lparr>controllerTime := 1400000000123456789\<rparr>) new_MedullaManager))))
     + uint (stamp_nsec (header (mm_robotState (setTimingInfo
       (robot_state_timing_zero\<lparr>controllerTime := 1400000000123456789\<rparr>) new_MedullaManager))))
   = 1400000000123456789"
  using timing_header_exact [of "robot_state_timing_zero\<lparr>controllerTime := 1400000000123456789\<rparr>"
      new_MedullaManager]
  by simp

text \<open>
  No operation of the connector ever writes the field in which the safety check of RT Ops
  looks for the state of a hip medulla: in every robot state the manager can produce it is
  zero, whatever the hip medullas report.
\<close>

theorem hip_state_field_never_written:
  assumes "mm_reach v float_of mm"
  shows "hipMedullaState (lLeg (mm_getRobotState mm)) = 0 \<and>
    hipMedullaState (rLeg (mm_getRobotState mm)) = 0"
  using mm_reach_hip_states [OF assms] by (simp add: mm_getRobotState_def hip_states_def)

lemma hip_state_field_never_written_witness:
  "hipMedullaState (lLeg (mm_getRobotState (mm_processReceiveData biped1 (\<lambda>_. 0)
     (\<lambda>_. replicate 47 4) new_MedullaManager))) = 0"
  using hip_state_field_never_written [OF mm_reach.receive [OF mm_reach.new]] by blast

end
