(* ===== verification/Connector.thy ===== *)
theory Connector
  imports Messages
begin

text \<open>
  What the connectors, the components between RT Ops and a robot or a simulation, have in
  common: the calls they make to RT Ops, and the watch that the real connector and the no-op
  connector keep over its answers. The two small connectors, NoopConn and SimConn, are here.
\<close>

subsection \<open>The connector interface\<close>

text \<open>\<open>newStateCallback\<close> and \<open>sendEvent\<close>, in the order called.\<close>

datatype conn_call =
    NewState robot_state
  | SendEvent RtOpsEvent RtOpsEventMetadata_t

definition missed_deadlines :: "conn_call list \<Rightarrow> nat" where
  "missed_deadlines calls = length (filter (\<lambda>c. c = SendEvent MISSED_DEADLINE 0) calls)"

lemma missed_deadlines_simps [simp]:
  "missed_deadlines [] = 0"
  "missed_deadlines (xs @ ys) = missed_deadlines xs + missed_deadlines ys"
  "missed_deadlines (NewState rs # xs) = missed_deadlines xs"
  "missed_deadlines (SendEvent MISSED_DEADLINE 0 # xs) = Suc (missed_deadlines xs)"
  by (simp_all add: missed_deadlines_def)

text \<open>What can happen to a connector: a cycle begins, RT Ops answers it, or something else.\<close>

datatype ('i, 'o, 'q) conn_step = Cycle 'i | Answer 'o | Other 'q

text \<open>How many cycles of a history begin while the previous one is unanswered.\<close>

fun late_cycles :: "bool \<Rightarrow> ('i, 'o, 'q) conn_step list \<Rightarrow> nat" where
  "late_cycles waiting [] = 0"
| "late_cycles waiting (Cycle _ # xs) = (if waiting then Suc (late_cycles True xs) else late_cycles True xs)"
| "late_cycles waiting (Answer _ # xs) = late_cycles False xs"
| "late_cycles waiting (Other _ # xs) = late_cycles waiting xs"

fun conn_next ::
  "('i \<Rightarrow> 's \<Rightarrow> 's) \<Rightarrow> ('o \<Rightarrow> 's \<Rightarrow> 's) \<Rightarrow> ('q \<Rightarrow> 's \<Rightarrow> 's) \<Rightarrow> 's \<Rightarrow> ('i, 'o, 'q) conn_step \<Rightarrow> 's" where
  "conn_next cycle answer other s (Cycle i) = cycle i s"
| "conn_next cycle answer other s (Answer out) = answer out s"
| "conn_next cycle answer other s (Other q) = other q s"

text \<open>
  The contract of a deadline watch: a cycle reports a missed deadline when the last one is
  unanswered, and waits for its own answer; an answer ends the waiting.
\<close>

locale deadline_watch =
  fixes waiting :: "'s \<Rightarrow> bool" and missed :: "'s \<Rightarrow> nat"
    and cycle :: "'i \<Rightarrow> 's \<Rightarrow> 's" and answer :: "'o \<Rightarrow> 's \<Rightarrow> 's" and other :: "'q \<Rightarrow> 's \<Rightarrow> 's"
  assumes cycle_waits: "waiting (cycle i s)"
    and cycle_missed: "missed (cycle i s) = missed s + (if waiting s then 1 else 0)"
    and answer_ends: "\<not> waiting (answer out s)"
    and answer_missed: "missed (answer out s) = missed s"
    and other_waiting: "waiting (other q s) = waiting s"
    and other_missed: "missed (other q s) = missed s"
begin

lemma missed_run: "missed (run (conn_next cycle answer other) s xs) = missed s + late_cycles (waiting s) xs"
proof (induction xs arbitrary: s)
  case (Cons x xs)
  then show ?case
    by (cases x) (simp_all add: cycle_waits cycle_missed answer_ends answer_missed
        other_waiting other_missed)
qed simp

lemma on_time:
  assumes "late_cycles (waiting s) xs = 0"
  shows "missed (run (conn_next cycle answer other) s xs) = missed s"
  using assms by (simp add: missed_run)

end

subsection \<open>NoopConn\<close>

record noop_conn =
  waitingForResponse :: bool
  noop_robotState :: robot_state
  noop_calls :: "conn_call list"

definition new_NoopConn :: noop_conn where
  "new_NoopConn = \<lparr>waitingForResponse = False, noop_robotState = robot_state_zero, noop_calls = []\<rparr>"

definition noop_sendControllerOutput :: "controller_output \<Rightarrow> noop_conn \<Rightarrow> noop_conn" where
  "noop_sendControllerOutput co c = c\<lparr>waitingForResponse := False\<rparr>"

text \<open>The time service's nanoseconds are split into the stamp, whose fields keep 32 bits.\<close>

definition noop_updateHook :: "nsecs \<Rightarrow> noop_conn \<Rightarrow> noop_conn" where
  "noop_updateHook now c =
     (let c = (if waitingForResponse c
               then c\<lparr>noop_calls := noop_calls c @ [SendEvent MISSED_DEADLINE 0]\<rparr> else c);
          c = c\<lparr>waitingForResponse := True\<rparr>;
          rs = (noop_robotState c)\<lparr>header := (header (noop_robotState c))
                 \<lparr>stamp_sec := word_of_int (cdiv now SECOND_IN_NANOSECONDS),
                  stamp_nsec := word_of_int (crem now SECOND_IN_NANOSECONDS)\<rparr>\<rparr>
      in c\<lparr>noop_robotState := rs, noop_calls := noop_calls c @ [NewState rs]\<rparr>)"

interpretation noop_watch: deadline_watch waitingForResponse "\<lambda>c. missed_deadlines (noop_calls c)"
    noop_updateHook noop_sendControllerOutput "\<lambda>(_::unit) c. c"
  by unfold_locales (simp_all add: noop_updateHook_def noop_sendControllerOutput_def Let_def)

lemma noop_stamp:
  assumes "0 \<le> now" and "now < 4294967296 * SECOND_IN_NANOSECONDS"
  shows "uint (stamp_nsec (header (noop_robotState (noop_updateHook now c)))) = now mod SECOND_IN_NANOSECONDS"
    and "uint (stamp_sec (header (noop_robotState (noop_updateHook now c)))) = now div SECOND_IN_NANOSECONDS"
proof -
  have "now mod 1000000000 < 4294967296" by (rule less_trans [OF pos_mod_bound]) simp_all
  then show "uint (stamp_nsec (header (noop_robotState (noop_updateHook now c)))) = now mod SECOND_IN_NANOSECONDS"
    and "uint (stamp_sec (header (noop_robotState (noop_updateHook now c)))) = now div SECOND_IN_NANOSECONDS"
    using assms by (simp_all add: noop_updateHook_def Let_def SECOND_IN_NANOSECONDS_def cdiv_nonneg
        crem_nonneg uint_word_of_int pos_imp_zdiv_nonneg_iff)
qed

text \<open>
  The no-op connector reports a missed deadline exactly for the cycles that begin while RT
  Ops has not answered the one before, in every history of cycles and answers.
\<close>

theorem noop_missed_deadlines:
  "missed_deadlines (noop_calls (run (conn_next noop_updateHook noop_sendControllerOutput (\<lambda>(_::unit) c. c)) c xs)) =
     missed_deadlines (noop_calls c) + late_cycles (waitingForResponse c) xs"
  by (rule noop_watch.missed_run)

subsection \<open>SimConn\<close>

text \<open>The connector of the simulator passes messages on between its ports and RT Ops.\<close>

record sim_conn =
  gazeboDataOut :: "controller_output list"
  sim_calls :: "conn_call list"

definition sim_sendControllerOutput :: "controller_output \<Rightarrow> sim_conn \<Rightarrow> sim_conn" where
  "sim_sendControllerOutput co c = c\<lparr>gazeboDataOut := gazeboDataOut c @ [co]\<rparr>"

text \<open>The answer of the input port is \<open>Some\<close> message for new data.\<close>

definition sim_updateHook :: "robot_state option \<Rightarrow> sim_conn \<Rightarrow> sim_conn" where
  "sim_updateHook read c =
     (case read of None \<Rightarrow> c | Some state \<Rightarrow> c\<lparr>sim_calls := sim_calls c @ [NewState state]\<rparr>)"

end
