(* ===== verification/EcatConn.thy ===== *)
theory EcatConn
  imports Connector MedullaManager
begin

text \<open>
  The connector to the robot (atrias_ecat_conn): ConnManager's real-time loop, which receives
  and sends EtherCAT frames and follows the bus's distributed clock, and the entry points of
  ECatConn. The bus is SOEM's: what a cycle of it returns (the slaves' input areas, the
  distributed clock) and what the time service answers are inputs of the steps.
\<close>

definition TIMING_FILTER_GAIN :: int where
  [consts_simp]: "TIMING_FILTER_GAIN = 100"

record ecat_conn =
  ecat_done :: bool
  ecat_targetTime :: nsecs
  midCycle :: bool
  timingInfo :: robot_state_timing
  medullaManager :: MedullaManager
  ecat_inputs :: "nat \<Rightarrow> area"
  ecat_calls :: "conn_call list"
  ecat_sent :: "(nat \<times> medulla_outputs) list list"
  ecat_undefined :: bool

text \<open>One exchange of process data: the inputs of the slaves and the distributed clock.\<close>

record ecat_frame =
  frame_inputs :: "nat \<Rightarrow> area"
  frame_DCtime :: int

definition ecat_initialize ::
  "robot_variant \<Rightarrow> (uint32 \<Rightarrow> dbl) \<Rightarrow> new_memory \<Rightarrow> ec_slave list \<Rightarrow> nsecs \<Rightarrow> ecat_conn \<Rightarrow> ecat_conn" where
  "ecat_initialize v float_of g slaves now c =
     c\<lparr>medullaManager := mm_start v float_of g slaves (medullaManager c),
       ecat_targetTime := now, ecat_done := False, midCycle := False\<rparr>"

text \<open>
  The distributed clocks are set up by sending frames until the clock has advanced by 200 ms:
  how many of the frames still to come the loop takes, given the clock after each.
\<close>

fun dc_barrage :: "int \<Rightarrow> int \<Rightarrow> int list \<Rightarrow> nat option" where
  "dc_barrage stoptime dc clocks =
     (if dc < stoptime then
        (case clocks of [] \<Rightarrow> None | dc' # rest \<Rightarrow> map_option Suc (dc_barrage stoptime dc' rest))
      else Some 0)"

subsection \<open>The loop\<close>

text \<open>
  A turn of the loop up to the call of RT Ops. \<open>now\<close> is the time at its start; the result has
  the loop's locals \<open>eCatTime\<close> and \<open>overshoot\<close>, which the second half uses.
\<close>

definition ecat_receive ::
  "robot_variant \<Rightarrow> (uint32 \<Rightarrow> dbl) \<Rightarrow> nsecs \<times> ecat_frame \<Rightarrow> ecat_conn \<Rightarrow> (int \<times> nsecs) \<times> ecat_conn" where
  "ecat_receive v float_of = (\<lambda>(now, frame) c.
     (let c = (if midCycle c then c\<lparr>ecat_calls := ecat_calls c @ [SendEvent MISSED_DEADLINE 0]\<rparr> else c);
          overshoot = now - ecat_targetTime c;
          c = c\<lparr>ecat_inputs := frame_inputs frame\<rparr>;
          eCatTime = frame_DCtime frame;
          c = c\<lparr>medullaManager := mm_processReceiveData v float_of (ecat_inputs c) (medullaManager c)\<rparr>;
          info = (timingInfo c)
            \<lparr>controllerTime := word_of_int ((eCatTime + CONTROLLER_LOOP_OFFSET_NS) -
                crem (eCatTime + CONTROLLER_LOOP_OFFSET_NS) CONTROLLER_LOOP_PERIOD_NS),
             receiveDCTime := word_of_int eCatTime,
             overshoot := word_of_int overshoot,
             targetTime := word_of_int (ecat_targetTime c)\<rparr>;
          c = c\<lparr>timingInfo := info, medullaManager := setTimingInfo info (medullaManager c),
                midCycle := True\<rparr>
      in ((eCatTime, overshoot),
          c\<lparr>ecat_calls := ecat_calls c @ [NewState (mm_getRobotState (medullaManager c))]\<rparr>)))"

text \<open>
  The second half, after RT Ops has been called: the phase correction and the time to sleep,
  both kept in 32-bit signed fields of the timing message and read back from them.
\<close>

definition ecat_sleep :: "(int \<times> nsecs) \<times> nsecs \<Rightarrow> ecat_conn \<Rightarrow> ecat_conn" where
  "ecat_sleep = (\<lambda>((eCatTime, overshoot), cur_time) c.
     (let correction = cdiv (- (crem (eCatTime - overshoot + cdiv CONTROLLER_LOOP_PERIOD_NS 2)
                                  CONTROLLER_LOOP_PERIOD_NS - cdiv CONTROLLER_LOOP_PERIOD_NS 2))
                        TIMING_FILTER_GAIN;
          info = (timingInfo c)\<lparr>dcCorrection := word_of_int correction\<rparr>;
          info = info\<lparr>sleepTime := word_of_int
            (crem (ecat_targetTime c + sint (dcCorrection info) - cur_time) CONTROLLER_LOOP_PERIOD_NS)\<rparr>;
          info = info\<lparr>sleepTime := word_of_int
            (crem (sint (sleepTime info) + CONTROLLER_LOOP_PERIOD_NS) CONTROLLER_LOOP_PERIOD_NS)\<rparr>
      in c\<lparr>timingInfo := info, ecat_targetTime := sint (sleepTime info) + cur_time\<rparr>))"

text \<open>The controllers' outputs go out in a frame of their own. A conversion that is undefined
  is marked.\<close>

definition ecat_sendControllerOutput ::
  "robot_variant \<Rightarrow> controller_output \<times> ecat_frame \<Rightarrow> ecat_conn \<Rightarrow> ecat_conn" where
  "ecat_sendControllerOutput v = (\<lambda>(co, frame) c.
     (let c = (case mm_processTransmitData v (ecat_inputs c) co (medullaManager c) of
                 None \<Rightarrow> c\<lparr>ecat_undefined := True\<rparr>
               | Some (mm, outs) \<Rightarrow> c\<lparr>medullaManager := mm, ecat_sent := ecat_sent c @ [outs]\<rparr>);
          c = c\<lparr>ecat_inputs := frame_inputs frame\<rparr>;
          c = c\<lparr>midCycle := False\<rparr>
      in c\<lparr>timingInfo := (timingInfo c)\<lparr>lastTransmitDCTime := word_of_int (frame_DCtime frame)\<rparr>\<rparr>))"

definition ecat_disableSafeties :: "ecat_conn \<Rightarrow> ecat_conn" where
  "ecat_disableSafeties c =
     c\<lparr>medullaManager := setRobotConfiguration DISABLE (medullaManager c)\<rparr>"

definition ecat_breakLoop :: "ecat_conn \<Rightarrow> ecat_conn" where
  "ecat_breakLoop c = c\<lparr>ecat_done := True\<rparr>"

interpretation ecat_watch: deadline_watch midCycle "\<lambda>c. missed_deadlines (ecat_calls c)"
    "\<lambda>i c. snd (ecat_receive v float_of i c)" "ecat_sendControllerOutput v" ecat_sleep
  for v :: robot_variant and float_of :: "uint32 \<Rightarrow> dbl"
  by unfold_locales
    (auto simp: ecat_receive_def ecat_sendControllerOutput_def ecat_sleep_def Let_def split: option.split)

text \<open>A step of the connector: the first half of a turn, outputs from RT Ops, the second half.\<close>

definition ecat_next ::
  "robot_variant \<Rightarrow> (uint32 \<Rightarrow> dbl) \<Rightarrow> ecat_conn
     \<Rightarrow> (nsecs \<times> ecat_frame, controller_output \<times> ecat_frame, (int \<times> nsecs) \<times> nsecs) conn_step \<Rightarrow> ecat_conn" where
  "ecat_next v float_of =
     conn_next (\<lambda>i c. snd (ecat_receive v float_of i c)) (ecat_sendControllerOutput v) ecat_sleep"

text \<open>
  C37. The connector to the robot reports MISSED_DEADLINE exactly for the turns of its loop that
  begin while RT Ops has not answered the one before, in every interleaving of the loop's two
  halves with the outputs that arrive from RT Ops.
\<close>

theorem ecat_missed_deadlines:
  "missed_deadlines (ecat_calls (run (ecat_next v float_of) c xs)) =
     missed_deadlines (ecat_calls c) + late_cycles (midCycle c) xs"
  unfolding ecat_next_def by (rule ecat_watch.missed_run)

subsection \<open>Timing\<close>

text \<open>What the phase correction computes: a hundredth of the phase, against it.\<close>

definition phase_correction :: "int \<Rightarrow> int" where
  "phase_correction t = cdiv (- wrap_half 1000000 t) 100"

lemma phase_correction_bound: "\<bar>phase_correction t\<bar> \<le> 5000"
proof -
  have "\<bar>- wrap_half 1000000 t\<bar> \<le> 500000"
    using wrap_half_lower [of 1000000 t] wrap_half_upper [of 1000000 t] by simp
  moreover have "\<bar>cdiv a 100\<bar> \<le> 5000" if "\<bar>a\<bar> \<le> 500000" for a
  proof (cases "0 \<le> a")
    case True
    then show ?thesis using that by (simp add: cdiv_nonneg)
  next
    case False
    then have "cdiv a 100 = - ((- a) div 100)"
      by (simp add: cdiv_def signed_divide_int_def)
    then show ?thesis using that False by simp
  qed
  ultimately show ?thesis unfolding phase_correction_def by blast
qed

lemma sint_small32: "\<bar>x\<bar> \<le> 1000000 \<Longrightarrow> sint (word_of_int x :: uint32) = x"
  by (rule sint_word32_id) linarith+

lemma ecat_sleep_correction:
  assumes "0 \<le> dc - ov + 500000"
  shows "sint (dcCorrection (timingInfo (ecat_sleep ((dc, ov), cur) c))) = phase_correction (dc - ov)"
proof -
  have "crem (dc - ov + 500000) 1000000 - 500000 = wrap_half 1000000 (dc - ov)"
    using assms by (simp add: wrap_half_def crem_nonneg)
  then have "phase_correction (dc - ov) =
      cdiv (- (crem (dc - ov + 500000) 1000000 - 500000)) 100"
    by (simp add: phase_correction_def)
  moreover have "cdiv 1000000 2 = 500000" by (simp add: cdiv_nonneg)
  moreover have "\<bar>phase_correction (dc - ov)\<bar> \<le> 1000000"
    using phase_correction_bound [of "dc - ov"] by linarith
  ultimately show ?thesis
    by (simp add: ecat_sleep_def Let_def consts_simp sint_small32)
qed

lemma ecat_sleep_time:
  "sint (sleepTime (timingInfo (ecat_sleep ((dc, ov), cur) c))) =
     (ecat_targetTime c + sint (dcCorrection (timingInfo (ecat_sleep ((dc, ov), cur) c))) - cur)
       mod 1000000"
proof -
  define x where "x = ecat_targetTime c + sint (dcCorrection (timingInfo (ecat_sleep ((dc, ov), cur) c))) - cur"
  have b: "\<bar>crem x 1000000\<bar> \<le> 1000000"
    using crem_lower [of 1000000 x] crem_upper [of 1000000 x] by simp
  have m: "\<bar>x mod 1000000\<bar> \<le> 1000000"
    using pos_mod_bound [of 1000000 x] pos_mod_sign [of 1000000 x] by linarith
  have "sleepTime (timingInfo (ecat_sleep ((dc, ov), cur) c)) =
      word_of_int (crem (sint (word_of_int (crem x 1000000) :: uint32) + 1000000) 1000000)"
    by (simp add: ecat_sleep_def Let_def consts_simp x_def)
  also have "\<dots> = word_of_int (x mod 1000000)"
    by (simp add: sint_small32 [OF b] crem_fixup)
  finally have "sint (sleepTime (timingInfo (ecat_sleep ((dc, ov), cur) c))) = x mod 1000000"
    by (simp only: sint_small32 [OF m])
  then show ?thesis by (simp only: x_def)
qed

text \<open>
  The loop's timing: after every turn the time to sleep is at least zero and less than a
  period, so the nanoseconds handed to clock_nanosleep are in range; the next target is that
  long after the current time, and it differs from the last target by whole periods and the
  phase correction, which is a hundredth of the phase to the distributed clock, against it,
  and at most 5 microseconds.
\<close>

theorem ecat_sleep_phase:
  assumes "ov \<le> dc" and "c' = ecat_sleep ((dc, ov), cur) c"
  shows "0 \<le> sint (sleepTime (timingInfo c')) \<and>
    sint (sleepTime (timingInfo c')) < CONTROLLER_LOOP_PERIOD_NS \<and>
    ecat_targetTime c' = cur + sint (sleepTime (timingInfo c')) \<and>
    (\<exists>k. ecat_targetTime c' = ecat_targetTime c + phase_correction (dc - ov) + k * CONTROLLER_LOOP_PERIOD_NS) \<and>
    \<bar>phase_correction (dc - ov)\<bar> \<le> 5000"
proof -
  have corr: "sint (dcCorrection (timingInfo c')) = phase_correction (dc - ov)"
    using ecat_sleep_correction [of dc ov cur c] assms by simp
  define x where "x = ecat_targetTime c + phase_correction (dc - ov) - cur"
  have sl: "sint (sleepTime (timingInfo c')) = x mod 1000000"
    using ecat_sleep_time [of dc ov cur c] corr unfolding assms(2) by (simp add: x_def)
  have tt: "ecat_targetTime c' = cur + sint (sleepTime (timingInfo c'))"
    unfolding assms(2) by (simp add: ecat_sleep_def Let_def)
  have "ecat_targetTime c' = ecat_targetTime c + phase_correction (dc - ov) + (- (x div 1000000)) * 1000000"
    using tt sl div_mult_mod_eq [of x 1000000] by (simp add: x_def algebra_simps)
  then have "\<exists>k. ecat_targetTime c' = ecat_targetTime c + phase_correction (dc - ov) + k * CONTROLLER_LOOP_PERIOD_NS"
    unfolding CONTROLLER_LOOP_PERIOD_NS_def by blast
  then show ?thesis
    using tt sl phase_correction_bound by (simp add: CONTROLLER_LOOP_PERIOD_NS_def)
qed

definition new_EcatConn :: ecat_conn where
  "new_EcatConn = \<lparr>ecat_done = False, ecat_targetTime = 0, midCycle = False,
     timingInfo = robot_state_timing_zero, medullaManager = new_MedullaManager,
     ecat_inputs = (\<lambda>_. []), ecat_calls = [], ecat_sent = [], ecat_undefined = False\<rparr>"

lemma ecat_sleep_phase_witness:
  "sint (sleepTime (timingInfo (ecat_sleep ((1234567890, 250), 1000) new_EcatConn))) < 1000000"
  using ecat_sleep_phase [of 250 1234567890 _ 1000 new_EcatConn, OF _ refl]
  by (simp add: CONTROLLER_LOOP_PERIOD_NS_def)

text \<open>The time stamp given to a turn: the distributed clock, rounded to the period.\<close>

lemma ecat_receive_header:
  assumes "0 \<le> frame_DCtime frame"
    and "frame_DCtime frame < 4000000000 * SECOND_IN_NANOSECONDS"
    and "ecat_receive v float_of (now, frame) c = (locals, c')"
  shows "uint (controllerTime (timingInfo c')) =
      (frame_DCtime frame + 300000) div 1000000 * 1000000"
    and "medullaManager c' = setTimingInfo (timingInfo c')
      (mm_processReceiveData v float_of (frame_inputs frame) (medullaManager c))"
    and "last (ecat_calls c') = NewState (mm_getRobotState (medullaManager c'))"
proof -
  let ?t = "frame_DCtime frame + 300000"
  have "controllerTime (timingInfo c') = word_of_int (?t - crem ?t 1000000)"
    using assms(3) by (auto simp: ecat_receive_def Let_def consts_simp)
  also have "?t - crem ?t 1000000 = ?t div 1000000 * 1000000"
    using assms(1) by (simp add: crem_nonneg minus_mod_eq_div_mult)
  finally have c: "controllerTime (timingInfo c') = word_of_int (?t div 1000000 * 1000000)" .
  have "0 \<le> ?t div 1000000 * 1000000" using assms(1) by (simp add: pos_imp_zdiv_nonneg_iff)
  moreover have "?t div 1000000 * 1000000 \<le> ?t"
    using div_mult_mod_eq [of ?t 1000000] pos_mod_sign [of 1000000 ?t] by linarith
  ultimately show "uint (controllerTime (timingInfo c')) = ?t div 1000000 * 1000000"
    unfolding c uint_word_of_int using assms(2)
    by (intro mod_pos_pos_trivial) (simp_all add: SECOND_IN_NANOSECONDS_def)
  show "medullaManager c' = setTimingInfo (timingInfo c')
      (mm_processReceiveData v float_of (frame_inputs frame) (medullaManager c))"
    and "last (ecat_calls c') = NewState (mm_getRobotState (medullaManager c'))"
    using assms(3) by (auto simp: ecat_receive_def Let_def)
qed

end
