(* ===== verification/CSimConn.thy ===== *)
theory CSimConn
  imports Connector
begin

text \<open>
  The C++ simulation connector (atrias_csim_conn): a point-mass model of each hip and each leg
  half that stands in for the robot. \<open>M_PI\<close> is the real number, decimal literals are exact.
\<close>

subsection \<open>Constants\<close>

definition HIP_HOLD_TORQUE :: real where [consts_simp]: "HIP_HOLD_TORQUE = 2.5"
definition HIP_GEARED_TRQ_CONST :: real where
  [consts_simp]: "HIP_GEARED_TRQ_CONST = 8.35057714286"
definition HIP_INERTIA :: real where [consts_simp]: "HIP_INERTIA = 1"
definition HIP_RELAXED_POS_DIFF :: real where "HIP_RELAXED_POS_DIFF = 10 * pi / 180"
definition HIP_EXTENDED_POS_DIFF :: real where "HIP_EXTENDED_POS_DIFF = 20 * pi / 180"
definition LEG_FRICTION_AMPS :: real where [consts_simp]: "LEG_FRICTION_AMPS = 5"

datatype Hip = LEFT | RIGHT
datatype Half = HalfA | HalfB

record csim_conn =
  cOut :: controller_output
  csim_robotState :: robot_state
  csim_calls :: "conn_call list"

definition csim_half_at :: "real \<Rightarrow> robot_state_legHalf \<Rightarrow> robot_state_legHalf" where
  "csim_half_at p h = h\<lparr>rotorAngle := Fin p, motorAngle := Fin p, legAngle := Fin p\<rparr>"

definition csim_leg_init :: "robot_state_leg \<Rightarrow> robot_state_leg" where
  "csim_leg_init l = l\<lparr>hip := (hip l)\<lparr>legBodyAngle := Fin (1.5 * pi)\<rparr>,
     halfA := csim_half_at (0.25 * pi) (halfA l), halfB := csim_half_at (0.75 * pi) (halfB l)\<rparr>"

definition new_CSimConn :: csim_conn where
  "new_CSimConn =
     \<lparr>cOut = controller_output_zero,
      csim_robotState = robot_state_zero
        \<lparr>lLeg := csim_leg_init (lLeg robot_state_zero), rLeg := csim_leg_init (rLeg robot_state_zero),
         position := (position robot_state_zero)\<lparr>bodyPitch := Fin (1.5 * pi)\<rparr>\<rparr>,
      csim_calls = []\<rparr>"

subsection \<open>The simulation\<close>

text \<open>Both simulators stop a velocity that points out of the joint's range.\<close>

definition stop_at_limits :: "real \<Rightarrow> real \<Rightarrow> dbl \<Rightarrow> dbl \<Rightarrow> dbl" where
  "stop_at_limits minPos maxPos pos vel =
     (if pos < Fin minPos \<and> vel < 0 then 0
      else if Fin maxPos < pos \<and> 0 < vel then 0 else vel)"

definition simHip :: "controller_output \<Rightarrow> robot_state_hip \<Rightarrow> Hip \<Rightarrow> robot_state_hip" where
  "simHip co h whichHip =
     (let netAmps = (if whichHip = LEFT then motorCurrentHip (co_lLeg co) else motorCurrentHip (co_rLeg co)) +
            Fin (if whichHip = LEFT then - HIP_HOLD_TORQUE else HIP_HOLD_TORQUE);
          netTorque = Fin HIP_GEARED_TRQ_CONST * netAmps;
          accel = netTorque / Fin HIP_INERTIA;
          newVel = legBodyVelocity h + Fin 0.001 * accel;
          minPos = 1.5 * pi - (if whichHip = LEFT then HIP_RELAXED_POS_DIFF else HIP_EXTENDED_POS_DIFF);
          maxPos = 1.5 * pi + (if whichHip = LEFT then HIP_EXTENDED_POS_DIFF else HIP_RELAXED_POS_DIFF);
          oldPos = legBodyAngle h;
          newVel = stop_at_limits minPos maxPos oldPos newVel
      in robot_state_hip_zero\<lparr>legBodyVelocity := newVel, legBodyAngle := oldPos + Fin 0.001 * newVel\<rparr>)"

definition simLegHalf :: "robot_state_legHalf \<Rightarrow> dbl \<Rightarrow> Half \<Rightarrow> robot_state_legHalf" where
  "simLegHalf h current half =
     (let accel = Fin ACCEL_PER_AMP * current;
          newVel = motorVelocity h + Fin 0.001 * accel;
          fricDecel = LEG_FRICTION_AMPS * ACCEL_PER_AMP * 0.001;
          newVel = (if Fin fricDecel < newVel then newVel - Fin fricDecel
                    else if newVel < Fin (- fricDecel) then newVel + Fin fricDecel else 0);
          pos = motorAngle h;
          minpos = (if half = HalfA then LEG_A_MOTOR_MIN_LOC else LEG_B_MOTOR_MIN_LOC);
          maxpos = (if half = HalfA then LEG_A_MOTOR_MAX_LOC else LEG_B_MOTOR_MAX_LOC);
          newVel = stop_at_limits minpos maxpos pos newVel;
          pos = pos + Fin 0.001 * newVel
      in robot_state_legHalf_zero
           \<lparr>rotorAngle := pos, motorAngle := pos, legAngle := pos,
            rotorVelocity := newVel, motorVelocity := newVel, legVelocity := newVel\<rparr>)"

text \<open>
  The clock: the 32-bit sum of nanoseconds carries into the seconds. The period and the second
  are \<open>long long\<close> literals, so the division and the remainder are exact.
\<close>

definition csim_tick :: "std_header \<Rightarrow> std_header" where
  "csim_tick h =
     (let h = h\<lparr>stamp_nsec := word_of_int (uint (stamp_nsec h) + CONTROLLER_LOOP_PERIOD_NS)\<rparr>;
          h = h\<lparr>stamp_sec := word_of_int (uint (stamp_sec h) +
                 cdiv (uint (stamp_nsec h)) SECOND_IN_NANOSECONDS)\<rparr>
      in h\<lparr>stamp_nsec := word_of_int (crem (uint (stamp_nsec h)) SECOND_IN_NANOSECONDS)\<rparr>)"

definition csim_leg :: "controller_output \<Rightarrow> controller_output_leg \<Rightarrow> Hip \<Rightarrow> robot_state_leg \<Rightarrow> robot_state_leg" where
  "csim_leg co col whichHip l =
     l\<lparr>hip := simHip co (hip l) whichHip,
       halfA := simLegHalf (halfA l) (motorCurrentA col) HalfA,
       halfB := simLegHalf (halfB l) (motorCurrentB col) HalfB\<rparr>"

definition csim_updateHook :: "csim_conn \<Rightarrow> csim_conn" where
  "csim_updateHook c =
     (let rs = csim_robotState c;
          rs = rs\<lparr>header := csim_tick (header rs)\<rparr>;
          rs = rs\<lparr>lLeg := csim_leg (cOut c) (co_lLeg (cOut c)) LEFT (lLeg rs),
                  rLeg := csim_leg (cOut c) (co_rLeg (cOut c)) RIGHT (rLeg rs)\<rparr>
      in c\<lparr>csim_robotState := rs, csim_calls := csim_calls c @ [NewState rs]\<rparr>)"

definition csim_sendControllerOutput :: "controller_output \<Rightarrow> csim_conn \<Rightarrow> csim_conn" where
  "csim_sendControllerOutput co c = c\<lparr>cOut := co\<rparr>"

subsection \<open>Properties\<close>

lemma csim_tick_time:
  assumes "uint (stamp_nsec h) < 1000000000" and "uint (stamp_sec h) < 4294967295"
  shows "uint (stamp_nsec (csim_tick h)) < 1000000000"
    and "1000000000 * uint (stamp_sec (csim_tick h)) + uint (stamp_nsec (csim_tick h)) =
      1000000000 * uint (stamp_sec h) + uint (stamp_nsec h) + 1000000"
proof -
  let ?n = "uint (stamp_nsec h) + 1000000"
  have n: "uint (stamp_nsec h + 1000000) = ?n"
    using assms(1) by (simp add: uint_word_ariths)
  have q: "?n div 1000000000 \<le> 1" "0 \<le> ?n div 1000000000"
    using assms(1) by (simp_all add: pos_imp_zdiv_nonneg_iff)
  have m: "0 \<le> ?n mod 1000000000" "?n mod 1000000000 < 1000000000" by simp_all
  have "stamp_nsec (csim_tick h) = word_of_int (?n mod 1000000000)"
    by (simp add: csim_tick_def Let_def consts_simp n crem_nonneg)
  moreover have "?n mod 1000000000 mod 2 ^ 32 = ?n mod 1000000000"
    using m by (intro mod_pos_pos_trivial m(1) less_trans [OF m(2)]) simp
  ultimately have nn: "uint (stamp_nsec (csim_tick h)) = ?n mod 1000000000"
    by (simp only: uint_word_of_int) simp
  have "stamp_sec (csim_tick h) = word_of_int (uint (stamp_sec h) + ?n div 1000000000)"
    by (simp add: csim_tick_def Let_def consts_simp n cdiv_nonneg)
  moreover have "(uint (stamp_sec h) + ?n div 1000000000) mod 2 ^ 32 = uint (stamp_sec h) + ?n div 1000000000"
    using q assms(2) by (intro mod_pos_pos_trivial) simp_all
  ultimately have ss: "uint (stamp_sec (csim_tick h)) = uint (stamp_sec h) + ?n div 1000000000"
    by (simp only: uint_word_of_int) simp
  show "uint (stamp_nsec (csim_tick h)) < 1000000000" using m nn by simp
  show "1000000000 * uint (stamp_sec (csim_tick h)) + uint (stamp_nsec (csim_tick h)) =
      1000000000 * uint (stamp_sec h) + uint (stamp_nsec h) + 1000000"
    unfolding nn ss using div_mult_mod_eq [of ?n 1000000000] by (simp add: algebra_simps)
qed

text \<open>
  The simulated leg motor rests under friction: from standstill, a current of at most 5 A
  in size moves a leg half not at all, and any finite current leaves its position and velocity
  finite, and never moves a half that is beyond its joint limit further out.
\<close>

theorem simLegHalf_behaviour:
  assumes "motorAngle h = Fin p" and "motorVelocity h = Fin u" and "i = Fin amps"
    and "h' = simLegHalf h i half"
    and "lo = (if half = HalfA then LEG_A_MOTOR_MIN_LOC else LEG_B_MOTOR_MIN_LOC)"
    and "hi = (if half = HalfA then LEG_A_MOTOR_MAX_LOC else LEG_B_MOTOR_MAX_LOC)"
  shows "\<exists>p' u'. motorAngle h' = Fin p' \<and> motorVelocity h' = Fin u' \<and> p' = p + 0.001 * u' \<and>
    legAngle h' = Fin p' \<and> rotorAngle h' = Fin p' \<and>
    (u = 0 \<and> \<bar>amps\<bar> \<le> LEG_FRICTION_AMPS \<longrightarrow> u' = 0) \<and>
    (p < lo \<longrightarrow> p \<le> p') \<and> (hi < p \<longrightarrow> p' \<le> p)"
proof -
  define w where "w = u + 0.001 * (ACCEL_PER_AMP * amps)"
  define f where "f = LEG_FRICTION_AMPS * ACCEL_PER_AMP * 0.001"
  define d where "d = (if f < w then w - f else if w < - f then w + f else 0)"
  define u' where "u' = (if p < lo \<and> d < 0 then 0 else if hi < p \<and> 0 < d then 0 else d)"
  have lohi: "lo \<le> hi" using assms(5,6) by (simp add: consts_simp)
  have "u = 0 \<and> \<bar>amps\<bar> \<le> LEG_FRICTION_AMPS \<longrightarrow> d = 0"
    unfolding d_def w_def f_def by (auto simp: consts_simp)
  moreover have "motorVelocity h' = Fin u'" "motorAngle h' = Fin (p + 0.001 * u')"
    "legAngle h' = Fin (p + 0.001 * u')" "rotorAngle h' = Fin (p + 0.001 * u')"
    using assms by (auto simp: simLegHalf_def Let_def stop_at_limits_def u'_def d_def w_def f_def)
  ultimately show ?thesis using lohi by (intro exI [of _ "p + 0.001 * u'"] exI [of _ u']) (auto simp: u'_def)
qed

lemma simLegHalf_behaviour_witness:
  "motorVelocity (simLegHalf (csim_half_at (0.25 * pi) robot_state_legHalf_zero) (Fin 4) HalfA) = Fin 0"
proof -
  have "\<bar>4 :: real\<bar> \<le> LEG_FRICTION_AMPS" by (simp add: consts_simp)
  moreover have "motorAngle (csim_half_at (0.25 * pi) robot_state_legHalf_zero) = Fin (0.25 * pi)"
    "motorVelocity (csim_half_at (0.25 * pi) robot_state_legHalf_zero) = Fin 0"
    by (simp_all add: csim_half_at_def consts_simp)
  ultimately show ?thesis
    using simLegHalf_behaviour [OF _ _ refl refl refl refl, of "csim_half_at (0.25 * pi) robot_state_legHalf_zero" "0.25 * pi" 0 4 HalfA]
    by auto
qed

end
