(* ===== verification/Metadata.thy ===== *)
theory Metadata
  imports Prelude "HOL-Library.Sublist"
begin

text \<open>
  The controller metadata reader (atrias_shared/src/controller_metadata.cpp), a small parser of
  \<open>key = value\<close> lines. Strings are lists of characters; the file is its contents, or \<open>None\<close>
  when it cannot be opened. An access outside a string is \<open>None\<close>.
\<close>

subsection \<open>Strings\<close>

text \<open>\<open>std::isspace\<close>, \<open>::tolower\<close> and \<open>toupper\<close> in the C locale.\<close>

definition is_space :: "char \<Rightarrow> bool" where
  "is_space c \<longleftrightarrow> c \<in> set [CHR '' '', CHR 0x09, CHR 0x0A, CHR 0x0B, CHR 0x0C, CHR 0x0D]"

definition lower :: "char \<Rightarrow> char" where
  "lower c = (if 65 \<le> (of_char c :: nat) \<and> (of_char c :: nat) \<le> 90 then char_of (of_char c + 32 :: nat) else c)"

definition upper :: "char \<Rightarrow> char" where
  "upper c = (if 97 \<le> (of_char c :: nat) \<and> (of_char c :: nat) \<le> 122 then char_of (of_char c - 32 :: nat) else c)"

definition ltrim :: "string \<Rightarrow> string" where
  "ltrim s = dropWhile is_space s"

definition rtrim :: "string \<Rightarrow> string" where
  "rtrim s = rev (dropWhile is_space (rev s))"

definition trim :: "string \<Rightarrow> string" where
  "trim s = rtrim (ltrim s)"

definition toLowercase :: "string \<Rightarrow> string" where
  "toLowercase s = map lower s"

definition getKey :: "string \<Rightarrow> string" where
  "getKey line = (if CHR ''='' \<in> set line then takeWhile (\<lambda>c. c \<noteq> CHR ''='') line else [])"

definition getValue :: "string \<Rightarrow> string" where
  "getValue line =
     (if CHR ''='' \<in> set line then tl (dropWhile (\<lambda>c. c \<noteq> CHR ''='') line) else [])"

subsection \<open>The package name\<close>

text \<open>
  The loop that cleans a name up. Reading at the length of the string gives the terminating
  zero, reading beyond it is undefined: \<open>None\<close>.
\<close>

definition is_separator :: "char \<Rightarrow> bool" where
  "is_separator c \<longleftrightarrow> c = CHR ''_'' \<or> c = CHR ''-'' \<or> c = CHR 0x09"

definition erase_at :: "nat \<Rightarrow> string \<Rightarrow> string" where
  "erase_at t s = take t s @ drop (Suc t) s"

function clean_loop :: "string \<Rightarrow> nat \<Rightarrow> bool \<Rightarrow> string option" where
  "clean_loop s t lastCharWasSpace =
     (if t > length s then None
      else if t = length s then Some s
      else
        let c = s ! t
        in if c = CHR 0x00 then Some s
           else if is_separator c then
             (if lastCharWasSpace then clean_loop (erase_at t s) (t + 1) True
              else clean_loop (s[t := CHR '' '']) (t + 1) True)
           else if c = CHR '' '' then
             (if lastCharWasSpace then clean_loop (erase_at t s) (t + 1) True
              else clean_loop s (t + 1) False)
           else clean_loop (if lastCharWasSpace then s[t := upper c] else s) (t + 1) False)"
  by pat_completeness auto

termination
  by (relation "measure (\<lambda>(s, t, b). Suc (length s) - t)") (auto simp: erase_at_def)

declare clean_loop.simps [simp del]

definition cleanUpPackageName :: "string \<Rightarrow> string option" where
  "cleanUpPackageName packageName =
     (let packageName = (if prefix ''atc_'' packageName then drop 4 packageName else packageName)
      in clean_loop (trim packageName) 0 True)"

subsection \<open>The file\<close>

record ControllerMetadata =
  md_name :: string
  md_description :: string
  md_version :: string
  md_author :: string
  startScriptPath :: string
  stopScriptPath :: string
  guiLibPath :: string
  guiDescriptionPath :: string
  guiConfigPath :: string
  guiTabWidgetName :: string
  loadSuccessful :: bool

text \<open>\<open>getline\<close> until the stream is no longer good: the pieces between the newlines.\<close>

fun file_lines :: "string \<Rightarrow> string list" where
  "file_lines [] = [[]]"
| "file_lines (c # cs) =
     (if c = CHR 0x0A then [] # file_lines cs
      else (case file_lines cs of l # ls \<Rightarrow> (c # l) # ls | [] \<Rightarrow> [[c]]))"

definition metadata_line :: "string \<Rightarrow> ControllerMetadata \<Rightarrow> ControllerMetadata" where
  "metadata_line line result =
     (let key = toLowercase (trim (getKey line)); val = trim (getValue line)
      in if key = ''name'' then result\<lparr>md_name := val\<rparr>
         else if key = ''description'' then result\<lparr>md_description := val\<rparr>
         else if key = ''version'' then result\<lparr>md_version := val\<rparr>
         else if key = ''author'' then result\<lparr>md_author := val\<rparr>
         else if key = ''startscriptpath'' then result\<lparr>startScriptPath := val\<rparr>
         else if key = ''stopscriptpath'' then result\<lparr>stopScriptPath := val\<rparr>
         else if key = ''guilibpath'' then result\<lparr>guiLibPath := val\<rparr>
         else if key = ''guitabwidgetname'' then result\<lparr>guiTabWidgetName := val\<rparr>
         else if key = ''guidescriptionpath'' then result\<lparr>guiDescriptionPath := val\<rparr>
         else result)"

definition loadControllerMetadata ::
  "(string \<Rightarrow> string option) \<Rightarrow> string \<Rightarrow> string \<Rightarrow> bool \<Rightarrow> ControllerMetadata option" where
  "loadControllerMetadata file path packageName formatName =
     (case (if formatName then cleanUpPackageName packageName else Some packageName) of
        None \<Rightarrow> None
      | Some nm \<Rightarrow>
          (let result = \<lparr>md_name = nm, md_description = ''No description'',
                 md_version = ''Unknown version'', md_author = ''Unknown author'',
                 startScriptPath = path @ ''/start.ops'', stopScriptPath = path @ ''/stop.ops'',
                 guiLibPath = path @ ''/lib/libcontroller_gui.so'',
                 guiDescriptionPath = path @ ''/controller_gui.glade'',
                 guiConfigPath = path @ ''/gui_config.yaml'',
                 guiTabWidgetName = ''controller_tab'', loadSuccessful = False\<rparr>
           in case file (path @ ''/controller.txt'') of
                None \<Rightarrow> Some result
              | Some contents \<Rightarrow>
                  Some ((run (\<lambda>r l. metadata_line l r) result (file_lines contents))
                          \<lparr>loadSuccessful := True\<rparr>)))"

subsection \<open>Lemmas\<close>

lemma trim_idem: "trim (trim s) = trim s"
proof -
  have l: "ltrim (rtrim (ltrim s)) = rtrim (ltrim s)"
  proof (cases "rtrim (ltrim s)")
    case (Cons c cs)
    then have "ltrim s \<noteq> []" by (auto simp: rtrim_def)
    then have h: "\<not> is_space (hd (ltrim s))" unfolding ltrim_def by (metis hd_dropWhile)
    obtain ws where "ltrim s = rtrim (ltrim s) @ ws"
      unfolding rtrim_def by (metis rev_append rev_rev_ident takeWhile_dropWhile_id)
    with Cons have "hd (ltrim s) = c" by (metis append_Cons list.sel(1))
    with h Cons show ?thesis by (simp add: ltrim_def)
  qed (simp add: ltrim_def)
  have "rtrim (rtrim x) = rtrim x" for x by (simp add: rtrim_def)
  then show ?thesis by (simp add: trim_def l)
qed

lemma getKey_getValue:
  assumes "CHR ''='' \<notin> set k"
  shows "getKey (k @ CHR ''='' # v) = k" and "getValue (k @ CHR ''='' # v) = v"
  using assms by (simp_all add: getKey_def getValue_def takeWhile_append dropWhile_append
      takeWhile_eq_all_conv dropWhile_eq_Nil_conv)

text \<open>
  A typical name, and a name with two separators at its end: the loop erases the second one,
  steps past it, and reads beyond the string.
\<close>

lemma cleanUp_examples:
  "cleanUpPackageName ''atc_motor_position'' = Some ''Motor Position''"
  "cleanUpPackageName ''atc_foo__'' = None"
  "cleanUpPackageName ''atc_foo__bar'' = Some ''Foo bAr''"
  by code_simp+

end
