(* ===== verification/ControllerManager.thy ===== *)
theory ControllerManager
  imports Metadata Messages "HOL-Library.Sublist"
begin

text \<open>
  The controller manager (atrias_controller_manager): the component that loads and unloads
  controllers, turns the operator's commands into requests to RT Ops, and waits for their
  acknowledgements on the thread of its event manager. One record holds the state of the two
  classes. What reaches RT Ops, the GUI and the scripting service is recorded in the order
  sent. Each hook, handler and turn of the event loop is one step; the answers of the
  try-lock, which depend on the other thread, are inputs.
\<close>

subsection \<open>Commands and states (globals.h)\<close>

definition UserCommand_STOP :: uint8 where [consts_simp]: "UserCommand_STOP = 0"
definition UserCommand_RUN :: uint8 where [consts_simp]: "UserCommand_RUN = 1"
definition UserCommand_E_STOP :: uint8 where [consts_simp]: "UserCommand_E_STOP = 2"
definition UserCommand_UNLOAD_CONTROLLER :: uint8 where
  [consts_simp]: "UserCommand_UNLOAD_CONTROLLER = 3"

datatype ControllerManagerState =
    CM_NO_CONTROLLER_LOADED
  | CONTROLLER_STOPPED
  | CONTROLLER_RUNNING
  | CONTROLLER_STARTING
  | CONTROLLER_STOPPING
  | CONTROLLER_ESTOPPED

fun ControllerManagerState_t :: "ControllerManagerState \<Rightarrow> uint8" where
  "ControllerManagerState_t CM_NO_CONTROLLER_LOADED = 0"
| "ControllerManagerState_t CONTROLLER_STOPPED = 1"
| "ControllerManagerState_t CONTROLLER_RUNNING = 2"
| "ControllerManagerState_t CONTROLLER_STARTING = 3"
| "ControllerManagerState_t CONTROLLER_STOPPING = 4"
| "ControllerManagerState_t CONTROLLER_ESTOPPED = 5"

datatype ControllerManagerError =
    CM_NO_ERROR
  | CONTROLLER_PACKAGE_NOT_FOUND
  | CONTROLLER_STATE_MACHINE_NOT_FOUND
  | CONTROLLER_STATE_MACHINE_EXCEPTION

fun ControllerManagerError_t :: "ControllerManagerError \<Rightarrow> uint8" where
  "ControllerManagerError_t CM_NO_ERROR = 0"
| "ControllerManagerError_t CONTROLLER_PACKAGE_NOT_FOUND = 1"
| "ControllerManagerError_t CONTROLLER_STATE_MACHINE_NOT_FOUND = 2"
| "ControllerManagerError_t CONTROLLER_STATE_MACHINE_EXCEPTION = 3"

record gui_output =
  gui_requestedController :: string
  gui_command :: uint8

record gui_input =
  gui_status :: uint8
  gui_errorType :: uint8

subsection \<open>State\<close>

text \<open>Where the event manager's thread is: in its loop, about to test the semaphore, in its
  \<open>wait()\<close>, or out of the loop.\<close>

datatype em_pc = EM_loop | EM_test | EM_wait | EM_exited

record cman =
  cm_state :: ControllerManagerState
  lastError :: ControllerManagerError
  cm_controllerLoaded :: bool
  commandPending :: bool
  commandBuffer :: "uint8 list"
  guiOutput :: gui_output
  controllerChildCounts :: "string \<rightharpoonup> 16 word"
  currentControllerName :: string
  cm_metadata :: ControllerMetadata
  incomingEvents :: "uint8 list"
  eventBeingWaitedOn :: uint8
  eventsWaitingSignal :: nat
  em_done :: bool
  em_at :: em_pc
  toRtOps :: "uint8 list"
  toGui :: "gui_input list"
  scriptsRun :: "string list"
  cm_dead :: bool

text \<open>
  What the component calls outside the repository: ROS's package lookup, the file system and
  the scripting service, and whether \<open>assert\<close> is compiled out.
\<close>

record cm_env =
  getPath :: "string \<Rightarrow> string"
  readFile :: "string \<Rightarrow> string option"
  runScriptOk :: "string \<Rightarrow> bool"
  ndebug :: bool

definition no_metadata :: ControllerMetadata where
  "no_metadata = \<lparr>md_name = [], md_description = [], md_version = [], md_author = [],
     startScriptPath = [], stopScriptPath = [], guiLibPath = [], guiDescriptionPath = [],
     guiConfigPath = [], guiTabWidgetName = [], loadSuccessful = False\<rparr>"

text \<open>The constructors; the awaited event is never initialised.\<close>

definition new_ControllerManager :: "uint8 \<Rightarrow> cman" where
  "new_ControllerManager waited =
     \<lparr>cm_state = CM_NO_CONTROLLER_LOADED, lastError = CM_NO_ERROR, cm_controllerLoaded = False,
      commandPending = False, commandBuffer = [],
      guiOutput = \<lparr>gui_requestedController = [], gui_command = 0\<rparr>,
      controllerChildCounts = Map.empty, currentControllerName = [], cm_metadata = no_metadata,
      incomingEvents = [], eventBeingWaitedOn = waited, eventsWaitingSignal = 0,
      em_done = False, em_at = EM_loop, toRtOps = [], toGui = [], scriptsRun = [],
      cm_dead = False\<rparr>"

subsection \<open>Event manager entry points\<close>

definition em_signal :: "cman \<Rightarrow> cman" where
  "em_signal s = s\<lparr>eventsWaitingSignal := Suc (eventsWaitingSignal s)\<rparr>"

definition eventCallback :: "uint8 \<Rightarrow> cman \<Rightarrow> cman" where
  "eventCallback event s = em_signal (s\<lparr>incomingEvents := incomingEvents s @ [event]\<rparr>)"

definition setEventWait :: "RtOpsEvent \<Rightarrow> cman \<Rightarrow> cman" where
  "setEventWait event s =
     (em_signal (s\<lparr>eventBeingWaitedOn := RtOpsEvent_t event\<rparr>))\<lparr>commandPending := True\<rparr>"

definition em_breakLoop :: "cman \<Rightarrow> cman" where
  "em_breakLoop s = em_signal (s\<lparr>em_done := True\<rparr>)"

definition em_initialize :: "cman \<Rightarrow> cman" where
  "em_initialize s = s\<lparr>em_done := False\<rparr>"

subsection \<open>Controller manager operations\<close>

definition send_RtOps :: "RtOpsState \<Rightarrow> cman \<Rightarrow> cman" where
  "send_RtOps r s = s\<lparr>toRtOps := toRtOps s @ [RtOpsState_t r]\<rparr>"

definition updateGui :: "cman \<Rightarrow> cman" where
  "updateGui s =
     s\<lparr>toGui := toGui s @ [\<lparr>gui_status = ControllerManagerState_t (cm_state s),
                            gui_errorType = ControllerManagerError_t (lastError s)\<rparr>]\<rparr>"

definition throwEstop :: "bool \<Rightarrow> cman \<Rightarrow> cman" where
  "throwEstop alertRtOps s =
     (let s = s\<lparr>cm_state := CONTROLLER_ESTOPPED\<rparr>;
          s = (if alertRtOps then send_RtOps E_STOP (setEventWait ACK_E_STOP s) else s)
      in updateGui s)"

text \<open>\<open>runScript\<close> records the script and gives its answer.\<close>

definition run_script :: "cm_env \<Rightarrow> string \<Rightarrow> cman \<Rightarrow> bool \<times> cman" where
  "run_script env path s = (runScriptOk env path, s\<lparr>scriptsRun := scriptsRun s @ [path]\<rparr>)"

text \<open>Undefined behaviour in the metadata reader ends the model's run like a failed
  assertion does.\<close>

definition loadController :: "cm_env \<Rightarrow> string \<Rightarrow> cman \<Rightarrow> bool \<times> cman" where
  "loadController env controllerName s =
     (if cm_state s = CM_NO_CONTROLLER_LOADED then
        if controllerName \<noteq> [] \<and> controllerName \<noteq> ''none'' then
          (case loadControllerMetadata (readFile env) (getPath env controllerName)
                  controllerName True of
             None \<Rightarrow> (False, s\<lparr>cm_dead := True\<rparr>)
           | Some md \<Rightarrow>
               let s = s\<lparr>cm_metadata := md\<rparr>;
                   (ok, s) = run_script env (startScriptPath md) s
               in if ok then
                    let s = s\<lparr>cm_state := CONTROLLER_STOPPED\<rparr>;
                        s = setEventWait ACK_DISABLE s;
                        s = send_RtOps DISABLED s
                    in (True, s\<lparr>currentControllerName := controllerName\<rparr>)
                  else (False, s))
        else (True, s)
      else (False, s\<lparr>lastError := CONTROLLER_PACKAGE_NOT_FOUND\<rparr>))"

definition unloadController :: "cman \<Rightarrow> cman" where
  "unloadController s = send_RtOps RESET (setEventWait ACK_RESET s)"

definition put_state :: "ControllerManagerState \<times> bool \<Rightarrow> cman \<Rightarrow> cman" where
  "put_state r s =
     (if cm_state s \<noteq> CONTROLLER_ESTOPPED \<or> snd r then s\<lparr>cm_state := fst r\<rparr> else s)"

text \<open>The stop script runs inside an \<open>assert\<close>.\<close>

definition assert_script :: "cm_env \<Rightarrow> string \<Rightarrow> cman \<Rightarrow> cman" where
  "assert_script env path s =
     (if ndebug env then s
      else let (ok, s) = run_script env path s in if ok then s else s\<lparr>cm_dead := True\<rparr>)"

definition cm_setState ::
  "cm_env \<Rightarrow> ControllerManagerState \<Rightarrow> bool \<Rightarrow> cman \<Rightarrow> cman" where
  "cm_setState env newState shouldReset s =
     (let s = (if newState = CONTROLLER_STOPPED then s\<lparr>cm_controllerLoaded := True\<rparr>
               else if newState = CM_NO_CONTROLLER_LOADED then
                 if cm_controllerLoaded s
                 then (assert_script env (stopScriptPath (cm_metadata s)) s)
                        \<lparr>currentControllerName := [], cm_controllerLoaded := False\<rparr>
                 else s
               else s)
      in if cm_dead s then s else updateGui (put_state (newState, shouldReset) s))"

definition handleUserCommand :: "cm_env \<Rightarrow> uint8 \<Rightarrow> cman \<Rightarrow> cman" where
  "handleUserCommand env command s =
     (case cm_state s of
        CM_NO_CONTROLLER_LOADED \<Rightarrow>
          if command = UserCommand_STOP
          then snd (loadController env (gui_requestedController (guiOutput s)) s) else s
      | CONTROLLER_STOPPED \<Rightarrow>
          if command = UserCommand_RUN
          then send_RtOps ENABLED (s\<lparr>cm_state := CONTROLLER_RUNNING\<rparr>)
          else if command = UserCommand_UNLOAD_CONTROLLER then unloadController s else s
      | CONTROLLER_RUNNING \<Rightarrow>
          if command = UserCommand_STOP
          then send_RtOps DISABLED (s\<lparr>cm_state := CONTROLLER_STOPPED\<rparr>)
          else if command = UserCommand_UNLOAD_CONTROLLER then unloadController s
          else if command = UserCommand_E_STOP then throwEstop True s else s
      | CONTROLLER_ESTOPPED \<Rightarrow>
          if command = UserCommand_UNLOAD_CONTROLLER then unloadController s else s
      | _ \<Rightarrow> s)"

definition tryProcessCommand :: "cm_env \<Rightarrow> bool \<Rightarrow> cman \<Rightarrow> bool \<times> cman" where
  "tryProcessCommand env locked s =
     (if locked \<and> \<not> commandPending s \<and> commandBuffer s \<noteq> []
      then (True, (handleUserCommand env (hd (commandBuffer s)) s)\<lparr>commandBuffer := tl (commandBuffer s)\<rparr>)
      else (False, s))"

text \<open>\<open>while (tryProcessCommand());\<close> over the answers of its try-locks: their end is the first
  refusal.\<close>

primrec processCommands :: "cm_env \<Rightarrow> bool list \<Rightarrow> cman \<Rightarrow> cman" where
  "processCommands env [] s = s"
| "processCommands env (locked # locks) s =
     (let (again, s) = tryProcessCommand env locked s
      in if again \<and> \<not> cm_dead s then processCommands env locks s else s)"

definition updateHook_cm ::
  "cm_env \<Rightarrow> uint8 list \<Rightarrow> gui_output list \<Rightarrow> bool list \<Rightarrow> cman \<Rightarrow> cman" where
  "updateHook_cm env rtEvents guiMsgs locks s =
     (let s = run (\<lambda>s e. eventCallback e s) s rtEvents;
          s = s\<lparr>lastError := CM_NO_ERROR\<rparr>;
          s = run (\<lambda>s g. s\<lparr>guiOutput := g, commandBuffer := commandBuffer s @ [gui_command g]\<rparr>)
                s guiMsgs;
          s = processCommands env locks s
      in if cm_dead s then s else updateGui s)"

subsection \<open>Sub-controller names\<close>

definition CONTROLLER_LEVEL_DELIMITER :: string where
  "CONTROLLER_LEVEL_DELIMITER = ''__''"

definition getUniqueName :: "string \<Rightarrow> string \<Rightarrow> cman \<Rightarrow> string \<times> cman" where
  "getUniqueName parentName childType s =
     (let base = parentName @ CONTROLLER_LEVEL_DELIMITER @ childType;
          count = (case controllerChildCounts s base of None \<Rightarrow> 0 | Some c \<Rightarrow> c + 1)
      in (base @ ''_'' @ dec_digits (unat count),
          s\<lparr>controllerChildCounts := (controllerChildCounts s)(base \<mapsto> count)\<rparr>))"

definition resetControllerNames :: "cman \<Rightarrow> cman" where
  "resetControllerNames s = s\<lparr>controllerChildCounts := Map.empty\<rparr>"

subsection \<open>The event loop\<close>

definition em_handle :: "cm_env \<Rightarrow> bool list \<Rightarrow> uint8 \<Rightarrow> cman \<Rightarrow> cman" where
  "em_handle env locks event s =
     (if event = RtOpsEvent_t MISSED_DEADLINE then s
      else if event = eventBeingWaitedOn s then
        (let s = (if event = RtOpsEvent_t ACK_DISABLE
                  then cm_setState env CONTROLLER_STOPPED False s
                  else if event = RtOpsEvent_t ACK_ENABLE
                  then cm_setState env CONTROLLER_RUNNING False s
                  else if event = RtOpsEvent_t ACK_E_STOP
                  then cm_setState env CONTROLLER_ESTOPPED False s
                  else if event = RtOpsEvent_t ACK_NO_CONTROLLER_LOADED
                  then cm_setState env CM_NO_CONTROLLER_LOADED False s
                  else if event = RtOpsEvent_t ACK_RESET
                  then cm_setState env CM_NO_CONTROLLER_LOADED True s
                  else s)
         in if cm_dead s then s
            else processCommands env locks (s\<lparr>commandPending := False\<rparr>))
      else if event \<in> {RtOpsEvent_t CM_COMMAND_ESTOP, RtOpsEvent_t CONTROLLER_ESTOP,
                       RtOpsEvent_t MEDULLA_ESTOP}
      then throwEstop False s
      else s)"

text \<open>One turn of the thread: the loop's test and body, the test of the semaphore, or the
  return from \<open>wait()\<close>, which takes one signal.\<close>

definition em_turn :: "cm_env \<Rightarrow> bool list \<Rightarrow> cman \<Rightarrow> cman" where
  "em_turn env locks s =
     (case em_at s of
        EM_loop \<Rightarrow>
          if em_done s then s\<lparr>em_at := EM_exited\<rparr>
          else
            (case incomingEvents s of
               [] \<Rightarrow> s
             | event # rest \<Rightarrow> em_handle env locks event (s\<lparr>incomingEvents := rest\<rparr>))
              \<lparr>em_at := EM_test\<rparr>
      | EM_test \<Rightarrow>
          if eventsWaitingSignal s = 0 \<and> incomingEvents s = [] then s\<lparr>em_at := EM_wait\<rparr>
          else s\<lparr>em_at := EM_loop\<rparr>
      | EM_wait \<Rightarrow>
          if 0 < eventsWaitingSignal s
          then s\<lparr>eventsWaitingSignal := eventsWaitingSignal s - 1, em_at := EM_loop\<rparr> else s
      | EM_exited \<Rightarrow> s)"

subsection \<open>Steps\<close>

datatype cm_label =
    CM_update "uint8 list" "gui_output list" "bool list"
  | CM_event_loop "bool list"
  | CM_getUniqueName string string
  | CM_resetControllerNames
  | CM_loadController string
  | CM_unloadController
  | CM_breakLoop

fun cm_next :: "cm_env \<Rightarrow> cm_label \<Rightarrow> cman \<Rightarrow> cman" where
  "cm_next env (CM_update es gs locks) s = updateHook_cm env es gs locks s"
| "cm_next env (CM_event_loop locks) s = em_turn env locks s"
| "cm_next env (CM_getUniqueName p c) s = snd (getUniqueName p c s)"
| "cm_next env CM_resetControllerNames s = resetControllerNames s"
| "cm_next env (CM_loadController n) s = snd (loadController env n s)"
| "cm_next env CM_unloadController s = unloadController s"
| "cm_next env CM_breakLoop s = em_breakLoop s"

text \<open>The states reached when the uninitialised awaited event is \<open>w\<close>, and a run, which a
  failed assertion ends.\<close>

inductive cm_reach :: "uint8 \<Rightarrow> cman \<Rightarrow> bool" for w where
  cm_init: "cm_reach w (em_initialize (new_ControllerManager w))"
| cm_more: "cm_reach w s \<Longrightarrow> \<not> cm_dead s \<Longrightarrow> cm_reach w (cm_next env label s)"

definition cm_run :: "cman \<Rightarrow> (cm_env \<times> cm_label) list \<Rightarrow> cman" where
  "cm_run s steps = run (\<lambda>s (env, label). if cm_dead s then s else cm_next env label s) s steps"

lemma cm_run_reach: "cm_reach w s \<Longrightarrow> cm_reach w (cm_run s steps)"
  unfolding cm_run_def
  by (rule run_invariant [where P = "cm_reach w"]) (auto intro: cm_reach.intros)

subsection \<open>Frame facts\<close>

interpretation cm_latch: latch cm_state put_state CONTROLLER_ESTOPPED fst snd
  by unfold_locales (simp add: put_state_def)

lemma signal_simps [simp]:
  "cm_state (em_signal s) = cm_state s"
  "toRtOps (em_signal s) = toRtOps s"
  "eventBeingWaitedOn (em_signal s) = eventBeingWaitedOn s"
  "commandPending (em_signal s) = commandPending s"
  "commandBuffer (em_signal s) = commandBuffer s"
  "incomingEvents (em_signal s) = incomingEvents s"
  "eventsWaitingSignal (em_signal s) = Suc (eventsWaitingSignal s)"
  "em_at (em_signal s) = em_at s"
  "cm_dead (em_signal s) = cm_dead s"
  by (simp_all add: em_signal_def)

lemma send_simps [simp]:
  "cm_state (send_RtOps r s) = cm_state s"
  "toRtOps (send_RtOps r s) = toRtOps s @ [RtOpsState_t r]"
  "eventBeingWaitedOn (send_RtOps r s) = eventBeingWaitedOn s"
  "commandPending (send_RtOps r s) = commandPending s"
  "commandBuffer (send_RtOps r s) = commandBuffer s"
  "incomingEvents (send_RtOps r s) = incomingEvents s"
  "eventsWaitingSignal (send_RtOps r s) = eventsWaitingSignal s"
  "em_at (send_RtOps r s) = em_at s"
  "cm_dead (send_RtOps r s) = cm_dead s"
  by (simp_all add: send_RtOps_def)

lemma updateGui_simps [simp]:
  "cm_state (updateGui s) = cm_state s"
  "toRtOps (updateGui s) = toRtOps s"
  "eventBeingWaitedOn (updateGui s) = eventBeingWaitedOn s"
  "commandPending (updateGui s) = commandPending s"
  "commandBuffer (updateGui s) = commandBuffer s"
  "incomingEvents (updateGui s) = incomingEvents s"
  "eventsWaitingSignal (updateGui s) = eventsWaitingSignal s"
  "em_at (updateGui s) = em_at s"
  "cm_dead (updateGui s) = cm_dead s"
  by (simp_all add: updateGui_def)

lemma setEventWait_simps [simp]:
  "cm_state (setEventWait e s) = cm_state s"
  "toRtOps (setEventWait e s) = toRtOps s"
  "eventBeingWaitedOn (setEventWait e s) = RtOpsEvent_t e"
  "commandPending (setEventWait e s)"
  "commandBuffer (setEventWait e s) = commandBuffer s"
  "incomingEvents (setEventWait e s) = incomingEvents s"
  "eventsWaitingSignal (setEventWait e s) = Suc (eventsWaitingSignal s)"
  "em_at (setEventWait e s) = em_at s"
  "cm_dead (setEventWait e s) = cm_dead s"
  by (simp_all add: setEventWait_def)

lemma eventCallbacks:
  "cm_state (run (\<lambda>s e. eventCallback e s) s es) = cm_state s"
  "toRtOps (run (\<lambda>s e. eventCallback e s) s es) = toRtOps s"
  "eventBeingWaitedOn (run (\<lambda>s e. eventCallback e s) s es) = eventBeingWaitedOn s"
  "commandPending (run (\<lambda>s e. eventCallback e s) s es) = commandPending s"
  "commandBuffer (run (\<lambda>s e. eventCallback e s) s es) = commandBuffer s"
  "incomingEvents (run (\<lambda>s e. eventCallback e s) s es) = incomingEvents s @ es"
  "eventsWaitingSignal (run (\<lambda>s e. eventCallback e s) s es) = eventsWaitingSignal s + length es"
  "em_at (run (\<lambda>s e. eventCallback e s) s es) = em_at s"
  "cm_dead (run (\<lambda>s e. eventCallback e s) s es) = cm_dead s"
  by (induction es arbitrary: s) (simp_all add: eventCallback_def)

lemma guiReads:
  fixes s :: cman
  defines "rd \<equiv> \<lambda>s g. s\<lparr>guiOutput := g, commandBuffer := commandBuffer s @ [gui_command g]\<rparr>"
  shows "cm_state (run rd s gs) = cm_state s"
    "toRtOps (run rd s gs) = toRtOps s"
    "eventBeingWaitedOn (run rd s gs) = eventBeingWaitedOn s"
    "commandPending (run rd s gs) = commandPending s"
    "commandBuffer (run rd s gs) = commandBuffer s @ map gui_command gs"
    "incomingEvents (run rd s gs) = incomingEvents s"
    "eventsWaitingSignal (run rd s gs) = eventsWaitingSignal s"
    "em_at (run rd s gs) = em_at s"
    "cm_dead (run rd s gs) = cm_dead s"
  by (induction gs arbitrary: s) (simp_all add: rd_def)

text \<open>
  What a part of a step may rely on and must keep is proved once for a whole step: an
  invariant of the operations that run commands is one of \<open>processCommands\<close>.
\<close>

lemma processCommands_invariant:
  assumes "\<And>c s. P s \<Longrightarrow> \<not> commandPending s \<Longrightarrow> \<not> cm_dead s \<Longrightarrow> P (handleUserCommand env c s)"
    and "\<And>s b. P s \<Longrightarrow> P (s\<lparr>commandBuffer := b\<rparr>)"
    and "P s" and "\<not> cm_dead s"
  shows "P (processCommands env locks s)"
  using assms(3,4)
proof (induction locks arbitrary: s)
  case (Cons locked locks)
  then have "P (snd (tryProcessCommand env locked s))"
    by (auto simp: tryProcessCommand_def intro!: assms(1,2))
  with Cons.IH show ?case by (simp add: split_beta Let_def)
qed simp

lemma processCommands_pending [simp]:
  "commandPending s \<Longrightarrow> processCommands env locks s = s"
  by (cases locks) (simp_all add: tryProcessCommand_def)

lemma cm_setState_simps [simp]:
  "toRtOps (cm_setState env n r s) = toRtOps s"
  "eventBeingWaitedOn (cm_setState env n r s) = eventBeingWaitedOn s"
  "commandPending (cm_setState env n r s) = commandPending s"
  "commandBuffer (cm_setState env n r s) = commandBuffer s"
  "incomingEvents (cm_setState env n r s) = incomingEvents s"
  "eventsWaitingSignal (cm_setState env n r s) = eventsWaitingSignal s"
  "em_at (cm_setState env n r s) = em_at s"
  by (simp_all add: cm_setState_def put_state_def assert_script_def run_script_def Let_def)

lemma cm_setState_state:
  "cm_state (cm_setState env n r s) =
     (if cm_dead (cm_setState env n r s) \<or> cm_state s = CONTROLLER_ESTOPPED \<and> \<not> r
      then cm_state s else n)"
  by (auto simp: cm_setState_def put_state_def assert_script_def run_script_def Let_def)

lemma loadController_simps [simp]:
  "incomingEvents (snd (loadController env n s)) = incomingEvents s"
  "em_at (snd (loadController env n s)) = em_at s"
  "commandBuffer (snd (loadController env n s)) = commandBuffer s"
  by (simp_all add: loadController_def run_script_def Let_def split: option.split)

lemma loadController_signal:
  "eventsWaitingSignal s \<le> eventsWaitingSignal (snd (loadController env n s))"
  by (simp add: loadController_def run_script_def Let_def split: option.split)

lemma loadController_kept:
  "cm_state s \<noteq> CM_NO_CONTROLLER_LOADED \<Longrightarrow>
   snd (loadController env n s) = s\<lparr>lastError := CONTROLLER_PACKAGE_NOT_FOUND\<rparr>"
  by (simp add: loadController_def)

lemma unloadController_simps [simp]:
  "cm_state (unloadController s) = cm_state s"
  "incomingEvents (unloadController s) = incomingEvents s"
  "em_at (unloadController s) = em_at s"
  "commandBuffer (unloadController s) = commandBuffer s"
  "commandPending (unloadController s)"
  "cm_dead (unloadController s) = cm_dead s"
  "eventBeingWaitedOn (unloadController s) = RtOpsEvent_t ACK_RESET"
  "toRtOps (unloadController s) = toRtOps s @ [RtOpsState_t RESET]"
  "eventsWaitingSignal (unloadController s) = Suc (eventsWaitingSignal s)"
  by (simp_all add: unloadController_def)

lemma throwEstop_simps [simp]:
  "cm_state (throwEstop a s) = CONTROLLER_ESTOPPED"
  "incomingEvents (throwEstop a s) = incomingEvents s"
  "em_at (throwEstop a s) = em_at s"
  "commandBuffer (throwEstop a s) = commandBuffer s"
  "commandPending (throwEstop a s) \<longleftrightarrow> a \<or> commandPending s"
  "cm_dead (throwEstop a s) = cm_dead s"
  "eventBeingWaitedOn (throwEstop a s) = (if a then RtOpsEvent_t ACK_E_STOP else eventBeingWaitedOn s)"
  "toRtOps (throwEstop a s) = toRtOps s @ (if a then [RtOpsState_t E_STOP] else [])"
  "eventsWaitingSignal (throwEstop a s) = (if a then Suc (eventsWaitingSignal s) else eventsWaitingSignal s)"
  by (simp_all add: throwEstop_def Let_def)

lemma handleUserCommand_simps [simp]:
  "incomingEvents (handleUserCommand env c s) = incomingEvents s"
  "em_at (handleUserCommand env c s) = em_at s"
  "commandBuffer (handleUserCommand env c s) = commandBuffer s"
  by (simp_all add: handleUserCommand_def split: ControllerManagerState.split)

lemma handleUserCommand_signal:
  "eventsWaitingSignal s \<le> eventsWaitingSignal (handleUserCommand env c s)"
  by (simp add: handleUserCommand_def loadController_signal split: ControllerManagerState.split)

lemma handleUserCommand_estopped:
  "cm_state s = CONTROLLER_ESTOPPED \<Longrightarrow> cm_state (handleUserCommand env c s) = CONTROLLER_ESTOPPED"
  by (simp add: handleUserCommand_def)

lemma processCommands_simps [simp]:
  assumes "\<not> cm_dead s"
  shows "incomingEvents (processCommands env locks s) = incomingEvents s"
    and "em_at (processCommands env locks s) = em_at s"
    and "eventsWaitingSignal s \<le> eventsWaitingSignal (processCommands env locks s)"
proof -
  have "incomingEvents (processCommands env locks s) = incomingEvents s \<and>
        em_at (processCommands env locks s) = em_at s \<and>
        eventsWaitingSignal s \<le> eventsWaitingSignal (processCommands env locks s)"
    by (rule processCommands_invariant)
      (auto simp: assms intro: handleUserCommand_signal order_trans)
  then show "incomingEvents (processCommands env locks s) = incomingEvents s"
    and "em_at (processCommands env locks s) = em_at s"
    and "eventsWaitingSignal s \<le> eventsWaitingSignal (processCommands env locks s)" by simp_all
qed

lemma processCommands_estopped:
  "cm_state s = CONTROLLER_ESTOPPED \<Longrightarrow> \<not> cm_dead s \<Longrightarrow>
   cm_state (processCommands env locks s) = CONTROLLER_ESTOPPED"
  by (rule processCommands_invariant) (simp_all add: handleUserCommand_estopped)

lemma updateHook_cm_simps:
  assumes "\<not> cm_dead s"
  shows "incomingEvents (updateHook_cm env es gs locks s) = incomingEvents s @ es"
    and "em_at (updateHook_cm env es gs locks s) = em_at s"
    and "eventsWaitingSignal s + length es \<le> eventsWaitingSignal (updateHook_cm env es gs locks s)"
  using assms processCommands_simps(3) [of "run (\<lambda>s g. s\<lparr>guiOutput := g, commandBuffer := commandBuffer s @ [gui_command g]\<rparr>) ((run (\<lambda>s e. eventCallback e s) s es)\<lparr>lastError := CM_NO_ERROR\<rparr>) gs"]
  by (simp_all add: updateHook_cm_def Let_def eventCallbacks guiReads)

lemma em_handle_simps [simp]:
  assumes "\<not> cm_dead s"
  shows "incomingEvents (em_handle env locks e s) = incomingEvents s"
    and "em_at (em_handle env locks e s) = em_at s"
    and "eventsWaitingSignal s \<le> eventsWaitingSignal (em_handle env locks e s)"
  using assms by (auto simp: em_handle_def Let_def intro!: order_trans [OF _ processCommands_simps(3)])

text \<open>A signal that finds the thread awake is never taken back: the thread never waits again.\<close>

lemma cm_next_awake:
  assumes "0 < eventsWaitingSignal s" and "em_at s \<noteq> EM_wait" and "\<not> cm_dead s"
  shows "0 < eventsWaitingSignal (cm_next env label s)" and "em_at (cm_next env label s) \<noteq> EM_wait"
proof -
  have h: "0 < eventsWaitingSignal (cm_next env label s) \<and> em_at (cm_next env label s) \<noteq> EM_wait"
  proof (cases label)
    case (CM_update es gs locks)
    then show ?thesis using assms updateHook_cm_simps [OF assms(3), where env = env and es = es and gs = gs and locks = locks]
      by (auto intro: less_le_trans)
  next
    case (CM_event_loop locks)
    show ?thesis
    proof (cases "incomingEvents s")
      case Nil
      then show ?thesis using assms CM_event_loop
        by (auto simp: em_turn_def split: em_pc.split)
    next
      case (Cons e rest)
      then show ?thesis using assms CM_event_loop
          em_handle_simps [where s = "s\<lparr>incomingEvents := rest\<rparr>" and env = env and locks = locks and e = e]
        by (auto simp: em_turn_def split: em_pc.split)
    qed
  next
    case (CM_loadController n)
    then show ?thesis using assms loadController_signal [of s env n] by simp
  qed (use assms in \<open>auto simp: getUniqueName_def resetControllerNames_def em_breakLoop_def Let_def\<close>)
  then show "0 < eventsWaitingSignal (cm_next env label s)"
    and "em_at (cm_next env label s) \<noteq> EM_wait" by auto
qed

subsection \<open>Requests to RT Ops\<close>

fun cm_protocol :: "bool \<Rightarrow> uint8 list \<Rightarrow> bool option" where
  "cm_protocol armed [] = Some armed"
| "cm_protocol armed (r # rs) =
     (if r = RtOpsState_t DISABLED then cm_protocol True rs
      else if r = RtOpsState_t ENABLED then (if armed then cm_protocol True rs else None)
      else if r = RtOpsState_t RESET \<or> r = RtOpsState_t E_STOP then cm_protocol False rs
      else None)"

lemma cm_protocol_append [simp]:
  "cm_protocol a (xs @ ys) = Option.bind (cm_protocol a xs) (\<lambda>b. cm_protocol b ys)"
  by (induction xs arbitrary: a) auto

definition cm_armed :: "cman \<Rightarrow> bool" where
  "cm_armed s \<longleftrightarrow>
     (\<exists>b. cm_protocol False (toRtOps s) = Some b \<and>
        (eventBeingWaitedOn s = RtOpsEvent_t ACK_DISABLE \<longrightarrow> b) \<and>
        (cm_state s = CONTROLLER_STOPPED \<longrightarrow>
          b \<or> commandPending s \<and> eventBeingWaitedOn s = RtOpsEvent_t ACK_RESET))"

lemma cm_armed_frame [simp]:
  "cm_armed (s\<lparr>em_at := a\<rparr>) = cm_armed s"
  "cm_armed (s\<lparr>incomingEvents := es\<rparr>) = cm_armed s"
  "cm_armed (s\<lparr>commandBuffer := cs\<rparr>) = cm_armed s"
  "cm_armed (s\<lparr>lastError := err\<rparr>) = cm_armed s"
  "cm_armed (s\<lparr>controllerChildCounts := m\<rparr>) = cm_armed s"
  "cm_armed (s\<lparr>eventsWaitingSignal := k\<rparr>) = cm_armed s"
  "cm_armed (s\<lparr>eventsWaitingSignal := k, em_at := a\<rparr>) = cm_armed s"
  "cm_armed (s\<lparr>em_done := d\<rparr>) = cm_armed s"
  "cm_armed (updateGui s) = cm_armed s"
  "cm_armed (em_signal s) = cm_armed s"
  "cm_armed (run (\<lambda>s e. eventCallback e s) s es) = cm_armed s"
  "cm_armed (run (\<lambda>s g. s\<lparr>guiOutput := g, commandBuffer := commandBuffer s @ [gui_command g]\<rparr>) s gs) = cm_armed s"
  by (simp_all add: cm_armed_def eventCallbacks guiReads)

lemma loadController_armed: "cm_armed s \<Longrightarrow> cm_armed (snd (loadController env n s))"
  by (auto simp: cm_armed_def loadController_def run_script_def Let_def split: option.split)

lemma unloadController_armed: "cm_armed s \<Longrightarrow> cm_armed (unloadController s)"
  by (auto simp: cm_armed_def)

lemma throwEstop_armed: "cm_armed s \<Longrightarrow> cm_armed (throwEstop a s)"
  by (auto simp: cm_armed_def)

lemma handleUserCommand_armed:
  assumes "cm_armed s" and "\<not> commandPending s"
  shows "cm_armed (handleUserCommand env c s)"
  using assms
  by (cases "cm_state s")
    (auto simp: handleUserCommand_def loadController_armed unloadController_armed throwEstop_armed,
     auto simp: cm_armed_def)

lemma processCommands_armed:
  "cm_armed s \<Longrightarrow> \<not> cm_dead s \<Longrightarrow> cm_armed (processCommands env locks s)"
  by (rule processCommands_invariant) (auto intro: handleUserCommand_armed)

lemma em_handle_armed:
  assumes "cm_armed s" and "\<not> cm_dead s"
  shows "cm_armed (em_handle env locks e s)"
  using assms
  by (auto simp: em_handle_def Let_def throwEstop_armed intro!: processCommands_armed)
   (auto simp: cm_armed_def cm_setState_state)

lemma cm_next_armed:
  assumes "cm_armed s" and "\<not> cm_dead s"
  shows "cm_armed (cm_next env label s)"
proof (cases label)
  case (CM_event_loop locks)
  have "cm_armed (em_handle env locks e (s\<lparr>incomingEvents := es\<rparr>))" for e es
    using assms by (simp add: em_handle_armed)
  then show ?thesis using CM_event_loop assms
    by (auto simp: em_turn_def split: em_pc.split list.split)
qed (use assms in \<open>auto simp: loadController_armed unloadController_armed getUniqueName_def
      resetControllerNames_def em_breakLoop_def Let_def updateHook_cm_def eventCallbacks guiReads
      processCommands_armed\<close>)

text \<open>
  C22. What the controller manager asks of RT Ops: in every reachable state, the requests it has
  sent are DISABLED, ENABLED, RESET and E_STOP only, and ENABLED is never asked for without a
  DISABLED since the start, the last RESET and the last E_STOP. The event manager's awaited
  event is never initialised; the promise needs it not to hold ACK_DISABLE by accident.
\<close>

theorem enabled_only_after_disabled:
  assumes "cm_reach w s" and "w \<noteq> RtOpsEvent_t ACK_DISABLE"
  shows "cm_protocol False (toRtOps s) \<noteq> None"
proof -
  have "cm_armed (em_initialize (new_ControllerManager w))"
    using assms(2) by (auto simp: cm_armed_def em_initialize_def new_ControllerManager_def)
  with assms(1) have "cm_armed s"
    by (induction rule: cm_reach.induct) (simp_all add: cm_next_armed)
  then show ?thesis by (auto simp: cm_armed_def)
qed

subsection \<open>A session\<close>

definition plain_env :: cm_env where
  "plain_env = \<lparr>getPath = (\<lambda>n. ''/'' @ n), readFile = (\<lambda>_. None), runScriptOk = (\<lambda>_. True),
     ndebug = False\<rparr>"

definition gui_msg :: "uint8 \<Rightarrow> gui_output" where
  "gui_msg c = \<lparr>gui_requestedController = ''atc_walk'', gui_command = c\<rparr>"

text \<open>Loading a controller, RT Ops' acknowledgement, and the RUN command.\<close>

definition load_and_run :: "cm_label list" where
  "load_and_run = [CM_update [] [gui_msg UserCommand_STOP] [True], CM_update [6] [] [],
     CM_event_loop [], CM_update [] [gui_msg UserCommand_RUN] [True]]"

definition loaded_machine :: cman where
  "loaded_machine = cm_run (em_initialize (new_ControllerManager 0)) (map (Pair plain_env) load_and_run)"


lemma loaded_machine_reach: "cm_reach 0 loaded_machine"
  unfolding loaded_machine_def by (intro cm_run_reach cm_init)

lemma enabled_only_after_disabled_witness:
  "toRtOps loaded_machine = [RtOpsState_t DISABLED, RtOpsState_t ENABLED] \<and>
   cm_protocol False (toRtOps loaded_machine) \<noteq> None"
proof
  show "toRtOps loaded_machine = [RtOpsState_t DISABLED, RtOpsState_t ENABLED]" by code_simp
  show "cm_protocol False (toRtOps loaded_machine) \<noteq> None"
    by (rule enabled_only_after_disabled [OF loaded_machine_reach]) simp
qed

subsection \<open>The emergency stop\<close>

text \<open>
  C21. Once the controller manager is in CONTROLLER_ESTOPPED, nothing moves it out but the event
  loop's handling of an ACK_RESET that the manager is waiting for: no command of the operator,
  no other event, no loading operation, whatever the order.
\<close>

theorem cm_estop_latched:
  assumes "cm_state s = CONTROLLER_ESTOPPED" and "\<not> cm_dead s"
    and "cm_state (cm_next env label s) \<noteq> CONTROLLER_ESTOPPED"
  shows "\<exists>locks rest. label = CM_event_loop locks \<and> em_at s = EM_loop \<and>
     incomingEvents s = RtOpsEvent_t ACK_RESET # rest \<and>
     eventBeingWaitedOn s = RtOpsEvent_t ACK_RESET"
proof (cases label)
  case (CM_update es gs locks)
  then show ?thesis using assms
    by (simp add: updateHook_cm_def Let_def eventCallbacks guiReads processCommands_estopped
        split: if_split_asm)
next
  case (CM_event_loop locks)
  then show ?thesis using assms
    by (auto simp: em_turn_def em_handle_def Let_def cm_setState_state processCommands_estopped
        split: em_pc.splits if_splits list.splits)
next
  case (CM_loadController n)
  then show ?thesis using assms by (simp add: loadController_def)
qed (use assms in \<open>auto simp: getUniqueName_def resetControllerNames_def em_breakLoop_def Let_def\<close>)

text \<open>A machine in emergency stop, whose operator has asked for the reset.\<close>

definition stopped_machine :: cman where
  "stopped_machine = cm_run loaded_machine (map (Pair plain_env)
     [CM_update [RtOpsEvent_t MEDULLA_ESTOP] [] [], CM_event_loop [], CM_event_loop [],
      CM_event_loop []])"

definition resetting_machine :: cman where
  "resetting_machine = cm_run stopped_machine (map (Pair plain_env)
     [CM_update [] [gui_msg UserCommand_UNLOAD_CONTROLLER] [True],
      CM_update [RtOpsEvent_t ACK_RESET] [] []])"

lemma cm_estop_latched_witness:
  "\<exists>locks rest. CM_event_loop [] = CM_event_loop locks \<and> em_at resetting_machine = EM_loop \<and>
     incomingEvents resetting_machine = RtOpsEvent_t ACK_RESET # rest \<and>
     eventBeingWaitedOn resetting_machine = RtOpsEvent_t ACK_RESET"
proof (rule cm_estop_latched)
  show "cm_state resetting_machine = CONTROLLER_ESTOPPED" by code_simp
  show "\<not> cm_dead resetting_machine" by code_simp
  show "cm_state (cm_next plain_env (CM_event_loop []) resetting_machine) \<noteq> CONTROLLER_ESTOPPED"
    by code_simp
qed

lemma processCommands_empty: "commandBuffer s = [] \<Longrightarrow> processCommands env locks s = s"
  by (cases locks) (simp_all add: tryProcessCommand_def)

text \<open>
  C35. The way back: in emergency stop with no acknowledgement outstanding, the operator's
  UNLOAD_CONTROLLER sends RESET, and when ACK_RESET arrives the event loop runs the stop script
  of a loaded controller and returns the manager to NO_CONTROLLER_LOADED, ready for the next
  command.
\<close>

theorem estop_recovery:
  fixes s s' :: cman and env :: cm_env and locks :: "bool list"
  assumes "cm_state s = CONTROLLER_ESTOPPED" and "\<not> commandPending s" and "\<not> cm_dead s"
    and "commandBuffer s = []" and "incomingEvents s = []" and "em_at s = EM_loop"
    and "\<not> em_done s" and "\<not> ndebug env" and "runScriptOk env (stopScriptPath (cm_metadata s))"
    and "gui_command g = UserCommand_UNLOAD_CONTROLLER"
    and s': "s' = em_turn env locks (updateHook_cm env [RtOpsEvent_t ACK_RESET] [] []
                  (updateHook_cm env [] [g] [True] s))"
  shows "cm_state s' = CM_NO_CONTROLLER_LOADED \<and> \<not> commandPending s' \<and>
     toRtOps s' = toRtOps s @ [RtOpsState_t RESET] \<and> \<not> cm_controllerLoaded s' \<and>
     scriptsRun s' = scriptsRun s @
       (if cm_controllerLoaded s then [stopScriptPath (cm_metadata s)] else [])"
proof -
  define s1 where "s1 = updateHook_cm env [] [g] [True] s"
  have s1: "cm_state s1 = CONTROLLER_ESTOPPED" "commandPending s1" "\<not> cm_dead s1"
    "commandBuffer s1 = []" "incomingEvents s1 = []" "em_at s1 = EM_loop" "\<not> em_done s1"
    "eventBeingWaitedOn s1 = RtOpsEvent_t ACK_RESET"
    "toRtOps s1 = toRtOps s @ [RtOpsState_t RESET]" "scriptsRun s1 = scriptsRun s"
    "cm_metadata s1 = cm_metadata s" "cm_controllerLoaded s1 = cm_controllerLoaded s"
    using assms(1-8,10)
    by (simp_all add: s1_def updateHook_cm_def tryProcessCommand_def handleUserCommand_def
        unloadController_def setEventWait_def em_signal_def send_RtOps_def updateGui_def
        consts_simp Let_def)
  define s2 where "s2 = updateHook_cm env [RtOpsEvent_t ACK_RESET] [] [] s1"
  have s2: "cm_state s2 = CONTROLLER_ESTOPPED" "commandPending s2" "\<not> cm_dead s2"
    "commandBuffer s2 = []" "incomingEvents s2 = [RtOpsEvent_t ACK_RESET]" "em_at s2 = EM_loop"
    "\<not> em_done s2" "eventBeingWaitedOn s2 = RtOpsEvent_t ACK_RESET"
    "toRtOps s2 = toRtOps s @ [RtOpsState_t RESET]" "scriptsRun s2 = scriptsRun s"
    "cm_metadata s2 = cm_metadata s" "cm_controllerLoaded s2 = cm_controllerLoaded s"
    using s1
    by (simp_all add: s2_def updateHook_cm_def eventCallback_def em_signal_def updateGui_def Let_def)
  have s'_eq: "s' = em_turn env locks s2"
    by (simp add: s' s1_def s2_def)
  show ?thesis
    using s2 assms(8,9)
    by (cases "cm_controllerLoaded s")
      (simp_all add: s'_eq em_turn_def em_handle_def cm_setState_def assert_script_def run_script_def
        put_state_def updateGui_def processCommands_empty Let_def)
qed

lemma estop_recovery_witness:
  "cm_state (em_turn plain_env [] (updateHook_cm plain_env [RtOpsEvent_t ACK_RESET] [] []
      (updateHook_cm plain_env [] [gui_msg UserCommand_UNLOAD_CONTROLLER] [True] stopped_machine)))
   = CM_NO_CONTROLLER_LOADED"
proof -
  have h: "cm_state stopped_machine = CONTROLLER_ESTOPPED" "\<not> commandPending stopped_machine"
    "\<not> cm_dead stopped_machine" "commandBuffer stopped_machine = []"
    "incomingEvents stopped_machine = []" "em_at stopped_machine = EM_loop"
    "\<not> em_done stopped_machine" by code_simp+
  have e: "\<not> ndebug plain_env" "\<And>p. runScriptOk plain_env p"
    by (simp_all add: plain_env_def)
  show ?thesis
    using estop_recovery [OF h e gui_output.select_convs(2) refl] by (simp add: gui_msg_def)
qed

text \<open>
  While an acknowledgement is outstanding, a run of the update hook starts no command of the
  operator, an E_STOP included: all are queued, nothing is sent to RT Ops, and the state stays
  what it was.
\<close>

theorem pending_queues_commands:
  assumes "commandPending s" and "\<not> cm_dead s"
  shows "toRtOps (updateHook_cm env es gs locks s) = toRtOps s \<and>
    cm_state (updateHook_cm env es gs locks s) = cm_state s \<and>
    commandBuffer (updateHook_cm env es gs locks s) = commandBuffer s @ map gui_command gs"
  using assms by (simp add: updateHook_cm_def Let_def eventCallbacks guiReads)

lemma pending_queues_commands_witness:
  "toRtOps (updateHook_cm plain_env [] [gui_msg UserCommand_E_STOP] [True] resetting_machine) =
   toRtOps resetting_machine"
proof -
  have "commandPending resetting_machine" "\<not> cm_dead resetting_machine" by code_simp+
  then show ?thesis by (simp add: pending_queues_commands)
qed

text \<open>
  An acknowledgement is accepted as long as it is the one last awaited, even when the command
  it answers has been overtaken: after STOP and RUN in a row, the late ACK_DISABLE of the STOP
  puts a running manager into CONTROLLER_STOPPED, and from there neither STOP nor E_STOP of the
  operator sends anything to RT Ops, which was told ENABLED last.
\<close>

theorem late_disable_ack_hides_running:
  assumes "cm_state s = CONTROLLER_RUNNING" and "eventBeingWaitedOn s = RtOpsEvent_t ACK_DISABLE"
    and "incomingEvents s = RtOpsEvent_t ACK_DISABLE # rest" and "em_at s = EM_loop"
    and "\<not> em_done s" and "\<not> cm_dead s" and "commandBuffer s = []"
    and "gui_command g \<in> {UserCommand_STOP, UserCommand_E_STOP}"
  shows "cm_state (em_turn env locks s) = CONTROLLER_STOPPED \<and>
    toRtOps (updateHook_cm env' es [g] locks' (em_turn env locks s)) = toRtOps s"
proof -
  define t where "t = em_turn env locks s"
  have t: "cm_state t = CONTROLLER_STOPPED" "\<not> cm_dead t" "commandBuffer t = []"
    "toRtOps t = toRtOps s"
    using assms by (simp_all add: t_def em_turn_def em_handle_def cm_setState_def put_state_def
        processCommands_empty updateGui_def Let_def)
  have "toRtOps (updateHook_cm env' es [g] locks' t) = toRtOps t"
  proof (cases locks')
    case (Cons l ls)
    then show ?thesis using t(1-3) assms(8)
      by (auto simp: updateHook_cm_def tryProcessCommand_def handleUserCommand_def eventCallbacks
          processCommands_empty consts_simp Let_def)
  qed (use t in \<open>simp add: updateHook_cm_def eventCallbacks Let_def\<close>)
  with t show ?thesis by (simp add: t_def)
qed

definition overtaken_machine :: cman where
  "overtaken_machine = cm_run loaded_machine (map (Pair plain_env)
     [CM_update [] [gui_msg UserCommand_STOP, gui_msg UserCommand_RUN] [True, True],
      CM_update [RtOpsEvent_t ACK_DISABLE] [] [], CM_event_loop []])"

lemma late_disable_ack_hides_running_witness:
  "cm_state (em_turn plain_env [] overtaken_machine) = CONTROLLER_STOPPED \<and>
   toRtOps (updateHook_cm plain_env [] [gui_msg UserCommand_E_STOP] [True]
     (em_turn plain_env [] overtaken_machine)) = toRtOps overtaken_machine"
proof (rule late_disable_ack_hides_running [where rest = "[]"])
  show "gui_command (gui_msg UserCommand_E_STOP) \<in> {UserCommand_STOP, UserCommand_E_STOP}"
    by (simp add: gui_msg_def)
qed code_simp+

subsection \<open>The event manager's semaphore\<close>

text \<open>
  C36. A wake-up is never lost: in every reachable state where the event thread is in its wait and
  an event is queued, the semaphore is raised, so its next turn leaves the wait for the loop.
\<close>

theorem no_lost_wakeup:
  assumes "cm_reach w s" and "em_at s = EM_wait" and "incomingEvents s \<noteq> []"
  shows "em_at (em_turn env locks s) = EM_loop"
proof -
  have "0 < eventsWaitingSignal s"
    using assms
  proof (induction rule: cm_reach.induct)
    case (cm_more s env label)
    then show ?case
    proof (cases label)
      case (CM_update es gs locks)
      have "0 < eventsWaitingSignal s + length es"
        using cm_more CM_update by (cases es) (auto simp: updateHook_cm_simps)
      then show ?thesis
        using updateHook_cm_simps(3) [OF \<open>\<not> cm_dead s\<close>, of es env gs locks] CM_update
        by (metis cm_next.simps(1) less_le_trans)
    next
      case (CM_event_loop locks)
      then show ?thesis using cm_more
        by (auto simp: em_turn_def split: em_pc.splits if_splits list.splits)
    qed (auto simp: getUniqueName_def resetControllerNames_def em_breakLoop_def Let_def
        intro: less_le_trans [OF _ loadController_signal])
  qed (simp add: em_initialize_def new_ControllerManager_def)
  then show ?thesis
    using assms(2) by (simp add: em_turn_def)
qed


definition waiting_machine :: cman where
  "waiting_machine = cm_run (em_initialize (new_ControllerManager 0)) (map (Pair plain_env)
     [CM_event_loop [], CM_event_loop [],
      CM_update [RtOpsEvent_t MEDULLA_ESTOP, RtOpsEvent_t ACK_E_STOP] [] []])"

lemma no_lost_wakeup_witness: "em_at (em_turn plain_env [] waiting_machine) = EM_loop"
proof (rule no_lost_wakeup)
  show "cm_reach 0 waiting_machine"
    unfolding waiting_machine_def by (intro cm_run_reach cm_init)
qed code_simp+

text \<open>
  The semaphore counts one signal for every event, but the thread takes one back only when it
  waits, and it waits only at zero: once a signal finds the thread awake, no run of the system,
  however it goes on, brings it to wait again. From then on the loop polls without blocking.
\<close>

theorem awake_thread_never_waits:
  assumes "0 < eventsWaitingSignal s" and "em_at s \<noteq> EM_wait"
  shows "em_at (cm_run s steps) \<noteq> EM_wait"
proof -
  have "0 < eventsWaitingSignal (cm_run s steps) \<and> em_at (cm_run s steps) \<noteq> EM_wait"
    unfolding cm_run_def
    by (rule run_invariant [where P = "\<lambda>s. 0 < eventsWaitingSignal s \<and> em_at s \<noteq> EM_wait"])
      (use assms in \<open>auto simp: cm_next_awake simp del: cm_next.simps split: prod.splits\<close>)
  then show ?thesis ..
qed

lemma awake_thread_never_waits_witness:
  "\<forall>steps. em_at (cm_run (em_turn plain_env [] waiting_machine) steps) \<noteq> EM_wait"
proof -
  have "0 < eventsWaitingSignal (em_turn plain_env [] waiting_machine)"
    "em_at (em_turn plain_env [] waiting_machine) \<noteq> EM_wait" by code_simp+
  then show ?thesis by (simp add: awake_thread_never_waits)
qed

subsection \<open>Unique names\<close>

primrec unique_names :: "(string \<times> string) list \<Rightarrow> cman \<Rightarrow> string list" where
  "unique_names [] s = []"
| "unique_names (c # cs) s =
     (let (name, s) = getUniqueName (fst c) (snd c) s in name # unique_names cs s)"

definition child_base :: "string \<times> string \<Rightarrow> string" where
  "child_base c = fst c @ CONTROLLER_LEVEL_DELIMITER @ snd c"

definition numbered :: "string \<Rightarrow> nat \<Rightarrow> string" where
  "numbered base n = base @ ''_'' @ dec_digits n"

definition next_number :: "cman \<Rightarrow> string \<Rightarrow> nat" where
  "next_number s base =
     (case controllerChildCounts s base of None \<Rightarrow> 0 | Some c \<Rightarrow> Suc (unat c))"

lemma split_at_first:
  assumes "c \<notin> set ys"
  shows "takeWhile (\<lambda>x. x \<noteq> c) (ys @ c # xs) = ys"
    and "dropWhile (\<lambda>x. x \<noteq> c) (ys @ c # xs) = c # xs"
  using assms by (induction ys) auto

lemma numbered_inject [simp]: "numbered a m = numbered b n \<longleftrightarrow> a = b \<and> m = n"
proof
  assume eq: "numbered a m = numbered b n"
  have *: "rev (takeWhile (\<lambda>c. c \<noteq> CHR ''_'') (rev (numbered x k))) = dec_digits k \<and>
        rev (tl (dropWhile (\<lambda>c. c \<noteq> CHR ''_'') (rev (numbered x k)))) = x" for x k
  proof -
    have nd: "\<forall>c\<in>set (rev (dec_digits k)). c \<noteq> CHR ''_''"
    proof
      fix c assume "c \<in> set (rev (dec_digits k))"
      then have "(of_char c :: nat) \<le> 57" using dec_digits_digit by simp
      then show "c \<noteq> CHR ''_''" by auto
    qed
    have "rev (numbered x k) = rev (dec_digits k) @ CHR ''_'' # rev x"
      by (simp add: numbered_def)
    moreover have "CHR ''_'' \<notin> set (rev (dec_digits k))" using nd by blast
    note split_at_first [OF this, of "rev x"]
    ultimately show ?thesis by simp
  qed
  have "dec_digits m = dec_digits n \<and> a = b"
    using * [of a m, unfolded eq] * [of b n] by (elim conjE) (intro conjI; erule (1) trans [OF sym])
  then show "a = b \<and> m = n" by simp
qed simp

lemma getUniqueName_number:
  assumes "next_number s (child_base c) < 2 ^ 16"
  shows "fst (getUniqueName (fst c) (snd c) s) = numbered (child_base c) (next_number s (child_base c))"
    and "next_number (snd (getUniqueName (fst c) (snd c) s)) base =
      (if base = child_base c then Suc (next_number s base) else next_number s base)"
proof -
  have "unat (w + 1) = Suc (unat w)" if "Suc (unat w) < 2 ^ 16" for w :: "16 word"
    using that by (simp add: unat_word_ariths)
  then show "fst (getUniqueName (fst c) (snd c) s) = numbered (child_base c) (next_number s (child_base c))"
    and "next_number (snd (getUniqueName (fst c) (snd c) s)) base =
      (if base = child_base c then Suc (next_number s base) else next_number s base)"
    using assms
    by (auto simp: getUniqueName_def next_number_def child_base_def numbered_def Let_def split: option.splits)
qed

lemma unique_names_from:
  assumes "\<forall>base. next_number s base + length cs \<le> 2 ^ 16"
  shows "distinct (unique_names cs s) \<and>
    (\<forall>name\<in>set (unique_names cs s). \<exists>base n. name = numbered base n \<and> next_number s base \<le> n)"
  using assms
proof (induction cs arbitrary: s)
  case (Cons c cs)
  define s' where "s' = snd (getUniqueName (fst c) (snd c) s)"
  have "next_number s (child_base c) + length (c # cs) \<le> 2 ^ 16" using Cons.prems ..
  then have lt: "next_number s (child_base c) < 2 ^ 16" by simp
  note g = getUniqueName_number [OF lt, folded s'_def]
  have "\<forall>base. next_number s' base + length cs \<le> 2 ^ 16"
  proof
    fix base
    have "next_number s base + length (c # cs) \<le> 2 ^ 16" using Cons.prems ..
    then show "next_number s' base + length cs \<le> 2 ^ 16" by (auto simp: g(2))
  qed
  note IH = Cons.IH [OF this]
  have names: "unique_names (c # cs) s =
      numbered (child_base c) (next_number s (child_base c)) # unique_names cs s'"
    using g(1) by (simp add: s'_def split_beta Let_def)
  have "numbered (child_base c) (next_number s (child_base c)) \<notin> set (unique_names cs s')"
  proof
    assume "numbered (child_base c) (next_number s (child_base c)) \<in> set (unique_names cs s')"
    then have "next_number s' (child_base c) \<le> next_number s (child_base c)" using IH by auto
    then show False by (simp add: g(2))
  qed
  moreover have "next_number s base \<le> n" if "next_number s' base \<le> n" for base n
    using that by (simp add: g(2) split: if_splits)
  ultimately show ?case using IH unfolding names by (simp, blast)
qed simp

text \<open>
  Names for sub-controllers are unique: from cleared counters, the names that getUniqueName
  hands out are pairwise different for up to 65536 calls, whatever parents and types are asked
  for, the same ones included. One more call for the same base would wrap the 16-bit counter.
\<close>

theorem unique_names_distinct:
  assumes "length cs \<le> 2 ^ 16"
  shows "distinct (unique_names cs (resetControllerNames s))"
proof -
  have "next_number (resetControllerNames s) base = 0" for base
    by (simp add: next_number_def resetControllerNames_def)
  with assms show ?thesis using unique_names_from [of "resetControllerNames s" cs] by simp
qed

lemma unique_names_distinct_witness:
  "unique_names [(''top'', ''pd''), (''top'', ''pd''), (''a'', ''b'')]
     (resetControllerNames (new_ControllerManager 0)) = [''top__pd_0'', ''top__pd_1'', ''a__b_0''] \<and>
   distinct (unique_names [(''top'', ''pd''), (''top'', ''pd''), (''a'', ''b'')]
     (resetControllerNames (new_ControllerManager 0)))"
proof
  show "distinct (unique_names [(''top'', ''pd''), (''top'', ''pd''), (''a'', ''b'')]
     (resetControllerNames (new_ControllerManager 0)))"
    by (rule unique_names_distinct) simp
qed code_simp

end
