(* ===== verification/ControlLib.thy ===== *)
theory ControlLib
  imports OpsLogger
begin

text \<open>
  The base classes of every controller (atrias_control_lib): AtriasController's clamp, and ATC,
  the top-level controller, with its default startup controller that ramps the outputs up. The
  controllers themselves override one method; here they are a function on the state of the
  class, and the theorems say what they need of it.
\<close>

subsection \<open>AtriasController\<close>

definition ac_clamp :: "dbl \<Rightarrow> dbl \<Rightarrow> dbl \<Rightarrow> dbl" where
  "ac_clamp num a b =
     (let mn = std_min a b; mx = std_max a b
      in if num < mn then mn else if mx < num then mx else num)"

interpretation controller_clamp: clamping "\<lambda>x lo hi. ac_clamp x (Fin lo) (Fin hi)"
  by unfold_locales (auto simp: ac_clamp_def std_min_def std_max_def Let_def)

text \<open>The interval's ends may come in either order.\<close>

lemma ac_clamp_commute: "ac_clamp x (Fin a) (Fin b) = ac_clamp x (Fin b) (Fin a)"
  by (auto simp: ac_clamp_def std_min_def std_max_def Let_def)

text \<open>A symmetric interval bounds every value but NaN.\<close>

lemma ac_clamp_symmetric:
  "ac_clamp x (- Fin m) (Fin m) = NaN \<or> (\<exists>r. ac_clamp x (- Fin m) (Fin m) = Fin r \<and> \<bar>r\<bar> \<le> \<bar>m\<bar>)"
  by (cases x) (auto simp: ac_clamp_def std_min_def std_max_def Let_def abs_if not_le)

lemma ac_clamp_Fin: "ac_clamp (Fin r) (Fin a) (Fin b) = Fin (max (min a b) (min (max a b) r))"
  by (auto simp: ac_clamp_def std_min_def std_max_def Let_def)

text \<open>A sub-controller's name is its parent's with its own added.\<close>

definition controller_name :: "string \<Rightarrow> string \<Rightarrow> string" where
  "controller_name parent nm = parent @ ''_'' @ nm"

subsection \<open>ATC\<close>

datatype atc_mode = RUN | STARTUP

record atc =
  atc_rs :: robot_state
  atc_co :: controller_output
  atc_header :: std_header
  atc_mode :: atc_mode
  startupEnabled :: bool
  startupTimeRem :: dbl
  publishTimer :: GuiPublishTimer
  atc_guiSent :: "std_header list"
  atc_logSent :: "std_header list"
  atc_events :: "(RtOpsEvent \<times> RtOpsEventMetadata_t) list"

text \<open>The constructor leaves the remaining startup time uninitialised.\<close>

definition new_ATC :: "dbl \<Rightarrow> atc" where
  "new_ATC garbage =
     \<lparr>atc_rs = robot_state_zero, atc_co = controller_output_zero, atc_header = std_header_zero,
      atc_mode = RUN, startupEnabled = False, startupTimeRem = garbage,
      publishTimer = new_GuiPublishTimer 50, atc_guiSent = [], atc_logSent = [], atc_events = []\<rparr>"

definition commandEStop :: "'c atc_scheme \<Rightarrow> 'c atc_scheme" where
  "commandEStop s = s\<lparr>atc_co := (atc_co s)\<lparr>co_command := medulla_state_error\<rparr>\<rparr>"

definition commandHalt :: "'c atc_scheme \<Rightarrow> 'c atc_scheme" where
  "commandHalt s =
     (if co_command (atc_co s) = medulla_state_error then s
      else s\<lparr>atc_co := (atc_co s)\<lparr>co_command := medulla_state_halt\<rparr>\<rparr>)"

definition isEnabled :: "'c atc_scheme \<Rightarrow> bool" where
  "isEnabled s \<longleftrightarrow> RtOpsState_of (rtOpsState (atc_rs s)) = ENABLED"

definition isStarting :: "'c atc_scheme \<Rightarrow> bool" where
  "isStarting s \<longleftrightarrow> atc_mode s = STARTUP"

definition setStartupEnabled :: "bool \<Rightarrow> 'c atc_scheme \<Rightarrow> bool \<times> 'c atc_scheme" where
  "setStartupEnabled enable s = (enable, s\<lparr>startupEnabled := enable\<rparr>)"

definition atc_sendEvent :: "RtOpsEventMetadata_t \<Rightarrow> 'c atc_scheme \<Rightarrow> 'c atc_scheme" where
  "atc_sendEvent md s = s\<lparr>atc_events := atc_events s @ [(CONTROLLER_CUSTOM, md)]\<rparr>"

definition map_currents :: "(dbl \<Rightarrow> dbl) \<Rightarrow> (dbl \<Rightarrow> dbl) \<Rightarrow> controller_output_leg \<Rightarrow> controller_output_leg" where
  "map_currents f g l = l\<lparr>motorCurrentA := f (motorCurrentA l), motorCurrentB := f (motorCurrentB l),
     motorCurrentHip := g (motorCurrentHip l)\<rparr>"

text \<open>The startup controller: clamp, scale, count down.\<close>

definition startup_period :: real where
  [consts_simp]: "startup_period = of_int CONTROLLER_LOOP_PERIOD_NS / of_int SECOND_IN_NANOSECONDS"

definition startupController :: "robot_variant \<Rightarrow> 'c atc_scheme \<Rightarrow> 'c atc_scheme" where
  "startupController v s =
     (let cl = map_currents (\<lambda>x. ac_clamp x (Fin (MIN_MTR_CURRENT_CMD v)) (Fin (MAX_MTR_CURRENT_CMD v)))
                 (\<lambda>x. ac_clamp x (Fin (MIN_HIP_MTR_CURRENT_CMD v)) (Fin (MAX_HIP_MTR_CURRENT_CMD v)));
          co = atc_co s;
          co = co\<lparr>co_lLeg := cl (co_lLeg co), co_rLeg := cl (co_rLeg co)\<rparr>;
          scale = (Fin STARTUP_TIME - startupTimeRem s) / Fin STARTUP_TIME;
          sc = map_currents (\<lambda>x. x * scale) (\<lambda>x. x * scale);
          co = co\<lparr>co_lLeg := sc (co_lLeg co), co_rLeg := sc (co_rLeg co)\<rparr>;
          s = s\<lparr>atc_co := co, startupTimeRem := startupTimeRem s - Fin startup_period\<rparr>
      in if startupTimeRem s \<le> 0 then s\<lparr>atc_mode := RUN\<rparr> else s)"

text \<open>
  One call by RT Ops, in the part before the controller and the part after it.
  \<open>has_gui\<close> and \<open>has_log\<close> say whether the controller has those message types, \<open>now\<close> is the
  clock the publish timer reads.
\<close>

definition atc_enter :: "robot_state \<Rightarrow> 'c atc_scheme \<Rightarrow> 'c atc_scheme" where
  "atc_enter state s =
     (let s = (if startupEnabled s \<and> rtOpsState (atc_rs s) \<noteq> rtOpsState state \<and>
                  RtOpsState_of (rtOpsState state) = ENABLED
               then s\<lparr>atc_mode := STARTUP, startupTimeRem := Fin STARTUP_TIME\<rparr> else s);
          s = s\<lparr>atc_rs := state\<rparr>;
          s = s\<lparr>atc_header := header (atc_rs s)\<rparr>;
          s = s\<lparr>atc_co := (atc_co s)\<lparr>co_command := medulla_state_run\<rparr>\<rparr>
      in s\<lparr>atc_co := (atc_co s)\<lparr>co_lLeg := map_currents (\<lambda>_. 0) (\<lambda>_. 0) (co_lLeg (atc_co s)),
                                  co_rLeg := map_currents (\<lambda>_. 0) (\<lambda>_. 0) (co_rLeg (atc_co s))\<rparr>\<rparr>)"

definition atc_publish :: "bool \<Rightarrow> bool \<Rightarrow> nsecs \<Rightarrow> 'c atc_scheme \<Rightarrow> 'c atc_scheme" where
  "atc_publish has_gui has_log now s =
     (let s = (if has_gui then
                 (let (ready, timer) = readyToSend now (publishTimer s);
                      s = s\<lparr>publishTimer := timer\<rparr>
                  in if ready then s\<lparr>atc_guiSent := atc_guiSent s @ [atc_header s]\<rparr> else s)
               else s)
      in if has_log then s\<lparr>atc_logSent := atc_logSent s @ [atc_header s]\<rparr> else s)"

definition runController ::
  "robot_variant \<Rightarrow> bool \<Rightarrow> bool \<Rightarrow> ('c atc_scheme \<Rightarrow> 'c atc_scheme) \<Rightarrow> nsecs \<Rightarrow> robot_state
     \<Rightarrow> 'c atc_scheme \<Rightarrow> controller_output \<times> 'c atc_scheme" where
  "runController v has_gui has_log controller now state s =
     (let s = atc_publish has_gui has_log now (controller (atc_enter state s));
          s = (if atc_mode s = STARTUP then startupController v s else s)
      in (atc_co s, s))"

lemma atc_publish_simps [simp]:
  "atc_co (atc_publish g l now s) = atc_co s"
  "atc_rs (atc_publish g l now s) = atc_rs s"
  "atc_mode (atc_publish g l now s) = atc_mode s"
  "startupTimeRem (atc_publish g l now s) = startupTimeRem s"
  "startupEnabled (atc_publish g l now s) = startupEnabled s"
  by (simp_all add: atc_publish_def Let_def split_beta)

text \<open>Whether a call enters the startup.\<close>

definition startup_entered :: "robot_state \<Rightarrow> 'c atc_scheme \<Rightarrow> bool" where
  "startup_entered state s \<longleftrightarrow> startupEnabled s \<and> rtOpsState (atc_rs s) \<noteq> rtOpsState state \<and>
     RtOpsState_of (rtOpsState state) = ENABLED"

lemma atc_enter_simps [simp]:
  "atc_rs (atc_enter state s) = state"
  "atc_mode (atc_enter state s) = (if startup_entered state s then STARTUP else atc_mode s)"
  "startupTimeRem (atc_enter state s) = (if startup_entered state s then Fin STARTUP_TIME else startupTimeRem s)"
  "startupEnabled (atc_enter state s) = startupEnabled s"
  by (simp_all add: atc_enter_def Let_def startup_entered_def)

subsection \<open>Properties\<close>

text \<open>
  What the theorems need of a controller: it leaves alone the private members of ATC that steer
  the startup, and the robot state it was given.
\<close>

definition leaves_startup :: "('c atc_scheme \<Rightarrow> 'c atc_scheme) \<Rightarrow> bool" where
  "leaves_startup controller \<longleftrightarrow>
     (\<forall>s. atc_mode (controller s) = atc_mode s \<and> startupTimeRem (controller s) = startupTimeRem s \<and>
          atc_rs (controller s) = atc_rs s)"

text \<open>
  A current that was asked for and the one that is commanded: it is a number within \<open>m\<close>, and NaN only where NaN was
  asked for, which \<open>shouldEStop\<close> of RT Ops then answers with the emergency stop.
\<close>

definition ramped :: "real \<Rightarrow> dbl \<Rightarrow> dbl \<Rightarrow> bool" where
  "ramped m asked x \<longleftrightarrow> (if asked = NaN then x = NaN else \<exists>a. x = Fin a \<and> \<bar>a\<bar> \<le> m)"

definition leg_ramped :: "real \<Rightarrow> real \<Rightarrow> controller_output_leg \<Rightarrow> controller_output_leg \<Rightarrow> bool" where
  "leg_ramped m h asked l \<longleftrightarrow> ramped m (motorCurrentA asked) (motorCurrentA l) \<and>
     ramped m (motorCurrentB asked) (motorCurrentB l) \<and> ramped h (motorCurrentHip asked) (motorCurrentHip l)"

lemma scaled_clamp:
  assumes "0 \<le> m" and "0 \<le> k"
  shows "ramped (k * m) x (ac_clamp x (Fin (- m)) (Fin m) * Fin k)"
proof (cases x)
  case (Fin r)
  have "\<bar>max (- m) (min m r)\<bar> \<le> m" using assms(1) by (auto simp: abs_if max_def min_def)
  then have "\<bar>max (- m) (min m r) * k\<bar> \<le> m * k"
    using assms(2) by (simp add: abs_mult mult_right_mono)
  moreover have "ac_clamp (Fin r) (Fin (- m)) (Fin m) = Fin (max (- m) (min m r))"
    using assms(1) by (simp add: ac_clamp_Fin min_def max_def)
  ultimately show ?thesis using Fin by (simp add: ramped_def mult.commute)
qed (use assms in \<open>auto simp: ramped_def ac_clamp_def std_min_def std_max_def Let_def abs_mult\<close>)

lemma startup_edge_simps:
  "atc_mode (startupController v s) =
     (if startupTimeRem s - Fin startup_period \<le> 0 then RUN else atc_mode s)"
  "startupTimeRem (startupController v s) = startupTimeRem s - Fin startup_period"
  "atc_rs (startupController v s) = atc_rs s"
  by (simp_all add: startupController_def Let_def)

lemma runController_startup:
  fixes s :: "'c atc_scheme" and state :: robot_state
  assumes "leaves_startup controller"
  defines "t \<equiv> atc_enter state s"
  shows "atc_rs (snd (runController v g l controller now state s)) = state"
    and "startupTimeRem (snd (runController v g l controller now state s)) =
      (if atc_mode t = STARTUP then startupTimeRem t - Fin startup_period else startupTimeRem t)"
    and "atc_mode (snd (runController v g l controller now state s)) =
      (if atc_mode t = STARTUP \<and> \<not> startupTimeRem t - Fin startup_period \<le> 0 then STARTUP else RUN)"
proof -
  have c: "atc_mode (controller t) = atc_mode t" "startupTimeRem (controller t) = startupTimeRem t"
    "atc_rs (controller t) = state"
    using assms(1) by (simp_all add: leaves_startup_def t_def)
  have e: "runController v g l controller now state s =
      (let s = atc_publish g l now (controller t);
           s = (if atc_mode s = STARTUP then startupController v s else s) in (atc_co s, s))"
    by (simp add: runController_def t_def)
  show "atc_rs (snd (runController v g l controller now state s)) = state"
    and "startupTimeRem (snd (runController v g l controller now state s)) =
      (if atc_mode t = STARTUP then startupTimeRem t - Fin startup_period else startupTimeRem t)"
    unfolding e by (simp_all add: Let_def c startup_edge_simps)
  show "atc_mode (snd (runController v g l controller now state s)) =
      (if atc_mode t = STARTUP \<and> \<not> startupTimeRem t - Fin startup_period \<le> 0 then STARTUP else RUN)"
    unfolding e by (cases "atc_mode t") (simp_all add: Let_def c startup_edge_simps)
qed

lemma startup_leg:
  assumes "variant_ok v" and "0 \<le> k"
  shows "leg_ramped (k * MAX_MTR_CURRENT_CMD v) (k * MAX_HIP_MTR_CURRENT_CMD v) l
    (map_currents (\<lambda>x. x * Fin k) (\<lambda>x. x * Fin k)
      (map_currents (\<lambda>x. ac_clamp x (Fin (MIN_MTR_CURRENT_CMD v)) (Fin (MAX_MTR_CURRENT_CMD v)))
        (\<lambda>x. ac_clamp x (Fin (MIN_HIP_MTR_CURRENT_CMD v)) (Fin (MAX_HIP_MTR_CURRENT_CMD v))) l))"
proof -
  have v: "MIN_MTR_CURRENT_CMD v = - MAX_MTR_CURRENT_CMD v" "0 \<le> MAX_MTR_CURRENT_CMD v"
    "MIN_HIP_MTR_CURRENT_CMD v = - MAX_HIP_MTR_CURRENT_CMD v" "0 \<le> MAX_HIP_MTR_CURRENT_CMD v"
    using assms(1) by (simp_all add: variant_ok_def)
  show ?thesis
    using scaled_clamp [OF v(2) assms(2)] scaled_clamp [OF v(4) assms(2)]
    by (simp add: leg_ramped_def map_currents_def v(1,3))
qed

lemma STARTUP_TIME_neq: "STARTUP_TIME \<noteq> 0"
  by (simp add: consts_simp)

text \<open>
  C38. The startup ramp, for every controller that leaves the private members of its base class alone and whatever it
  asks for: on the call that enters the startup, and on every call in it, with the time \<open>r\<close> remaining no current
  exceeds the fraction (4 s - r) / 4 s of the robot's limit; an infinite current is cut to it as well, and only where the
  controller asks for NaN is NaN handed on. The first call in the startup therefore commands no current at all.
\<close>

theorem startup_ramp:
  fixes s :: "'c atc_scheme" and controller :: "'c atc_scheme \<Rightarrow> 'c atc_scheme"
  assumes "leaves_startup controller" and "variant_ok v"
    and "startup_entered state s \<or> atc_mode s = STARTUP"
    and "(if startup_entered state s then Fin STARTUP_TIME else startupTimeRem s) = Fin r"
    and "r \<le> STARTUP_TIME"
    and "k = (STARTUP_TIME - r) / STARTUP_TIME"
    and "asked = atc_co (controller (atc_enter state s))"
    and "co = fst (runController v g l controller now state s)"
  shows "leg_ramped (k * MAX_MTR_CURRENT_CMD v) (k * MAX_HIP_MTR_CURRENT_CMD v) (co_lLeg asked) (co_lLeg co) \<and>
    leg_ramped (k * MAX_MTR_CURRENT_CMD v) (k * MAX_HIP_MTR_CURRENT_CMD v) (co_rLeg asked) (co_rLeg co)"
proof -
  define t where "t = controller (atc_enter state s)"
  have t: "atc_mode t = STARTUP" "startupTimeRem t = Fin r"
    using assms(1,3,4) by (auto simp: leaves_startup_def t_def)
  have k: "0 \<le> k" "(Fin STARTUP_TIME - Fin r) / Fin STARTUP_TIME = Fin k"
    using assms(5,6) by (simp_all add: consts_simp)
  have "co = atc_co (startupController v (atc_publish g l now t))"
    using t(1) by (simp add: assms(8) runController_def Let_def t_def)
  then show ?thesis
    using startup_leg [OF assms(2) k(1)]
    by (simp add: startupController_def Let_def t(2) k(2) assms(6) [symmetric] STARTUP_TIME_neq assms(7) t_def [symmetric])
qed

text \<open>Runs of calls: clock and robot state of each.\<close>

definition atc_run ::
  "robot_variant \<Rightarrow> bool \<Rightarrow> bool \<Rightarrow> ('c atc_scheme \<Rightarrow> 'c atc_scheme) \<Rightarrow> 'c atc_scheme
     \<Rightarrow> (nsecs \<times> robot_state) list \<Rightarrow> 'c atc_scheme" where
  "atc_run v g l controller s calls =
     run (\<lambda>s (now, state). snd (runController v g l controller now state s)) s calls"

lemma atc_run_Cons:
  "atc_run v g l controller s ((now, state) # calls) =
   atc_run v g l controller (snd (runController v g l controller now state s)) calls"
  by (simp add: atc_run_def)

definition same_rt_state :: "'c atc_scheme \<Rightarrow> (nsecs \<times> robot_state) list \<Rightarrow> bool" where
  "same_rt_state s calls \<longleftrightarrow> list_all (\<lambda>c. rtOpsState (snd c) = rtOpsState (atc_rs s)) calls"

lemma atc_run_running:
  assumes "leaves_startup controller"
  shows "same_rt_state s calls \<Longrightarrow> atc_mode s = RUN \<Longrightarrow> \<not> isStarting (atc_run v g l controller s calls)"
proof (induction calls arbitrary: s)
  case (Cons call calls)
  obtain now state where call: "call = (now, state)" by (cases call)
  have ne: "\<not> startup_entered state s"
    using Cons.prems(1) by (simp add: startup_entered_def same_rt_state_def call)
  show ?case
    unfolding call atc_run_Cons
    using runController_startup [OF assms, of v g l now state s] ne Cons.prems
    by (intro Cons.IH) (simp_all add: same_rt_state_def call)
qed (simp add: atc_run_def isStarting_def)

lemma atc_run_startup:
  assumes "leaves_startup controller"
  shows "\<lbrakk>same_rt_state s calls; atc_mode s = STARTUP; startupTimeRem s = Fin r; 0 < r\<rbrakk> \<Longrightarrow>
    isStarting (atc_run v g l controller s calls) \<longleftrightarrow> length calls * startup_period < r"
proof (induction calls arbitrary: s r)
  case (Cons call calls)
  obtain now state where call: "call = (now, state)" by (cases call)
  define s' where "s' = snd (runController v g l controller now state s)"
  note r = runController_startup [OF assms, of v g l now state s, folded s'_def]
  have ne: "\<not> startup_entered state s"
    using Cons.prems(1) by (simp add: startup_entered_def same_rt_state_def call)
  have s': "atc_rs s' = state" "startupTimeRem s' = Fin (r - startup_period)"
    "atc_mode s' = (if r - startup_period \<le> 0 then RUN else STARTUP)"
    using r ne Cons.prems(2,3) by simp_all
  have same: "same_rt_state s' calls"
    using Cons.prems(1) by (simp add: same_rt_state_def call s'(1))
  have run: "atc_run v g l controller s (call # calls) = atc_run v g l controller s' calls"
    by (simp add: atc_run_Cons call s'_def)
  have len: "real (length (call # calls)) * startup_period =
      startup_period + real (length calls) * startup_period"
    by (simp add: algebra_simps)
  show ?case
  proof (cases "r - startup_period \<le> 0")
    case False
    then have "isStarting (atc_run v g l controller s' calls) \<longleftrightarrow>
        length calls * startup_period < r - startup_period"
      using s' by (intro Cons.IH [OF same]) simp_all
    then show ?thesis unfolding run len by auto
  next
    case True
    then have "\<not> isStarting (atc_run v g l controller s' calls)"
      using s'(3) by (intro atc_run_running [OF assms same]) simp
    moreover have "0 \<le> real (length calls) * startup_period" by (simp add: consts_simp)
    ultimately show ?thesis unfolding run len using True by linarith
  qed
qed (simp add: atc_run_def isStarting_def)

text \<open>
  The startup ends: entered by a change to ENABLED, and with the state then staying ENABLED,
  it lasts exactly the 4000 calls of the 4 seconds. It cannot be ended by a controller, and the
  real numbers stand for the doubles that the count-down uses.
\<close>

theorem startup_lasts_4000_calls:
  fixes s :: "'c atc_scheme" and controller :: "'c atc_scheme \<Rightarrow> 'c atc_scheme"
  assumes "leaves_startup controller" and "startup_entered state s"
    and "\<forall>call \<in> set calls. rtOpsState (snd call) = rtOpsState state"
  shows "isStarting (atc_run v g l controller s ((now, state) # calls)) \<longleftrightarrow> Suc (length calls) < 4000"
proof -
  define s' where "s' = snd (runController v g l controller now state s)"
  have s': "atc_rs s' = state" "startupTimeRem s' = Fin (STARTUP_TIME - startup_period)"
    "atc_mode s' = STARTUP"
    using runController_startup [OF assms(1), of v g l now state s, folded s'_def] assms(2)
    by (simp_all add: consts_simp)
  have "same_rt_state s' calls" using assms(3) by (simp add: same_rt_state_def s'(1) list_all_iff)
  then have "isStarting (atc_run v g l controller s' calls) \<longleftrightarrow>
      length calls * startup_period < STARTUP_TIME - startup_period"
    using atc_run_startup [OF assms(1) _ s'(3,2)] by (simp add: consts_simp)
  also have "\<dots> \<longleftrightarrow> Suc (length calls) < 4000" by (simp add: consts_simp)
  finally show ?thesis by (simp add: atc_run_Cons s'_def)
qed

definition enabled_state :: robot_state where
  "enabled_state = robot_state_zero\<lparr>rtOpsState := 2\<rparr>"

definition startup_machine :: atc where
  "startup_machine = (new_ATC NaN)\<lparr>startupEnabled := True\<rparr>"

lemma startup_lasts_4000_calls_witness:
  "isStarting (atc_run biped1 True True (\<lambda>s. s) startup_machine
     ((0, enabled_state) # replicate 3998 (0, enabled_state))) \<and>
   \<not> isStarting (atc_run biped1 True True (\<lambda>s. s) startup_machine
     ((0, enabled_state) # replicate 3999 (0, enabled_state)))"
proof -
  have e: "startup_entered enabled_state startup_machine"
    by (simp add: startup_entered_def startup_machine_def enabled_state_def new_ATC_def robot_state_zero_def)
  have l: "leaves_startup (\<lambda>s :: atc. s)" by (simp add: leaves_startup_def)
  have "isStarting (atc_run biped1 True True (\<lambda>s. s) startup_machine
      ((0, enabled_state) # replicate n (0, enabled_state))) \<longleftrightarrow> Suc n < 4000" for n
    using startup_lasts_4000_calls [OF l e, of "replicate n (0, enabled_state)" biped1 True True 0]
    by (simp only: length_replicate) simp
  then show ?thesis by (simp only:) simp
qed

text \<open>A machine with three of the four seconds of its startup left.\<close>

definition ramping_machine :: atc where
  "ramping_machine = (new_ATC (Fin 3))\<lparr>atc_mode := STARTUP\<rparr>"

end
