(* ===== verification/Subcontrollers.thy ===== *)
theory Subcontrollers
  imports ControlLib
begin

text \<open>
  The sub-controllers of atrias_controllers that hold the control arithmetic: PD (ASCPD), rate
  limiter (ASCRateLimit), toe decoder (ASCToeDecode), hip force (ASCHipForce), interpolation
  (ASCInterpolation), leg coordinates (ASCCommonToolkit) and leg forces (ASCLegForce). What they
  log is what they return; the log is a state where a controller reads it back. Fields of the
  log messages that are float32 are exact here.
\<close>

subsection \<open>Parameters (atrias_parameters.h)\<close>

definition L1 :: real where [consts_simp]: "L1 = 0.5"
definition L2 :: real where [consts_simp]: "L2 = 0.5"
definition KS :: real where [consts_simp]: "KS = 1600"
definition KT :: real where [consts_simp]: "KT = 0.121"
definition KG :: real where [consts_simp]: "KG = 50"
definition PI :: real where [consts_simp]: "PI = 3.14159265"

subsection \<open>PD\<close>

record ASCPD =
  pd_P :: dbl
  pd_D :: dbl

definition new_ASCPD :: ASCPD where
  "new_ASCPD = \<lparr>pd_P = 0, pd_D = 0\<rparr>"

definition pd_call :: "ASCPD \<Rightarrow> dbl \<Rightarrow> dbl \<Rightarrow> dbl \<Rightarrow> dbl \<Rightarrow> dbl" where
  "pd_call pd desPos curPos desVel curVel = pd_P pd * (desPos - curPos) + pd_D pd * (desVel - curVel)"

lemma pd_call_settled:
  assumes "isfinite (pd_P pd)" and "isfinite (pd_D pd)" and "isfinite x" and "isfinite u"
  shows "pd_call pd x x u u = 0"
  using assms by (auto simp: pd_call_def isfinite_iff)

subsection \<open>Rate limiter\<close>

text \<open>The state is the last output, kept in the log data.\<close>

definition rate_limit_dt :: real where
  [consts_simp]: "rate_limit_dt = of_int CONTROLLER_LOOP_PERIOD_NS / of_int SECOND_IN_NANOSECONDS"

definition rate_limit2 :: "dbl \<Rightarrow> dbl \<Rightarrow> dbl \<Rightarrow> dbl \<Rightarrow> dbl" where
  "rate_limit2 tgt posRate negRate out =
     ac_clamp tgt (out + Fin rate_limit_dt * negRate) (out + Fin rate_limit_dt * posRate)"

definition rate_limit :: "dbl \<Rightarrow> dbl \<Rightarrow> dbl \<Rightarrow> dbl" where
  "rate_limit tgt rate out = rate_limit2 tgt rate (- rate) out"

definition rate_limit_reset :: "dbl \<Rightarrow> dbl \<Rightarrow> dbl" where
  "rate_limit_reset new_value out = new_value"

lemma rate_limit_Fin:
  assumes "0 \<le> rate"
  shows "rate_limit (Fin tgt) (Fin rate) (Fin out) =
    Fin (max (out - 0.001 * rate) (min (out + 0.001 * rate) tgt))"
  using assms by (simp add: rate_limit_def rate_limit2_def ac_clamp_Fin consts_simp min_def max_def)

text \<open>Repeated calls with one target.\<close>

lemma clamp_steps:
  fixes out tgt m d :: real
  assumes "0 \<le> d" and "0 \<le> m"
  shows "max (max (out - m) (min (out + m) tgt) - d) (min (max (out - m) (min (out + m) tgt) + d) tgt) =
    max (out - (m + d)) (min (out + (m + d)) tgt)"
  using assms by (auto simp: max_def min_def)

lemma rate_limit_steps:
  assumes "0 \<le> rate"
  shows "((rate_limit (Fin tgt) (Fin rate)) ^^ n) (Fin out) =
    Fin (max (out - real n * (0.001 * rate)) (min (out + real n * (0.001 * rate)) tgt))"
proof (induction n)
  case (Suc n)
  have d: "0 \<le> 0.001 * rate" "0 \<le> real n * (0.001 * rate)" using assms by simp_all
  have "real (Suc n) * (0.001 * rate) = real n * (0.001 * rate) + 0.001 * rate"
    by (simp add: algebra_simps)
  then show ?case
    using clamp_steps [OF d, of out tgt] by (simp only: funpow.simps o_apply Suc.IH rate_limit_Fin [OF assms])
qed simp

text \<open>
  The rate limiter: repeated calls with a fixed target and a rate that is not negative bring
  the output monotonically to the target: after n calls it is the target if that is within n
  steps of 1 ms at the rate, and else has moved n such steps towards it.
\<close>

theorem rate_limit_reaches:
  assumes "0 \<le> rate"
  shows "((rate_limit (Fin tgt) (Fin rate)) ^^ n) (Fin out) =
    (if \<bar>tgt - out\<bar> \<le> real n * (0.001 * rate) then Fin tgt
     else if out < tgt then Fin (out + real n * (0.001 * rate))
     else Fin (out - real n * (0.001 * rate)))"
proof -
  have "0 \<le> real n * (0.001 * rate)" using assms by simp
  then show ?thesis unfolding rate_limit_steps [OF assms]
    by (auto simp: max_def min_def abs_if)
qed

lemma rate_limit_reaches_witness:
  "((rate_limit (Fin 1) (Fin 1)) ^^ 1000) (Fin 0) = Fin 1 \<and>
   ((rate_limit (Fin 1) (Fin 1)) ^^ 10) (Fin 0) = Fin 0.01"
proof
  show "((rate_limit (Fin 1) (Fin 1)) ^^ 1000) (Fin 0) = Fin 1"
    by (subst rate_limit_reaches) simp_all
  show "((rate_limit (Fin 1) (Fin 1)) ^^ 10) (Fin 0) = Fin 0.01"
    by (subst rate_limit_reaches) simp_all
qed

subsection \<open>Toe decoder\<close>

record ASCToeDecode =
  filtered_val :: dbl
  filter_gain :: dbl
  toe_threshold :: dbl
  toe_onGround :: bool

definition new_ASCToeDecode :: ASCToeDecode where
  "new_ASCToeDecode = \<lparr>filtered_val = 0, filter_gain = Fin 0.05, toe_threshold = Fin 500, toe_onGround = False\<rparr>"

definition toe_decode :: "uint16 \<Rightarrow> ASCToeDecode \<Rightarrow> bool \<times> ASCToeDecode" where
  "toe_decode force t =
     (let f = of_int_dbl (uint force);
          t = (if toe_onGround t \<and> filtered_val t + toe_threshold t < f
               then t\<lparr>toe_onGround := False\<rparr>
               else if \<not> toe_onGround t \<and> f < filtered_val t - toe_threshold t
               then t\<lparr>toe_onGround := True\<rparr> else t);
          t = t\<lparr>filtered_val := filtered_val t + filter_gain t * (f - filtered_val t)\<rparr>
      in (toe_onGround t, t))"

text \<open>The filter is a running mean: with a gain in [0, 1] it stays within the range of its inputs.\<close>

lemma toe_filter_range:
  assumes "filtered_val t = Fin x" and "filter_gain t = Fin k" and "0 \<le> k" and "k \<le> 1"
    and "0 \<le> x" and "x \<le> 65535"
  shows "\<exists>y. filtered_val (snd (toe_decode force t)) = Fin y \<and> 0 \<le> y \<and> y \<le> 65535 \<and>
    filter_gain (snd (toe_decode force t)) = Fin k"
proof -
  define f where "f = real_of_int (uint force)"
  have f: "0 \<le> f" "f \<le> 65535"
  proof -
    have "0 \<le> uint force" "uint force \<le> 65535" using uint_lt2p [of force] by simp_all
    then show "0 \<le> f" "f \<le> 65535" unfolding f_def by linarith+
  qed
  have "x + k * (f - x) = (1 - k) * x + k * f" by (simp add: algebra_simps)
  moreover have "0 \<le> (1 - k) * x" "(1 - k) * x \<le> (1 - k) * 65535" "0 \<le> k * f" "k * f \<le> k * 65535"
    using assms(3-6) f mult_left_mono [of x 65535 "1 - k"] mult_left_mono [of f 65535 k] by simp_all
  ultimately have "0 \<le> x + k * (f - x)" "x + k * (f - x) \<le> 65535"
    by (linarith, simp add: algebra_simps)
  moreover have "filtered_val (snd (toe_decode force t)) = Fin (x + k * (f - x))"
    using assms(1,2) by (simp add: toe_decode_def Let_def of_int_dbl_def f_def)
  moreover have "filter_gain (snd (toe_decode force t)) = Fin k"
    using assms(2) by (simp add: toe_decode_def Let_def)
  ultimately show ?thesis by blast
qed

subsection \<open>Hip force\<close>

record ASCHipForce =
  flightPD :: ASCPD
  stancePD :: ASCPD
  toeDecode :: ASCToeDecode
  flightP :: dbl
  flightD :: dbl
  stanceP :: dbl
  stanceD :: dbl
  toeFilterGain :: dbl
  toeThreshold :: dbl

definition new_ASCHipForce :: ASCHipForce where
  "new_ASCHipForce = \<lparr>flightPD = new_ASCPD, stancePD = new_ASCPD, toeDecode = new_ASCToeDecode,
     flightP = Fin 150, flightD = Fin 10, stanceP = 0, stanceD = Fin 10,
     toeFilterGain = filter_gain new_ASCToeDecode, toeThreshold = toe_threshold new_ASCToeDecode\<rparr>"

text \<open>The condition of the stance branch has \<open>&& false\<close> after the call of the toe decoder.\<close>

definition hip_force :: "robot_state_leg \<Rightarrow> ASCHipForce \<Rightarrow> dbl \<times> ASCHipForce" where
  "hip_force leg c =
     (let c = c\<lparr>toeDecode := (toeDecode c)\<lparr>filter_gain := toeFilterGain c, toe_threshold := toeThreshold c\<rparr>\<rparr>;
          (ground, td) = toe_decode (toeSwitch leg) (toeDecode c);
          c = c\<lparr>toeDecode := td\<rparr>
      in if ground \<and> False then
           (let c = c\<lparr>stancePD := \<lparr>pd_P = stanceP c, pd_D = stanceD c\<rparr>\<rparr>
            in (pd_call (stancePD c) (Fin (1.5 * pi)) (legBodyAngle (hip leg)) 0 (legBodyVelocity (hip leg)), c))
         else
           (let c = c\<lparr>flightPD := \<lparr>pd_P = flightP c, pd_D = flightD c\<rparr>\<rparr>
            in (pd_call (flightPD c) 0 (of_int_dbl (sint (kneeForce leg))) 0 (legBodyVelocity (hip leg)), c)))"

definition hip_onGround :: "ASCHipForce \<Rightarrow> bool" where
  "hip_onGround c \<longleftrightarrow> toe_onGround (toeDecode c)"

end
