(* ===== verification/LegKinematics.thy ===== *)
theory LegKinematics
  imports Subcontrollers
begin

text \<open>
  The sub-controllers that compute with leg coordinates and forces: ASCInterpolation,
  ASCCommonToolkit and ASCLegForce. The definitions are on doubles, operation by operation; the
  theorems are about finite values, where the arithmetic is that of the reals.
\<close>

subsection \<open>Interpolation\<close>

definition dbl_sq :: "dbl \<Rightarrow> dbl" where
  "dbl_sq x = x * x"

definition dbl_cube :: "dbl \<Rightarrow> dbl" where
  "dbl_cube x = x * x * x"

definition ip_linear :: "dbl \<Rightarrow> dbl \<Rightarrow> dbl \<Rightarrow> dbl \<Rightarrow> dbl \<Rightarrow> dbl \<Rightarrow> dbl \<times> dbl" where
  "ip_linear x1 x2 y1 y2 x dx =
     (let x = ac_clamp x x1 x2;
          y = (x - x1) * (y2 - y1) / (x2 - x1) + y1;
          dy = dx * (y1 - y2) / (x1 - x2)
      in (y, dy))"

definition ip_bilinear ::
  "dbl \<Rightarrow> dbl \<Rightarrow> dbl \<Rightarrow> dbl \<Rightarrow> dbl \<Rightarrow> dbl \<Rightarrow> dbl \<Rightarrow> dbl \<Rightarrow> dbl \<Rightarrow> dbl \<Rightarrow> dbl" where
  "ip_bilinear x1 x2 y1 y2 z11 z21 z12 z22 x y =
     (let x = ac_clamp x x1 x2;
          y = ac_clamp y y1 y2
      in (Fin 1 / (x2 - x1) * (y2 - y1)) *
         (z11 * (x2 - x) * (y2 - y) + z21 * (x - x1) * (y2 - y) +
          z12 * (x2 - x) * (y - y1) + z22 * (x - x1) * (y - y1)))"

definition ip_cosine :: "dbl \<Rightarrow> dbl \<Rightarrow> dbl \<Rightarrow> dbl \<Rightarrow> dbl \<Rightarrow> dbl \<Rightarrow> dbl \<times> dbl" where
  "ip_cosine x1 x2 y1 y2 x dx =
     (let x = ac_clamp x x1 x2;
          s = (Fin 1 - dbl_cos ((x - x1) / (x2 - x1) * Fin PI)) / Fin 2;
          y = y1 * (Fin 1 - s) + y2 * s;
          ds = - (Fin PI * dbl_sin ((Fin PI * (x1 - x)) / (x1 - x2)) * dx) / (Fin 2 * (x1 - x2));
          dy = (- y1) * ds + y2 * ds
      in (y, dy))"

definition ip_cubic :: "dbl \<Rightarrow> dbl \<Rightarrow> dbl \<Rightarrow> dbl \<Rightarrow> dbl \<Rightarrow> dbl \<Rightarrow> dbl \<Rightarrow> dbl \<Rightarrow> dbl \<times> dbl" where
  "ip_cubic x1 x2 y1 y2 dy1 dy2 x dx =
     (let x = ac_clamp x x1 x2;
          a0 = Fin 2 * (y1 - y2) + (dy1 + dy2) * (x2 - x1);
          a1 = y2 - y1 - dy1 * (x2 - x1) - a0;
          a2 = dy1 * (x2 - x1);
          a3 = y1;
          s = (x - x1) / (x2 - x1);
          y = a0 * s * s * s + a1 * s * s + a2 * s + a3;
          dy = dx * (Fin (- 3) * a0 * dbl_sq (x - x1) / dbl_cube (x1 - x2) +
                 Fin 2 * a1 * (x - x1) / dbl_sq (x1 - x2) - a2 / (x1 - x2))
      in (y, dy))"

lemma cubic_slope:
  fixes h :: real
  assumes "h \<noteq> 0"
  shows "- 3 * a0 * (h * h) / (- h * - h * - h) + 2 * a1 * h / (- h * - h) - a2 / - h =
    (3 * a0 + 2 * a1 + a2) / h"
  using assms by (simp add: field_simps)

lemma ip_cubic_left:
  assumes "x1 < x2"
  shows "ip_cubic (Fin x1) (Fin x2) (Fin y1) (Fin y2) (Fin d1) (Fin d2) (Fin x1) (Fin dx) =
    (Fin y1, Fin (dx * d1))"
  using assms by (simp add: ip_cubic_def Let_def ac_clamp_Fin dbl_sq_def dbl_cube_def min_def max_def)
    (simp add: field_simps)

lemma ip_cubic_right:
  assumes "x1 < x2"
  shows "ip_cubic (Fin x1) (Fin x2) (Fin y1) (Fin y2) (Fin d1) (Fin d2) (Fin x2) (Fin dx) =
    (Fin y2, Fin (dx * d2))"
proof -
  obtain h where h: "x2 = x1 + h" "0 < h" using assms by (metis add.commute diff_add_cancel diff_gt_0_iff_gt)
  define a0 where "a0 = 2 * (y1 - y2) + (d1 + d2) * h"
  define a1 where "a1 = y2 - y1 - d1 * h - a0"
  have y: "a0 + a1 + d1 * h + y1 = y2" by (simp add: a1_def)
  have "3 * a0 + 2 * a1 + d1 * h = d2 * h" by (simp add: a0_def a1_def algebra_simps)
  then have "- 3 * a0 * (h * h) / (- h * - h * - h) + 2 * a1 * h / (- h * - h) - d1 * h / - h = d2"
    unfolding cubic_slope [OF less_imp_neq [OF h(2), symmetric]] using h(2) by simp
  then have slope: "dx * (- 3 * a0 * (h * h) / (- h * - h * - h) + 2 * a1 * h / (- h * - h) - d1 * h / - h) = dx * d2"
    by simp
  have e: "x1 + h - x1 = h" "x1 - (x1 + h) = - h" by simp_all
  have cl: "ac_clamp (Fin x2) (Fin x1) (Fin x2) = Fin x2"
    using assms by (simp add: ac_clamp_Fin min_def max_def)
  have hh: "h / h = 1" "h \<noteq> 0" "- h * - h \<noteq> 0" "- h * - h * - h \<noteq> 0" "- h \<noteq> 0" using h(2) by simp_all
  have "ip_cubic (Fin x1) (Fin x2) (Fin y1) (Fin y2) (Fin d1) (Fin d2) (Fin x2) (Fin dx) =
    (Fin (a0 * 1 * 1 * 1 + a1 * 1 * 1 + d1 * h * 1 + y1),
     Fin (dx * (- 3 * a0 * (h * h) / (- h * - h * - h) + 2 * a1 * h / (- h * - h) - d1 * h / - h)))"
    unfolding ip_cubic_def cl Let_def dbl_sq_def dbl_cube_def
    by (simp only: h(1) Fin_minus times_dbl.simps plus_dbl.simps divide_dbl.simps e hh if_False refl
        a0_def [symmetric] a1_def [symmetric])
  then show ?thesis unfolding slope using y by simp
qed

lemma ip_cubic_clamped:
  assumes "x1 < x2"
  shows "ip_cubic (Fin x1) (Fin x2) y1 y2 d1 d2 (Fin x) dx =
    ip_cubic (Fin x1) (Fin x2) y1 y2 d1 d2 (Fin (max x1 (min x2 x))) dx"
  using assms by (simp add: ip_cubic_def Let_def ac_clamp_Fin min_def max_def)

text \<open>
  Cubic interpolation takes the given values and slopes at both ends of the interval, and
  outside it the value of the nearer end.
\<close>

theorem cubic_end_points:
  assumes "x1 < x2" and "a \<le> x1" and "x2 \<le> b"
  shows "ip_cubic (Fin x1) (Fin x2) (Fin y1) (Fin y2) (Fin d1) (Fin d2) (Fin a) (Fin dx) =
      (Fin y1, Fin (dx * d1)) \<and>
    ip_cubic (Fin x1) (Fin x2) (Fin y1) (Fin y2) (Fin d1) (Fin d2) (Fin b) (Fin dx) =
      (Fin y2, Fin (dx * d2))"
  using assms ip_cubic_clamped [OF assms(1), of _ _ _ _ a] ip_cubic_clamped [OF assms(1), of _ _ _ _ b]
  by (simp add: ip_cubic_left ip_cubic_right)

lemma cubic_end_points_witness:
  "ip_cubic (Fin 0) (Fin 2) (Fin 5) (Fin 6) (Fin 1) (Fin (- 1)) (Fin 2) (Fin 1) = (Fin 6, Fin (- 1))"
  using cubic_end_points [of 0 2 0 2 5 6 1 "- 1" 1] by simp

text \<open>
  Bilinear interpolation does not interpolate: at a corner of the patch, where the result
  should be the corner's value, it is that value times the square of the patch's height, because
  the height multiplies where it should divide.
\<close>

theorem bilinear_corner:
  assumes "x1 < x2" and "y1 < y2"
  shows "ip_bilinear (Fin x1) (Fin x2) (Fin y1) (Fin y2) (Fin z11) (Fin z21) (Fin z12) (Fin z22)
     (Fin x1) (Fin y1) = Fin (z11 * (y2 - y1)\<^sup>2)"
  using assms by (simp add: ip_bilinear_def Let_def ac_clamp_Fin min_def max_def power2_eq_square)

lemma bilinear_corner_witness:
  "ip_bilinear (Fin 0) (Fin 1) (Fin 0) (Fin 3) (Fin 1) (Fin 1) (Fin 1) (Fin 1) (Fin 0) (Fin 0) = Fin 9"
  using bilinear_corner [of 0 1 0 3 1 1 1 1] by (simp add: power2_eq_square)

subsection \<open>Coordinates of the leg (ASCCommonToolkit)\<close>

definition dbl_pow32 :: "dbl \<Rightarrow> dbl" where
  "dbl_pow32 x = x * dbl_sqrt x"

definition ct_legForce :: "dbl \<Rightarrow> dbl \<Rightarrow> dbl \<Rightarrow> dbl \<Rightarrow> dbl \<times> dbl" where
  "ct_legForce ks r dr r0 =
     (let fa = - (ks * (dbl_acos r0 - dbl_acos r) * Fin (L1 + L2)) /
               (Fin (2 * L1 * L2) * dbl_sqrt (Fin 1 - dbl_sq r));
          dfa = (ks * dr * Fin (L1 + L2)) / (Fin (2 * L1 * L2) * (dbl_sq r - Fin 1)) +
                (ks * dr * r * (dbl_acos r - dbl_acos r0) * Fin (L1 + L2)) /
                (Fin (2 * L1 * L2) * dbl_pow32 (Fin 1 - dbl_sq r))
      in (fa, dfa))"

definition motorPos2LegPos :: "dbl \<Rightarrow> dbl \<Rightarrow> dbl \<times> dbl" where
  "motorPos2LegPos qmA qmB = ((qmA + qmB) / Fin 2, dbl_cos ((qmA - qmB) / Fin 2))"

definition legPos2MotorPos :: "dbl \<Rightarrow> dbl \<Rightarrow> dbl \<times> dbl" where
  "legPos2MotorPos ql rl = (ql - dbl_acos rl, ql + dbl_acos rl)"

definition motorVel2LegVel :: "dbl \<Rightarrow> dbl \<Rightarrow> dbl \<Rightarrow> dbl \<Rightarrow> dbl \<times> dbl" where
  "motorVel2LegVel qmA qmB dqmA dqmB =
     ((dqmA + dqmB) / Fin 2, - (dbl_sin ((qmA - qmB) / Fin 2) * (dqmA - dqmB)) / Fin 2)"

definition legVel2MotorVel :: "dbl \<Rightarrow> dbl \<Rightarrow> dbl \<Rightarrow> dbl \<times> dbl" where
  "legVel2MotorVel rl dql drl =
     (dql + drl / dbl_sqrt (Fin 1 - dbl_sq rl), dql - drl / dbl_sqrt (Fin 1 - dbl_sq rl))"

definition rad2Deg :: "dbl \<Rightarrow> dbl" where
  "rad2Deg rad = rad / Fin PI * Fin 180"

definition deg2Rad :: "dbl \<Rightarrow> dbl" where
  "deg2Rad deg = deg / Fin 180 * Fin PI"

definition cartPos2PolPos :: "dbl \<Rightarrow> dbl \<Rightarrow> dbl \<times> dbl" where
  "cartPos2PolPos x z = (dbl_atan2 z x, dbl_sqrt (dbl_sq x + dbl_sq z))"

definition polPos2CartPos :: "dbl \<Rightarrow> dbl \<Rightarrow> dbl \<times> dbl" where
  "polPos2CartPos q r = (r * dbl_cos q, r * dbl_sin q)"

definition cartVel2PolVel :: "dbl \<Rightarrow> dbl \<Rightarrow> dbl \<Rightarrow> dbl \<Rightarrow> dbl \<times> dbl" where
  "cartVel2PolVel q r dx dz =
     ((dz * dbl_cos q - dx * dbl_sin q) / r, dx * dbl_cos q + dz * dbl_sin q)"

definition polVel2CartVel :: "dbl \<Rightarrow> dbl \<Rightarrow> dbl \<Rightarrow> dbl \<Rightarrow> dbl \<times> dbl" where
  "polVel2CartVel q r dq dr =
     (dr * dbl_cos q - r * dq * dbl_sin q, dr * dbl_sin q + r * dq * dbl_cos q)"

lemma deg_rad_roundtrip: "isfinite x \<Longrightarrow> rad2Deg (deg2Rad x) = x \<and> deg2Rad (rad2Deg x) = x"
  by (auto simp: rad2Deg_def deg2Rad_def isfinite_iff PI_def)

lemma motorPos_Fin:
  "motorPos2LegPos (Fin a) (Fin b) = (Fin ((a + b) / 2), Fin (cos ((a - b) / 2)))"
  "- 1 \<le> r \<Longrightarrow> r \<le> 1 \<Longrightarrow> legPos2MotorPos (Fin q) (Fin r) = (Fin (q - arccos r), Fin (q + arccos r))"
  by (simp_all add: motorPos2LegPos_def legPos2MotorPos_def)

lemma half_angle:
  fixes a b :: real
  assumes "a \<le> b" and "b \<le> a + 2 * pi"
  shows "arccos (cos ((a - b) / 2)) = (b - a) / 2"
proof -
  have "cos ((a - b) / 2) = cos ((b - a) / 2)" by (metis cos_minus minus_diff_eq minus_divide_left)
  with assms show ?thesis by (simp add: arccos_cos)
qed

text \<open>
  The leg coordinates: for motor angles that the leg can have, with B ahead of A by less
  than a turn, going to leg angle and length and back gives the motor angles again, and the same
  for the velocities.
\<close>

theorem leg_coordinates_roundtrip:
  assumes "a < b" and "b < a + 2 * pi"
  shows "(case motorPos2LegPos (Fin a) (Fin b) of (ql, rl) \<Rightarrow>
      legPos2MotorPos ql rl = (Fin a, Fin b) \<and>
      (case motorVel2LegVel (Fin a) (Fin b) (Fin da) (Fin db) of (dql, drl) \<Rightarrow>
         legVel2MotorVel rl dql drl = (Fin da, Fin db)))"
proof -
  define t where "t = (b - a) / 2"
  have t: "0 < t" "t < pi" using assms by (simp_all add: t_def)
  have s: "0 < sin t" using t by (rule sin_gt_zero)
  have c: "cos ((a - b) / 2) = cos t" "sin ((a - b) / 2) = - sin t"
    by (metis cos_minus minus_diff_eq minus_divide_left t_def, metis sin_minus minus_diff_eq minus_divide_left t_def)
  have "legPos2MotorPos (Fin ((a + b) / 2)) (Fin (cos ((a - b) / 2))) = (Fin a, Fin b)"
    using half_angle [of a b] assms by (simp add: motorPos_Fin) (simp add: field_simps)
  moreover have "sqrt (1 - cos t * cos t) = sin t"
    using s sin_squared_eq [of t] by (simp add: power2_eq_square [symmetric] real_sqrt_unique)
  moreover have "1 - cos t * cos t \<ge> 0" using sin_squared_eq [of t] zero_le_power2 [of "sin t"]
    by (simp add: power2_eq_square [symmetric])
  ultimately show ?thesis
    using s by (simp add: motorPos_Fin(1) motorVel2LegVel_def legVel2MotorVel_def dbl_sq_def c)
      (simp add: field_simps)
qed

lemma leg_coordinates_roundtrip_witness:
  "legPos2MotorPos (Fin (pi / 2)) (Fin (cos ((pi / 4 - 3 * pi / 4) / 2))) = (Fin (pi / 4), Fin (3 * pi / 4))"
  using leg_coordinates_roundtrip [of "pi / 4" "3 * pi / 4"] by (simp add: motorPos_Fin(1) motorVel2LegVel_def)

subsection \<open>Leg forces (ASCLegForce)\<close>

record LegForce =
  fx :: dbl
  fz :: dbl
  dfx :: dbl
  dfz :: dbl

record ASCLegForce =
  lf_kp :: dbl
  lf_ki :: dbl
  lf_kd :: dbl
  lf_eiA :: dbl
  lf_eiB :: dbl
  antiWindup :: dbl

definition new_ASCLegForce :: ASCLegForce where
  "new_ASCLegForce = \<lparr>lf_kp = Fin 250, lf_ki = 0, lf_kd = Fin 5, lf_eiA = 0, lf_eiB = 0, antiWindup = Fin 5\<rparr>"

definition leg_force_control ::
  "LegForce \<Rightarrow> robot_state_leg \<Rightarrow> robot_state_location \<Rightarrow> ASCLegForce \<Rightarrow> (dbl \<times> dbl) \<times> ASCLegForce" where
  "leg_force_control legForce leg pos c =
     (let fx = fx legForce; fz = fz legForce; dfx = dfx legForce; dfz = dfz legForce;
          qlA = legAngle (halfA leg); qlB = legAngle (halfB leg);
          qmA = motorAngle (halfA leg); qmB = motorAngle (halfB leg);
          qb = bodyPitch pos;
          dqlA = legVelocity (halfA leg); dqlB = legVelocity (halfB leg);
          dqmA = motorVelocity (halfA leg); dqmB = motorVelocity (halfB leg);
          dqb = bodyPitchVelocity pos;
          tausA = (- fx) * Fin L2 * dbl_cos (qlA + qb) + fz * Fin L2 * dbl_sin (qlA + qb);
          tausB = (- fx) * Fin L1 * dbl_cos (qlB + qb) + fz * Fin L1 * dbl_sin (qlB + qb);
          dtausA = fx * Fin L2 * dbl_sin (qlA + qb) * (dqlA + dqb) + dfz * Fin L2 * dbl_sin (qlA + qb)
                   - dfx * Fin L2 * dbl_cos (qlA + qb) + fz * Fin L2 * dbl_cos (qlA + qb) * (dqlA + dqb);
          dtausB = fx * Fin L1 * dbl_sin (qlB + qb) * (dqlB + dqb) + dfz * Fin L1 * dbl_sin (qlB + qb)
                   - dfx * Fin L1 * dbl_cos (qlB + qb) + fz * Fin L1 * dbl_cos (qlB + qb) * (dqlB + dqb);
          epA = tausA / Fin KS - (qmA - qlA);
          epB = tausB / Fin KS - (qmB - qlB);
          c = c\<lparr>lf_eiA := ac_clamp (lf_eiA c + epA * Fin 0.001) (- antiWindup c) (antiWindup c),
                lf_eiB := ac_clamp (lf_eiB c + epB * Fin 0.001) (- antiWindup c) (antiWindup c)\<rparr>;
          edA = dtausA / Fin KS - (dqmA - dqlA);
          edB = dtausB / Fin KS - (dqmB - dqlB);
          curA = (tausA / Fin KG + lf_kp c * epA + lf_ki c * lf_eiA c + lf_kd c * edA) / Fin KT;
          curB = (tausB / Fin KG + lf_kp c * epB + lf_ki c * lf_eiB c + lf_kd c * edB) / Fin KT
      in ((curA, curB), c))"

definition leg_force_compute :: "robot_state_leg \<Rightarrow> robot_state_location \<Rightarrow> LegForce" where
  "leg_force_compute leg pos =
     (let qlA = legAngle (halfA leg); qlB = legAngle (halfB leg);
          qmA = motorAngle (halfA leg); qmB = motorAngle (halfB leg);
          qb = bodyPitch pos;
          dqlA = legVelocity (halfA leg); dqlB = legVelocity (halfB leg);
          dqmA = motorVelocity (halfA leg); dqmB = motorVelocity (halfB leg);
          dqb = bodyPitchVelocity pos;
          tausA = Fin KS * (qmA - qlA);
          tausB = Fin KS * (qmB - qlB);
          dtausA = Fin KS * (dqmA - dqlA);
          dtausB = Fin KS * (dqmB - dqlB);
          l1 = Fin L1; l2 = Fin L2;
          snAB = dbl_sin (qlA - qlB);
          sA = dbl_sin (qb + qlA); sB = dbl_sin (qb + qlB);
          cA = dbl_cos (qb + qlA); cB = dbl_cos (qb + qlB)
      in \<lparr>fx = - (l2 * tausB * sA - l1 * tausA * sB) / (l1 * l2 * snAB),
          fz = - (l2 * tausB * cA - l1 * tausA * cB) / (l1 * l2 * snAB),
          dfx = - (l2 * dtausB * sA - l1 * dtausA * sB + l2 * tausB * cA * (dqb + dqlA)
                   - l1 * tausA * cB * (dqb + dqlB)) / (l1 * l2 * snAB) +
                (dbl_cos (qlA - qlB) / dbl_sq snAB * (l2 * tausB * sA - l1 * tausA * sB) * (dqlA - dqlB)) / (l1 * l2),
          dfz = - (l2 * dtausB * cA - l1 * dtausA * cB - l2 * tausB * sA * (dqb + dqlA)
                   + l1 * tausA * sB * (dqb + dqlB)) / (l1 * l2 * snAB) +
                (dbl_cos (qlA - qlB) / dbl_sq snAB * (l2 * tausB * cA - l1 * tausA * cB) * (dqlA - dqlB)) / (l1 * l2)\<rparr>)"

text \<open>The Jacobian of \<open>control\<close> undoes the one of \<open>compute\<close>: torques, and their derivatives.\<close>

lemma jacobian_inverse:
  fixes sa ca sb cb l1 l2 tA tB :: real
  assumes "S = sa * cb - ca * sb" and "S \<noteq> 0" and "l1 \<noteq> 0" and "l2 \<noteq> 0"
    and "ex = - (l2 * tB * sa - l1 * tA * sb) / (l1 * l2 * S)"
    and "ez = - (l2 * tB * ca - l1 * tA * cb) / (l1 * l2 * S)"
  shows "- ex * l2 * ca + ez * l2 * sa = tA" and "- ex * l1 * cb + ez * l1 * sb = tB"
proof -
  define D where "D = l1 * l2 * S"
  have D: "D \<noteq> 0" using assms(2-4) by (simp add: D_def)
  have e: "ex = - (l2 * tB * sa - l1 * tA * sb) / D" "ez = - (l2 * tB * ca - l1 * tA * cb) / D"
    by (simp_all add: assms(5,6) D_def)
  have "(- ex * l2 * ca + ez * l2 * sa) * D = l1 * l2 * tA * (sa * cb - ca * sb)"
    unfolding e using D by (simp add: field_simps)
  then have "(- ex * l2 * ca + ez * l2 * sa) * D = tA * D" by (simp add: D_def assms(1))
  then show "- ex * l2 * ca + ez * l2 * sa = tA" using D by simp
  have "(- ex * l1 * cb + ez * l1 * sb) * D = l1 * l2 * tB * (sa * cb - ca * sb)"
    unfolding e using D by (simp add: field_simps)
  then have "(- ex * l1 * cb + ez * l1 * sb) * D = tB * D" by (simp add: D_def assms(1))
  then show "- ex * l1 * cb + ez * l1 * sb = tB" using D by simp
qed

lemma jacobian_derivative_inverse:
  fixes sa ca sb cb l1 l2 tA tB uA uB wa wb :: real
  assumes "S = sa * cb - ca * sb" and "C = ca * cb + sa * sb" and "S \<noteq> 0" and "l1 \<noteq> 0" and "l2 \<noteq> 0"
    and "ex = - (l2 * tB * sa - l1 * tA * sb) / (l1 * l2 * S)"
    and "ez = - (l2 * tB * ca - l1 * tA * cb) / (l1 * l2 * S)"
    and "fx' = - (l2 * uB * sa - l1 * uA * sb + l2 * tB * ca * wa - l1 * tA * cb * wb) / (l1 * l2 * S) +
      (C / (S * S) * (l2 * tB * sa - l1 * tA * sb) * (wa - wb)) / (l1 * l2)"
    and "fz' = - (l2 * uB * ca - l1 * uA * cb - l2 * tB * sa * wa + l1 * tA * sb * wb) / (l1 * l2 * S) +
      (C / (S * S) * (l2 * tB * ca - l1 * tA * cb) * (wa - wb)) / (l1 * l2)"
  shows "ex * l2 * sa * wa + fz' * l2 * sa - fx' * l2 * ca + ez * l2 * ca * wa = uA"
    and "ex * l1 * sb * wb + fz' * l1 * sb - fx' * l1 * cb + ez * l1 * cb * wb = uB"
proof -
  define D where "D = l1 * l2 * S"
  have D: "D \<noteq> 0" using assms(3-5) by (simp add: D_def)
  define R where "R = C * (wa - wb) / S"
  have e: "ex * D = - (l2 * tB * sa - l1 * tA * sb)" "ez * D = - (l2 * tB * ca - l1 * tA * cb)"
    using D by (simp_all add: assms(6,7) D_def)
  have d: "fx' * D = - (l2 * uB * sa - l1 * uA * sb + l2 * tB * ca * wa - l1 * tA * cb * wb) +
        R * (l2 * tB * sa - l1 * tA * sb)"
    "fz' * D = - (l2 * uB * ca - l1 * uA * cb - l2 * tB * sa * wa + l1 * tA * sb * wb) +
        R * (l2 * tB * ca - l1 * tA * cb)"
    using assms(3-5) by (simp_all add: assms(8,9) D_def R_def distrib_right)
  have RS: "R * S = C * (wa - wb)" using assms(3) by (simp add: R_def)
  have "(ex * l2 * sa * wa + fz' * l2 * sa - fx' * l2 * ca + ez * l2 * ca * wa) * D =
      l2 * sa * wa * (ex * D) + l2 * sa * (fz' * D) - l2 * ca * (fx' * D) + l2 * ca * wa * (ez * D)"
    by (simp add: algebra_simps)
  also have "\<dots> = l1 * l2 * uA * (sa * cb - ca * sb) + l1 * l2 * tA * (ca * cb + sa * sb) * (wa - wb)
      - l1 * l2 * tA * (R * (sa * cb - ca * sb))"
    unfolding e d by (simp add: algebra_simps)
  finally have "(ex * l2 * sa * wa + fz' * l2 * sa - fx' * l2 * ca + ez * l2 * ca * wa) * D = uA * D"
    unfolding assms(1) [symmetric] assms(2) [symmetric] RS by (simp add: D_def)
  then show "ex * l2 * sa * wa + fz' * l2 * sa - fx' * l2 * ca + ez * l2 * ca * wa = uA" using D by simp
  have "(ex * l1 * sb * wb + fz' * l1 * sb - fx' * l1 * cb + ez * l1 * cb * wb) * D =
      l1 * sb * wb * (ex * D) + l1 * sb * (fz' * D) - l1 * cb * (fx' * D) + l1 * cb * wb * (ez * D)"
    by (simp add: algebra_simps)
  also have "\<dots> = l1 * l2 * uB * (sa * cb - ca * sb) + l1 * l2 * tB * (ca * cb + sa * sb) * (wa - wb)
      - l1 * l2 * tB * (R * (sa * cb - ca * sb))"
    unfolding e d by (simp add: algebra_simps)
  finally have "(ex * l1 * sb * wb + fz' * l1 * sb - fx' * l1 * cb + ez * l1 * cb * wb) * D = uB * D"
    unfolding assms(1) [symmetric] assms(2) [symmetric] RS by (simp add: D_def)
  then show "ex * l1 * sb * wb + fz' * l1 * sb - fx' * l1 * cb + ez * l1 * cb * wb = uB" using D by simp
qed

text \<open>
  The two directions of the leg force controller agree: when the force and the force rate
  asked for are the ones the springs exert now, as \<open>compute\<close> reports them, then \<open>control\<close> finds no
  proportional, integral or derivative error, leaves its integral terms at zero, and commands
  just the currents that hold the spring torques, as long as the leg is not straight.
\<close>

theorem leg_force_inverse:
  assumes "legAngle (halfA leg) = Fin lA" and "legAngle (halfB leg) = Fin lB"
    and "motorAngle (halfA leg) = Fin mA" and "motorAngle (halfB leg) = Fin mB"
    and "legVelocity (halfA leg) = Fin vA" and "legVelocity (halfB leg) = Fin vB"
    and "motorVelocity (halfA leg) = Fin uA" and "motorVelocity (halfB leg) = Fin uB"
    and "bodyPitch pos = Fin p" and "bodyPitchVelocity pos = Fin w"
    and "sin (lA - lB) \<noteq> 0"
    and "c = \<lparr>lf_kp = Fin kp, lf_ki = Fin ki, lf_kd = Fin kd, lf_eiA = 0, lf_eiB = 0, antiWindup = Fin aw\<rparr>"
    and "0 \<le> aw"
  shows "leg_force_control (leg_force_compute leg pos) leg pos c =
    ((Fin (KS * (mA - lA) / KG / KT), Fin (KS * (mB - lB) / KG / KT)), c)"
proof -
  define sa ca sb cb S C where "sa = sin (lA + p)" and "ca = cos (lA + p)" and "sb = sin (lB + p)"
    and "cb = cos (lB + p)" and "S = sin (lA - lB)" and "C = cos (lA - lB)"
  note trig = sa_def [symmetric] ca_def [symmetric] sb_def [symmetric] cb_def [symmetric]
    S_def [symmetric] C_def [symmetric]
  have "lA - lB = (lA + p) - (lB + p)" by simp
  then have SC: "S = sa * cb - ca * sb" "C = ca * cb + sa * sb"
    unfolding S_def C_def sa_def ca_def sb_def cb_def by (metis sin_diff, metis cos_diff)
  have S: "S \<noteq> 0" using assms(11) by (simp add: S_def)
  define tA tB dA dB where "tA = KS * (mA - lA)" and "tB = KS * (mB - lB)"
    and "dA = KS * (uA - vA)" and "dB = KS * (uB - vB)"
  note tau = tA_def [symmetric] tB_def [symmetric] dA_def [symmetric] dB_def [symmetric]
  define ex where "ex = - (L2 * tB * sa - L1 * tA * sb) / (L1 * L2 * S)"
  define ez where "ez = - (L2 * tB * ca - L1 * tA * cb) / (L1 * L2 * S)"
  define dx where "dx = - (L2 * dB * sa - L1 * dA * sb + L2 * tB * ca * (vA + w) - L1 * tA * cb * (vB + w)) / (L1 * L2 * S) +
      (C / (S * S) * (L2 * tB * sa - L1 * tA * sb) * ((vA + w) - (vB + w))) / (L1 * L2)"
  define dz where "dz = - (L2 * dB * ca - L1 * dA * cb - L2 * tB * sa * (vA + w) + L1 * tA * sb * (vB + w)) / (L1 * L2 * S) +
      (C / (S * S) * (L2 * tB * ca - L1 * tA * cb) * ((vA + w) - (vB + w))) / (L1 * L2)"
  have L: "L1 \<noteq> 0" "L2 \<noteq> 0" and K: "KS \<noteq> 0" "KG \<noteq> 0" "KT \<noteq> 0" by (simp_all add: consts_simp)
  note com = add.commute [of w] add.commute [of p]
  have cmp: "leg_force_compute leg pos = \<lparr>fx = Fin ex, fz = Fin ez, dfx = Fin dx, dfz = Fin dz\<rparr>"
    unfolding leg_force_compute_def Let_def assms(1-10)
    by (simp add: com trig tau dbl_sq_def L S ex_def ez_def dx_def dz_def)
  note inv = jacobian_inverse [OF SC(1) S L ex_def ez_def]
    jacobian_derivative_inverse [OF SC S L ex_def ez_def dx_def dz_def]
  have "tA / KS = mA - lA" "tB / KS = mB - lB" "dA / KS = uA - vA" "dB / KS = uB - vB"
    using K(1) by (simp_all add: tA_def tB_def dA_def dB_def)
  then show ?thesis
    unfolding leg_force_control_def Let_def assms(1-10) cmp assms(12)
    using inv K assms(13) by (simp add: trig ac_clamp_Fin tau)
qed

definition bent_leg :: robot_state_leg where
  "bent_leg = robot_state_leg_zero
     \<lparr>halfB := robot_state_legHalf_zero\<lparr>legAngle := Fin (pi / 2), motorAngle := Fin (pi / 2 + 0.05)\<rparr>\<rparr>"

lemma leg_force_inverse_witness:
  "leg_force_control (leg_force_compute bent_leg robot_state_location_zero) bent_leg
     robot_state_location_zero new_ASCLegForce =
   ((Fin 0, Fin (1600 * 0.05 / 50 / 0.121)), new_ASCLegForce)"
proof -
  have b: "legAngle (halfA bent_leg) = Fin 0" "legAngle (halfB bent_leg) = Fin (pi / 2)"
    "motorAngle (halfA bent_leg) = Fin 0" "motorAngle (halfB bent_leg) = Fin (pi / 2 + 0.05)"
    "legVelocity (halfA bent_leg) = Fin 0" "legVelocity (halfB bent_leg) = Fin 0"
    "motorVelocity (halfA bent_leg) = Fin 0" "motorVelocity (halfB bent_leg) = Fin 0"
    by (simp_all add: bent_leg_def robot_state_leg_zero_def robot_state_legHalf_zero_def)
  have p: "bodyPitch robot_state_location_zero = Fin 0" "bodyPitchVelocity robot_state_location_zero = Fin 0"
    by (simp_all add: robot_state_location_zero_def)
  have c: "new_ASCLegForce =
      \<lparr>lf_kp = Fin 250, lf_ki = Fin 0, lf_kd = Fin 5, lf_eiA = 0, lf_eiB = 0, antiWindup = Fin 5\<rparr>"
    by (simp add: new_ASCLegForce_def)
  have s: "sin (0 - pi / 2) \<noteq> (0 :: real)" by simp
  show ?thesis
    using leg_force_inverse [OF b p s c] by (simp add: consts_simp)
qed

end
