(* ===== verification/Firmware.thy ===== *)
theory Firmware
  imports Globals
begin

text \<open>
  The firmware of the medulla boards, \<open>firmware/atrias2.1/src/medulla.c\<close>: the main loop with its
  state machine, the emergency stop and the interrupts. The functions that depend on the kind of
  board are reached through function pointers, which are a record of functions here; the board's
  own state is the type parameter \<open>'b\<close> and its sensor readings are \<open>'s\<close>. The drivers of the
  microcontroller's peripherals are a library that the firmware calls: what they answer is an
  input, and the calls that act are recorded in order. A turn of the loop is atomic; the
  interrupts come between turns.
\<close>

subsection \<open>Constants\<close>

type_synonym medulla_error_t = uint8

definition medulla_error_estop :: medulla_error_t where "medulla_error_estop = push_bit 0 1"
definition medulla_error_limit_switch :: medulla_error_t where "medulla_error_limit_switch = push_bit 1 1"
definition medulla_error_thermistor :: medulla_error_t where "medulla_error_thermistor = push_bit 2 1"
definition medulla_error_motor_voltage :: medulla_error_t where "medulla_error_motor_voltage = push_bit 3 1"
definition medulla_error_logic_voltage :: medulla_error_t where "medulla_error_logic_voltage = push_bit 4 1"
definition medulla_error_encoder :: medulla_error_t where "medulla_error_encoder = push_bit 5 1"
definition medulla_error_halt :: medulla_error_t where "medulla_error_halt = push_bit 6 1"
definition medulla_error_amplifier :: medulla_error_t where "medulla_error_amplifier = push_bit 7 1"

definition ESTOP_DEBOUNCE_LIMIT :: int where [consts_simp]: "ESTOP_DEBOUNCE_LIMIT = 5"
definition ESTOP_TIMEOUT_LENGTH :: uint16 where [consts_simp]: "ESTOP_TIMEOUT_LENGTH = 1000"

definition LED_MASK :: uint8 where "LED_MASK = 0b111"
definition LED_RED :: uint8 where "LED_RED = 0b001"
definition LED_GREEN :: uint8 where "LED_GREEN = 0b010"
definition LED_BLUE :: uint8 where "LED_BLUE = 0b100"
definition LED_CYAN :: uint8 where "LED_CYAN = LED_GREEN OR LED_BLUE"
definition LED_VIOLATE :: uint8 where "LED_VIOLATE = LED_RED OR LED_BLUE"
definition LED_YELLOW :: uint8 where "LED_YELLOW = LED_RED OR LED_GREEN"
definition LED_WHITE :: uint8 where "LED_WHITE = LED_RED OR LED_GREEN OR LED_BLUE"

subsection \<open>The functions of a kind of board\<close>

text \<open>
  The functions take the medulla's id, which is fixed at start-up, so it is applied already. The
  motor current that \<open>update_outputs\<close> reads from the process data is an argument.
\<close>

record ('s, 'b) medulla_ops =
  enable_outputs :: "'b \<Rightarrow> 'b"
  disable_outputs :: "'b \<Rightarrow> 'b"
  update_inputs :: "'s \<Rightarrow> 'b \<Rightarrow> 'b"
  run_halt :: "'b \<Rightarrow> bool \<times> 'b"
  update_outputs :: "uint32 \<Rightarrow> 'b \<Rightarrow> 'b"
  post_ecat :: "'b \<Rightarrow> 'b"
  estop :: "'b \<Rightarrow> 'b"
  check_error :: "'b \<Rightarrow> bool \<times> 'b"
  check_halt :: "'b \<Rightarrow> bool \<times> 'b"
  reset_error :: "'b \<Rightarrow> 'b"

subsection \<open>State\<close>

datatype fw_call =
    FeedWatchdog
  | ClearTimestamp
  | WriteTx medulla_state_t uint8
  | AssertEStop
  | DeassertEStop
  | Led uint8

record 'b firmware =
  commanded_state :: medulla_state_t
  current_state :: medulla_state_t
  packet_counter :: uint8
  master_watchdog_counter :: uint16
  motor_current_pdo :: uint32
  previous_master_watchdog :: uint16
  master_watchdog_errors :: uint8
  estop_debounce :: uint16
  estop_timeout_counter :: uint16
  fw_calls :: "fw_call list"
  fw_hung :: bool
  board :: 'b

text \<open>
  What a falling edge of the distributed clock finds: the process data from the master, the two
  readings of the emergency stop line, and the sensors. The debounce counter is a signed 16-bit
  integer, the \<open>int\<close> of the microcontroller.
\<close>

record 's dc_edge =
  rx_command :: medulla_state_t
  rx_counter :: uint16
  rx_current :: uint32
  estop_pressed :: bool
  estop_pressed_init :: bool
  sensors :: 's

definition fw_call :: "fw_call \<Rightarrow> 'b firmware \<Rightarrow> 'b firmware" where
  "fw_call c m = m\<lparr>fw_calls := fw_calls m @ [c]\<rparr>"

definition on_board :: "('b \<Rightarrow> 'b) \<Rightarrow> 'b firmware \<Rightarrow> 'b firmware" where
  "on_board f m = m\<lparr>board := f (board m)\<rparr>"

definition ask_board :: "('b \<Rightarrow> bool \<times> 'b) \<Rightarrow> 'b firmware \<Rightarrow> bool \<times> 'b firmware" where
  "ask_board f m = (let (r, b) = f (board m) in (r, m\<lparr>board := b\<rparr>))"

subsection \<open>The emergency stop\<close>

definition main_estop :: "('s, 'b) medulla_ops \<Rightarrow> 'b firmware \<Rightarrow> 'b firmware" where
  "main_estop ops m = fw_call (Led LED_RED) (fw_call AssertEStop (on_board (estop ops) m))"

definition enter_error :: "'b firmware \<Rightarrow> 'b firmware" where
  "enter_error m = m\<lparr>current_state := medulla_state_error, estop_timeout_counter := 0\<rparr>"

subsection \<open>A turn of the main loop\<close>

text \<open>What every edge does before the state machine runs.\<close>

definition fw_sense :: "('s, 'b) medulla_ops \<Rightarrow> 's dc_edge \<Rightarrow> 'b firmware \<Rightarrow> 'b firmware" where
  "fw_sense ops i m =
     (let m = fw_call ClearTimestamp m;
          m = on_board (update_inputs ops (sensors i)) m;
          m = m\<lparr>packet_counter := packet_counter m + 1\<rparr>;
          m = fw_call (WriteTx (current_state m) (packet_counter m)) m;
          m = m\<lparr>commanded_state := rx_command i, master_watchdog_counter := rx_counter i,
                motor_current_pdo := rx_current i\<rparr>;
          m = on_board (post_ecat ops) m;
          m = fw_call FeedWatchdog m
      in if estop_pressed i then m\<lparr>estop_debounce := estop_debounce m + 1\<rparr>
         else if 0 < sint (estop_debounce m) then m\<lparr>estop_debounce := estop_debounce m - 1\<rparr>
         else m)"

text \<open>
  The state machine is a sequence of tests of the current state, each with a body that changes
  the state and falls through to the tests that follow, or ends the turn with \<open>continue\<close>: the
  result \<open>True\<close>.
\<close>

definition fw_idle :: "'b firmware \<Rightarrow> bool \<times> 'b firmware" where
  "fw_idle m =
     (if current_state m = medulla_state_idle
      then (True,
        let m = fw_call DeassertEStop (fw_call (Led LED_GREEN) m)
        in if commanded_state m = medulla_state_run then m\<lparr>current_state := medulla_state_init\<rparr> else m)
      else (False, m))"

definition fw_init :: "('s, 'b) medulla_ops \<Rightarrow> bool \<Rightarrow> 'b firmware \<Rightarrow> bool \<times> 'b firmware" where
  "fw_init ops pressed m =
     (if current_state m = medulla_state_init
      then let m = on_board (reset_error ops) (fw_call (Led LED_CYAN) m);
               m = m\<lparr>master_watchdog_errors := 0\<rparr>
           in if pressed then (False, enter_error m)
              else let (bad, m) = ask_board (check_error ops) m;
                       (bad, m) = (if bad then (True, m) else ask_board (check_halt ops) m)
                   in if bad then (False, enter_error m)
                      else (True, (on_board (enable_outputs ops) m)\<lparr>current_state := medulla_state_run\<rparr>)
      else (False, m))"

definition fw_obey :: "'b firmware \<Rightarrow> 'b firmware" where
  "fw_obey m =
     (if commanded_state m = medulla_state_stop \<or> commanded_state m = medulla_state_idle
      then m\<lparr>current_state := medulla_state_stop\<rparr>
      else if commanded_state m = medulla_state_halt then m\<lparr>current_state := medulla_state_halt\<rparr>
      else if commanded_state m = medulla_state_error then enter_error m
      else m)"

definition fw_master_watchdog :: "'b firmware \<Rightarrow> 'b firmware" where
  "fw_master_watchdog m =
     (let m = (if master_watchdog_counter m = previous_master_watchdog m
               then m\<lparr>master_watchdog_errors := master_watchdog_errors m + 1\<rparr>
               else m\<lparr>master_watchdog_errors := 0\<rparr>);
          m = m\<lparr>previous_master_watchdog := master_watchdog_counter m\<rparr>
      in if 10 \<le> master_watchdog_errors m then m\<lparr>current_state := medulla_state_error\<rparr> else m)"

definition fw_debounced_estop :: "'b firmware \<Rightarrow> 'b firmware" where
  "fw_debounced_estop m =
     (if ESTOP_DEBOUNCE_LIMIT < sint (estop_debounce m) then enter_error m else m)"

definition fw_run :: "('s, 'b) medulla_ops \<Rightarrow> 'b firmware \<Rightarrow> bool \<times> 'b firmware" where
  "fw_run ops m =
     (if current_state m = medulla_state_run
      then let m = fw_obey (fw_call (Led LED_BLUE) m);
               m = fw_master_watchdog m;
               (halt, m) = ask_board (check_halt ops) m;
               m = (if halt then m\<lparr>current_state := medulla_state_halt\<rparr> else m);
               m = fw_debounced_estop m;
               (bad, m) = ask_board (check_error ops) m;
               m = (if bad then on_board (disable_outputs ops) (enter_error m) else m)
           in if current_state m = medulla_state_run
              then (True, on_board (update_outputs ops (motor_current_pdo m)) m)
              else (False, m)
      else (False, m))"

definition fw_stop :: "('s, 'b) medulla_ops \<Rightarrow> 'b firmware \<Rightarrow> bool \<times> 'b firmware" where
  "fw_stop ops m =
     (if current_state m = medulla_state_stop
      then (True, (on_board (disable_outputs ops) (fw_call (Led LED_VIOLATE) m))
                    \<lparr>current_state := medulla_state_idle\<rparr>)
      else (False, m))"

definition fw_halt :: "('s, 'b) medulla_ops \<Rightarrow> 'b firmware \<Rightarrow> bool \<times> 'b firmware" where
  "fw_halt ops m =
     (if current_state m = medulla_state_halt
      then let m = fw_debounced_estop (fw_call (Led LED_YELLOW) m);
               (bad, m) = ask_board (check_error ops) m;
               m = (if bad then on_board (disable_outputs ops) (enter_error m) else m)
           in if current_state m = medulla_state_halt
              then let (goes_on, m) = ask_board (run_halt ops) m
                   in (True, if goes_on then m else enter_error (on_board (disable_outputs ops) m))
              else (False, m)
      else (False, m))"

definition fw_reset :: "('s, 'b) medulla_ops \<Rightarrow> 'b firmware \<Rightarrow> bool \<times> 'b firmware" where
  "fw_reset ops m =
     (if current_state m = medulla_state_reset
      then (True,
        (on_board (reset_error ops) (fw_call DeassertEStop (fw_call (Led LED_WHITE) m)))
          \<lparr>master_watchdog_errors := 0, estop_debounce := 0, current_state := medulla_state_idle\<rparr>)
      else (False, m))"

definition fw_error :: "('s, 'b) medulla_ops \<Rightarrow> 'b firmware \<Rightarrow> bool \<times> 'b firmware" where
  "fw_error ops m =
     (if current_state m = medulla_state_error \<or> 6 < current_state m
      then (False,
        let m = fw_call (Led LED_RED) (main_estop ops m);
            m = m\<lparr>estop_timeout_counter := estop_timeout_counter m + 1\<rparr>
        in if commanded_state m = medulla_state_reset \<and> ESTOP_TIMEOUT_LENGTH < estop_timeout_counter m
           then m\<lparr>current_state := medulla_state_reset\<rparr> else m)
      else (False, m))"

primrec until_continue :: "('m \<Rightarrow> bool \<times> 'm) list \<Rightarrow> 'm \<Rightarrow> bool \<times> 'm" where
  "until_continue [] m = (False, m)"
| "until_continue (block # blocks) m =
     (let (continue, m) = block m in if continue then (True, m) else until_continue blocks m)"

definition fw_state_machine :: "('s, 'b) medulla_ops \<Rightarrow> bool \<Rightarrow> 'b firmware \<Rightarrow> bool \<times> 'b firmware" where
  "fw_state_machine ops pressed =
     until_continue [fw_idle, fw_init ops pressed, fw_run ops, fw_stop ops, fw_halt ops, fw_reset ops,
       fw_error ops]"

text \<open>The body of the loop, on an edge of the clock or without one.\<close>

definition fw_turn :: "('s, 'b) medulla_ops \<Rightarrow> 's dc_edge option \<Rightarrow> 'b firmware \<Rightarrow> 'b firmware" where
  "fw_turn ops edge m =
     (let (continue, m) = (case edge of None \<Rightarrow> (False, m)
                           | Some i \<Rightarrow> fw_state_machine ops (estop_pressed_init i) (fw_sense ops i m))
      in if \<not> continue \<and> current_state m = medulla_state_idle then fw_call FeedWatchdog m else m)"

subsection \<open>Interrupts and start-up\<close>

definition watchdog_interrupt :: "('s, 'b) medulla_ops \<Rightarrow> 'b firmware \<Rightarrow> 'b firmware" where
  "watchdog_interrupt ops m = (fw_call (Led 0) (on_board (estop ops) m))\<lparr>fw_hung := True\<rparr>"

text \<open>
  After the initialisation of the board: the process data buffers and the variables are zero, and
  the watchdog counter of the master has been read once.
\<close>

definition fw_start :: "uint16 \<Rightarrow> 'b \<Rightarrow> 'b firmware" where
  "fw_start counter b =
     \<lparr>commanded_state = 0, current_state = 0, packet_counter = 0, master_watchdog_counter = counter,
      motor_current_pdo = 0, previous_master_watchdog = counter, master_watchdog_errors = 0,
      estop_debounce = 0, estop_timeout_counter = 0, fw_calls = [Led LED_GREEN], fw_hung = False,
      board = b\<rparr>"

datatype 's fw_label =
    Turn "'s dc_edge option"
  | WatchdogInterrupt
  | EStopInterrupt
  | LimitSwitchInterrupt

inductive fw_step :: "('s, 'b) medulla_ops \<Rightarrow> 'b firmware \<Rightarrow> 's fw_label \<Rightarrow> 'b firmware \<Rightarrow> bool"
  for ops :: "('s, 'b) medulla_ops" where
  turn: "\<not> fw_hung m \<Longrightarrow> fw_step ops m (Turn edge) (fw_turn ops edge m)"
| watchdog: "\<not> fw_hung m \<Longrightarrow> fw_step ops m WatchdogInterrupt (watchdog_interrupt ops m)"
| estop_line: "\<not> fw_hung m \<Longrightarrow> fw_step ops m EStopInterrupt (main_estop ops m)"
| limit_switch: "\<not> fw_hung m \<Longrightarrow> fw_step ops m LimitSwitchInterrupt (on_board (estop ops) m)"

inductive fw_reach :: "('s, 'b) medulla_ops \<Rightarrow> 'b \<Rightarrow> 'b firmware \<Rightarrow> bool"
  for ops :: "('s, 'b) medulla_ops" and b :: 'b where
  start: "fw_reach ops b (fw_start counter b)"
| step: "fw_reach ops b m \<Longrightarrow> fw_step ops m l m' \<Longrightarrow> fw_reach ops b m'"

subsection \<open>Frame facts\<close>

lemma fw_call_simps [simp]:
  "current_state (fw_call c m) = current_state m"
  "commanded_state (fw_call c m) = commanded_state m"
  "packet_counter (fw_call c m) = packet_counter m"
  "master_watchdog_counter (fw_call c m) = master_watchdog_counter m"
  "motor_current_pdo (fw_call c m) = motor_current_pdo m"
  "previous_master_watchdog (fw_call c m) = previous_master_watchdog m"
  "master_watchdog_errors (fw_call c m) = master_watchdog_errors m"
  "estop_debounce (fw_call c m) = estop_debounce m"
  "estop_timeout_counter (fw_call c m) = estop_timeout_counter m"
  "fw_calls (fw_call c m) = fw_calls m @ [c]"
  "fw_hung (fw_call c m) = fw_hung m"
  "board (fw_call c m) = board m"
  by (simp_all add: fw_call_def)

lemma on_board_simps [simp]:
  "current_state (on_board f m) = current_state m"
  "commanded_state (on_board f m) = commanded_state m"
  "packet_counter (on_board f m) = packet_counter m"
  "master_watchdog_counter (on_board f m) = master_watchdog_counter m"
  "motor_current_pdo (on_board f m) = motor_current_pdo m"
  "previous_master_watchdog (on_board f m) = previous_master_watchdog m"
  "master_watchdog_errors (on_board f m) = master_watchdog_errors m"
  "estop_debounce (on_board f m) = estop_debounce m"
  "estop_timeout_counter (on_board f m) = estop_timeout_counter m"
  "fw_calls (on_board f m) = fw_calls m"
  "fw_hung (on_board f m) = fw_hung m"
  "board (on_board f m) = f (board m)"
  by (simp_all add: on_board_def)

lemma ask_board_simps [simp]:
  "fst (ask_board f m) = fst (f (board m))"
  "current_state (snd (ask_board f m)) = current_state m"
  "commanded_state (snd (ask_board f m)) = commanded_state m"
  "packet_counter (snd (ask_board f m)) = packet_counter m"
  "master_watchdog_counter (snd (ask_board f m)) = master_watchdog_counter m"
  "motor_current_pdo (snd (ask_board f m)) = motor_current_pdo m"
  "previous_master_watchdog (snd (ask_board f m)) = previous_master_watchdog m"
  "master_watchdog_errors (snd (ask_board f m)) = master_watchdog_errors m"
  "estop_debounce (snd (ask_board f m)) = estop_debounce m"
  "estop_timeout_counter (snd (ask_board f m)) = estop_timeout_counter m"
  "fw_calls (snd (ask_board f m)) = fw_calls m"
  "fw_hung (snd (ask_board f m)) = fw_hung m"
  "board (snd (ask_board f m)) = snd (f (board m))"
  by (simp_all add: ask_board_def split_beta)

lemma enter_error_simps [simp]:
  "current_state (enter_error m) = medulla_state_error"
  "commanded_state (enter_error m) = commanded_state m"
  "previous_master_watchdog (enter_error m) = previous_master_watchdog m"
  "master_watchdog_counter (enter_error m) = master_watchdog_counter m"
  "master_watchdog_errors (enter_error m) = master_watchdog_errors m"
  "fw_calls (enter_error m) = fw_calls m"
  "fw_hung (enter_error m) = fw_hung m"
  "board (enter_error m) = board m"
  by (simp_all add: enter_error_def)

lemma main_estop_simps [simp]:
  "current_state (main_estop ops m) = current_state m"
  "commanded_state (main_estop ops m) = commanded_state m"
  "estop_timeout_counter (main_estop ops m) = estop_timeout_counter m"
  "fw_calls (main_estop ops m) = fw_calls m @ [AssertEStop, Led LED_RED]"
  "fw_hung (main_estop ops m) = fw_hung m"
  "board (main_estop ops m) = estop ops (board m)"
  by (simp_all add: main_estop_def)

lemma fw_sense_simps [simp]:
  "current_state (fw_sense ops i m) = current_state m"
  "commanded_state (fw_sense ops i m) = rx_command i"
  "master_watchdog_counter (fw_sense ops i m) = rx_counter i"
  "motor_current_pdo (fw_sense ops i m) = rx_current i"
  "previous_master_watchdog (fw_sense ops i m) = previous_master_watchdog m"
  "master_watchdog_errors (fw_sense ops i m) = master_watchdog_errors m"
  "estop_timeout_counter (fw_sense ops i m) = estop_timeout_counter m"
  "fw_hung (fw_sense ops i m) = fw_hung m"
  "board (fw_sense ops i m) = post_ecat ops (update_inputs ops (sensors i) (board m))"
  by (simp_all add: fw_sense_def Let_def)

lemma fw_debounced_estop_simps [simp]:
  "current_state (fw_debounced_estop m) =
     (if ESTOP_DEBOUNCE_LIMIT < sint (estop_debounce m) then medulla_state_error else current_state m)"
  "commanded_state (fw_debounced_estop m) = commanded_state m"
  "board (fw_debounced_estop m) = board m"
  "previous_master_watchdog (fw_debounced_estop m) = previous_master_watchdog m"
  "master_watchdog_errors (fw_debounced_estop m) = master_watchdog_errors m"
  by (simp_all add: fw_debounced_estop_def)

lemma fw_obey_simps [simp]:
  "board (fw_obey m) = board m"
  "commanded_state (fw_obey m) = commanded_state m"
  "master_watchdog_counter (fw_obey m) = master_watchdog_counter m"
  "previous_master_watchdog (fw_obey m) = previous_master_watchdog m"
  "master_watchdog_errors (fw_obey m) = master_watchdog_errors m"
  "estop_debounce (fw_obey m) = estop_debounce m"
  by (simp_all add: fw_obey_def enter_error_def)

lemma fw_master_watchdog_simps [simp]:
  "board (fw_master_watchdog m) = board m"
  "commanded_state (fw_master_watchdog m) = commanded_state m"
  "previous_master_watchdog (fw_master_watchdog m) = master_watchdog_counter m"
  "estop_debounce (fw_master_watchdog m) = estop_debounce m"
  "master_watchdog_errors (fw_master_watchdog m) =
     (if master_watchdog_counter m = previous_master_watchdog m then master_watchdog_errors m + 1 else 0)"
  "current_state (fw_master_watchdog m) =
     (if 10 \<le> master_watchdog_errors (fw_master_watchdog m) then medulla_state_error else current_state m)"
  by (simp_all add: fw_master_watchdog_def Let_def)

lemma fw_turn_none:
  "current_state (fw_turn ops None m) = current_state m" "board (fw_turn ops None m) = board m"
  "fw_hung (fw_turn ops None m) = fw_hung m"
  by (simp_all add: fw_turn_def)

lemma fw_turn_some:
  "current_state (fw_turn ops (Some i) m) =
     current_state (snd (fw_state_machine ops (estop_pressed_init i) (fw_sense ops i m)))"
  "board (fw_turn ops (Some i) m) =
     board (snd (fw_state_machine ops (estop_pressed_init i) (fw_sense ops i m)))"
  by (simp_all add: fw_turn_def split_beta)

text \<open>A block whose state is not the current one is passed over.\<close>

lemma fw_skip:
  "current_state m \<noteq> medulla_state_idle \<Longrightarrow> fw_idle m = (False, m)"
  "current_state m \<noteq> medulla_state_init \<Longrightarrow> fw_init ops pressed m = (False, m)"
  "current_state m \<noteq> medulla_state_run \<Longrightarrow> fw_run ops m = (False, m)"
  "current_state m \<noteq> medulla_state_stop \<Longrightarrow> fw_stop ops m = (False, m)"
  "current_state m \<noteq> medulla_state_halt \<Longrightarrow> fw_halt ops m = (False, m)"
  "current_state m \<noteq> medulla_state_reset \<Longrightarrow> fw_reset ops m = (False, m)"
  by (simp_all add: fw_idle_def fw_init_def fw_run_def fw_stop_def fw_halt_def fw_reset_def)

lemma fw_machine_error:
  "current_state m = medulla_state_error \<Longrightarrow> fw_state_machine ops pressed m = fw_error ops m"
  by (simp add: fw_state_machine_def fw_skip consts_simp split_beta)
    (simp add: fw_error_def consts_simp)

text \<open>Reasoning along the blocks: what holds where a block ends the turn, and what where it does not.\<close>

lemma until_continue_first:
  assumes "(fst (block m) \<longrightarrow> Q (snd (block m))) \<and> (\<not> fst (block m) \<longrightarrow> P (snd (block m)))"
    and "\<And>m. P m \<Longrightarrow> Q (snd (until_continue blocks m))"
  shows "Q (snd (until_continue (block # blocks) m))"
  using assms by (simp add: split_beta)

lemma until_continue_invariant:
  assumes "\<And>block m. block \<in> set blocks \<Longrightarrow> P m \<Longrightarrow> P (snd (block m))" and "P m"
  shows "P (snd (until_continue blocks m))"
  using assms by (induction blocks arbitrary: m) (auto simp: split_beta)

subsection \<open>The contract of a board\<close>

text \<open>
  What the state machine needs of the functions of a board, with \<open>powered\<close> the predicate that its
  outputs are on: disabling the outputs and the emergency stop turn them off, and of the others
  only \<open>enable_outputs\<close> turns them on.
\<close>

locale medulla_board =
  fixes ops :: "('s, 'b) medulla_ops" and powered :: "'b \<Rightarrow> bool"
  assumes disable_off: "\<not> powered (disable_outputs ops b)"
    and estop_off: "\<not> powered (estop ops b)"
    and inputs_keep: "powered (update_inputs ops s b) \<Longrightarrow> powered b"
    and run_halt_keep: "powered (snd (run_halt ops b)) \<Longrightarrow> powered b"
    and outputs_keep: "powered (update_outputs ops w b) \<Longrightarrow> powered b"
    and post_keep: "powered (post_ecat ops b) \<Longrightarrow> powered b"
    and error_keep: "powered (snd (check_error ops b)) \<Longrightarrow> powered b"
    and halt_keep: "powered (snd (check_halt ops b)) \<Longrightarrow> powered b"
    and reset_keep: "powered (reset_error ops b) \<Longrightarrow> powered b"
begin

definition allowed :: "medulla_state_t set \<Rightarrow> 'b firmware \<Rightarrow> bool" where
  "allowed S m \<longleftrightarrow> (powered (board m) \<longrightarrow> current_state m \<in> S)"

abbreviation safe :: "'b firmware \<Rightarrow> bool" where
  "safe m \<equiv> allowed {medulla_state_run, medulla_state_halt} m"

lemma sense_safe: "safe m \<Longrightarrow> safe (fw_sense ops i m)"
  by (auto simp: allowed_def dest: inputs_keep post_keep)

lemma idle_block: "safe m \<Longrightarrow> safe (snd (fw_idle m))"
  by (auto simp: fw_idle_def allowed_def Let_def consts_simp)

lemma init_block:
  assumes "safe m" shows "safe (snd (fw_init ops pressed m))"
proof (cases "current_state m = medulla_state_init")
  case True
  with assms have off: "\<not> powered (board m)" by (auto simp: allowed_def consts_simp)
  then have "\<not> powered (reset_error ops (board m))" using reset_keep by blast
  moreover have "\<not> powered b \<Longrightarrow> \<not> powered (snd (check_error ops b))"
    "\<not> powered b \<Longrightarrow> \<not> powered (snd (check_halt ops b))" for b
    using error_keep halt_keep by blast+
  ultimately show ?thesis
    by (simp add: fw_init_def True allowed_def Let_def split_beta)
qed (use assms in \<open>simp add: fw_skip\<close>)

lemma run_block:
  assumes "safe m"
  shows "(fst (fw_run ops m) \<longrightarrow> safe (snd (fw_run ops m))) \<and>
    (\<not> fst (fw_run ops m) \<longrightarrow>
       allowed {medulla_state_stop, medulla_state_halt, medulla_state_error} (snd (fw_run ops m)))"
proof (cases "current_state m = medulla_state_run")
  case True
  then show ?thesis
    by (auto simp: fw_run_def allowed_def Let_def split_beta disable_off fw_obey_def)
next
  case False
  with assms show ?thesis by (auto simp: fw_skip allowed_def)
qed

lemma stop_block:
  assumes "allowed {medulla_state_stop, medulla_state_halt, medulla_state_error} m"
  shows "(fst (fw_stop ops m) \<longrightarrow> safe (snd (fw_stop ops m))) \<and>
    (\<not> fst (fw_stop ops m) \<longrightarrow> allowed {medulla_state_halt, medulla_state_error} (snd (fw_stop ops m)))"
  using assms by (auto simp: fw_stop_def allowed_def disable_off)

lemma halt_block:
  assumes "allowed {medulla_state_halt, medulla_state_error} m"
  shows "(fst (fw_halt ops m) \<longrightarrow> safe (snd (fw_halt ops m))) \<and>
    (\<not> fst (fw_halt ops m) \<longrightarrow> allowed {medulla_state_error} (snd (fw_halt ops m)))"
  using assms by (auto simp: fw_halt_def allowed_def Let_def split_beta disable_off)

lemma reset_block:
  assumes "allowed {medulla_state_error} m"
  shows "(fst (fw_reset ops m) \<longrightarrow> safe (snd (fw_reset ops m))) \<and>
    (\<not> fst (fw_reset ops m) \<longrightarrow> allowed {medulla_state_error} (snd (fw_reset ops m)))"
  using assms reset_keep by (auto simp: fw_reset_def allowed_def consts_simp)

lemma error_block: "allowed {medulla_state_error} m \<Longrightarrow> safe (snd (fw_error ops m))"
  by (auto simp: fw_error_def allowed_def Let_def estop_off)

lemma machine_safe: "safe m \<Longrightarrow> safe (snd (fw_state_machine ops pressed m))"
proof -
  assume m: "safe m"
  have chain: "\<And>m. safe m \<Longrightarrow>
      safe (snd (until_continue [fw_run ops, fw_stop ops, fw_halt ops, fw_reset ops, fw_error ops] m))"
    by (rule until_continue_first, erule run_block, rule until_continue_first, erule stop_block,
        rule until_continue_first, erule halt_block, rule until_continue_first, erule reset_block)
      (use error_block in \<open>auto simp: split_beta\<close>)
  show ?thesis
    unfolding fw_state_machine_def
    by (rule until_continue_first [where P = safe], use idle_block [OF m] in blast,
        rule until_continue_first [where P = safe], use init_block in blast, erule chain)
qed

lemma step_safe: "fw_step ops m l m' \<Longrightarrow> safe m \<Longrightarrow> safe m'"
proof (induction rule: fw_step.induct)
  case (turn m edge)
  then show ?case
  proof (cases edge)
    case None
    with turn show ?thesis by (simp add: allowed_def fw_turn_none)
  next
    case (Some i)
    from machine_safe [OF sense_safe [OF turn(2)]] show ?thesis
      by (simp add: Some allowed_def fw_turn_some)
  qed
qed (auto simp: allowed_def watchdog_interrupt_def estop_off)

lemma reach_safe:
  assumes "fw_reach ops b m" and "\<not> powered b"
  shows "safe m"
  using assms(1)
proof (induction rule: fw_reach.induct)
  case (start counter)
  then show ?case using assms(2) by (simp add: allowed_def fw_start_def)
qed (auto intro: step_safe)

end

subsection \<open>The error state\<close>

text \<open>
  No step leaves the error state except a turn on an edge that finds the command reset when more
  than ESTOP_TIMEOUT_LENGTH turns have been counted.
\<close>

lemma error_turn:
  assumes "current_state m = medulla_state_error"
  shows "current_state (fw_turn ops (Some i) m) =
      (if rx_command i = medulla_state_reset \<and> ESTOP_TIMEOUT_LENGTH < estop_timeout_counter m + 1
       then medulla_state_reset else medulla_state_error) \<and>
    estop_timeout_counter (fw_turn ops (Some i) m) = estop_timeout_counter m + 1 \<and>
    board (fw_turn ops (Some i) m) = estop ops (post_ecat ops (update_inputs ops (sensors i) (board m)))"
  using assms
  by (simp add: fw_turn_def fw_machine_error split_beta) (simp add: fw_error_def Let_def consts_simp)

lemma error_step:
  assumes "fw_step ops m l m'" and "current_state m = medulla_state_error"
  shows "current_state m' = medulla_state_error \<or>
    (current_state m' = medulla_state_reset \<and>
     (\<exists>i. l = Turn (Some i) \<and> rx_command i = medulla_state_reset \<and>
          ESTOP_TIMEOUT_LENGTH < estop_timeout_counter m'))"
  using assms
proof (induction rule: fw_step.induct)
  case (turn m edge)
  then show ?case
    by (cases edge) (simp_all add: fw_turn_none error_turn)
qed (simp_all add: watchdog_interrupt_def)

lemma reset_turn:
  assumes "current_state m = medulla_state_reset"
  shows "current_state (fw_turn ops (Some i) m) = medulla_state_idle \<and>
    estop_debounce (fw_turn ops (Some i) m) = 0 \<and> master_watchdog_errors (fw_turn ops (Some i) m) = 0"
  using assms by (simp add: fw_turn_def fw_state_machine_def fw_skip consts_simp)
    (simp add: fw_reset_def consts_simp)

text \<open>
  Edges that all bring the command reset: the error state lasts until the counter passes the
  timeout, in the turn after that the medulla is idle and stays so.
\<close>

definition fw_turns :: "('s, 'b) medulla_ops \<Rightarrow> 's dc_edge list \<Rightarrow> 'b firmware \<Rightarrow> 'b firmware" where
  "fw_turns ops is m = run (\<lambda>m i. fw_turn ops (Some i) m) m is"

lemma error_too_early:
  assumes "current_state m = medulla_state_error"
    and "unat (estop_timeout_counter m) + length is \<le> 1000"
  shows "current_state (fw_turns ops is m) = medulla_state_error \<and>
    unat (estop_timeout_counter (fw_turns ops is m)) = unat (estop_timeout_counter m) + length is"
  using assms
proof (induction "is" arbitrary: m)
  case (Cons i "is")
  have n: "unat (estop_timeout_counter m + 1) = unat (estop_timeout_counter m) + 1"
    using Cons.prems(2) by (simp add: unat_word_ariths)
  have "\<not> ESTOP_TIMEOUT_LENGTH < estop_timeout_counter m + 1"
    using Cons.prems(2) n by (simp add: consts_simp word_less_nat_alt)
  with error_turn [OF Cons.prems(1), of ops i] Cons.IH [of "fw_turn ops (Some i) m"] Cons.prems(2) n
  show ?case by (simp add: fw_turns_def)
qed (simp add: fw_turns_def)

lemma idle_turn:
  assumes "current_state m = medulla_state_idle" and "rx_command i \<noteq> medulla_state_run"
  shows "current_state (fw_turn ops (Some i) m) = medulla_state_idle"
  using assms by (simp add: fw_turn_def fw_state_machine_def fw_idle_def Let_def)

lemma idle_turns:
  assumes "current_state m = medulla_state_idle" and "\<forall>i \<in> set is. rx_command i \<noteq> medulla_state_run"
  shows "current_state (fw_turns ops is m) = medulla_state_idle"
  using assms by (induction "is" arbitrary: m) (simp_all add: fw_turns_def idle_turn)

lemma error_waits:
  assumes "current_state m = medulla_state_error" and "\<forall>i \<in> set is. rx_command i \<noteq> medulla_state_reset"
  shows "current_state (fw_turns ops is m) = medulla_state_error \<and>
    estop_timeout_counter (fw_turns ops is m) = estop_timeout_counter m + of_nat (length is)"
  using assms
proof (induction "is" arbitrary: m)
  case (Cons i "is")
  with error_turn [OF Cons.prems(1), of ops i] Cons.IH [of "fw_turn ops (Some i) m"]
  show ?case by (simp add: fw_turns_def add.commute add.left_commute)
qed (simp add: fw_turns_def)

lemma reset_leaves:
  assumes "current_state m \<in> {medulla_state_reset, medulla_state_idle}"
    and "\<forall>i \<in> set is. rx_command i = medulla_state_reset"
  shows "current_state (fw_turns ops is m) \<in> {medulla_state_reset, medulla_state_idle}"
  using assms
proof (induction "is" arbitrary: m)
  case (Cons i "is")
  then have "current_state (fw_turn ops (Some i) m) = medulla_state_idle"
    using reset_turn [of m ops i] idle_turn [of m i ops] by (auto simp: consts_simp)
  with Cons show ?case by (simp add: fw_turns_def)
qed (simp add: fw_turns_def)

lemma reset_tries:
  assumes "current_state m = medulla_state_error" and "\<forall>i \<in> set is. rx_command i = medulla_state_reset"
  shows "if \<forall>j \<in> {1..length is}. estop_timeout_counter m + of_nat j \<le> ESTOP_TIMEOUT_LENGTH
    then current_state (fw_turns ops is m) = medulla_state_error
    else current_state (fw_turns ops is m) \<in> {medulla_state_reset, medulla_state_idle}"
  using assms
proof (induction "is" arbitrary: m)
  case (Cons i "is")
  let ?m = "fw_turn ops (Some i) m"
  note t = error_turn [OF Cons.prems(1), of ops i]
  have s: "fw_turns ops (i # is) m = fw_turns ops is ?m" by (simp add: fw_turns_def)
  have all: "(\<forall>j \<in> {1..length (i # is)}. P j) \<longleftrightarrow> P 1 \<and> (\<forall>j \<in> {1..length is}. P (Suc j))" for P
  proof -
    have "{1..length (i # is)} = insert 1 (Suc ` {1..length is})" by (auto simp: image_Suc_atLeastAtMost)
    then show ?thesis by (simp only: ball_simps)
  qed
  show ?case
  proof (cases "estop_timeout_counter m + 1 \<le> ESTOP_TIMEOUT_LENGTH")
    case True
    with t have "current_state ?m = medulla_state_error" "estop_timeout_counter ?m = estop_timeout_counter m + 1"
      by auto
    with Cons.IH [of ?m] Cons.prems(2) True show ?thesis unfolding s all by (simp add: add.assoc)
  next
    case False
    with t Cons.prems(2) have "current_state ?m = medulla_state_reset" by (simp add: not_le)
    with reset_leaves [of ?m "is" ops] Cons.prems(2) False show ?thesis unfolding s all by simp
  qed
qed (simp add: fw_turns_def)

lemma reset_window_arith:
  "(\<forall>j \<in> {1..6::nat}. (of_nat (n + j) :: uint16) \<le> ESTOP_TIMEOUT_LENGTH) \<longleftrightarrow> (n + 1) mod 65536 \<le> 995"
proof -
  have w: "(of_nat k :: uint16) \<le> ESTOP_TIMEOUT_LENGTH \<longleftrightarrow> k mod 65536 \<le> 1000" for k
    by (simp add: word_le_nat_alt unat_of_nat consts_simp take_bit_eq_mod)
  define r where "r = (n + 1) mod 65536"
  have r: "r < 65536" by (simp add: r_def)
  have m: "(n + j) mod 65536 = (if r + j \<le> 65536 then r + j - 1 else r + j - 65537)"
    if "j \<in> {1..6}" for j
  proof -
    have "(n + j) mod 65536 = (n + 1 + (j - 1)) mod 65536" using that by simp
    also have "\<dots> = (r + (j - 1)) mod 65536" unfolding r_def by (rule mod_add_left_eq [symmetric])
    also have "\<dots> = (if r + j \<le> 65536 then r + j - 1 else r + j - 65537)"
      using that r by (auto simp: le_mod_geq)
    finally show ?thesis .
  qed
  show ?thesis
  proof
    assume *: "\<forall>j \<in> {1..6::nat}. (of_nat (n + j) :: uint16) \<le> ESTOP_TIMEOUT_LENGTH"
    have "r \<le> 1000" using * [rule_format, of 1] unfolding w r_def by simp
    then show "(n + 1) mod 65536 \<le> 995" using * [rule_format, of 6] m [of 6] unfolding w r_def [symmetric] by simp
  next
    assume "(n + 1) mod 65536 \<le> 995"
    then show "\<forall>j \<in> {1..6::nat}. (of_nat (n + j) :: uint16) \<le> ESTOP_TIMEOUT_LENGTH"
      unfolding w r_def [symmetric] using m by (auto simp del: of_nat_add)
  qed
qed

lemma reset_window:
  fixes m :: "'b firmware"
  assumes "current_state m = medulla_state_error" and "estop_timeout_counter m = 0"
    and "\<forall>i \<in> set waiting. rx_command i \<noteq> medulla_state_reset"
    and "\<forall>i \<in> set resets. rx_command i = medulla_state_reset" and "length resets = 6"
  shows "if (length waiting + 1) mod 65536 \<le> 995
    then current_state (fw_turns ops (waiting @ resets) m) = medulla_state_error
    else current_state (fw_turns ops (waiting @ resets) m) \<in> {medulla_state_reset, medulla_state_idle}"
proof -
  let ?m = "fw_turns ops waiting m"
  have m: "current_state ?m = medulla_state_error" "estop_timeout_counter ?m = of_nat (length waiting)"
    using error_waits [OF assms(1,3), of ops] assms(2) by simp_all
  have "fw_turns ops (waiting @ resets) m = fw_turns ops resets ?m" by (simp add: fw_turns_def run_append)
  with reset_tries [OF m(1) assms(4), of ops] show ?thesis
    unfolding m(2) assms(5) of_nat_add [symmetric] reset_window_arith by presburger
qed

subsection \<open>Runs\<close>

lemma helpers_hung [simp]:
  "fw_hung (fw_obey m) = fw_hung m" "fw_hung (fw_master_watchdog m) = fw_hung m"
  "fw_hung (fw_debounced_estop m) = fw_hung m"
  by (simp_all add: fw_obey_def fw_master_watchdog_def fw_debounced_estop_def Let_def)

lemma blocks_hung [simp]:
  "fw_hung (snd (fw_idle m)) = fw_hung m"
  "fw_hung (snd (fw_init ops pressed m)) = fw_hung m"
  "fw_hung (snd (fw_run ops m)) = fw_hung m"
  "fw_hung (snd (fw_stop ops m)) = fw_hung m"
  "fw_hung (snd (fw_halt ops m)) = fw_hung m"
  "fw_hung (snd (fw_reset ops m)) = fw_hung m"
  "fw_hung (snd (fw_error ops m)) = fw_hung m"
  by (simp_all add: fw_idle_def fw_init_def fw_run_def fw_stop_def fw_halt_def fw_reset_def
      fw_error_def Let_def split_beta)

lemma fw_turn_hung [simp]:
  fixes m :: "'b firmware"
  shows "fw_hung (fw_turn ops edge m) = fw_hung m"
proof (cases edge)
  case (Some i)
  define P where "P m' \<longleftrightarrow> fw_hung m' = fw_hung m" for m' :: "'b firmware"
  have "P (snd (fw_state_machine ops (estop_pressed_init i) (fw_sense ops i m)))"
    unfolding fw_state_machine_def
  proof (rule until_continue_invariant)
    show "P (fw_sense ops i m)" by (simp add: P_def)
  qed (auto simp: P_def)
  then show ?thesis by (simp add: Some fw_turn_def P_def split_beta)
qed (simp add: fw_turn_def)

lemma fw_turns_reach:
  assumes "fw_reach ops b m" and "\<not> fw_hung m"
  shows "fw_reach ops b (fw_turns ops is m)"
  using assms
proof (induction "is" arbitrary: m)
  case (Cons i "is")
  have "fw_reach ops b (fw_turn ops (Some i) m)"
    using Cons.prems by (auto intro: fw_reach.step fw_step.turn)
  with Cons.IH Cons.prems(2) show ?case by (simp add: fw_turns_def)
qed (simp add: fw_turns_def)

text \<open>From idle to run: the command run, seen in two turns.\<close>

lemma idle_run_turn:
  assumes "current_state m = medulla_state_idle" and "rx_command i = medulla_state_run"
  shows "current_state (fw_turn ops (Some i) m) = medulla_state_init"
  using assms by (simp add: fw_turn_def fw_state_machine_def fw_idle_def Let_def consts_simp)

lemma init_turn:
  assumes "current_state m = medulla_state_init" and "\<not> estop_pressed_init i"
    and "\<And>b. \<not> fst (check_error ops b)" and "\<And>b. \<not> fst (check_halt ops b)"
  shows "current_state (fw_turn ops (Some i) m) = medulla_state_run \<and>
    (\<exists>b. board (fw_turn ops (Some i) m) = enable_outputs ops b) \<and>
    master_watchdog_errors (fw_turn ops (Some i) m) = 0"
  using assms by (simp add: fw_turn_def fw_state_machine_def fw_skip split_beta consts_simp)
    (simp add: fw_init_def Let_def split_beta consts_simp, blast)

text \<open>Sequences of steps, and what every function of the board preserves along them.\<close>

inductive fw_path :: "('s, 'b) medulla_ops \<Rightarrow> 'b firmware \<Rightarrow> 's fw_label list \<Rightarrow> 'b firmware \<Rightarrow> bool"
  for ops :: "('s, 'b) medulla_ops" where
  fw_path_nil: "fw_path ops m [] m"
| fw_path_step: "fw_step ops m l m' \<Longrightarrow> fw_path ops m' ls m'' \<Longrightarrow> fw_path ops m (l # ls) m''"

lemma fw_blocks_board:
  assumes "Q (board m)" and "\<And>b. Q b \<Longrightarrow> Q (enable_outputs ops b)"
    and "\<And>b. Q b \<Longrightarrow> Q (disable_outputs ops b)" and "\<And>b. Q b \<Longrightarrow> Q (snd (run_halt ops b))"
    and "\<And>b. Q b \<Longrightarrow> Q (update_outputs ops (motor_current_pdo m) b)"
    and "\<And>b. Q b \<Longrightarrow> Q (estop ops b)" and "\<And>b. Q b \<Longrightarrow> Q (snd (check_error ops b))"
    and "\<And>b. Q b \<Longrightarrow> Q (snd (check_halt ops b))" and "\<And>b. Q b \<Longrightarrow> Q (reset_error ops b)"
    and "block \<in> set [fw_idle, fw_init ops pressed, fw_run ops, fw_stop ops, fw_halt ops, fw_reset ops, fw_error ops]"
  shows "Q (board (snd (block m))) \<and> motor_current_pdo (snd (block m)) = motor_current_pdo m"
  using assms(10) assms(1)
  by (auto simp: fw_idle_def fw_init_def fw_run_def fw_stop_def fw_halt_def fw_reset_def fw_error_def
      fw_obey_def fw_master_watchdog_def fw_debounced_estop_def main_estop_def
      Let_def split_beta enter_error_def assms(2-9))

lemma fw_path_board:
  fixes ops :: "('s, 'b) medulla_ops"
  assumes "\<And>b. Q b \<Longrightarrow> Q (enable_outputs ops b)"
    and "\<And>b. Q b \<Longrightarrow> Q (disable_outputs ops b)" and "\<And>b. Q b \<Longrightarrow> Q (snd (run_halt ops b))"
    and "\<And>w b. C w \<Longrightarrow> Q b \<Longrightarrow> Q (update_outputs ops w b)"
    and "\<And>b. Q b \<Longrightarrow> Q (estop ops b)" and "\<And>b. Q b \<Longrightarrow> Q (snd (check_error ops b))"
    and "\<And>b. Q b \<Longrightarrow> Q (snd (check_halt ops b))" and "\<And>b. Q b \<Longrightarrow> Q (reset_error ops b)"
    and "\<And>s b. Q b \<Longrightarrow> Q (update_inputs ops s b)" and "\<And>b. Q b \<Longrightarrow> Q (post_ecat ops b)"
    and "fw_path ops m ls m'" and "Q (board m)" and "\<And>i. Turn (Some i) \<in> set ls \<Longrightarrow> C (rx_current i)"
  shows "Q (board m')"
  using assms(11-13)
proof (induction rule: fw_path.induct)
  case (fw_path_step m l m' ls m'')
  have "Q (board m')"
    using fw_path_step.hyps(1) fw_path_step.prems
  proof (cases rule: fw_step.cases)
    case (turn edge)
    show ?thesis
    proof (cases edge)
      case (Some i)
      define P where "P x \<longleftrightarrow> Q (board x) \<and> motor_current_pdo x = rx_current i" for x :: "'b firmware"
      have c: "C (rx_current i)" using fw_path_step.prems(2) turn(1) Some by simp
      have "P (snd (fw_state_machine ops (estop_pressed_init i) (fw_sense ops i m)))"
        unfolding fw_state_machine_def
      proof (rule until_continue_invariant)
        show "P (fw_sense ops i m)" using fw_path_step.prems(1) by (simp add: P_def assms(9,10))
      next
        fix block x
        assume b: "block \<in> set [fw_idle, fw_init ops (estop_pressed_init i), fw_run ops, fw_stop ops,
            fw_halt ops, fw_reset ops, fw_error ops]" and x: "P x"
        have "Q (board (snd (block x))) \<and> motor_current_pdo (snd (block x)) = motor_current_pdo x"
          by (rule fw_blocks_board [where pressed = "estop_pressed_init i", OF _ assms(1-3) _ assms(5-8) b])
            (use x c in \<open>auto simp: P_def intro: assms(4)\<close>)
        then show "P (snd (block x))" using x by (simp add: P_def)
      qed
      then show ?thesis by (simp add: turn(2) Some fw_turn_some P_def)
    qed (use turn fw_path_step.prems in \<open>simp add: fw_turn_none\<close>)
  qed (simp_all add: watchdog_interrupt_def assms(5))
  with fw_path_step show ?case by auto
qed

subsection \<open>Boards that never ask for a halt\<close>

locale quiet_board = medulla_board +
  assumes no_halt: "check_halt ops b = (False, b)"
begin

text \<open>The state that the run block leads to, and whether the outputs are still on.\<close>

lemma run_state:
  assumes "current_state m = medulla_state_run"
  shows "current_state (snd (fw_run ops m)) =
    (if fst (check_error ops (board m)) \<or> ESTOP_DEBOUNCE_LIMIT < sint (estop_debounce m) \<or>
        10 \<le> (if master_watchdog_counter m = previous_master_watchdog m
              then master_watchdog_errors m + 1 else 0)
     then medulla_state_error else current_state (fw_obey m))"
    and "fst (fw_run ops m) \<longleftrightarrow> current_state (snd (fw_run ops m)) = medulla_state_run"
    and "commanded_state (snd (fw_run ops m)) = commanded_state m"
    and "previous_master_watchdog (snd (fw_run ops m)) = master_watchdog_counter m"
    and "master_watchdog_errors (snd (fw_run ops m)) =
      (if master_watchdog_counter m = previous_master_watchdog m then master_watchdog_errors m + 1 else 0)"
  using assms
  by (simp_all add: fw_run_def Let_def split_beta no_halt ask_board_def) (simp_all add: fw_obey_def)

lemma run_turn:
  assumes "current_state m = medulla_state_run" and "r = snd (fw_run ops (fw_sense ops i m))"
  shows "snd (fw_state_machine ops pressed (fw_sense ops i m)) =
    (if current_state r = medulla_state_run then r
     else snd (until_continue [fw_stop ops, fw_halt ops, fw_reset ops, fw_error ops] r))"
  using run_state(2) [of "fw_sense ops i m"] assms
  by (simp add: fw_state_machine_def fw_skip split_beta consts_simp del: until_continue.simps)
    (auto simp: split_beta fw_skip consts_simp)

lemma error_block_state:
  assumes "current_state r = medulla_state_error"
  shows "snd (until_continue [fw_stop ops, fw_halt ops, fw_reset ops, fw_error ops] r) = snd (fw_error ops r)"
  using assms by (simp add: fw_skip consts_simp split_beta)

lemma fw_error_entered:
  assumes "current_state r = medulla_state_error"
  shows "\<not> powered (board (snd (fw_error ops r)))"
    and "AssertEStop \<in> set (drop (length (fw_calls r)) (fw_calls (snd (fw_error ops r))))"
    and "commanded_state r \<noteq> medulla_state_reset \<Longrightarrow> current_state (snd (fw_error ops r)) = medulla_state_error"
  using assms by (simp_all add: fw_error_def Let_def estop_off)

lemma not_run_again:
  assumes "current_state r \<in> {medulla_state_stop, medulla_state_halt, medulla_state_error}"
  shows "current_state (snd (until_continue [fw_stop ops, fw_halt ops, fw_reset ops, fw_error ops] r))
    \<noteq> medulla_state_run"
proof -
  consider "current_state r = medulla_state_stop" | "current_state r = medulla_state_halt"
    | "current_state r = medulla_state_error" using assms by blast
  then show ?thesis
  proof cases
    case 1
    then show ?thesis by (simp add: fw_stop_def consts_simp)
  next
    case 2
    then have "current_state (snd (fw_halt ops r)) \<in> {medulla_state_halt, medulla_state_error}"
      "\<not> fst (fw_halt ops r) \<Longrightarrow> current_state (snd (fw_halt ops r)) = medulla_state_error"
      by (auto simp: fw_halt_def Let_def split_beta)
    moreover have "current_state (snd (fw_error ops r')) \<noteq> medulla_state_run"
      if "current_state r' = medulla_state_error" for r'
      using that by (simp add: fw_error_def Let_def consts_simp)
    ultimately show ?thesis using 2 by (auto simp: fw_skip split_beta consts_simp)
  next
    case 3
    then show ?thesis by (simp only: error_block_state) (simp add: fw_error_def Let_def consts_simp)
  qed
qed

text \<open>The command error cuts the power in the turn that receives it.\<close>

lemma error_command:
  assumes "current_state m = medulla_state_run" and "rx_command i = medulla_state_error"
  shows "current_state (fw_turn ops (Some i) m) = medulla_state_error \<and>
    \<not> powered (board (fw_turn ops (Some i) m))"
proof -
  let ?r = "snd (fw_run ops (fw_sense ops i m))"
  have "current_state ?r = medulla_state_error"
    using assms by (simp add: run_state fw_obey_def consts_simp)
  moreover have "commanded_state ?r = medulla_state_error"
    using assms by (simp add: run_state)
  ultimately show ?thesis
    using run_turn [OF assms(1) refl, of _ i] error_block_state [of ?r] fw_error_entered [of ?r]
    by (simp add: fw_turn_some consts_simp del: until_continue.simps)
qed

lemma stop_command:
  assumes "current_state m = medulla_state_run"
    and "rx_command i \<in> {medulla_state_stop, medulla_state_idle}"
  shows "current_state (fw_turn ops (Some i) m) \<in> {medulla_state_idle, medulla_state_error} \<and>
    \<not> powered (board (fw_turn ops (Some i) m))"
proof -
  let ?r = "snd (fw_run ops (fw_sense ops i m))"
  have c: "commanded_state ?r = rx_command i" using assms by (simp add: run_state)
  have "current_state ?r \<in> {medulla_state_stop, medulla_state_error}"
    using assms by (auto simp: run_state fw_obey_def)
  then consider "current_state ?r = medulla_state_stop" | "current_state ?r = medulla_state_error" by blast
  then show ?thesis
  proof cases
    case 1
    then show ?thesis
      using run_turn [OF assms(1) refl, of _ i] disable_off
      by (simp add: fw_turn_some consts_simp fw_stop_def)
  next
    case 2
    then show ?thesis
      using run_turn [OF assms(1) refl, of _ i] error_block_state [of ?r] fw_error_entered [of ?r] c assms(2)
      by (auto simp: fw_turn_some consts_simp simp del: until_continue.simps)
  qed
qed

lemma run_block_outputs:
  assumes "fst (fw_run ops m)"
  shows "\<exists>b. board (snd (fw_run ops m)) = update_outputs ops (motor_current_pdo m) b"
proof -
  have current [simp]: "motor_current_pdo (fw_obey m) = motor_current_pdo m"
    "motor_current_pdo (fw_master_watchdog m) = motor_current_pdo m"
    "motor_current_pdo (fw_debounced_estop m) = motor_current_pdo m"
    "motor_current_pdo (enter_error m) = motor_current_pdo m" for m :: "'b firmware"
    by (simp_all add: fw_obey_def fw_master_watchdog_def fw_debounced_estop_def enter_error_def Let_def)
  have update: "board (on_board f x) = f (board x)" for f and x :: "'b firmware" by simp
  show ?thesis
    using assms unfolding fw_run_def Let_def split_beta
    by (simp add: no_halt cong: if_cong split del: if_split) (auto simp del: fw_master_watchdog_simps split: if_splits)
qed

text \<open>A turn that stays in run is the run block alone, and it sets the outputs.\<close>

lemma run_stays:
  assumes "current_state m = medulla_state_run"
    and "current_state (fw_turn ops (Some i) m) = medulla_state_run"
  shows "fw_turn ops (Some i) m = snd (fw_run ops (fw_sense ops i m))"
    and "\<exists>b. board (fw_turn ops (Some i) m) = update_outputs ops (rx_current i) b"
proof -
  let ?r = "snd (fw_run ops (fw_sense ops i m))"
  have r: "current_state ?r = medulla_state_run"
  proof (rule ccontr)
    assume n: "current_state ?r \<noteq> medulla_state_run"
    then have "current_state ?r \<in> {medulla_state_stop, medulla_state_halt, medulla_state_error}"
      using assms(1) by (auto simp: run_state fw_obey_def split: if_splits)
    from not_run_again [OF this] n show False
      using assms(2) run_turn [OF assms(1) refl, of "estop_pressed_init i" i] by (simp add: fw_turn_some)
  qed
  then show m: "fw_turn ops (Some i) m = ?r"
    using run_turn [OF assms(1) refl, of "estop_pressed_init i" i]
    by (simp add: fw_turn_def split_beta consts_simp)
  have "fst (fw_run ops (fw_sense ops i m))" using run_state(2) [of "fw_sense ops i m"] r assms(1) by simp
  from run_block_outputs [OF this] have "\<exists>b. board ?r = update_outputs ops (rx_current i) b" by simp
  then show "\<exists>b. board (fw_turn ops (Some i) m) = update_outputs ops (rx_current i) b" by (simp only: m)
qed

text \<open>
  The watchdog of the master: a turn that stays in run counts a repeated counter of the master,
  and there is room for nine.
\<close>

lemma watchdog_counts:
  assumes "current_state m = medulla_state_run"
    and "current_state (fw_turn ops (Some i) m) = medulla_state_run"
    and "rx_counter i = previous_master_watchdog m"
  shows "master_watchdog_errors m + 1 < 10 \<and>
    master_watchdog_errors (fw_turn ops (Some i) m) = master_watchdog_errors m + 1 \<and>
    previous_master_watchdog (fw_turn ops (Some i) m) = previous_master_watchdog m"
proof -
  let ?m = "fw_sense ops i m"
  note m = run_stays(1) [OF assms(1,2)]
  have r: "current_state (snd (fw_run ops ?m)) = medulla_state_run" using assms(2) m by simp
  have "current_state ?m = medulla_state_run" using assms(1) by simp
  with r assms(3) show ?thesis unfolding m
    by (simp add: run_state consts_simp not_le split: if_splits)
qed

lemma frozen_counter_counts:
  assumes "current_state m = medulla_state_run" and "master_watchdog_errors m < 10"
    and "\<forall>i \<in> set is. rx_counter i = previous_master_watchdog m"
    and "\<forall>n \<le> length is. current_state (fw_turns ops (take n is) m) = medulla_state_run"
  shows "unat (master_watchdog_errors m) + length is < 10 \<or> is = []"
  using assms
proof (induction "is" arbitrary: m)
  case (Cons i "is")
  let ?m = "fw_turn ops (Some i) m"
  have run: "current_state ?m = medulla_state_run"
    using Cons.prems(4) [rule_format, of 1] by (simp add: fw_turns_def)
  note w = watchdog_counts [OF Cons.prems(1) run]
  have p: "master_watchdog_errors m + 1 < 10" "master_watchdog_errors ?m = master_watchdog_errors m + 1"
    "previous_master_watchdog ?m = previous_master_watchdog m"
    using w Cons.prems(3) by simp_all
  have "current_state (fw_turns ops (take n is) ?m) = medulla_state_run" if "n \<le> length is" for n
    using Cons.prems(4) [rule_format, of "Suc n"] that by (simp add: fw_turns_def)
  then have IH: "unat (master_watchdog_errors ?m) + length is < 10 \<or> is = []"
    using Cons.IH [OF run] Cons.prems(3) p by simp
  have "unat (master_watchdog_errors ?m) = unat (master_watchdog_errors m) + 1"
    using Cons.prems(2) p(2) by (simp add: unat_word_ariths word_less_nat_alt)
  with IH p show ?case by (cases "is") (auto simp: word_less_nat_alt)
qed simp

text \<open>The command error leads out of every state but halt, at the latest in the second turn.\<close>

lemma error_command_turn:
  assumes "rx_command i = medulla_state_error" and "current_state m \<noteq> medulla_state_halt"
  shows "current_state (fw_turn ops (Some i) m) \<notin> {medulla_state_init, medulla_state_halt}"
    and "current_state (fw_turn ops (Some i) m) = medulla_state_run \<Longrightarrow> current_state m = medulla_state_init"
proof -
  let ?m = "fw_sense ops i m"
  let ?t = "current_state (fw_turn ops (Some i) m)"
  consider (idle) "current_state m = medulla_state_idle" | (init) "current_state m = medulla_state_init"
    | (run) "current_state m = medulla_state_run" | (stop) "current_state m = medulla_state_stop"
    | (reset) "current_state m = medulla_state_reset"
    | (other) "current_state m \<notin> {medulla_state_idle, medulla_state_init, medulla_state_run,
        medulla_state_stop, medulla_state_halt, medulla_state_reset}"
    using assms(2) by auto
  then have "?t \<notin> {medulla_state_init, medulla_state_halt} \<and>
    (?t = medulla_state_run \<longrightarrow> current_state m = medulla_state_init)"
  proof cases
    case idle
    then show ?thesis using idle_turn [of m i ops] assms(1) by (simp add: consts_simp)
  next
    case init
    let ?r = "fw_init ops (estop_pressed_init i) ?m"
    have s: "snd (fw_state_machine ops (estop_pressed_init i) ?m) =
      (if fst ?r then snd ?r else snd (until_continue [fw_run ops, fw_stop ops, fw_halt ops, fw_reset ops, fw_error ops] (snd ?r)))"
      using init by (simp add: fw_state_machine_def fw_skip consts_simp split_beta)
    have "fst ?r \<and> current_state (snd ?r) = medulla_state_run \<or>
      \<not> fst ?r \<and> current_state (snd ?r) = medulla_state_error \<and> commanded_state (snd ?r) = medulla_state_error"
      using init assms(1) by (simp add: fw_init_def Let_def split_beta)
    moreover have "current_state (snd (until_continue [fw_run ops, fw_stop ops, fw_halt ops, fw_reset ops, fw_error ops] r)) = medulla_state_error"
      if "current_state r = medulla_state_error" "commanded_state r = medulla_state_error" for r
      using that by (simp add: fw_skip consts_simp split_beta) (simp add: fw_error_def consts_simp Let_def)
    ultimately show ?thesis using init by (auto simp: fw_turn_some s consts_simp)
  next
    case run
    then show ?thesis using error_command [OF run assms(1)] by (simp add: consts_simp)
  next
    case stop
    then have "?t = medulla_state_idle"
      by (simp add: fw_turn_some fw_state_machine_def fw_skip consts_simp split_beta) (simp add: fw_stop_def consts_simp)
    then show ?thesis by (simp add: consts_simp)
  next
    case reset
    then show ?thesis using reset_turn [OF reset, of ops i] by (simp add: consts_simp)
  next
    case other
    then have "?t = current_state m"
      using assms(1) by (simp add: fw_turn_some fw_state_machine_def fw_skip split_beta)
        (simp add: fw_error_def Let_def consts_simp)
    with other show ?thesis by auto
  qed
  then show "?t \<notin> {medulla_state_init, medulla_state_halt}"
    "?t = medulla_state_run \<Longrightarrow> current_state m = medulla_state_init" by blast+
qed

text \<open>A turn in halt: an error, or one more step of the halt controller.\<close>

lemma halt_turn:
  assumes "current_state m = medulla_state_halt" and "\<And>b. \<not> fst (check_error ops b)"
    and "b1 = snd (check_error ops (post_ecat ops (update_inputs ops (sensors i) (board m))))"
  shows "current_state (fw_turn ops (Some i) m) = medulla_state_error \<and>
      \<not> powered (board (fw_turn ops (Some i) m)) \<or>
    current_state (fw_turn ops (Some i) m) = medulla_state_halt \<and> fst (run_halt ops b1) \<and>
      board (fw_turn ops (Some i) m) = snd (run_halt ops b1)"
proof (cases "ESTOP_DEBOUNCE_LIMIT < sint (estop_debounce (fw_sense ops i m))")
  case True
  let ?m = "fw_sense ops i m"
  have h: "\<not> fst (fw_halt ops ?m)" "current_state (snd (fw_halt ops ?m)) = medulla_state_error"
    "estop_timeout_counter (snd (fw_halt ops ?m)) = 0"
    using assms(1,2) True
    by (simp_all add: fw_halt_def Let_def split_beta consts_simp fw_debounced_estop_def enter_error_def)
  have "snd (fw_state_machine ops (estop_pressed_init i) ?m) = snd (fw_error ops (snd (fw_halt ops ?m)))"
    using assms(1) h(1,2) by (simp add: fw_state_machine_def fw_skip split_beta consts_simp)
  then show ?thesis
    using h(2,3) by (simp add: fw_turn_some fw_error_def Let_def estop_off consts_simp)
next
  case False
  let ?m = "fw_sense ops i m"
  have "fst (fw_halt ops ?m)"
    "current_state (snd (fw_halt ops ?m)) =
       (if fst (run_halt ops b1) then medulla_state_halt else medulla_state_error)"
    "board (snd (fw_halt ops ?m)) =
       (if fst (run_halt ops b1) then snd (run_halt ops b1)
        else disable_outputs ops (snd (run_halt ops b1)))"
    using assms False
    by (simp_all add: fw_halt_def Let_def split_beta fw_debounced_estop_def)
  moreover have "snd (fw_state_machine ops (estop_pressed_init i) ?m) = snd (fw_halt ops ?m)"
    using assms(1) calculation(1) by (simp add: fw_state_machine_def fw_skip split_beta consts_simp)
  ultimately show ?thesis by (simp add: fw_turn_some disable_off)
qed

lemma halt_stays:
  assumes "current_state m = medulla_state_halt" and "\<And>b. \<not> fst (check_error ops b)"
    and "\<And>b. fst (run_halt ops b)" and "sint (estop_debounce m) \<le> ESTOP_DEBOUNCE_LIMIT"
    and "\<not> estop_pressed i"
  shows "current_state (fw_turn ops (Some i) m) = medulla_state_halt \<and>
    sint (estop_debounce (fw_turn ops (Some i) m)) \<le> ESTOP_DEBOUNCE_LIMIT"
proof -
  let ?m = "fw_sense ops i m"
  have d: "sint (estop_debounce ?m) \<le> ESTOP_DEBOUNCE_LIMIT"
  proof (cases "0 < sint (estop_debounce m)")
    case True
    then have "- (2 ^ 15) \<le> sint (estop_debounce m) - 1 \<and> sint (estop_debounce m) - 1 < 2 ^ 15"
      using sint_lt [of "estop_debounce m"] by simp
    then have "sint (estop_debounce m - 1) = sint (estop_debounce m) - 1"
      by (simp add: sint_word_ariths signed_take_bit_int_eq_self_iff)
    with True assms(4,5) show ?thesis by (simp add: fw_sense_def Let_def)
  qed (use assms(4,5) in \<open>simp add: fw_sense_def Let_def\<close>)
  then have f: "fst (fw_halt ops ?m)"
    and "current_state (snd (fw_halt ops ?m)) = medulla_state_halt"
    and "estop_debounce (snd (fw_halt ops ?m)) = estop_debounce ?m"
    using assms(1-3)
    by (simp_all add: fw_halt_def Let_def split_beta fw_debounced_estop_def not_less)
  moreover have "snd (fw_state_machine ops (estop_pressed_init i) ?m) = snd (fw_halt ops ?m)"
    using assms(1) f by (simp add: fw_state_machine_def fw_skip split_beta consts_simp)
  ultimately show ?thesis using d by (simp add: fw_turn_def split_beta)
qed

text \<open>The watchdog's count stays in its range, so that it cannot wrap.\<close>

definition wd_ok :: "'b firmware \<Rightarrow> bool" where
  "wd_ok m \<longleftrightarrow> master_watchdog_errors m \<le> 10 \<and>
     (current_state m = medulla_state_run \<longrightarrow> master_watchdog_errors m < 10)"

lemma enter_error_wd: "wd_ok m \<Longrightarrow> wd_ok (enter_error m)"
  by (simp add: wd_ok_def consts_simp)

lemma word_le_10: "(e :: uint8) < 10 \<Longrightarrow> e + 1 \<le> 10"
  by (simp add: inc_le)

lemma run_block_wd: "wd_ok m \<Longrightarrow> wd_ok (snd (fw_run ops m))"
proof (cases "current_state m = medulla_state_run")
  case True
  assume "wd_ok m"
  define e where "e = (if master_watchdog_counter m = previous_master_watchdog m
    then master_watchdog_errors m + 1 else 0)"
  from \<open>wd_ok m\<close> True have "e \<le> 10" by (simp add: wd_ok_def e_def word_le_10)
  moreover have "master_watchdog_errors (snd (fw_run ops m)) = e"
    using True by (simp only: run_state e_def)
  moreover have "e < 10" if "current_state (snd (fw_run ops m)) = medulla_state_run"
    using that unfolding run_state(1) [OF True] e_def [symmetric]
    by (auto simp: consts_simp split: if_splits)
  ultimately show ?thesis by (simp add: wd_ok_def)
qed (simp add: fw_skip)

lemma blocks_wd:
  "wd_ok m \<Longrightarrow> wd_ok (snd (fw_idle m))"
  "wd_ok m \<Longrightarrow> wd_ok (snd (fw_init ops pressed m))"
  "wd_ok m \<Longrightarrow> wd_ok (snd (fw_stop ops m))"
  "wd_ok m \<Longrightarrow> wd_ok (snd (fw_halt ops m))"
  "wd_ok m \<Longrightarrow> wd_ok (snd (fw_reset ops m))"
  "wd_ok m \<Longrightarrow> wd_ok (snd (fw_error ops m))"
proof -
  assume m: "wd_ok m"
  show "wd_ok (snd (fw_idle m))" using m by (simp add: fw_idle_def wd_ok_def Let_def consts_simp)
  show "wd_ok (snd (fw_init ops pressed m))"
    using m by (simp add: fw_init_def wd_ok_def Let_def split_beta consts_simp)
  show "wd_ok (snd (fw_stop ops m))" using m by (simp add: fw_stop_def wd_ok_def consts_simp)
  show "wd_ok (snd (fw_halt ops m))"
    using m by (simp add: fw_halt_def wd_ok_def Let_def split_beta consts_simp)
  show "wd_ok (snd (fw_reset ops m))" using m by (simp add: fw_reset_def wd_ok_def consts_simp)
  show "wd_ok (snd (fw_error ops m))"
    using m by (simp add: fw_error_def wd_ok_def Let_def consts_simp main_estop_def)
qed

lemma reach_wd: "fw_reach ops b m \<Longrightarrow> wd_ok m"
proof (induction rule: fw_reach.induct)
  case (step m l m')
  from step(2) step.IH show ?case
  proof (induction rule: fw_step.induct)
    case (turn m edge)
    show ?case
    proof (cases edge)
      case (Some i)
      have m: "wd_ok (fw_sense ops i m)" using turn(2) by (simp add: wd_ok_def)
      have "wd_ok (snd (fw_state_machine ops (estop_pressed_init i) (fw_sense ops i m)))"
        unfolding fw_state_machine_def
        by (rule until_continue_invariant [where P = wd_ok, OF _ m]) (use blocks_wd run_block_wd in auto)
      then show ?thesis by (simp add: Some fw_turn_def split_beta wd_ok_def)
    qed (use turn in \<open>simp add: wd_ok_def fw_turn_def\<close>)
  qed (simp_all add: wd_ok_def watchdog_interrupt_def main_estop_def)
qed (simp add: wd_ok_def fw_start_def)

end

end
