(* ===== verification/Amplifier.thy ===== *)
theory Amplifier
  imports Firmware
begin

text \<open>
  The motor amplifier as the firmware drives it (\<open>firmware/atrias2.1/src/amplifier.c\<close>): a PWM
  output, a direction pin and messages on a serial line. The calls to the drivers of these
  peripherals are recorded in order, with the two that switch the limit switch port.
\<close>

definition AMP_GET_WRITE_ACCESS_63 :: nat where "AMP_GET_WRITE_ACCESS_63 = 0"
definition AMP_GET_WRITE_ACCESS_62 :: nat where "AMP_GET_WRITE_ACCESS_62 = 1"
definition AMP_ENABLE_63 :: nat where "AMP_ENABLE_63 = 2"
definition AMP_ENABLE_62 :: nat where "AMP_ENABLE_62 = 3"
definition AMP_DISABLE_63 :: nat where "AMP_DISABLE_63 = 4"
definition AMP_DISABLE_62 :: nat where "AMP_DISABLE_62 = 5"

datatype hw_call =
    PwmEnable
  | PwmDisable
  | PwmSet uint16
  | DirectionForward
  | DirectionReverse
  | TogglePwmPin
  | AmpMessage nat
  | LimitSwitchEnable
  | LimitSwitchDisable

text \<open>Whether the PWM output is on: the last of the calls that switch it.\<close>

fun pwm_switch :: "hw_call \<Rightarrow> bool \<Rightarrow> bool" where
  "pwm_switch PwmEnable on = True"
| "pwm_switch PwmDisable on = False"
| "pwm_switch _ on = on"

definition pwm_on :: "hw_call list \<Rightarrow> bool" where
  "pwm_on cs = fold pwm_switch cs False"

definition initialize_amp :: "bool \<Rightarrow> hw_call list \<Rightarrow> hw_call list" where
  "initialize_amp second_amp cs =
     cs @ [AmpMessage AMP_GET_WRITE_ACCESS_63] @
       (if second_amp then [AmpMessage AMP_GET_WRITE_ACCESS_62] else [])"

definition disable_pwm :: "hw_call list \<Rightarrow> hw_call list" where
  "disable_pwm cs = cs @ [PwmDisable]"

definition enable_amp :: "bool \<Rightarrow> hw_call list \<Rightarrow> hw_call list" where
  "enable_amp second_amp cs =
     cs @ [PwmEnable, AmpMessage AMP_ENABLE_63] @
       (if second_amp then [AmpMessage AMP_ENABLE_62] else [])"

definition disable_amp :: "bool \<Rightarrow> hw_call list \<Rightarrow> hw_call list" where
  "disable_amp second_amp cs =
     cs @ [PwmDisable, AmpMessage AMP_DISABLE_63] @
       (if second_amp then [AmpMessage AMP_DISABLE_62] else [])"

text \<open>The value is a signed 32-bit integer, and the duty keeps its low 16 bits.\<close>

definition set_amp_output :: "uint32 \<Rightarrow> hw_call list \<Rightarrow> hw_call list" where
  "set_amp_output value cs =
     (if sint value < 0 then cs @ [DirectionReverse, PwmSet (ucast (value * -1))]
      else cs @ [DirectionForward, PwmSet (ucast value), TogglePwmPin])"

lemma pwm_on_append [simp]: "pwm_on (cs @ ds) = fold pwm_switch ds (pwm_on cs)"
  by (simp add: pwm_on_def)

lemma amp_simps [simp]:
  "pwm_on []  \<longleftrightarrow> False"
  "\<not> pwm_on (disable_pwm cs)"
  "pwm_on (enable_amp second cs)"
  "\<not> pwm_on (disable_amp second cs)"
  "pwm_on (set_amp_output w cs) = pwm_on cs"
  "pwm_on (initialize_amp second cs) = pwm_on cs"
  by (simp_all add: disable_pwm_def enable_amp_def disable_amp_def set_amp_output_def
      initialize_amp_def) (simp add: pwm_on_def)

text \<open>
  The duty that a current in amplifier counts gives: its size, as long as that fits 16 bits.
\<close>

definition last_duty :: "hw_call list \<Rightarrow> uint16 option" where
  "last_duty cs = fold (\<lambda>c d. case c of PwmSet w \<Rightarrow> Some w | _ \<Rightarrow> d) cs None"

lemma set_amp_output_duty:
  assumes "\<bar>sint w\<bar> < 65536"
  shows "\<exists>d. last_duty (set_amp_output w cs) = Some d \<and> uint d = \<bar>sint w\<bar>"
proof -
  have u: "uint (ucast x :: uint16) = uint x mod 65536" for x :: uint32
    by (simp add: unsigned_ucast_eq take_bit_eq_mod)
  have w: "uint w mod 65536 = sint w mod 65536"
    using sint_mod_32 [of w] by (rule mod_weaken [OF sym]) simp
  show ?thesis
  proof (cases "sint w < 0")
    case True
    have "uint (w * -1) mod 65536 = (- uint w) mod 65536"
      by (simp add: uint_word_ariths mod_mod_cancel)
    also have "\<dots> = (- sint w) mod 65536" using mod_minus_eq [of "uint w" 65536] mod_minus_eq [of "sint w" 65536] w by simp
    finally show ?thesis using True assms
      by (simp add: set_amp_output_def last_duty_def u del: mult_minus1_right)
  next
    case False
    then show ?thesis using assms w
      by (simp add: set_amp_output_def last_duty_def u)
  qed
qed

text \<open>All pulse widths set so far are within full scale.\<close>

definition duties_ok :: "hw_call list \<Rightarrow> bool" where
  "duties_ok cs \<longleftrightarrow> (\<forall>w. PwmSet w \<in> set cs \<longrightarrow> uint w \<le> MTR_MAX_COUNT)"

lemma duties_ok_simps [simp]:
  "duties_ok (cs @ ds) \<longleftrightarrow> duties_ok cs \<and> duties_ok ds"
  "duties_ok (enable_amp second cs) \<longleftrightarrow> duties_ok cs"
  "duties_ok (disable_amp second cs) \<longleftrightarrow> duties_ok cs"
  "duties_ok (initialize_amp second cs) \<longleftrightarrow> duties_ok cs"
  "duties_ok (disable_pwm cs) \<longleftrightarrow> duties_ok cs"
  "duties_ok [LimitSwitchEnable]" "duties_ok [LimitSwitchDisable]" "duties_ok []"
  by (auto simp: duties_ok_def enable_amp_def disable_amp_def disable_pwm_def initialize_amp_def)

lemma set_amp_output_duties:
  assumes "\<bar>sint w\<bar> \<le> MTR_MAX_COUNT" and "duties_ok cs"
  shows "duties_ok (set_amp_output w cs)"
proof -
  have "\<bar>sint w\<bar> < 65536" using assms(1) by (simp add: consts_simp)
  from set_amp_output_duty [OF this, of "[]"] assms show ?thesis
    by (auto simp: duties_ok_def set_amp_output_def last_duty_def split: if_splits)
qed

end
