(* ===== verification/LegFirmware.thy ===== *)
theory LegFirmware
  imports Amplifier
begin

text \<open>
  The firmware of a leg medulla (\<open>firmware/atrias2.1/src/medulla_leg.c\<close>), as the build compiles it:
  of the error checks only the one of the thermistors is switched on, and the halt check of the
  board is off. The process data entries, the counters of the filters and the calls to the
  amplifier are the state of the board.
\<close>

definition DAMPING_GAIN :: int where "DAMPING_GAIN = 60"
definition DAMPING_GAIN_CONSTANT :: int where "DAMPING_GAIN_CONSTANT = 3"
definition DAMPING_CURRENT_LIMIT :: int where "DAMPING_CURRENT_LIMIT = 19900"

definition C_MOD :: "int \<Rightarrow> int \<Rightarrow> int" where
  "C_MOD a b = crem (crem a b + b) b"

record leg_board =
  leg_hw :: "hw_call list"
  leg_medulla_id_pdo :: uint8
  leg_error_flags_pdo :: uint8
  leg_limit_switch_pdo :: uint8
  toe_sensor_pdo :: uint16
  motor_encoder_pdo :: uint32
  motor_encoder_timestamp_pdo :: uint16
  leg_encoder_pdo :: uint32
  leg_encoder_timestamp_pdo :: uint16
  incremental_encoder_pdo :: uint16
  incremental_encoder_timestamp_pdo :: uint16
  motor_voltage_pdo :: uint16
  logic_voltage_pdo :: uint16
  thermistor_pdo :: "uint16 list"
  knee_force1_pdo :: uint16
  knee_force2_pdo :: uint16
  limit_switch_counter :: uint8
  thermistor_counters :: "uint8 list"
  thermistor_values :: "uint8 list"
  therm_num :: nat
  motor_voltage_counter :: uint16
  logic_voltage_counter :: uint16
  motor_encoder_error_counter :: uint8
  leg_encoder_error_counter :: uint8
  leg_send_current_read :: bool
  prev_motor_position :: uint32
  last_incremental :: int
  leg_damping_cnt :: uint8

text \<open>
  What the peripheral drivers deliver in one reading: the converted voltages, the limit switches,
  for each absolute encoder whether its data is valid and the reading with its time stamp, the
  quadrature counter and the timer, the three strain gauge channels, and the comparator.
\<close>

record leg_sensors =
  adc_motor_voltage :: uint16
  adc_logic_voltage :: uint16
  limit_sw_port :: bool
  motor_encoder_data :: "(uint32 \<times> uint16) option"
  leg_encoder_data :: "(uint32 \<times> uint16) option"
  quadrature_value :: uint16
  timestamp_count :: uint16
  knee_adc_toe :: uint16
  knee_adc_force1 :: uint16
  knee_adc_force2 :: uint16
  ac_value :: bool

subsection \<open>Start-up\<close>

definition leg_initialize :: "uint8 \<Rightarrow> leg_board" where
  "leg_initialize ident =
     \<lparr>leg_hw = initialize_amp True [], leg_medulla_id_pdo = ident, leg_error_flags_pdo = 0,
      leg_limit_switch_pdo = 0, toe_sensor_pdo = 0, motor_encoder_pdo = 0,
      motor_encoder_timestamp_pdo = 0, leg_encoder_pdo = 0, leg_encoder_timestamp_pdo = 0,
      incremental_encoder_pdo = 0, incremental_encoder_timestamp_pdo = 0, motor_voltage_pdo = 0,
      logic_voltage_pdo = 0, thermistor_pdo = replicate 6 0, knee_force1_pdo = 0, knee_force2_pdo = 0,
      limit_switch_counter = 0, thermistor_counters = replicate 6 0,
      thermistor_values = replicate 6 63, therm_num = 0, motor_voltage_counter = 0,
      logic_voltage_counter = 0, motor_encoder_error_counter = 0, leg_encoder_error_counter = 0,
      leg_send_current_read = False, prev_motor_position = 0, last_incremental = 0,
      leg_damping_cnt = 0\<rparr>"

subsection \<open>Operations\<close>

definition leg_enable_outputs :: "leg_board \<Rightarrow> leg_board" where
  "leg_enable_outputs b = b\<lparr>leg_hw := enable_amp True (leg_hw b) @ [LimitSwitchEnable]\<rparr>"

definition leg_disable_outputs :: "leg_board \<Rightarrow> leg_board" where
  "leg_disable_outputs b = b\<lparr>leg_hw := disable_amp True (leg_hw b) @ [LimitSwitchDisable]\<rparr>"

text \<open>The counter of the limit switches; both branches of the debouncing report no switch.\<close>

definition leg_count_limit_switch :: "bool \<Rightarrow> leg_board \<Rightarrow> leg_board" where
  "leg_count_limit_switch pressed b =
     (let b = (if pressed then b\<lparr>limit_switch_counter := limit_switch_counter b + 1\<rparr>
               else if 0 < limit_switch_counter b
               then b\<lparr>limit_switch_counter := limit_switch_counter b - 1\<rparr> else b)
      in if 50 < limit_switch_counter b then b\<lparr>leg_limit_switch_pdo := 0\<rparr>
         else b\<lparr>leg_limit_switch_pdo := 0\<rparr>)"

definition leg_read_encoders :: "leg_sensors \<Rightarrow> leg_board \<Rightarrow> leg_board" where
  "leg_read_encoders i b =
     (let b = b\<lparr>last_incremental := uint (incremental_encoder_pdo b),
                incremental_encoder_pdo := quadrature_value i,
                incremental_encoder_timestamp_pdo := timestamp_count i,
                prev_motor_position := motor_encoder_pdo b\<rparr>;
          b = (case motor_encoder_data i of
                 Some (reading, time) \<Rightarrow>
                   b\<lparr>motor_encoder_pdo := reading, motor_encoder_timestamp_pdo := time\<rparr>
               | None \<Rightarrow>
                   b\<lparr>leg_error_flags_pdo := leg_error_flags_pdo b OR medulla_error_encoder,
                     motor_encoder_error_counter := motor_encoder_error_counter b + 1\<rparr>)
      in case leg_encoder_data i of
           Some (reading, time) \<Rightarrow>
             b\<lparr>leg_encoder_pdo := reading, leg_encoder_timestamp_pdo := time\<rparr>
         | None \<Rightarrow>
             b\<lparr>leg_error_flags_pdo := leg_error_flags_pdo b OR medulla_error_encoder,
               leg_encoder_error_counter := leg_encoder_error_counter b + 1\<rparr>)"

text \<open>
  The thermistors are measured with a comparator: the level of each is tracked, one thermistor in
  each call, and translated to the counts that an analogue converter would give.
\<close>

definition adc_equiv :: "uint8 \<Rightarrow> uint16" where
  "adc_equiv level =
     word_of_int (real_trunc (4095 * (- 0.001431 * (of_int (uint level))\<^sup>2
         + 0.107087 * of_int (uint level) + 0.150644) / MEDULLA_ADC_MAX_VOLTS
       + of_int MEDULLA_ADC_OFFSET_COUNTS))"

definition leg_track_thermistor :: "bool \<Rightarrow> leg_board \<Rightarrow> leg_board" where
  "leg_track_thermistor higher b =
     (let n = therm_num b;
          level = thermistor_values b ! n;
          b = (if higher
               then let b = b\<lparr>thermistor_pdo := (thermistor_pdo b)[n := adc_equiv level]\<rparr>
                    in if 0 < level then b\<lparr>thermistor_values := (thermistor_values b)[n := level - 1]\<rparr> else b
               else if level < 63 then b\<lparr>thermistor_values := (thermistor_values b)[n := level + 1]\<rparr>
               else b)
      in b\<lparr>therm_num := (n + 1) mod 6\<rparr>)"

definition leg_update_inputs :: "leg_sensors \<Rightarrow> leg_board \<Rightarrow> leg_board" where
  "leg_update_inputs i b =
     (let b = leg_count_limit_switch (limit_sw_port i) b;
          b = b\<lparr>motor_voltage_pdo := adc_motor_voltage i, logic_voltage_pdo := adc_logic_voltage i\<rparr>;
          b = leg_read_encoders i b;
          b = b\<lparr>toe_sensor_pdo := knee_adc_toe i, knee_force1_pdo := knee_adc_force1 i,
                knee_force2_pdo := knee_adc_force2 i\<rparr>;
          b = leg_track_thermistor (ac_value i) b
      in b\<lparr>leg_send_current_read := True\<rparr>)"

text \<open>The damping controller of the halt state.\<close>

definition leg_diff :: "leg_board \<Rightarrow> int" where
  "leg_diff b = C_MOD (uint (incremental_encoder_pdo b) - last_incremental b + 2 ^ 15) (2 ^ 16) - 2 ^ 15"

definition damping_current :: "int \<Rightarrow> int" where
  "damping_current diff =
     (let diff = diff * DAMPING_GAIN_CONSTANT * DAMPING_GAIN
      in if DAMPING_CURRENT_LIMIT < diff then DAMPING_CURRENT_LIMIT
         else if diff < -1 * DAMPING_CURRENT_LIMIT then -1 * DAMPING_CURRENT_LIMIT
         else diff)"

definition leg_run_halt :: "leg_board \<Rightarrow> bool \<times> leg_board" where
  "leg_run_halt b =
     (let b = b\<lparr>leg_damping_cnt := leg_damping_cnt b + 1\<rparr>;
          diff = leg_diff b
      in if diff \<le> 10 \<and> -10 \<le> diff
         then (\<not> 100 < leg_damping_cnt b, b\<lparr>leg_hw := set_amp_output 0 (leg_hw b)\<rparr>)
         else (True, b\<lparr>leg_hw := set_amp_output (word_of_int (damping_current diff)) (leg_hw b)\<rparr>))"

definition leg_update_outputs :: "uint32 \<Rightarrow> leg_board \<Rightarrow> leg_board" where
  "leg_update_outputs motor_current b = b\<lparr>leg_hw := set_amp_output motor_current (leg_hw b)\<rparr>"

definition leg_estop :: "leg_board \<Rightarrow> leg_board" where
  "leg_estop b = b\<lparr>leg_hw := disable_pwm (leg_hw b),
                   leg_error_flags_pdo := leg_error_flags_pdo b OR medulla_error_estop\<rparr>"

text \<open>The \<open>return true\<close> of the one check that is compiled is commented out.\<close>

definition leg_check_error :: "leg_board \<Rightarrow> bool \<times> leg_board" where
  "leg_check_error b =
     (False,
      if 100 < thermistor_counters b ! therm_num b
      then b\<lparr>leg_error_flags_pdo := leg_error_flags_pdo b OR medulla_error_thermistor\<rparr> else b)"

definition leg_check_halt :: "leg_board \<Rightarrow> bool \<times> leg_board" where
  "leg_check_halt b = (False, b)"

definition leg_reset_error :: "leg_board \<Rightarrow> leg_board" where
  "leg_reset_error b =
     b\<lparr>leg_error_flags_pdo := 0, motor_voltage_counter := 0, logic_voltage_counter := 0,
       motor_encoder_error_counter := 0, leg_encoder_error_counter := 0, leg_damping_cnt := 0,
       thermistor_counters := replicate 6 0, thermistor_pdo := replicate 6 0\<rparr>"

definition leg_ops :: "(leg_sensors, leg_board) medulla_ops" where
  "leg_ops =
     \<lparr>enable_outputs = leg_enable_outputs, disable_outputs = leg_disable_outputs,
      update_inputs = leg_update_inputs, run_halt = leg_run_halt, update_outputs = leg_update_outputs,
      post_ecat = (\<lambda>b. b), estop = leg_estop, check_error = leg_check_error,
      check_halt = leg_check_halt, reset_error = leg_reset_error\<rparr>"

subsection \<open>The contract\<close>

abbreviation leg_powered :: "leg_board \<Rightarrow> bool" where
  "leg_powered b \<equiv> pwm_on (leg_hw b)"

lemma leg_update_inputs_hw [simp]: "leg_hw (leg_update_inputs i b) = leg_hw b"
  by (simp add: leg_update_inputs_def leg_count_limit_switch_def leg_read_encoders_def
      leg_track_thermistor_def Let_def split: option.split)

lemma leg_count_frame [simp]:
  "leg_damping_cnt (leg_count_limit_switch p b) = leg_damping_cnt b"
  "incremental_encoder_pdo (leg_count_limit_switch p b) = incremental_encoder_pdo b"
  by (simp_all add: leg_count_limit_switch_def Let_def)

lemma leg_read_encoders_frame [simp]:
  "leg_damping_cnt (leg_read_encoders i b) = leg_damping_cnt b"
  "incremental_encoder_pdo (leg_read_encoders i b) = quadrature_value i"
  "last_incremental (leg_read_encoders i b) = uint (incremental_encoder_pdo b)"
  by (simp_all add: leg_read_encoders_def Let_def split: option.split)

lemma leg_track_frame [simp]:
  "leg_damping_cnt (leg_track_thermistor h b) = leg_damping_cnt b"
  "incremental_encoder_pdo (leg_track_thermistor h b) = incremental_encoder_pdo b"
  "last_incremental (leg_track_thermistor h b) = last_incremental b"
  by (simp_all add: leg_track_thermistor_def Let_def)

interpretation leg_fw: quiet_board leg_ops leg_powered
  by unfold_locales
    (auto simp: leg_ops_def leg_enable_outputs_def leg_disable_outputs_def leg_run_halt_def
      leg_update_outputs_def leg_estop_def leg_check_error_def leg_check_halt_def
      leg_reset_error_def Let_def split: if_splits)

text \<open>The shaft's movement between two readings, through a rollover of the counter.\<close>

lemma leg_diff_wrap: "leg_diff b = wrap_half 65536 (uint (incremental_encoder_pdo b) - last_incremental b)"
  by (simp add: leg_diff_def C_MOD_def crem_fixup wrap_half_def)

lemma damping_current_bounded: "\<bar>damping_current d\<bar> \<le> DAMPING_CURRENT_LIMIT"
  by (auto simp: damping_current_def DAMPING_CURRENT_LIMIT_def Let_def)

text \<open>Both branches of the debouncing report no limit switch.\<close>

lemma leg_limit_switch_never_reported: "leg_limit_switch_pdo (leg_update_inputs i b) = 0"
  by (simp add: leg_update_inputs_def leg_count_limit_switch_def leg_read_encoders_def
      leg_track_thermistor_def Let_def split: option.split)

lemma leg_check_error_never: "\<not> fst (leg_check_error b)"
  by (simp add: leg_check_error_def)

lemma leg_ops_simps [simp]:
  "enable_outputs leg_ops = leg_enable_outputs" "disable_outputs leg_ops = leg_disable_outputs"
  "update_inputs leg_ops = leg_update_inputs" "run_halt leg_ops = leg_run_halt"
  "update_outputs leg_ops = leg_update_outputs" "post_ecat leg_ops = (\<lambda>b. b)"
  "estop leg_ops = leg_estop" "check_error leg_ops = leg_check_error"
  "check_halt leg_ops = leg_check_halt" "reset_error leg_ops = leg_reset_error"
  by (simp_all add: leg_ops_def)

lemma leg_initialize_off: "\<not> leg_powered (leg_initialize ident)"
  by (simp add: leg_initialize_def)

subsection \<open>A machine that runs\<close>

definition quiet_sensors :: "uint16 \<Rightarrow> leg_sensors" where
  "quiet_sensors q = \<lparr>adc_motor_voltage = 3500, adc_logic_voltage = 3500, limit_sw_port = False,
     motor_encoder_data = Some (0, 0), leg_encoder_data = Some (0, 0), quadrature_value = q,
     timestamp_count = 0, knee_adc_toe = 0, knee_adc_force1 = 0, knee_adc_force2 = 0,
     ac_value = False\<rparr>"

definition leg_edge :: "medulla_state_t \<Rightarrow> uint16 \<Rightarrow> leg_sensors dc_edge" where
  "leg_edge command counter = \<lparr>rx_command = command, rx_counter = counter, rx_current = 0,
     estop_pressed = False, estop_pressed_init = False, sensors = quiet_sensors 0\<rparr>"

definition running_leg :: "leg_board firmware" where
  "running_leg = fw_turns leg_ops [leg_edge medulla_state_run 1, leg_edge medulla_state_run 2]
     (fw_start 0 (leg_initialize MEDULLA_LEFT_LEG_A_ID))"

lemma running_leg_reach: "fw_reach leg_ops (leg_initialize MEDULLA_LEFT_LEG_A_ID) running_leg"
  unfolding running_leg_def
  by (rule fw_turns_reach [OF fw_reach.start]) (simp add: fw_start_def)

lemma running_leg_state: "current_state running_leg = medulla_state_run \<and> leg_powered (board running_leg)"
proof -
  let ?m = "fw_start 0 (leg_initialize MEDULLA_LEFT_LEG_A_ID)"
  let ?m1 = "fw_turn leg_ops (Some (leg_edge medulla_state_run 1)) ?m"
  have "current_state ?m1 = medulla_state_init"
    by (rule idle_run_turn) (simp_all add: fw_start_def leg_edge_def consts_simp)
  from init_turn [OF this, of "leg_edge medulla_state_run 2" leg_ops] show ?thesis
    by (auto simp: running_leg_def fw_turns_def leg_edge_def leg_check_error_never leg_check_halt_def
        leg_enable_outputs_def)
qed

subsection \<open>Properties\<close>

text \<open>
  C8. The motor of a leg is powered only in the states run and halt: in every reachable state of the
  medulla, whatever the master commands, whatever the sensors read and whenever the interrupts
  come, the amplifier's output is off in idle, init, stop, reset and error.
\<close>

theorem leg_power_only_when_running:
  assumes "fw_reach leg_ops (leg_initialize ident) m" and "leg_powered (board m)"
  shows "current_state m \<in> {medulla_state_run, medulla_state_halt}"
  using leg_fw.reach_safe [OF assms(1) leg_initialize_off] assms(2) by (simp add: leg_fw.allowed_def)

lemma leg_power_only_when_running_witness:
  "current_state running_leg \<in> {medulla_state_run, medulla_state_halt}"
  using leg_power_only_when_running [OF running_leg_reach] running_leg_state by blast

text \<open>
  C15. The watchdog of the master: a medulla that runs while the master's counter stands still leaves
  the state run within ten edges of the clock, whatever is commanded.
\<close>

theorem master_watchdog_stops:
  assumes "fw_reach leg_ops (leg_initialize ident) m"
    and "\<forall>i \<in> set is. rx_counter i = previous_master_watchdog m" and "length is = 10"
  shows "\<exists>n \<le> 10. current_state (fw_turns leg_ops (take n is) m) \<noteq> medulla_state_run"
proof (rule ccontr)
  assume "\<not> ?thesis"
  then have run: "\<forall>n \<le> length is. current_state (fw_turns leg_ops (take n is) m) = medulla_state_run"
    using assms(3) by simp
  then have "current_state m = medulla_state_run" by (auto simp: fw_turns_def dest: spec [of _ 0])
  moreover from this leg_fw.reach_wd [OF assms(1)] have "master_watchdog_errors m < 10"
    by (simp add: leg_fw.wd_ok_def)
  ultimately show False
    using leg_fw.frozen_counter_counts [OF _ _ assms(2) run] assms(3) by auto
qed

definition frozen_edges :: "leg_sensors dc_edge list" where
  "frozen_edges = replicate 10 (leg_edge medulla_state_run (previous_master_watchdog running_leg))"

lemma master_watchdog_stops_witness:
  "\<exists>n \<le> 10. current_state (fw_turns leg_ops (take n frozen_edges) running_leg) \<noteq> medulla_state_run"
  by (rule master_watchdog_stops [OF running_leg_reach]) (simp_all add: frozen_edges_def leg_edge_def)

text \<open>A halted leg at rest: the damping counter counts, and ends the halt beyond 100.\<close>

lemma still_halt_turn:
  assumes "current_state m = medulla_state_halt"
    and "quadrature_value (sensors i) = incremental_encoder_pdo (board m)"
  shows "current_state (fw_turn leg_ops (Some i) m) = medulla_state_error \<and>
      \<not> leg_powered (board (fw_turn leg_ops (Some i) m)) \<or>
    current_state (fw_turn leg_ops (Some i) m) = medulla_state_halt \<and>
      leg_damping_cnt (board (fw_turn leg_ops (Some i) m)) = leg_damping_cnt (board m) + 1 \<and>
      leg_damping_cnt (board m) + 1 \<le> 100 \<and>
      incremental_encoder_pdo (board (fw_turn leg_ops (Some i) m)) = incremental_encoder_pdo (board m)"
proof -
  let ?b = "snd (leg_check_error (leg_update_inputs (sensors i) (board m)))"
  have b: "leg_damping_cnt ?b = leg_damping_cnt (board m)"
    "incremental_encoder_pdo ?b = quadrature_value (sensors i)"
    "last_incremental ?b = uint (incremental_encoder_pdo (board m))"
    by (simp_all add: leg_check_error_def leg_update_inputs_def Let_def)
  then have "leg_diff ?b = 0"
    using assms(2) by (simp add: leg_diff_wrap wrap_half_def)
  then have r: "leg_run_halt ?b = (\<not> 100 < leg_damping_cnt ?b + 1,
      ?b\<lparr>leg_damping_cnt := leg_damping_cnt ?b + 1, leg_hw := set_amp_output 0 (leg_hw ?b)\<rparr>)"
    by (simp add: leg_run_halt_def leg_diff_def Let_def)
  show ?thesis
    using leg_fw.halt_turn [OF assms(1), of ?b i] b(1,2) assms(2)
    by (auto simp: r leg_check_error_never not_less)
qed

definition leg_stopped :: "leg_board firmware \<Rightarrow> bool" where
  "leg_stopped m \<longleftrightarrow> current_state m = medulla_state_error \<and> \<not> leg_powered (board m)"

lemma still_halt_turns:
  assumes "current_state m = medulla_state_halt"
    and "\<forall>i \<in> set is. quadrature_value (sensors i) = incremental_encoder_pdo (board m)"
    and "unat (leg_damping_cnt (board m)) \<le> 100"
    and "101 \<le> unat (leg_damping_cnt (board m)) + length is"
  shows "\<exists>n \<le> length is. leg_stopped (fw_turns leg_ops (take n is) m)"
  using assms
proof (induction "is" arbitrary: m)
  case (Cons i "is")
  let ?m = "fw_turn leg_ops (Some i) m"
  show ?case
  proof (cases "leg_stopped ?m")
    case True
    then show ?thesis by (intro exI [of _ 1]) (simp add: fw_turns_def)
  next
    case False
    with still_halt_turn [OF Cons.prems(1), of i] Cons.prems(2)
    have t: "current_state ?m = medulla_state_halt"
      "leg_damping_cnt (board ?m) = leg_damping_cnt (board m) + 1"
      "leg_damping_cnt (board m) + 1 \<le> 100"
      "incremental_encoder_pdo (board ?m) = incremental_encoder_pdo (board m)"
      by (auto simp: leg_stopped_def)
    have u: "unat (leg_damping_cnt (board ?m)) = unat (leg_damping_cnt (board m)) + 1"
      using Cons.prems(3) t(2) by (simp add: unat_word_ariths)
    have "unat (leg_damping_cnt (board ?m)) \<le> 100"
      using t(2,3) by (simp add: word_le_nat_alt)
    then obtain n where "n \<le> length is" "leg_stopped (fw_turns leg_ops (take n is) ?m)"
      using Cons.IH [OF t(1)] Cons.prems(2,4) t(4) u by auto
    then show ?thesis by (intro exI [of _ "Suc n"]) (simp add: fw_turns_def)
  qed
qed simp

text \<open>
  A halted leg comes to an end: a medulla in halt whose shaft stands still is in error, with the
  motor off, within 102 edges of the clock, wherever its 8-bit counter started.
\<close>

theorem leg_halt_ends:
  assumes "current_state m = medulla_state_halt" and "length is = 102"
    and "\<forall>i \<in> set is. quadrature_value (sensors i) = incremental_encoder_pdo (board m)"
  shows "\<exists>n \<le> 102. current_state (fw_turns leg_ops (take n is) m) = medulla_state_error \<and>
    \<not> leg_powered (board (fw_turns leg_ops (take n is) m))"
proof -
  obtain i js where "is": "is = i # js" "length js = 101" using assms(2) by (cases "is") auto
  let ?m = "fw_turn leg_ops (Some i) m"
  have "\<exists>n \<le> 102. leg_stopped (fw_turns leg_ops (take n is) m)"
  proof (cases "leg_stopped ?m")
    case True
    then show ?thesis by (intro exI [of _ 1]) (simp add: fw_turns_def "is")
  next
    case False
    with still_halt_turn [OF assms(1), of i] assms(3)
    have t: "current_state ?m = medulla_state_halt"
      "leg_damping_cnt (board ?m) \<le> 100"
      "incremental_encoder_pdo (board ?m) = incremental_encoder_pdo (board m)"
      by (auto simp: leg_stopped_def "is")
    then obtain n where "n \<le> length js" "leg_stopped (fw_turns leg_ops (take n js) ?m)"
      using still_halt_turns [OF t(1), of js] assms(3) "is" by (auto simp: word_le_nat_alt)
    then show ?thesis by (intro exI [of _ "Suc n"]) (simp add: fw_turns_def "is")
  qed
  then show ?thesis by (simp add: leg_stopped_def)
qed

lemma leg_halt_ends_witness:
  "\<exists>n \<le> 102. current_state (fw_turns leg_ops (take n (replicate 102 (leg_edge medulla_state_halt 0)))
     ((fw_start 0 (leg_initialize 1))\<lparr>current_state := medulla_state_halt\<rparr>)) = medulla_state_error"
  using leg_halt_ends [of "(fw_start 0 (leg_initialize 1))\<lparr>current_state := medulla_state_halt\<rparr>"
      "replicate 102 (leg_edge medulla_state_halt 0)"]
  by (auto simp: leg_edge_def quiet_sensors_def fw_start_def leg_initialize_def)

text \<open>
  The emergency stop of a medulla is latched: whatever the board, the commands and the
  interrupts, a step from the state error leads to error again, unless it is a turn on an edge
  that brings the command reset when more than a thousand turns have been counted; and every edge
  found in the state runs the board's own stop, which for a leg turns the motor off.
\<close>

theorem medulla_error_latched:
  fixes m :: "leg_board firmware"
  assumes "fw_step leg_ops m l m'" and "current_state m = medulla_state_error"
  shows "(current_state m' = medulla_state_error \<or>
      current_state m' = medulla_state_reset \<and>
      (\<exists>i. l = Turn (Some i) \<and> rx_command i = medulla_state_reset \<and> 1000 < estop_timeout_counter m')) \<and>
    (\<forall>i. l = Turn (Some i) \<longrightarrow> \<not> leg_powered (board m') \<and>
      estop_timeout_counter m' = estop_timeout_counter m + 1)"
proof -
  have "\<not> leg_powered (board m') \<and> estop_timeout_counter m' = estop_timeout_counter m + 1"
    if "l = Turn (Some i)" for i
  proof -
    have "m' = fw_turn leg_ops (Some i) m" using assms(1) that by (auto elim: fw_step.cases)
    with error_turn [OF assms(2), of leg_ops i] show ?thesis
      by (simp add: leg_estop_def)
  qed
  with error_step [OF assms] show ?thesis by (auto simp: consts_simp)
qed

lemma medulla_error_latched_witness:
  "\<not> leg_powered (board (fw_turn leg_ops (Some (leg_edge medulla_state_run 3)) (main_estop leg_ops
     (enter_error running_leg))))"
proof -
  let ?m = "main_estop leg_ops (enter_error running_leg)"
  have "\<not> fw_hung ?m" by (simp add: running_leg_def fw_turns_def fw_start_def)
  then have "fw_step leg_ops ?m (Turn (Some (leg_edge medulla_state_run 3)))
      (fw_turn leg_ops (Some (leg_edge medulla_state_run 3)) ?m)" by (rule fw_step.turn)
  from medulla_error_latched [OF this] show ?thesis by simp
qed

text \<open>
  C28. The reset of a medulla works only in a window: of a medulla that has been in error for \<open>n\<close>
  turns without the command reset, six turns with it - as many as RT Ops gives - lead out of the
  error exactly when the 16-bit count of the turns is beyond the timeout in one of them. It is not
  in the first second after the error, and again for a second whenever the count has wrapped.
\<close>

theorem medulla_reset_window:
  fixes m :: "'b firmware"
  assumes "current_state m = medulla_state_error" and "estop_timeout_counter m = 0"
    and "\<forall>i \<in> set waiting. rx_command i \<noteq> medulla_state_reset"
    and "\<forall>i \<in> set resets. rx_command i = medulla_state_reset" and "length resets = 6"
  shows "if (length waiting + 1) mod 65536 \<le> 995
    then current_state (fw_turns ops (waiting @ resets) m) = medulla_state_error
    else current_state (fw_turns ops (waiting @ resets) m) \<in> {medulla_state_reset, medulla_state_idle}"
  using assms by (rule reset_window)

lemma medulla_reset_window_witness:
  "current_state (fw_turns leg_ops (replicate 10 (leg_edge medulla_state_error 0) @ replicate 6 (leg_edge medulla_state_reset 0))
     (enter_error running_leg)) = medulla_state_error"
  using medulla_reset_window [of "enter_error running_leg" "replicate 10 (leg_edge medulla_state_error 0)"
      "replicate 6 (leg_edge medulla_state_reset 0)" leg_ops]
  by (simp add: enter_error_def leg_edge_def consts_simp)

text \<open>
  The command error stops the motors: two edges of the clock that bring it leave any reachable leg
  medulla without power and out of the state run, unless it was already in halt, where it goes on
  damping its motor; one that was running is in error, without power, after the first.
\<close>

lemma leg_error_commands:
  assumes "fw_reach leg_ops (leg_initialize ident) m" and "\<not> fw_hung m"
    and "rx_command i = medulla_state_error" and "rx_command j = medulla_state_error"
    and "current_state m \<noteq> medulla_state_halt"
  shows "(current_state m = medulla_state_run \<longrightarrow>
      current_state (fw_turn leg_ops (Some i) m) = medulla_state_error \<and>
      \<not> leg_powered (board (fw_turn leg_ops (Some i) m))) \<and>
    current_state (fw_turns leg_ops [i, j] m) \<notin> {medulla_state_run, medulla_state_halt} \<and>
    \<not> leg_powered (board (fw_turns leg_ops [i, j] m))"
proof -
  let ?m1 = "fw_turn leg_ops (Some i) m" and ?m2 = "fw_turns leg_ops [i, j] m"
  have s: "?m2 = fw_turn leg_ops (Some j) ?m1" by (simp add: fw_turns_def)
  have "current_state ?m2 \<notin> {medulla_state_run, medulla_state_halt}"
    using leg_fw.error_command_turn [OF assms(3,5)] leg_fw.error_command_turn [OF assms(4), of ?m1]
    unfolding s by auto
  moreover from this have "\<not> leg_powered (board ?m2)"
    using leg_fw.reach_safe [OF fw_turns_reach [OF assms(1,2), of "[i, j]"] leg_initialize_off]
    by (auto simp: leg_fw.allowed_def)
  ultimately show ?thesis using leg_fw.error_command [OF _ assms(3), of m] by blast
qed

text \<open>
  C12. The duty of the amplifier: as long as the master sends currents within full scale, every pulse
  width that a leg medulla ever sets, running or damping, is within full scale, so within the
  period of the PWM.
\<close>

theorem leg_duty_bounded:
  assumes "fw_path leg_ops (fw_start counter (leg_initialize ident)) ls m"
    and "\<And>i. Turn (Some i) \<in> set ls \<Longrightarrow> \<bar>sint (rx_current i)\<bar> \<le> MTR_MAX_COUNT"
  shows "duties_ok (leg_hw (board m))"
proof (rule fw_path_board [where Q = "\<lambda>b. duties_ok (leg_hw b)" and C = "\<lambda>w. \<bar>sint w\<bar> \<le> MTR_MAX_COUNT",
    OF _ _ _ _ _ _ _ _ _ _ assms(1)])
  fix b
  have "sint (word_of_int (damping_current d) :: uint32) = damping_current d" for d
    using damping_current_bounded [of d]
    by (intro sint_word32_id) (auto simp: DAMPING_CURRENT_LIMIT_def abs_le_iff)
  then show "duties_ok (leg_hw (snd (run_halt leg_ops b)))" if "duties_ok (leg_hw b)"
    using that damping_current_bounded
    by (auto simp: leg_run_halt_def Let_def DAMPING_CURRENT_LIMIT_def consts_simp intro!: set_amp_output_duties)
qed (use assms(2) in \<open>simp_all add: leg_enable_outputs_def leg_disable_outputs_def leg_update_outputs_def
    leg_estop_def leg_check_error_def leg_check_halt_def leg_reset_error_def fw_start_def leg_initialize_def
    set_amp_output_duties\<close>)

lemma leg_duty_bounded_witness:
  "duties_ok (leg_hw (board (fw_turn leg_ops (Some (leg_edge medulla_state_run 1)) (fw_start 0 (leg_initialize 1)))))"
proof (rule leg_duty_bounded)
  show "fw_path leg_ops (fw_start 0 (leg_initialize 1)) [Turn (Some (leg_edge medulla_state_run 1))]
      (fw_turn leg_ops (Some (leg_edge medulla_state_run 1)) (fw_start 0 (leg_initialize 1)))"
    by (rule fw_path_step [OF fw_step.turn fw_path_nil]) (simp add: fw_start_def)
qed (simp add: leg_edge_def consts_simp)

end
