(* ===== verification/HipFirmware.thy ===== *)
theory HipFirmware
  imports Amplifier
begin

text \<open>
  The firmware of a hip medulla (\<open>firmware/atrias2.1/src/medulla_hip.c\<close>), as the build compiles it:
  every one of the error checks and the IMU are switched off.
\<close>

record hip_board =
  hip_hw :: "hw_call list"
  hip_medulla_id_pdo :: uint8
  hip_error_flags_pdo :: uint8
  hip_limit_switch_pdo :: uint8
  hip_encoder_pdo :: uint32
  hip_encoder_timestamp_pdo :: uint16
  hip_motor_voltage_pdo :: uint16
  hip_logic_voltage_pdo :: uint16
  hip_thermistor_pdo :: "uint16 list"
  hip_incremental_encoder_pdo :: uint16
  hip_incremental_encoder_timestamp_pdo :: uint16
  robot_current_50_pdo :: uint16
  robot_current_600_pdo :: uint16
  hip_limit_switch_counter :: uint8
  hip_thermistor_counter :: uint8
  hip_motor_voltage_counter :: uint16
  hip_logic_voltage_counter :: uint16
  hip_send_current_read :: bool
  hip_damping_cnt :: uint8

text \<open>What the peripheral drivers deliver: the limit switch port is read twice.\<close>

record hip_readings =
  hip_adc_thermistors :: "uint16 \<times> uint16 \<times> uint16"
  hip_adc_logic_voltage :: uint16
  hip_adc_motor_voltage :: uint16
  hip_adc_current_50 :: uint16
  hip_adc_current_600 :: uint16
  hip_limit_sw :: uint8
  hip_limit_sw_again :: uint8
  hip_encoder_data :: "uint32 \<times> uint16"
  hip_quadrature_value :: uint16
  hip_timestamp_count :: uint16

definition hip_initialize :: "uint8 \<Rightarrow> hip_board" where
  "hip_initialize ident =
     \<lparr>hip_hw = initialize_amp False [], hip_medulla_id_pdo = ident, hip_error_flags_pdo = 0,
      hip_limit_switch_pdo = 0, hip_encoder_pdo = 0, hip_encoder_timestamp_pdo = 0,
      hip_motor_voltage_pdo = 0, hip_logic_voltage_pdo = 0, hip_thermistor_pdo = replicate 3 0,
      hip_incremental_encoder_pdo = 0, hip_incremental_encoder_timestamp_pdo = 0,
      robot_current_50_pdo = 0, robot_current_600_pdo = 0, hip_limit_switch_counter = 0,
      hip_thermistor_counter = 0, hip_motor_voltage_counter = 0, hip_logic_voltage_counter = 0,
      hip_send_current_read = False, hip_damping_cnt = 0\<rparr>"

definition hip_enable_outputs :: "hip_board \<Rightarrow> hip_board" where
  "hip_enable_outputs b = b\<lparr>hip_hw := enable_amp False (hip_hw b @ [LimitSwitchEnable])\<rparr>"

definition hip_disable_outputs :: "hip_board \<Rightarrow> hip_board" where
  "hip_disable_outputs b = b\<lparr>hip_hw := disable_amp False (hip_hw b @ [LimitSwitchDisable])\<rparr>"

definition hip_update_inputs :: "hip_readings \<Rightarrow> hip_board \<Rightarrow> hip_board" where
  "hip_update_inputs i b =
     (let b = (if hip_limit_sw i \<noteq> 0
               then b\<lparr>hip_limit_switch_counter := hip_limit_switch_counter b + 1\<rparr>
               else if 0 < hip_limit_switch_counter b
               then b\<lparr>hip_limit_switch_counter := hip_limit_switch_counter b - 1\<rparr> else b);
          b = (if 50 < hip_limit_switch_counter b
               then b\<lparr>hip_limit_switch_pdo := hip_limit_sw_again i\<rparr> else b);
          b = b\<lparr>hip_thermistor_pdo := (case hip_adc_thermistors i of (t1, t2, t3) \<Rightarrow> [t1, t2, t3]),
                hip_logic_voltage_pdo := hip_adc_logic_voltage i,
                hip_motor_voltage_pdo := hip_adc_motor_voltage i,
                robot_current_50_pdo := hip_adc_current_50 i,
                robot_current_600_pdo := hip_adc_current_600 i,
                hip_incremental_encoder_pdo := hip_quadrature_value i,
                hip_incremental_encoder_timestamp_pdo := hip_timestamp_count i,
                hip_encoder_pdo := fst (hip_encoder_data i),
                hip_encoder_timestamp_pdo := snd (hip_encoder_data i)\<rparr>
      in b\<lparr>hip_send_current_read := True\<rparr>)"

definition hip_run_halt :: "hip_board \<Rightarrow> bool \<times> hip_board" where
  "hip_run_halt b =
     (let b = b\<lparr>hip_damping_cnt := hip_damping_cnt b + 1\<rparr>
      in if 100 < hip_damping_cnt b then (False, b)
         else (True, b\<lparr>hip_hw := set_amp_output 0 (hip_hw b)\<rparr>))"

definition hip_update_outputs :: "uint32 \<Rightarrow> hip_board \<Rightarrow> hip_board" where
  "hip_update_outputs motor_current b = b\<lparr>hip_hw := set_amp_output motor_current (hip_hw b)\<rparr>"

definition hip_estop :: "hip_board \<Rightarrow> hip_board" where
  "hip_estop b = b\<lparr>hip_hw := disable_pwm (hip_hw b),
                   hip_error_flags_pdo := hip_error_flags_pdo b OR medulla_error_estop\<rparr>"

definition hip_check_error :: "hip_board \<Rightarrow> bool \<times> hip_board" where
  "hip_check_error b = (False, b)"

definition hip_check_halt :: "hip_board \<Rightarrow> bool \<times> hip_board" where
  "hip_check_halt b = (False, b)"

definition hip_reset_error :: "hip_board \<Rightarrow> hip_board" where
  "hip_reset_error b =
     b\<lparr>hip_error_flags_pdo := 0, hip_thermistor_counter := 0, hip_motor_voltage_counter := 0,
       hip_logic_voltage_counter := 0, hip_damping_cnt := 0\<rparr>"

definition hip_ops :: "(hip_readings, hip_board) medulla_ops" where
  "hip_ops =
     \<lparr>enable_outputs = hip_enable_outputs, disable_outputs = hip_disable_outputs,
      update_inputs = hip_update_inputs, run_halt = hip_run_halt, update_outputs = hip_update_outputs,
      post_ecat = (\<lambda>b. b), estop = hip_estop, check_error = hip_check_error,
      check_halt = hip_check_halt, reset_error = hip_reset_error\<rparr>"

lemma hip_ops_simps [simp]:
  "enable_outputs hip_ops = hip_enable_outputs" "disable_outputs hip_ops = hip_disable_outputs"
  "update_inputs hip_ops = hip_update_inputs" "run_halt hip_ops = hip_run_halt"
  "update_outputs hip_ops = hip_update_outputs" "post_ecat hip_ops = (\<lambda>b. b)"
  "estop hip_ops = hip_estop" "check_error hip_ops = hip_check_error"
  "check_halt hip_ops = hip_check_halt" "reset_error hip_ops = hip_reset_error"
  by (simp_all add: hip_ops_def)

abbreviation hip_powered :: "hip_board \<Rightarrow> bool" where
  "hip_powered b \<equiv> pwm_on (hip_hw b)"

lemma hip_update_inputs_hw [simp]: "hip_hw (hip_update_inputs i b) = hip_hw b"
  by (simp add: hip_update_inputs_def Let_def)

interpretation hip_fw: quiet_board hip_ops hip_powered
  by unfold_locales
    (auto simp: hip_disable_outputs_def hip_run_halt_def hip_update_outputs_def hip_estop_def
      hip_check_error_def hip_check_halt_def hip_reset_error_def Let_def split: if_splits)

lemma hip_initialize_off: "\<not> hip_powered (hip_initialize ident)"
  by (simp add: hip_initialize_def)

text \<open>The motor of a hip is powered only in the states run and halt.\<close>

lemma hip_power_only_when_running:
  assumes "fw_reach hip_ops (hip_initialize ident) m" and "hip_powered (board m)"
  shows "current_state m \<in> {medulla_state_run, medulla_state_halt}"
  using hip_fw.reach_safe [OF assms(1) hip_initialize_off] assms(2) by (simp add: hip_fw.allowed_def)

text \<open>A limit switch once reported is never taken back: nothing clears the entry.\<close>

lemma hip_limit_switch_kept:
  "hip_limit_sw i = 0 \<Longrightarrow> hip_limit_switch_counter b \<le> 51 \<Longrightarrow>
   hip_limit_switch_pdo (hip_update_inputs i b) = hip_limit_switch_pdo b"
proof -
  assume "hip_limit_sw i = 0" and "hip_limit_switch_counter b \<le> 51"
  moreover have "unat (hip_limit_switch_counter b - 1) = unat (hip_limit_switch_counter b) - 1"
    if "0 < unat (hip_limit_switch_counter b)"
    using that by (simp add: unat_sub word_le_nat_alt)
  ultimately show ?thesis
    by (auto simp: hip_update_inputs_def Let_def word_less_nat_alt word_le_nat_alt)
qed

end
