(* ===== verification/BoomFirmware.thy ===== *)
theory BoomFirmware
  imports Firmware
begin

text \<open>
  The firmware of the boom medulla (\<open>firmware/atrias2.1/src/medulla_boom.c\<close>): three absolute
  encoders and a synchronisation output, with the filter that watches the logic voltage.
\<close>

definition LOGIC_VOLTAGE_MIN :: uint16 where "LOGIC_VOLTAGE_MIN = 2950"

record boom_board =
  sync_driven :: bool
  boom_medulla_id_pdo :: uint8
  boom_error_flags_pdo :: uint8
  x_encoder_pdo :: uint32
  x_encoder_timestamp_pdo :: uint16
  pitch_encoder_pdo :: uint32
  pitch_encoder_timestamp_pdo :: uint16
  z_encoder_pdo :: uint32
  z_encoder_timestamp_pdo :: uint16
  boom_logic_voltage_pdo :: uint16
  boom_logic_voltage_counter :: uint16
  boom_damping_cnt :: uint8

record boom_sensors =
  boom_adc_logic_voltage :: uint16
  x_encoder_data :: "uint32 \<times> uint16"
  pitch_encoder_data :: "uint32 \<times> uint16"
  z_encoder_data :: "uint32 \<times> uint16"

definition boom_initialize :: "uint8 \<Rightarrow> boom_board" where
  "boom_initialize ident =
     \<lparr>sync_driven = False, boom_medulla_id_pdo = ident, boom_error_flags_pdo = 0, x_encoder_pdo = 0,
      x_encoder_timestamp_pdo = 0, pitch_encoder_pdo = 0, pitch_encoder_timestamp_pdo = 0,
      z_encoder_pdo = 0, z_encoder_timestamp_pdo = 0, boom_logic_voltage_pdo = 0,
      boom_logic_voltage_counter = 0, boom_damping_cnt = 0\<rparr>"

text \<open>The pin is pulled low by making it an output.\<close>

definition boom_enable_outputs :: "boom_board \<Rightarrow> boom_board" where
  "boom_enable_outputs b = b\<lparr>sync_driven := True\<rparr>"

definition boom_disable_outputs :: "boom_board \<Rightarrow> boom_board" where
  "boom_disable_outputs b = b\<lparr>sync_driven := False\<rparr>"

definition boom_update_inputs :: "boom_sensors \<Rightarrow> boom_board \<Rightarrow> boom_board" where
  "boom_update_inputs i b =
     b\<lparr>boom_logic_voltage_pdo := boom_adc_logic_voltage i,
       x_encoder_pdo := fst (x_encoder_data i), x_encoder_timestamp_pdo := snd (x_encoder_data i),
       pitch_encoder_pdo := fst (pitch_encoder_data i),
       pitch_encoder_timestamp_pdo := snd (pitch_encoder_data i),
       z_encoder_pdo := fst (z_encoder_data i), z_encoder_timestamp_pdo := snd (z_encoder_data i)\<rparr>"

definition boom_run_halt :: "boom_board \<Rightarrow> bool \<times> boom_board" where
  "boom_run_halt b =
     (let b = b\<lparr>boom_damping_cnt := boom_damping_cnt b + 1\<rparr> in (\<not> 100 < boom_damping_cnt b, b))"

definition boom_estop :: "boom_board \<Rightarrow> boom_board" where
  "boom_estop b =
     (boom_disable_outputs b)\<lparr>boom_error_flags_pdo := boom_error_flags_pdo b OR medulla_error_estop\<rparr>"

definition boom_check_error :: "boom_board \<Rightarrow> bool \<times> boom_board" where
  "boom_check_error b =
     (let b = (if boom_logic_voltage_pdo b < LOGIC_VOLTAGE_MIN
               then b\<lparr>boom_logic_voltage_counter := boom_logic_voltage_counter b + 1\<rparr>
               else if 0 < boom_logic_voltage_counter b
               then b\<lparr>boom_logic_voltage_counter := boom_logic_voltage_counter b - 1\<rparr> else b)
      in if 500 < boom_logic_voltage_counter b
         then (True, b\<lparr>boom_error_flags_pdo := boom_error_flags_pdo b OR medulla_error_logic_voltage\<rparr>)
         else (False, b))"

definition boom_check_halt :: "boom_board \<Rightarrow> bool \<times> boom_board" where
  "boom_check_halt b = (False, b)"

definition boom_reset_error :: "boom_board \<Rightarrow> boom_board" where
  "boom_reset_error b =
     b\<lparr>boom_error_flags_pdo := 0, boom_logic_voltage_counter := 0, boom_damping_cnt := 0\<rparr>"

definition boom_ops :: "(boom_sensors, boom_board) medulla_ops" where
  "boom_ops =
     \<lparr>enable_outputs = boom_enable_outputs, disable_outputs = boom_disable_outputs,
      update_inputs = boom_update_inputs, run_halt = boom_run_halt, update_outputs = (\<lambda>_ b. b),
      post_ecat = (\<lambda>b. b), estop = boom_estop, check_error = boom_check_error,
      check_halt = boom_check_halt, reset_error = boom_reset_error\<rparr>"

interpretation boom_fw: quiet_board boom_ops sync_driven
  by unfold_locales
    (auto simp: boom_ops_def boom_disable_outputs_def boom_update_inputs_def boom_run_halt_def
      boom_estop_def boom_check_error_def boom_check_halt_def boom_reset_error_def Let_def
      split: if_splits)

text \<open>
  The undervoltage filter: with a counter that starts at zero, the check of a logic voltage below
  the minimum fails for the first time in its 501st turn.
\<close>

definition boom_checks :: "nat \<Rightarrow> boom_board \<Rightarrow> boom_board" where
  "boom_checks n b = ((\<lambda>b. snd (boom_check_error b)) ^^ n) b"

lemma boom_checks_simps [simp]:
  "boom_checks 0 b = b" "boom_checks (Suc n) b = snd (boom_check_error (boom_checks n b))"
  by (simp_all add: boom_checks_def)

lemma boom_checks_counter:
  assumes "boom_logic_voltage_pdo b < LOGIC_VOLTAGE_MIN" and "boom_logic_voltage_counter b = 0"
  shows "boom_logic_voltage_counter (boom_checks n b) = of_nat n \<and>
    boom_logic_voltage_pdo (boom_checks n b) = boom_logic_voltage_pdo b"
  by (induction n) (use assms in \<open>simp_all add: boom_check_error_def Let_def add.commute\<close>)

lemma boom_undervoltage:
  assumes "boom_logic_voltage_pdo b < LOGIC_VOLTAGE_MIN" and "boom_logic_voltage_counter b = 0"
    and "n \<le> 500"
  shows "fst (boom_check_error (boom_checks n b)) \<longleftrightarrow> n = 500"
proof -
  have "unat (of_nat (Suc n) :: uint16) = Suc n"
    unfolding unat_of_nat using assms(3) by simp
  moreover have "unat (500 :: uint16) = 500" by simp
  ultimately have "(500 :: uint16) < of_nat (Suc n) \<longleftrightarrow> n = 500"
    unfolding word_less_nat_alt using assms(3) by (simp only:) auto
  then show ?thesis
    using boom_checks_counter [OF assms(1,2), of n] assms(1) by (simp add: boom_check_error_def Let_def add.commute)
qed

end
