(* ===== verification/Crc.thy ===== *)
theory Crc
  imports Prelude
begin

text \<open>
  The checksum of the IMU packets (\<open>firmware/atrias2.1/src/crc.c\<close>): the generation of the lookup
  table and the table-driven calculation, as a 32-bit register of words. A bit-serial definition,
  which takes one bit of the message at a time, is the reference.
\<close>

subsection \<open>The program\<close>

type_synonym crc_t = uint32

definition CRC_HIGHBIT :: crc_t where "CRC_HIGHBIT = 0x80000000"
definition CRC_POLY :: crc_t where "CRC_POLY = 0x04c11db7"
definition CRC_INIT :: crc_t where "CRC_INIT = 0xffffffff"

definition crc_step :: "crc_t \<Rightarrow> crc_t" where
  "crc_step remainder =
     (if remainder AND CRC_HIGHBIT \<noteq> 0 then push_bit 1 remainder XOR CRC_POLY
      else push_bit 1 remainder)"

definition crc_table_entry :: "nat \<Rightarrow> crc_t" where
  "crc_table_entry dividend = (crc_step ^^ 8) (push_bit 24 (of_nat dividend))"

definition crc_generate_table :: "crc_t list" where
  "crc_generate_table = map crc_table_entry [0..<256]"

text \<open>The table is a global variable; the index is at most 255.\<close>

primrec crc_loop :: "crc_t list \<Rightarrow> uint8 list \<Rightarrow> crc_t \<Rightarrow> crc_t" where
  "crc_loop crc_table [] crc = crc"
| "crc_loop crc_table (byte # packet) crc =
     crc_loop crc_table packet
       (push_bit 8 crc XOR crc_table ! unat ((drop_bit 24 crc AND 0xff) XOR ucast byte))"

definition crc_calc :: "crc_t list \<Rightarrow> uint8 list \<Rightarrow> uint8 \<Rightarrow> crc_t" where
  "crc_calc crc_table packet num_bytes = crc_loop crc_table (take (unat num_bytes) packet) CRC_INIT"

definition is_packet_good :: "crc_t \<Rightarrow> crc_t \<Rightarrow> bool" where
  "is_packet_good my_crc kvh_crc \<longleftrightarrow> my_crc = kvh_crc"

subsection \<open>The register is linear\<close>

lemma bit_highbit: "bit CRC_HIGHBIT n \<longleftrightarrow> n = 31"
proof -
  have h: "CRC_HIGHBIT = 2 ^ 31" by (simp add: CRC_HIGHBIT_def)
  show ?thesis unfolding h bit_exp_iff possible_bit_word by auto
qed

lemma highbit_and: "(r AND CRC_HIGHBIT \<noteq> 0) \<longleftrightarrow> bit r 31"
proof
  assume "bit r 31"
  then have "bit (r AND CRC_HIGHBIT) 31" by (simp add: bit_and_iff bit_highbit)
  then show "r AND CRC_HIGHBIT \<noteq> 0" by auto
next
  assume "r AND CRC_HIGHBIT \<noteq> 0"
  then obtain n where "bit (r AND CRC_HIGHBIT) n" by (metis bit_eqI bit_0_eq bot_apply bot_bool_def)
  then show "bit r 31" by (auto simp: bit_and_iff bit_highbit)
qed

lemma crc_step_eq: "crc_step r = push_bit 1 r XOR (if bit r 31 then CRC_POLY else 0)"
  by (simp add: crc_step_def highbit_and)

lemma crc_step_xor: "crc_step (a XOR b) = crc_step a XOR crc_step b"
  by (simp add: crc_step_eq bit_xor_iff push_bit_xor ac_simps)

lemma crc_steps_xor: "(crc_step ^^ n) (a XOR b) = (crc_step ^^ n) a XOR (crc_step ^^ n) b"
  by (induction n) (simp_all add: crc_step_xor)

lemma crc_step_0 [simp]: "crc_step 0 = 0"
  by (simp add: crc_step_eq)

lemma crc_step_eq_0: "crc_step x = 0 \<Longrightarrow> x = 0"
proof -
  assume z: "crc_step x = 0"
  have "\<not> bit x 31"
  proof
    assume "bit x 31"
    with z have "\<not> bit (push_bit 1 x XOR CRC_POLY) 0" by (simp add: crc_step_eq)
    moreover have "bit (push_bit 1 x XOR CRC_POLY) 0"
      by (simp only: bit_xor_iff bit_push_bit_iff) (simp add: CRC_POLY_def)
    ultimately show False ..
  qed
  with z have s: "push_bit 1 x = 0" by (simp add: crc_step_eq)
  show "x = 0"
  proof (rule bit_word_eqI)
    fix n assume "n < LENGTH(32)"
    show "bit x n = bit 0 n"
    proof (cases "n = 31")
      case False
      with \<open>n < LENGTH(32)\<close> have "bit (push_bit 1 x) (Suc n) = bit x n"
        by (simp only: bit_push_bit_iff) simp
      with s show ?thesis by simp
    qed (use \<open>\<not> bit x 31\<close> in simp)
  qed
qed

lemma xor_eq_0: "a XOR b = 0 \<longleftrightarrow> a = (b :: 'a :: len word)"
  by (metis xor_self_eq xor.left_neutral xor.assoc xor.right_neutral)

lemma crc_step_inject [simp]: "crc_step a = crc_step b \<longleftrightarrow> a = b"
  using crc_step_eq_0 [of "a XOR b"] by (auto simp: crc_step_xor xor_eq_0)

lemma crc_steps_inject [simp]: "(crc_step ^^ n) a = (crc_step ^^ n) b \<longleftrightarrow> a = b"
  by (induction n) simp_all

lemma xor_right_cancel: "a XOR c = b XOR c \<longleftrightarrow> a = (b :: 'a :: len word)"
  by (metis xor.assoc xor.right_neutral xor_self_eq)

text \<open>A register whose top bits are clear is only shifted.\<close>

lemma crc_steps_shift:
  assumes "\<forall>i \<ge> 32 - n. \<not> bit w i" and "n \<le> 32"
  shows "(crc_step ^^ n) w = push_bit n w"
  using assms
proof (induction n)
  case (Suc n)
  then have IH: "(crc_step ^^ n) w = push_bit n w" by simp
  have "\<not> bit (push_bit n w) 31"
    using Suc.prems by (auto simp: bit_simps)
  then have "crc_step (push_bit n w) = push_bit 1 (push_bit n w)" by (simp add: crc_step_eq)
  also have "\<dots> = push_bit (Suc n) w" by (simp only: push_bit_push_bit plus_1_eq_Suc)
  finally show ?case by (simp only: funpow.simps comp_apply IH)
qed simp

subsection \<open>The bit-serial reference\<close>

text \<open>
  One bit of the message, most significant first: the polynomial is subtracted when the bit that
  leaves the register differs from the message's.
\<close>

definition serial_bit :: "bool \<Rightarrow> crc_t \<Rightarrow> crc_t" where
  "serial_bit b r = push_bit 1 r XOR (if bit r 31 \<noteq> b then CRC_POLY else 0)"

definition bits_of_byte :: "uint8 \<Rightarrow> bool list" where
  "bits_of_byte byte = map (bit byte) [7, 6, 5, 4, 3, 2, 1, 0]"

definition serial_crc :: "bool list \<Rightarrow> crc_t" where
  "serial_crc message = fold serial_bit message CRC_INIT"

lemma serial_bit_eq: "serial_bit b r = crc_step (r XOR (if b then CRC_HIGHBIT else 0))"
proof -
  have "push_bit 1 CRC_HIGHBIT = 0" by (simp add: CRC_HIGHBIT_def)
  then have h: "crc_step CRC_HIGHBIT = CRC_POLY" by (simp only: crc_step_eq bit_highbit) simp
  have "serial_bit b r = crc_step r XOR (if b then CRC_POLY else 0)"
    by (cases "bit r 31"; cases b) (simp_all add: serial_bit_def crc_step_eq xor.assoc)
  then show ?thesis by (simp add: crc_step_xor h)
qed

lemma serial_inject [simp]: "fold serial_bit bs a = fold serial_bit bs c \<longleftrightarrow> a = c"
  by (induction bs arbitrary: a c) (auto simp: serial_bit_eq xor_right_cancel)

lemma serial_bits: "fold serial_bit bs r = (crc_step ^^ length bs) r XOR fold serial_bit bs 0"
proof (induction bs arbitrary: r)
  case (Cons b bs)
  let ?h = "crc_step (if b then CRC_HIGHBIT else 0)"
  have "fold serial_bit (b # bs) r = (crc_step ^^ length bs) (crc_step r XOR ?h) XOR fold serial_bit bs 0"
    using Cons.IH [of "crc_step r XOR ?h"] by (simp only: fold_simps serial_bit_eq [of b] crc_step_xor)
  also have "\<dots> = (crc_step ^^ length bs) (crc_step r) XOR
      ((crc_step ^^ length bs) ?h XOR fold serial_bit bs 0)"
    by (simp only: crc_steps_xor xor.assoc)
  also have "(crc_step ^^ length bs) ?h XOR fold serial_bit bs 0 = fold serial_bit (b # bs) 0"
    using Cons.IH [of ?h] by (simp only: fold_simps serial_bit_eq [of b] xor.left_neutral)
  finally show ?case by (simp only: list.size funpow_swap1 funpow.simps comp_apply plus_1_eq_Suc add.right_neutral add_Suc_right)
qed simp

text \<open>The bits of a message of at most 32 bits, at the top of a register.\<close>

primrec pack_bits :: "bool list \<Rightarrow> crc_t" where
  "pack_bits [] = 0"
| "pack_bits (b # bs) = (if b then CRC_HIGHBIT else 0) XOR drop_bit 1 (pack_bits bs)"

lemma bit_pack_bits: "bit (pack_bits bs) n \<longleftrightarrow> n < 32 \<and> 31 - n < length bs \<and> bs ! (31 - n)"
proof (induction bs arbitrary: n)
  case (Cons b bs)
  have d: "bit (drop_bit 1 (pack_bits bs)) n \<longleftrightarrow> bit (pack_bits bs) (Suc n)"
    by (simp only: bit_drop_bit_eq comp_apply plus_1_eq_Suc)
  have "bit (pack_bits (b # bs)) n \<longleftrightarrow> (n = 31 \<and> b) \<noteq> bit (pack_bits bs) (Suc n)"
    by (simp only: pack_bits.simps bit_xor_iff d) (simp add: bit_highbit)
  also have "\<dots> \<longleftrightarrow> n < 32 \<and> 31 - n < length (b # bs) \<and> (b # bs) ! (31 - n)"
    by (cases "n = 31") (auto simp: Cons.IH nth_Cons' less_Suc_eq_le)
  finally show ?case .
qed simp

lemma serial_pack:
  "length bs \<le> 32 \<Longrightarrow> fold serial_bit bs 0 = (crc_step ^^ length bs) (pack_bits bs)"
proof (induction bs)
  case (Cons b bs)
  let ?h = "if b then CRC_HIGHBIT else 0" and ?p = "pack_bits bs"
  have p: "crc_step (drop_bit 1 ?p) = ?p"
  proof -
    have "\<not> bit (drop_bit 1 ?p) 31" by (simp only: bit_drop_bit_eq comp_apply bit_pack_bits) simp
    then have "crc_step (drop_bit 1 ?p) = push_bit 1 (drop_bit 1 ?p)" by (simp add: crc_step_eq)
    also have "\<dots> = ?p"
    proof (rule bit_word_eqI)
      fix n assume "n < LENGTH(32)"
      moreover have "\<not> bit ?p 0" using Cons.prems by (simp only: bit_pack_bits) simp
      ultimately show "bit (push_bit 1 (drop_bit 1 ?p)) n = bit ?p n"
        by (cases n) (simp_all only: bit_push_bit_iff bit_drop_bit_eq comp_apply, simp_all)
    qed
    finally show ?thesis .
  qed
  have "fold serial_bit (b # bs) 0 = (crc_step ^^ length bs) (crc_step ?h) XOR fold serial_bit bs 0"
    using serial_bits [of bs "crc_step ?h"] by (simp only: fold_simps serial_bit_eq [of b] xor.left_neutral)
  also have "\<dots> = (crc_step ^^ length bs) (crc_step ?h XOR crc_step (drop_bit 1 ?p))"
    using Cons by (simp only: p crc_steps_xor) simp
  also have "\<dots> = (crc_step ^^ length (b # bs)) (pack_bits (b # bs))"
    by (simp only: crc_step_xor [symmetric] pack_bits.simps list.size funpow_Suc_right comp_apply
        plus_1_eq_Suc add_Suc_right add.right_neutral)
  finally show ?case .
qed simp

lemma serial_short:
  "length bs \<le> 32 \<Longrightarrow> fold serial_bit bs r = (crc_step ^^ length bs) (r XOR pack_bits bs)"
  by (subst serial_bits) (simp add: serial_pack crc_steps_xor)

lemma length_bits_of_byte [simp]: "length (bits_of_byte byte) = 8"
  by (simp add: bits_of_byte_def)

lemma pack_byte: "pack_bits (bits_of_byte byte) = push_bit 24 (ucast byte)"
proof (rule bit_word_eqI)
  fix n assume n: "n < LENGTH(32)"
  show "bit (pack_bits (bits_of_byte byte)) n = bit (push_bit 24 (ucast byte) :: crc_t) n"
  proof (cases "24 \<le> n")
    case True
    with n consider "n = 24" | "n = 25" | "n = 26" | "n = 27" | "n = 28" | "n = 29" | "n = 30" | "n = 31"
      by fastforce
    then show ?thesis
      by cases (simp_all del: pack_bits.simps
        add: bit_pack_bits bit_push_bit_iff bit_ucast_iff bits_of_byte_def)
  next
    case False
    then have "\<not> 31 - n < 8" by simp
    with False show ?thesis by (simp only: bit_pack_bits bit_push_bit_iff length_bits_of_byte) simp
  qed
qed

lemma serial_byte:
  "fold serial_bit (bits_of_byte byte) r = (crc_step ^^ 8) (r XOR push_bit 24 (ucast byte))"
  using serial_short [of "bits_of_byte byte" r] by (simp add: pack_byte)

lemma bits_of_byte_inject: "bits_of_byte x = bits_of_byte y \<longleftrightarrow> x = y"
proof
  assume "bits_of_byte x = bits_of_byte y"
  then have p: "push_bit 24 (ucast x) = (push_bit 24 (ucast y) :: crc_t)"
    by (simp only: pack_byte [symmetric])
  show "x = y"
  proof (rule bit_word_eqI)
    fix n assume n: "n < LENGTH(8)"
    have "bit (push_bit 24 (ucast x) :: crc_t) (24 + n) = bit (push_bit 24 (ucast y) :: crc_t) (24 + n)"
      by (simp only: p)
    with n show "bit x n = bit y n" by (simp add: bit_push_bit_iff bit_ucast_iff)
  qed
qed simp

subsection \<open>The table\<close>

lemma crc_table_nth: "crc_generate_table ! unat (w AND 0xff XOR ucast (byte :: uint8)) =
    (crc_step ^^ 8) (push_bit 24 (w XOR ucast byte))" (is "_ ! unat ?i = _")
proof -
  have ff: "(0xff :: crc_t) = mask 8" by (simp add: mask_eq_exp_minus_1)
  have i: "?i = take_bit 8 (w XOR ucast byte)"
    unfolding ff by (rule bit_word_eqI) (auto simp: bit_simps dest: bit_imp_le_length)
  have "unat ?i < 256"
    unfolding i by (simp add: take_bit_eq_mod unat_mod)
  then have "crc_generate_table ! unat ?i = (crc_step ^^ 8) (push_bit 24 ?i)"
    by (simp add: crc_generate_table_def crc_table_entry_def del: funpow.simps)
  also have "push_bit 24 ?i = push_bit 24 (w XOR ucast byte)"
    unfolding i by (rule bit_word_eqI) (auto simp: bit_simps)
  finally show ?thesis .
qed

lemma crc_byte:
  "push_bit 8 crc XOR crc_generate_table ! unat (drop_bit 24 crc AND 0xff XOR ucast byte) =
   fold serial_bit (bits_of_byte byte) crc"
proof -
  have "crc XOR push_bit 24 (ucast byte) =
      (crc AND mask 24) XOR push_bit 24 (drop_bit 24 crc XOR ucast byte)"
    by (rule bit_word_eqI) (auto simp: bit_simps)
  moreover have "(crc_step ^^ 8) (crc AND mask 24) = push_bit 8 crc"
  proof -
    have "(crc_step ^^ 8) (crc AND mask 24) = push_bit 8 (crc AND mask 24)"
      by (rule crc_steps_shift) (auto simp: bit_simps)
    also have "\<dots> = push_bit 8 crc" by (rule bit_word_eqI) (auto simp: bit_simps)
    finally show ?thesis .
  qed
  ultimately show ?thesis by (simp only: serial_byte crc_steps_xor crc_table_nth)
qed

lemma crc_loop_serial:
  "crc_loop crc_generate_table packet crc = fold serial_bit (concat (map bits_of_byte packet)) crc"
  by (induction packet arbitrary: crc) (simp_all add: crc_byte)

subsection \<open>Properties\<close>

text \<open>
  C30. The table-driven calculation is the bit-serial one: for every packet and every count of
  bytes, with the generated table it gives the remainder that taking the bits one at a time
  gives.
\<close>

theorem crc_table_driven:
  "crc_calc crc_generate_table packet num_bytes =
   serial_crc (concat (map bits_of_byte (take (unat num_bytes) packet)))"
  by (simp add: crc_calc_def crc_loop_serial serial_crc_def)

text \<open>
  A burst of errors is detected: two messages that agree except within a stretch of at most 32
  consecutive bits, and differ there, have different checksums, wherever the stretch begins.
\<close>

lemma serial_crc_burst:
  assumes "length xs = length ys" and "length xs \<le> 32" and "xs \<noteq> ys"
  shows "serial_crc (pre @ xs @ post) \<noteq> serial_crc (pre @ ys @ post)"
proof
  let ?r = "fold serial_bit pre CRC_INIT"
  assume "serial_crc (pre @ xs @ post) = serial_crc (pre @ ys @ post)"
  then have "fold serial_bit xs ?r = fold serial_bit ys ?r"
    by (simp add: serial_crc_def)
  then have "?r XOR pack_bits xs = ?r XOR pack_bits ys"
    using assms(1,2) by (simp add: serial_short)
  then have p: "pack_bits xs = pack_bits ys"
    by (simp add: xor.commute [of ?r] xor_right_cancel)
  have "xs ! i = ys ! i" if "i < length xs" for i
  proof -
    have "bit (pack_bits xs) (31 - i) = bit (pack_bits ys) (31 - i)" by (simp only: p)
    moreover have "31 - i < 32" by simp
    moreover have "31 - (31 - i) = i" using that assms(2) by simp
    ultimately show ?thesis using that assms(1) by (simp only: bit_pack_bits) simp
  qed
  with assms(1,3) show False by (simp add: nth_equalityI)
qed

lemma crc_loop_burst:
  assumes "length xs = length ys" and "length xs \<le> 4" and "xs \<noteq> ys"
  shows "crc_loop crc_generate_table (pre @ xs @ post) CRC_INIT \<noteq>
    crc_loop crc_generate_table (pre @ ys @ post) CRC_INIT"
proof -
  let ?bits = "\<lambda>p. concat (map bits_of_byte p)"
  have len: "length (?bits p) = 8 * length p" for p by (induction p) simp_all
  have "?bits xs \<noteq> ?bits ys"
    using assms(1,3)
  proof (induction xs ys rule: list_induct2)
    case (Cons x xs y ys)
    then show ?case by (auto simp: bits_of_byte_inject)
  qed simp
  with serial_crc_burst [of "?bits xs" "?bits ys" "?bits pre" "?bits post"] assms(1,2)
  show ?thesis by (simp add: len crc_loop_serial serial_crc_def)
qed

text \<open>
  The checksum of a packet detects every burst of errors in up to four neighbouring bytes,
  in particular every packet with one wrong byte: the checksum that goes with the packet as
  sent is refused.
\<close>

theorem crc_detects_bursts:
  assumes "length xs = length ys" and "length xs \<le> 4" and "xs \<noteq> ys"
    and "unat num_bytes = length (pre @ xs @ post)"
  shows "\<not> is_packet_good (crc_calc crc_generate_table (pre @ xs @ post) num_bytes)
            (crc_calc crc_generate_table (pre @ ys @ post) num_bytes)"
  using crc_loop_burst [OF assms(1-3), of pre post] assms(1,4)
  by (simp add: is_packet_good_def crc_calc_def)

lemma crc_detects_bursts_witness:
  "\<not> is_packet_good (crc_calc crc_generate_table ([0xfe, 0x81] @ [0xff] @ [0x55]) 4)
     (crc_calc crc_generate_table ([0xfe, 0x81] @ [0x7f] @ [0x55]) 4)"
  by (rule crc_detects_bursts) simp_all

text \<open>The packet with which the firmware checks itself, as the IMU sent it, and its checksum.\<close>

definition kvh_packet :: "uint8 list" where
  "kvh_packet = [0xfe,0x81,0xff,0x55,0xb6,0x06,0xd8,0x1e,0xb6,0xc4,0x94,0x0f,0x36,0xd9,0x5a,0x83,
     0x3c,0x61,0xad,0x86,0x3b,0xe5,0xd0,0x86,0x3f,0x7f,0xdc,0xd4,0x77,0x72,0x00,0x26]"

lemma kvh_check: "crc_calc crc_generate_table kvh_packet 32 = 0xc0f2d540"
proof -
  have "fold serial_bit (concat (map bits_of_byte kvh_packet)) CRC_INIT = 0xc0f2d540" by code_simp
  moreover have "take (unat (32 :: uint8)) kvh_packet = kvh_packet" by (simp add: kvh_packet_def)
  ultimately show ?thesis by (simp only: crc_calc_def crc_loop_serial)
qed

end
