(* ===== verification/ImuFirmware.thy ===== *)
theory ImuFirmware
  imports Firmware Crc
begin

text \<open>
  The firmware of the IMU medulla (\<open>firmware/atrias2.1/src/medulla_imu.c\<close>): the packets of the
  gyroscope are checked for their header and their checksum before their fields are taken. The
  table of the checksum is generated at start-up and not changed afterwards.
\<close>

definition ERROR_FLAG_PAYLD_SZ :: uint8 where "ERROR_FLAG_PAYLD_SZ = push_bit 1 1"
definition ERROR_FLAG_HEADER :: uint8 where "ERROR_FLAG_HEADER = push_bit 2 1"
definition ERROR_FLAG_CRC :: uint8 where "ERROR_FLAG_CRC = push_bit 3 1"
definition KVH_MSG_SIZE :: nat where "KVH_MSG_SIZE = 36"
definition CRC_PAYLD_SZ :: uint8 where "CRC_PAYLD_SZ = 32"

record imu_board =
  imu_medulla_id_pdo :: uint8
  imu_error_flags_pdo :: uint8
  XAngDelta_pdo :: uint32
  YAngDelta_pdo :: uint32
  ZAngDelta_pdo :: uint32
  XAccel_pdo :: uint32
  YAccel_pdo :: uint32
  ZAccel_pdo :: uint32
  Status_pdo :: uint8
  Seq_pdo :: uint8
  Temp_pdo :: uint16
  CRC_pdo :: uint32
  imu_packet :: "uint8 list"
  master_syncs :: nat

definition imu_initialize :: "uint8 \<Rightarrow> imu_board" where
  "imu_initialize ident =
     \<lparr>imu_medulla_id_pdo = ident, imu_error_flags_pdo = 0, XAngDelta_pdo = 0, YAngDelta_pdo = 0,
      ZAngDelta_pdo = 0, XAccel_pdo = 0, YAccel_pdo = 0, ZAccel_pdo = 0, Status_pdo = 0, Seq_pdo = 0,
      Temp_pdo = 0, CRC_pdo = 0, imu_packet = replicate KVH_MSG_SIZE 0, master_syncs = 0\<rparr>"

text \<open>Four bytes of the packet, the most significant first.\<close>

definition populate_byte_to_data :: "uint8 list \<Rightarrow> nat \<Rightarrow> uint32" where
  "populate_byte_to_data packet n =
     push_bit 24 (ucast (packet ! n)) OR push_bit 16 (ucast (packet ! (n + 1))) OR
     push_bit 8 (ucast (packet ! (n + 2))) OR ucast (packet ! (n + 3))"

definition imu_process_data :: "imu_board \<Rightarrow> imu_board" where
  "imu_process_data b =
     (let p = imu_packet b
      in if p ! 0 \<noteq> 0xFE \<or> p ! 1 \<noteq> 0x81 \<or> p ! 2 \<noteq> 0xFF \<or> p ! 3 \<noteq> 0x55
         then b\<lparr>imu_error_flags_pdo := imu_error_flags_pdo b OR ERROR_FLAG_HEADER\<rparr>
         else
           let b = b\<lparr>CRC_pdo := populate_byte_to_data p 32\<rparr>
           in if \<not> is_packet_good (crc_calc crc_generate_table p CRC_PAYLD_SZ) (CRC_pdo b)
              then b\<lparr>imu_error_flags_pdo := imu_error_flags_pdo b OR ERROR_FLAG_CRC\<rparr>
              else b\<lparr>XAngDelta_pdo := populate_byte_to_data p 4,
                     YAngDelta_pdo := populate_byte_to_data p 8,
                     ZAngDelta_pdo := populate_byte_to_data p 12,
                     XAccel_pdo := populate_byte_to_data p 16,
                     YAccel_pdo := populate_byte_to_data p 20,
                     ZAccel_pdo := populate_byte_to_data p 24,
                     Status_pdo := p ! 28, Seq_pdo := p ! 29,
                     Temp_pdo := push_bit 8 (ucast (p ! 30)) OR ucast (p ! 31)\<rparr>)"

text \<open>The bytes that the serial port delivers, at most a packet, overwrite the start of the buffer.\<close>

definition imu_update_inputs :: "uint8 list \<Rightarrow> imu_board \<Rightarrow> imu_board" where
  "imu_update_inputs received b =
     (let b = b\<lparr>imu_error_flags_pdo := 0\<rparr>;
          received = take KVH_MSG_SIZE received;
          b = b\<lparr>imu_packet := received @ drop (length received) (imu_packet b)\<rparr>
      in if length received = KVH_MSG_SIZE then imu_process_data b
         else b\<lparr>imu_error_flags_pdo := imu_error_flags_pdo b OR ERROR_FLAG_PAYLD_SZ\<rparr>)"

definition imu_post_ecat :: "imu_board \<Rightarrow> imu_board" where
  "imu_post_ecat b = b\<lparr>master_syncs := Suc (master_syncs b)\<rparr>"

definition imu_run_halt :: "imu_board \<Rightarrow> bool \<times> imu_board" where
  "imu_run_halt b = (True, b)"

definition imu_estop :: "imu_board \<Rightarrow> imu_board" where
  "imu_estop b = b\<lparr>imu_error_flags_pdo := imu_error_flags_pdo b OR medulla_error_estop\<rparr>"

definition imu_check_error :: "imu_board \<Rightarrow> bool \<times> imu_board" where
  "imu_check_error b = (False, b)"

definition imu_check_halt :: "imu_board \<Rightarrow> bool \<times> imu_board" where
  "imu_check_halt b = (False, b)"

definition imu_reset_error :: "imu_board \<Rightarrow> imu_board" where
  "imu_reset_error b = b\<lparr>imu_error_flags_pdo := 0\<rparr>"

definition imu_ops :: "(uint8 list, imu_board) medulla_ops" where
  "imu_ops =
     \<lparr>enable_outputs = (\<lambda>b. b), disable_outputs = (\<lambda>b. b), update_inputs = imu_update_inputs,
      run_halt = imu_run_halt, update_outputs = (\<lambda>_ b. b), post_ecat = imu_post_ecat,
      estop = imu_estop, check_error = imu_check_error, check_halt = imu_check_halt,
      reset_error = imu_reset_error\<rparr>"

text \<open>The board has no outputs.\<close>

interpretation imu_fw: quiet_board imu_ops "\<lambda>_. False"
  by unfold_locales (simp_all add: imu_ops_def imu_check_halt_def)

subsection \<open>Properties\<close>

text \<open>The sensor entries of the process data.\<close>

definition imu_readings :: "imu_board \<Rightarrow> uint32 list \<times> uint8 \<times> uint8 \<times> uint16" where
  "imu_readings b =
     ([XAngDelta_pdo b, YAngDelta_pdo b, ZAngDelta_pdo b, XAccel_pdo b, YAccel_pdo b, ZAccel_pdo b],
      Status_pdo b, Seq_pdo b, Temp_pdo b)"

lemma populate_suffix:
  "length p = 32 \<Longrightarrow> populate_byte_to_data (p @ crc) 32 = populate_byte_to_data crc 0"
  by (simp add: populate_byte_to_data_def nth_append numeral_2_eq_2)

lemma imu_update_packet:
  "length p = KVH_MSG_SIZE \<Longrightarrow> length (imu_packet b) = KVH_MSG_SIZE \<Longrightarrow>
   imu_update_inputs p b = imu_process_data (b\<lparr>imu_error_flags_pdo := 0, imu_packet := p\<rparr>)"
  by (simp add: imu_update_inputs_def Let_def)

text \<open>
  C29. A corrupted packet is refused: when a packet with a correct checksum arrives with an error in up
  to four neighbouring bytes of its payload, all sensor entries keep their values, and the flags
  report a bad header or a bad checksum.
\<close>

theorem imu_refuses_corruption:
  assumes "crc_calc crc_generate_table (pre @ xs @ post @ crc) CRC_PAYLD_SZ =
      populate_byte_to_data (pre @ xs @ post @ crc) 32"
    and "length (pre @ xs @ post) = 32" and "length crc = 4" and "length (imu_packet b) = KVH_MSG_SIZE"
    and "length xs = length ys" and "length xs \<le> 4" and "xs \<noteq> ys"
  shows "imu_readings (imu_update_inputs (pre @ ys @ post @ crc) b) = imu_readings b \<and>
    imu_error_flags_pdo (imu_update_inputs (pre @ ys @ post @ crc) b) \<in> {ERROR_FLAG_HEADER, ERROR_FLAG_CRC}"
proof -
  have len: "length (pre @ ys @ post) = 32" using assms(2,5) by simp
  have c: "crc_calc crc_generate_table ((pre @ zs @ post) @ crc) CRC_PAYLD_SZ =
    crc_loop crc_generate_table (pre @ zs @ post) CRC_INIT" if "length (pre @ zs @ post) = 32" for zs
    using that by (simp add: crc_calc_def CRC_PAYLD_SZ_def del: append_assoc)
  have "crc_calc crc_generate_table ((pre @ ys @ post) @ crc) CRC_PAYLD_SZ \<noteq>
    populate_byte_to_data ((pre @ ys @ post) @ crc) 32"
    using crc_loop_burst [OF assms(5-7), of pre post] assms(1)
      c [OF assms(2)] c [OF len] populate_suffix [OF assms(2), of crc] populate_suffix [OF len, of crc]
    by simp
  moreover have "length (pre @ ys @ post @ crc) = KVH_MSG_SIZE"
    using len assms(3) by (simp add: KVH_MSG_SIZE_def)
  ultimately show ?thesis
    by (simp add: imu_update_packet assms(4) imu_process_data_def Let_def is_packet_good_def
        imu_readings_def)
qed

theorem imu_refuses_corruption_witness:
  "imu_readings (imu_update_inputs (kvh_packet [30 := 1] @ [0xc0, 0xf2, 0xd5, 0x40]) (imu_initialize 0)) =
    imu_readings (imu_initialize 0)"
proof -
  have p: "kvh_packet = take 30 kvh_packet @ [0] @ [0x26]"
    "kvh_packet [30 := 1] = take 30 kvh_packet @ [1] @ [0x26]" "length kvh_packet = 32"
    by (simp_all add: kvh_packet_def)
  have "crc_calc crc_generate_table (kvh_packet @ [0xc0, 0xf2, 0xd5, 0x40]) CRC_PAYLD_SZ =
    crc_calc crc_generate_table kvh_packet 32"
    by (simp add: crc_calc_def CRC_PAYLD_SZ_def p(3))
  also have "\<dots> = populate_byte_to_data (kvh_packet @ [0xc0, 0xf2, 0xd5, 0x40]) 32"
    unfolding kvh_check populate_suffix [OF p(3)] by (simp add: populate_byte_to_data_def)
  finally have "crc_calc crc_generate_table (take 30 kvh_packet @ [0] @ [0x26] @ [0xc0, 0xf2, 0xd5, 0x40]) CRC_PAYLD_SZ =
    populate_byte_to_data (take 30 kvh_packet @ [0] @ [0x26] @ [0xc0, 0xf2, 0xd5, 0x40]) 32"
    using p(1) by (simp only: append_assoc [symmetric])
  from imu_refuses_corruption [OF this, of "imu_initialize 0" "[1]"] p(3) show ?thesis
    unfolding p(2) by (simp add: imu_initialize_def)
qed

text \<open>
  A halted IMU medulla never leaves the state: as long as the emergency stop line is not pressed,
  no command of the master, whether error, reset or idle, and no sequence of them, has an effect.
\<close>

theorem imu_halt_stuck:
  assumes "current_state m = medulla_state_halt" and "sint (estop_debounce m) \<le> ESTOP_DEBOUNCE_LIMIT"
    and "\<forall>i \<in> set is. \<not> estop_pressed i"
  shows "current_state (fw_turns imu_ops is m) = medulla_state_halt"
  using assms
proof (induction "is" arbitrary: m)
  case (Cons i "is")
  with imu_fw.halt_stays [OF Cons.prems(1), of i] show ?case
    by (simp add: fw_turns_def imu_ops_def imu_check_error_def imu_run_halt_def)
qed (simp add: fw_turns_def)

lemma imu_halt_stuck_witness:
  "current_state (fw_turns imu_ops
     [\<lparr>rx_command = medulla_state_reset, rx_counter = 1, rx_current = 0, estop_pressed = False,
       estop_pressed_init = False, sensors = []\<rparr>,
      \<lparr>rx_command = medulla_state_idle, rx_counter = 2, rx_current = 0, estop_pressed = False,
       estop_pressed_init = False, sensors = []\<rparr>]
     ((fw_start 0 (imu_initialize 0))\<lparr>current_state := medulla_state_halt\<rparr>)) = medulla_state_halt"
  by (rule imu_halt_stuck) (simp_all add: fw_start_def ESTOP_DEBOUNCE_LIMIT_def)

end
