(* ===== verification/ImuSensor.thy ===== *)
theory ImuSensor
  imports Prelude
begin

text \<open>
  The firmware of the separate IMU medulla (firmware/imu_medulla/src/imu.c, medulla_imu.c): it talks to an inertial
  sensor over a serial line. The theorems: the parser of the continuous stream, which resynchronises after corrupt bytes,
  finds exactly the packets of a sliding window; answers are taken only with their checksum; the settings survive
  coding; and two defects.

  The serial line is a library of the microcontroller. What it does is an input: \<open>rooms\<close> are the numbers of bytes that
  \<open>uart_tx_data\<close> can take in its calls, \<open>arriving\<close> the bytes that will arrive, in order. A loop that waits for
  bytes that never arrive, or asks again for ever, is \<open>None\<close>, and so is a write past the end of an array.
\<close>

subsection \<open>Bytes\<close>

definition convert_bytes_to_uint32 :: "uint8 list \<Rightarrow> uint32" where
  "convert_bytes_to_uint32 b =
     push_bit 24 (ucast (b ! 0)) + push_bit 16 (ucast (b ! 1)) + push_bit 8 (ucast (b ! 2)) + ucast (b ! 3)"

definition convert_bytes_to_uint16 :: "uint8 list \<Rightarrow> uint16" where
  "convert_bytes_to_uint16 b = push_bit 8 (ucast (b ! 0)) + ucast (b ! 1)"

definition convert_uint16_to_bytes :: "uint16 \<Rightarrow> uint8 list" where
  "convert_uint16_to_bytes w = [ucast (drop_bit 8 w), ucast w]"

definition imu_verify_checksum :: "uint8 list \<Rightarrow> bool" where
  "imu_verify_checksum bs =
     (let n = length bs;
          tChksum = foldl (\<lambda>c b. c + ucast b) (0 :: uint16) (take (n - 2) bs);
          tResponseChksum = push_bit 8 (ucast (bs ! (n - 2))) + ucast (bs ! (n - 1))
      in tChksum = tResponseChksum)"

subsection \<open>Settings\<close>

record imu_sampling_settings =
  decimation :: uint16
  enable_orientation :: bool
  enable_coning_sculling :: bool
  enable_little_endian :: bool
  suppress_nan :: bool
  enable_fin_size_corr :: bool
  enable_magnetometer :: bool
  enable_north_compensation :: bool
  enable_up_compensation :: bool
  enable_quaternion :: bool
  gyro_accel_filter_length :: uint8
  magnetometer_filter_length :: uint8
  up_compensation_time_constant :: uint16
  north_compensation_time_constant :: uint16

definition flag :: "uint16 \<Rightarrow> nat \<Rightarrow> bool" where
  "flag d n \<longleftrightarrow> and d (push_bit n 1) \<noteq> 0"

definition parse_sampling_settings :: "uint8 list \<Rightarrow> imu_sampling_settings" where
  "parse_sampling_settings response =
     (let d = convert_bytes_to_uint16 (drop 3 response)
      in \<lparr>decimation = convert_bytes_to_uint16 (drop 1 response),
          enable_orientation = flag d 0, enable_coning_sculling = flag d 1, enable_little_endian = flag d 4,
          suppress_nan = flag d 5, enable_fin_size_corr = flag d 6, enable_magnetometer = (\<not> flag d 8),
          enable_north_compensation = (\<not> flag d 10), enable_up_compensation = (\<not> flag d 11),
          enable_quaternion = flag d 12,
          gyro_accel_filter_length = response ! 5, magnetometer_filter_length = response ! 6,
          up_compensation_time_constant = convert_bytes_to_uint16 (drop 7 response),
          north_compensation_time_constant = convert_bytes_to_uint16 (drop 9 response)\<rparr>)"

definition set_flag :: "bool \<Rightarrow> nat \<Rightarrow> uint16 \<Rightarrow> uint16" where
  "set_flag b n d = or d (if b then push_bit n 1 else 0)"

definition data_conditioning :: "imu_sampling_settings \<Rightarrow> uint16" where
  "data_conditioning s =
     (let d = 0; d = set_flag (enable_orientation s) 0 d; d = set_flag (enable_coning_sculling s) 1 d;
          d = set_flag (enable_little_endian s) 4 d; d = set_flag (suppress_nan s) 5 d;
          d = set_flag (enable_fin_size_corr s) 6 d; d = set_flag (\<not> enable_magnetometer s) 8 d;
          d = set_flag (\<not> enable_north_compensation s) 10 d; d = set_flag (\<not> enable_up_compensation s) 11 d
      in set_flag (enable_quaternion s) 12 d)"

text \<open>The bytes 4 to 13 of the command.\<close>

definition encode_sampling_settings :: "imu_sampling_settings \<Rightarrow> uint8 list \<Rightarrow> uint8 list" where
  "encode_sampling_settings s cmd =
     take 4 cmd @ convert_uint16_to_bytes (decimation s) @ convert_uint16_to_bytes (data_conditioning s) @
     [gyro_accel_filter_length s, magnetometer_filter_length s] @
     convert_uint16_to_bytes (up_compensation_time_constant s) @
     convert_uint16_to_bytes (north_compensation_time_constant s) @ drop 14 cmd"

subsection \<open>Commands\<close>

record imu_link =
  rooms :: "nat list"
  arriving :: "uint8 list"
  sent :: "uint8 list"

text \<open>
  One attempt: whether the answer was good, and the answer. \<open>cap\<close> is the size of the array for the answer.
\<close>

definition imu_send_command ::
  "nat \<Rightarrow> uint8 list \<Rightarrow> nat \<Rightarrow> imu_link \<Rightarrow> (bool \<times> uint8 list \<times> imu_link) option" where
  "imu_send_command cap cmd response_length l =
     (case rooms l of
        [] \<Rightarrow> None
      | room # rs \<Rightarrow>
          (let tx = min room (length cmd); l = l\<lparr>rooms := rs, sent := sent l @ take tx cmd\<rparr>
           in if tx < length cmd then Some (False, [], l)
              else if length (arriving l) < response_length \<or> cap < response_length then None
              else
                let response = take response_length (arriving l);
                    l = l\<lparr>arriving := drop response_length (arriving l)\<rparr>
                in Some (0 < response_length \<longrightarrow> response ! 0 = cmd ! 0 \<and> imu_verify_checksum response, response, l)))"

lemma imu_send_command_rooms:
  assumes "imu_send_command cap cmd n l = Some (ok, response, l')"
  shows "length (rooms l) = Suc (length (rooms l'))"
  using assms by (cases "rooms l") (auto simp: imu_send_command_def Let_def split: if_splits)

text \<open>The loop of all the commands: again until an answer is good, counting in eight bits.\<close>

function imu_request :: "nat \<Rightarrow> uint8 list \<Rightarrow> nat \<Rightarrow> uint8 \<Rightarrow> imu_link \<Rightarrow> (uint8 \<times> uint8 list \<times> imu_link) option" where
  "imu_request cap cmd n numreq l =
     (case imu_send_command cap cmd n l of
        None \<Rightarrow> None
      | Some (ok, response, l') \<Rightarrow> if ok then Some (numreq, response, l') else imu_request cap cmd n (numreq + 1) l')"
  by pat_completeness auto

termination
  by (relation "measure (\<lambda>(cap, cmd, n, numreq, l). length (rooms l))")
    (auto dest: imu_send_command_rooms)

declare imu_request.simps [simp del]

definition get_settings_cmd :: "uint8 list" where
  "get_settings_cmd = [0xDB, 0xA8, 0xB9] @ replicate 17 0"

definition set_settings_cmd :: "uint8 list" where
  "set_settings_cmd = [0xDB, 0xA8, 0xB9, 0x01] @ replicate 16 0"

definition imu_get_sampling_settings :: "imu_link \<Rightarrow> (uint8 \<times> imu_sampling_settings \<times> imu_link) option" where
  "imu_get_sampling_settings l =
     (case imu_request 19 get_settings_cmd 19 1 l of
        None \<Rightarrow> None
      | Some (numreq, response, l) \<Rightarrow> Some (numreq, parse_sampling_settings response, l))"

definition imu_set_sampling_settings :: "imu_sampling_settings \<Rightarrow> imu_link \<Rightarrow> (uint8 \<times> imu_link) option" where
  "imu_set_sampling_settings s l =
     (case imu_request 19 (encode_sampling_settings s set_settings_cmd) 19 1 l of
        None \<Rightarrow> None
      | Some (numreq, response, l) \<Rightarrow> Some (numreq, l))"

definition imu_capture_gyro_bias :: "uint16 \<Rightarrow> imu_link \<Rightarrow> (uint8 \<times> imu_link) option" where
  "imu_capture_gyro_bias sampling_time l =
     (case imu_request 7 ([0xCD, 0xC1, 0x29] @ convert_uint16_to_bytes sampling_time) 19 1 l of
        None \<Rightarrow> None
      | Some (numreq, response, l) \<Rightarrow> Some (numreq, l))"

definition imu_realign_up_and_north :: "uint8 \<Rightarrow> uint8 \<Rightarrow> imu_link \<Rightarrow> (uint8 \<times> imu_link) option" where
  "imu_realign_up_and_north up_realign_time north_realign_time l =
     (case imu_request 7 ([0xDD, 0x54, 0x4C, 0x00, up_realign_time, north_realign_time] @ replicate 4 0) 7 1 l of
        None \<Rightarrow> None
      | Some (numreq, response, l) \<Rightarrow> Some (numreq, l))"

text \<open>
  The answer is compared with the command, but none is read: \<open>garbage\<close> is what the array happens to hold. Where it is
  not the command the function asks for ever.
\<close>

definition imu_set_continuous_mode :: "uint8 \<Rightarrow> uint8 \<Rightarrow> imu_link \<Rightarrow> (uint8 \<times> imu_link) option" where
  "imu_set_continuous_mode garbage continuous_command l =
     (if garbage = continuous_command then
        (case imu_request 1 [0xC4, 0xC1, 0x29, continuous_command] 0 1 l of
           None \<Rightarrow> None
         | Some (numreq, response, l) \<Rightarrow> Some (numreq, l))
      else None)"

definition imu_unset_continuous_mode :: "imu_link \<Rightarrow> (uint8 \<times> imu_link) option" where
  "imu_unset_continuous_mode l =
     (case imu_request 0 [0xFA, 0x75, 0xB4] 0 1 l of
        None \<Rightarrow> None
      | Some (numreq, response, l) \<Rightarrow> Some (numreq, l))"

definition imu_soft_reset :: "imu_link \<Rightarrow> (uint8 \<times> imu_link) option" where
  "imu_soft_reset l =
     (case imu_request 0 [0xFE, 0x9E, 0x3A] 0 1 l of
        None \<Rightarrow> None
      | Some (numreq, response, l) \<Rightarrow> Some (numreq, l))"

text \<open>Commands of one byte, by their number in the enumeration: the command and the length of the answer.\<close>

definition imu_cmd_single_byte :: "uint8 list" where
  "imu_cmd_single_byte = [0xC1, 0xC2, 0xC3, 0xC5, 0xC6, 0xC7, 0xC8, 0xCB, 0xCC, 0xCE, 0xCF, 0xD1, 0xD2, 0xD3, 0xDA, 0xDF, 0xE9]"

definition imu_ack_single_byte :: "nat list" where
  "imu_ack_single_byte = [31, 31, 31, 43, 43, 19, 67, 43, 79, 19, 31, 15, 43, 43, 7, 23, 7]"

text \<open>Flushing drops the \<open>now\<close> bytes that have arrived; the answer goes to the packet buffer of 100 bytes.\<close>

definition imu_flush :: "nat \<Rightarrow> imu_link \<Rightarrow> imu_link" where
  "imu_flush now l = l\<lparr>arriving := drop now (arriving l)\<rparr>"

definition imu_poll_single_byte_command :: "nat \<Rightarrow> nat \<Rightarrow> imu_link \<Rightarrow> (uint8 \<times> uint8 list \<times> imu_link) option" where
  "imu_poll_single_byte_command now cmd l =
     imu_request 100 [imu_cmd_single_byte ! cmd] (imu_ack_single_byte ! cmd) 1 (imu_flush now l)"

text \<open>\<open>read_bytes\<close> gives up after \<open>max_attempts\<close> calls; \<open>counts\<close> are the numbers of bytes that have arrived at each.\<close>

fun read_bytes :: "nat \<Rightarrow> nat list \<Rightarrow> uint8 list \<Rightarrow> uint8 list \<times> uint8 list" where
  "read_bytes n (c # cs) line =
     (if n = 0 then ([], line)
      else let k = min n (min c (length line)); (bs, rest) = read_bytes (n - k) cs (drop k line)
           in (take k line @ bs, rest))"
| "read_bytes n [] line = ([], line)"

subsection \<open>The parser of the stream\<close>

definition parse_OriMatrix :: "uint8 list \<Rightarrow> uint32 list" where
  "parse_OriMatrix response = map (\<lambda>k. convert_bytes_to_uint32 (drop (4 * k) response)) [0..<9]"

definition parse_three :: "uint8 list \<Rightarrow> uint32 \<times> uint32 \<times> uint32" where
  "parse_three response = (convert_bytes_to_uint32 response, convert_bytes_to_uint32 (drop 4 response),
     convert_bytes_to_uint32 (drop 8 response))"

text \<open>\<open>packet_buffer_length\<close> is a byte in the code; it is at most 43.\<close>

record imu_sync =
  packet_buffer :: "uint8 list"
  packet_buffer_length :: nat
  sync_state :: nat

definition IMU_CMD_ORIENTATION_MATRIX :: uint8 where [simp]: "IMU_CMD_ORIENTATION_MATRIX = 0xC5"
definition IMU_ACK_ORIENTATION_MATRIX :: nat where [simp]: "IMU_ACK_ORIENTATION_MATRIX = 43"

text \<open>Reading until a header: the last byte read, whether it is a header, the bytes that are left on the line.\<close>

fun seek_header :: "uint8 \<Rightarrow> uint8 list \<Rightarrow> uint8 \<times> bool \<times> uint8 list" where
  "seek_header b [] = (b, False, [])"
| "seek_header b (x # xs) = (if x = IMU_CMD_ORIENTATION_MATRIX then (x, True, xs) else seek_header x xs)"

text \<open>The body of the loop after a bad checksum: buffer, place of the second header, length and state.\<close>

definition resync_byte :: "uint8 list \<times> nat \<times> nat \<times> nat \<Rightarrow> nat \<Rightarrow> uint8 list \<times> nat \<times> nat \<times> nat" where
  "resync_byte st i =
     (case st of (buf, second, len, state) \<Rightarrow>
        if 0 < second then (buf[i - second := buf ! i], second, len, state)
        else if buf ! i = IMU_CMD_ORIENTATION_MATRIX then (buf[i - i := buf ! i], i, IMU_ACK_ORIENTATION_MATRIX - i, 1)
        else (buf, second, len, state))"

text \<open>One turn with the bytes \<open>line\<close> that have arrived: the bytes that are left, and the packet that was accepted.\<close>

definition sync_step :: "uint8 list \<Rightarrow> 'c imu_sync_scheme \<Rightarrow> 'c imu_sync_scheme \<times> uint8 list \<times> uint8 list option" where
  "sync_step line s =
     (if sync_state s = 0 then
        (let (b, found, rest) = seek_header 0 line; s = s\<lparr>packet_buffer := (packet_buffer s)[0 := b]\<rparr>
         in (if found then s\<lparr>packet_buffer_length := 1, sync_state := 1\<rparr> else s, rest, None))
      else if sync_state s = 1 then
        (let n = packet_buffer_length s; k = min (IMU_ACK_ORIENTATION_MATRIX - n) (length line);
             buf = take n (packet_buffer s) @ take k line @ drop (n + k) (packet_buffer s);
             s = s\<lparr>packet_buffer := buf, packet_buffer_length := n + k\<rparr>
         in if n + k = IMU_ACK_ORIENTATION_MATRIX then
              (if imu_verify_checksum (take IMU_ACK_ORIENTATION_MATRIX buf)
               then (s\<lparr>sync_state := 0\<rparr>, drop k line, Some (take IMU_ACK_ORIENTATION_MATRIX buf))
               else (let (buf, second, len, state) = foldl resync_byte (buf, 0, n + k, 0) [1..<IMU_ACK_ORIENTATION_MATRIX]
                     in (s\<lparr>packet_buffer := buf, packet_buffer_length := len, sync_state := state\<rparr>, drop k line, None)))
            else (s, drop k line, None))
      else (s\<lparr>sync_state := 0\<rparr>, line, None))"

subsection \<open>The state machine\<close>

record imu_medulla = imu_sync +
  imu_current_state :: uint8
  imu_command :: uint8
  led_cnt :: uint8
  cmd_cnt :: uint32
  current_settings :: imu_sampling_settings
  LED_PORT :: uint8
  OriMatrix_pdo :: "uint32 list"
  XAngRate_pdo :: uint32
  YAngRate_pdo :: uint32
  ZAngRate_pdo :: uint32
  XAccel_pdo :: uint32
  YAccel_pdo :: uint32
  ZAccel_pdo :: uint32
  imu_medulla_id_pdo :: uint8
  imu_current_state_pdo :: uint8
  imu_medulla_counter_pdo :: uint8
  imu_error_flags_pdo :: uint8

definition imu_init_pdos :: "imu_medulla \<Rightarrow> imu_medulla" where
  "imu_init_pdos s = s
     \<lparr>OriMatrix_pdo := replicate 9 0, XAngRate_pdo := 0, YAngRate_pdo := 0, ZAngRate_pdo := 0, XAccel_pdo := 0,
      YAccel_pdo := 0, ZAccel_pdo := 0, imu_medulla_id_pdo := 0, imu_current_state_pdo := 0,
      imu_medulla_counter_pdo := 0, imu_error_flags_pdo := 0\<rparr>"

definition imu_configure :: "uint16 \<Rightarrow> imu_medulla \<times> imu_link \<Rightarrow> (imu_medulla \<times> imu_link) option" where
  "imu_configure command sl =
     (case sl of (s, l) \<Rightarrow>
        if command \<noteq> ucast (imu_command s) \<and> 2 \<le> command \<and> command \<le> 1000 then
          (case imu_get_sampling_settings l of
             None \<Rightarrow> None
           | Some (_, st, l) \<Rightarrow>
               (case imu_set_sampling_settings (st\<lparr>up_compensation_time_constant := command\<rparr>) l of
                  None \<Rightarrow> None
                | Some (_, l) \<Rightarrow>
                    (case imu_get_sampling_settings l of
                       None \<Rightarrow> None
                     | Some (_, st, l) \<Rightarrow>
                         Some (s\<lparr>current_settings := st, imu_command := ucast (up_compensation_time_constant st)\<rparr>, l))))
        else Some (s, l))"

text \<open>One turn: \<open>now\<close> bytes have arrived when the line is read or flushed.\<close>

definition imu_run_state_machine :: "uint16 \<Rightarrow> nat \<Rightarrow> imu_medulla \<times> imu_link \<Rightarrow> (imu_medulla \<times> imu_link) option" where
  "imu_run_state_machine command now sl =
     (let s = fst sl;
          s = s\<lparr>LED_PORT := or (and (LED_PORT s) (not 7)) (if and (led_cnt s) 0x80 \<noteq> 0 then 5 else 4)\<rparr>;
          s = s\<lparr>led_cnt := led_cnt s + 1, cmd_cnt := cmd_cnt s + 1\<rparr>;
          done = (\<lambda>s. s\<lparr>imu_medulla_id_pdo := imu_command s, imu_current_state_pdo := imu_current_state s,
                          imu_medulla_counter_pdo := ucast command, imu_error_flags_pdo := 1\<rparr>)
      in case imu_configure command (s, snd sl) of
           None \<Rightarrow> None
         | Some (s, l) \<Rightarrow>
             if imu_current_state s = 1 then
               (let (s, rest, packet) = sync_step (take now (arriving l)) s;
                    l = l\<lparr>arriving := rest @ drop now (arriving l)\<rparr>;
                    s = (case packet of None \<Rightarrow> s | Some p \<Rightarrow> s\<lparr>OriMatrix_pdo := parse_OriMatrix (drop 1 p)\<rparr>)
                in Some (done s, l))
             else
               (case imu_poll_single_byte_command now 3 l of
                  None \<Rightarrow> None
                | Some (_, response, l) \<Rightarrow>
                    (let s = s\<lparr>packet_buffer := response @ drop (length response) (packet_buffer s)\<rparr>;
                         s = s\<lparr>OriMatrix_pdo := parse_OriMatrix (drop 1 (packet_buffer s))\<rparr>;
                         s = s\<lparr>YAngRate_pdo := ucast (imu_command s), ZAngRate_pdo := ucast command,
                               XAccel_pdo := ucast (up_compensation_time_constant (current_settings s)),
                               YAccel_pdo := cmd_cnt s,
                               ZAccel_pdo := (if enable_up_compensation (current_settings s) then 1 else 0)\<rparr>
                     in Some (done s, l))))"

text \<open>The settings that \<open>main\<close> writes before its loop.\<close>

definition imu_main_settings :: "imu_sampling_settings \<Rightarrow> imu_sampling_settings" where
  "imu_main_settings st = st
     \<lparr>enable_quaternion := False, enable_magnetometer := False, enable_north_compensation := False,
      north_compensation_time_constant := 10, enable_up_compensation := True, up_compensation_time_constant := 70,
      gyro_accel_filter_length := 15, magnetometer_filter_length := 17\<rparr>"

definition imu_main_start :: "imu_link \<Rightarrow> (imu_sampling_settings \<times> imu_link) option" where
  "imu_main_start l =
     (case imu_soft_reset l of
        None \<Rightarrow> None
      | Some (_, l) \<Rightarrow>
          (case imu_get_sampling_settings l of
             None \<Rightarrow> None
           | Some (_, st, l) \<Rightarrow>
               (case imu_set_sampling_settings (imu_main_settings st) l of
                  None \<Rightarrow> None
                | Some (_, l) \<Rightarrow> Some (imu_main_settings st, l))))"

subsection \<open>Answers\<close>

lemma uint16_bytes: "convert_bytes_to_uint16 (convert_uint16_to_bytes w @ xs) = w"
proof -
  have "and (push_bit 8 (ucast (ucast (drop_bit 8 w) :: uint8))) (ucast (ucast w :: uint8)) = (0 :: uint16)"
    by (rule bit_word_eqI) (auto simp: bit_simps)
  then show ?thesis
    by (auto simp: convert_bytes_to_uint16_def convert_uint16_to_bytes_def disjunctive_add_eq_or bit_simps intro!: bit_word_eqI)
qed

lemma bit_set_flag: "bit (set_flag b m d) n \<longleftrightarrow> bit d n \<or> (b \<and> n = m \<and> n < 16)" for d :: uint16
  by (auto simp: set_flag_def bit_simps push_bit_of_1)

lemma flag_bit: "n < 16 \<Longrightarrow> flag d n \<longleftrightarrow> bit d n"
  by (simp add: flag_def push_bit_of_1 and_exp_eq_0_iff_not_bit)

lemma settings_roundtrip:
  assumes "length response = 19" and "take 10 (drop 1 response) = take 10 (drop 4 (encode_sampling_settings s set_settings_cmd))"
  shows "parse_sampling_settings response = s"
proof -
  have dc: "flag (data_conditioning s) n \<longleftrightarrow> bit (data_conditioning s) n" if "n \<in> {0, 1, 4, 5, 6, 8, 10, 11, 12}" for n
    using that by (intro flag_bit) auto
  obtain r0 rest where r: "response = r0 # take 10 (drop 4 (encode_sampling_settings s set_settings_cmd)) @ rest"
    using assms by (cases response) (auto, metis append_take_drop_id)
  show ?thesis
    unfolding r parse_sampling_settings_def encode_sampling_settings_def set_settings_cmd_def
    using uint16_bytes [unfolded convert_uint16_to_bytes_def]
    by (simp add: Let_def convert_uint16_to_bytes_def dc) (simp add: data_conditioning_def Let_def bit_set_flag)
qed

text \<open>What a command that ends has received.\<close>

lemma imu_send_command_checked:
  assumes "imu_send_command cap cmd n l = Some (True, response, l')" and "0 < n"
  shows "length response = n \<and> response ! 0 = cmd ! 0 \<and> imu_verify_checksum response \<and>
    arriving l = response @ arriving l' \<and> n \<le> cap"
  using assms by (cases "rooms l") (auto simp: imu_send_command_def Let_def split: if_splits)

lemma imu_send_command_arriving:
  assumes "imu_send_command cap cmd n l = Some (ok, response, l')"
  shows "length (arriving l') \<le> length (arriving l)"
  using assms by (cases "rooms l") (auto simp: imu_send_command_def Let_def split: if_splits)

lemma imu_request_checked:
  assumes "imu_request cap cmd n numreq l = Some (numreq', response, l')" and "0 < n"
  shows "length response = n \<and> response ! 0 = cmd ! 0 \<and> imu_verify_checksum response \<and>
    n + length (arriving l') \<le> length (arriving l) \<and> n \<le> cap"
  using assms
proof (induction cap cmd n numreq l rule: imu_request.induct)
  case (1 cap cmd n numreq l)
  then obtain ok r l1 where s: "imu_send_command cap cmd n l = Some (ok, r, l1)"
    by (auto simp: imu_request.simps [of _ _ _ _ l] split: option.splits)
  show ?case
  proof (cases ok)
    case True
    then have "imu_send_command cap cmd n l = Some (True, response, l')"
      using "1.prems"(1) s by (simp add: imu_request.simps [of _ _ _ _ l])
    then show ?thesis using imu_send_command_checked [OF _ "1.prems"(2)] by fastforce
  next
    case False
    then have "imu_request cap cmd n (numreq + 1) l1 = Some (numreq', response, l')"
      using "1.prems"(1) s by (simp add: imu_request.simps [of _ _ _ _ l])
    then show ?thesis using "1.IH" [OF s] False "1.prems"(2) imu_send_command_arriving [OF s] by fastforce
  qed
qed

text \<open>
  The command of the master is sixteen bits wide and may be up to 1000; the copy of the last one is eight bits. From 256
  on the two never agree, and every turn changes the settings again, three exchanges with the sensor each.
\<close>

lemma command_over_255_repeats:
  assumes "256 \<le> command" and "command \<le> 1000" and "imu_configure command (s, l) = Some (s', l')"
  shows "57 + length (arriving l') \<le> length (arriving l)"
proof -
  have "ucast (imu_command s) < (256 :: uint16)"
    using unsigned_less [of "imu_command s", where 'a = nat] by (simp add: word_less_nat_alt unsigned_ucast_eq take_bit_nat_eq_self)
  then have go: "command \<noteq> ucast (imu_command s)" "2 \<le> command"
    using assms(1) by (auto simp: word_le_nat_alt word_less_nat_alt)
  obtain st l1 l2 q1 q2 where
    "imu_get_sampling_settings l = Some (q1, st, l1)"
    "imu_set_sampling_settings (st\<lparr>up_compensation_time_constant := command\<rparr>) l1 = Some (q2, l2)"
    and "\<exists>q3 st'. imu_get_sampling_settings l2 = Some (q3, st', l')"
    using assms(2,3) go by (auto simp: imu_configure_def split: option.splits)
  then show ?thesis
    by (auto simp: imu_get_sampling_settings_def imu_set_sampling_settings_def split: option.splits
        dest!: imu_request_checked)
qed

text \<open>The answer to the capture of the bias is read into an array of seven bytes, and nineteen are asked for.\<close>

lemma gyro_bias_overflows:
  assumes "rooms l = room # rs" and "5 \<le> room" and "19 \<le> length (arriving l)"
  shows "imu_capture_gyro_bias t l = None" and
    "imu_send_command 19 ([0xCD, 0xC1, 0x29] @ convert_uint16_to_bytes t) 19 l \<noteq> None"
  using assms by (auto simp: imu_capture_gyro_bias_def imu_request.simps [of _ _ _ _ l] imu_send_command_def Let_def
      convert_uint16_to_bytes_def)

subsection \<open>The parser finds what a sliding window finds\<close>

text \<open>
  The reference: a window of the length of a packet slides over the bytes; where it starts with a header and its
  checksum is right it is a packet, and the search goes on behind it. A window that is not complete is not decided.
\<close>

function scan :: "uint8 list \<Rightarrow> uint8 list list" where
  "scan [] = []"
| "scan (b # bs) =
     (if b \<noteq> IMU_CMD_ORIENTATION_MATRIX then scan bs
      else if length (b # bs) < IMU_ACK_ORIENTATION_MATRIX then []
      else if imu_verify_checksum (take IMU_ACK_ORIENTATION_MATRIX (b # bs))
      then take IMU_ACK_ORIENTATION_MATRIX (b # bs) # scan (drop IMU_ACK_ORIENTATION_MATRIX (b # bs))
      else scan bs)"
  by pat_completeness auto

termination
  by (relation "measure length") auto

lemma scan_skip: "IMU_CMD_ORIENTATION_MATRIX \<notin> set pre \<Longrightarrow> scan (pre @ xs) = scan xs"
  by (induction pre) auto

lemma scan_short: "IMU_CMD_ORIENTATION_MATRIX \<notin> set bs \<Longrightarrow> scan bs = []"
  using scan_skip [of bs "[]"] by simp

lemma scan_packet:
  assumes "length p = IMU_ACK_ORIENTATION_MATRIX" and "hd p = IMU_CMD_ORIENTATION_MATRIX"
  shows "scan (p @ xs) = (if imu_verify_checksum p then p # scan xs else scan (tl p @ xs))"
  using assms by (cases p) auto

text \<open>The bytes that are not decided yet: those in the buffer and those on the line.\<close>

definition pending :: "'c imu_sync_scheme \<Rightarrow> uint8 list \<Rightarrow> uint8 list" where
  "pending s line = (if sync_state s = 1 then take (packet_buffer_length s) (packet_buffer s) else []) @ line"

definition sync_ok :: "'c imu_sync_scheme \<Rightarrow> bool" where
  "sync_ok s \<longleftrightarrow> length (packet_buffer s) = 100 \<and>
     (sync_state s = 0 \<or> sync_state s = 1 \<and> 0 < packet_buffer_length s \<and> packet_buffer_length s < IMU_ACK_ORIENTATION_MATRIX \<and>
      packet_buffer s ! 0 = IMU_CMD_ORIENTATION_MATRIX)"

lemma seek_header_spec:
  assumes "seek_header b line = (b', found, rest)"
  shows "if found then b' = IMU_CMD_ORIENTATION_MATRIX \<and>
      (\<exists>pre. line = pre @ IMU_CMD_ORIENTATION_MATRIX # rest \<and> IMU_CMD_ORIENTATION_MATRIX \<notin> set pre)
    else rest = [] \<and> IMU_CMD_ORIENTATION_MATRIX \<notin> set line"
  using assms
proof (induction b line arbitrary: b' found rest rule: seek_header.induct)
  case (2 b x xs)
  show ?case
  proof (cases "x = IMU_CMD_ORIENTATION_MATRIX")
    case True
    then show ?thesis using "2.prems" by (auto intro: exI [of _ "[]"])
  next
    case False
    then have "seek_header x xs = (b', found, rest)" using "2.prems" by simp
    note ih = "2.IH" [OF False this]
    show ?thesis
    proof (cases found)
      case True
      with ih obtain pre where "b' = IMU_CMD_ORIENTATION_MATRIX" "xs = pre @ IMU_CMD_ORIENTATION_MATRIX # rest"
        "IMU_CMD_ORIENTATION_MATRIX \<notin> set pre" by auto
      then show ?thesis using True False by (auto intro: exI [of _ "x # pre"])
    qed (use ih False in auto)
  qed
qed simp

text \<open>The loop that resynchronises: it moves the bytes from the first later header on to the front.\<close>

lemma resync_none:
  assumes "\<forall>j \<in> {1..<m}. buf ! j \<noteq> IMU_CMD_ORIENTATION_MATRIX"
  shows "foldl resync_byte (buf, 0, n, 0) [1..<m] = (buf, 0, n, 0)"
  using assms by (induction m) (auto simp: resync_byte_def)

lemma resync_some:
  assumes "0 < i" and "i < m" and "m \<le> length buf" and "buf ! i = IMU_CMD_ORIENTATION_MATRIX"
    and "\<forall>j \<in> {1..<i}. buf ! j \<noteq> IMU_CMD_ORIENTATION_MATRIX"
  shows "\<exists>buf'. foldl resync_byte (buf, 0, n, 0) [1..<m] = (buf', i, IMU_ACK_ORIENTATION_MATRIX - i, 1) \<and>
    length buf' = length buf \<and> (\<forall>j. buf' ! j = (if j < m - i then buf ! (i + j) else buf ! j))"
  using assms(2,3)
proof (induction m)
  case (Suc m)
  show ?case
  proof (cases "i = m")
    case True
    have "foldl resync_byte (buf, 0, n, 0) [1..<Suc m] = (buf[0 := buf ! i], i, IMU_ACK_ORIENTATION_MATRIX - i, 1)"
      using resync_none [OF assms(5)] assms(1,4) True by (simp add: resync_byte_def)
    moreover have "buf[0 := buf ! i] ! j = (if j < Suc m - i then buf ! (i + j) else buf ! j)" for j
      using Suc.prems True by (cases buf; cases j) auto
    ultimately show ?thesis by auto
  next
    case False
    then obtain buf' where b: "foldl resync_byte (buf, 0, n, 0) [1..<m] = (buf', i, IMU_ACK_ORIENTATION_MATRIX - i, 1)"
      "length buf' = length buf" "\<forall>j. buf' ! j = (if j < m - i then buf ! (i + j) else buf ! j)" using Suc by auto
    have "foldl resync_byte (buf, 0, n, 0) [1..<Suc m] = (buf'[m - i := buf' ! m], i, IMU_ACK_ORIENTATION_MATRIX - i, 1)"
      using b(1) assms(1) Suc.prems by (simp add: resync_byte_def)
    moreover have "buf'[m - i := buf' ! m] ! j = (if j < Suc m - i then buf ! (i + j) else buf ! j)" for j
      using b(2,3) Suc.prems False assms(1) by (cases "j = m - i") (auto simp: nth_list_update)
    ultimately show ?thesis using b(2) by auto
  qed
qed simp


lemma scan_resync:
  assumes buf: "length buf = 100" and n: "n = IMU_ACK_ORIENTATION_MATRIX"
    and r: "foldl resync_byte (buf, 0, n, 0) [1..<IMU_ACK_ORIENTATION_MATRIX] = (buf', second, len, state)"
  shows "length buf' = 100 \<and> (state = 0 \<or> state = 1 \<and> 0 < len \<and> len < IMU_ACK_ORIENTATION_MATRIX \<and> buf' ! 0 = IMU_CMD_ORIENTATION_MATRIX) \<and>
    scan (tl (take IMU_ACK_ORIENTATION_MATRIX buf) @ xs) = scan ((if state = 1 then take len buf' else []) @ xs)"
proof (cases "\<exists>i. 0 < i \<and> i < IMU_ACK_ORIENTATION_MATRIX \<and> buf ! i = IMU_CMD_ORIENTATION_MATRIX")
  case False
  then have "foldl resync_byte (buf, 0, n, 0) [1..<IMU_ACK_ORIENTATION_MATRIX] = (buf, 0, n, 0)"
    by (intro resync_none) auto
  moreover have "IMU_CMD_ORIENTATION_MATRIX \<notin> set (tl (take IMU_ACK_ORIENTATION_MATRIX buf))"
  proof
    assume "IMU_CMD_ORIENTATION_MATRIX \<in> set (tl (take IMU_ACK_ORIENTATION_MATRIX buf))"
    then obtain i where "i < 42" "buf ! Suc i = IMU_CMD_ORIENTATION_MATRIX"
      using buf by (auto simp: in_set_conv_nth nth_tl)
    then show False using False by (auto dest!: spec [of _ "Suc i"])
  qed
  ultimately show ?thesis using r buf scan_skip by auto
next
  case True
  define i where "i = (LEAST i. 0 < i \<and> i < IMU_ACK_ORIENTATION_MATRIX \<and> buf ! i = IMU_CMD_ORIENTATION_MATRIX)"
  have i: "0 < i" "i < IMU_ACK_ORIENTATION_MATRIX" "buf ! i = IMU_CMD_ORIENTATION_MATRIX"
    using LeastI_ex [OF True] by (auto simp: i_def)
  have least: "buf ! j \<noteq> IMU_CMD_ORIENTATION_MATRIX" if "0 < j" "j < i" for j
    using not_less_Least [of j "\<lambda>i. 0 < i \<and> i < IMU_ACK_ORIENTATION_MATRIX \<and> buf ! i = IMU_CMD_ORIENTATION_MATRIX"] that i(2)
    by (auto simp: i_def)
  obtain buf2 where b: "(buf', second, len, state) = (buf2, i, IMU_ACK_ORIENTATION_MATRIX - i, 1)" "length buf2 = 100"
    "\<forall>j. buf2 ! j = (if j < IMU_ACK_ORIENTATION_MATRIX - i then buf ! (i + j) else buf ! j)"
    using resync_some [OF i(1,2) _ i(3), of n] least r buf by auto
  have "take len buf' = drop i (take IMU_ACK_ORIENTATION_MATRIX buf)"
    using b i(2) buf by (intro nth_equalityI) auto
  moreover have "tl (take IMU_ACK_ORIENTATION_MATRIX buf) =
      drop 1 (take i buf) @ drop i (take IMU_ACK_ORIENTATION_MATRIX buf)"
    using i(1,2) buf by (intro nth_equalityI) (auto simp: nth_tl nth_append)
  moreover have "IMU_CMD_ORIENTATION_MATRIX \<notin> set (drop 1 (take i buf))"
    using least buf i(2) by (auto simp: in_set_conv_nth)
  ultimately show ?thesis using b i scan_skip by auto
qed

lemma sync_step_scan:
  assumes "sync_ok s" and "sync_step line s = (s', rest, out)"
  shows "sync_ok s' \<and> (case out of None \<Rightarrow> [] | Some p \<Rightarrow> [p]) @ scan (pending s' rest @ fut) = scan (pending s line @ fut)"
proof -
  consider (0) "sync_state s = 0" | (1) "sync_state s = 1" using assms(1) by (auto simp: sync_ok_def)
  then show ?thesis
  proof cases
    case 0
    obtain b found rest' where sk: "seek_header 0 line = (b, found, rest')" by (metis prod_cases3)
    have len: "length (packet_buffer s) = 100" using assms(1) by (simp add: sync_ok_def)
    show ?thesis
    proof (cases found)
      case True
      with seek_header_spec [OF sk] obtain pre where "b = IMU_CMD_ORIENTATION_MATRIX"
        "line = pre @ IMU_CMD_ORIENTATION_MATRIX # rest'" "IMU_CMD_ORIENTATION_MATRIX \<notin> set pre" by auto
      moreover have "s' = s\<lparr>packet_buffer := (packet_buffer s)[0 := b], packet_buffer_length := 1, sync_state := 1\<rparr>"
        "rest = rest'" "out = None" using assms(2) 0 sk True by (auto simp: sync_step_def)
      moreover have "take 1 ((packet_buffer s)[0 := b]) = [b]" using len by (cases "packet_buffer s") auto
      ultimately show ?thesis using len 0 scan_skip by (auto simp: pending_def sync_ok_def)
    next
      case False
      then have "rest' = []" "IMU_CMD_ORIENTATION_MATRIX \<notin> set line" using seek_header_spec [OF sk] by auto
      then show ?thesis using assms(2) 0 sk False len scan_skip by (auto simp: sync_step_def pending_def sync_ok_def)
    qed
  next
    case 1
    define n where "n = packet_buffer_length s"
    define k where "k = min (IMU_ACK_ORIENTATION_MATRIX - n) (length line)"
    define buf where "buf = take n (packet_buffer s) @ take k line @ drop (n + k) (packet_buffer s)"
    have n: "length (packet_buffer s) = 100" "0 < n" "n < IMU_ACK_ORIENTATION_MATRIX" "packet_buffer s ! 0 = IMU_CMD_ORIENTATION_MATRIX"
      using assms(1) 1 by (auto simp: sync_ok_def n_def)
    have k: "n + k \<le> IMU_ACK_ORIENTATION_MATRIX" "k \<le> length line" using n by (auto simp: k_def)
    have buf: "length buf = 100" "buf ! 0 = IMU_CMD_ORIENTATION_MATRIX"
      "take (n + k) buf = take n (packet_buffer s) @ take k line"
      using n k by (auto simp: buf_def nth_append)
    have pend: "pending s line = take (n + k) buf @ drop k line"
      using 1 buf(3) by (simp add: pending_def n_def)
    note step = assms(2)[unfolded sync_step_def Let_def, folded n_def, folded k_def, folded buf_def]
    show ?thesis
    proof (cases "n + k = IMU_ACK_ORIENTATION_MATRIX")
      case False
      then show ?thesis using step 1 n k buf pend by (auto simp: pending_def sync_ok_def)
    next
      case True
      define p where "p = take IMU_ACK_ORIENTATION_MATRIX buf"
      have p: "length p = IMU_ACK_ORIENTATION_MATRIX" "hd p = IMU_CMD_ORIENTATION_MATRIX"
        using buf by (cases buf; simp add: p_def)+
      have sp: "scan (pending s line @ fut) =
          (if imu_verify_checksum p then p # scan (drop k line @ fut) else scan (tl p @ drop k line @ fut))"
        using scan_packet [OF p, of "drop k line @ fut"] pend True by (simp add: p_def)
      show ?thesis
      proof (cases "imu_verify_checksum p")
        case good: True
        then show ?thesis using step 1 True sp buf by (auto simp: p_def pending_def sync_ok_def)
      next
        case bad: False
        obtain buf' second len state where
          r: "foldl resync_byte (buf, 0, n + k, 0) [1..<IMU_ACK_ORIENTATION_MATRIX] = (buf', second, len, state)"
          by (metis prod_cases4)
        have "s' = s\<lparr>packet_buffer := buf', packet_buffer_length := len, sync_state := state\<rparr>" "rest = drop k line" "out = None"
          using step 1 True bad r by (auto simp: p_def)
        then show ?thesis using scan_resync [OF buf(1) True r, of "drop k line @ fut"] sp bad
          by (auto simp: pending_def sync_ok_def p_def)
      qed
    qed
  qed
qed


text \<open>Several turns: the bytes \<open>c\<close> arrive before each.\<close>

fun sync_run :: "uint8 list list \<Rightarrow> 'c imu_sync_scheme \<Rightarrow> uint8 list \<Rightarrow> 'c imu_sync_scheme \<times> uint8 list \<times> uint8 list list" where
  "sync_run [] s line = (s, line, [])"
| "sync_run (c # cs) s line =
     (let (s, line, out) = sync_step (line @ c) s; (s, line, ps) = sync_run cs s line
      in (s, line, (case out of None \<Rightarrow> ps | Some p \<Rightarrow> p # ps)))"

lemma sync_run_scan:
  assumes "sync_ok s" and "sync_run cs s line = (s', line', ps)"
  shows "sync_ok s' \<and> ps @ scan (pending s' (line' @ fut)) = scan (pending s (line @ concat cs @ fut))"
  using assms
proof (induction cs arbitrary: s line ps)
  case (Cons c cs)
  obtain s1 line1 out where st: "sync_step (line @ c) s = (s1, line1, out)" by (metis prod_cases3)
  obtain ps1 where r: "sync_run cs s1 line1 = (s', line', ps1)" "ps = (case out of None \<Rightarrow> ps1 | Some p \<Rightarrow> p # ps1)"
    using Cons.prems(2) st by (auto split: prod.splits)
  note one = sync_step_scan [OF Cons.prems(1) st, of "concat cs @ fut"]
  then have "sync_ok s'" "ps1 @ scan (pending s' (line' @ fut)) = scan (pending s1 (line1 @ concat cs @ fut))"
    using Cons.IH [OF _ r(1)] by auto
  then show ?case using one r(2) by (auto simp: pending_def split: option.splits)
qed auto

text \<open>Without new bytes every turn either empties the line or comes nearer to it.\<close>

definition sync_work :: "'c imu_sync_scheme \<Rightarrow> uint8 list \<Rightarrow> nat" where
  "sync_work s line = 2 * length (pending s line) + (if sync_state s = 0 then 1 else 0)"

lemma sync_step_progress:
  assumes "sync_ok s" and "sync_step line s = (s', rest, out)"
  shows "length (pending s' rest) \<le> length (pending s line) \<and> (rest = [] \<or> sync_work s' rest < sync_work s line)"
proof -
  consider (0) "sync_state s = 0" | (1) "sync_state s = 1" using assms(1) by (auto simp: sync_ok_def)
  then show ?thesis
  proof cases
    case 0
    obtain b found rest' where sk: "seek_header 0 line = (b, found, rest')" by (metis prod_cases3)
    then show ?thesis using seek_header_spec [OF sk] assms(1,2) 0
      by (cases found) (auto simp: sync_step_def sync_ok_def sync_work_def pending_def)
  next
    case 1
    define n where "n = packet_buffer_length s"
    have n: "length (packet_buffer s) = 100" "n < IMU_ACK_ORIENTATION_MATRIX" "0 < n"
      using assms(1) 1 by (auto simp: sync_ok_def n_def)
    show ?thesis
    proof (cases "n + length line < IMU_ACK_ORIENTATION_MATRIX")
      case True
      then show ?thesis using assms(2) 1 n by (auto simp: sync_step_def Let_def pending_def n_def)
    next
      case False
      define k where "k = IMU_ACK_ORIENTATION_MATRIX - n"
      define buf where "buf = take n (packet_buffer s) @ take k line @ drop (n + k) (packet_buffer s)"
      have k: "k \<le> length line" "min (IMU_ACK_ORIENTATION_MATRIX - n) (length line) = k" "n + k = IMU_ACK_ORIENTATION_MATRIX"
        using False n(2) by (auto simp: k_def)
      have buf: "length buf = 100" using n k by (auto simp: buf_def)
      obtain buf' second len state where
        r: "foldl resync_byte (buf, 0, n + k, 0) [1..<IMU_ACK_ORIENTATION_MATRIX] = (buf', second, len, state)"
        by (metis prod_cases4)
      note step = assms(2)[unfolded sync_step_def Let_def, folded n_def, unfolded k(2), folded buf_def, unfolded r]
      show ?thesis using step 1 k n scan_resync [OF buf k(3) r, of "[]"]
        by (auto simp: sync_work_def pending_def min_def n_def [symmetric] split: if_splits)
    qed
  qed
qed

lemma sync_step_empty:
  assumes "sync_ok s" and "sync_step [] s = (s', rest, out)"
  shows "rest = []"
  using assms by (auto simp: sync_ok_def sync_step_def Let_def)

lemma sync_run_drains:
  assumes "sync_ok s" and "sync_run (replicate k []) s line = (s', line', ps)" and "sync_work s line \<le> k \<or> line = []"
  shows "line' = []"
  using assms
proof (induction k arbitrary: s line ps)
  case 0
  then show ?case by (auto simp: sync_work_def pending_def split: if_splits)
next
  case (Suc k)
  obtain s1 line1 out where st: "sync_step line s = (s1, line1, out)" by (metis prod_cases3)
  obtain ps1 where r: "sync_run (replicate k []) s1 line1 = (s', line', ps1)"
    using Suc.prems(2) st by (auto split: prod.splits)
  have "sync_work s1 line1 \<le> k \<or> line1 = []"
    using sync_step_progress [OF Suc.prems(1) st] sync_step_empty [OF Suc.prems(1)] st Suc.prems(3) by fastforce
  then show ?case using Suc.IH [OF _ r] sync_step_scan [OF Suc.prems(1) st] by blast
qed

lemma scan_too_short: "length bs < IMU_ACK_ORIENTATION_MATRIX \<Longrightarrow> scan bs = []"
  by (induction bs) auto

lemma sync_run_append:
  "sync_run (cs @ ds) s line =
     (let (s, line, ps) = sync_run cs s line; (s, line, qs) = sync_run ds s line in (s, line, ps @ qs))"
  by (induction cs arbitrary: s line) (auto split: prod.splits option.splits)


lemma sync_run_length:
  assumes "sync_ok s" and "sync_run cs s line = (s', line', ps)"
  shows "length (pending s' line') \<le> length (pending s (line @ concat cs))"
  using assms
proof (induction cs arbitrary: s line ps)
  case (Cons c cs)
  obtain s1 line1 out where st: "sync_step (line @ c) s = (s1, line1, out)" by (metis prod_cases3)
  obtain ps1 where r: "sync_run cs s1 line1 = (s', line', ps1)" using Cons.prems(2) st by (auto split: prod.splits)
  have "sync_ok s1" using sync_step_scan [OF Cons.prems(1) st] by blast
  then show ?case using Cons.IH [OF _ r] sync_step_progress [OF Cons.prems(1) st] by (auto simp: pending_def)
qed simp

text \<open>
  C39. Whatever the pieces in which the bytes arrive, and whatever noise is among them, the parser of the stream accepts
  exactly the packets that a window sliding over all the bytes finds, in their order, none lost and none invented, as
  soon as it has had two more turns for every undecided byte: it skips corrupt packets, shifts to the next header inside
  them and goes on.
\<close>

theorem stream_packets_found:
  assumes "sync_ok s" and "2 * length (pending s (line @ concat cs)) < k"
    and "sync_run (cs @ replicate k []) s line = (s', line', ps)"
  shows "ps = scan (pending s (line @ concat cs))"
proof -
  obtain s1 line1 ps1 where a: "sync_run cs s line = (s1, line1, ps1)" by (metis prod_cases3)
  obtain ps2 where b: "sync_run (replicate k []) s1 line1 = (s', line', ps2)" "ps = ps1 @ ps2"
    using assms(3) a by (auto simp: sync_run_append split: prod.splits)
  note r1 = sync_run_scan [OF assms(1) a, of "[]"]
  then have ok: "sync_ok s1" by blast
  note r2 = sync_run_scan [OF ok b(1), of "[]"]
  have "sync_work s1 line1 \<le> k"
    using sync_run_length [OF assms(1) a] assms(2) by (auto simp: sync_work_def)
  then have "line' = []" using sync_run_drains [OF ok b(1)] by blast
  then have "scan (pending s' line') = []"
    using r2 by (intro scan_too_short) (auto simp: sync_ok_def pending_def)
  then show ?thesis using r1 r2 b(2) by simp
qed

definition good_packet :: "uint8 list" where
  "good_packet = [0xC5] @ replicate 40 0 @ [0, 0xC5]"

definition some_sync :: imu_sync where
  "some_sync = \<lparr>packet_buffer = replicate 100 0, packet_buffer_length = 0, sync_state = 0\<rparr>"

text \<open>Two bytes of noise, one of them a header, and then a packet in two pieces.\<close>

theorem stream_packets_found_witness:
  "case sync_run ([[7, 0xC5] @ take 20 good_packet, drop 20 good_packet] @ replicate 100 []) some_sync [] of
     (_, _, ps) \<Rightarrow> ps = [good_packet]"
proof -
  have s: "scan (pending some_sync ([] @ concat [[7, 0xC5] @ take 20 good_packet, drop 20 good_packet])) = [good_packet]"
    by code_simp
  have ok: "sync_ok some_sync" by (simp add: sync_ok_def some_sync_def)
  have k: "2 * length (pending some_sync ([] @ concat [[7, 0xC5] @ take 20 good_packet, drop 20 good_packet])) < 100"
    by code_simp
  show ?thesis using stream_packets_found [OF ok k] s by (auto split: prod.splits)
qed

end
