(* ===== verification/Wire.thy ===== *)
theory Wire
  imports MedullaManager LegFirmware HipFirmware BoomFirmware ImuFirmware
begin

text \<open>
  The process data on the EtherCAT bus. The firmware lists its transmit entries in a table
  (\<open>leg_tx_pdos\<close> and so on), the drivers on the control computer list the sizes of the entries
  they read; the two lists are written separately, in C and in C++. Here the table of each board
  is the list of its entries as bytes in the AVR's order, and \<open>process_data_agree\<close> shows that the
  driver reads from the image each value that the board put there. How the slave lays the entries
  of the table into the image is the work of the medulla library and a parameter.

  The last part follows the state that a leg medulla reports into the state of the robot.
\<close>

section \<open>Integers as bytes\<close>

text \<open>The AVR stores integers with the least significant byte first.\<close>

definition le8 :: "uint8 \<Rightarrow> uint8 list" where "le8 w = [w]"

definition le16 :: "uint16 \<Rightarrow> uint8 list" where
  "le16 w = [ucast w, ucast (drop_bit 8 w)]"

definition le32 :: "uint32 \<Rightarrow> uint8 list" where
  "le32 w = [ucast w, ucast (drop_bit 8 w), ucast (drop_bit 16 w), ucast (drop_bit 24 w)]"

lemma bytes_of_int:
  fixes x :: int
  assumes "0 \<le> x"
  shows "x < 65536 \<Longrightarrow> x mod 256 + 256 * (x div 256 mod 256) = x"
    and "x < 4294967296 \<Longrightarrow> x mod 256 + 256 * (x div 256 mod 256) + 65536 * (x div 65536 mod 256) +
      16777216 * (x div 16777216 mod 256) = x"
proof -
  have d: "x div 65536 = x div 256 div 256" "x div 16777216 = x div 256 div 256 div 256"
    by (simp_all add: zdiv_zmult2_eq [symmetric])
  have e: "256 * (y div 256) + y mod 256 = y" for y :: int by simp
  show "x mod 256 + 256 * (x div 256 mod 256) = x" if "x < 65536"
  proof -
    have "x div 256 mod 256 = x div 256" using assms that by (intro mod_pos_pos_trivial) auto
    then show ?thesis using e [of x] by linarith
  qed
  show "x mod 256 + 256 * (x div 256 mod 256) + 65536 * (x div 65536 mod 256) +
      16777216 * (x div 16777216 mod 256) = x" if "x < 4294967296"
  proof -
    have "x div 16777216 mod 256 = x div 16777216" using assms that by (intro mod_pos_pos_trivial) auto
    then show ?thesis using e [of x] e [of "x div 256"] e [of "x div 256 div 256"] unfolding d by linarith
  qed
qed

lemma le16_back:
  fixes w :: uint16
  shows "ucast (ucast w :: uint8) + 256 * ucast (ucast (drop_bit 8 w) :: uint8) = w"
proof -
  have "word_of_int (uint (ucast w :: uint8) + 256 * uint (ucast (drop_bit 8 w) :: uint8)) = w"
    using bytes_of_int(1) [of "uint w"] uint_lt2p [of w]
    by (simp add: unsigned_ucast_eq unsigned_drop_bit_eq take_bit_eq_mod drop_bit_eq_div uint_div
        del: of_int_add of_int_mult)
  then show ?thesis by simp
qed

lemma le32_back:
  fixes w :: uint32
  shows "ucast (ucast w :: uint8) + 256 * ucast (ucast (drop_bit 8 w) :: uint8) +
    65536 * ucast (ucast (drop_bit 16 w) :: uint8) + 16777216 * ucast (ucast (drop_bit 24 w) :: uint8) = w"
proof -
  have u: "uint (ucast w :: uint8) = uint w mod 256"
    "uint (ucast (drop_bit 8 w) :: uint8) = uint w div 256 mod 256"
    "uint (ucast (drop_bit 16 w) :: uint8) = uint w div 65536 mod 256"
    "uint (ucast (drop_bit 24 w) :: uint8) = uint w div 16777216 mod 256"
    by (simp_all add: unsigned_ucast_eq unsigned_drop_bit_eq take_bit_eq_mod drop_bit_eq_div uint_div)
  have "uint w < 4294967296" using uint_lt2p [of w] by simp
  note b = bytes_of_int(2) [OF uint_ge_0 this, folded u]
  have c: "(ucast b :: uint32) = word_of_int (uint b)" for b :: uint8 by simp
  have "w = word_of_int (uint w)" by simp
  also have "\<dots> = word_of_int (uint (ucast w :: uint8) + 256 * uint (ucast (drop_bit 8 w) :: uint8) +
    65536 * uint (ucast (drop_bit 16 w) :: uint8) + 16777216 * uint (ucast (drop_bit 24 w) :: uint8))"
    by (simp only: b)
  finally show ?thesis unfolding c of_int_add of_int_mult of_int_numeral by (rule sym)
qed

section \<open>The transmit tables\<close>

text \<open>
  No firmware writes the entries of the measured currents; their content is a parameter.
\<close>

definition leg_tx :: "uint16 \<times> uint16 \<Rightarrow> leg_board firmware \<Rightarrow> uint8 list list" where
  "leg_tx amps m =
     (let b = board m
      in [le8 (leg_medulla_id_pdo b), le8 (current_state m), le8 (packet_counter m),
          le8 (leg_error_flags_pdo b), le8 (leg_limit_switch_pdo b), le16 (toe_sensor_pdo b),
          le32 (motor_encoder_pdo b), le16 (motor_encoder_timestamp_pdo b),
          le32 (leg_encoder_pdo b), le16 (leg_encoder_timestamp_pdo b),
          le16 (incremental_encoder_pdo b), le16 (incremental_encoder_timestamp_pdo b),
          le16 (motor_voltage_pdo b), le16 (logic_voltage_pdo b),
          concat (map le16 (thermistor_pdo b)), le16 (fst amps), le16 (snd amps),
          le16 (knee_force1_pdo b), le16 (knee_force2_pdo b)])"

text \<open>What the driver is to read: every field of its inputs with the value the board put out for it.\<close>

definition leg_sees :: "uint16 \<times> uint16 \<Rightarrow> leg_board firmware \<Rightarrow> leg_inputs" where
  "leg_sees amps m =
     (let b = board m
      in \<lparr>li_id = leg_medulla_id_pdo b, li_state = current_state m, li_timingCounter = packet_counter m,
          li_errorFlags = leg_error_flags_pdo b, li_limitSwitch = leg_limit_switch_pdo b,
          li_toeSensor = toe_sensor_pdo b, li_motorEncoder = motor_encoder_pdo b,
          li_motorEncoderTimestamp = motor_encoder_timestamp_pdo b, li_legEncoder = leg_encoder_pdo b,
          li_legEncoderTimestamp = leg_encoder_timestamp_pdo b,
          li_incrementalEncoder = incremental_encoder_pdo b,
          li_incrementalEncoderTimestamp = incremental_encoder_timestamp_pdo b,
          li_motorVoltage = motor_voltage_pdo b, li_logicVoltage = logic_voltage_pdo b,
          li_thermistor0 = thermistor_pdo b ! 0, li_thermistor1 = thermistor_pdo b ! 1,
          li_thermistor2 = thermistor_pdo b ! 2, li_thermistor3 = thermistor_pdo b ! 3,
          li_thermistor4 = thermistor_pdo b ! 4, li_thermistor5 = thermistor_pdo b ! 5,
          li_amp1MeasuredCurrent = fst amps, li_amp2MeasuredCurrent = snd amps,
          li_kneeForce1 = knee_force1_pdo b, li_kneeForce2 = knee_force2_pdo b\<rparr>)"

lemma leg_wire:
  assumes "length (thermistor_pdo (board m)) = 6"
  shows "leg_inputs_of (concat (leg_tx amps m)) = leg_sees amps m \<and> length (concat (leg_tx amps m)) = 47"
proof -
  obtain t0 t1 t2 t3 t4 t5 where t: "thermistor_pdo (board m) = [t0, t1, t2, t3, t4, t5]"
    using assms by (auto simp: length_Suc_conv eval_nat_numeral)
  have p: "snd (fillInPDORegData leg_PDORegData) =
    [0, 1, 2, 3, 4, 5, 7, 11, 13, 17, 19, 21, 23, 25, 27, 29, 31, 33, 35, 37, 39, 41, 43, 45]"
    by (simp add: fillInPDORegData_def leg_PDORegData_def consts_simp)
  show ?thesis
    by (simp add: leg_inputs_of_def p leg_tx_def leg_sees_def t Let_def le8_def)
      (simp add: rd8_def rd16_def rd32_def le16_def le32_def le16_back le32_back)
qed

definition hip_tx :: "uint16 \<Rightarrow> hip_board firmware \<Rightarrow> uint8 list list" where
  "hip_tx amp m =
     (let b = board m
      in [le8 (hip_medulla_id_pdo b), le8 (current_state m), le8 (packet_counter m),
          le8 (hip_error_flags_pdo b), le8 (hip_limit_switch_pdo b), le32 (hip_encoder_pdo b),
          le16 (hip_encoder_timestamp_pdo b), le16 (hip_motor_voltage_pdo b),
          le16 (hip_logic_voltage_pdo b), concat (map le16 (hip_thermistor_pdo b)), le16 amp,
          le16 (hip_incremental_encoder_pdo b), le16 (hip_incremental_encoder_timestamp_pdo b),
          le16 (robot_current_50_pdo b), le16 (robot_current_600_pdo b)])"

definition hip_sees :: "uint16 \<Rightarrow> hip_board firmware \<Rightarrow> hip_inputs" where
  "hip_sees amp m =
     (let b = board m
      in \<lparr>hi_id = hip_medulla_id_pdo b, hi_state = current_state m, hi_timingCounter = packet_counter m,
          hi_errorFlags = hip_error_flags_pdo b, hi_limitSwitches = hip_limit_switch_pdo b,
          hi_hipEncoder = hip_encoder_pdo b, hi_hipEncoderTimestamp = hip_encoder_timestamp_pdo b,
          hi_motorVoltage = hip_motor_voltage_pdo b, hi_logicVoltage = hip_logic_voltage_pdo b,
          hi_thermistor0 = hip_thermistor_pdo b ! 0, hi_thermistor1 = hip_thermistor_pdo b ! 1,
          hi_thermistor2 = hip_thermistor_pdo b ! 2, hi_ampMeasuredCurrent = amp,
          hi_incrementalEncoder = hip_incremental_encoder_pdo b,
          hi_incrementalEncoderTimestamp = hip_incremental_encoder_timestamp_pdo b,
          hi_currentPositive = robot_current_50_pdo b, hi_currentNegative = robot_current_600_pdo b\<rparr>)"

definition boom_tx :: "boom_board firmware \<Rightarrow> uint8 list list" where
  "boom_tx m =
     (let b = board m
      in [le8 (boom_medulla_id_pdo b), le8 (current_state m), le8 (packet_counter m),
          le8 (boom_error_flags_pdo b), le32 (x_encoder_pdo b), le16 (x_encoder_timestamp_pdo b),
          le32 (pitch_encoder_pdo b), le16 (pitch_encoder_timestamp_pdo b), le32 (z_encoder_pdo b),
          le16 (z_encoder_timestamp_pdo b), le16 (boom_logic_voltage_pdo b)])"

definition boom_sees :: "boom_board firmware \<Rightarrow> boom_inputs" where
  "boom_sees m =
     (let b = board m
      in \<lparr>bi_id = boom_medulla_id_pdo b, bi_state = current_state m, bi_timingCounter = packet_counter m,
          bi_errorFlags = boom_error_flags_pdo b, bi_xEncoder = x_encoder_pdo b,
          bi_xTimestamp = x_encoder_timestamp_pdo b, bi_pitchEncoder = pitch_encoder_pdo b,
          bi_pitchTimestamp = pitch_encoder_timestamp_pdo b, bi_zEncoder = z_encoder_pdo b,
          bi_zTimestamp = z_encoder_timestamp_pdo b, bi_logicVoltage = boom_logic_voltage_pdo b\<rparr>)"

definition imu_tx :: "imu_board firmware \<Rightarrow> uint8 list list" where
  "imu_tx m =
     (let b = board m
      in [le8 (imu_medulla_id_pdo b), le8 (current_state m), le8 (packet_counter m),
          le8 (imu_error_flags_pdo b), le32 (XAngDelta_pdo b), le32 (YAngDelta_pdo b),
          le32 (ZAngDelta_pdo b), le32 (XAccel_pdo b), le32 (YAccel_pdo b), le32 (ZAccel_pdo b),
          le8 (Status_pdo b), le8 (Seq_pdo b), le16 (Temp_pdo b), le32 (CRC_pdo b)])"

definition imu_sees :: "(uint32 \<Rightarrow> dbl) \<Rightarrow> imu_board firmware \<Rightarrow> imu_inputs" where
  "imu_sees float_of m =
     (let b = board m
      in \<lparr>ii_id = imu_medulla_id_pdo b, ii_state = current_state m, ii_timingCounter = packet_counter m,
          ii_errorFlags = imu_error_flags_pdo b, ii_gyrX = float_of (XAngDelta_pdo b),
          ii_gyrY = float_of (YAngDelta_pdo b), ii_gyrZ = float_of (ZAngDelta_pdo b),
          ii_accX = float_of (XAccel_pdo b), ii_accY = float_of (YAccel_pdo b),
          ii_accZ = float_of (ZAccel_pdo b), ii_status = Status_pdo b, ii_seq = Seq_pdo b,
          ii_temperature = Temp_pdo b, ii_crc = CRC_pdo b\<rparr>)"

lemma hip_wire:
  assumes "length (hip_thermistor_pdo (board m)) = 3"
  shows "hip_inputs_of (concat (hip_tx amp m)) = hip_sees amp m \<and> length (concat (hip_tx amp m)) = 31"
proof -
  obtain t0 t1 t2 where t: "hip_thermistor_pdo (board m) = [t0, t1, t2]"
    using assms by (auto simp: length_Suc_conv eval_nat_numeral)
  have p: "snd (fillInPDORegData hip_PDORegData) =
    [0, 1, 2, 3, 4, 5, 9, 11, 13, 15, 17, 19, 21, 23, 25, 27, 29]"
    by (simp add: fillInPDORegData_def hip_PDORegData_def consts_simp)
  show ?thesis
    by (simp add: hip_inputs_of_def p hip_tx_def hip_sees_def t Let_def le8_def)
      (simp add: rd8_def rd16_def rd32_def le16_def le32_def le16_back le32_back)
qed

lemma boom_wire: "boom_inputs_of (concat (boom_tx m)) = boom_sees m \<and> length (concat (boom_tx m)) = 24"
proof -
  have p: "snd (fillInPDORegData boom_PDORegData) = [0, 1, 2, 3, 4, 8, 10, 14, 16, 20, 22]"
    by (simp add: fillInPDORegData_def boom_PDORegData_def consts_simp)
  show ?thesis
    by (simp add: boom_inputs_of_def p boom_tx_def boom_sees_def Let_def le8_def)
      (simp add: rd8_def rd16_def rd32_def le16_def le32_def le16_back le32_back)
qed

lemma imu_wire:
  "imu_inputs_of float_of (concat (imu_tx m)) = imu_sees float_of m \<and> length (concat (imu_tx m)) = 36"
proof -
  have p: "snd (fillInPDORegData imu_PDORegData) = [0, 1, 2, 3, 4, 8, 12, 16, 20, 24, 28, 29, 30, 32]"
    by (simp add: fillInPDORegData_def imu_PDORegData_def consts_simp)
  show ?thesis
    by (simp add: imu_inputs_of_def p imu_tx_def imu_sees_def Let_def le8_def)
      (simp add: rd8_def rd16_def rd32_def le16_def le32_def le16_back le32_back)
qed

section \<open>The tables and the drivers agree\<close>

lemma fw_path_snoc: "fw_path ops m ls m' \<Longrightarrow> fw_step ops m' l m'' \<Longrightarrow> fw_path ops m (ls @ [l]) m''"
  by (induction rule: fw_path.induct) (auto intro: fw_path.intros)

lemma fw_reach_path: "fw_reach ops b m \<Longrightarrow> \<exists>counter ls. fw_path ops (fw_start counter b) ls m"
  by (induction rule: fw_reach.induct) (blast intro: fw_path_nil fw_path_snoc)+

lemmas leg_board_defs = leg_enable_outputs_def leg_disable_outputs_def leg_update_outputs_def
  leg_run_halt_def leg_estop_def leg_check_error_def leg_check_halt_def leg_reset_error_def fw_start_def
  leg_initialize_def leg_update_inputs_def leg_count_limit_switch_def leg_read_encoders_def
  leg_track_thermistor_def Let_def

lemma leg_thermistors: "fw_reach leg_ops (leg_initialize ident) m \<Longrightarrow> length (thermistor_pdo (board m)) = 6"
proof -
  assume "fw_reach leg_ops (leg_initialize ident) m"
  from fw_reach_path [OF this] obtain counter ls
    where p: "fw_path leg_ops (fw_start counter (leg_initialize ident)) ls m" by blast
  show ?thesis
    by (rule fw_path_board [where Q = "\<lambda>b. length (thermistor_pdo b) = 6" and C = "\<lambda>_. True", OF _ _ _ _ _ _ _ _ _ _ p])
      (simp_all add: leg_board_defs split: option.split)
qed

lemma leg_ident: "fw_reach leg_ops (leg_initialize ident) m \<Longrightarrow> leg_medulla_id_pdo (board m) = ident"
proof -
  assume "fw_reach leg_ops (leg_initialize ident) m"
  from fw_reach_path [OF this] obtain counter ls
    where p: "fw_path leg_ops (fw_start counter (leg_initialize ident)) ls m" by blast
  show ?thesis
    by (rule fw_path_board [where Q = "\<lambda>b. leg_medulla_id_pdo b = ident" and C = "\<lambda>_. True", OF _ _ _ _ _ _ _ _ _ _ p])
      (simp_all add: leg_board_defs split: option.split)
qed

lemma hip_thermistors:
  "fw_reach hip_ops (hip_initialize ident) m \<Longrightarrow> length (hip_thermistor_pdo (board m)) = 3"
proof -
  assume "fw_reach hip_ops (hip_initialize ident) m"
  from fw_reach_path [OF this] obtain counter ls
    where p: "fw_path hip_ops (fw_start counter (hip_initialize ident)) ls m" by blast
  show ?thesis
    by (rule fw_path_board [where Q = "\<lambda>b. length (hip_thermistor_pdo b) = 3" and C = "\<lambda>_. True", OF _ _ _ _ _ _ _ _ _ _ p])
      (simp_all add: hip_enable_outputs_def hip_disable_outputs_def hip_update_outputs_def hip_run_halt_def
        hip_estop_def hip_check_error_def hip_check_halt_def hip_reset_error_def fw_start_def hip_initialize_def
        hip_update_inputs_def Let_def split: prod.split)
qed

text \<open>
  C40. The firmware and the drivers agree on the process data: whatever a leg or hip medulla has
  done since it started, and for every state of a boom or IMU medulla, the driver reads from the
  image every value that the board put into its table, in the field meant for it, and the image has
  exactly the size that the driver registers. The slave packs the entries of the table without gaps.
\<close>

theorem process_data_agree:
  assumes "\<And>entries. slave entries = concat entries"
    and "fw_reach leg_ops (leg_initialize leg_id) l" and "fw_reach hip_ops (hip_initialize hip_id) h"
  shows "leg_inputs_of (slave (leg_tx amps l)) = leg_sees amps l \<and>
    length (slave (leg_tx amps l)) = MEDULLA_LEG_INPUTS_SIZE \<and>
    hip_inputs_of (slave (hip_tx amp h)) = hip_sees amp h \<and>
    length (slave (hip_tx amp h)) = MEDULLA_HIP_INPUTS_SIZE \<and>
    boom_inputs_of (slave (boom_tx b)) = boom_sees b \<and>
    length (slave (boom_tx b)) = MEDULLA_BOOM_INPUTS_SIZE \<and>
    imu_inputs_of float_of (slave (imu_tx u)) = imu_sees float_of u \<and>
    length (slave (imu_tx u)) = MEDULLA_IMU_INPUTS_SIZE"
  using leg_wire [OF leg_thermistors [OF assms(2)]] hip_wire [OF hip_thermistors [OF assms(3)]]
    boom_wire [of b] imu_wire [of float_of u]
  by (simp add: assms(1) consts_simp)

lemma process_data_agree_witness:
  "leg_inputs_of (concat (leg_tx (0, 0) running_leg)) = leg_sees (0, 0) running_leg \<and>
   hip_inputs_of (concat (hip_tx 0 (fw_start 0 (hip_initialize 16)))) = hip_sees 0 (fw_start 0 (hip_initialize 16))"
  using process_data_agree [OF refl running_leg_reach fw_reach.start] by blast

section \<open>The reported state of a leg medulla reaches the state of the robot\<close>

lemma medullaState_map_half:
  "(\<And>h. medullaState (f h) = medullaState h) \<Longrightarrow>
   medullaState (get_half sl (map_half sl' f rs)) = medullaState (get_half sl rs)"
  by (cases "sl = sl'") simp_all

lemma medullaState_map_leg:
  "(\<And>l. medullaState (halfA (f l)) = medullaState (halfA l) \<and>
    medullaState (halfB (f l)) = medullaState (halfB l)) \<Longrightarrow>
   medullaState (get_half sl (map_leg sl' f rs)) = medullaState (get_half sl rs)"
  by (cases sl; cases sl') simp_all

lemma leg_stages_state:
  "medullaState (get_half sl (processPositions v i d rs)) = medullaState (get_half sl rs)"
  "medullaState (get_half sl (snd (processVelocities v dt i d rs))) = medullaState (get_half sl rs)"
  "medullaState (get_half sl (snd (processIncrementalEncoders v dt i d rs))) = medullaState (get_half sl rs)"
  "medullaState (get_half sl (leg_processThermistors i rs)) = medullaState (get_half sl rs)"
  "medullaState (get_half sl (leg_processVoltages i rs)) = medullaState (get_half sl rs)"
  "medullaState (get_half sl (leg_processCurrents i rs)) = medullaState (get_half sl rs)"
  "medullaState (get_half sl (processStrainGauges i rs)) = medullaState (get_half sl rs)"
  by (simp_all add: processPositions_def processVelocities_def processIncrementalEncoders_def
      leg_processThermistors_def leg_processVoltages_def leg_processCurrents_def
      processStrainGauges_def Let_def medullaState_map_half medullaState_map_leg split: option.split)

lemma leg_switches_state:
  "medullaState (get_half sl (leg_processLimitSwitches i rst rs)) = medullaState (get_half sl rs)"
proof (cases "leg_slot_of (li_id i)")
  case (Some sl')
  then show ?thesis
    by (cases sl; cases sl') (simp_all add: leg_processLimitSwitches_def half_switches_def Let_def)
qed (simp add: leg_processLimitSwitches_def)

lemma leg_status_state:
  "medullaState (get_half sl (snd (leg_status v i d rs))) =
     (if leg_slot_of (li_id i) = Some sl then li_state i else medullaState (get_half sl rs))"
proof (cases "leg_slot_of (li_id i)")
  case (Some sl')
  then show ?thesis
    by (cases "sl = sl'") (simp_all add: leg_status_def Let_def split_beta medullaState_map_leg)
qed (simp add: leg_status_def)

lemma leg_receive_state:
  "medullaState (get_half sl (snd (leg_processReceiveData v i (d, rs)))) =
     (if li_timingCounter i \<noteq> lm_timingCounterValue d \<and> leg_slot_of (li_id i) = Some sl then li_state i
      else medullaState (get_half sl rs))"
  by (simp add: leg_processReceiveData_def Let_def split_beta leg_status_state leg_stages_state
      leg_switches_state)

text \<open>The driver of each leg medulla, with the index of its slave.\<close>

fun leg_driver_of :: "leg_slot \<Rightarrow> MedullaManager \<Rightarrow> (nat \<times> LegMedulla) option" where
  "leg_driver_of LeftA mm = lLegA mm"
| "leg_driver_of LeftB mm = lLegB mm"
| "leg_driver_of RightA mm = rLegA mm"
| "leg_driver_of RightB mm = rLegB mm"

text \<open>The state of one half of a leg after the driver \<open>dr\<close> has seen the inputs, from \<open>x\<close> before.\<close>

definition leg_report ::
    "(nat \<Rightarrow> uint8 list) \<Rightarrow> leg_slot \<Rightarrow> (nat \<times> LegMedulla) option \<Rightarrow> uint8 \<Rightarrow> uint8" where
  "leg_report inputs sl dr x =
     (case dr of None \<Rightarrow> x
      | Some (n, d) \<Rightarrow>
          if li_timingCounter (leg_inputs_of (inputs n)) \<noteq> lm_timingCounterValue d \<and>
             leg_slot_of (li_id (leg_inputs_of (inputs n))) = Some sl
          then li_state (leg_inputs_of (inputs n)) else x)"

lemma leg_receive_opt_state:
  "medullaState (get_half sl (snd (receive_opt (\<lambda>n. leg_processReceiveData v (leg_inputs_of (inputs n))) (dr, rs)))) =
     leg_report inputs sl dr (medullaState (get_half sl rs))"
  by (simp add: receive_opt_def leg_report_def leg_receive_state split_beta Let_def split: option.split)

lemma other_drivers_state:
  "medullaState (get_half sl (snd (receive_opt (\<lambda>n. hip_processReceiveData v (hip_inputs_of (inputs n))) (dh, rs)))) =
     medullaState (get_half sl rs)"
  "medullaState (get_half sl (snd (receive_opt (\<lambda>n. boom_processReceiveData v (boom_inputs_of (inputs n))) (db, rs)))) =
     medullaState (get_half sl rs)"
  "medullaState (get_half sl (snd (receive_opt (\<lambda>n. imu_processReceiveData (imu_inputs_of float_of (inputs n))) (di, rs)))) =
     medullaState (get_half sl rs)"
proof -
  have h: "medullaState (get_half sl (snd (hip_processReceiveData v i (d, rs)))) = medullaState (get_half sl rs)"
    for i d rs using hip_receive_frame [of rs v i d] by (cases sl) (simp_all add: hip_frame_def)
  have "medullaState (get_half sl (snd (boom_processReceiveData v i (d, rs)))) = medullaState (get_half sl rs)"
    for i d rs
    by (cases sl) (simp_all add: boom_processReceiveData_def processPitchEncoder_def processXEncoder_def
        processZEncoder_def Let_def split_beta)
  moreover have "medullaState (get_half sl (snd (imu_processReceiveData i (d, rs)))) = medullaState (get_half sl rs)"
    for i d rs by (cases sl) (simp_all add: imu_processReceiveData_def processIMU_def Let_def split_beta)
  moreover note h
  ultimately show "medullaState (get_half sl (snd (receive_opt (\<lambda>n. hip_processReceiveData v (hip_inputs_of (inputs n))) (dh, rs)))) =
     medullaState (get_half sl rs)"
    "medullaState (get_half sl (snd (receive_opt (\<lambda>n. boom_processReceiveData v (boom_inputs_of (inputs n))) (db, rs)))) =
     medullaState (get_half sl rs)"
    "medullaState (get_half sl (snd (receive_opt (\<lambda>n. imu_processReceiveData (imu_inputs_of float_of (inputs n))) (di, rs)))) =
     medullaState (get_half sl rs)"
    by (simp_all add: receive_opt_keeps [where Q = "\<lambda>rs. medullaState (get_half sl rs)"])
qed

lemma mm_receive_state:
  assumes "leg_driver_of sl mm = Some (n, d)"
    and "li_timingCounter (leg_inputs_of (inputs n)) \<noteq> lm_timingCounterValue d"
    and "leg_slot_of (li_id (leg_inputs_of (inputs n))) = Some sl"
    and "\<And>sl' n' d'. sl' \<noteq> sl \<Longrightarrow> leg_driver_of sl' mm = Some (n', d') \<Longrightarrow>
      leg_slot_of (li_id (leg_inputs_of (inputs n'))) \<noteq> Some sl"
  shows "medullaState (get_half sl (mm_robotState (mm_processReceiveData v float_of inputs mm))) =
    li_state (leg_inputs_of (inputs n))"
proof -
  have others: "leg_report inputs sl (leg_driver_of sl' mm) x = x" if "sl' \<noteq> sl" for sl' x
    using assms(4) [OF that] by (auto simp: leg_report_def split: option.split)
  have this_one: "leg_report inputs sl (leg_driver_of sl mm) x = li_state (leg_inputs_of (inputs n))" for x
    using assms(1-3) by (simp add: leg_report_def)
  have "medullaState (get_half sl (mm_robotState (mm_processReceiveData v float_of inputs mm))) =
    leg_report inputs sl (leg_driver_of RightB mm) (leg_report inputs sl (leg_driver_of RightA mm)
      (leg_report inputs sl (leg_driver_of LeftB mm)
        (leg_report inputs sl (leg_driver_of LeftA mm) (medullaState (get_half sl (mm_robotState mm))))))"
    by (simp add: mm_processReceiveData_def Let_def split_beta leg_receive_opt_state other_drivers_state)
  also have "\<dots> = li_state (leg_inputs_of (inputs n))"
    using others this_one by (cases sl) (simp_all del: leg_driver_of.simps)
  finally show ?thesis .
qed

end
