(* ===== verification/Gait.thy ===== *)
theory Gait
  imports Prelude
begin

text \<open>
  The gait of the walking controllers in the abstract: which legs stand and which one moves next. The state machine
  of the controllers is written down once over the functions that it calls; a locale says what these functions
  have to keep for the state machine to refine the gait.
\<close>

datatype leg_side = LeftLeg | RightLeg

fun other :: "leg_side \<Rightarrow> leg_side" where
  "other LeftLeg = RightLeg"
| "other RightLeg = LeftLeg"

lemma other_other [simp]: "other (other x) = x"
  by (cases x) simp_all

subsection \<open>The abstract gait\<close>

text \<open>
  One leg stands (\<open>Single\<close>), or both do and the named leg takes off next (\<open>Double\<close>). The
  leg that was in the air touches down; then the leg that stood takes off.
\<close>

datatype gait = Single leg_side | Double leg_side

inductive gait_step :: "gait \<Rightarrow> gait \<Rightarrow> bool" where
  touchdown: "gait_step (Single x) (Double x)"
| takeoff: "gait_step (Double x) (Single (other x))"

inductive_simps gait_step_from [simp]: "gait_step (Single x) g" "gait_step (Double x) g"

definition gait_next :: "(leg_side \<Rightarrow> bool) \<Rightarrow> (leg_side \<Rightarrow> bool) \<Rightarrow> gait \<Rightarrow> gait" where
  "gait_next lands lifts g =
     (case g of Single x \<Rightarrow> if lands (other x) then Double x else Single x
              | Double x \<Rightarrow> if lifts x then Single (other x) else Double x)"

lemma gait_next_step: "gait_next la li g = g \<or> gait_step g (gait_next la li g)"
  by (cases g) (simp_all add: gait_next_def)

text \<open>Runs of gaits, and how often a leg takes off in one.\<close>

definition gait_path :: "gait list \<Rightarrow> bool" where
  "gait_path gs \<longleftrightarrow> successively (\<lambda>g h. h = g \<or> gait_step g h) gs"

fun takeoffs :: "leg_side \<Rightarrow> gait list \<Rightarrow> nat" where
  "takeoffs x (g # h # gs) = (if g = Double x \<and> h = Single (other x) then 1 else 0) + takeoffs x (h # gs)"
| "takeoffs x gs = 0"

text \<open>Whether the right leg took off last, as a number.\<close>

definition right_last :: "gait \<Rightarrow> int" where
  "right_last g = (case g of Single x \<Rightarrow> if x = LeftLeg then 1 else 0 | Double x \<Rightarrow> if x = LeftLeg then 1 else 0)"

lemma takeoffs_balance:
  assumes "gait_path gs" and "gs \<noteq> []"
  shows "int (takeoffs RightLeg gs) - int (takeoffs LeftLeg gs) = right_last (last gs) - right_last (hd gs)"
  using assms
proof (induction gs rule: induct_list012)
  case (3 g h gs)
  then have "gait_path (h # gs)" "h = g \<or> gait_step g h" by (simp_all add: gait_path_def)
  with 3(2) show ?case
    by (cases g; cases "case g of Single x \<Rightarrow> x | Double x \<Rightarrow> x") (auto simp: right_last_def)
qed simp_all

lemma takeoffs_alternate:
  assumes "gait_path gs"
  shows "\<bar>int (takeoffs RightLeg gs) - int (takeoffs LeftLeg gs)\<bar> \<le> 1"
proof (cases "gs = []")
  case False
  have "right_last h \<in> {0, 1}" for h by (cases h) (simp_all add: right_last_def)
  from this [of "last gs"] this [of "hd gs"] show ?thesis unfolding takeoffs_balance [OF assms False] by auto
qed simp

subsection \<open>The state machine of the controllers\<close>

definition gait_of :: "int \<Rightarrow> gait" where
  "gait_of w = (if w = 0 then Single RightLeg else if w = 1 then Double RightLeg
                else if w = 2 then Single LeftLeg else Double LeftLeg)"

definition valid_gait :: "int \<Rightarrow> bool" where
  "valid_gait w \<longleftrightarrow> w \<in> {0, 1, 2, 3}"

text \<open>
  The switch over the walking state, with the functions called in its branches: the leg in the air swings, the legs
  on the ground stand, then the events are evaluated. The arguments are the leg that stands and the other one.
\<close>

definition walk_by ::
  "('s \<Rightarrow> int) \<Rightarrow> (leg_side \<Rightarrow> leg_side \<Rightarrow> 's \<Rightarrow> 's) \<Rightarrow> (leg_side \<Rightarrow> leg_side \<Rightarrow> 's \<Rightarrow> 's) \<Rightarrow>
   (leg_side \<Rightarrow> leg_side \<Rightarrow> 's \<Rightarrow> 's) \<Rightarrow> (leg_side \<Rightarrow> leg_side \<Rightarrow> 's \<Rightarrow> 's) \<Rightarrow> 's \<Rightarrow> 's" where
  "walk_by phase swing stance single double s =
     (if phase s = 0 then single RightLeg LeftLeg (stance RightLeg LeftLeg (swing RightLeg LeftLeg s))
      else if phase s = 1 then double LeftLeg RightLeg (stance LeftLeg RightLeg (stance RightLeg LeftLeg s))
      else if phase s = 2 then single LeftLeg RightLeg (stance LeftLeg RightLeg (swing LeftLeg RightLeg s))
      else if phase s = 3 then double RightLeg LeftLeg (stance RightLeg LeftLeg (stance LeftLeg RightLeg s))
      else s)"

text \<open>
  The events are predicates of the state at the start of a call (\<open>lands\<close>, \<open>lifts\<close>); the functions evaluate the touchdown
  after the swing has run, which may have changed its settings (\<open>landed\<close>).
\<close>

locale walker =
  fixes phase :: "'s \<Rightarrow> int"
    and swing stance single double :: "leg_side \<Rightarrow> leg_side \<Rightarrow> 's \<Rightarrow> 's"
    and lands landed lifts :: "'s \<Rightarrow> leg_side \<Rightarrow> bool"
  assumes phase_swing: "phase (swing x y s) = phase s"
    and phase_stance: "phase (stance x y s) = phase s"
    and lands_kept: "landed (stance x (other x) (swing x (other x) s)) (other x) = lands s (other x)"
    and lifts_kept: "lifts (stance x y (stance z w s)) = lifts s"
    and phase_single: "phase (single x (other x) s) = (if landed s (other x) then crem (phase s + 1) 4 else phase s)"
    and phase_double: "phase (double (other x) x s) = (if lifts s x then crem (phase s + 1) 4 else phase s)"
begin

lemma refines:
  assumes "valid_gait (phase s)"
  shows "valid_gait (phase (walk_by phase swing stance single double s))"
    and "gait_of (phase (walk_by phase swing stance single double s)) =
      gait_next (lands s) (lifts s) (gait_of (phase s))"
proof -
  have m: "crem 1 4 = 1" "crem 2 4 = 2" "crem 3 4 = 3" "crem 4 4 = 0" by (simp_all add: crem_nonneg)
  note ev = phase_single [of RightLeg, simplified] phase_single [of LeftLeg, simplified]
    phase_double [of RightLeg, simplified] phase_double [of LeftLeg, simplified]
    lands_kept [of RightLeg, simplified] lands_kept [of LeftLeg, simplified]
  have "valid_gait (phase (walk_by phase swing stance single double s)) \<and>
      gait_of (phase (walk_by phase swing stance single double s)) =
      gait_next (lands s) (lifts s) (gait_of (phase s))"
    using assms unfolding valid_gait_def
    by (elim insertE emptyE)
      (simp_all add: walk_by_def gait_of_def gait_next_def ev phase_swing phase_stance lifts_kept m)
  then show "valid_gait (phase (walk_by phase swing stance single double s))"
    and "gait_of (phase (walk_by phase swing stance single double s)) =
      gait_next (lands s) (lifts s) (gait_of (phase s))" by simp_all
qed

end

end
