(* ===== verification/HipKinematics.thy ===== *)
theory HipKinematics
  imports LegKinematics
begin

text \<open>
  The sub-controller ASCHipBoomKinematics: the hip angles that put the toes at given distances
  from the axis of the boom. The code evaluates two closed formulas over complex doubles; here they
  are over the complex numbers of HOL. A root of a negative double and the logarithm of zero make
  the result NaN. The theorems show that the formulas solve the kinematics of boom, body, hip and leg.
\<close>

subsection \<open>The complex logarithm\<close>

definition clog :: "complex \<Rightarrow> complex" where
  "clog w = Complex (ln (cmod w)) (real_atan2 (Im w) (Re w))"

lemma atan2_circle:
  assumes "x\<^sup>2 + y\<^sup>2 = 1"
  shows "cos (real_atan2 y x) = x \<and> sin (real_atan2 y x) = y"
proof (cases "x = 0")
  case True
  with assms have "y = 1 \<or> y = - 1" by (simp add: power2_eq_1_iff)
  with True show ?thesis by (auto simp: real_atan2_def)
next
  case False
  have "1 + (y / x)\<^sup>2 = 1 / x\<^sup>2" using assms False by (simp add: field_simps power2_eq_square)
  then have s: "sqrt (1 + (y / x)\<^sup>2) = 1 / \<bar>x\<bar>" by (simp add: real_sqrt_divide)
  have a: "cos (arctan (y / x)) = \<bar>x\<bar>" "sin (arctan (y / x)) = y * \<bar>x\<bar> / x"
    using False unfolding cos_arctan sin_arctan s by simp_all
  show ?thesis
    using a False by (cases "0 < x") (auto simp: real_atan2_def)
qed

lemma clog_unit:
  assumes "cmod w = 1"
  shows "cis (Im (clog w)) = w"
  using atan2_circle [of "Re w" "Im w"] assms
  by (simp add: clog_def complex_eq_iff cmod_def real_sqrt_eq_1_iff)

subsection \<open>Inverse kinematics\<close>

definition lBoom :: real where "lBoom = 2.04"
definition lBody :: real where "lBody = 0.35"
definition lHip :: real where "lHip = 0.18"
definition qBodyOffset :: real where "qBodyOffset = PI / 2 - 0.126"

text \<open>
  The real parts of \<open>complexHipAngleLeft\<close> and \<open>complexHipAngleRight\<close>: \<open>toe\<close> is the wanted distance
  of the toe, \<open>l\<close> and \<open>q\<close> length and angle of the leg, \<open>b\<close> the angle of the boom.
\<close>

definition hipAngleLeft :: "real \<Rightarrow> real \<Rightarrow> real \<Rightarrow> real \<Rightarrow> dbl" where
  "hipAngleLeft toe l q b =
     (if toe + l * cos q < 0 \<or> toe - l * cos q < 0 then NaN
      else let r = complex_of_real; i = \<i>;
               num = - csqrt (r (l^2) - r (2 * l^2) * exp (r (q * 2) * i) + r (l^2) * exp (r (q * 4) * i)
                   + r (4 * toe^2) * exp (r (q * 2) * i) - r (4 * lHip^2) * exp (r (q * 2) * i)
                   + r (4 * lBoom^2) * exp (r (q * 2) * i) * r ((cos b)^2)
                   - r (4 * l^2) * exp (r (q * 2) * i) * r ((cos q)^2)
                   + r (4 * lBody^2) * exp (r (q * 2) * i) * r ((cos b)^2) * r ((cos qBodyOffset)^2)
                   + r (4 * lBody^2) * exp (r (q * 2) * i) * r ((sin b)^2) * r ((sin qBodyOffset)^2)
                   + r (8 * lBoom) * exp (r (q * 2) * i) * r (cos b) * r (sqrt (toe + l * cos q)) * r (sqrt (toe - l * cos q))
                   + r (8 * lBoom * lBody) * exp (r (q * 2) * i) * r ((cos b)^2) * r (cos qBodyOffset)
                   - r (8 * lBoom * lBody) * exp (r (q * 2) * i) * r (cos b) * r (sin b) * r (sin qBodyOffset)
                   + r (8 * lBody) * exp (r (q * 2) * i) * r (cos b) * r (cos qBodyOffset) *
                       r (sqrt (toe + l * cos q)) * r (sqrt (toe - l * cos q))
                   - r (8 * lBody) * exp (r (q * 2) * i) * r (sin b) * r (sin qBodyOffset) *
                       r (sqrt (toe + l * cos q)) * r (sqrt (toe - l * cos q))
                   - r (8 * lBody^2) * exp (r (q * 2) * i) * r (cos b) * r (cos qBodyOffset) * r (sin b) * r (sin qBodyOffset))
                 + r (2 * lBoom * cos b) * (r (cos q) + r (sin q) * i)
                 + 2 * exp (r q * i) * r (sqrt (toe + l * cos q)) * r (sqrt (toe - l * cos q))
                 + r (2 * lBody * cos (b + qBodyOffset)) * (r (cos q) + r (sin q) * i);
               den = r l + r (2 * lHip) * exp (r q * i) - r l * exp (r (q * 2) * i)
           in if num = 0 then NaN else Fin (Re (r (- b - qBodyOffset) - clog (num / den) * i)))"

definition hipAngleRight :: "real \<Rightarrow> real \<Rightarrow> real \<Rightarrow> real \<Rightarrow> dbl" where
  "hipAngleRight toe l q b =
     (if toe + l * cos q < 0 \<or> toe - l * cos q < 0 then NaN
      else let r = complex_of_real; i = \<i>;
               num = - (- csqrt (r (2 * lBody^2) * exp (r (q * 2) * i) - r (4 * lHip^2) * exp (r (q * 2) * i)
                   - r (2 * l^2) * exp (r (q * 2) * i) + r (l^2) * exp (r (q * 4) * i)
                   + r (4 * toe^2) * exp (r (q * 2) * i) + r (l^2)
                   + r (4 * lBoom^2) * exp (r (q * 2) * i) * r ((cos b)^2)
                   - r (4 * l^2) * exp (r (q * 2) * i) * r ((cos q)^2)
                   + r (2 * lBody^2 * cos (2 * b + 2 * qBodyOffset)) * exp (r (q * 2) * i)
                   + r (4 * lBoom * lBody) * exp (r (q * 2) * i) * r (cos qBodyOffset)
                   + r (4 * lBoom * lBody * cos (2 * b + qBodyOffset)) * exp (r (q * 2) * i)
                   + r (8 * lBody) * exp (r (q * 2) * i) * r (cos (b + qBodyOffset)) *
                       r (sqrt (toe + l * cos q)) * r (sqrt (toe - l * cos q))
                   + r (8 * lBoom) * exp (r (q * 2) * i) * r (cos b) *
                       r (sqrt (toe + l * cos q)) * r (sqrt (toe - l * cos q)))
                 + 2 * exp (r q * i) * r (sqrt (toe + l * cos q)) * r (sqrt (toe - l * cos q))
                 + r (2 * lBody) * exp (r q * i) * r (cos (b + qBodyOffset))
                 + r (2 * lBoom) * exp (r q * i) * r (cos b));
               den = - r l + r (2 * lHip) * exp (r q * i) + r l * exp (r (q * 2) * i)
           in if num = 0 then NaN else Fin (Re (r (- b - qBodyOffset) - clog (num / den) * i)))"

text \<open>A double that is not finite anywhere makes the whole formula NaN.\<close>

fun on_reals :: "(real \<Rightarrow> real \<Rightarrow> real \<Rightarrow> real \<Rightarrow> dbl) \<Rightarrow> dbl \<Rightarrow> dbl \<Rightarrow> dbl \<Rightarrow> dbl \<Rightarrow> dbl" where
  "on_reals f (Fin a) (Fin b) (Fin c) (Fin d) = f a b c d"
| "on_reals f _ _ _ _ = NaN"

record LeftRight =
  lr_left :: dbl
  lr_right :: dbl

definition LEFT_HIP_MOTOR_MIN_LOC :: real where "LEFT_HIP_MOTOR_MIN_LOC = 4.5616"
definition LEFT_HIP_MOTOR_MAX_LOC :: real where "LEFT_HIP_MOTOR_MAX_LOC = 4.9245"
definition RIGHT_HIP_MOTOR_MIN_LOC :: real where "RIGHT_HIP_MOTOR_MIN_LOC = 4.4671"
definition RIGHT_HIP_MOTOR_MAX_LOC :: real where "RIGHT_HIP_MOTOR_MAX_LOC = 4.8892"

definition iKine ::
  "LeftRight \<Rightarrow> robot_state_leg \<Rightarrow> robot_state_leg \<Rightarrow> robot_state_location \<Rightarrow> dbl \<times> dbl" where
  "iKine toePosition ll rl pos =
     (let lLeftLeg = Fin (L1 + L2) * dbl_cos ((legAngle (halfB ll) - legAngle (halfA ll)) / Fin 2);
          lRightLeg = Fin (L1 + L2) * dbl_cos ((legAngle (halfB rl) - legAngle (halfA rl)) / Fin 2);
          qLeftLeg = (legAngle (halfA ll) + legAngle (halfB ll)) / Fin 2;
          qRightLeg = (legAngle (halfA rl) + legAngle (halfB rl)) / Fin 2;
          l = on_reals hipAngleLeft (lr_left toePosition) lLeftLeg qLeftLeg (boomAngle pos);
          r = on_reals hipAngleRight (lr_right toePosition) lRightLeg qRightLeg (boomAngle pos);
          l = dbl_fmod (l + Fin (4 * PI)) (2 * PI);
          r = dbl_fmod (r + Fin (4 * PI)) (2 * PI)
      in (ac_clamp l (Fin LEFT_HIP_MOTOR_MIN_LOC) (Fin LEFT_HIP_MOTOR_MAX_LOC),
          ac_clamp r (Fin RIGHT_HIP_MOTOR_MIN_LOC) (Fin RIGHT_HIP_MOTOR_MAX_LOC)))"

subsection \<open>The formulas solve the kinematics\<close>

text \<open>
  The toe seen along the direction of travel: boom, body and hip are rigid links, \<open>h\<close> is the angle of
  the hip. The distance of the toe from the axis of the boom has a part along the leg and a part across.
\<close>

definition lateral_left :: "real \<Rightarrow> real \<Rightarrow> real \<Rightarrow> real \<Rightarrow> real" where
  "lateral_left l q b h = lHip * cos (h + b + qBodyOffset) + l * sin q * sin (h + b + qBodyOffset) -
     lBoom * cos b - lBody * cos (b + qBodyOffset)"

definition lateral_right :: "real \<Rightarrow> real \<Rightarrow> real \<Rightarrow> real \<Rightarrow> real" where
  "lateral_right l q b h = - lHip * cos (h + b + qBodyOffset) + l * sin q * sin (h + b + qBodyOffset) -
     lBoom * cos b - lBody * cos (b + qBodyOffset)"

text \<open>The root of the quadratic equation that both formulas solve.\<close>

lemma unit_root:
  fixes K H L r s :: real
  assumes "K\<^sup>2 + r\<^sup>2 = H\<^sup>2 + L\<^sup>2" and "s\<^sup>2 = 1" and "H \<noteq> 0"
    and "w = Complex K (s * r) / Complex H L"
  shows "cmod w = 1" and "H * Re w - L * Im w = K" and "Complex K (s * r) \<noteq> 0"
proof -
  have p: "0 < H\<^sup>2 + L\<^sup>2" using assms(3) by (simp add: sum_power2_gt_zero_iff)
  then have d: "Complex H L \<noteq> 0" using assms(3) by (simp add: complex_eq_iff)
  have m: "(cmod (Complex K (s * r)))\<^sup>2 = (cmod (Complex H L))\<^sup>2"
    using assms(1,2) by (simp add: cmod_power2 power_mult_distrib)
  then have e: "cmod (Complex K (s * r)) = cmod (Complex H L)"
    using power2_eq_iff_nonneg [of "cmod (Complex K (s * r))" "cmod (Complex H L)"] by simp
  then show "cmod w = 1" using d by (simp add: assms(4) norm_divide)
  show "Complex K (s * r) \<noteq> 0" using e d by (metis norm_eq_zero)
  have "w * Complex H L = Complex K (s * r)" using d by (simp add: assms(4))
  then have "Re (w * Complex H L) = K" by simp
  then show "H * Re w - L * Im w = K" by (simp add: mult.commute)
qed

lemma square_root_of_square: "z\<^sup>2 = D \<Longrightarrow> csqrt D = z \<or> csqrt D = - z"
  by (metis power2_csqrt power2_eq_iff)

lemma exp_multiples:
  fixes q :: real
  defines "E \<equiv> exp (complex_of_real q * \<i>)"
  shows "exp (complex_of_real (q * 2) * \<i>) = E\<^sup>2" and "exp (complex_of_real (q * 4) * \<i>) = E ^ 4"
    and "complex_of_real (cos q) + complex_of_real (sin q) * \<i> = E"
    and "1 - E\<^sup>2 = - 2 * \<i> * complex_of_real (sin q) * E" and "E \<noteq> 0"
proof -
  have E: "E = cis q" by (simp add: E_def cis_conv_exp mult.commute)
  show "exp (complex_of_real (q * 2) * \<i>) = E\<^sup>2"
    by (simp add: E_def exp_double [symmetric] ac_simps)
  show "exp (complex_of_real (q * 4) * \<i>) = E ^ 4"
    using exp_of_nat_mult [of 4 "complex_of_real q * \<i>"] by (simp add: E_def ac_simps)
  show "complex_of_real (cos q) + complex_of_real (sin q) * \<i> = E"
    by (simp add: E complex_eq_iff)
  show "1 - E\<^sup>2 = - 2 * \<i> * complex_of_real (sin q) * E"
    using sin_cos_squared_add [of q]
    by (simp add: E complex_eq_iff power2_eq_square algebra_simps)
  show "E \<noteq> 0" by (simp add: E_def)
qed

lemma left_radicand:
  fixes s1 s2 :: real
  assumes "s1\<^sup>2 = toe + l * cos q" and "s2\<^sup>2 = toe - l * cos q"
    and "E\<^sup>2 = F" and "1 - F = - 2 * \<i> * complex_of_real (sin q) * E"
    and "K = s1 * s2 + lBoom * cos b + lBody * cos (b + qBodyOffset)"
  shows "complex_of_real (l^2) - complex_of_real (2 * l^2) * F + complex_of_real (l^2) * F\<^sup>2
      + complex_of_real (4 * toe^2) * F - complex_of_real (4 * lHip^2) * F
      + complex_of_real (4 * lBoom^2) * F * complex_of_real ((cos b)^2)
      - complex_of_real (4 * l^2) * F * complex_of_real ((cos q)^2)
      + complex_of_real (4 * lBody^2) * F * complex_of_real ((cos b)^2) * complex_of_real ((cos qBodyOffset)^2)
      + complex_of_real (4 * lBody^2) * F * complex_of_real ((sin b)^2) * complex_of_real ((sin qBodyOffset)^2)
      + complex_of_real (8 * lBoom) * F * complex_of_real (cos b) * complex_of_real s1 * complex_of_real s2
      + complex_of_real (8 * lBoom * lBody) * F * complex_of_real ((cos b)^2) * complex_of_real (cos qBodyOffset)
      - complex_of_real (8 * lBoom * lBody) * F * complex_of_real (cos b) * complex_of_real (sin b) * complex_of_real (sin qBodyOffset)
      + complex_of_real (8 * lBody) * F * complex_of_real (cos b) * complex_of_real (cos qBodyOffset) *
          complex_of_real s1 * complex_of_real s2
      - complex_of_real (8 * lBody) * F * complex_of_real (sin b) * complex_of_real (sin qBodyOffset) *
          complex_of_real s1 * complex_of_real s2
      - complex_of_real (8 * lBody^2) * F * complex_of_real (cos b) * complex_of_real (cos qBodyOffset) *
          complex_of_real (sin b) * complex_of_real (sin qBodyOffset) =
    complex_of_real (4 * (K\<^sup>2 - lHip\<^sup>2 - (l * sin q)\<^sup>2)) * F" (is "?R = _")
proof -
  define X where "X = 4 * toe^2 - 4 * lHip^2 + 4 * lBoom^2 * (cos b)^2 - 4 * l^2 * (cos q)^2
    + 4 * lBody^2 * (cos b)^2 * (cos qBodyOffset)^2 + 4 * lBody^2 * (sin b)^2 * (sin qBodyOffset)^2
    + 8 * lBoom * cos b * s1 * s2 + 8 * lBoom * lBody * (cos b)^2 * cos qBodyOffset
    - 8 * lBoom * lBody * cos b * sin b * sin qBodyOffset + 8 * lBody * cos b * cos qBodyOffset * s1 * s2
    - 8 * lBody * sin b * sin qBodyOffset * s1 * s2
    - 8 * lBody^2 * cos b * cos qBodyOffset * sin b * sin qBodyOffset"
  have "?R = complex_of_real (l^2) * (1 - F)\<^sup>2 + complex_of_real X * F"
    by (simp add: X_def algebra_simps power2_eq_square)
  also have "(1 - F)\<^sup>2 = - complex_of_real (4 * (sin q)\<^sup>2) * F"
    unfolding assms(4) by (simp add: assms(3) [symmetric] power_mult_distrib)
  also have "X = 4 * K\<^sup>2 - 4 * lHip\<^sup>2"
  proof -
    have "(s1 * s2)\<^sup>2 = toe\<^sup>2 - l\<^sup>2 * (cos q)\<^sup>2"
      by (simp add: power_mult_distrib assms(1,2)) (simp add: algebra_simps power2_eq_square)
    then show ?thesis
      unfolding X_def assms(5) cos_add by (simp add: algebra_simps power2_eq_square)
  qed
  finally show ?thesis by (simp add: algebra_simps power_mult_distrib)
qed

lemma csqrt_radicand:
  assumes "K\<^sup>2 \<le> H\<^sup>2 + L\<^sup>2" and "F = E\<^sup>2"
  shows "\<exists>s::real. s\<^sup>2 = 1 \<and> - csqrt (complex_of_real (4 * (K\<^sup>2 - H\<^sup>2 - L\<^sup>2)) * F) =
    2 * E * Complex 0 (s * sqrt (H\<^sup>2 + L\<^sup>2 - K\<^sup>2))"
proof -
  let ?r = "sqrt (H\<^sup>2 + L\<^sup>2 - K\<^sup>2)"
  have "(2 * E * Complex 0 ?r)\<^sup>2 = 4 * E\<^sup>2 * (Complex 0 ?r)\<^sup>2" by (simp add: power_mult_distrib)
  also have "(Complex 0 ?r)\<^sup>2 = complex_of_real (K\<^sup>2 - H\<^sup>2 - L\<^sup>2)"
    using assms(1) by (simp add: complex_eq_iff power2_eq_square)
  finally have "(2 * E * Complex 0 ?r)\<^sup>2 = complex_of_real (4 * (K\<^sup>2 - H\<^sup>2 - L\<^sup>2)) * F"
    by (simp add: assms(2))
  from square_root_of_square [OF this]
  have "- csqrt (complex_of_real (4 * (K\<^sup>2 - H\<^sup>2 - L\<^sup>2)) * F) = 2 * E * Complex 0 ((- 1) * ?r) \<or>
    - csqrt (complex_of_real (4 * (K\<^sup>2 - H\<^sup>2 - L\<^sup>2)) * F) = 2 * E * Complex 0 (1 * ?r)"
    by (auto simp: complex_eq_iff)
  then show ?thesis by (metis power_one power2_minus)
qed

lemma hip_angle_of_unit:
  assumes "cmod w = 1" and "h = Re (complex_of_real (- b - qBodyOffset) - clog w * \<i>)"
  shows "cos (h + b + qBodyOffset) = Re w" and "sin (h + b + qBodyOffset) = Im w"
proof -
  have "h + b + qBodyOffset = Im (clog w)" by (simp add: assms(2))
  with clog_unit [OF assms(1)] show "cos (h + b + qBodyOffset) = Re w" "sin (h + b + qBodyOffset) = Im w"
    by (metis cis.sel(1), metis cis.sel(2))
qed

lemma hipAngleLeft_solves:
  assumes "\<bar>l * cos q\<bar> \<le> toe"
    and "K = sqrt (toe\<^sup>2 - (l * cos q)\<^sup>2) + lBoom * cos b + lBody * cos (b + qBodyOffset)"
    and "K\<^sup>2 \<le> lHip\<^sup>2 + (l * sin q)\<^sup>2"
  shows "\<exists>h. hipAngleLeft toe l q b = Fin h \<and> (l * cos q)\<^sup>2 + (lateral_left l q b h)\<^sup>2 = toe\<^sup>2"
proof -
  define E where "E = exp (complex_of_real q * \<i>)"
  note e = exp_multiples [of q, folded E_def]
  have F: "(E\<^sup>2)\<^sup>2 = E ^ 4" by simp
  let ?s1 = "sqrt (toe + l * cos q)" and ?s2 = "sqrt (toe - l * cos q)"
  have nn: "0 \<le> toe + l * cos q" "0 \<le> toe - l * cos q" using assms(1) by linarith+
  have s: "?s1 * ?s2 = sqrt (toe\<^sup>2 - (l * cos q)\<^sup>2)"
    by (simp add: real_sqrt_mult [symmetric]) (simp add: algebra_simps power2_eq_square)
  define R where "R = sqrt (lHip\<^sup>2 + (l * sin q)\<^sup>2 - K\<^sup>2)"
  obtain sg :: real where sg: "sg\<^sup>2 = 1" "- csqrt (complex_of_real (4 * (K\<^sup>2 - lHip\<^sup>2 - (l * sin q)\<^sup>2)) * E\<^sup>2) =
    2 * E * Complex 0 (sg * R)"
    using csqrt_radicand [OF assms(3) refl, of E] by (auto simp: R_def)
  have K: "K = ?s1 * ?s2 + lBoom * cos b + lBody * cos (b + qBodyOffset)" by (simp only: assms(2) s)
  define num where "num = 2 * E * Complex 0 (sg * R) + complex_of_real (2 * lBoom * cos b) * E +
    2 * E * complex_of_real ?s1 * complex_of_real ?s2 + complex_of_real (2 * lBody * cos (b + qBodyOffset)) * E"
  define den where "den = complex_of_real l + complex_of_real (2 * lHip) * E - complex_of_real l * E\<^sup>2"
  have num: "num = 2 * E * Complex K (sg * R)"
    by (simp add: num_def K complex_eq_iff algebra_simps)
  have "den = complex_of_real l * (1 - E\<^sup>2) + complex_of_real (2 * lHip) * E" by (simp add: den_def algebra_simps)
  then have den: "den = 2 * E * Complex lHip (- (l * sin q))"
    unfolding e(4) by (simp add: complex_eq_iff algebra_simps)
  have rt: "K\<^sup>2 + R\<^sup>2 = lHip\<^sup>2 + (- (l * sin q))\<^sup>2" using assms(3) by (simp add: R_def)
  have w: "num / den = Complex K (sg * R) / Complex lHip (- (l * sin q))" using e(5) by (simp add: num den)
  note u = unit_root [OF rt sg(1) _ w]
  have "lHip \<noteq> 0" by (simp add: lHip_def)
  note u = u [OF this]
  have n0: "num \<noteq> 0" using u(3) e(5) by (simp add: num)
  define h where "h = Re (complex_of_real (- b - qBodyOffset) - clog (num / den) * \<i>)"
  have "hipAngleLeft toe l q b = Fin h"
    unfolding hipAngleLeft_def Let_def e(1-3) F [symmetric]
      left_radicand [OF real_sqrt_pow2 [OF nn(1)] real_sqrt_pow2 [OF nn(2)] refl e(4) K] E_def [symmetric] sg(2)
    unfolding num_def [symmetric] den_def [symmetric] h_def [symmetric]
    using nn n0 by (simp add: not_less)
  moreover have "lateral_left l q b h = sqrt (toe\<^sup>2 - (l * cos q)\<^sup>2)"
    using hip_angle_of_unit [OF u(1) h_def] u(2) assms(2) by (simp add: lateral_left_def)
  moreover have "0 \<le> toe\<^sup>2 - (l * cos q)\<^sup>2"
    using assms(1) by (metis abs_ge_zero diff_ge_0_iff_ge power2_abs power_mono)
  ultimately show ?thesis by simp
qed

lemma right_radicand:
  fixes s1 s2 :: real
  assumes "s1\<^sup>2 = toe + l * cos q" and "s2\<^sup>2 = toe - l * cos q"
    and "E\<^sup>2 = F" and "1 - F = - 2 * \<i> * complex_of_real (sin q) * E"
    and "K = s1 * s2 + lBoom * cos b + lBody * cos (b + qBodyOffset)"
  shows "complex_of_real (2 * lBody^2) * F - complex_of_real (4 * lHip^2) * F
      - complex_of_real (2 * l^2) * F + complex_of_real (l^2) * F\<^sup>2
      + complex_of_real (4 * toe^2) * F + complex_of_real (l^2)
      + complex_of_real (4 * lBoom^2) * F * complex_of_real ((cos b)^2)
      - complex_of_real (4 * l^2) * F * complex_of_real ((cos q)^2)
      + complex_of_real (2 * lBody^2 * cos (2 * b + 2 * qBodyOffset)) * F
      + complex_of_real (4 * lBoom * lBody) * F * complex_of_real (cos qBodyOffset)
      + complex_of_real (4 * lBoom * lBody * cos (2 * b + qBodyOffset)) * F
      + complex_of_real (8 * lBody) * F * complex_of_real (cos (b + qBodyOffset)) *
          complex_of_real s1 * complex_of_real s2
      + complex_of_real (8 * lBoom) * F * complex_of_real (cos b) * complex_of_real s1 * complex_of_real s2 =
    complex_of_real (4 * (K\<^sup>2 - lHip\<^sup>2 - (l * sin q)\<^sup>2)) * F" (is "?R = _")
proof -
  define X where "X = 2 * lBody^2 - 4 * lHip^2 + 4 * toe^2 + 4 * lBoom^2 * (cos b)^2 - 4 * l^2 * (cos q)^2
    + 2 * lBody^2 * cos (2 * b + 2 * qBodyOffset) + 4 * lBoom * lBody * cos qBodyOffset
    + 4 * lBoom * lBody * cos (2 * b + qBodyOffset) + 8 * lBody * cos (b + qBodyOffset) * s1 * s2
    + 8 * lBoom * cos b * s1 * s2"
  have "?R = complex_of_real (l^2) * (1 - F)\<^sup>2 + complex_of_real X * F"
    by (simp add: X_def algebra_simps power2_eq_square)
  also have "(1 - F)\<^sup>2 = - complex_of_real (4 * (sin q)\<^sup>2) * F"
    unfolding assms(4) by (simp add: assms(3) [symmetric] power_mult_distrib)
  also have "X = 4 * K\<^sup>2 - 4 * lHip\<^sup>2"
  proof -
    have "(s1 * s2)\<^sup>2 = toe\<^sup>2 - l\<^sup>2 * (cos q)\<^sup>2"
      by (simp add: power_mult_distrib assms(1,2)) (simp add: algebra_simps power2_eq_square)
    note sq = this
    have c2: "cos (2 * b + 2 * qBodyOffset) = 2 * (cos (b + qBodyOffset))\<^sup>2 - 1"
      using cos_double_cos [of "b + qBodyOffset"] by (simp add: distrib_left)
    have c1: "cos (2 * b + qBodyOffset) = 2 * cos b * cos (b + qBodyOffset) - cos qBodyOffset"
    proof -
      have "cos (2 * b + qBodyOffset) + cos qBodyOffset =
        cos ((b + qBodyOffset) + b) + cos ((b + qBodyOffset) - b)" by simp
      then show ?thesis unfolding cos_add [of "b + qBodyOffset" b] cos_diff [of "b + qBodyOffset" b]
        by (simp add: algebra_simps)
    qed
    show ?thesis
      unfolding X_def assms(5) c1 c2 using sq by (simp add: algebra_simps power2_eq_square)
  qed
  finally show ?thesis by (simp add: algebra_simps power_mult_distrib)
qed

lemma hipAngleRight_solves:
  assumes "\<bar>l * cos q\<bar> \<le> toe"
    and "K = sqrt (toe\<^sup>2 - (l * cos q)\<^sup>2) + lBoom * cos b + lBody * cos (b + qBodyOffset)"
    and "K\<^sup>2 \<le> lHip\<^sup>2 + (l * sin q)\<^sup>2"
  shows "\<exists>h. hipAngleRight toe l q b = Fin h \<and> (l * cos q)\<^sup>2 + (lateral_right l q b h)\<^sup>2 = toe\<^sup>2"
proof -
  define E where "E = exp (complex_of_real q * \<i>)"
  note e = exp_multiples [of q, folded E_def]
  have F: "(E\<^sup>2)\<^sup>2 = E ^ 4" by simp
  let ?s1 = "sqrt (toe + l * cos q)" and ?s2 = "sqrt (toe - l * cos q)"
  have nn: "0 \<le> toe + l * cos q" "0 \<le> toe - l * cos q" using assms(1) by linarith+
  have s: "?s1 * ?s2 = sqrt (toe\<^sup>2 - (l * cos q)\<^sup>2)"
    by (simp add: real_sqrt_mult [symmetric]) (simp add: algebra_simps power2_eq_square)
  define R where "R = sqrt (lHip\<^sup>2 + (l * sin q)\<^sup>2 - K\<^sup>2)"
  obtain sg :: real where sg: "sg\<^sup>2 = 1" "- csqrt (complex_of_real (4 * (K\<^sup>2 - lHip\<^sup>2 - (l * sin q)\<^sup>2)) * E\<^sup>2) =
    2 * E * Complex 0 (sg * R)"
    using csqrt_radicand [OF assms(3) refl, of E] by (auto simp: R_def)
  have K: "K = ?s1 * ?s2 + lBoom * cos b + lBody * cos (b + qBodyOffset)" by (simp only: assms(2) s)
  define num where "num = - (2 * E * Complex 0 (sg * R) + 2 * E * complex_of_real ?s1 * complex_of_real ?s2 +
    complex_of_real (2 * lBody) * E * complex_of_real (cos (b + qBodyOffset)) +
    complex_of_real (2 * lBoom) * E * complex_of_real (cos b))"
  define den where "den = - complex_of_real l + complex_of_real (2 * lHip) * E + complex_of_real l * E\<^sup>2"
  have num: "num = 2 * E * Complex (- K) ((- sg) * R)"
    by (simp add: num_def K complex_eq_iff algebra_simps)
  have "den = - complex_of_real l * (1 - E\<^sup>2) + complex_of_real (2 * lHip) * E" by (simp add: den_def algebra_simps)
  then have den: "den = 2 * E * Complex lHip (l * sin q)"
    unfolding e(4) by (simp add: complex_eq_iff algebra_simps)
  have rt: "(- K)\<^sup>2 + R\<^sup>2 = lHip\<^sup>2 + (l * sin q)\<^sup>2" using assms(3) by (simp add: R_def)
  have w: "num / den = Complex (- K) ((- sg) * R) / Complex lHip (l * sin q)" using e(5) by (simp add: num den)
  have "(- sg)\<^sup>2 = 1" "lHip \<noteq> 0" using sg(1) by (simp_all add: lHip_def)
  note u = unit_root [OF rt this w]
  have n0: "num \<noteq> 0" using u(3) e(5) by (simp add: num)
  define h where "h = Re (complex_of_real (- b - qBodyOffset) - clog (num / den) * \<i>)"
  have "hipAngleRight toe l q b = Fin h"
    unfolding hipAngleRight_def Let_def e(1-3) F [symmetric]
      right_radicand [OF real_sqrt_pow2 [OF nn(1)] real_sqrt_pow2 [OF nn(2)] refl e(4) K] E_def [symmetric] sg(2)
    unfolding num_def [symmetric] den_def [symmetric] h_def [symmetric]
    using nn n0 by (simp add: not_less)
  moreover have "lateral_right l q b h = sqrt (toe\<^sup>2 - (l * cos q)\<^sup>2)"
    using hip_angle_of_unit [OF u(1) h_def] u(2) assms(2) by (simp add: lateral_right_def)
  moreover have "0 \<le> toe\<^sup>2 - (l * cos q)\<^sup>2"
    using assms(1) by (metis abs_ge_zero diff_ge_0_iff_ge power2_abs power_mono)
  ultimately show ?thesis by simp
qed

text \<open>What \<open>iKine\<close> returns is within the limits of the hips, or NaN.\<close>

lemma iKine_limits:
  "iKine toes ll rl pos = (hl, hr) \<Longrightarrow>
   (hl = NaN \<or> (\<exists>x. hl = Fin x \<and> LEFT_HIP_MOTOR_MIN_LOC \<le> x \<and> x \<le> LEFT_HIP_MOTOR_MAX_LOC)) \<and>
   (hr = NaN \<or> (\<exists>x. hr = Fin x \<and> RIGHT_HIP_MOTOR_MIN_LOC \<le> x \<and> x \<le> RIGHT_HIP_MOTOR_MAX_LOC))"
proof -
  have c: "ac_clamp x (Fin a) (Fin b) = NaN \<or> (\<exists>y. ac_clamp x (Fin a) (Fin b) = Fin y \<and> a \<le> y \<and> y \<le> b)"
    if "a \<le> b" for x a b
    using that by (cases x) (auto simp: ac_clamp_def std_min_def std_max_def Let_def)
  have "LEFT_HIP_MOTOR_MIN_LOC \<le> LEFT_HIP_MOTOR_MAX_LOC" "RIGHT_HIP_MOTOR_MIN_LOC \<le> RIGHT_HIP_MOTOR_MAX_LOC"
    by (simp_all add: LEFT_HIP_MOTOR_MIN_LOC_def LEFT_HIP_MOTOR_MAX_LOC_def
        RIGHT_HIP_MOTOR_MIN_LOC_def RIGHT_HIP_MOTOR_MAX_LOC_def)
  note c [OF this(1)] c [OF this(2)]
  then show "iKine toes ll rl pos = (hl, hr) \<Longrightarrow> ?thesis"
    by (auto simp: iKine_def Let_def)
qed

text \<open>
  C18. The inverse kinematics of the hips inverts the kinematics: for toe distances that the links can
  reach, the angle that each formula yields puts the toe exactly at the distance asked for, and what
  is returned is that angle, reduced modulo 2 PI and clamped to the range of the hip.
\<close>

theorem hip_kinematics_solved:
  assumes "legAngle (halfA ll) = Fin la" and "legAngle (halfB ll) = Fin lb"
    and "legAngle (halfA rl) = Fin ra" and "legAngle (halfB rl) = Fin rb" and "boomAngle pos = Fin b"
    and "len1 = (L1 + L2) * cos ((lb - la) / 2)" and "ang1 = (la + lb) / 2"
    and "len2 = (L1 + L2) * cos ((rb - ra) / 2)" and "ang2 = (ra + rb) / 2"
    and "\<bar>len1 * cos ang1\<bar> \<le> toe1" and "\<bar>len2 * cos ang2\<bar> \<le> toe2"
    and "(sqrt (toe1\<^sup>2 - (len1 * cos ang1)\<^sup>2) + lBoom * cos b + lBody * cos (b + qBodyOffset))\<^sup>2 \<le>
      lHip\<^sup>2 + (len1 * sin ang1)\<^sup>2"
    and "(sqrt (toe2\<^sup>2 - (len2 * cos ang2)\<^sup>2) + lBoom * cos b + lBody * cos (b + qBodyOffset))\<^sup>2 \<le>
      lHip\<^sup>2 + (len2 * sin ang2)\<^sup>2"
  shows "\<exists>h1 h2. (len1 * cos ang1)\<^sup>2 + (lateral_left len1 ang1 b h1)\<^sup>2 = toe1\<^sup>2 \<and>
    (len2 * cos ang2)\<^sup>2 + (lateral_right len2 ang2 b h2)\<^sup>2 = toe2\<^sup>2 \<and>
    iKine \<lparr>lr_left = Fin toe1, lr_right = Fin toe2\<rparr> ll rl pos =
      (Fin (max LEFT_HIP_MOTOR_MIN_LOC (min LEFT_HIP_MOTOR_MAX_LOC (real_fmod (h1 + 4 * PI) (2 * PI)))),
       Fin (max RIGHT_HIP_MOTOR_MIN_LOC (min RIGHT_HIP_MOTOR_MAX_LOC (real_fmod (h2 + 4 * PI) (2 * PI)))))"
proof -
  obtain h1 where h1: "hipAngleLeft toe1 len1 ang1 b = Fin h1"
    "(len1 * cos ang1)\<^sup>2 + (lateral_left len1 ang1 b h1)\<^sup>2 = toe1\<^sup>2"
    using hipAngleLeft_solves [OF assms(10) refl assms(12)] by blast
  obtain h2 where h2: "hipAngleRight toe2 len2 ang2 b = Fin h2"
    "(len2 * cos ang2)\<^sup>2 + (lateral_right len2 ang2 b h2)\<^sup>2 = toe2\<^sup>2"
    using hipAngleRight_solves [OF assms(11) refl assms(13)] by blast
  have m: "min LEFT_HIP_MOTOR_MIN_LOC LEFT_HIP_MOTOR_MAX_LOC = LEFT_HIP_MOTOR_MIN_LOC"
    "max LEFT_HIP_MOTOR_MIN_LOC LEFT_HIP_MOTOR_MAX_LOC = LEFT_HIP_MOTOR_MAX_LOC"
    "min RIGHT_HIP_MOTOR_MIN_LOC RIGHT_HIP_MOTOR_MAX_LOC = RIGHT_HIP_MOTOR_MIN_LOC"
    "max RIGHT_HIP_MOTOR_MIN_LOC RIGHT_HIP_MOTOR_MAX_LOC = RIGHT_HIP_MOTOR_MAX_LOC"
    by (simp_all add: LEFT_HIP_MOTOR_MIN_LOC_def LEFT_HIP_MOTOR_MAX_LOC_def
        RIGHT_HIP_MOTOR_MIN_LOC_def RIGHT_HIP_MOTOR_MAX_LOC_def)
  have "iKine \<lparr>lr_left = Fin toe1, lr_right = Fin toe2\<rparr> ll rl pos =
      (Fin (max LEFT_HIP_MOTOR_MIN_LOC (min LEFT_HIP_MOTOR_MAX_LOC (real_fmod (h1 + 4 * PI) (2 * PI)))),
       Fin (max RIGHT_HIP_MOTOR_MIN_LOC (min RIGHT_HIP_MOTOR_MAX_LOC (real_fmod (h2 + 4 * PI) (2 * PI)))))"
    by (simp add: iKine_def Let_def assms(1-5) assms(6-9) [symmetric] h1(1) h2(1) ac_clamp_Fin m)
  with h1(2) h2(2) show ?thesis by blast
qed

definition standing_leg :: robot_state_leg where
  "standing_leg = robot_state_leg_zero
     \<lparr>halfA := robot_state_legHalf_zero\<lparr>legAngle := Fin (pi / 2)\<rparr>,
      halfB := robot_state_legHalf_zero\<lparr>legAngle := Fin (pi / 2)\<rparr>\<rparr>"

lemma hip_kinematics_solved_witness:
  "\<exists>h1. lateral_left 1 (pi / 2) pi h1 ^ 2 = 4 \<and>
    fst (iKine \<lparr>lr_left = Fin 2, lr_right = Fin 2\<rparr> standing_leg standing_leg
      (robot_state_location_zero\<lparr>boomAngle := Fin pi\<rparr>)) =
    Fin (max LEFT_HIP_MOTOR_MIN_LOC (min LEFT_HIP_MOTOR_MAX_LOC (real_fmod (h1 + 4 * PI) (2 * PI))))"
proof -
  have "\<bar>2 - lBoom - lBody * cos qBodyOffset\<bar> \<le> 1"
    using cos_ge_minus_one [of qBodyOffset] cos_le_one [of qBodyOffset]
    by (simp add: lBoom_def lBody_def abs_le_iff, intro conjI) linarith+
  then have "(2 - lBoom - lBody * cos qBodyOffset)\<^sup>2 \<le> lHip\<^sup>2 + 1"
    using abs_le_square_iff [of "2 - lBoom - lBody * cos qBodyOffset" 1] by (simp add: add_increasing)
  then show ?thesis
    using hip_kinematics_solved [of standing_leg "pi / 2" "pi / 2" standing_leg "pi / 2" "pi / 2"
        "robot_state_location_zero\<lparr>boomAngle := Fin pi\<rparr>" pi 1 "pi / 2" 1 "pi / 2" 2 2]
    by (auto simp: standing_leg_def L1_def L2_def)
qed

subsection \<open>What the safety checks of the controllers look at\<close>

definition moves_faster :: "dbl \<Rightarrow> robot_state \<Rightarrow> bool" where
  "moves_faster m rs \<longleftrightarrow> (\<exists>l \<in> {lLeg rs, rLeg rs}.
     \<exists>x \<in> {rotorVelocity (halfA l), rotorVelocity (halfB l), legBodyVelocity (hip l)}. m < fabs x)"

definition deflected_over :: "dbl \<Rightarrow> robot_state \<Rightarrow> bool" where
  "deflected_over m rs \<longleftrightarrow> (\<exists>l \<in> {lLeg rs, rLeg rs}.
     \<exists>h \<in> {halfA l, halfB l}. m < fabs (motorAngle h - legAngle h))"

end
