(* ===== verification/SlipModel.thy ===== *)
theory SlipModel
  imports LegKinematics
begin

text \<open>
  The sub-controller ASCSlipModel: a spring-loaded inverted pendulum, advanced by one time step of a
  Runge-Kutta method, with the four stages of the method expanded into one closed formula for
  each component. The theorems compare the formulas with the method itself.
\<close>

subsection \<open>The model\<close>

definition G_ACC :: real where [consts_simp]: "G_ACC = 9.81"
definition ATRIAS_MASS :: real where [consts_simp]: "ATRIAS_MASS = 59.9"

record SlipState =
  isFlight :: bool
  isStance :: bool
  ss_r :: dbl
  ss_dr :: dbl
  ss_q :: dbl
  ss_dq :: dbl

record ASCSlipModel =
  sm_k :: dbl
  sm_dk :: dbl
  sm_r0 :: dbl
  sm_m :: dbl

definition new_ASCSlipModel :: ASCSlipModel where
  "new_ASCSlipModel = \<lparr>sm_k = Fin 28000, sm_dk = Fin 0, sm_r0 = Fin 0.85, sm_m = Fin ATRIAS_MASS\<rparr>"

definition rk4_rNew ::
  "dbl \<Rightarrow> dbl \<Rightarrow> dbl \<Rightarrow> dbl \<Rightarrow> dbl \<Rightarrow> dbl \<Rightarrow> dbl \<Rightarrow> dbl \<Rightarrow> dbl \<Rightarrow> dbl" where
  "rk4_rNew g h k m r0 r dr q dq =
     r + dr * h * (Fin 1 / Fin 6) + h * (dr - h * (- (dq * dq) * r + g * dbl_sin q + k * (r - r0) /
      m) * (Fin 1 / Fin 2)) * (Fin 1 / Fin 3) + h * (dr - h * (g * dbl_sin (q + h * (dq - h * (dq *
      dr * Fin 2 + g * dbl_cos q) * (Fin 1 / Fin 2) / r) * (Fin 1 / Fin 2)) - dbl_sq (dq - h * (g *
      dbl_cos (q + dq * h * (Fin 1 / Fin 2)) + (dq - h * (dq * dr * Fin 2 + g * dbl_cos q) * (Fin 1
      / Fin 2) / r) * (dr * Fin 2 - h * (- (dq * dq) * r + g * dbl_sin q + k * (r - r0) / m))) *
      (Fin 1 / Fin 2) / (r + dr * h * (Fin 1 / Fin 2))) * (r + h * (dr - h * (- (dq * dq) * r + g *
      dbl_sin q + k * (r - r0) / m) * (Fin 1 / Fin 2)) * (Fin 1 / Fin 2)) + k * (r - r0 + h * (dr -
      h * (- (dq * dq) * r + g * dbl_sin q + k * (r - r0) / m) * (Fin 1 / Fin 2)) * (Fin 1 / Fin
      2)) / m)) * (Fin 1 / Fin 6) + h * (dr - h * (g * dbl_sin (q + dq * h * (Fin 1 / Fin 2)) -
      dbl_sq (dq - h * (dq * dr * Fin 2 + g * dbl_cos q) * (Fin 1 / Fin 2) / r) * (r + dr * h *
      (Fin 1 / Fin 2)) + k * (r - r0 + dr * h * (Fin 1 / Fin 2)) / m) * (Fin 1 / Fin 2)) * (Fin 1 /
      Fin 3)"

definition rk4_drNew ::
  "dbl \<Rightarrow> dbl \<Rightarrow> dbl \<Rightarrow> dbl \<Rightarrow> dbl \<Rightarrow> dbl \<Rightarrow> dbl \<Rightarrow> dbl \<Rightarrow> dbl \<Rightarrow> dbl" where
  "rk4_drNew g h k m r0 r dr q dq =
     dr - h * (- dbl_sq (dq - h * (g * dbl_cos (q + h * (dq - h * (dq * dr * Fin 2 + g * dbl_cos q)
      * (Fin 1 / Fin 2) / r) * (Fin 1 / Fin 2)) + (dq - h * (g * dbl_cos (q + dq * h * (Fin 1 / Fin
      2)) + (dq - h * (dq * dr * Fin 2 + g * dbl_cos q) * (Fin 1 / Fin 2) / r) * (dr * Fin 2 - h *
      (- (dq * dq) * r + g * dbl_sin q + k * (r - r0) / m))) * (Fin 1 / Fin 2) / (r + dr * h * (Fin
      1 / Fin 2))) * (dr * Fin 2 - h * (g * dbl_sin (q + dq * h * (Fin 1 / Fin 2)) - dbl_sq (dq - h
      * (dq * dr * Fin 2 + g * dbl_cos q) * (Fin 1 / Fin 2) / r) * (r + dr * h * (Fin 1 / Fin 2)) +
      k * (r - r0 + dr * h * (Fin 1 / Fin 2)) / m))) / (r + h * (dr - h * (- (dq * dq) * r + g *
      dbl_sin q + k * (r - r0) / m) * (Fin 1 / Fin 2)) * (Fin 1 / Fin 2))) * (r + h * (dr - h * (g
      * dbl_sin (q + dq * h * (Fin 1 / Fin 2)) - dbl_sq (dq - h * (dq * dr * Fin 2 + g * dbl_cos q)
      * (Fin 1 / Fin 2) / r) * (r + dr * h * (Fin 1 / Fin 2)) + k * (r - r0 + dr * h * (Fin 1 / Fin
      2)) / m) * (Fin 1 / Fin 2))) + g * dbl_sin (q + h * (dq - h * (g * dbl_cos (q + dq * h * (Fin
      1 / Fin 2)) + (dq - h * (dq * dr * Fin 2 + g * dbl_cos q) * (Fin 1 / Fin 2) / r) * (dr * Fin
      2 - h * (- (dq * dq) * r + g * dbl_sin q + k * (r - r0) / m))) * (Fin 1 / Fin 2) / (r + dr *
      h * (Fin 1 / Fin 2)))) + k * (r - r0 + h * (dr - h * (g * dbl_sin (q + dq * h * (Fin 1 / Fin
      2)) - dbl_sq (dq - h * (dq * dr * Fin 2 + g * dbl_cos q) * (Fin 1 / Fin 2) / r) * (r + dr * h
      * (Fin 1 / Fin 2)) + k * (r - r0 + dr * h * (Fin 1 / Fin 2)) / m) * (Fin 1 / Fin 2))) / m) *
      (Fin 1 / Fin 6) - h * (- (dq * dq) * r + g * dbl_sin q + k * (r - r0) / m) * (Fin 1 / Fin 6)
      - h * (g * dbl_sin (q + h * (dq - h * (dq * dr * Fin 2 + g * dbl_cos q) * (Fin 1 / Fin 2) /
      r) * (Fin 1 / Fin 2)) - dbl_sq (dq - h * (g * dbl_cos (q + dq * h * (Fin 1 / Fin 2)) + (dq -
      h * (dq * dr * Fin 2 + g * dbl_cos q) * (Fin 1 / Fin 2) / r) * (dr * Fin 2 - h * (- (dq * dq)
      * r + g * dbl_sin q + k * (r - r0) / m))) * (Fin 1 / Fin 2) / (r + dr * h * (Fin 1 / Fin 2)))
      * (r + h * (dr - h * (- (dq * dq) * r + g * dbl_sin q + k * (r - r0) / m) * (Fin 1 / Fin 2))
      * (Fin 1 / Fin 2)) + k * (r - r0 + h * (dr - h * (- (dq * dq) * r + g * dbl_sin q + k * (r -
      r0) / m) * (Fin 1 / Fin 2)) * (Fin 1 / Fin 2)) / m) * (Fin 1 / Fin 3) - h * (g * dbl_sin (q +
      dq * h * (Fin 1 / Fin 2)) - dbl_sq (dq - h * (dq * dr * Fin 2 + g * dbl_cos q) * (Fin 1 / Fin
      2) / r) * (r + dr * h * (Fin 1 / Fin 2)) + k * (r - r0 + dr * h * (Fin 1 / Fin 2)) / m) *
      (Fin 1 / Fin 3)"

definition rk4_qNew ::
  "dbl \<Rightarrow> dbl \<Rightarrow> dbl \<Rightarrow> dbl \<Rightarrow> dbl \<Rightarrow> dbl \<Rightarrow> dbl \<Rightarrow> dbl \<Rightarrow> dbl \<Rightarrow> dbl" where
  "rk4_qNew g h k m r0 r dr q dq =
     q + dq * h * (Fin 1 / Fin 6) + h * (dq - h * (dq * dr * Fin 2 + g * dbl_cos q) * (Fin 1 / Fin
      2) / r) * (Fin 1 / Fin 3) + h * (dq - h * (g * dbl_cos (q + dq * h * (Fin 1 / Fin 2)) + (dq -
      h * (dq * dr * Fin 2 + g * dbl_cos q) * (Fin 1 / Fin 2) / r) * (dr * Fin 2 - h * (- (dq * dq)
      * r + g * dbl_sin q + k * (r - r0) / m))) * (Fin 1 / Fin 2) / (r + dr * h * (Fin 1 / Fin 2)))
      * (Fin 1 / Fin 3) + h * (dq - h * (g * dbl_cos (q + h * (dq - h * (dq * dr * Fin 2 + g *
      dbl_cos q) * (Fin 1 / Fin 2) / r) * (Fin 1 / Fin 2)) + (dq - h * (g * dbl_cos (q + dq * h *
      (Fin 1 / Fin 2)) + (dq - h * (dq * dr * Fin 2 + g * dbl_cos q) * (Fin 1 / Fin 2) / r) * (dr *
      Fin 2 - h * (- (dq * dq) * r + g * dbl_sin q + k * (r - r0) / m))) * (Fin 1 / Fin 2) / (r +
      dr * h * (Fin 1 / Fin 2))) * (dr * Fin 2 - h * (g * dbl_sin (q + dq * h * (Fin 1 / Fin 2)) -
      dbl_sq (dq - h * (dq * dr * Fin 2 + g * dbl_cos q) * (Fin 1 / Fin 2) / r) * (r + dr * h *
      (Fin 1 / Fin 2)) + k * (r - r0 + dr * h * (Fin 1 / Fin 2)) / m))) / (r + h * (dr - h * (- (dq
      * dq) * r + g * dbl_sin q + k * (r - r0) / m) * (Fin 1 / Fin 2)) * (Fin 1 / Fin 2))) * (Fin 1
      / Fin 6)"

definition rk4_dqNew ::
  "dbl \<Rightarrow> dbl \<Rightarrow> dbl \<Rightarrow> dbl \<Rightarrow> dbl \<Rightarrow> dbl \<Rightarrow> dbl \<Rightarrow> dbl \<Rightarrow> dbl \<Rightarrow> dbl" where
  "rk4_dqNew g h k m r0 r dr q dq =
     dq - h * (g * dbl_cos (q + dq * h * (Fin 1 / Fin 2)) + (dq - h * (dq * dr * Fin 2 + g *
      dbl_cos q) * (Fin 1 / Fin 2) / r) * (dr * Fin 2 - h * (- (dq * dq) * r + g * dbl_sin q + k *
      (r - r0) / m))) * (Fin 1 / Fin 3) / (r + dr * h * (Fin 1 / Fin 2)) - h * (g * dbl_cos (q + h
      * (dq - h * (dq * dr * Fin 2 + g * dbl_cos q) * (Fin 1 / Fin 2) / r) * (Fin 1 / Fin 2)) + (dq
      - h * (g * dbl_cos (q + dq * h * (Fin 1 / Fin 2)) + (dq - h * (dq * dr * Fin 2 + g * dbl_cos
      q) * (Fin 1 / Fin 2) / r) * (dr * Fin 2 - h * (- (dq * dq) * r + g * dbl_sin q + k * (r - r0)
      / m))) * (Fin 1 / Fin 2) / (r + dr * h * (Fin 1 / Fin 2))) * (dr * Fin 2 - h * (g * dbl_sin
      (q + dq * h * (Fin 1 / Fin 2)) - dbl_sq (dq - h * (dq * dr * Fin 2 + g * dbl_cos q) * (Fin 1
      / Fin 2) / r) * (r + dr * h * (Fin 1 / Fin 2)) + k * (r - r0 + dr * h * (Fin 1 / Fin 2)) /
      m))) * (Fin 1 / Fin 3) / (r + h * (dr - h * (- (dq * dq) * r + g * dbl_sin q + k * (r - r0) /
      m) * (Fin 1 / Fin 2)) * (Fin 1 / Fin 2)) - h * (dq * dr * Fin 2 + g * dbl_cos q) * (Fin 1 /
      Fin 6) / r - h * ((dq - h * (g * dbl_cos (q + h * (dq - h * (dq * dr * Fin 2 + g * dbl_cos q)
      * (Fin 1 / Fin 2) / r) * (Fin 1 / Fin 2)) + (dq - h * (g * dbl_cos (q + dq * h * (Fin 1 / Fin
      2)) + (dq - h * (dq * dr * Fin 2 + g * dbl_cos q) * (Fin 1 / Fin 2) / r) * (dr * Fin 2 - h *
      (- (dq * dq) * r + g * dbl_sin q + k * (r - r0) / m))) * (Fin 1 / Fin 2) / (r + dr * h * (Fin
      1 / Fin 2))) * (dr * Fin 2 - h * (g * dbl_sin (q + dq * h * (Fin 1 / Fin 2)) - dbl_sq (dq - h
      * (dq * dr * Fin 2 + g * dbl_cos q) * (Fin 1 / Fin 2) / r) * (r + dr * h * (Fin 1 / Fin 2)) +
      k * (r - r0 + dr * h * (Fin 1 / Fin 2)) / m))) / (r + h * (dr - h * (- (dq * dq) * r + g *
      dbl_sin q + k * (r - r0) / m) * (Fin 1 / Fin 2)) * (Fin 1 / Fin 2))) * (dr * Fin 2 - h * (g *
      dbl_sin (q + h * (dq - h * (dq * dr * Fin 2 + g * dbl_cos q) * (Fin 1 / Fin 2) / r) * (Fin 1
      / Fin 2)) - dbl_sq (dq - h * (g * dbl_cos (q + dq * h * (Fin 1 / Fin 2)) + (dq - h * (dq * dr
      * Fin 2 + g * dbl_cos q) * (Fin 1 / Fin 2) / r) * (dr * Fin 2 - h * (- (dq * dq) * r + g *
      dbl_sin q + k * (r - r0) / m))) * (Fin 1 / Fin 2) / (r + dr * h * (Fin 1 / Fin 2))) * (r + h
      * (dr - h * (- (dq * dq) * r + g * dbl_sin q + k * (r - r0) / m) * (Fin 1 / Fin 2)) * (Fin 1
      / Fin 2)) + k * (r - r0 + h * (dr - h * (- (dq * dq) * r + g * dbl_sin q + k * (r - r0) / m)
      * (Fin 1 / Fin 2)) * (Fin 1 / Fin 2)) / m) * Fin 2) + g * dbl_cos (q + h * (dq - h * (g *
      dbl_cos (q + dq * h * (Fin 1 / Fin 2)) + (dq - h * (dq * dr * Fin 2 + g * dbl_cos q) * (Fin 1
      / Fin 2) / r) * (dr * Fin 2 - h * (- (dq * dq) * r + g * dbl_sin q + k * (r - r0) / m))) *
      (Fin 1 / Fin 2) / (r + dr * h * (Fin 1 / Fin 2))))) * (Fin 1 / Fin 6) / (r + h * (dr - h * (g
      * dbl_sin (q + dq * h * (Fin 1 / Fin 2)) - dbl_sq (dq - h * (dq * dr * Fin 2 + g * dbl_cos q)
      * (Fin 1 / Fin 2) / r) * (r + dr * h * (Fin 1 / Fin 2)) + k * (r - r0 + dr * h * (Fin 1 / Fin
      2)) / m) * (Fin 1 / Fin 2)))"


definition advance_with ::
  "(dbl \<Rightarrow> dbl \<Rightarrow> dbl \<Rightarrow> dbl \<Rightarrow> dbl \<times> dbl \<times> dbl \<times> dbl) \<Rightarrow> ASCSlipModel \<Rightarrow> SlipState \<Rightarrow> SlipState" where
  "advance_with step c slipState =
     (let r = ss_r slipState; dr = ss_dr slipState; q = ss_q slipState; dq = ss_dq slipState
      in if sm_r0 c < r then slipState\<lparr>isFlight := True, isStance := False\<rparr>
         else let slipState = slipState\<lparr>isFlight := False, isStance := True\<rparr>;
                  (rNew, drNew, qNew, dqNew) = step r dr q dq
              in slipState\<lparr>ss_r := rNew, ss_dr := drNew, ss_q := qNew, ss_dq := dqNew\<rparr>)"

definition advanceRK4 :: "ASCSlipModel \<Rightarrow> SlipState \<Rightarrow> SlipState" where
  "advanceRK4 c slipState =
     (let h = of_int_dbl CONTROLLER_LOOP_PERIOD_NS / of_int_dbl SECOND_IN_NANOSECONDS;
          g = Fin G_ACC; k = sm_k c; m = sm_m c; r0 = sm_r0 c
      in advance_with (\<lambda>r dr q dq. (rk4_rNew g h k m r0 r dr q dq, rk4_drNew g h k m r0 r dr q dq,
           rk4_qNew g h k m r0 r dr q dq, rk4_dqNew g h k m r0 r dr q dq)) c slipState)"

definition rk5_rNew ::
  "dbl \<Rightarrow> dbl \<Rightarrow> dbl \<Rightarrow> dbl \<Rightarrow> dbl \<Rightarrow> dbl \<Rightarrow> dbl \<Rightarrow> dbl \<Rightarrow> dbl \<Rightarrow> dbl" where
  "rk5_rNew g h k m r0 r dr q dq =
     r + dr * h * (Fin 23 / Fin 192) + h * (dr - h * (- (dq * dq) * r + g * dbl_sin q + k * (r -
      r0) / m) * (Fin 1 / Fin 3)) * (Fin 125 / Fin 192) - h * (- dr + h * (- (r + dr * h * (Fin 4 /
      Fin 25) + h * (dr - h * (- (dq * dq) * r + g * dbl_sin q + k * (r - r0) / m) * (Fin 1 / Fin
      3)) * (Fin 6 / Fin 25)) * dbl_sq (- dq + h * (g * dbl_cos (q + dq * h * (Fin 1 / Fin 3)) +
      (dq - h * (dq * dr * Fin 2 + g * dbl_cos q) * (Fin 1 / Fin 3) / r) * (dr * Fin 2 - h * (- (dq
      * dq) * r + g * dbl_sin q + k * (r - r0) / m) * (Fin 2 / Fin 3))) * (Fin 6 / Fin 25) / (r +
      dr * h * (Fin 1 / Fin 3)) + h * (dq * dr * Fin 2 + g * dbl_cos q) * (Fin 4 / Fin 25) / r) + g
      * dbl_sin (q + dq * h * (Fin 4 / Fin 25) + h * (dq - h * (dq * dr * Fin 2 + g * dbl_cos q) *
      (Fin 1 / Fin 3) / r) * (Fin 6 / Fin 25)) + k * (r - r0 + dr * h * (Fin 4 / Fin 25) + h * (dr
      - h * (- (dq * dq) * r + g * dbl_sin q + k * (r - r0) / m) * (Fin 1 / Fin 3)) * (Fin 6 / Fin
      25)) / m) * (Fin 2 / Fin 15) - h * (- g * dbl_sin (q + dq * h * (Fin 1 / Fin 4) - h * (dq - h
      * (dq * dr * Fin 2 + g * dbl_cos q) * (Fin 1 / Fin 3) / r) * Fin 3 - h * (- dq + h * (g *
      dbl_cos (q + dq * h * (Fin 1 / Fin 3)) + (dq - h * (dq * dr * Fin 2 + g * dbl_cos q) * (Fin 1
      / Fin 3) / r) * (dr * Fin 2 - h * (- (dq * dq) * r + g * dbl_sin q + k * (r - r0) / m) * (Fin
      2 / Fin 3))) * (Fin 6 / Fin 25) / (r + dr * h * (Fin 1 / Fin 3)) + h * (dq * dr * Fin 2 + g *
      dbl_cos q) * (Fin 4 / Fin 25) / r) * (Fin 15 / Fin 4)) + dbl_sq (dq + h * (g * dbl_cos (q +
      dq * h * (Fin 1 / Fin 3)) + (dq - h * (dq * dr * Fin 2 + g * dbl_cos q) * (Fin 1 / Fin 3) /
      r) * (dr * Fin 2 - h * (- (dq * dq) * r + g * dbl_sin q + k * (r - r0) / m) * (Fin 2 / Fin
      3))) * Fin 3 / (r + dr * h * (Fin 1 / Fin 3)) - h * ((- dq + h * (g * dbl_cos (q + dq * h *
      (Fin 1 / Fin 3)) + (dq - h * (dq * dr * Fin 2 + g * dbl_cos q) * (Fin 1 / Fin 3) / r) * (dr *
      Fin 2 - h * (- (dq * dq) * r + g * dbl_sin q + k * (r - r0) / m) * (Fin 2 / Fin 3))) * (Fin 6
      / Fin 25) / (r + dr * h * (Fin 1 / Fin 3)) + h * (dq * dr * Fin 2 + g * dbl_cos q) * (Fin 4 /
      Fin 25) / r) * (dr * - Fin 2 + h * (- (dq * dq) * r + g * dbl_sin q + k * (r - r0) / m) *
      (Fin 8 / Fin 25) + h * (g * dbl_sin (q + dq * h * (Fin 1 / Fin 3)) - dbl_sq (dq - h * (dq *
      dr * Fin 2 + g * dbl_cos q) * (Fin 1 / Fin 3) / r) * (r + dr * h * (Fin 1 / Fin 3)) + k * (r
      - r0 + dr * h * (Fin 1 / Fin 3)) / m) * (Fin 12 / Fin 25)) + g * dbl_cos (q + dq * h * (Fin 4
      / Fin 25) + h * (dq - h * (dq * dr * Fin 2 + g * dbl_cos q) * (Fin 1 / Fin 3) / r) * (Fin 6 /
      Fin 25))) * (Fin 15 / Fin 4) / (r + dr * h * (Fin 4 / Fin 25) + h * (dr - h * (- (dq * dq) *
      r + g * dbl_sin q + k * (r - r0) / m) * (Fin 1 / Fin 3)) * (Fin 6 / Fin 25)) - h * (dq * dr *
      Fin 2 + g * dbl_cos q) * (Fin 1 / Fin 4) / r) * (r + dr * h * (Fin 1 / Fin 4) - h * (dr - h *
      (- (dq * dq) * r + g * dbl_sin q + k * (r - r0) / m) * (Fin 1 / Fin 3)) * Fin 3 - h * (- dr +
      h * (- (dq * dq) * r + g * dbl_sin q + k * (r - r0) / m) * (Fin 4 / Fin 25) + h * (g *
      dbl_sin (q + dq * h * (Fin 1 / Fin 3)) - dbl_sq (dq - h * (dq * dr * Fin 2 + g * dbl_cos q) *
      (Fin 1 / Fin 3) / r) * (r + dr * h * (Fin 1 / Fin 3)) + k * (r - r0 + dr * h * (Fin 1 / Fin
      3)) / m) * (Fin 6 / Fin 25)) * (Fin 15 / Fin 4)) + k * (- r + r0 - dr * h * (Fin 1 / Fin 4) +
      h * (dr - h * (- (dq * dq) * r + g * dbl_sin q + k * (r - r0) / m) * (Fin 1 / Fin 3)) * Fin 3
      + h * (- dr + h * (- (dq * dq) * r + g * dbl_sin q + k * (r - r0) / m) * (Fin 4 / Fin 25) + h
      * (g * dbl_sin (q + dq * h * (Fin 1 / Fin 3)) - dbl_sq (dq - h * (dq * dr * Fin 2 + g *
      dbl_cos q) * (Fin 1 / Fin 3) / r) * (r + dr * h * (Fin 1 / Fin 3)) + k * (r - r0 + dr * h *
      (Fin 1 / Fin 3)) / m) * (Fin 6 / Fin 25)) * (Fin 15 / Fin 4)) / m) * (Fin 8 / Fin 75) + h *
      (- (dq * dq) * r + g * dbl_sin q + k * (r - r0) / m) * (Fin 2 / Fin 25) + h * (g * dbl_sin (q
      + dq * h * (Fin 1 / Fin 3)) - dbl_sq (dq - h * (dq * dr * Fin 2 + g * dbl_cos q) * (Fin 1 /
      Fin 3) / r) * (r + dr * h * (Fin 1 / Fin 3)) + k * (r - r0 + dr * h * (Fin 1 / Fin 3)) / m) *
      (Fin 12 / Fin 25)) * (Fin 125 / Fin 192) - h * (dr + h * (- (r + dr * h * (Fin 4 / Fin 25) +
      h * (dr - h * (- (dq * dq) * r + g * dbl_sin q + k * (r - r0) / m) * (Fin 1 / Fin 3)) * (Fin
      6 / Fin 25)) * dbl_sq (- dq + h * (g * dbl_cos (q + dq * h * (Fin 1 / Fin 3)) + (dq - h * (dq
      * dr * Fin 2 + g * dbl_cos q) * (Fin 1 / Fin 3) / r) * (dr * Fin 2 - h * (- (dq * dq) * r + g
      * dbl_sin q + k * (r - r0) / m) * (Fin 2 / Fin 3))) * (Fin 6 / Fin 25) / (r + dr * h * (Fin 1
      / Fin 3)) + h * (dq * dr * Fin 2 + g * dbl_cos q) * (Fin 4 / Fin 25) / r) + g * dbl_sin (q +
      dq * h * (Fin 4 / Fin 25) + h * (dq - h * (dq * dr * Fin 2 + g * dbl_cos q) * (Fin 1 / Fin 3)
      / r) * (Fin 6 / Fin 25)) + k * (r - r0 + dr * h * (Fin 4 / Fin 25) + h * (dr - h * (- (dq *
      dq) * r + g * dbl_sin q + k * (r - r0) / m) * (Fin 1 / Fin 3)) * (Fin 6 / Fin 25)) / m) *
      (Fin 50 / Fin 81) + h * (- g * dbl_sin (q + dq * h * (Fin 1 / Fin 4) - h * (dq - h * (dq * dr
      * Fin 2 + g * dbl_cos q) * (Fin 1 / Fin 3) / r) * Fin 3 - h * (- dq + h * (g * dbl_cos (q +
      dq * h * (Fin 1 / Fin 3)) + (dq - h * (dq * dr * Fin 2 + g * dbl_cos q) * (Fin 1 / Fin 3) /
      r) * (dr * Fin 2 - h * (- (dq * dq) * r + g * dbl_sin q + k * (r - r0) / m) * (Fin 2 / Fin
      3))) * (Fin 6 / Fin 25) / (r + dr * h * (Fin 1 / Fin 3)) + h * (dq * dr * Fin 2 + g * dbl_cos
      q) * (Fin 4 / Fin 25) / r) * (Fin 15 / Fin 4)) + dbl_sq (dq + h * (g * dbl_cos (q + dq * h *
      (Fin 1 / Fin 3)) + (dq - h * (dq * dr * Fin 2 + g * dbl_cos q) * (Fin 1 / Fin 3) / r) * (dr *
      Fin 2 - h * (- (dq * dq) * r + g * dbl_sin q + k * (r - r0) / m) * (Fin 2 / Fin 3))) * Fin 3
      / (r + dr * h * (Fin 1 / Fin 3)) - h * ((- dq + h * (g * dbl_cos (q + dq * h * (Fin 1 / Fin
      3)) + (dq - h * (dq * dr * Fin 2 + g * dbl_cos q) * (Fin 1 / Fin 3) / r) * (dr * Fin 2 - h *
      (- (dq * dq) * r + g * dbl_sin q + k * (r - r0) / m) * (Fin 2 / Fin 3))) * (Fin 6 / Fin 25) /
      (r + dr * h * (Fin 1 / Fin 3)) + h * (dq * dr * Fin 2 + g * dbl_cos q) * (Fin 4 / Fin 25) /
      r) * (dr * - Fin 2 + h * (- (dq * dq) * r + g * dbl_sin q + k * (r - r0) / m) * (Fin 8 / Fin
      25) + h * (g * dbl_sin (q + dq * h * (Fin 1 / Fin 3)) - dbl_sq (dq - h * (dq * dr * Fin 2 + g
      * dbl_cos q) * (Fin 1 / Fin 3) / r) * (r + dr * h * (Fin 1 / Fin 3)) + k * (r - r0 + dr * h *
      (Fin 1 / Fin 3)) / m) * (Fin 12 / Fin 25)) + g * dbl_cos (q + dq * h * (Fin 4 / Fin 25) + h *
      (dq - h * (dq * dr * Fin 2 + g * dbl_cos q) * (Fin 1 / Fin 3) / r) * (Fin 6 / Fin 25))) *
      (Fin 15 / Fin 4) / (r + dr * h * (Fin 4 / Fin 25) + h * (dr - h * (- (dq * dq) * r + g *
      dbl_sin q + k * (r - r0) / m) * (Fin 1 / Fin 3)) * (Fin 6 / Fin 25)) - h * (dq * dr * Fin 2 +
      g * dbl_cos q) * (Fin 1 / Fin 4) / r) * (r + dr * h * (Fin 1 / Fin 4) - h * (dr - h * (- (dq
      * dq) * r + g * dbl_sin q + k * (r - r0) / m) * (Fin 1 / Fin 3)) * Fin 3 - h * (- dr + h * (-
      (dq * dq) * r + g * dbl_sin q + k * (r - r0) / m) * (Fin 4 / Fin 25) + h * (g * dbl_sin (q +
      dq * h * (Fin 1 / Fin 3)) - dbl_sq (dq - h * (dq * dr * Fin 2 + g * dbl_cos q) * (Fin 1 / Fin
      3) / r) * (r + dr * h * (Fin 1 / Fin 3)) + k * (r - r0 + dr * h * (Fin 1 / Fin 3)) / m) *
      (Fin 6 / Fin 25)) * (Fin 15 / Fin 4)) + k * (- r + r0 - dr * h * (Fin 1 / Fin 4) + h * (dr -
      h * (- (dq * dq) * r + g * dbl_sin q + k * (r - r0) / m) * (Fin 1 / Fin 3)) * Fin 3 + h * (-
      dr + h * (- (dq * dq) * r + g * dbl_sin q + k * (r - r0) / m) * (Fin 4 / Fin 25) + h * (g *
      dbl_sin (q + dq * h * (Fin 1 / Fin 3)) - dbl_sq (dq - h * (dq * dr * Fin 2 + g * dbl_cos q) *
      (Fin 1 / Fin 3) / r) * (r + dr * h * (Fin 1 / Fin 3)) + k * (r - r0 + dr * h * (Fin 1 / Fin
      3)) / m) * (Fin 6 / Fin 25)) * (Fin 15 / Fin 4)) / m) * (Fin 8 / Fin 81) - h * (- (dq * dq) *
      r + g * dbl_sin q + k * (r - r0) / m) * (Fin 2 / Fin 27) - h * (g * dbl_sin (q + dq * h *
      (Fin 1 / Fin 3)) - dbl_sq (dq - h * (dq * dr * Fin 2 + g * dbl_cos q) * (Fin 1 / Fin 3) / r)
      * (r + dr * h * (Fin 1 / Fin 3)) + k * (r - r0 + dr * h * (Fin 1 / Fin 3)) / m) * (Fin 10 /
      Fin 9)) * (Fin 27 / Fin 64)"

definition rk5_drNew ::
  "dbl \<Rightarrow> dbl \<Rightarrow> dbl \<Rightarrow> dbl \<Rightarrow> dbl \<Rightarrow> dbl \<Rightarrow> dbl \<Rightarrow> dbl \<Rightarrow> dbl \<Rightarrow> dbl" where
  "rk5_drNew g h k m r0 r dr q dq =
     dr - h * (- (dq * dq) * r + g * dbl_sin q + k * (r - r0) / m) * (Fin 23 / Fin 192) - h * (g *
      dbl_sin (q + dq * h * (Fin 2 / Fin 25) + h * (dq - h * (dq * dr * Fin 2 + g * dbl_cos q) *
      (Fin 1 / Fin 3) / r) * (Fin 12 / Fin 25) - h * (- dq + h * (g * dbl_cos (q + dq * h * (Fin 1
      / Fin 3)) + (dq - h * (dq * dr * Fin 2 + g * dbl_cos q) * (Fin 1 / Fin 3) / r) * (dr * Fin 2
      - h * (- (dq * dq) * r + g * dbl_sin q + k * (r - r0) / m) * (Fin 2 / Fin 3))) * (Fin 6 / Fin
      25) / (r + dr * h * (Fin 1 / Fin 3)) + h * (dq * dr * Fin 2 + g * dbl_cos q) * (Fin 4 / Fin
      25) / r) * (Fin 2 / Fin 15) + h * (dq + h * (g * dbl_cos (q + dq * h * (Fin 1 / Fin 3)) + (dq
      - h * (dq * dr * Fin 2 + g * dbl_cos q) * (Fin 1 / Fin 3) / r) * (dr * Fin 2 - h * (- (dq *
      dq) * r + g * dbl_sin q + k * (r - r0) / m) * (Fin 2 / Fin 3))) * Fin 3 / (r + dr * h * (Fin
      1 / Fin 3)) - h * ((- dq + h * (g * dbl_cos (q + dq * h * (Fin 1 / Fin 3)) + (dq - h * (dq *
      dr * Fin 2 + g * dbl_cos q) * (Fin 1 / Fin 3) / r) * (dr * Fin 2 - h * (- (dq * dq) * r + g *
      dbl_sin q + k * (r - r0) / m) * (Fin 2 / Fin 3))) * (Fin 6 / Fin 25) / (r + dr * h * (Fin 1 /
      Fin 3)) + h * (dq * dr * Fin 2 + g * dbl_cos q) * (Fin 4 / Fin 25) / r) * (dr * - Fin 2 + h *
      (- (dq * dq) * r + g * dbl_sin q + k * (r - r0) / m) * (Fin 8 / Fin 25) + h * (g * dbl_sin (q
      + dq * h * (Fin 1 / Fin 3)) - dbl_sq (dq - h * (dq * dr * Fin 2 + g * dbl_cos q) * (Fin 1 /
      Fin 3) / r) * (r + dr * h * (Fin 1 / Fin 3)) + k * (r - r0 + dr * h * (Fin 1 / Fin 3)) / m) *
      (Fin 12 / Fin 25)) + g * dbl_cos (q + dq * h * (Fin 4 / Fin 25) + h * (dq - h * (dq * dr *
      Fin 2 + g * dbl_cos q) * (Fin 1 / Fin 3) / r) * (Fin 6 / Fin 25))) * (Fin 15 / Fin 4) / (r +
      dr * h * (Fin 4 / Fin 25) + h * (dr - h * (- (dq * dq) * r + g * dbl_sin q + k * (r - r0) /
      m) * (Fin 1 / Fin 3)) * (Fin 6 / Fin 25)) - h * (dq * dr * Fin 2 + g * dbl_cos q) * (Fin 1 /
      Fin 4) / r) * (Fin 8 / Fin 75)) - (r + dr * h * (Fin 2 / Fin 25) + h * (dr - h * (- (dq * dq)
      * r + g * dbl_sin q + k * (r - r0) / m) * (Fin 1 / Fin 3)) * (Fin 12 / Fin 25) + h * (dr - h
      * (- (r + dr * h * (Fin 4 / Fin 25) + h * (dr - h * (- (dq * dq) * r + g * dbl_sin q + k * (r
      - r0) / m) * (Fin 1 / Fin 3)) * (Fin 6 / Fin 25)) * dbl_sq (- dq + h * (g * dbl_cos (q + dq *
      h * (Fin 1 / Fin 3)) + (dq - h * (dq * dr * Fin 2 + g * dbl_cos q) * (Fin 1 / Fin 3) / r) *
      (dr * Fin 2 - h * (- (dq * dq) * r + g * dbl_sin q + k * (r - r0) / m) * (Fin 2 / Fin 3))) *
      (Fin 6 / Fin 25) / (r + dr * h * (Fin 1 / Fin 3)) + h * (dq * dr * Fin 2 + g * dbl_cos q) *
      (Fin 4 / Fin 25) / r) + g * dbl_sin (q + dq * h * (Fin 4 / Fin 25) + h * (dq - h * (dq * dr *
      Fin 2 + g * dbl_cos q) * (Fin 1 / Fin 3) / r) * (Fin 6 / Fin 25)) + k * (r - r0 + dr * h *
      (Fin 4 / Fin 25) + h * (dr - h * (- (dq * dq) * r + g * dbl_sin q + k * (r - r0) / m) * (Fin
      1 / Fin 3)) * (Fin 6 / Fin 25)) / m) * (Fin 15 / Fin 4) - h * (- (dq * dq) * r + g * dbl_sin
      q + k * (r - r0) / m) * (Fin 1 / Fin 4) + h * (g * dbl_sin (q + dq * h * (Fin 1 / Fin 3)) -
      dbl_sq (dq - h * (dq * dr * Fin 2 + g * dbl_cos q) * (Fin 1 / Fin 3) / r) * (r + dr * h *
      (Fin 1 / Fin 3)) + k * (r - r0 + dr * h * (Fin 1 / Fin 3)) / m) * Fin 3) * (Fin 8 / Fin 75) -
      h * (- dr + h * (- (dq * dq) * r + g * dbl_sin q + k * (r - r0) / m) * (Fin 4 / Fin 25) + h *
      (g * dbl_sin (q + dq * h * (Fin 1 / Fin 3)) - dbl_sq (dq - h * (dq * dr * Fin 2 + g * dbl_cos
      q) * (Fin 1 / Fin 3) / r) * (r + dr * h * (Fin 1 / Fin 3)) + k * (r - r0 + dr * h * (Fin 1 /
      Fin 3)) / m) * (Fin 6 / Fin 25)) * (Fin 2 / Fin 15)) * dbl_sq (- dq + h * (g * dbl_cos (q +
      dq * h * (Fin 1 / Fin 4) - h * (dq - h * (dq * dr * Fin 2 + g * dbl_cos q) * (Fin 1 / Fin 3)
      / r) * Fin 3 - h * (- dq + h * (g * dbl_cos (q + dq * h * (Fin 1 / Fin 3)) + (dq - h * (dq *
      dr * Fin 2 + g * dbl_cos q) * (Fin 1 / Fin 3) / r) * (dr * Fin 2 - h * (- (dq * dq) * r + g *
      dbl_sin q + k * (r - r0) / m) * (Fin 2 / Fin 3))) * (Fin 6 / Fin 25) / (r + dr * h * (Fin 1 /
      Fin 3)) + h * (dq * dr * Fin 2 + g * dbl_cos q) * (Fin 4 / Fin 25) / r) * (Fin 15 / Fin 4)) +
      (dr * Fin 2 - h * (- (r + dr * h * (Fin 4 / Fin 25) + h * (dr - h * (- (dq * dq) * r + g *
      dbl_sin q + k * (r - r0) / m) * (Fin 1 / Fin 3)) * (Fin 6 / Fin 25)) * dbl_sq (- dq + h * (g
      * dbl_cos (q + dq * h * (Fin 1 / Fin 3)) + (dq - h * (dq * dr * Fin 2 + g * dbl_cos q) * (Fin
      1 / Fin 3) / r) * (dr * Fin 2 - h * (- (dq * dq) * r + g * dbl_sin q + k * (r - r0) / m) *
      (Fin 2 / Fin 3))) * (Fin 6 / Fin 25) / (r + dr * h * (Fin 1 / Fin 3)) + h * (dq * dr * Fin 2
      + g * dbl_cos q) * (Fin 4 / Fin 25) / r) + g * dbl_sin (q + dq * h * (Fin 4 / Fin 25) + h *
      (dq - h * (dq * dr * Fin 2 + g * dbl_cos q) * (Fin 1 / Fin 3) / r) * (Fin 6 / Fin 25)) + k *
      (r - r0 + dr * h * (Fin 4 / Fin 25) + h * (dr - h * (- (dq * dq) * r + g * dbl_sin q + k * (r
      - r0) / m) * (Fin 1 / Fin 3)) * (Fin 6 / Fin 25)) / m) * (Fin 15 / Fin 2) - h * (- (dq * dq)
      * r + g * dbl_sin q + k * (r - r0) / m) * (Fin 1 / Fin 2) + h * (g * dbl_sin (q + dq * h *
      (Fin 1 / Fin 3)) - dbl_sq (dq - h * (dq * dr * Fin 2 + g * dbl_cos q) * (Fin 1 / Fin 3) / r)
      * (r + dr * h * (Fin 1 / Fin 3)) + k * (r - r0 + dr * h * (Fin 1 / Fin 3)) / m) * Fin 6) *
      (dq + h * (g * dbl_cos (q + dq * h * (Fin 1 / Fin 3)) + (dq - h * (dq * dr * Fin 2 + g *
      dbl_cos q) * (Fin 1 / Fin 3) / r) * (dr * Fin 2 - h * (- (dq * dq) * r + g * dbl_sin q + k *
      (r - r0) / m) * (Fin 2 / Fin 3))) * Fin 3 / (r + dr * h * (Fin 1 / Fin 3)) - h * ((- dq + h *
      (g * dbl_cos (q + dq * h * (Fin 1 / Fin 3)) + (dq - h * (dq * dr * Fin 2 + g * dbl_cos q) *
      (Fin 1 / Fin 3) / r) * (dr * Fin 2 - h * (- (dq * dq) * r + g * dbl_sin q + k * (r - r0) / m)
      * (Fin 2 / Fin 3))) * (Fin 6 / Fin 25) / (r + dr * h * (Fin 1 / Fin 3)) + h * (dq * dr * Fin
      2 + g * dbl_cos q) * (Fin 4 / Fin 25) / r) * (dr * - Fin 2 + h * (- (dq * dq) * r + g *
      dbl_sin q + k * (r - r0) / m) * (Fin 8 / Fin 25) + h * (g * dbl_sin (q + dq * h * (Fin 1 /
      Fin 3)) - dbl_sq (dq - h * (dq * dr * Fin 2 + g * dbl_cos q) * (Fin 1 / Fin 3) / r) * (r + dr
      * h * (Fin 1 / Fin 3)) + k * (r - r0 + dr * h * (Fin 1 / Fin 3)) / m) * (Fin 12 / Fin 25)) +
      g * dbl_cos (q + dq * h * (Fin 4 / Fin 25) + h * (dq - h * (dq * dr * Fin 2 + g * dbl_cos q)
      * (Fin 1 / Fin 3) / r) * (Fin 6 / Fin 25))) * (Fin 15 / Fin 4) / (r + dr * h * (Fin 4 / Fin
      25) + h * (dr - h * (- (dq * dq) * r + g * dbl_sin q + k * (r - r0) / m) * (Fin 1 / Fin 3)) *
      (Fin 6 / Fin 25)) - h * (dq * dr * Fin 2 + g * dbl_cos q) * (Fin 1 / Fin 4) / r)) * (Fin 8 /
      Fin 75) / (r + dr * h * (Fin 1 / Fin 4) - h * (dr - h * (- (dq * dq) * r + g * dbl_sin q + k
      * (r - r0) / m) * (Fin 1 / Fin 3)) * Fin 3 - h * (- dr + h * (- (dq * dq) * r + g * dbl_sin q
      + k * (r - r0) / m) * (Fin 4 / Fin 25) + h * (g * dbl_sin (q + dq * h * (Fin 1 / Fin 3)) -
      dbl_sq (dq - h * (dq * dr * Fin 2 + g * dbl_cos q) * (Fin 1 / Fin 3) / r) * (r + dr * h *
      (Fin 1 / Fin 3)) + k * (r - r0 + dr * h * (Fin 1 / Fin 3)) / m) * (Fin 6 / Fin 25)) * (Fin 15
      / Fin 4)) + h * (g * dbl_cos (q + dq * h * (Fin 1 / Fin 3)) + (dq - h * (dq * dr * Fin 2 + g
      * dbl_cos q) * (Fin 1 / Fin 3) / r) * (dr * Fin 2 - h * (- (dq * dq) * r + g * dbl_sin q + k
      * (r - r0) / m) * (Fin 2 / Fin 3))) * (Fin 12 / Fin 25) / (r + dr * h * (Fin 1 / Fin 3)) + h
      * ((- dq + h * (g * dbl_cos (q + dq * h * (Fin 1 / Fin 3)) + (dq - h * (dq * dr * Fin 2 + g *
      dbl_cos q) * (Fin 1 / Fin 3) / r) * (dr * Fin 2 - h * (- (dq * dq) * r + g * dbl_sin q + k *
      (r - r0) / m) * (Fin 2 / Fin 3))) * (Fin 6 / Fin 25) / (r + dr * h * (Fin 1 / Fin 3)) + h *
      (dq * dr * Fin 2 + g * dbl_cos q) * (Fin 4 / Fin 25) / r) * (dr * - Fin 2 + h * (- (dq * dq)
      * r + g * dbl_sin q + k * (r - r0) / m) * (Fin 8 / Fin 25) + h * (g * dbl_sin (q + dq * h *
      (Fin 1 / Fin 3)) - dbl_sq (dq - h * (dq * dr * Fin 2 + g * dbl_cos q) * (Fin 1 / Fin 3) / r)
      * (r + dr * h * (Fin 1 / Fin 3)) + k * (r - r0 + dr * h * (Fin 1 / Fin 3)) / m) * (Fin 12 /
      Fin 25)) + g * dbl_cos (q + dq * h * (Fin 4 / Fin 25) + h * (dq - h * (dq * dr * Fin 2 + g *
      dbl_cos q) * (Fin 1 / Fin 3) / r) * (Fin 6 / Fin 25))) * (Fin 2 / Fin 15) / (r + dr * h *
      (Fin 4 / Fin 25) + h * (dr - h * (- (dq * dq) * r + g * dbl_sin q + k * (r - r0) / m) * (Fin
      1 / Fin 3)) * (Fin 6 / Fin 25)) + h * (dq * dr * Fin 2 + g * dbl_cos q) * (Fin 2 / Fin 25) /
      r) + k * (r - r0 + dr * h * (Fin 2 / Fin 25) + h * (dr - h * (- (dq * dq) * r + g * dbl_sin q
      + k * (r - r0) / m) * (Fin 1 / Fin 3)) * (Fin 12 / Fin 25) + h * (dr - h * (- (r + dr * h *
      (Fin 4 / Fin 25) + h * (dr - h * (- (dq * dq) * r + g * dbl_sin q + k * (r - r0) / m) * (Fin
      1 / Fin 3)) * (Fin 6 / Fin 25)) * dbl_sq (- dq + h * (g * dbl_cos (q + dq * h * (Fin 1 / Fin
      3)) + (dq - h * (dq * dr * Fin 2 + g * dbl_cos q) * (Fin 1 / Fin 3) / r) * (dr * Fin 2 - h *
      (- (dq * dq) * r + g * dbl_sin q + k * (r - r0) / m) * (Fin 2 / Fin 3))) * (Fin 6 / Fin 25) /
      (r + dr * h * (Fin 1 / Fin 3)) + h * (dq * dr * Fin 2 + g * dbl_cos q) * (Fin 4 / Fin 25) /
      r) + g * dbl_sin (q + dq * h * (Fin 4 / Fin 25) + h * (dq - h * (dq * dr * Fin 2 + g *
      dbl_cos q) * (Fin 1 / Fin 3) / r) * (Fin 6 / Fin 25)) + k * (r - r0 + dr * h * (Fin 4 / Fin
      25) + h * (dr - h * (- (dq * dq) * r + g * dbl_sin q + k * (r - r0) / m) * (Fin 1 / Fin 3)) *
      (Fin 6 / Fin 25)) / m) * (Fin 15 / Fin 4) - h * (- (dq * dq) * r + g * dbl_sin q + k * (r -
      r0) / m) * (Fin 1 / Fin 4) + h * (g * dbl_sin (q + dq * h * (Fin 1 / Fin 3)) - dbl_sq (dq - h
      * (dq * dr * Fin 2 + g * dbl_cos q) * (Fin 1 / Fin 3) / r) * (r + dr * h * (Fin 1 / Fin 3)) +
      k * (r - r0 + dr * h * (Fin 1 / Fin 3)) / m) * Fin 3) * (Fin 8 / Fin 75) - h * (- dr + h * (-
      (dq * dq) * r + g * dbl_sin q + k * (r - r0) / m) * (Fin 4 / Fin 25) + h * (g * dbl_sin (q +
      dq * h * (Fin 1 / Fin 3)) - dbl_sq (dq - h * (dq * dr * Fin 2 + g * dbl_cos q) * (Fin 1 / Fin
      3) / r) * (r + dr * h * (Fin 1 / Fin 3)) + k * (r - r0 + dr * h * (Fin 1 / Fin 3)) / m) *
      (Fin 6 / Fin 25)) * (Fin 2 / Fin 15)) / m) * (Fin 125 / Fin 192) + h * (g * dbl_sin (q + dq *
      h * (Fin 2 / Fin 27) + h * (dq - h * (dq * dr * Fin 2 + g * dbl_cos q) * (Fin 1 / Fin 3) / r)
      * (Fin 10 / Fin 9) + h * (- dq + h * (g * dbl_cos (q + dq * h * (Fin 1 / Fin 3)) + (dq - h *
      (dq * dr * Fin 2 + g * dbl_cos q) * (Fin 1 / Fin 3) / r) * (dr * Fin 2 - h * (- (dq * dq) * r
      + g * dbl_sin q + k * (r - r0) / m) * (Fin 2 / Fin 3))) * (Fin 6 / Fin 25) / (r + dr * h *
      (Fin 1 / Fin 3)) + h * (dq * dr * Fin 2 + g * dbl_cos q) * (Fin 4 / Fin 25) / r) * (Fin 50 /
      Fin 81) + h * (dq + h * (g * dbl_cos (q + dq * h * (Fin 1 / Fin 3)) + (dq - h * (dq * dr *
      Fin 2 + g * dbl_cos q) * (Fin 1 / Fin 3) / r) * (dr * Fin 2 - h * (- (dq * dq) * r + g *
      dbl_sin q + k * (r - r0) / m) * (Fin 2 / Fin 3))) * Fin 3 / (r + dr * h * (Fin 1 / Fin 3)) -
      h * ((- dq + h * (g * dbl_cos (q + dq * h * (Fin 1 / Fin 3)) + (dq - h * (dq * dr * Fin 2 + g
      * dbl_cos q) * (Fin 1 / Fin 3) / r) * (dr * Fin 2 - h * (- (dq * dq) * r + g * dbl_sin q + k
      * (r - r0) / m) * (Fin 2 / Fin 3))) * (Fin 6 / Fin 25) / (r + dr * h * (Fin 1 / Fin 3)) + h *
      (dq * dr * Fin 2 + g * dbl_cos q) * (Fin 4 / Fin 25) / r) * (dr * - Fin 2 + h * (- (dq * dq)
      * r + g * dbl_sin q + k * (r - r0) / m) * (Fin 8 / Fin 25) + h * (g * dbl_sin (q + dq * h *
      (Fin 1 / Fin 3)) - dbl_sq (dq - h * (dq * dr * Fin 2 + g * dbl_cos q) * (Fin 1 / Fin 3) / r)
      * (r + dr * h * (Fin 1 / Fin 3)) + k * (r - r0 + dr * h * (Fin 1 / Fin 3)) / m) * (Fin 12 /
      Fin 25)) + g * dbl_cos (q + dq * h * (Fin 4 / Fin 25) + h * (dq - h * (dq * dr * Fin 2 + g *
      dbl_cos q) * (Fin 1 / Fin 3) / r) * (Fin 6 / Fin 25))) * (Fin 15 / Fin 4) / (r + dr * h *
      (Fin 4 / Fin 25) + h * (dr - h * (- (dq * dq) * r + g * dbl_sin q + k * (r - r0) / m) * (Fin
      1 / Fin 3)) * (Fin 6 / Fin 25)) - h * (dq * dr * Fin 2 + g * dbl_cos q) * (Fin 1 / Fin 4) /
      r) * (Fin 8 / Fin 81)) - (r + dr * h * (Fin 2 / Fin 27) + h * (dr - h * (- (dq * dq) * r + g
      * dbl_sin q + k * (r - r0) / m) * (Fin 1 / Fin 3)) * (Fin 10 / Fin 9) + h * (dr - h * (- (r +
      dr * h * (Fin 4 / Fin 25) + h * (dr - h * (- (dq * dq) * r + g * dbl_sin q + k * (r - r0) /
      m) * (Fin 1 / Fin 3)) * (Fin 6 / Fin 25)) * dbl_sq (- dq + h * (g * dbl_cos (q + dq * h *
      (Fin 1 / Fin 3)) + (dq - h * (dq * dr * Fin 2 + g * dbl_cos q) * (Fin 1 / Fin 3) / r) * (dr *
      Fin 2 - h * (- (dq * dq) * r + g * dbl_sin q + k * (r - r0) / m) * (Fin 2 / Fin 3))) * (Fin 6
      / Fin 25) / (r + dr * h * (Fin 1 / Fin 3)) + h * (dq * dr * Fin 2 + g * dbl_cos q) * (Fin 4 /
      Fin 25) / r) + g * dbl_sin (q + dq * h * (Fin 4 / Fin 25) + h * (dq - h * (dq * dr * Fin 2 +
      g * dbl_cos q) * (Fin 1 / Fin 3) / r) * (Fin 6 / Fin 25)) + k * (r - r0 + dr * h * (Fin 4 /
      Fin 25) + h * (dr - h * (- (dq * dq) * r + g * dbl_sin q + k * (r - r0) / m) * (Fin 1 / Fin
      3)) * (Fin 6 / Fin 25)) / m) * (Fin 15 / Fin 4) - h * (- (dq * dq) * r + g * dbl_sin q + k *
      (r - r0) / m) * (Fin 1 / Fin 4) + h * (g * dbl_sin (q + dq * h * (Fin 1 / Fin 3)) - dbl_sq
      (dq - h * (dq * dr * Fin 2 + g * dbl_cos q) * (Fin 1 / Fin 3) / r) * (r + dr * h * (Fin 1 /
      Fin 3)) + k * (r - r0 + dr * h * (Fin 1 / Fin 3)) / m) * Fin 3) * (Fin 8 / Fin 81) + h * (-
      dr + h * (- (dq * dq) * r + g * dbl_sin q + k * (r - r0) / m) * (Fin 4 / Fin 25) + h * (g *
      dbl_sin (q + dq * h * (Fin 1 / Fin 3)) - dbl_sq (dq - h * (dq * dr * Fin 2 + g * dbl_cos q) *
      (Fin 1 / Fin 3) / r) * (r + dr * h * (Fin 1 / Fin 3)) + k * (r - r0 + dr * h * (Fin 1 / Fin
      3)) / m) * (Fin 6 / Fin 25)) * (Fin 50 / Fin 81)) * dbl_sq (- dq + h * (g * dbl_cos (q + dq *
      h * (Fin 1 / Fin 4) - h * (dq - h * (dq * dr * Fin 2 + g * dbl_cos q) * (Fin 1 / Fin 3) / r)
      * Fin 3 - h * (- dq + h * (g * dbl_cos (q + dq * h * (Fin 1 / Fin 3)) + (dq - h * (dq * dr *
      Fin 2 + g * dbl_cos q) * (Fin 1 / Fin 3) / r) * (dr * Fin 2 - h * (- (dq * dq) * r + g *
      dbl_sin q + k * (r - r0) / m) * (Fin 2 / Fin 3))) * (Fin 6 / Fin 25) / (r + dr * h * (Fin 1 /
      Fin 3)) + h * (dq * dr * Fin 2 + g * dbl_cos q) * (Fin 4 / Fin 25) / r) * (Fin 15 / Fin 4)) +
      (dr * Fin 2 - h * (- (r + dr * h * (Fin 4 / Fin 25) + h * (dr - h * (- (dq * dq) * r + g *
      dbl_sin q + k * (r - r0) / m) * (Fin 1 / Fin 3)) * (Fin 6 / Fin 25)) * dbl_sq (- dq + h * (g
      * dbl_cos (q + dq * h * (Fin 1 / Fin 3)) + (dq - h * (dq * dr * Fin 2 + g * dbl_cos q) * (Fin
      1 / Fin 3) / r) * (dr * Fin 2 - h * (- (dq * dq) * r + g * dbl_sin q + k * (r - r0) / m) *
      (Fin 2 / Fin 3))) * (Fin 6 / Fin 25) / (r + dr * h * (Fin 1 / Fin 3)) + h * (dq * dr * Fin 2
      + g * dbl_cos q) * (Fin 4 / Fin 25) / r) + g * dbl_sin (q + dq * h * (Fin 4 / Fin 25) + h *
      (dq - h * (dq * dr * Fin 2 + g * dbl_cos q) * (Fin 1 / Fin 3) / r) * (Fin 6 / Fin 25)) + k *
      (r - r0 + dr * h * (Fin 4 / Fin 25) + h * (dr - h * (- (dq * dq) * r + g * dbl_sin q + k * (r
      - r0) / m) * (Fin 1 / Fin 3)) * (Fin 6 / Fin 25)) / m) * (Fin 15 / Fin 2) - h * (- (dq * dq)
      * r + g * dbl_sin q + k * (r - r0) / m) * (Fin 1 / Fin 2) + h * (g * dbl_sin (q + dq * h *
      (Fin 1 / Fin 3)) - dbl_sq (dq - h * (dq * dr * Fin 2 + g * dbl_cos q) * (Fin 1 / Fin 3) / r)
      * (r + dr * h * (Fin 1 / Fin 3)) + k * (r - r0 + dr * h * (Fin 1 / Fin 3)) / m) * Fin 6) *
      (dq + h * (g * dbl_cos (q + dq * h * (Fin 1 / Fin 3)) + (dq - h * (dq * dr * Fin 2 + g *
      dbl_cos q) * (Fin 1 / Fin 3) / r) * (dr * Fin 2 - h * (- (dq * dq) * r + g * dbl_sin q + k *
      (r - r0) / m) * (Fin 2 / Fin 3))) * Fin 3 / (r + dr * h * (Fin 1 / Fin 3)) - h * ((- dq + h *
      (g * dbl_cos (q + dq * h * (Fin 1 / Fin 3)) + (dq - h * (dq * dr * Fin 2 + g * dbl_cos q) *
      (Fin 1 / Fin 3) / r) * (dr * Fin 2 - h * (- (dq * dq) * r + g * dbl_sin q + k * (r - r0) / m)
      * (Fin 2 / Fin 3))) * (Fin 6 / Fin 25) / (r + dr * h * (Fin 1 / Fin 3)) + h * (dq * dr * Fin
      2 + g * dbl_cos q) * (Fin 4 / Fin 25) / r) * (dr * - Fin 2 + h * (- (dq * dq) * r + g *
      dbl_sin q + k * (r - r0) / m) * (Fin 8 / Fin 25) + h * (g * dbl_sin (q + dq * h * (Fin 1 /
      Fin 3)) - dbl_sq (dq - h * (dq * dr * Fin 2 + g * dbl_cos q) * (Fin 1 / Fin 3) / r) * (r + dr
      * h * (Fin 1 / Fin 3)) + k * (r - r0 + dr * h * (Fin 1 / Fin 3)) / m) * (Fin 12 / Fin 25)) +
      g * dbl_cos (q + dq * h * (Fin 4 / Fin 25) + h * (dq - h * (dq * dr * Fin 2 + g * dbl_cos q)
      * (Fin 1 / Fin 3) / r) * (Fin 6 / Fin 25))) * (Fin 15 / Fin 4) / (r + dr * h * (Fin 4 / Fin
      25) + h * (dr - h * (- (dq * dq) * r + g * dbl_sin q + k * (r - r0) / m) * (Fin 1 / Fin 3)) *
      (Fin 6 / Fin 25)) - h * (dq * dr * Fin 2 + g * dbl_cos q) * (Fin 1 / Fin 4) / r)) * (Fin 8 /
      Fin 81) / (r + dr * h * (Fin 1 / Fin 4) - h * (dr - h * (- (dq * dq) * r + g * dbl_sin q + k
      * (r - r0) / m) * (Fin 1 / Fin 3)) * Fin 3 - h * (- dr + h * (- (dq * dq) * r + g * dbl_sin q
      + k * (r - r0) / m) * (Fin 4 / Fin 25) + h * (g * dbl_sin (q + dq * h * (Fin 1 / Fin 3)) -
      dbl_sq (dq - h * (dq * dr * Fin 2 + g * dbl_cos q) * (Fin 1 / Fin 3) / r) * (r + dr * h *
      (Fin 1 / Fin 3)) + k * (r - r0 + dr * h * (Fin 1 / Fin 3)) / m) * (Fin 6 / Fin 25)) * (Fin 15
      / Fin 4)) + h * (g * dbl_cos (q + dq * h * (Fin 1 / Fin 3)) + (dq - h * (dq * dr * Fin 2 + g
      * dbl_cos q) * (Fin 1 / Fin 3) / r) * (dr * Fin 2 - h * (- (dq * dq) * r + g * dbl_sin q + k
      * (r - r0) / m) * (Fin 2 / Fin 3))) * (Fin 10 / Fin 9) / (r + dr * h * (Fin 1 / Fin 3)) - h *
      ((- dq + h * (g * dbl_cos (q + dq * h * (Fin 1 / Fin 3)) + (dq - h * (dq * dr * Fin 2 + g *
      dbl_cos q) * (Fin 1 / Fin 3) / r) * (dr * Fin 2 - h * (- (dq * dq) * r + g * dbl_sin q + k *
      (r - r0) / m) * (Fin 2 / Fin 3))) * (Fin 6 / Fin 25) / (r + dr * h * (Fin 1 / Fin 3)) + h *
      (dq * dr * Fin 2 + g * dbl_cos q) * (Fin 4 / Fin 25) / r) * (dr * - Fin 2 + h * (- (dq * dq)
      * r + g * dbl_sin q + k * (r - r0) / m) * (Fin 8 / Fin 25) + h * (g * dbl_sin (q + dq * h *
      (Fin 1 / Fin 3)) - dbl_sq (dq - h * (dq * dr * Fin 2 + g * dbl_cos q) * (Fin 1 / Fin 3) / r)
      * (r + dr * h * (Fin 1 / Fin 3)) + k * (r - r0 + dr * h * (Fin 1 / Fin 3)) / m) * (Fin 12 /
      Fin 25)) + g * dbl_cos (q + dq * h * (Fin 4 / Fin 25) + h * (dq - h * (dq * dr * Fin 2 + g *
      dbl_cos q) * (Fin 1 / Fin 3) / r) * (Fin 6 / Fin 25))) * (Fin 50 / Fin 81) / (r + dr * h *
      (Fin 4 / Fin 25) + h * (dr - h * (- (dq * dq) * r + g * dbl_sin q + k * (r - r0) / m) * (Fin
      1 / Fin 3)) * (Fin 6 / Fin 25)) + h * (dq * dr * Fin 2 + g * dbl_cos q) * (Fin 2 / Fin 27) /
      r) + k * (r - r0 + dr * h * (Fin 2 / Fin 27) + h * (dr - h * (- (dq * dq) * r + g * dbl_sin q
      + k * (r - r0) / m) * (Fin 1 / Fin 3)) * (Fin 10 / Fin 9) + h * (dr - h * (- (r + dr * h *
      (Fin 4 / Fin 25) + h * (dr - h * (- (dq * dq) * r + g * dbl_sin q + k * (r - r0) / m) * (Fin
      1 / Fin 3)) * (Fin 6 / Fin 25)) * dbl_sq (- dq + h * (g * dbl_cos (q + dq * h * (Fin 1 / Fin
      3)) + (dq - h * (dq * dr * Fin 2 + g * dbl_cos q) * (Fin 1 / Fin 3) / r) * (dr * Fin 2 - h *
      (- (dq * dq) * r + g * dbl_sin q + k * (r - r0) / m) * (Fin 2 / Fin 3))) * (Fin 6 / Fin 25) /
      (r + dr * h * (Fin 1 / Fin 3)) + h * (dq * dr * Fin 2 + g * dbl_cos q) * (Fin 4 / Fin 25) /
      r) + g * dbl_sin (q + dq * h * (Fin 4 / Fin 25) + h * (dq - h * (dq * dr * Fin 2 + g *
      dbl_cos q) * (Fin 1 / Fin 3) / r) * (Fin 6 / Fin 25)) + k * (r - r0 + dr * h * (Fin 4 / Fin
      25) + h * (dr - h * (- (dq * dq) * r + g * dbl_sin q + k * (r - r0) / m) * (Fin 1 / Fin 3)) *
      (Fin 6 / Fin 25)) / m) * (Fin 15 / Fin 4) - h * (- (dq * dq) * r + g * dbl_sin q + k * (r -
      r0) / m) * (Fin 1 / Fin 4) + h * (g * dbl_sin (q + dq * h * (Fin 1 / Fin 3)) - dbl_sq (dq - h
      * (dq * dr * Fin 2 + g * dbl_cos q) * (Fin 1 / Fin 3) / r) * (r + dr * h * (Fin 1 / Fin 3)) +
      k * (r - r0 + dr * h * (Fin 1 / Fin 3)) / m) * Fin 3) * (Fin 8 / Fin 81) + h * (- dr + h * (-
      (dq * dq) * r + g * dbl_sin q + k * (r - r0) / m) * (Fin 4 / Fin 25) + h * (g * dbl_sin (q +
      dq * h * (Fin 1 / Fin 3)) - dbl_sq (dq - h * (dq * dr * Fin 2 + g * dbl_cos q) * (Fin 1 / Fin
      3) / r) * (r + dr * h * (Fin 1 / Fin 3)) + k * (r - r0 + dr * h * (Fin 1 / Fin 3)) / m) *
      (Fin 6 / Fin 25)) * (Fin 50 / Fin 81)) / m) * (Fin 27 / Fin 64) - h * (g * dbl_sin (q + dq *
      h * (Fin 1 / Fin 3)) - dbl_sq (dq - h * (dq * dr * Fin 2 + g * dbl_cos q) * (Fin 1 / Fin 3) /
      r) * (r + dr * h * (Fin 1 / Fin 3)) + k * (r - r0 + dr * h * (Fin 1 / Fin 3)) / m) * (Fin 125
      / Fin 192)"

definition rk5_qNew ::
  "dbl \<Rightarrow> dbl \<Rightarrow> dbl \<Rightarrow> dbl \<Rightarrow> dbl \<Rightarrow> dbl \<Rightarrow> dbl \<Rightarrow> dbl \<Rightarrow> dbl \<Rightarrow> dbl" where
  "rk5_qNew g h k m r0 r dr q dq =
     q + dq * h * (Fin 23 / Fin 192) + h * (dq - h * (dq * dr * Fin 2 + g * dbl_cos q) * (Fin 1 /
      Fin 3) / r) * (Fin 125 / Fin 192) - h * (- dq + h * (g * dbl_cos (q + dq * h * (Fin 1 / Fin
      4) - h * (dq - h * (dq * dr * Fin 2 + g * dbl_cos q) * (Fin 1 / Fin 3) / r) * Fin 3 - h * (-
      dq + h * (g * dbl_cos (q + dq * h * (Fin 1 / Fin 3)) + (dq - h * (dq * dr * Fin 2 + g *
      dbl_cos q) * (Fin 1 / Fin 3) / r) * (dr * Fin 2 - h * (- (dq * dq) * r + g * dbl_sin q + k *
      (r - r0) / m) * (Fin 2 / Fin 3))) * (Fin 6 / Fin 25) / (r + dr * h * (Fin 1 / Fin 3)) + h *
      (dq * dr * Fin 2 + g * dbl_cos q) * (Fin 4 / Fin 25) / r) * (Fin 15 / Fin 4)) + (dr * Fin 2 -
      h * (- (r + dr * h * (Fin 4 / Fin 25) + h * (dr - h * (- (dq * dq) * r + g * dbl_sin q + k *
      (r - r0) / m) * (Fin 1 / Fin 3)) * (Fin 6 / Fin 25)) * dbl_sq (- dq + h * (g * dbl_cos (q +
      dq * h * (Fin 1 / Fin 3)) + (dq - h * (dq * dr * Fin 2 + g * dbl_cos q) * (Fin 1 / Fin 3) /
      r) * (dr * Fin 2 - h * (- (dq * dq) * r + g * dbl_sin q + k * (r - r0) / m) * (Fin 2 / Fin
      3))) * (Fin 6 / Fin 25) / (r + dr * h * (Fin 1 / Fin 3)) + h * (dq * dr * Fin 2 + g * dbl_cos
      q) * (Fin 4 / Fin 25) / r) + g * dbl_sin (q + dq * h * (Fin 4 / Fin 25) + h * (dq - h * (dq *
      dr * Fin 2 + g * dbl_cos q) * (Fin 1 / Fin 3) / r) * (Fin 6 / Fin 25)) + k * (r - r0 + dr * h
      * (Fin 4 / Fin 25) + h * (dr - h * (- (dq * dq) * r + g * dbl_sin q + k * (r - r0) / m) *
      (Fin 1 / Fin 3)) * (Fin 6 / Fin 25)) / m) * (Fin 15 / Fin 2) - h * (- (dq * dq) * r + g *
      dbl_sin q + k * (r - r0) / m) * (Fin 1 / Fin 2) + h * (g * dbl_sin (q + dq * h * (Fin 1 / Fin
      3)) - dbl_sq (dq - h * (dq * dr * Fin 2 + g * dbl_cos q) * (Fin 1 / Fin 3) / r) * (r + dr * h
      * (Fin 1 / Fin 3)) + k * (r - r0 + dr * h * (Fin 1 / Fin 3)) / m) * Fin 6) * (dq + h * (g *
      dbl_cos (q + dq * h * (Fin 1 / Fin 3)) + (dq - h * (dq * dr * Fin 2 + g * dbl_cos q) * (Fin 1
      / Fin 3) / r) * (dr * Fin 2 - h * (- (dq * dq) * r + g * dbl_sin q + k * (r - r0) / m) * (Fin
      2 / Fin 3))) * Fin 3 / (r + dr * h * (Fin 1 / Fin 3)) - h * ((- dq + h * (g * dbl_cos (q + dq
      * h * (Fin 1 / Fin 3)) + (dq - h * (dq * dr * Fin 2 + g * dbl_cos q) * (Fin 1 / Fin 3) / r) *
      (dr * Fin 2 - h * (- (dq * dq) * r + g * dbl_sin q + k * (r - r0) / m) * (Fin 2 / Fin 3))) *
      (Fin 6 / Fin 25) / (r + dr * h * (Fin 1 / Fin 3)) + h * (dq * dr * Fin 2 + g * dbl_cos q) *
      (Fin 4 / Fin 25) / r) * (dr * - Fin 2 + h * (- (dq * dq) * r + g * dbl_sin q + k * (r - r0) /
      m) * (Fin 8 / Fin 25) + h * (g * dbl_sin (q + dq * h * (Fin 1 / Fin 3)) - dbl_sq (dq - h *
      (dq * dr * Fin 2 + g * dbl_cos q) * (Fin 1 / Fin 3) / r) * (r + dr * h * (Fin 1 / Fin 3)) + k
      * (r - r0 + dr * h * (Fin 1 / Fin 3)) / m) * (Fin 12 / Fin 25)) + g * dbl_cos (q + dq * h *
      (Fin 4 / Fin 25) + h * (dq - h * (dq * dr * Fin 2 + g * dbl_cos q) * (Fin 1 / Fin 3) / r) *
      (Fin 6 / Fin 25))) * (Fin 15 / Fin 4) / (r + dr * h * (Fin 4 / Fin 25) + h * (dr - h * (- (dq
      * dq) * r + g * dbl_sin q + k * (r - r0) / m) * (Fin 1 / Fin 3)) * (Fin 6 / Fin 25)) - h *
      (dq * dr * Fin 2 + g * dbl_cos q) * (Fin 1 / Fin 4) / r)) * (Fin 8 / Fin 75) / (r + dr * h *
      (Fin 1 / Fin 4) - h * (dr - h * (- (dq * dq) * r + g * dbl_sin q + k * (r - r0) / m) * (Fin 1
      / Fin 3)) * Fin 3 - h * (- dr + h * (- (dq * dq) * r + g * dbl_sin q + k * (r - r0) / m) *
      (Fin 4 / Fin 25) + h * (g * dbl_sin (q + dq * h * (Fin 1 / Fin 3)) - dbl_sq (dq - h * (dq *
      dr * Fin 2 + g * dbl_cos q) * (Fin 1 / Fin 3) / r) * (r + dr * h * (Fin 1 / Fin 3)) + k * (r
      - r0 + dr * h * (Fin 1 / Fin 3)) / m) * (Fin 6 / Fin 25)) * (Fin 15 / Fin 4)) + h * (g *
      dbl_cos (q + dq * h * (Fin 1 / Fin 3)) + (dq - h * (dq * dr * Fin 2 + g * dbl_cos q) * (Fin 1
      / Fin 3) / r) * (dr * Fin 2 - h * (- (dq * dq) * r + g * dbl_sin q + k * (r - r0) / m) * (Fin
      2 / Fin 3))) * (Fin 12 / Fin 25) / (r + dr * h * (Fin 1 / Fin 3)) + h * ((- dq + h * (g *
      dbl_cos (q + dq * h * (Fin 1 / Fin 3)) + (dq - h * (dq * dr * Fin 2 + g * dbl_cos q) * (Fin 1
      / Fin 3) / r) * (dr * Fin 2 - h * (- (dq * dq) * r + g * dbl_sin q + k * (r - r0) / m) * (Fin
      2 / Fin 3))) * (Fin 6 / Fin 25) / (r + dr * h * (Fin 1 / Fin 3)) + h * (dq * dr * Fin 2 + g *
      dbl_cos q) * (Fin 4 / Fin 25) / r) * (dr * - Fin 2 + h * (- (dq * dq) * r + g * dbl_sin q + k
      * (r - r0) / m) * (Fin 8 / Fin 25) + h * (g * dbl_sin (q + dq * h * (Fin 1 / Fin 3)) - dbl_sq
      (dq - h * (dq * dr * Fin 2 + g * dbl_cos q) * (Fin 1 / Fin 3) / r) * (r + dr * h * (Fin 1 /
      Fin 3)) + k * (r - r0 + dr * h * (Fin 1 / Fin 3)) / m) * (Fin 12 / Fin 25)) + g * dbl_cos (q
      + dq * h * (Fin 4 / Fin 25) + h * (dq - h * (dq * dr * Fin 2 + g * dbl_cos q) * (Fin 1 / Fin
      3) / r) * (Fin 6 / Fin 25))) * (Fin 2 / Fin 15) / (r + dr * h * (Fin 4 / Fin 25) + h * (dr -
      h * (- (dq * dq) * r + g * dbl_sin q + k * (r - r0) / m) * (Fin 1 / Fin 3)) * (Fin 6 / Fin
      25)) + h * (dq * dr * Fin 2 + g * dbl_cos q) * (Fin 2 / Fin 25) / r) * (Fin 125 / Fin 192) +
      h * (- dq + h * (g * dbl_cos (q + dq * h * (Fin 1 / Fin 4) - h * (dq - h * (dq * dr * Fin 2 +
      g * dbl_cos q) * (Fin 1 / Fin 3) / r) * Fin 3 - h * (- dq + h * (g * dbl_cos (q + dq * h *
      (Fin 1 / Fin 3)) + (dq - h * (dq * dr * Fin 2 + g * dbl_cos q) * (Fin 1 / Fin 3) / r) * (dr *
      Fin 2 - h * (- (dq * dq) * r + g * dbl_sin q + k * (r - r0) / m) * (Fin 2 / Fin 3))) * (Fin 6
      / Fin 25) / (r + dr * h * (Fin 1 / Fin 3)) + h * (dq * dr * Fin 2 + g * dbl_cos q) * (Fin 4 /
      Fin 25) / r) * (Fin 15 / Fin 4)) + (dr * Fin 2 - h * (- (r + dr * h * (Fin 4 / Fin 25) + h *
      (dr - h * (- (dq * dq) * r + g * dbl_sin q + k * (r - r0) / m) * (Fin 1 / Fin 3)) * (Fin 6 /
      Fin 25)) * dbl_sq (- dq + h * (g * dbl_cos (q + dq * h * (Fin 1 / Fin 3)) + (dq - h * (dq *
      dr * Fin 2 + g * dbl_cos q) * (Fin 1 / Fin 3) / r) * (dr * Fin 2 - h * (- (dq * dq) * r + g *
      dbl_sin q + k * (r - r0) / m) * (Fin 2 / Fin 3))) * (Fin 6 / Fin 25) / (r + dr * h * (Fin 1 /
      Fin 3)) + h * (dq * dr * Fin 2 + g * dbl_cos q) * (Fin 4 / Fin 25) / r) + g * dbl_sin (q + dq
      * h * (Fin 4 / Fin 25) + h * (dq - h * (dq * dr * Fin 2 + g * dbl_cos q) * (Fin 1 / Fin 3) /
      r) * (Fin 6 / Fin 25)) + k * (r - r0 + dr * h * (Fin 4 / Fin 25) + h * (dr - h * (- (dq * dq)
      * r + g * dbl_sin q + k * (r - r0) / m) * (Fin 1 / Fin 3)) * (Fin 6 / Fin 25)) / m) * (Fin 15
      / Fin 2) - h * (- (dq * dq) * r + g * dbl_sin q + k * (r - r0) / m) * (Fin 1 / Fin 2) + h *
      (g * dbl_sin (q + dq * h * (Fin 1 / Fin 3)) - dbl_sq (dq - h * (dq * dr * Fin 2 + g * dbl_cos
      q) * (Fin 1 / Fin 3) / r) * (r + dr * h * (Fin 1 / Fin 3)) + k * (r - r0 + dr * h * (Fin 1 /
      Fin 3)) / m) * Fin 6) * (dq + h * (g * dbl_cos (q + dq * h * (Fin 1 / Fin 3)) + (dq - h * (dq
      * dr * Fin 2 + g * dbl_cos q) * (Fin 1 / Fin 3) / r) * (dr * Fin 2 - h * (- (dq * dq) * r + g
      * dbl_sin q + k * (r - r0) / m) * (Fin 2 / Fin 3))) * Fin 3 / (r + dr * h * (Fin 1 / Fin 3))
      - h * ((- dq + h * (g * dbl_cos (q + dq * h * (Fin 1 / Fin 3)) + (dq - h * (dq * dr * Fin 2 +
      g * dbl_cos q) * (Fin 1 / Fin 3) / r) * (dr * Fin 2 - h * (- (dq * dq) * r + g * dbl_sin q +
      k * (r - r0) / m) * (Fin 2 / Fin 3))) * (Fin 6 / Fin 25) / (r + dr * h * (Fin 1 / Fin 3)) + h
      * (dq * dr * Fin 2 + g * dbl_cos q) * (Fin 4 / Fin 25) / r) * (dr * - Fin 2 + h * (- (dq *
      dq) * r + g * dbl_sin q + k * (r - r0) / m) * (Fin 8 / Fin 25) + h * (g * dbl_sin (q + dq * h
      * (Fin 1 / Fin 3)) - dbl_sq (dq - h * (dq * dr * Fin 2 + g * dbl_cos q) * (Fin 1 / Fin 3) /
      r) * (r + dr * h * (Fin 1 / Fin 3)) + k * (r - r0 + dr * h * (Fin 1 / Fin 3)) / m) * (Fin 12
      / Fin 25)) + g * dbl_cos (q + dq * h * (Fin 4 / Fin 25) + h * (dq - h * (dq * dr * Fin 2 + g
      * dbl_cos q) * (Fin 1 / Fin 3) / r) * (Fin 6 / Fin 25))) * (Fin 15 / Fin 4) / (r + dr * h *
      (Fin 4 / Fin 25) + h * (dr - h * (- (dq * dq) * r + g * dbl_sin q + k * (r - r0) / m) * (Fin
      1 / Fin 3)) * (Fin 6 / Fin 25)) - h * (dq * dr * Fin 2 + g * dbl_cos q) * (Fin 1 / Fin 4) /
      r)) * (Fin 8 / Fin 81) / (r + dr * h * (Fin 1 / Fin 4) - h * (dr - h * (- (dq * dq) * r + g *
      dbl_sin q + k * (r - r0) / m) * (Fin 1 / Fin 3)) * Fin 3 - h * (- dr + h * (- (dq * dq) * r +
      g * dbl_sin q + k * (r - r0) / m) * (Fin 4 / Fin 25) + h * (g * dbl_sin (q + dq * h * (Fin 1
      / Fin 3)) - dbl_sq (dq - h * (dq * dr * Fin 2 + g * dbl_cos q) * (Fin 1 / Fin 3) / r) * (r +
      dr * h * (Fin 1 / Fin 3)) + k * (r - r0 + dr * h * (Fin 1 / Fin 3)) / m) * (Fin 6 / Fin 25))
      * (Fin 15 / Fin 4)) + h * (g * dbl_cos (q + dq * h * (Fin 1 / Fin 3)) + (dq - h * (dq * dr *
      Fin 2 + g * dbl_cos q) * (Fin 1 / Fin 3) / r) * (dr * Fin 2 - h * (- (dq * dq) * r + g *
      dbl_sin q + k * (r - r0) / m) * (Fin 2 / Fin 3))) * (Fin 10 / Fin 9) / (r + dr * h * (Fin 1 /
      Fin 3)) - h * ((- dq + h * (g * dbl_cos (q + dq * h * (Fin 1 / Fin 3)) + (dq - h * (dq * dr *
      Fin 2 + g * dbl_cos q) * (Fin 1 / Fin 3) / r) * (dr * Fin 2 - h * (- (dq * dq) * r + g *
      dbl_sin q + k * (r - r0) / m) * (Fin 2 / Fin 3))) * (Fin 6 / Fin 25) / (r + dr * h * (Fin 1 /
      Fin 3)) + h * (dq * dr * Fin 2 + g * dbl_cos q) * (Fin 4 / Fin 25) / r) * (dr * - Fin 2 + h *
      (- (dq * dq) * r + g * dbl_sin q + k * (r - r0) / m) * (Fin 8 / Fin 25) + h * (g * dbl_sin (q
      + dq * h * (Fin 1 / Fin 3)) - dbl_sq (dq - h * (dq * dr * Fin 2 + g * dbl_cos q) * (Fin 1 /
      Fin 3) / r) * (r + dr * h * (Fin 1 / Fin 3)) + k * (r - r0 + dr * h * (Fin 1 / Fin 3)) / m) *
      (Fin 12 / Fin 25)) + g * dbl_cos (q + dq * h * (Fin 4 / Fin 25) + h * (dq - h * (dq * dr *
      Fin 2 + g * dbl_cos q) * (Fin 1 / Fin 3) / r) * (Fin 6 / Fin 25))) * (Fin 50 / Fin 81) / (r +
      dr * h * (Fin 4 / Fin 25) + h * (dr - h * (- (dq * dq) * r + g * dbl_sin q + k * (r - r0) /
      m) * (Fin 1 / Fin 3)) * (Fin 6 / Fin 25)) + h * (dq * dr * Fin 2 + g * dbl_cos q) * (Fin 2 /
      Fin 27) / r) * (Fin 27 / Fin 64)"

definition rk5_dqNew ::
  "dbl \<Rightarrow> dbl \<Rightarrow> dbl \<Rightarrow> dbl \<Rightarrow> dbl \<Rightarrow> dbl \<Rightarrow> dbl \<Rightarrow> dbl \<Rightarrow> dbl \<Rightarrow> dbl" where
  "rk5_dqNew g h k m r0 r dr q dq =
     dq - h * (g * dbl_cos (q + dq * h * (Fin 1 / Fin 3)) + (dq - h * (dq * dr * Fin 2 + g *
      dbl_cos q) * (Fin 1 / Fin 3) / r) * (dr * Fin 2 - h * (- (dq * dq) * r + g * dbl_sin q + k *
      (r - r0) / m) * (Fin 2 / Fin 3))) * (Fin 125 / Fin 192) / (r + dr * h * (Fin 1 / Fin 3)) - h
      * (g * dbl_cos (q + dq * h * (Fin 2 / Fin 25) + h * (dq - h * (dq * dr * Fin 2 + g * dbl_cos
      q) * (Fin 1 / Fin 3) / r) * (Fin 12 / Fin 25) - h * (- dq + h * (g * dbl_cos (q + dq * h *
      (Fin 1 / Fin 3)) + (dq - h * (dq * dr * Fin 2 + g * dbl_cos q) * (Fin 1 / Fin 3) / r) * (dr *
      Fin 2 - h * (- (dq * dq) * r + g * dbl_sin q + k * (r - r0) / m) * (Fin 2 / Fin 3))) * (Fin 6
      / Fin 25) / (r + dr * h * (Fin 1 / Fin 3)) + h * (dq * dr * Fin 2 + g * dbl_cos q) * (Fin 4 /
      Fin 25) / r) * (Fin 2 / Fin 15) + h * (dq + h * (g * dbl_cos (q + dq * h * (Fin 1 / Fin 3)) +
      (dq - h * (dq * dr * Fin 2 + g * dbl_cos q) * (Fin 1 / Fin 3) / r) * (dr * Fin 2 - h * (- (dq
      * dq) * r + g * dbl_sin q + k * (r - r0) / m) * (Fin 2 / Fin 3))) * Fin 3 / (r + dr * h *
      (Fin 1 / Fin 3)) - h * ((- dq + h * (g * dbl_cos (q + dq * h * (Fin 1 / Fin 3)) + (dq - h *
      (dq * dr * Fin 2 + g * dbl_cos q) * (Fin 1 / Fin 3) / r) * (dr * Fin 2 - h * (- (dq * dq) * r
      + g * dbl_sin q + k * (r - r0) / m) * (Fin 2 / Fin 3))) * (Fin 6 / Fin 25) / (r + dr * h *
      (Fin 1 / Fin 3)) + h * (dq * dr * Fin 2 + g * dbl_cos q) * (Fin 4 / Fin 25) / r) * (dr * -
      Fin 2 + h * (- (dq * dq) * r + g * dbl_sin q + k * (r - r0) / m) * (Fin 8 / Fin 25) + h * (g
      * dbl_sin (q + dq * h * (Fin 1 / Fin 3)) - dbl_sq (dq - h * (dq * dr * Fin 2 + g * dbl_cos q)
      * (Fin 1 / Fin 3) / r) * (r + dr * h * (Fin 1 / Fin 3)) + k * (r - r0 + dr * h * (Fin 1 / Fin
      3)) / m) * (Fin 12 / Fin 25)) + g * dbl_cos (q + dq * h * (Fin 4 / Fin 25) + h * (dq - h *
      (dq * dr * Fin 2 + g * dbl_cos q) * (Fin 1 / Fin 3) / r) * (Fin 6 / Fin 25))) * (Fin 15 / Fin
      4) / (r + dr * h * (Fin 4 / Fin 25) + h * (dr - h * (- (dq * dq) * r + g * dbl_sin q + k * (r
      - r0) / m) * (Fin 1 / Fin 3)) * (Fin 6 / Fin 25)) - h * (dq * dr * Fin 2 + g * dbl_cos q) *
      (Fin 1 / Fin 4) / r) * (Fin 8 / Fin 75)) + (dr * - Fin 2 + h * (- (r + dr * h * (Fin 4 / Fin
      25) + h * (dr - h * (- (dq * dq) * r + g * dbl_sin q + k * (r - r0) / m) * (Fin 1 / Fin 3)) *
      (Fin 6 / Fin 25)) * dbl_sq (- dq + h * (g * dbl_cos (q + dq * h * (Fin 1 / Fin 3)) + (dq - h
      * (dq * dr * Fin 2 + g * dbl_cos q) * (Fin 1 / Fin 3) / r) * (dr * Fin 2 - h * (- (dq * dq) *
      r + g * dbl_sin q + k * (r - r0) / m) * (Fin 2 / Fin 3))) * (Fin 6 / Fin 25) / (r + dr * h *
      (Fin 1 / Fin 3)) + h * (dq * dr * Fin 2 + g * dbl_cos q) * (Fin 4 / Fin 25) / r) + g *
      dbl_sin (q + dq * h * (Fin 4 / Fin 25) + h * (dq - h * (dq * dr * Fin 2 + g * dbl_cos q) *
      (Fin 1 / Fin 3) / r) * (Fin 6 / Fin 25)) + k * (r - r0 + dr * h * (Fin 4 / Fin 25) + h * (dr
      - h * (- (dq * dq) * r + g * dbl_sin q + k * (r - r0) / m) * (Fin 1 / Fin 3)) * (Fin 6 / Fin
      25)) / m) * (Fin 4 / Fin 15) - h * (- g * dbl_sin (q + dq * h * (Fin 1 / Fin 4) - h * (dq - h
      * (dq * dr * Fin 2 + g * dbl_cos q) * (Fin 1 / Fin 3) / r) * Fin 3 - h * (- dq + h * (g *
      dbl_cos (q + dq * h * (Fin 1 / Fin 3)) + (dq - h * (dq * dr * Fin 2 + g * dbl_cos q) * (Fin 1
      / Fin 3) / r) * (dr * Fin 2 - h * (- (dq * dq) * r + g * dbl_sin q + k * (r - r0) / m) * (Fin
      2 / Fin 3))) * (Fin 6 / Fin 25) / (r + dr * h * (Fin 1 / Fin 3)) + h * (dq * dr * Fin 2 + g *
      dbl_cos q) * (Fin 4 / Fin 25) / r) * (Fin 15 / Fin 4)) + dbl_sq (dq + h * (g * dbl_cos (q +
      dq * h * (Fin 1 / Fin 3)) + (dq - h * (dq * dr * Fin 2 + g * dbl_cos q) * (Fin 1 / Fin 3) /
      r) * (dr * Fin 2 - h * (- (dq * dq) * r + g * dbl_sin q + k * (r - r0) / m) * (Fin 2 / Fin
      3))) * Fin 3 / (r + dr * h * (Fin 1 / Fin 3)) - h * ((- dq + h * (g * dbl_cos (q + dq * h *
      (Fin 1 / Fin 3)) + (dq - h * (dq * dr * Fin 2 + g * dbl_cos q) * (Fin 1 / Fin 3) / r) * (dr *
      Fin 2 - h * (- (dq * dq) * r + g * dbl_sin q + k * (r - r0) / m) * (Fin 2 / Fin 3))) * (Fin 6
      / Fin 25) / (r + dr * h * (Fin 1 / Fin 3)) + h * (dq * dr * Fin 2 + g * dbl_cos q) * (Fin 4 /
      Fin 25) / r) * (dr * - Fin 2 + h * (- (dq * dq) * r + g * dbl_sin q + k * (r - r0) / m) *
      (Fin 8 / Fin 25) + h * (g * dbl_sin (q + dq * h * (Fin 1 / Fin 3)) - dbl_sq (dq - h * (dq *
      dr * Fin 2 + g * dbl_cos q) * (Fin 1 / Fin 3) / r) * (r + dr * h * (Fin 1 / Fin 3)) + k * (r
      - r0 + dr * h * (Fin 1 / Fin 3)) / m) * (Fin 12 / Fin 25)) + g * dbl_cos (q + dq * h * (Fin 4
      / Fin 25) + h * (dq - h * (dq * dr * Fin 2 + g * dbl_cos q) * (Fin 1 / Fin 3) / r) * (Fin 6 /
      Fin 25))) * (Fin 15 / Fin 4) / (r + dr * h * (Fin 4 / Fin 25) + h * (dr - h * (- (dq * dq) *
      r + g * dbl_sin q + k * (r - r0) / m) * (Fin 1 / Fin 3)) * (Fin 6 / Fin 25)) - h * (dq * dr *
      Fin 2 + g * dbl_cos q) * (Fin 1 / Fin 4) / r) * (r + dr * h * (Fin 1 / Fin 4) - h * (dr - h *
      (- (dq * dq) * r + g * dbl_sin q + k * (r - r0) / m) * (Fin 1 / Fin 3)) * Fin 3 - h * (- dr +
      h * (- (dq * dq) * r + g * dbl_sin q + k * (r - r0) / m) * (Fin 4 / Fin 25) + h * (g *
      dbl_sin (q + dq * h * (Fin 1 / Fin 3)) - dbl_sq (dq - h * (dq * dr * Fin 2 + g * dbl_cos q) *
      (Fin 1 / Fin 3) / r) * (r + dr * h * (Fin 1 / Fin 3)) + k * (r - r0 + dr * h * (Fin 1 / Fin
      3)) / m) * (Fin 6 / Fin 25)) * (Fin 15 / Fin 4)) + k * (- r + r0 - dr * h * (Fin 1 / Fin 4) +
      h * (dr - h * (- (dq * dq) * r + g * dbl_sin q + k * (r - r0) / m) * (Fin 1 / Fin 3)) * Fin 3
      + h * (- dr + h * (- (dq * dq) * r + g * dbl_sin q + k * (r - r0) / m) * (Fin 4 / Fin 25) + h
      * (g * dbl_sin (q + dq * h * (Fin 1 / Fin 3)) - dbl_sq (dq - h * (dq * dr * Fin 2 + g *
      dbl_cos q) * (Fin 1 / Fin 3) / r) * (r + dr * h * (Fin 1 / Fin 3)) + k * (r - r0 + dr * h *
      (Fin 1 / Fin 3)) / m) * (Fin 6 / Fin 25)) * (Fin 15 / Fin 4)) / m) * (Fin 16 / Fin 75) + h *
      (- (dq * dq) * r + g * dbl_sin q + k * (r - r0) / m) * (Fin 4 / Fin 25) + h * (g * dbl_sin (q
      + dq * h * (Fin 1 / Fin 3)) - dbl_sq (dq - h * (dq * dr * Fin 2 + g * dbl_cos q) * (Fin 1 /
      Fin 3) / r) * (r + dr * h * (Fin 1 / Fin 3)) + k * (r - r0 + dr * h * (Fin 1 / Fin 3)) / m) *
      (Fin 24 / Fin 25)) * (- dq + h * (g * dbl_cos (q + dq * h * (Fin 1 / Fin 4) - h * (dq - h *
      (dq * dr * Fin 2 + g * dbl_cos q) * (Fin 1 / Fin 3) / r) * Fin 3 - h * (- dq + h * (g *
      dbl_cos (q + dq * h * (Fin 1 / Fin 3)) + (dq - h * (dq * dr * Fin 2 + g * dbl_cos q) * (Fin 1
      / Fin 3) / r) * (dr * Fin 2 - h * (- (dq * dq) * r + g * dbl_sin q + k * (r - r0) / m) * (Fin
      2 / Fin 3))) * (Fin 6 / Fin 25) / (r + dr * h * (Fin 1 / Fin 3)) + h * (dq * dr * Fin 2 + g *
      dbl_cos q) * (Fin 4 / Fin 25) / r) * (Fin 15 / Fin 4)) + (dr * Fin 2 - h * (- (r + dr * h *
      (Fin 4 / Fin 25) + h * (dr - h * (- (dq * dq) * r + g * dbl_sin q + k * (r - r0) / m) * (Fin
      1 / Fin 3)) * (Fin 6 / Fin 25)) * dbl_sq (- dq + h * (g * dbl_cos (q + dq * h * (Fin 1 / Fin
      3)) + (dq - h * (dq * dr * Fin 2 + g * dbl_cos q) * (Fin 1 / Fin 3) / r) * (dr * Fin 2 - h *
      (- (dq * dq) * r + g * dbl_sin q + k * (r - r0) / m) * (Fin 2 / Fin 3))) * (Fin 6 / Fin 25) /
      (r + dr * h * (Fin 1 / Fin 3)) + h * (dq * dr * Fin 2 + g * dbl_cos q) * (Fin 4 / Fin 25) /
      r) + g * dbl_sin (q + dq * h * (Fin 4 / Fin 25) + h * (dq - h * (dq * dr * Fin 2 + g *
      dbl_cos q) * (Fin 1 / Fin 3) / r) * (Fin 6 / Fin 25)) + k * (r - r0 + dr * h * (Fin 4 / Fin
      25) + h * (dr - h * (- (dq * dq) * r + g * dbl_sin q + k * (r - r0) / m) * (Fin 1 / Fin 3)) *
      (Fin 6 / Fin 25)) / m) * (Fin 15 / Fin 2) - h * (- (dq * dq) * r + g * dbl_sin q + k * (r -
      r0) / m) * (Fin 1 / Fin 2) + h * (g * dbl_sin (q + dq * h * (Fin 1 / Fin 3)) - dbl_sq (dq - h
      * (dq * dr * Fin 2 + g * dbl_cos q) * (Fin 1 / Fin 3) / r) * (r + dr * h * (Fin 1 / Fin 3)) +
      k * (r - r0 + dr * h * (Fin 1 / Fin 3)) / m) * Fin 6) * (dq + h * (g * dbl_cos (q + dq * h *
      (Fin 1 / Fin 3)) + (dq - h * (dq * dr * Fin 2 + g * dbl_cos q) * (Fin 1 / Fin 3) / r) * (dr *
      Fin 2 - h * (- (dq * dq) * r + g * dbl_sin q + k * (r - r0) / m) * (Fin 2 / Fin 3))) * Fin 3
      / (r + dr * h * (Fin 1 / Fin 3)) - h * ((- dq + h * (g * dbl_cos (q + dq * h * (Fin 1 / Fin
      3)) + (dq - h * (dq * dr * Fin 2 + g * dbl_cos q) * (Fin 1 / Fin 3) / r) * (dr * Fin 2 - h *
      (- (dq * dq) * r + g * dbl_sin q + k * (r - r0) / m) * (Fin 2 / Fin 3))) * (Fin 6 / Fin 25) /
      (r + dr * h * (Fin 1 / Fin 3)) + h * (dq * dr * Fin 2 + g * dbl_cos q) * (Fin 4 / Fin 25) /
      r) * (dr * - Fin 2 + h * (- (dq * dq) * r + g * dbl_sin q + k * (r - r0) / m) * (Fin 8 / Fin
      25) + h * (g * dbl_sin (q + dq * h * (Fin 1 / Fin 3)) - dbl_sq (dq - h * (dq * dr * Fin 2 + g
      * dbl_cos q) * (Fin 1 / Fin 3) / r) * (r + dr * h * (Fin 1 / Fin 3)) + k * (r - r0 + dr * h *
      (Fin 1 / Fin 3)) / m) * (Fin 12 / Fin 25)) + g * dbl_cos (q + dq * h * (Fin 4 / Fin 25) + h *
      (dq - h * (dq * dr * Fin 2 + g * dbl_cos q) * (Fin 1 / Fin 3) / r) * (Fin 6 / Fin 25))) *
      (Fin 15 / Fin 4) / (r + dr * h * (Fin 4 / Fin 25) + h * (dr - h * (- (dq * dq) * r + g *
      dbl_sin q + k * (r - r0) / m) * (Fin 1 / Fin 3)) * (Fin 6 / Fin 25)) - h * (dq * dr * Fin 2 +
      g * dbl_cos q) * (Fin 1 / Fin 4) / r)) * (Fin 8 / Fin 75) / (r + dr * h * (Fin 1 / Fin 4) - h
      * (dr - h * (- (dq * dq) * r + g * dbl_sin q + k * (r - r0) / m) * (Fin 1 / Fin 3)) * Fin 3 -
      h * (- dr + h * (- (dq * dq) * r + g * dbl_sin q + k * (r - r0) / m) * (Fin 4 / Fin 25) + h *
      (g * dbl_sin (q + dq * h * (Fin 1 / Fin 3)) - dbl_sq (dq - h * (dq * dr * Fin 2 + g * dbl_cos
      q) * (Fin 1 / Fin 3) / r) * (r + dr * h * (Fin 1 / Fin 3)) + k * (r - r0 + dr * h * (Fin 1 /
      Fin 3)) / m) * (Fin 6 / Fin 25)) * (Fin 15 / Fin 4)) + h * (g * dbl_cos (q + dq * h * (Fin 1
      / Fin 3)) + (dq - h * (dq * dr * Fin 2 + g * dbl_cos q) * (Fin 1 / Fin 3) / r) * (dr * Fin 2
      - h * (- (dq * dq) * r + g * dbl_sin q + k * (r - r0) / m) * (Fin 2 / Fin 3))) * (Fin 12 /
      Fin 25) / (r + dr * h * (Fin 1 / Fin 3)) + h * ((- dq + h * (g * dbl_cos (q + dq * h * (Fin 1
      / Fin 3)) + (dq - h * (dq * dr * Fin 2 + g * dbl_cos q) * (Fin 1 / Fin 3) / r) * (dr * Fin 2
      - h * (- (dq * dq) * r + g * dbl_sin q + k * (r - r0) / m) * (Fin 2 / Fin 3))) * (Fin 6 / Fin
      25) / (r + dr * h * (Fin 1 / Fin 3)) + h * (dq * dr * Fin 2 + g * dbl_cos q) * (Fin 4 / Fin
      25) / r) * (dr * - Fin 2 + h * (- (dq * dq) * r + g * dbl_sin q + k * (r - r0) / m) * (Fin 8
      / Fin 25) + h * (g * dbl_sin (q + dq * h * (Fin 1 / Fin 3)) - dbl_sq (dq - h * (dq * dr * Fin
      2 + g * dbl_cos q) * (Fin 1 / Fin 3) / r) * (r + dr * h * (Fin 1 / Fin 3)) + k * (r - r0 + dr
      * h * (Fin 1 / Fin 3)) / m) * (Fin 12 / Fin 25)) + g * dbl_cos (q + dq * h * (Fin 4 / Fin 25)
      + h * (dq - h * (dq * dr * Fin 2 + g * dbl_cos q) * (Fin 1 / Fin 3) / r) * (Fin 6 / Fin 25)))
      * (Fin 2 / Fin 15) / (r + dr * h * (Fin 4 / Fin 25) + h * (dr - h * (- (dq * dq) * r + g *
      dbl_sin q + k * (r - r0) / m) * (Fin 1 / Fin 3)) * (Fin 6 / Fin 25)) + h * (dq * dr * Fin 2 +
      g * dbl_cos q) * (Fin 2 / Fin 25) / r)) * (Fin 125 / Fin 192) / (r + dr * h * (Fin 2 / Fin
      25) + h * (dr - h * (- (dq * dq) * r + g * dbl_sin q + k * (r - r0) / m) * (Fin 1 / Fin 3)) *
      (Fin 12 / Fin 25) + h * (dr - h * (- (r + dr * h * (Fin 4 / Fin 25) + h * (dr - h * (- (dq *
      dq) * r + g * dbl_sin q + k * (r - r0) / m) * (Fin 1 / Fin 3)) * (Fin 6 / Fin 25)) * dbl_sq
      (- dq + h * (g * dbl_cos (q + dq * h * (Fin 1 / Fin 3)) + (dq - h * (dq * dr * Fin 2 + g *
      dbl_cos q) * (Fin 1 / Fin 3) / r) * (dr * Fin 2 - h * (- (dq * dq) * r + g * dbl_sin q + k *
      (r - r0) / m) * (Fin 2 / Fin 3))) * (Fin 6 / Fin 25) / (r + dr * h * (Fin 1 / Fin 3)) + h *
      (dq * dr * Fin 2 + g * dbl_cos q) * (Fin 4 / Fin 25) / r) + g * dbl_sin (q + dq * h * (Fin 4
      / Fin 25) + h * (dq - h * (dq * dr * Fin 2 + g * dbl_cos q) * (Fin 1 / Fin 3) / r) * (Fin 6 /
      Fin 25)) + k * (r - r0 + dr * h * (Fin 4 / Fin 25) + h * (dr - h * (- (dq * dq) * r + g *
      dbl_sin q + k * (r - r0) / m) * (Fin 1 / Fin 3)) * (Fin 6 / Fin 25)) / m) * (Fin 15 / Fin 4)
      - h * (- (dq * dq) * r + g * dbl_sin q + k * (r - r0) / m) * (Fin 1 / Fin 4) + h * (g *
      dbl_sin (q + dq * h * (Fin 1 / Fin 3)) - dbl_sq (dq - h * (dq * dr * Fin 2 + g * dbl_cos q) *
      (Fin 1 / Fin 3) / r) * (r + dr * h * (Fin 1 / Fin 3)) + k * (r - r0 + dr * h * (Fin 1 / Fin
      3)) / m) * Fin 3) * (Fin 8 / Fin 75) - h * (- dr + h * (- (dq * dq) * r + g * dbl_sin q + k *
      (r - r0) / m) * (Fin 4 / Fin 25) + h * (g * dbl_sin (q + dq * h * (Fin 1 / Fin 3)) - dbl_sq
      (dq - h * (dq * dr * Fin 2 + g * dbl_cos q) * (Fin 1 / Fin 3) / r) * (r + dr * h * (Fin 1 /
      Fin 3)) + k * (r - r0 + dr * h * (Fin 1 / Fin 3)) / m) * (Fin 6 / Fin 25)) * (Fin 2 / Fin
      15)) + h * (g * dbl_cos (q + dq * h * (Fin 2 / Fin 27) + h * (dq - h * (dq * dr * Fin 2 + g *
      dbl_cos q) * (Fin 1 / Fin 3) / r) * (Fin 10 / Fin 9) + h * (- dq + h * (g * dbl_cos (q + dq *
      h * (Fin 1 / Fin 3)) + (dq - h * (dq * dr * Fin 2 + g * dbl_cos q) * (Fin 1 / Fin 3) / r) *
      (dr * Fin 2 - h * (- (dq * dq) * r + g * dbl_sin q + k * (r - r0) / m) * (Fin 2 / Fin 3))) *
      (Fin 6 / Fin 25) / (r + dr * h * (Fin 1 / Fin 3)) + h * (dq * dr * Fin 2 + g * dbl_cos q) *
      (Fin 4 / Fin 25) / r) * (Fin 50 / Fin 81) + h * (dq + h * (g * dbl_cos (q + dq * h * (Fin 1 /
      Fin 3)) + (dq - h * (dq * dr * Fin 2 + g * dbl_cos q) * (Fin 1 / Fin 3) / r) * (dr * Fin 2 -
      h * (- (dq * dq) * r + g * dbl_sin q + k * (r - r0) / m) * (Fin 2 / Fin 3))) * Fin 3 / (r +
      dr * h * (Fin 1 / Fin 3)) - h * ((- dq + h * (g * dbl_cos (q + dq * h * (Fin 1 / Fin 3)) +
      (dq - h * (dq * dr * Fin 2 + g * dbl_cos q) * (Fin 1 / Fin 3) / r) * (dr * Fin 2 - h * (- (dq
      * dq) * r + g * dbl_sin q + k * (r - r0) / m) * (Fin 2 / Fin 3))) * (Fin 6 / Fin 25) / (r +
      dr * h * (Fin 1 / Fin 3)) + h * (dq * dr * Fin 2 + g * dbl_cos q) * (Fin 4 / Fin 25) / r) *
      (dr * - Fin 2 + h * (- (dq * dq) * r + g * dbl_sin q + k * (r - r0) / m) * (Fin 8 / Fin 25) +
      h * (g * dbl_sin (q + dq * h * (Fin 1 / Fin 3)) - dbl_sq (dq - h * (dq * dr * Fin 2 + g *
      dbl_cos q) * (Fin 1 / Fin 3) / r) * (r + dr * h * (Fin 1 / Fin 3)) + k * (r - r0 + dr * h *
      (Fin 1 / Fin 3)) / m) * (Fin 12 / Fin 25)) + g * dbl_cos (q + dq * h * (Fin 4 / Fin 25) + h *
      (dq - h * (dq * dr * Fin 2 + g * dbl_cos q) * (Fin 1 / Fin 3) / r) * (Fin 6 / Fin 25))) *
      (Fin 15 / Fin 4) / (r + dr * h * (Fin 4 / Fin 25) + h * (dr - h * (- (dq * dq) * r + g *
      dbl_sin q + k * (r - r0) / m) * (Fin 1 / Fin 3)) * (Fin 6 / Fin 25)) - h * (dq * dr * Fin 2 +
      g * dbl_cos q) * (Fin 1 / Fin 4) / r) * (Fin 8 / Fin 81)) - (dr * Fin 2 + h * (- (r + dr * h
      * (Fin 4 / Fin 25) + h * (dr - h * (- (dq * dq) * r + g * dbl_sin q + k * (r - r0) / m) *
      (Fin 1 / Fin 3)) * (Fin 6 / Fin 25)) * dbl_sq (- dq + h * (g * dbl_cos (q + dq * h * (Fin 1 /
      Fin 3)) + (dq - h * (dq * dr * Fin 2 + g * dbl_cos q) * (Fin 1 / Fin 3) / r) * (dr * Fin 2 -
      h * (- (dq * dq) * r + g * dbl_sin q + k * (r - r0) / m) * (Fin 2 / Fin 3))) * (Fin 6 / Fin
      25) / (r + dr * h * (Fin 1 / Fin 3)) + h * (dq * dr * Fin 2 + g * dbl_cos q) * (Fin 4 / Fin
      25) / r) + g * dbl_sin (q + dq * h * (Fin 4 / Fin 25) + h * (dq - h * (dq * dr * Fin 2 + g *
      dbl_cos q) * (Fin 1 / Fin 3) / r) * (Fin 6 / Fin 25)) + k * (r - r0 + dr * h * (Fin 4 / Fin
      25) + h * (dr - h * (- (dq * dq) * r + g * dbl_sin q + k * (r - r0) / m) * (Fin 1 / Fin 3)) *
      (Fin 6 / Fin 25)) / m) * (Fin 100 / Fin 81) + h * (- g * dbl_sin (q + dq * h * (Fin 1 / Fin
      4) - h * (dq - h * (dq * dr * Fin 2 + g * dbl_cos q) * (Fin 1 / Fin 3) / r) * Fin 3 - h * (-
      dq + h * (g * dbl_cos (q + dq * h * (Fin 1 / Fin 3)) + (dq - h * (dq * dr * Fin 2 + g *
      dbl_cos q) * (Fin 1 / Fin 3) / r) * (dr * Fin 2 - h * (- (dq * dq) * r + g * dbl_sin q + k *
      (r - r0) / m) * (Fin 2 / Fin 3))) * (Fin 6 / Fin 25) / (r + dr * h * (Fin 1 / Fin 3)) + h *
      (dq * dr * Fin 2 + g * dbl_cos q) * (Fin 4 / Fin 25) / r) * (Fin 15 / Fin 4)) + dbl_sq (dq +
      h * (g * dbl_cos (q + dq * h * (Fin 1 / Fin 3)) + (dq - h * (dq * dr * Fin 2 + g * dbl_cos q)
      * (Fin 1 / Fin 3) / r) * (dr * Fin 2 - h * (- (dq * dq) * r + g * dbl_sin q + k * (r - r0) /
      m) * (Fin 2 / Fin 3))) * Fin 3 / (r + dr * h * (Fin 1 / Fin 3)) - h * ((- dq + h * (g *
      dbl_cos (q + dq * h * (Fin 1 / Fin 3)) + (dq - h * (dq * dr * Fin 2 + g * dbl_cos q) * (Fin 1
      / Fin 3) / r) * (dr * Fin 2 - h * (- (dq * dq) * r + g * dbl_sin q + k * (r - r0) / m) * (Fin
      2 / Fin 3))) * (Fin 6 / Fin 25) / (r + dr * h * (Fin 1 / Fin 3)) + h * (dq * dr * Fin 2 + g *
      dbl_cos q) * (Fin 4 / Fin 25) / r) * (dr * - Fin 2 + h * (- (dq * dq) * r + g * dbl_sin q + k
      * (r - r0) / m) * (Fin 8 / Fin 25) + h * (g * dbl_sin (q + dq * h * (Fin 1 / Fin 3)) - dbl_sq
      (dq - h * (dq * dr * Fin 2 + g * dbl_cos q) * (Fin 1 / Fin 3) / r) * (r + dr * h * (Fin 1 /
      Fin 3)) + k * (r - r0 + dr * h * (Fin 1 / Fin 3)) / m) * (Fin 12 / Fin 25)) + g * dbl_cos (q
      + dq * h * (Fin 4 / Fin 25) + h * (dq - h * (dq * dr * Fin 2 + g * dbl_cos q) * (Fin 1 / Fin
      3) / r) * (Fin 6 / Fin 25))) * (Fin 15 / Fin 4) / (r + dr * h * (Fin 4 / Fin 25) + h * (dr -
      h * (- (dq * dq) * r + g * dbl_sin q + k * (r - r0) / m) * (Fin 1 / Fin 3)) * (Fin 6 / Fin
      25)) - h * (dq * dr * Fin 2 + g * dbl_cos q) * (Fin 1 / Fin 4) / r) * (r + dr * h * (Fin 1 /
      Fin 4) - h * (dr - h * (- (dq * dq) * r + g * dbl_sin q + k * (r - r0) / m) * (Fin 1 / Fin
      3)) * Fin 3 - h * (- dr + h * (- (dq * dq) * r + g * dbl_sin q + k * (r - r0) / m) * (Fin 4 /
      Fin 25) + h * (g * dbl_sin (q + dq * h * (Fin 1 / Fin 3)) - dbl_sq (dq - h * (dq * dr * Fin 2
      + g * dbl_cos q) * (Fin 1 / Fin 3) / r) * (r + dr * h * (Fin 1 / Fin 3)) + k * (r - r0 + dr *
      h * (Fin 1 / Fin 3)) / m) * (Fin 6 / Fin 25)) * (Fin 15 / Fin 4)) + k * (- r + r0 - dr * h *
      (Fin 1 / Fin 4) + h * (dr - h * (- (dq * dq) * r + g * dbl_sin q + k * (r - r0) / m) * (Fin 1
      / Fin 3)) * Fin 3 + h * (- dr + h * (- (dq * dq) * r + g * dbl_sin q + k * (r - r0) / m) *
      (Fin 4 / Fin 25) + h * (g * dbl_sin (q + dq * h * (Fin 1 / Fin 3)) - dbl_sq (dq - h * (dq *
      dr * Fin 2 + g * dbl_cos q) * (Fin 1 / Fin 3) / r) * (r + dr * h * (Fin 1 / Fin 3)) + k * (r
      - r0 + dr * h * (Fin 1 / Fin 3)) / m) * (Fin 6 / Fin 25)) * (Fin 15 / Fin 4)) / m) * (Fin 16
      / Fin 81) - h * (- (dq * dq) * r + g * dbl_sin q + k * (r - r0) / m) * (Fin 4 / Fin 27) - h *
      (g * dbl_sin (q + dq * h * (Fin 1 / Fin 3)) - dbl_sq (dq - h * (dq * dr * Fin 2 + g * dbl_cos
      q) * (Fin 1 / Fin 3) / r) * (r + dr * h * (Fin 1 / Fin 3)) + k * (r - r0 + dr * h * (Fin 1 /
      Fin 3)) / m) * (Fin 20 / Fin 9)) * (- dq + h * (g * dbl_cos (q + dq * h * (Fin 1 / Fin 4) - h
      * (dq - h * (dq * dr * Fin 2 + g * dbl_cos q) * (Fin 1 / Fin 3) / r) * Fin 3 - h * (- dq + h
      * (g * dbl_cos (q + dq * h * (Fin 1 / Fin 3)) + (dq - h * (dq * dr * Fin 2 + g * dbl_cos q) *
      (Fin 1 / Fin 3) / r) * (dr * Fin 2 - h * (- (dq * dq) * r + g * dbl_sin q + k * (r - r0) / m)
      * (Fin 2 / Fin 3))) * (Fin 6 / Fin 25) / (r + dr * h * (Fin 1 / Fin 3)) + h * (dq * dr * Fin
      2 + g * dbl_cos q) * (Fin 4 / Fin 25) / r) * (Fin 15 / Fin 4)) + (dr * Fin 2 - h * (- (r + dr
      * h * (Fin 4 / Fin 25) + h * (dr - h * (- (dq * dq) * r + g * dbl_sin q + k * (r - r0) / m) *
      (Fin 1 / Fin 3)) * (Fin 6 / Fin 25)) * dbl_sq (- dq + h * (g * dbl_cos (q + dq * h * (Fin 1 /
      Fin 3)) + (dq - h * (dq * dr * Fin 2 + g * dbl_cos q) * (Fin 1 / Fin 3) / r) * (dr * Fin 2 -
      h * (- (dq * dq) * r + g * dbl_sin q + k * (r - r0) / m) * (Fin 2 / Fin 3))) * (Fin 6 / Fin
      25) / (r + dr * h * (Fin 1 / Fin 3)) + h * (dq * dr * Fin 2 + g * dbl_cos q) * (Fin 4 / Fin
      25) / r) + g * dbl_sin (q + dq * h * (Fin 4 / Fin 25) + h * (dq - h * (dq * dr * Fin 2 + g *
      dbl_cos q) * (Fin 1 / Fin 3) / r) * (Fin 6 / Fin 25)) + k * (r - r0 + dr * h * (Fin 4 / Fin
      25) + h * (dr - h * (- (dq * dq) * r + g * dbl_sin q + k * (r - r0) / m) * (Fin 1 / Fin 3)) *
      (Fin 6 / Fin 25)) / m) * (Fin 15 / Fin 2) - h * (- (dq * dq) * r + g * dbl_sin q + k * (r -
      r0) / m) * (Fin 1 / Fin 2) + h * (g * dbl_sin (q + dq * h * (Fin 1 / Fin 3)) - dbl_sq (dq - h
      * (dq * dr * Fin 2 + g * dbl_cos q) * (Fin 1 / Fin 3) / r) * (r + dr * h * (Fin 1 / Fin 3)) +
      k * (r - r0 + dr * h * (Fin 1 / Fin 3)) / m) * Fin 6) * (dq + h * (g * dbl_cos (q + dq * h *
      (Fin 1 / Fin 3)) + (dq - h * (dq * dr * Fin 2 + g * dbl_cos q) * (Fin 1 / Fin 3) / r) * (dr *
      Fin 2 - h * (- (dq * dq) * r + g * dbl_sin q + k * (r - r0) / m) * (Fin 2 / Fin 3))) * Fin 3
      / (r + dr * h * (Fin 1 / Fin 3)) - h * ((- dq + h * (g * dbl_cos (q + dq * h * (Fin 1 / Fin
      3)) + (dq - h * (dq * dr * Fin 2 + g * dbl_cos q) * (Fin 1 / Fin 3) / r) * (dr * Fin 2 - h *
      (- (dq * dq) * r + g * dbl_sin q + k * (r - r0) / m) * (Fin 2 / Fin 3))) * (Fin 6 / Fin 25) /
      (r + dr * h * (Fin 1 / Fin 3)) + h * (dq * dr * Fin 2 + g * dbl_cos q) * (Fin 4 / Fin 25) /
      r) * (dr * - Fin 2 + h * (- (dq * dq) * r + g * dbl_sin q + k * (r - r0) / m) * (Fin 8 / Fin
      25) + h * (g * dbl_sin (q + dq * h * (Fin 1 / Fin 3)) - dbl_sq (dq - h * (dq * dr * Fin 2 + g
      * dbl_cos q) * (Fin 1 / Fin 3) / r) * (r + dr * h * (Fin 1 / Fin 3)) + k * (r - r0 + dr * h *
      (Fin 1 / Fin 3)) / m) * (Fin 12 / Fin 25)) + g * dbl_cos (q + dq * h * (Fin 4 / Fin 25) + h *
      (dq - h * (dq * dr * Fin 2 + g * dbl_cos q) * (Fin 1 / Fin 3) / r) * (Fin 6 / Fin 25))) *
      (Fin 15 / Fin 4) / (r + dr * h * (Fin 4 / Fin 25) + h * (dr - h * (- (dq * dq) * r + g *
      dbl_sin q + k * (r - r0) / m) * (Fin 1 / Fin 3)) * (Fin 6 / Fin 25)) - h * (dq * dr * Fin 2 +
      g * dbl_cos q) * (Fin 1 / Fin 4) / r)) * (Fin 8 / Fin 81) / (r + dr * h * (Fin 1 / Fin 4) - h
      * (dr - h * (- (dq * dq) * r + g * dbl_sin q + k * (r - r0) / m) * (Fin 1 / Fin 3)) * Fin 3 -
      h * (- dr + h * (- (dq * dq) * r + g * dbl_sin q + k * (r - r0) / m) * (Fin 4 / Fin 25) + h *
      (g * dbl_sin (q + dq * h * (Fin 1 / Fin 3)) - dbl_sq (dq - h * (dq * dr * Fin 2 + g * dbl_cos
      q) * (Fin 1 / Fin 3) / r) * (r + dr * h * (Fin 1 / Fin 3)) + k * (r - r0 + dr * h * (Fin 1 /
      Fin 3)) / m) * (Fin 6 / Fin 25)) * (Fin 15 / Fin 4)) + h * (g * dbl_cos (q + dq * h * (Fin 1
      / Fin 3)) + (dq - h * (dq * dr * Fin 2 + g * dbl_cos q) * (Fin 1 / Fin 3) / r) * (dr * Fin 2
      - h * (- (dq * dq) * r + g * dbl_sin q + k * (r - r0) / m) * (Fin 2 / Fin 3))) * (Fin 10 /
      Fin 9) / (r + dr * h * (Fin 1 / Fin 3)) - h * ((- dq + h * (g * dbl_cos (q + dq * h * (Fin 1
      / Fin 3)) + (dq - h * (dq * dr * Fin 2 + g * dbl_cos q) * (Fin 1 / Fin 3) / r) * (dr * Fin 2
      - h * (- (dq * dq) * r + g * dbl_sin q + k * (r - r0) / m) * (Fin 2 / Fin 3))) * (Fin 6 / Fin
      25) / (r + dr * h * (Fin 1 / Fin 3)) + h * (dq * dr * Fin 2 + g * dbl_cos q) * (Fin 4 / Fin
      25) / r) * (dr * - Fin 2 + h * (- (dq * dq) * r + g * dbl_sin q + k * (r - r0) / m) * (Fin 8
      / Fin 25) + h * (g * dbl_sin (q + dq * h * (Fin 1 / Fin 3)) - dbl_sq (dq - h * (dq * dr * Fin
      2 + g * dbl_cos q) * (Fin 1 / Fin 3) / r) * (r + dr * h * (Fin 1 / Fin 3)) + k * (r - r0 + dr
      * h * (Fin 1 / Fin 3)) / m) * (Fin 12 / Fin 25)) + g * dbl_cos (q + dq * h * (Fin 4 / Fin 25)
      + h * (dq - h * (dq * dr * Fin 2 + g * dbl_cos q) * (Fin 1 / Fin 3) / r) * (Fin 6 / Fin 25)))
      * (Fin 50 / Fin 81) / (r + dr * h * (Fin 4 / Fin 25) + h * (dr - h * (- (dq * dq) * r + g *
      dbl_sin q + k * (r - r0) / m) * (Fin 1 / Fin 3)) * (Fin 6 / Fin 25)) + h * (dq * dr * Fin 2 +
      g * dbl_cos q) * (Fin 2 / Fin 27) / r)) * (Fin 27 / Fin 64) / (r + dr * h * (Fin 2 / Fin 27)
      + h * (dr - h * (- (dq * dq) * r + g * dbl_sin q + k * (r - r0) / m) * (Fin 1 / Fin 3)) *
      (Fin 10 / Fin 9) + h * (dr - h * (- (r + dr * h * (Fin 4 / Fin 25) + h * (dr - h * (- (dq *
      dq) * r + g * dbl_sin q + k * (r - r0) / m) * (Fin 1 / Fin 3)) * (Fin 6 / Fin 25)) * dbl_sq
      (- dq + h * (g * dbl_cos (q + dq * h * (Fin 1 / Fin 3)) + (dq - h * (dq * dr * Fin 2 + g *
      dbl_cos q) * (Fin 1 / Fin 3) / r) * (dr * Fin 2 - h * (- (dq * dq) * r + g * dbl_sin q + k *
      (r - r0) / m) * (Fin 2 / Fin 3))) * (Fin 6 / Fin 25) / (r + dr * h * (Fin 1 / Fin 3)) + h *
      (dq * dr * Fin 2 + g * dbl_cos q) * (Fin 4 / Fin 25) / r) + g * dbl_sin (q + dq * h * (Fin 4
      / Fin 25) + h * (dq - h * (dq * dr * Fin 2 + g * dbl_cos q) * (Fin 1 / Fin 3) / r) * (Fin 6 /
      Fin 25)) + k * (r - r0 + dr * h * (Fin 4 / Fin 25) + h * (dr - h * (- (dq * dq) * r + g *
      dbl_sin q + k * (r - r0) / m) * (Fin 1 / Fin 3)) * (Fin 6 / Fin 25)) / m) * (Fin 15 / Fin 4)
      - h * (- (dq * dq) * r + g * dbl_sin q + k * (r - r0) / m) * (Fin 1 / Fin 4) + h * (g *
      dbl_sin (q + dq * h * (Fin 1 / Fin 3)) - dbl_sq (dq - h * (dq * dr * Fin 2 + g * dbl_cos q) *
      (Fin 1 / Fin 3) / r) * (r + dr * h * (Fin 1 / Fin 3)) + k * (r - r0 + dr * h * (Fin 1 / Fin
      3)) / m) * Fin 3) * (Fin 8 / Fin 81) + h * (- dr + h * (- (dq * dq) * r + g * dbl_sin q + k *
      (r - r0) / m) * (Fin 4 / Fin 25) + h * (g * dbl_sin (q + dq * h * (Fin 1 / Fin 3)) - dbl_sq
      (dq - h * (dq * dr * Fin 2 + g * dbl_cos q) * (Fin 1 / Fin 3) / r) * (r + dr * h * (Fin 1 /
      Fin 3)) + k * (r - r0 + dr * h * (Fin 1 / Fin 3)) / m) * (Fin 6 / Fin 25)) * (Fin 50 / Fin
      81)) - h * (dq * dr * Fin 2 + g * dbl_cos q) * (Fin 23 / Fin 192) / r"

definition advanceRK5 :: "ASCSlipModel \<Rightarrow> SlipState \<Rightarrow> SlipState" where
  "advanceRK5 c slipState =
     (let h = of_int_dbl CONTROLLER_LOOP_PERIOD_NS / of_int_dbl SECOND_IN_NANOSECONDS;
          g = Fin G_ACC; k = sm_k c; m = sm_m c; r0 = sm_r0 c
      in advance_with (\<lambda>r dr q dq. (rk5_rNew g h k m r0 r dr q dq, rk5_drNew g h k m r0 r dr q dq,
           rk5_qNew g h k m r0 r dr q dq, rk5_dqNew g h k m r0 r dr q dq)) c slipState)"

definition slip_force :: "ASCSlipModel \<Rightarrow> SlipState \<Rightarrow> LegForce" where
  "slip_force c slipState =
     (let r = ss_r slipState; dr = ss_dr slipState; q = ss_q slipState; dq = ss_dq slipState;
          k = sm_k c; dk = sm_dk c; r0 = sm_r0 c
      in if isFlight slipState then \<lparr>fx = 0, fz = 0, dfx = 0, dfz = 0\<rparr>
         else \<lparr>fx = k * (r - r0) * dbl_cos q, fz = k * (r - r0) * dbl_sin q,
               dfx = dr * dbl_cos q * k + dk * dbl_cos q * (r - r0) - dq * dbl_sin q * k * (r - r0),
               dfz = dr * dbl_sin q * k + dk * dbl_sin q * (r - r0) + dq * dbl_cos q * k * (r - r0)\<rparr>)"

subsection \<open>Runge-Kutta methods\<close>

text \<open>States as tuples of length, its rate, angle and its rate; the equations of the pendulum.\<close>

type_synonym slip = "real \<times> real \<times> real \<times> real"

fun slip_ode :: "real \<Rightarrow> real \<Rightarrow> real \<Rightarrow> real \<Rightarrow> slip \<Rightarrow> slip" where
  "slip_ode g k m r0 (r, dr, q, dq) =
     (dr, r * dq\<^sup>2 - g * sin q - k * (r - r0) / m, dq, - (2 * dr * dq + g * cos q) / r)"

fun axpy :: "real \<Rightarrow> slip \<Rightarrow> slip \<Rightarrow> slip" where
  "axpy a (x1, x2, x3, x4) (y1, y2, y3, y4) = (a * x1 + y1, a * x2 + y2, a * x3 + y3, a * x4 + y4)"

text \<open>
  An explicit method is given by the rows of its tableau and its weights: \<open>rk_points\<close> are the states at
  which it evaluates the equations.
\<close>

definition rk_combine :: "real \<Rightarrow> slip \<Rightarrow> real list \<Rightarrow> slip list \<Rightarrow> slip" where
  "rk_combine h y ws ks = foldr (\<lambda>(w, k). axpy (h * w) k) (zip ws ks) y"

definition rk_points :: "(slip \<Rightarrow> slip) \<Rightarrow> real \<Rightarrow> real list list \<Rightarrow> slip \<Rightarrow> slip list" where
  "rk_points f h A y = foldl (\<lambda>ps row. ps @ [rk_combine h y row (map f ps)]) [] A"

definition runge_kutta :: "(slip \<Rightarrow> slip) \<Rightarrow> real \<Rightarrow> real list list \<Rightarrow> real list \<Rightarrow> slip \<Rightarrow> slip" where
  "runge_kutta f h A b y = rk_combine h y b (map f (rk_points f h A y))"

text \<open>The classical method of fourth order, and the tableau of Nystrom's method of fifth order.\<close>

definition rk4_tableau :: "real list list" where
  "rk4_tableau = [[], [1 / 2], [0, 1 / 2], [0, 0, 1]]"

definition rk4_weights :: "real list" where
  "rk4_weights = [1 / 6, 1 / 3, 1 / 3, 1 / 6]"

definition nystrom_tableau :: "real list list" where
  "nystrom_tableau = [[], [1 / 3], [4 / 25, 6 / 25], [1 / 4, - 3, 15 / 4], [2 / 27, 10 / 9, - 50 / 81, 8 / 81],
     [2 / 25, 12 / 25, 2 / 15, 8 / 75]]"

definition nystrom_weights :: "real list" where
  "nystrom_weights = [23 / 192, 0, 125 / 192, 0, - 27 / 64, 125 / 192]"

text \<open>The weights that the code has: that of the third stage is given to the second.\<close>

definition rk5_weights :: "real list" where
  "rk5_weights = [23 / 192, 125 / 192, 0, 0, - 27 / 64, 125 / 192]"

subsection \<open>The formulas are Runge-Kutta steps\<close>

text \<open>
  The formulas against the values of the four stages, in the order in which the formulas nest
  them: \<open>a\<close> and \<open>b\<close> are the radial and the angular acceleration up to sign, and up to the division by the
  length, \<open>v\<close>, \<open>w\<close>, \<open>r\<close>, \<open>q\<close> the states at which the stages are evaluated.
\<close>

lemma rk4_formulas:
  fixes g h k m r0 r dr q dq a1 b1 v1 w1 r1 q1 a2 b2 v2 w2 r2 q2 a3 b3 v3 w3 r3 q3 a4 b4 :: real
  assumes a1: "a1 = - (dq * dq) * r + g * sin q + k * (r - r0) / m" and b1: "b1 = dq * dr * 2 + g * cos q"
    and v1: "v1 = dr - h * a1 * (1 / 2)" and w1: "w1 = dq - h * b1 * (1 / 2) / r"
    and r1: "r1 = r + dr * h * (1 / 2)" and q1: "q1 = q + dq * h * (1 / 2)"
    and a2: "a2 = g * sin q1 - w1 * w1 * r1 + k * (r1 - r0) / m" and b2: "b2 = g * cos q1 + w1 * (2 * v1)"
    and v2: "v2 = dr - h * a2 * (1 / 2)" and w2: "w2 = dq - h * b2 * (1 / 2) / r1"
    and r2: "r2 = r + h * v1 * (1 / 2)" and q2: "q2 = q + h * w1 * (1 / 2)"
    and a3: "a3 = g * sin q2 - w2 * w2 * r2 + k * (r2 - r0) / m" and b3: "b3 = g * cos q2 + w2 * (2 * v2)"
    and v3: "v3 = dr - h * a3" and w3: "w3 = dq - h * b3 / r2"
    and r3: "r3 = r + h * v2" and q3: "q3 = q + h * w2"
    and a4: "a4 = - (w3 * w3) * r3 + g * sin q3 + k * (r3 - r0) / m" and b4: "b4 = w3 * (2 * v3) + g * cos q3"
    and ne: "m \<noteq> 0" "r \<noteq> 0" "r1 \<noteq> 0" "r2 \<noteq> 0" "r3 \<noteq> 0"
  shows "rk4_rNew (Fin g) (Fin h) (Fin k) (Fin m) (Fin r0) (Fin r) (Fin dr) (Fin q) (Fin dq) =
      Fin (r + h / 6 * (dr + 2 * v1 + 2 * v2 + v3)) \<and>
    rk4_drNew (Fin g) (Fin h) (Fin k) (Fin m) (Fin r0) (Fin r) (Fin dr) (Fin q) (Fin dq) =
      Fin (dr - h / 6 * (a1 + 2 * a2 + 2 * a3 + a4)) \<and>
    rk4_qNew (Fin g) (Fin h) (Fin k) (Fin m) (Fin r0) (Fin r) (Fin dr) (Fin q) (Fin dq) =
      Fin (q + h / 6 * (dq + 2 * w1 + 2 * w2 + w3)) \<and>
    rk4_dqNew (Fin g) (Fin h) (Fin k) (Fin m) (Fin r0) (Fin r) (Fin dr) (Fin q) (Fin dq) =
      Fin (dq - h / 6 * (b1 / r + 2 * (b2 / r1) + 2 * (b3 / r2) + b4 / r3))"
proof -
  have stages:
    "- (Fin dq * Fin dq) * Fin r + Fin g * dbl_sin (Fin q) + Fin k * (Fin r - Fin r0) / Fin m = Fin a1"
    "Fin dq * Fin dr * Fin 2 + Fin g * dbl_cos (Fin q) = Fin b1"
    "Fin dr - Fin h * Fin a1 * (Fin 1 / Fin 2) = Fin v1"
    "Fin dq - Fin h * Fin b1 * (Fin 1 / Fin 2) / Fin r = Fin w1"
    "Fin r + Fin dr * Fin h * (Fin 1 / Fin 2) = Fin r1"
    "Fin q + Fin dq * Fin h * (Fin 1 / Fin 2) = Fin q1"
    "Fin r - Fin r0 + Fin dr * Fin h * (Fin 1 / Fin 2) = Fin (r1 - r0)"
    "Fin g * dbl_sin (Fin q1) - dbl_sq (Fin w1) * Fin r1 + Fin k * Fin (r1 - r0) / Fin m = Fin a2"
    "Fin dr * Fin 2 - Fin h * Fin a1 = Fin (2 * v1)"
    "Fin g * dbl_cos (Fin q1) + Fin w1 * Fin (2 * v1) = Fin b2"
    "Fin dr - Fin h * Fin a2 * (Fin 1 / Fin 2) = Fin v2"
    "Fin dq - Fin h * Fin b2 * (Fin 1 / Fin 2) / Fin r1 = Fin w2"
    "Fin r + Fin h * Fin v1 * (Fin 1 / Fin 2) = Fin r2"
    "Fin r - Fin r0 + Fin h * Fin v1 * (Fin 1 / Fin 2) = Fin (r2 - r0)"
    "Fin q + Fin h * Fin w1 * (Fin 1 / Fin 2) = Fin q2"
    "Fin g * dbl_sin (Fin q2) - dbl_sq (Fin w2) * Fin r2 + Fin k * Fin (r2 - r0) / Fin m = Fin a3"
    "Fin dr * Fin 2 - Fin h * Fin a2 = Fin (2 * v2)"
    "Fin g * dbl_cos (Fin q2) + Fin w2 * Fin (2 * v2) = Fin b3"
    "Fin dr - Fin h * Fin a3 = Fin v3"
    "Fin dq - Fin h * Fin b3 / Fin r2 = Fin w3"
    "Fin r + Fin h * Fin v2 = Fin r3" "Fin r - Fin r0 + Fin h * Fin v2 = Fin (r3 - r0)"
    "Fin q + Fin h * Fin w2 = Fin q3"
    "- dbl_sq (Fin w3) * Fin r3 + Fin g * dbl_sin (Fin q3) + Fin k * Fin (r3 - r0) / Fin m = Fin a4"
    "Fin dr * Fin 2 - Fin h * Fin a3 * Fin 2 = Fin (2 * v3)"
    "Fin w3 * Fin (2 * v3) + Fin g * dbl_cos (Fin q3) = Fin b4"
    using ne
    by (simp add: a1, simp add: b1, simp add: v1, simp add: w1,
        simp add: r1, simp add: q1, simp add: r1, simp add: dbl_sq_def a2,
        simp add: v1, simp add: b2, simp add: v2, simp add: w2,
        simp add: r2, simp add: r2, simp add: q2, simp add: dbl_sq_def a3,
        simp add: v2, simp add: b3, simp add: v3, simp add: w3,
        simp add: r3, simp add: r3, simp add: q3, simp add: dbl_sq_def a4,
        simp add: v3, simp add: b4)
  show ?thesis
    unfolding rk4_rNew_def rk4_drNew_def rk4_qNew_def rk4_dqNew_def
    using ne by (intro conjI; simp only: stages) (simp_all add: field_simps)
qed

text \<open>One call against one step.\<close>

lemma advanceRK4_is_runge_kutta_step:
  assumes "c = \<lparr>sm_k = Fin k, sm_dk = dk, sm_r0 = Fin r0, sm_m = Fin m\<rparr>" and "m \<noteq> 0"
    and "st = \<lparr>isFlight = fl, isStance = sta, ss_r = Fin r, ss_dr = Fin dr, ss_q = Fin q, ss_dq = Fin dq\<rparr>"
    and "r \<le> r0" and "f = slip_ode G_ACC k m r0"
    and "\<forall>p \<in> set (rk_points f 0.001 rk4_tableau (r, dr, q, dq)). fst p \<noteq> 0"
  shows "case runge_kutta f 0.001 rk4_tableau rk4_weights (r, dr, q, dq) of (r', dr', q', dq') \<Rightarrow>
    advanceRK4 c st = \<lparr>isFlight = False, isStance = True,
      ss_r = Fin r', ss_dr = Fin dr', ss_q = Fin q', ss_dq = Fin dq'\<rparr>"
proof -
  define h :: real where "h = 0.001"
  define a1 b1 v1 w1 r1 q1 where "a1 = - (dq * dq) * r + G_ACC * sin q + k * (r - r0) / m"
    and "b1 = dq * dr * 2 + G_ACC * cos q" and "v1 = dr - h * a1 * (1 / 2)"
    and "w1 = dq - h * b1 * (1 / 2) / r" and "r1 = r + dr * h * (1 / 2)" and "q1 = q + dq * h * (1 / 2)"
  define a2 b2 v2 w2 r2 q2 where "a2 = G_ACC * sin q1 - w1 * w1 * r1 + k * (r1 - r0) / m"
    and "b2 = G_ACC * cos q1 + w1 * (2 * v1)" and "v2 = dr - h * a2 * (1 / 2)"
    and "w2 = dq - h * b2 * (1 / 2) / r1" and "r2 = r + h * v1 * (1 / 2)" and "q2 = q + h * w1 * (1 / 2)"
  define a3 b3 v3 w3 r3 q3 where "a3 = G_ACC * sin q2 - w2 * w2 * r2 + k * (r2 - r0) / m"
    and "b3 = G_ACC * cos q2 + w2 * (2 * v2)" and "v3 = dr - h * a3" and "w3 = dq - h * b3 / r2"
    and "r3 = r + h * v2" and "q3 = q + h * w2"
  define a4 b4 where "a4 = - (w3 * w3) * r3 + G_ACC * sin q3 + k * (r3 - r0) / m"
    and "b4 = w3 * (2 * v3) + G_ACC * cos q3"
  have f1: "f (r, dr, q, dq) = (dr, - a1, dq, - b1 / r)"
    by (simp add: assms(5) a1_def b1_def power2_eq_square)
  have y2: "rk_combine h (r, dr, q, dq) [1 / 2] [(dr, - a1, dq, - b1 / r)] = (r1, v1, q1, w1)"
    by (simp add: rk_combine_def r1_def v1_def q1_def w1_def)
  have f2: "f (r1, v1, q1, w1) = (v1, - a2, w1, - b2 / r1)"
    by (simp add: assms(5) a2_def b2_def power2_eq_square)
  have y3: "rk_combine h (r, dr, q, dq) [0, 1 / 2] [(dr, - a1, dq, - b1 / r), (v1, - a2, w1, - b2 / r1)] =
      (r2, v2, q2, w2)"
    by (simp add: rk_combine_def r2_def v2_def q2_def w2_def)
  have f3: "f (r2, v2, q2, w2) = (v2, - a3, w2, - b3 / r2)"
    by (simp add: assms(5) a3_def b3_def power2_eq_square)
  have y4: "rk_combine h (r, dr, q, dq) [0, 0, 1]
      [(dr, - a1, dq, - b1 / r), (v1, - a2, w1, - b2 / r1), (v2, - a3, w2, - b3 / r2)] = (r3, v3, q3, w3)"
    by (simp add: rk_combine_def r3_def v3_def q3_def w3_def)
  have f4: "f (r3, v3, q3, w3) = (v3, - a4, w3, - b4 / r3)"
    by (simp add: assms(5) a4_def b4_def power2_eq_square)
  have y1: "rk_combine h (r, dr, q, dq) [] [] = (r, dr, q, dq)" by (simp add: rk_combine_def)
  have pts: "rk_points f h rk4_tableau (r, dr, q, dq) =
      [(r, dr, q, dq), (r1, v1, q1, w1), (r2, v2, q2, w2), (r3, v3, q3, w3)]"
    unfolding rk_points_def rk4_tableau_def
    by (simp only: foldl.simps append.simps list.map f1 f2 f3 y1 y2 y3 y4)
  have ne: "r \<noteq> 0" "r1 \<noteq> 0" "r2 \<noteq> 0" "r3 \<noteq> 0"
    using assms(6) unfolding h_def [symmetric] pts by simp_all
  have rk: "runge_kutta f h rk4_tableau rk4_weights (r, dr, q, dq) =
      (r + h / 6 * (dr + 2 * v1 + 2 * v2 + v3), dr - h / 6 * (a1 + 2 * a2 + 2 * a3 + a4),
       q + h / 6 * (dq + 2 * w1 + 2 * w2 + w3), dq - h / 6 * (b1 / r + 2 * (b2 / r1) + 2 * (b3 / r2) + b4 / r3))"
    unfolding runge_kutta_def rk_combine_def pts rk4_weights_def
    by (simp add: f1 f2 f3 f4) (simp add: algebra_simps)
  note fs = rk4_formulas [OF a1_def b1_def v1_def w1_def r1_def q1_def a2_def b2_def v2_def w2_def r2_def q2_def
      a3_def b3_def v3_def w3_def r3_def q3_def a4_def b4_def assms(2) ne]
  have h: "of_int_dbl CONTROLLER_LOOP_PERIOD_NS / of_int_dbl SECOND_IN_NANOSECONDS = Fin h"
    by (simp add: of_int_dbl_def consts_simp h_def)
  show ?thesis
    unfolding h_def [symmetric] rk
    using assms(4) by (simp add: advanceRK4_def advance_with_def Let_def h assms(1,3) fs)
qed

text \<open>
  C32. The closed formulas of \<open>advanceRK4\<close> are the classical Runge-Kutta method: in stance, and as long as
  no stage is at leg length zero, one call advances the state by exactly one step of the method of
  a millisecond on the equations of the spring-loaded inverted pendulum.
\<close>

theorem advanceRK4_is_runge_kutta:
  assumes "c = \<lparr>sm_k = Fin k, sm_dk = dk, sm_r0 = Fin r0, sm_m = Fin m\<rparr>" and "m \<noteq> 0"
    and "st = \<lparr>isFlight = fl, isStance = sta, ss_r = Fin r, ss_dr = Fin dr, ss_q = Fin q, ss_dq = Fin dq\<rparr>"
    and "r \<le> r0" and "f = slip_ode G_ACC k m r0"
    and "\<forall>p \<in> set (rk_points f 0.001 rk4_tableau (r, dr, q, dq)). fst p \<noteq> 0"
  shows "case runge_kutta f 0.001 rk4_tableau rk4_weights (r, dr, q, dq) of (r', dr', q', dq') \<Rightarrow>
    advanceRK4 c st = \<lparr>isFlight = False, isStance = True,
      ss_r = Fin r', ss_dr = Fin dr', ss_q = Fin q', ss_dq = Fin dq'\<rparr>"
  using assms by (rule advanceRK4_is_runge_kutta_step)

text \<open>The same for the six stages of \<open>advanceRK5\<close>.\<close>

lemma rk5_formulas:
  fixes g h k m r0 r dr q dq a1 b1 r2 v2 q2 w2 a2 b2 r3 v3 q3 w3 a3 b3 r4 v4 q4 w4 a4 b4 r5 v5 q5 w5 a5 b5 r6 v6 q6 w6 a6 b6 :: real
  assumes a1: "a1 = g * sin q - dq * dq * r + k * (r - r0) / m"
    and b1: "b1 = g * cos q + 2 * dr * dq"
    and r2: "r2 = r + h * (1 / 3 * dr)"
    and v2: "v2 = dr - h * (1 / 3 * a1)"
    and q2: "q2 = q + h * (1 / 3 * dq)"
    and w2: "w2 = dq - h * (1 / 3 * (b1 / r))"
    and a2: "a2 = g * sin q2 - w2 * w2 * r2 + k * (r2 - r0) / m"
    and b2: "b2 = g * cos q2 + 2 * v2 * w2"
    and r3: "r3 = r + h * (4 / 25 * dr + 6 / 25 * v2)"
    and v3: "v3 = dr - h * (4 / 25 * a1 + 6 / 25 * a2)"
    and q3: "q3 = q + h * (4 / 25 * dq + 6 / 25 * w2)"
    and w3: "w3 = dq - h * (4 / 25 * (b1 / r) + 6 / 25 * (b2 / r2))"
    and a3: "a3 = g * sin q3 - w3 * w3 * r3 + k * (r3 - r0) / m"
    and b3: "b3 = g * cos q3 + 2 * v3 * w3"
    and r4: "r4 = r + h * (1 / 4 * dr - 3 * v2 + 15 / 4 * v3)"
    and v4: "v4 = dr - h * (1 / 4 * a1 - 3 * a2 + 15 / 4 * a3)"
    and q4: "q4 = q + h * (1 / 4 * dq - 3 * w2 + 15 / 4 * w3)"
    and w4: "w4 = dq - h * (1 / 4 * (b1 / r) - 3 * (b2 / r2) + 15 / 4 * (b3 / r3))"
    and a4: "a4 = g * sin q4 - w4 * w4 * r4 + k * (r4 - r0) / m"
    and b4: "b4 = g * cos q4 + 2 * v4 * w4"
    and r5: "r5 = r + h * (2 / 27 * dr + 10 / 9 * v2 - 50 / 81 * v3 + 8 / 81 * v4)"
    and v5: "v5 = dr - h * (2 / 27 * a1 + 10 / 9 * a2 - 50 / 81 * a3 + 8 / 81 * a4)"
    and q5: "q5 = q + h * (2 / 27 * dq + 10 / 9 * w2 - 50 / 81 * w3 + 8 / 81 * w4)"
    and w5: "w5 = dq - h * (2 / 27 * (b1 / r) + 10 / 9 * (b2 / r2) - 50 / 81 * (b3 / r3) + 8 / 81 * (b4 / r4))"
    and a5: "a5 = g * sin q5 - w5 * w5 * r5 + k * (r5 - r0) / m"
    and b5: "b5 = g * cos q5 + 2 * v5 * w5"
    and r6: "r6 = r + h * (2 / 25 * dr + 12 / 25 * v2 + 2 / 15 * v3 + 8 / 75 * v4)"
    and v6: "v6 = dr - h * (2 / 25 * a1 + 12 / 25 * a2 + 2 / 15 * a3 + 8 / 75 * a4)"
    and q6: "q6 = q + h * (2 / 25 * dq + 12 / 25 * w2 + 2 / 15 * w3 + 8 / 75 * w4)"
    and w6: "w6 = dq - h * (2 / 25 * (b1 / r) + 12 / 25 * (b2 / r2) + 2 / 15 * (b3 / r3) + 8 / 75 * (b4 / r4))"
    and a6: "a6 = g * sin q6 - w6 * w6 * r6 + k * (r6 - r0) / m"
    and b6: "b6 = g * cos q6 + 2 * v6 * w6"
    and ne: "m \<noteq> 0" "r \<noteq> 0" "r2 \<noteq> 0" "r3 \<noteq> 0" "r4 \<noteq> 0" "r5 \<noteq> 0" "r6 \<noteq> 0"
  shows "rk5_rNew (Fin g) (Fin h) (Fin k) (Fin m) (Fin r0) (Fin r) (Fin dr) (Fin q) (Fin dq) =
      Fin (r + h * (23 / 192 * dr + 125 / 192 * v2 - 27 / 64 * v5 + 125 / 192 * v6)) \<and>
    rk5_drNew (Fin g) (Fin h) (Fin k) (Fin m) (Fin r0) (Fin r) (Fin dr) (Fin q) (Fin dq) =
      Fin (dr - h * (23 / 192 * a1 + 125 / 192 * a2 - 27 / 64 * a5 + 125 / 192 * a6)) \<and>
    rk5_qNew (Fin g) (Fin h) (Fin k) (Fin m) (Fin r0) (Fin r) (Fin dr) (Fin q) (Fin dq) =
      Fin (q + h * (23 / 192 * dq + 125 / 192 * w2 - 27 / 64 * w5 + 125 / 192 * w6)) \<and>
    rk5_dqNew (Fin g) (Fin h) (Fin k) (Fin m) (Fin r0) (Fin r) (Fin dr) (Fin q) (Fin dq) =
      Fin (dq - h * (23 / 192 * (b1 / r) + 125 / 192 * (b2 / r2) - 27 / 64 * (b5 / r5) + 125 / 192 * (b6 / r6)))"
proof -
  have stages:
    "- (Fin dq * Fin dq) * Fin r + Fin g * dbl_sin (Fin q) + Fin k * (Fin r - Fin r0) / Fin m =
       Fin a1"
    "Fin dr - Fin h * (Fin a1) * (Fin 1 / Fin 3) = Fin v2"
    "Fin r + Fin dr * Fin h * (Fin 4 / Fin 25) + Fin h * (Fin v2) * (Fin 6 / Fin 25) = Fin r3"
    "Fin q + Fin dq * Fin h * (Fin 1 / Fin 3) = Fin q2"
    "Fin dq * Fin dr * Fin 2 + Fin g * dbl_cos (Fin q) = Fin b1"
    "Fin dq - Fin h * (Fin b1) * (Fin 1 / Fin 3) / Fin r = Fin w2"
    "Fin dr * Fin 2 - Fin h * (Fin a1) * (Fin 2 / Fin 3) = Fin (2 * v2)"
    "Fin g * dbl_cos (Fin q2) + (Fin w2) * (Fin (2 * v2)) = Fin b2"
    "Fin r + Fin dr * Fin h * (Fin 1 / Fin 3) = Fin r2"
    "- Fin dq + Fin h * (Fin b2) * (Fin 6 / Fin 25) / (Fin r2) + Fin h * (Fin b1) * (Fin 4 / Fin
       25) / Fin r = Fin (- w3)"
    "Fin q + Fin dq * Fin h * (Fin 4 / Fin 25) + Fin h * (Fin w2) * (Fin 6 / Fin 25) = Fin q3"
    "Fin r - Fin r0 + Fin dr * Fin h * (Fin 4 / Fin 25) + Fin h * (Fin v2) * (Fin 6 / Fin 25) =
       Fin (r3 - r0)"
    "- (Fin r3) * dbl_sq (Fin (- w3)) + Fin g * dbl_sin (Fin q3) + Fin k * (Fin (r3 - r0)) / Fin m
       = Fin a3"
    "Fin q + Fin dq * Fin h * (Fin 1 / Fin 4) - Fin h * (Fin w2) * Fin 3 - Fin h * (Fin (- w3)) *
       (Fin 15 / Fin 4) = Fin q4"
    "Fin r - Fin r0 + Fin dr * Fin h * (Fin 1 / Fin 3) = Fin (r2 - r0)"
    "Fin g * dbl_sin (Fin q2) - dbl_sq (Fin w2) * (Fin r2) + Fin k * (Fin (r2 - r0)) / Fin m = Fin
       a2"
    "Fin dr * - Fin 2 + Fin h * (Fin a1) * (Fin 8 / Fin 25) + Fin h * (Fin a2) * (Fin 12 / Fin 25)
       = Fin (- (2 * v3))"
    "(Fin (- w3)) * (Fin (- (2 * v3))) + Fin g * dbl_cos (Fin q3) = Fin b3"
    "Fin dq + Fin h * (Fin b2) * Fin 3 / (Fin r2) - Fin h * (Fin b3) * (Fin 15 / Fin 4) / (Fin r3)
       - Fin h * (Fin b1) * (Fin 1 / Fin 4) / Fin r = Fin w4"
    "- Fin dr + Fin h * (Fin a1) * (Fin 4 / Fin 25) + Fin h * (Fin a2) * (Fin 6 / Fin 25) = Fin (-
       v3)"
    "Fin r + Fin dr * Fin h * (Fin 1 / Fin 4) - Fin h * (Fin v2) * Fin 3 - Fin h * (Fin (- v3)) *
       (Fin 15 / Fin 4) = Fin r4"
    "- Fin r + Fin r0 - Fin dr * Fin h * (Fin 1 / Fin 4) + Fin h * (Fin v2) * Fin 3 + Fin h * (Fin
       (- v3)) * (Fin 15 / Fin 4) = Fin (r0 - r4)"
    "- Fin g * dbl_sin (Fin q4) + dbl_sq (Fin w4) * (Fin r4) + Fin k * (Fin (r0 - r4)) / Fin m =
       Fin (- a4)"
    "- Fin dr + Fin h * (Fin a3) * (Fin 2 / Fin 15) - Fin h * (Fin (- a4)) * (Fin 8 / Fin 75) +
       Fin h * (Fin a1) * (Fin 2 / Fin 25) + Fin h * (Fin a2) * (Fin 12 / Fin 25) = Fin (- v6)"
    "Fin dr + Fin h * (Fin a3) * (Fin 50 / Fin 81) + Fin h * (Fin (- a4)) * (Fin 8 / Fin 81) - Fin
       h * (Fin a1) * (Fin 2 / Fin 27) - Fin h * (Fin a2) * (Fin 10 / Fin 9) = Fin v5"
    "Fin q + Fin dq * Fin h * (Fin 2 / Fin 25) + Fin h * (Fin w2) * (Fin 12 / Fin 25) - Fin h *
       (Fin (- w3)) * (Fin 2 / Fin 15) + Fin h * (Fin w4) * (Fin 8 / Fin 75) = Fin q6"
    "Fin dr - Fin h * (Fin a3) * (Fin 15 / Fin 4) - Fin h * (Fin a1) * (Fin 1 / Fin 4) + Fin h *
       (Fin a2) * Fin 3 = Fin v4"
    "Fin r + Fin dr * Fin h * (Fin 2 / Fin 25) + Fin h * (Fin v2) * (Fin 12 / Fin 25) + Fin h *
       (Fin v4) * (Fin 8 / Fin 75) - Fin h * (Fin (- v3)) * (Fin 2 / Fin 15) = Fin r6"
    "Fin dr * Fin 2 - Fin h * (Fin a3) * (Fin 15 / Fin 2) - Fin h * (Fin a1) * (Fin 1 / Fin 2) +
       Fin h * (Fin a2) * Fin 6 = Fin (2 * v4)"
    "Fin g * dbl_cos (Fin q4) + (Fin (2 * v4)) * (Fin w4) = Fin b4"
    "- Fin dq + Fin h * (Fin b4) * (Fin 8 / Fin 75) / (Fin r4) + Fin h * (Fin b2) * (Fin 12 / Fin
       25) / (Fin r2) + Fin h * (Fin b3) * (Fin 2 / Fin 15) / (Fin r3) + Fin h * (Fin b1) * (Fin 2
       / Fin 25) / Fin r = Fin (- w6)"
    "Fin r - Fin r0 + Fin dr * Fin h * (Fin 2 / Fin 25) + Fin h * (Fin v2) * (Fin 12 / Fin 25) +
       Fin h * (Fin v4) * (Fin 8 / Fin 75) - Fin h * (Fin (- v3)) * (Fin 2 / Fin 15) = Fin (r6 -
       r0)"
    "Fin g * dbl_sin (Fin q6) - (Fin r6) * dbl_sq (Fin (- w6)) + Fin k * (Fin (r6 - r0)) / Fin m =
       Fin a6"
    "Fin q + Fin dq * Fin h * (Fin 2 / Fin 27) + Fin h * (Fin w2) * (Fin 10 / Fin 9) + Fin h *
       (Fin (- w3)) * (Fin 50 / Fin 81) + Fin h * (Fin w4) * (Fin 8 / Fin 81) = Fin q5"
    "Fin r + Fin dr * Fin h * (Fin 2 / Fin 27) + Fin h * (Fin v2) * (Fin 10 / Fin 9) + Fin h *
       (Fin v4) * (Fin 8 / Fin 81) + Fin h * (Fin (- v3)) * (Fin 50 / Fin 81) = Fin r5"
    "- Fin dq + Fin h * (Fin b4) * (Fin 8 / Fin 81) / (Fin r4) + Fin h * (Fin b2) * (Fin 10 / Fin
       9) / (Fin r2) - Fin h * (Fin b3) * (Fin 50 / Fin 81) / (Fin r3) + Fin h * (Fin b1) * (Fin 2
       / Fin 27) / Fin r = Fin (- w5)"
    "Fin r - Fin r0 + Fin dr * Fin h * (Fin 2 / Fin 27) + Fin h * (Fin v2) * (Fin 10 / Fin 9) +
       Fin h * (Fin v4) * (Fin 8 / Fin 81) + Fin h * (Fin (- v3)) * (Fin 50 / Fin 81) = Fin (r5 -
       r0)"
    "Fin g * dbl_sin (Fin q5) - (Fin r5) * dbl_sq (Fin (- w5)) + Fin k * (Fin (r5 - r0)) / Fin m =
       Fin a5"
    "Fin dr * - Fin 2 + Fin h * (Fin a3) * (Fin 4 / Fin 15) - Fin h * (Fin (- a4)) * (Fin 16 / Fin
       75) + Fin h * (Fin a1) * (Fin 4 / Fin 25) + Fin h * (Fin a2) * (Fin 24 / Fin 25) = Fin (- (2
       * v6))"
    "Fin g * dbl_cos (Fin q6) + (Fin (- (2 * v6))) * (Fin (- w6)) = Fin b6"
    "Fin dr * Fin 2 + Fin h * (Fin a3) * (Fin 100 / Fin 81) + Fin h * (Fin (- a4)) * (Fin 16 / Fin
       81) - Fin h * (Fin a1) * (Fin 4 / Fin 27) - Fin h * (Fin a2) * (Fin 20 / Fin 9) = Fin (2 *
       v5)"
    "Fin g * dbl_cos (Fin q5) - (Fin (2 * v5)) * (Fin (- w5)) = Fin b5"
  using ne
  by ((simp add: dbl_sq_def a1; simp add: algebra_simps add_divide_distrib diff_divide_distrib), (simp add: v2; simp add: algebra_simps add_divide_distrib diff_divide_distrib), (simp add: r3; simp add: algebra_simps add_divide_distrib diff_divide_distrib),
      (simp add: q2; simp add: algebra_simps add_divide_distrib diff_divide_distrib), (simp add: b1; simp add: algebra_simps add_divide_distrib diff_divide_distrib), (simp add: w2; simp add: algebra_simps add_divide_distrib diff_divide_distrib),
      (simp add: v2; simp add: algebra_simps add_divide_distrib diff_divide_distrib), (simp add: b2; simp add: algebra_simps add_divide_distrib diff_divide_distrib), (simp add: r2; simp add: algebra_simps add_divide_distrib diff_divide_distrib),
      (simp add: w3; simp add: algebra_simps add_divide_distrib diff_divide_distrib), (simp add: q3; simp add: algebra_simps add_divide_distrib diff_divide_distrib), (simp add: r3; simp add: algebra_simps add_divide_distrib diff_divide_distrib),
      (simp add: dbl_sq_def a3; simp add: algebra_simps add_divide_distrib diff_divide_distrib), (simp add: q4; simp add: algebra_simps add_divide_distrib diff_divide_distrib), (simp add: r2; simp add: algebra_simps add_divide_distrib diff_divide_distrib),
      (simp add: dbl_sq_def a2; simp add: algebra_simps add_divide_distrib diff_divide_distrib), (simp add: v3; simp add: algebra_simps add_divide_distrib diff_divide_distrib), (simp add: b3; simp add: algebra_simps add_divide_distrib diff_divide_distrib),
      (simp add: w4; simp add: algebra_simps add_divide_distrib diff_divide_distrib), (simp add: v3; simp add: algebra_simps add_divide_distrib diff_divide_distrib), (simp add: r4; simp add: algebra_simps add_divide_distrib diff_divide_distrib),
      (simp add: r4; simp add: algebra_simps add_divide_distrib diff_divide_distrib), (simp add: dbl_sq_def a4; simp add: algebra_simps add_divide_distrib diff_divide_distrib), (simp add: v6; simp add: algebra_simps add_divide_distrib diff_divide_distrib),
      (simp add: v5; simp add: algebra_simps add_divide_distrib diff_divide_distrib), (simp add: q6; simp add: algebra_simps add_divide_distrib diff_divide_distrib), (simp add: v4; simp add: algebra_simps add_divide_distrib diff_divide_distrib),
      (simp add: r6; simp add: algebra_simps add_divide_distrib diff_divide_distrib), (simp add: v4; simp add: algebra_simps add_divide_distrib diff_divide_distrib), (simp add: b4; simp add: algebra_simps add_divide_distrib diff_divide_distrib),
      (simp add: w6; simp add: algebra_simps add_divide_distrib diff_divide_distrib), (simp add: r6; simp add: algebra_simps add_divide_distrib diff_divide_distrib), (simp add: dbl_sq_def a6; simp add: algebra_simps add_divide_distrib diff_divide_distrib),
      (simp add: q5; simp add: algebra_simps add_divide_distrib diff_divide_distrib), (simp add: r5; simp add: algebra_simps add_divide_distrib diff_divide_distrib), (simp add: w5; simp add: algebra_simps add_divide_distrib diff_divide_distrib),
      (simp add: r5; simp add: algebra_simps add_divide_distrib diff_divide_distrib), (simp add: dbl_sq_def a5; simp add: algebra_simps add_divide_distrib diff_divide_distrib), (simp add: v6; simp add: algebra_simps add_divide_distrib diff_divide_distrib),
      (simp add: b6; simp add: algebra_simps add_divide_distrib diff_divide_distrib), (simp add: v5; simp add: algebra_simps add_divide_distrib diff_divide_distrib), (simp add: b5; simp add: algebra_simps add_divide_distrib diff_divide_distrib))
  show ?thesis
    unfolding rk5_rNew_def rk5_drNew_def rk5_qNew_def rk5_dqNew_def
    using ne by (intro conjI; simp only: stages) (simp_all add: algebra_simps)
qed

text \<open>
  The fifth-order method is not what \<open>advanceRK5\<close> computes: its six stages are those of Nystrom's method,
  but the weight 125 / 192 of the third stage is given to the second one.
\<close>

theorem advanceRK5_is_runge_kutta:
  assumes "c = \<lparr>sm_k = Fin k, sm_dk = dk, sm_r0 = Fin r0, sm_m = Fin m\<rparr>" and "m \<noteq> 0"
    and "st = \<lparr>isFlight = fl, isStance = sta, ss_r = Fin r, ss_dr = Fin dr, ss_q = Fin q, ss_dq = Fin dq\<rparr>"
    and "r \<le> r0" and "f = slip_ode G_ACC k m r0"
    and "\<forall>p \<in> set (rk_points f 0.001 nystrom_tableau (r, dr, q, dq)). fst p \<noteq> 0"
  shows "case runge_kutta f 0.001 nystrom_tableau rk5_weights (r, dr, q, dq) of (r', dr', q', dq') \<Rightarrow>
    advanceRK5 c st = \<lparr>isFlight = False, isStance = True,
      ss_r = Fin r', ss_dr = Fin dr', ss_q = Fin q', ss_dq = Fin dq'\<rparr>"
proof -
  define h :: real where "h = 0.001"
  define a1 b1 where "a1 = G_ACC * sin q - dq * dq * r + k * (r - r0) / m"
    and "b1 = G_ACC * cos q + 2 * dr * dq"
  define r2 v2 q2 w2 a2 b2 where "r2 = r + h * (1 / 3 * dr)"
    and "v2 = dr - h * (1 / 3 * a1)"
    and "q2 = q + h * (1 / 3 * dq)"
    and "w2 = dq - h * (1 / 3 * (b1 / r))"
    and "a2 = G_ACC * sin q2 - w2 * w2 * r2 + k * (r2 - r0) / m"
    and "b2 = G_ACC * cos q2 + 2 * v2 * w2"
  define r3 v3 q3 w3 a3 b3 where "r3 = r + h * (4 / 25 * dr + 6 / 25 * v2)"
    and "v3 = dr - h * (4 / 25 * a1 + 6 / 25 * a2)"
    and "q3 = q + h * (4 / 25 * dq + 6 / 25 * w2)"
    and "w3 = dq - h * (4 / 25 * (b1 / r) + 6 / 25 * (b2 / r2))"
    and "a3 = G_ACC * sin q3 - w3 * w3 * r3 + k * (r3 - r0) / m"
    and "b3 = G_ACC * cos q3 + 2 * v3 * w3"
  define r4 v4 q4 w4 a4 b4 where "r4 = r + h * (1 / 4 * dr - 3 * v2 + 15 / 4 * v3)"
    and "v4 = dr - h * (1 / 4 * a1 - 3 * a2 + 15 / 4 * a3)"
    and "q4 = q + h * (1 / 4 * dq - 3 * w2 + 15 / 4 * w3)"
    and "w4 = dq - h * (1 / 4 * (b1 / r) - 3 * (b2 / r2) + 15 / 4 * (b3 / r3))"
    and "a4 = G_ACC * sin q4 - w4 * w4 * r4 + k * (r4 - r0) / m"
    and "b4 = G_ACC * cos q4 + 2 * v4 * w4"
  define r5 v5 q5 w5 a5 b5 where "r5 = r + h * (2 / 27 * dr + 10 / 9 * v2 - 50 / 81 * v3 + 8 / 81 * v4)"
    and "v5 = dr - h * (2 / 27 * a1 + 10 / 9 * a2 - 50 / 81 * a3 + 8 / 81 * a4)"
    and "q5 = q + h * (2 / 27 * dq + 10 / 9 * w2 - 50 / 81 * w3 + 8 / 81 * w4)"
    and "w5 = dq - h * (2 / 27 * (b1 / r) + 10 / 9 * (b2 / r2) - 50 / 81 * (b3 / r3) + 8 / 81 * (b4 / r4))"
    and "a5 = G_ACC * sin q5 - w5 * w5 * r5 + k * (r5 - r0) / m"
    and "b5 = G_ACC * cos q5 + 2 * v5 * w5"
  define r6 v6 q6 w6 a6 b6 where "r6 = r + h * (2 / 25 * dr + 12 / 25 * v2 + 2 / 15 * v3 + 8 / 75 * v4)"
    and "v6 = dr - h * (2 / 25 * a1 + 12 / 25 * a2 + 2 / 15 * a3 + 8 / 75 * a4)"
    and "q6 = q + h * (2 / 25 * dq + 12 / 25 * w2 + 2 / 15 * w3 + 8 / 75 * w4)"
    and "w6 = dq - h * (2 / 25 * (b1 / r) + 12 / 25 * (b2 / r2) + 2 / 15 * (b3 / r3) + 8 / 75 * (b4 / r4))"
    and "a6 = G_ACC * sin q6 - w6 * w6 * r6 + k * (r6 - r0) / m"
    and "b6 = G_ACC * cos q6 + 2 * v6 * w6"
  have f1: "f (r, dr, q, dq) = (dr, - a1, dq, - b1 / r)"
    by (simp add: assms(5) a1_def b1_def power2_eq_square algebra_simps)
  have f2: "f (r2, v2, q2, w2) = (v2, - a2, w2, - b2 / r2)"
    by (simp add: assms(5) a2_def b2_def power2_eq_square algebra_simps)
  have f3: "f (r3, v3, q3, w3) = (v3, - a3, w3, - b3 / r3)"
    by (simp add: assms(5) a3_def b3_def power2_eq_square algebra_simps)
  have f4: "f (r4, v4, q4, w4) = (v4, - a4, w4, - b4 / r4)"
    by (simp add: assms(5) a4_def b4_def power2_eq_square algebra_simps)
  have f5: "f (r5, v5, q5, w5) = (v5, - a5, w5, - b5 / r5)"
    by (simp add: assms(5) a5_def b5_def power2_eq_square algebra_simps)
  have f6: "f (r6, v6, q6, w6) = (v6, - a6, w6, - b6 / r6)"
    by (simp add: assms(5) a6_def b6_def power2_eq_square algebra_simps)
  have y1: "rk_combine h (r, dr, q, dq) [] [] = (r, dr, q, dq)" by (simp add: rk_combine_def)
  have y2: "rk_combine h (r, dr, q, dq) [1 / 3]
      [(dr, - a1, dq, - b1 / r)] = (r2, v2, q2, w2)"
    by (simp add: rk_combine_def r2_def v2_def q2_def w2_def; simp add: algebra_simps)
  have y3: "rk_combine h (r, dr, q, dq) [4 / 25, 6 / 25]
      [(dr, - a1, dq, - b1 / r), (v2, - a2, w2, - b2 / r2)] = (r3, v3, q3, w3)"
    by (simp add: rk_combine_def r3_def v3_def q3_def w3_def; simp add: algebra_simps)
  have y4: "rk_combine h (r, dr, q, dq) [1 / 4, - 3, 15 / 4]
      [(dr, - a1, dq, - b1 / r), (v2, - a2, w2, - b2 / r2), (v3, - a3, w3, - b3 / r3)] = (r4, v4, q4, w4)"
    by (simp add: rk_combine_def r4_def v4_def q4_def w4_def; simp add: algebra_simps)
  have y5: "rk_combine h (r, dr, q, dq) [2 / 27, 10 / 9, - 50 / 81, 8 / 81]
      [(dr, - a1, dq, - b1 / r), (v2, - a2, w2, - b2 / r2), (v3, - a3, w3, - b3 / r3), (v4, - a4, w4, - b4 / r4)] = (r5, v5, q5, w5)"
    by (simp add: rk_combine_def r5_def v5_def q5_def w5_def; simp add: algebra_simps)
  have y6: "rk_combine h (r, dr, q, dq) [2 / 25, 12 / 25, 2 / 15, 8 / 75]
      [(dr, - a1, dq, - b1 / r), (v2, - a2, w2, - b2 / r2), (v3, - a3, w3, - b3 / r3), (v4, - a4, w4, - b4 / r4), (v5, - a5, w5, - b5 / r5)] = (r6, v6, q6, w6)"
    by (simp add: rk_combine_def r6_def v6_def q6_def w6_def; simp add: algebra_simps)
  have pts: "rk_points f h nystrom_tableau (r, dr, q, dq) =
      [(r, dr, q, dq), (r2, v2, q2, w2), (r3, v3, q3, w3), (r4, v4, q4, w4), (r5, v5, q5, w5), (r6, v6, q6, w6)]"
    unfolding rk_points_def nystrom_tableau_def
    by (simp only: foldl.simps append.simps list.map f1 f2 f3 f4 f5 y1 y2 y3 y4 y5 y6)
  have ne: "r \<noteq> 0" "r2 \<noteq> 0" "r3 \<noteq> 0" "r4 \<noteq> 0" "r5 \<noteq> 0" "r6 \<noteq> 0"
    using assms(6) unfolding h_def [symmetric] pts by simp_all
  have rk: "runge_kutta f h nystrom_tableau rk5_weights (r, dr, q, dq) =
      (r + h * (23 / 192 * dr + 125 / 192 * v2 - 27 / 64 * v5 + 125 / 192 * v6),
       dr - h * (23 / 192 * a1 + 125 / 192 * a2 - 27 / 64 * a5 + 125 / 192 * a6),
       q + h * (23 / 192 * dq + 125 / 192 * w2 - 27 / 64 * w5 + 125 / 192 * w6),
       dq - h * (23 / 192 * (b1 / r) + 125 / 192 * (b2 / r2) - 27 / 64 * (b5 / r5) + 125 / 192 * (b6 / r6)))"
    unfolding runge_kutta_def rk_combine_def pts rk5_weights_def
    by (simp add: f1 f2 f3 f4 f5 f6) (simp add: algebra_simps)
  note fs = rk5_formulas [OF a1_def b1_def r2_def v2_def q2_def w2_def a2_def b2_def r3_def v3_def q3_def w3_def a3_def b3_def r4_def v4_def q4_def w4_def a4_def b4_def r5_def v5_def q5_def w5_def a5_def b5_def r6_def v6_def q6_def w6_def a6_def b6_def assms(2) ne]
  have h: "of_int_dbl CONTROLLER_LOOP_PERIOD_NS / of_int_dbl SECOND_IN_NANOSECONDS = Fin h"
    by (simp add: of_int_dbl_def consts_simp h_def)
  show ?thesis
    unfolding h_def [symmetric] rk
    using assms(4) by (simp add: advanceRK5_def advance_with_def Let_def h assms(1,3) fs)
qed

text \<open>A pendulum that falls freely, straight down: the equations along its path.\<close>

lemma fall_ode: "slip_ode g 0 m r0 (x, v, pi / 2, 0) = (v, - g, 0, 0)"
  by simp

lemma rk4_fall:
  assumes "f = slip_ode g 0 m r0"
  shows "rk_points f h rk4_tableau (x, 0, pi / 2, 0) =
      [(x, 0, pi / 2, 0), (x, - (g * h) / 2, pi / 2, 0), (x - g * h * h / 4, - (g * h) / 2, pi / 2, 0),
       (x - g * h * h / 2, - (g * h), pi / 2, 0)]"
    and "runge_kutta f h rk4_tableau rk4_weights (x, 0, pi / 2, 0) = (x - 1 / 2 * g * h\<^sup>2, - (g * h), pi / 2, 0)"
  unfolding assms runge_kutta_def rk_points_def rk_combine_def rk4_tableau_def rk4_weights_def
  by (simp_all add: fall_ode power2_eq_square del: slip_ode.simps)

lemma rk5_fall:
  assumes "f = slip_ode g 0 m r0"
  shows "\<forall>p \<in> set (rk_points f h nystrom_tableau (x, 0, pi / 2, 0)). \<exists>c \<in> {0 .. 1}. fst p = x - c * g * h\<^sup>2"
    and "runge_kutta f h nystrom_tableau rk5_weights (x, 0, pi / 2, 0) =
      (x - 263 / 576 * g * h\<^sup>2, - (g * h), pi / 2, 0)"
    and "runge_kutta f h nystrom_tableau nystrom_weights (x, 0, pi / 2, 0) =
      (x - 1 / 2 * g * h\<^sup>2, - (g * h), pi / 2, 0)"
proof -
  have p: "rk_points f h nystrom_tableau (x, 0, pi / 2, 0) =
      [(x, 0, pi / 2, 0), (x, - (g * h) / 3, pi / 2, 0), (x - 2 / 25 * g * h\<^sup>2, - (2 / 5 * g * h), pi / 2, 0),
       (x - 1 / 2 * g * h\<^sup>2, - (g * h), pi / 2, 0), (x - 2 / 9 * g * h\<^sup>2, - (2 / 3 * g * h), pi / 2, 0),
       (x - 8 / 25 * g * h\<^sup>2, - (4 / 5 * g * h), pi / 2, 0)]"
    unfolding assms rk_points_def rk_combine_def nystrom_tableau_def
    by (simp add: fall_ode power2_eq_square del: slip_ode.simps)
  show "\<forall>p \<in> set (rk_points f h nystrom_tableau (x, 0, pi / 2, 0)). \<exists>c \<in> {0 .. 1}. fst p = x - c * g * h\<^sup>2"
    unfolding p by (auto intro: bexI [of _ 0] bexI [of _ "2 / 25"] bexI [of _ "1 / 2"] bexI [of _ "2 / 9"] bexI [of _ "8 / 25"])
  show "runge_kutta f h nystrom_tableau rk5_weights (x, 0, pi / 2, 0) =
      (x - 263 / 576 * g * h\<^sup>2, - (g * h), pi / 2, 0)"
    "runge_kutta f h nystrom_tableau nystrom_weights (x, 0, pi / 2, 0) =
      (x - 1 / 2 * g * h\<^sup>2, - (g * h), pi / 2, 0)"
    unfolding runge_kutta_def p unfolding assms rk_combine_def rk5_weights_def nystrom_weights_def
    by (simp_all add: fall_ode power2_eq_square del: slip_ode.simps)
qed

lemma advanceRK4_is_runge_kutta_witness:
  "advanceRK4 \<lparr>sm_k = Fin 0, sm_dk = 0, sm_r0 = Fin 0.85, sm_m = Fin ATRIAS_MASS\<rparr>
     \<lparr>isFlight = True, isStance = False, ss_r = Fin 0.8, ss_dr = Fin 0, ss_q = Fin (pi / 2), ss_dq = Fin 0\<rparr> =
   \<lparr>isFlight = False, isStance = True, ss_r = Fin (0.8 - 1 / 2 * G_ACC * 0.001\<^sup>2),
     ss_dr = Fin (- (G_ACC * 0.001)), ss_q = Fin (pi / 2), ss_dq = Fin 0\<rparr>"
  using advanceRK4_is_runge_kutta [where k = 0 and dk = 0 and r = "0.8" and ?r0.0 = "0.85" and dr = 0 and
      q = "pi / 2" and dq = 0 and m = ATRIAS_MASS and fl = True and sta = False, OF refl _ refl _ refl]
    rk4_fall [OF refl, where h = "0.001" and g = G_ACC and m = ATRIAS_MASS and ?r0.0 = "0.85" and x = "0.8"]
  by (simp add: consts_simp)

text \<open>
  \<open>advanceRK5\<close> is not a method of fifth order, nor of second: for the pendulum that falls freely
  from rest its step covers only 263 / 288 of the exact fall, which \<open>advanceRK4\<close> computes.
\<close>

theorem advanceRK5_misses_free_fall:
  assumes "0.1 \<le> r" and "r \<le> r0" and "m \<noteq> 0"
    and "c = \<lparr>sm_k = Fin 0, sm_dk = dk, sm_r0 = Fin r0, sm_m = Fin m\<rparr>"
    and "st = \<lparr>isFlight = fl, isStance = sta, ss_r = Fin r, ss_dr = Fin 0, ss_q = Fin (pi / 2), ss_dq = Fin 0\<rparr>"
  shows "ss_r (advanceRK4 c st) = Fin (r - 1 / 2 * G_ACC * 0.001\<^sup>2) \<and>
    ss_r (advanceRK5 c st) = Fin (r - 263 / 576 * G_ACC * 0.001\<^sup>2) \<and>
    ss_dr (advanceRK4 c st) = Fin (- (G_ACC * 0.001)) \<and> ss_dr (advanceRK5 c st) = Fin (- (G_ACC * 0.001))"
proof -
  define f where "f = slip_ode G_ACC 0 m r0"
  note r4 = rk4_fall [OF f_def, of "0.001" r] and r5 = rk5_fall [OF f_def, of "0.001" r]
  have "\<forall>p \<in> set (rk_points f 0.001 rk4_tableau (r, 0, pi / 2, 0)). fst p \<noteq> 0"
    unfolding r4(1) using assms(1) by (simp add: consts_simp)
  note a4 = advanceRK4_is_runge_kutta_step [OF assms(4,3,5,2) f_def this]
  have "fst p \<noteq> 0" if p: "p \<in> set (rk_points f 0.001 nystrom_tableau (r, 0, pi / 2, 0))" for p
  proof -
    obtain x where x: "0 \<le> x" "x \<le> 1" "fst p = r - x * G_ACC * 0.001\<^sup>2" using r5(1) p by fastforce
    have "x * G_ACC * 0.001\<^sup>2 \<le> 0.00001" using x(1,2) by (simp add: consts_simp power2_eq_square)
    then show ?thesis using assms(1) x(3) by simp
  qed
  then have "\<forall>p \<in> set (rk_points f 0.001 nystrom_tableau (r, 0, pi / 2, 0)). fst p \<noteq> 0" by blast
  note a5 = advanceRK5_is_runge_kutta [OF assms(4,3,5,2) f_def this]
  show ?thesis using a4 a5 r4(2) r5(2) by simp
qed

lemma advanceRK5_misses_free_fall_witness:
  "ss_r (advanceRK5 \<lparr>sm_k = Fin 0, sm_dk = 0, sm_r0 = Fin 0.85, sm_m = Fin ATRIAS_MASS\<rparr>
     \<lparr>isFlight = True, isStance = False, ss_r = Fin 0.8, ss_dr = Fin 0, ss_q = Fin (pi / 2), ss_dq = Fin 0\<rparr>) =
   Fin (0.8 - 263 / 576 * G_ACC * 0.001\<^sup>2)"
  using advanceRK5_misses_free_fall [where r = "0.8" and ?r0.0 = "0.85" and m = ATRIAS_MASS and dk = 0 and
      fl = True and sta = False, OF _ _ _ refl refl]
  by (simp add: ATRIAS_MASS_def)

end
