(* ===== verification/StanceForce.thy ===== *)
theory StanceForce
  imports SlipModel
begin

text \<open>
  The force controller of ATCSlipWalking, \<open>legForceControl\<close>: the motor currents that make the leg exert a
  wanted force on the ground. Its two formulas were derived by a computer algebra system; the
  theorem shows that they linearise the dynamics of motors, springs and leg exactly.
\<close>

subsection \<open>The formulas\<close>

definition M_PI :: real where "M_PI = 3.14159265358979323846"

text \<open>The rotor inertia and damping are those of the one motor that the formula is for.\<close>

definition stance_tauA ::
  "dbl \<Rightarrow> dbl \<Rightarrow> dbl \<Rightarrow> dbl \<Rightarrow> dbl \<Rightarrow> dbl
   \<Rightarrow> dbl \<Rightarrow> dbl \<Rightarrow> dbl \<Rightarrow> dbl \<Rightarrow> dbl
   \<Rightarrow> dbl \<Rightarrow> dbl \<Rightarrow> dbl \<Rightarrow> dbl \<Rightarrow> dbl
   \<Rightarrow> dbl \<Rightarrow> dbl \<Rightarrow> dbl \<Rightarrow> dbl \<Rightarrow> dbl" where
  "stance_tauA FxDes FyDes I3 c3 cS dq1 dq2 dq3 dq6 g k1_11 k2_11 ks m q1 q2 q3 q6 r1 r2 =
     Fin 1 / (r2 * r2) * (I3 * (ks * ks) * q1 * r1 * - Fin 4 - I3 * (ks * ks) * q2 * r1 * Fin 4 +
      I3 * (ks * ks) * q3 * r1 * Fin 4 + I3 * (ks * ks) * q1 * r2 * dbl_cos q2 * Fin 4 - I3 * (ks *
      ks) * q6 * r2 * dbl_cos q2 * Fin 4 - ks * ks * m * q1 * r1 * (r2 * r2) * Fin 2 - ks * ks * m
      * q2 * r1 * (r2 * r2) * Fin 2 + ks * ks * m * q3 * r1 * (r2 * r2) * Fin 2 - I3 * cS * dq1 *
      ks * r1 * Fin 4 - I3 * cS * dq2 * ks * r1 * Fin 4 + I3 * cS * dq3 * ks * r1 * Fin 4 + FxDes *
      I3 * g * m * r1 * (r2 * r2) + I3 * cS * dq1 * ks * r2 * dbl_cos q2 * Fin 4 - I3 * cS * dq6 *
      ks * r2 * dbl_cos q2 * Fin 4 + c3 * dq3 * ks * m * r1 * (r2 * r2) * Fin 2 - cS * dq1 * ks * m
      * r1 * (r2 * r2) * Fin 2 - cS * dq2 * ks * m * r1 * (r2 * r2) * Fin 2 + cS * dq3 * ks * m *
      r1 * (r2 * r2) * Fin 2 - FxDes * I3 * cS * dq1 * (r2 * r2) * dbl_cos q1 * Fin 2 + FxDes * I3
      * cS * dq6 * (r2 * r2) * dbl_cos q1 * Fin 2 - FyDes * I3 * cS * dq1 * (r2 * r2) * dbl_sin q1
      * Fin 2 + FyDes * I3 * cS * dq6 * (r2 * r2) * dbl_sin q1 * Fin 2 - FxDes * I3 * ks * q1 * (r2
      * r2) * dbl_cos q1 * Fin 2 + FxDes * I3 * ks * q6 * (r2 * r2) * dbl_cos q1 * Fin 2 + ks * ks
      * m * q1 * r1 * (r2 * r2) * dbl_cos (q2 * Fin 2) * Fin 2 + ks * ks * m * q2 * r1 * (r2 * r2)
      * dbl_cos (q2 * Fin 2) * Fin 2 - ks * ks * m * q3 * r1 * (r2 * r2) * dbl_cos (q2 * Fin 2) *
      Fin 2 - FyDes * I3 * ks * q1 * (r2 * r2) * dbl_sin q1 * Fin 2 + FyDes * I3 * ks * q6 * (r2 *
      r2) * dbl_sin q1 * Fin 2 - FxDes * I3 * cS * dq1 * (r2 * r2) * dbl_cos (q1 + q2 * Fin 2) *
      Fin 2 + FxDes * I3 * cS * dq6 * (r2 * r2) * dbl_cos (q1 + q2 * Fin 2) * Fin 2 - FyDes * I3 *
      cS * dq1 * (r2 * r2) * dbl_sin (q1 + q2 * Fin 2) * Fin 2 + FyDes * I3 * cS * dq6 * (r2 * r2)
      * dbl_sin (q1 + q2 * Fin 2) * Fin 2 - FxDes * I3 * ks * q1 * (r2 * r2) * dbl_cos (q1 + q2 *
      Fin 2) * Fin 2 + FxDes * I3 * ks * q6 * (r2 * r2) * dbl_cos (q1 + q2 * Fin 2) * Fin 2 - FyDes
      * I3 * ks * q1 * (r2 * r2) * dbl_sin (q1 + q2 * Fin 2) * Fin 2 + FyDes * I3 * ks * q6 * (r2 *
      r2) * dbl_sin (q1 + q2 * Fin 2) * Fin 2 - FyDes * I3 * (dq1 * dq1) * m * r1 * (r2 * r2 * r2)
      * dbl_cos (q1 + q2) * Fin 2 - FyDes * I3 * (dq2 * dq2) * m * r1 * (r2 * r2 * r2) * dbl_cos
      (q1 + q2) * Fin 2 - FyDes * I3 * k2_11 * m * r1 * (r2 * r2 * r2) * dbl_cos (q1 - q2) - FyDes
      * I3 * k2_11 * m * r1 * (r2 * r2 * r2) * dbl_cos (q1 + q2 * Fin 3) + FxDes * I3 * (dq1 * dq1)
      * m * r1 * (r2 * r2 * r2) * dbl_sin (q1 + q2) * Fin 2 + FxDes * I3 * (dq2 * dq2) * m * r1 *
      (r2 * r2 * r2) * dbl_sin (q1 + q2) * Fin 2 + FxDes * I3 * k2_11 * m * r1 * (r2 * r2 * r2) *
      dbl_sin (q1 - q2) + FxDes * I3 * k2_11 * m * r1 * (r2 * r2 * r2) * dbl_sin (q1 + q2 * Fin 3)
      - FxDes * I3 * g * m * r1 * (r2 * r2) * dbl_cos (q1 * Fin 2) - FxDes * I3 * g * m * r1 * (r2
      * r2) * dbl_cos (q2 * Fin 2) + FxDes * I3 * cS * dq1 * r1 * r2 * dbl_cos (q1 + q2) * Fin 4 +
      FxDes * I3 * cS * dq2 * r1 * r2 * dbl_cos (q1 + q2) * Fin 4 - FxDes * I3 * cS * dq3 * r1 * r2
      * dbl_cos (q1 + q2) * Fin 4 - FyDes * I3 * g * m * r1 * (r2 * r2) * dbl_sin (q1 * Fin 2) -
      FyDes * I3 * g * m * r1 * (r2 * r2) * dbl_sin (q2 * Fin 2) + FyDes * I3 * cS * dq1 * r1 * r2
      * dbl_sin (q1 + q2) * Fin 4 + FyDes * I3 * cS * dq2 * r1 * r2 * dbl_sin (q1 + q2) * Fin 4 -
      FyDes * I3 * cS * dq3 * r1 * r2 * dbl_sin (q1 + q2) * Fin 4 + FxDes * I3 * ks * q1 * r1 * r2
      * dbl_cos (q1 + q2) * Fin 4 + FxDes * I3 * ks * q2 * r1 * r2 * dbl_cos (q1 + q2) * Fin 4 -
      FxDes * I3 * ks * q3 * r1 * r2 * dbl_cos (q1 + q2) * Fin 4 + FyDes * I3 * ks * q1 * r1 * r2 *
      dbl_sin (q1 + q2) * Fin 4 + FyDes * I3 * ks * q2 * r1 * r2 * dbl_sin (q1 + q2) * Fin 4 -
      FyDes * I3 * ks * q3 * r1 * r2 * dbl_sin (q1 + q2) * Fin 4 + FyDes * I3 * (dq1 * dq1) * m *
      r1 * (r2 * r2 * r2) * dbl_cos (q1 - q2) * Fin 2 + FyDes * I3 * (dq2 * dq2) * m * r1 * (r2 *
      r2 * r2) * dbl_cos (q1 - q2) * Fin 2 + FxDes * I3 * g * m * r1 * (r2 * r2) * dbl_cos (q1 *
      Fin 2 + q2 * Fin 2) - I3 * (dq1 * dq1) * ks * m * (r1 * r1) * r2 * dbl_sin q2 * Fin 4 - I3 *
      g * ks * m * r1 * r2 * dbl_cos (q1 + q2) * Fin 2 - c3 * dq3 * ks * m * r1 * (r2 * r2) *
      dbl_cos (q2 * Fin 2) * Fin 2 + cS * dq1 * ks * m * r1 * (r2 * r2) * dbl_cos (q2 * Fin 2) *
      Fin 2 + cS * dq2 * ks * m * r1 * (r2 * r2) * dbl_cos (q2 * Fin 2) * Fin 2 - cS * dq3 * ks * m
      * r1 * (r2 * r2) * dbl_cos (q2 * Fin 2) * Fin 2 - FxDes * I3 * (dq1 * dq1) * m * r1 * (r2 *
      r2 * r2) * dbl_sin (q1 - q2) * Fin 2 - FxDes * I3 * (dq2 * dq2) * m * r1 * (r2 * r2 * r2) *
      dbl_sin (q1 - q2) * Fin 2 + FyDes * I3 * g * m * r1 * (r2 * r2) * dbl_sin (q1 * Fin 2 + q2 *
      Fin 2) + I3 * dq1 * k1_11 * ks * m * r1 * (r2 * r2) * Fin 2 + I3 * dq2 * k1_11 * ks * m * r1
      * (r2 * r2) * Fin 2 - I3 * dq3 * k1_11 * ks * m * r1 * (r2 * r2) * Fin 2 + FyDes * I3 * (dq1
      * dq1) * m * (r1 * r1) * (r2 * r2) * dbl_cos q1 * Fin 2 + I3 * k2_11 * ks * m * q1 * r1 * (r2
      * r2) * Fin 2 + I3 * k2_11 * ks * m * q2 * r1 * (r2 * r2) * Fin 2 - I3 * k2_11 * ks * m * q3
      * r1 * (r2 * r2) * Fin 2 - FxDes * I3 * (dq1 * dq1) * m * (r1 * r1) * (r2 * r2) * dbl_sin q1
      * Fin 2 + FyDes * I3 * k2_11 * m * r1 * (r2 * r2 * r2) * dbl_cos (q1 + q2) * Fin 2 - FxDes *
      I3 * k2_11 * m * r1 * (r2 * r2 * r2) * dbl_sin (q1 + q2) * Fin 2 - FyDes * I3 * (dq1 * dq1) *
      m * (r1 * r1) * (r2 * r2) * dbl_cos (q1 + q2 * Fin 2) * Fin 2 - I3 * (dq1 * dq1) * ks * m *
      r1 * (r2 * r2) * dbl_sin (q2 * Fin 2) * Fin 2 - I3 * (dq2 * dq2) * ks * m * r1 * (r2 * r2) *
      dbl_sin (q2 * Fin 2) * Fin 2 + I3 * g * ks * m * r1 * r2 * dbl_cos (q1 - q2) * Fin 2 + FxDes
      * I3 * (dq1 * dq1) * m * (r1 * r1) * (r2 * r2) * dbl_sin (q1 + q2 * Fin 2) * Fin 2 - FyDes *
      I3 * dq1 * dq2 * m * r1 * (r2 * r2 * r2) * dbl_cos (q1 + q2) * Fin 4 - FxDes * I3 * dq1 *
      k1_11 * m * r1 * (r2 * r2 * r2) * dbl_cos (q1 + q2) * Fin 2 - FxDes * I3 * dq2 * k1_11 * m *
      r1 * (r2 * r2 * r2) * dbl_cos (q1 + q2) * Fin 2 + FxDes * I3 * dq1 * dq2 * m * r1 * (r2 * r2
      * r2) * dbl_sin (q1 + q2) * Fin 4 - FyDes * I3 * dq1 * k1_11 * m * r1 * (r2 * r2 * r2) *
      dbl_sin (q1 + q2) * Fin 2 - FyDes * I3 * dq2 * k1_11 * m * r1 * (r2 * r2 * r2) * dbl_sin (q1
      + q2) * Fin 2 + FyDes * I3 * dq1 * dq2 * m * r1 * (r2 * r2 * r2) * dbl_cos (q1 - q2) * Fin 4
      + FxDes * I3 * dq1 * k1_11 * m * r1 * (r2 * r2 * r2) * dbl_cos (q1 - q2) + FxDes * I3 * dq2 *
      k1_11 * m * r1 * (r2 * r2 * r2) * dbl_cos (q1 - q2) + FxDes * I3 * dq1 * k1_11 * m * r1 * (r2
      * r2 * r2) * dbl_cos (q1 + q2 * Fin 3) + FxDes * I3 * dq2 * k1_11 * m * r1 * (r2 * r2 * r2) *
      dbl_cos (q1 + q2 * Fin 3) - FxDes * I3 * dq1 * dq2 * m * r1 * (r2 * r2 * r2) * dbl_sin (q1 -
      q2) * Fin 4 + FyDes * I3 * dq1 * k1_11 * m * r1 * (r2 * r2 * r2) * dbl_sin (q1 - q2) + FyDes
      * I3 * dq2 * k1_11 * m * r1 * (r2 * r2 * r2) * dbl_sin (q1 - q2) + FyDes * I3 * dq1 * k1_11 *
      m * r1 * (r2 * r2 * r2) * dbl_sin (q1 + q2 * Fin 3) + FyDes * I3 * dq2 * k1_11 * m * r1 * (r2
      * r2 * r2) * dbl_sin (q1 + q2 * Fin 3) - I3 * dq1 * k1_11 * ks * m * r1 * (r2 * r2) * dbl_cos
      (q2 * Fin 2) * Fin 2 - I3 * dq2 * k1_11 * ks * m * r1 * (r2 * r2) * dbl_cos (q2 * Fin 2) *
      Fin 2 + I3 * dq3 * k1_11 * ks * m * r1 * (r2 * r2) * dbl_cos (q2 * Fin 2) * Fin 2 - I3 * dq1
      * dq2 * ks * m * r1 * (r2 * r2) * dbl_sin (q2 * Fin 2) * Fin 4 - I3 * k2_11 * ks * m * q1 *
      r1 * (r2 * r2) * dbl_cos (q2 * Fin 2) * Fin 2 - I3 * k2_11 * ks * m * q2 * r1 * (r2 * r2) *
      dbl_cos (q2 * Fin 2) * Fin 2 + I3 * k2_11 * ks * m * q3 * r1 * (r2 * r2) * dbl_cos (q2 * Fin
      2) * Fin 2) * (- Fin 1 / Fin 2) / (ks * m * r1 * (dbl_cos (q2 * Fin 2) - Fin 1))"

definition stance_tauB ::
  "dbl \<Rightarrow> dbl \<Rightarrow> dbl \<Rightarrow> dbl \<Rightarrow> dbl \<Rightarrow> dbl
   \<Rightarrow> dbl \<Rightarrow> dbl \<Rightarrow> dbl \<Rightarrow> dbl \<Rightarrow> dbl
   \<Rightarrow> dbl \<Rightarrow> dbl \<Rightarrow> dbl \<Rightarrow> dbl \<Rightarrow> dbl
   \<Rightarrow> dbl \<Rightarrow> dbl \<Rightarrow> dbl \<Rightarrow> dbl \<Rightarrow> dbl" where
  "stance_tauB FxDes FyDes I6 c6 cS dq1 dq2 dq3 dq6 g k1_22 k2_22 ks m q1 q2 q3 q6 r1 r2 =
     Fin 1 / (r1 * r1) * (I6 * (ks * ks) * q1 * r2 * Fin 2 - I6 * (ks * ks) * q6 * r2 * Fin 2 - I6
      * (ks * ks) * q1 * r1 * dbl_cos q2 * Fin 2 - I6 * (ks * ks) * q2 * r1 * dbl_cos q2 * Fin 2 +
      I6 * (ks * ks) * q3 * r1 * dbl_cos q2 * Fin 2 + ks * ks * m * q1 * (r1 * r1) * r2 - ks * ks *
      m * q6 * (r1 * r1) * r2 + I6 * cS * dq1 * ks * r2 * Fin 2 - I6 * cS * dq6 * ks * r2 * Fin 2 -
      I6 * cS * dq1 * ks * r1 * dbl_cos q2 * Fin 2 - I6 * cS * dq2 * ks * r1 * dbl_cos q2 * Fin 2 +
      I6 * cS * dq3 * ks * r1 * dbl_cos q2 * Fin 2 - c6 * dq6 * ks * m * (r1 * r1) * r2 + cS * dq1
      * ks * m * (r1 * r1) * r2 - cS * dq6 * ks * m * (r1 * r1) * r2 - ks * ks * m * q1 * (r1 * r1)
      * r2 * dbl_cos (q2 * Fin 2) + ks * ks * m * q6 * (r1 * r1) * r2 * dbl_cos (q2 * Fin 2) +
      FxDes * I6 * cS * dq1 * (r1 * r1) * dbl_cos q1 * dbl_cos q2 * Fin 2 + FxDes * I6 * cS * dq2 *
      (r1 * r1) * dbl_cos q1 * dbl_cos q2 * Fin 2 - FxDes * I6 * cS * dq3 * (r1 * r1) * dbl_cos q1
      * dbl_cos q2 * Fin 2 + FyDes * I6 * (dq1 * dq1) * m * (r1 * r1 * r1) * r2 * dbl_cos q1 -
      FxDes * I6 * g * m * (r1 * r1) * r2 * dbl_sq (dbl_cos q1) + FyDes * I6 * cS * dq1 * (r1 * r1)
      * dbl_cos q2 * dbl_sin q1 * Fin 2 + FyDes * I6 * cS * dq2 * (r1 * r1) * dbl_cos q2 * dbl_sin
      q1 * Fin 2 - FyDes * I6 * cS * dq3 * (r1 * r1) * dbl_cos q2 * dbl_sin q1 * Fin 2 + FxDes * I6
      * ks * q1 * (r1 * r1) * dbl_cos q1 * dbl_cos q2 * Fin 2 + FxDes * I6 * ks * q2 * (r1 * r1) *
      dbl_cos q1 * dbl_cos q2 * Fin 2 - FxDes * I6 * ks * q3 * (r1 * r1) * dbl_cos q1 * dbl_cos q2
      * Fin 2 - FxDes * I6 * (dq1 * dq1) * m * (r1 * r1 * r1) * r2 * dbl_sin q1 - FyDes * I6 * g *
      m * (r1 * r1) * r2 * dbl_sin (q1 * Fin 2) * (Fin 1 / Fin 2) + FyDes * I6 * ks * q1 * (r1 *
      r1) * dbl_cos q2 * dbl_sin q1 * Fin 2 + FyDes * I6 * ks * q2 * (r1 * r1) * dbl_cos q2 *
      dbl_sin q1 * Fin 2 - FyDes * I6 * ks * q3 * (r1 * r1) * dbl_cos q2 * dbl_sin q1 * Fin 2 - I6
      * (dq1 * dq1) * ks * m * r1 * (r2 * r2) * dbl_sin q2 * Fin 2 - I6 * (dq2 * dq2) * ks * m * r1
      * (r2 * r2) * dbl_sin q2 * Fin 2 - FxDes * I6 * cS * dq1 * r1 * r2 * dbl_cos q1 * Fin 2 +
      FxDes * I6 * cS * dq6 * r1 * r2 * dbl_cos q1 * Fin 2 + c6 * dq6 * ks * m * (r1 * r1) * r2 *
      dbl_cos (q2 * Fin 2) - cS * dq1 * ks * m * (r1 * r1) * r2 * dbl_cos (q2 * Fin 2) + cS * dq6 *
      ks * m * (r1 * r1) * r2 * dbl_cos (q2 * Fin 2) - FyDes * I6 * cS * dq1 * r1 * r2 * dbl_sin q1
      * Fin 2 + FyDes * I6 * cS * dq6 * r1 * r2 * dbl_sin q1 * Fin 2 - FxDes * I6 * ks * q1 * r1 *
      r2 * dbl_cos q1 * Fin 2 + FxDes * I6 * ks * q6 * r1 * r2 * dbl_cos q1 * Fin 2 - I6 * dq1 *
      k1_22 * ks * m * (r1 * r1) * r2 + I6 * dq6 * k1_22 * ks * m * (r1 * r1) * r2 - FyDes * I6 *
      ks * q1 * r1 * r2 * dbl_sin q1 * Fin 2 + FyDes * I6 * ks * q6 * r1 * r2 * dbl_sin q1 * Fin 2
      + I6 * g * ks * m * r1 * r2 * dbl_cos q1 - I6 * k2_22 * ks * m * q1 * (r1 * r1) * r2 + I6 *
      k2_22 * ks * m * q6 * (r1 * r1) * r2 - I6 * (dq1 * dq1) * ks * m * (r1 * r1) * r2 * dbl_sin
      (q2 * Fin 2) - I6 * g * ks * m * r1 * r2 * dbl_cos (q1 + q2 * Fin 2) - FyDes * I6 * k2_22 * m
      * (r1 * r1 * r1) * r2 * dbl_cos q1 + FxDes * I6 * k2_22 * m * (r1 * r1 * r1) * r2 * dbl_sin
      q1 + FyDes * I6 * k2_22 * m * (r1 * r1 * r1) * r2 * dbl_cos (q2 * Fin 2) * dbl_cos q1 - FxDes
      * I6 * k2_22 * m * (r1 * r1 * r1) * r2 * dbl_cos (q2 * Fin 2) * dbl_sin q1 + FxDes * I6 * dq1
      * k1_22 * m * (r1 * r1 * r1) * r2 * dbl_cos q1 + FyDes * I6 * dq1 * k1_22 * m * (r1 * r1 *
      r1) * r2 * dbl_sin q1 - FyDes * I6 * (dq1 * dq1) * m * (r1 * r1 * r1) * r2 * dbl_cos (q2 *
      Fin 2) * dbl_cos q1 - I6 * dq1 * dq2 * ks * m * r1 * (r2 * r2) * dbl_sin q2 * Fin 4 + FxDes *
      I6 * (dq1 * dq1) * m * (r1 * r1 * r1) * r2 * dbl_cos (q2 * Fin 2) * dbl_sin q1 + FxDes * I6 *
      (dq1 * dq1) * m * (r1 * r1 * r1) * r2 * dbl_sin (q2 * Fin 2) * dbl_cos q1 + FxDes * I6 * (dq1
      * dq1) * m * (r1 * r1) * (r2 * r2) * dbl_cos q1 * dbl_sin q2 * Fin 2 + FxDes * I6 * (dq2 *
      dq2) * m * (r1 * r1) * (r2 * r2) * dbl_cos q1 * dbl_sin q2 * Fin 2 + FyDes * I6 * (dq1 * dq1)
      * m * (r1 * r1 * r1) * r2 * dbl_sin (q2 * Fin 2) * dbl_sin q1 + FyDes * I6 * (dq1 * dq1) * m
      * (r1 * r1) * (r2 * r2) * dbl_sin q1 * dbl_sin q2 * Fin 2 + FyDes * I6 * (dq2 * dq2) * m *
      (r1 * r1) * (r2 * r2) * dbl_sin q1 * dbl_sin q2 * Fin 2 + I6 * dq1 * k1_22 * ks * m * (r1 *
      r1) * r2 * dbl_cos (q2 * Fin 2) - I6 * dq6 * k1_22 * ks * m * (r1 * r1) * r2 * dbl_cos (q2 *
      Fin 2) + I6 * k2_22 * ks * m * q1 * (r1 * r1) * r2 * dbl_cos (q2 * Fin 2) - I6 * k2_22 * ks *
      m * q6 * (r1 * r1) * r2 * dbl_cos (q2 * Fin 2) + FxDes * I6 * g * m * (r1 * r1) * r2 *
      dbl_cos (q1 + q2 * Fin 2) * dbl_cos q1 + FyDes * I6 * g * m * (r1 * r1) * r2 * dbl_cos (q1 +
      q2 * Fin 2) * dbl_sin q1 - FxDes * I6 * dq1 * k1_22 * m * (r1 * r1 * r1) * r2 * dbl_cos (q2 *
      Fin 2) * dbl_cos q1 + FxDes * I6 * dq1 * dq2 * m * (r1 * r1) * (r2 * r2) * dbl_cos q1 *
      dbl_sin q2 * Fin 4 - FyDes * I6 * dq1 * k1_22 * m * (r1 * r1 * r1) * r2 * dbl_cos (q2 * Fin
      2) * dbl_sin q1 + FyDes * I6 * dq1 * dq2 * m * (r1 * r1) * (r2 * r2) * dbl_sin q1 * dbl_sin
      q2 * Fin 4) / (ks * m * r2 * (dbl_cos (q2 * Fin 2) - Fin 1))"

definition legForceControl ::
  "dbl \<Rightarrow> dbl \<Rightarrow> dbl \<Rightarrow> dbl \<Rightarrow> LegForce \<Rightarrow> robot_state_leg \<Rightarrow> robot_state_location \<Rightarrow> dbl \<times> dbl" where
  "legForceControl k1_11 k1_22 k2_11 k2_22 legForce leg pos =
     (let FxDes = - fx legForce; FyDes = - fz legForce;
          qlA = legAngle (halfA leg); qlB = legAngle (halfB leg);
          qmA = motorAngle (halfA leg); qmB = motorAngle (halfB leg);
          qb = bodyPitch pos;
          dqlA = legVelocity (halfA leg); dqlB = legVelocity (halfB leg);
          dqmA = motorVelocity (halfA leg); dqmB = motorVelocity (halfB leg);
          dqb = bodyPitchVelocity pos;
          world = qb - Fin 3 * Fin M_PI / Fin 2;
          qlA = qlA + world; qlB = qlB + world; qmA = qmA + world; qmB = qmB + world;
          dqlA = dqlA + dqb; dqlB = dqlB + dqb; dqmA = dqmA + dqb; dqmB = dqmB + dqb;
          q1 = Fin M_PI - qlB; q2 = qlB - qlA; q3 = Fin M_PI - qmA; q6 = Fin M_PI - qmB;
          dq1 = - dqlB; dq2 = dqlB - dqlA; dq3 = - dqmA; dq6 = - dqmB;
          g = Fin G_ACC; r1 = Fin L1; r2 = Fin L2; m = Fin ATRIAS_MASS;
          I = Fin 0.0019; I3 = I * Fin KG * Fin KG; I6 = I3; c3 = Fin 19; c6 = c3;
          ks = Fin KS; cS = Fin 1.49;
          tauA = stance_tauA FxDes FyDes I3 c3 cS dq1 dq2 dq3 dq6 g k1_11 k2_11 ks m q1 q2 q3 q6 r1 r2;
          tauB = stance_tauB FxDes FyDes I6 c6 cS dq1 dq2 dq3 dq6 g k1_22 k2_22 ks m q1 q2 q3 q6 r1 r2
      in (- (tauA / Fin KG / Fin KT), - (tauB / Fin KG / Fin KT)))"

subsection \<open>Feedback linearisation\<close>

lemma double_angles:
  fixes q1 q2 :: real
  shows "cos (q2 * 2) = 1 - 2 * (sin q2 * sin q2)" "sin (q2 * 2) = 2 * sin q2 * cos q2"
    "cos (q1 + q2 * 2) = cos q1 * (1 - 2 * (sin q2 * sin q2)) - sin q1 * (2 * sin q2 * cos q2)"
    "sin (q1 * 2) = 2 * sin q1 * cos q1"
proof -
  have c: "cos (x * 2) = 1 - 2 * (sin x * sin x)" for x :: real
    using cos_double_sin [of x] by (simp add: power2_eq_square mult.commute)
  have s: "sin (x * 2) = 2 * sin x * cos x" for x :: real
    using sin_double [of x] by (simp add: mult.commute)
  show "cos (q2 * 2) = 1 - 2 * (sin q2 * sin q2)" "sin (q2 * 2) = 2 * sin q2 * cos q2"
    "sin (q1 * 2) = 2 * sin q1 * cos q1" by (rule c s)+
  show "cos (q1 + q2 * 2) = cos q1 * (1 - 2 * (sin q2 * sin q2)) - sin q1 * (2 * sin q2 * cos q2)"
    unfolding cos_add c s ..
qed

lemma fin_only:
  "Fin a + Fin b = Fin (a + b)" "Fin a - Fin b = Fin (a - b)" "Fin a * Fin b = Fin (a * b)" "- Fin a = Fin (- a)"
  "b \<noteq> 0 \<Longrightarrow> Fin a / Fin b = Fin (a / b)" "dbl_sin (Fin a) = Fin (sin a)" "dbl_cos (Fin a) = Fin (cos a)"
  "dbl_sq (Fin a) = Fin (a * a)"
  by (simp_all add: dbl_sq_def)

text \<open>
  The plant: a mass at the end of two massless links on the ground, at the angles \<open>q1\<close> and \<open>q1 + q2\<close>, driven
  by the two motors at \<open>q6\<close> and \<open>q3\<close> through springs with dampers; \<open>s1\<close> and \<open>s2\<close> are the torques of the springs,
  \<open>a1\<close> and \<open>a2\<close> the angular accelerations of the links, which Lagrange's equations give.
\<close>

definition leg_dynamics ::
  "real \<Rightarrow> real \<Rightarrow> real \<Rightarrow> real \<Rightarrow> real \<Rightarrow> real \<Rightarrow> real \<Rightarrow> real \<Rightarrow> real \<Rightarrow> real \<Rightarrow> real \<Rightarrow> real \<Rightarrow> bool" where
  "leg_dynamics g m r1 r2 q1 q2 dq1 dq2 s1 s2 a1 a2 \<longleftrightarrow>
     m * r1 * r1 * a1 + m * r1 * r2 * cos q2 * a2 =
       s1 + m * r1 * r2 * (dq1 + dq2) * (dq1 + dq2) * sin q2 - m * g * r1 * cos q1 \<and>
     m * r2 * r2 * a2 + m * r1 * r2 * cos q2 * a1 =
       s2 - m * r1 * r2 * dq1 * dq1 * sin q2 - m * g * r2 * cos (q1 + q2)"

lemma dynamics_a1:
  fixes c2 s2 :: real
  assumes "m * r1 * r1 * a1 + m * r1 * r2 * c2 * a2 = x" and "m * r2 * r2 * a2 + m * r1 * r2 * c2 * a1 = y"
    and "s2 * s2 + c2 * c2 = 1"
  shows "m * r1 * r1 * r2 * (s2 * s2) * a1 = r2 * x - r1 * c2 * y"
proof -
  have "r2 * x - r1 * c2 * y = m * r1 * r1 * r2 * (1 - c2 * c2) * a1"
    unfolding assms(1,2) [symmetric] by (simp add: algebra_simps)
  moreover have "1 - c2 * c2 = s2 * s2" using assms(3) by simp
  ultimately show ?thesis by simp
qed

lemma tauB_linearises:
  assumes "r1 \<noteq> 0" and "ks * m * r2 * (cos (q2 * 2) - 1) \<noteq> 0"
    and "s1 = ks * (q6 - q1) + cS * (dq6 - dq1)" and "s2 = ks * (q3 - (q1 + q2)) + cS * (dq3 - (dq1 + dq2))"
    and "leg_dynamics g m r1 r2 q1 q2 dq1 dq2 s1 s2 a1 a2"
    and "F = FxDes * cos q1 + FyDes * sin q1" and "N = FyDes * cos q1 - FxDes * sin q1"
  shows "stance_tauB (Fin FxDes) (Fin FyDes) (Fin I6) (Fin c6) (Fin cS) (Fin dq1) (Fin dq2) (Fin dq3) (Fin dq6)
      (Fin g) (Fin k1) (Fin k2) (Fin ks) (Fin m) (Fin q1) (Fin q2) (Fin q3) (Fin q6) (Fin r1) (Fin r2) =
    Fin (c6 * dq6 + s1 + I6 * (a1 - r1 / ks * (a1 * F + dq1 * dq1 * N) -
      k1 * (dq6 - dq1 + r1 / ks * dq1 * F) - k2 * (q6 - q1 - r1 / ks * N)))"
proof -
  have ne: "r1 * r1 \<noteq> 0" "ks \<noteq> 0" "m \<noteq> 0" "r2 \<noteq> 0" "ks * m * r2 * (cos (q2 * 2) - 1) \<noteq> 0" using assms(1,2) by auto
  have sq: "sin q2 * sin q2 + cos q2 * cos q2 = 1"
    using sin_cos_squared_add [of q2] by (simp add: power2_eq_square)
  note d = assms(5) [unfolded leg_dynamics_def]
  have "m * r1 * r1 * r2 * (sin q2 * sin q2) * a1 =
      r2 * (s1 + m * r1 * r2 * (dq1 + dq2) * (dq1 + dq2) * sin q2 - m * g * r1 * cos q1) -
      r1 * cos q2 * (s2 - m * r1 * r2 * dq1 * dq1 * sin q2 - m * g * r2 * (cos q1 * cos q2 - sin q1 * sin q2))"
    using dynamics_a1 [OF conjunct1 [OF d] conjunct2 [OF d] sq] by (simp only: cos_add)
  also have "\<dots> = r2 * s1 + m * r1 * r2 * r2 * (dq1 + dq2) * (dq1 + dq2) * sin q2 - r1 * cos q2 * s2 +
      m * r1 * r1 * r2 * dq1 * dq1 * sin q2 * cos q2 -
      m * g * r1 * r2 * (cos q1 * (1 - cos q2 * cos q2) + sin q1 * sin q2 * cos q2)"
    by (simp add: algebra_simps)
  also have "1 - cos q2 * cos q2 = sin q2 * sin q2" using sq by simp
  finally have a1: "m * r1 * r1 * r2 * (sin q2 * sin q2) * a1 = r2 * s1 +
      m * r1 * r2 * r2 * (dq1 + dq2) * (dq1 + dq2) * sin q2 - r1 * cos q2 * s2 +
      m * r1 * r1 * r2 * dq1 * dq1 * sin q2 * cos q2 -
      m * g * r1 * r2 * (cos q1 * (sin q2 * sin q2) + sin q1 * sin q2 * cos q2)" (is "?M * a1 = ?P") .
  let ?R = "c6 * dq6 + s1 + I6 * (a1 - r1 / ks * (a1 * F + dq1 * dq1 * N) -
      k1 * (dq6 - dq1 + r1 / ks * dq1 * F) - k2 * (q6 - q1 - r1 / ks * N))"
  have kR: "ks * ?R = ks * (c6 * dq6 + s1) + I6 * ((ks - r1 * F) * a1 - r1 * (dq1 * dq1 * N) -
      k1 * (ks * (dq6 - dq1) + r1 * dq1 * F) - k2 * (ks * (q6 - q1) - r1 * N))"
    using ne(2) by (simp add: field_simps)
  have "x * (ks * m * r2 * (1 - 2 * y - 1)) * (r1 * r1) = - 2 * (ks * x) * (m * r1 * r1 * r2 * y)" for x y
    by (simp add: algebra_simps)
  note R = this [of ?R, unfolded kR]
  have R: "?R * (ks * m * r2 * (1 - 2 * (sin q2 * sin q2) - 1)) * (r1 * r1) =
      - 2 * ?M * (ks * (c6 * dq6 + s1) + I6 * (- r1 * (dq1 * dq1 * N) -
        k1 * (ks * (dq6 - dq1) + r1 * dq1 * F) - k2 * (ks * (q6 - q1) - r1 * N))) - 2 * I6 * (ks - r1 * F) * (?M * a1)"
    unfolding R by (simp add: algebra_simps)
  have e: "x = ?R * y * (r1 * r1) \<Longrightarrow> y \<noteq> 0 \<Longrightarrow> Fin (1 / (r1 * r1) * x / y) = Fin ?R" for x y
    using ne(1) by (simp add: field_simps)
  show ?thesis
    unfolding stance_tauB_def
    by (simp only: fin_only ne not_False_eq_True, rule e)
      (simp only: double_angles R a1, simp only: assms(3,4,6,7), simp add: algebra_simps, rule ne(5))
qed

lemma angles_of_sum:
  fixes q1 q2 cb sb c s :: real
  assumes "cb = cos (q1 + q2)" and "sb = sin (q1 + q2)" and "c = cos q2" and "s = sin q2"
  shows "cos q1 = cb * c + sb * s" and "sin q1 = sb * c - cb * s"
    and "cos (q1 + q2 * 2) = cb * c - sb * s" and "sin (q1 + q2 * 2) = sb * c + cb * s"
    and "cos (q1 + q2 * 3) = cb * (1 - 2 * (s * s)) - sb * (2 * s * c)"
    and "sin (q1 + q2 * 3) = sb * (1 - 2 * (s * s)) + cb * (2 * s * c)"
    and "cos (q1 - q2) = cb * (1 - 2 * (s * s)) + sb * (2 * s * c)"
    and "sin (q1 - q2) = sb * (1 - 2 * (s * s)) - cb * (2 * s * c)"
    and "cos (q1 * 2 + q2 * 2) = 2 * (cb * cb) - 1" and "sin (q1 * 2 + q2 * 2) = 2 * sb * cb"
    and "cos (q1 * 2) = (2 * (cb * cb) - 1) * (1 - 2 * (s * s)) + 2 * sb * cb * (2 * s * c)"
    and "sin (q1 * 2) = 2 * sb * cb * (1 - 2 * (s * s)) - (2 * (cb * cb) - 1) * (2 * s * c)"
    and "cos (q2 * 2) = 1 - 2 * (s * s)" and "sin (q2 * 2) = 2 * s * c"
proof -
  have d: "cos (q2 * 2) = 1 - 2 * (s * s)" "sin (q2 * 2) = 2 * s * c"
    unfolding assms by (simp_all only: double_angles)
  have b2: "cos ((q1 + q2) * 2) = 2 * (cb * cb) - 1" "sin ((q1 + q2) * 2) = 2 * sb * cb"
    using cos_double_cos [of "q1 + q2"] double_angles(4) [of "q1 + q2"] unfolding assms
    by (simp_all add: power2_eq_square mult.commute)
  have e: "q1 = (q1 + q2) - q2" "q1 + q2 * 2 = (q1 + q2) + q2" "q1 + q2 * 3 = (q1 + q2) + q2 * 2"
    "q1 - q2 = (q1 + q2) - q2 * 2" "q1 * 2 + q2 * 2 = (q1 + q2) * 2" "q1 * 2 = (q1 + q2) * 2 - q2 * 2" by simp_all
  show "cos q1 = cb * c + sb * s" "sin q1 = sb * c - cb * s"
    by (subst e(1), simp only: cos_diff sin_diff assms)+
  show "cos (q1 + q2 * 2) = cb * c - sb * s" "sin (q1 + q2 * 2) = sb * c + cb * s"
    by (simp_all only: e(2) cos_add [of "q1 + q2"] sin_add [of "q1 + q2"] assms)
  show "cos (q1 + q2 * 3) = cb * (1 - 2 * (s * s)) - sb * (2 * s * c)"
    "sin (q1 + q2 * 3) = sb * (1 - 2 * (s * s)) + cb * (2 * s * c)"
    by (simp_all only: e(3) cos_add [of "q1 + q2"] sin_add [of "q1 + q2"] d) (simp_all only: assms)
  show "cos (q1 - q2) = cb * (1 - 2 * (s * s)) + sb * (2 * s * c)"
    "sin (q1 - q2) = sb * (1 - 2 * (s * s)) - cb * (2 * s * c)"
    by (simp_all only: e(4) cos_diff sin_diff d) (simp_all only: assms)
  show "cos (q1 * 2 + q2 * 2) = 2 * (cb * cb) - 1" "sin (q1 * 2 + q2 * 2) = 2 * sb * cb"
    by (simp_all only: e(5) b2)
  show "cos (q1 * 2) = (2 * (cb * cb) - 1) * (1 - 2 * (s * s)) + 2 * sb * cb * (2 * s * c)"
    "sin (q1 * 2) = 2 * sb * cb * (1 - 2 * (s * s)) - (2 * (cb * cb) - 1) * (2 * s * c)"
    by (simp_all only: e(6) cos_diff sin_diff d b2)
qed (simp_all only: double_angles assms)

lemma tauA_linearises:
  assumes "r2 \<noteq> 0" and "ks * m * r1 * (cos (q2 * 2) - 1) \<noteq> 0"
    and "s1 = ks * (q6 - q1) + cS * (dq6 - dq1)" and "s2 = ks * (q3 - (q1 + q2)) + cS * (dq3 - (dq1 + dq2))"
    and "leg_dynamics g m r1 r2 q1 q2 dq1 dq2 s1 s2 a1 a2"
    and "F = FxDes * cos (q1 + q2) + FyDes * sin (q1 + q2)" and "N = FyDes * cos (q1 + q2) - FxDes * sin (q1 + q2)"
  shows "stance_tauA (Fin FxDes) (Fin FyDes) (Fin I3) (Fin c3) (Fin cS) (Fin dq1) (Fin dq2) (Fin dq3) (Fin dq6)
      (Fin g) (Fin k1) (Fin k2) (Fin ks) (Fin m) (Fin q1) (Fin q2) (Fin q3) (Fin q6) (Fin r1) (Fin r2) =
    Fin (c3 * dq3 + s2 + I3 * (a2 - r2 / ks * (a2 * F + (dq1 + dq2) * (dq1 + dq2) * N) -
      k1 * (dq3 - (dq1 + dq2) + r2 / ks * (dq1 + dq2) * F) - k2 * (q3 - (q1 + q2) - r2 / ks * N)))"
proof -
  have ne: "r2 * r2 \<noteq> 0" "ks \<noteq> 0" "m \<noteq> 0" "r1 \<noteq> 0" "ks * m * r1 * (cos (q2 * 2) - 1) \<noteq> 0" "(2::real) \<noteq> 0"
    using assms(1,2) by auto
  define cb sb c s where "cb = cos (q1 + q2)" and "sb = sin (q1 + q2)" and "c = cos q2" and "s = sin q2"
  note an = angles_of_sum [OF cb_def sb_def c_def s_def]
  have sq: "c * c = 1 - s * s" "sb * sb = 1 - cb * cb"
    using sin_cos_squared_add [of q2] sin_cos_squared_add [of "q1 + q2"]
    by (simp_all add: power2_eq_square c_def s_def cb_def sb_def algebra_simps)
  have sqx: "c * (c * x) = x - s * (s * x)" "sb * (sb * x) = x - cb * (cb * x)" for x
    by (simp_all add: mult.assoc [symmetric] sq left_diff_distrib)
  note d = assms(5) [unfolded leg_dynamics_def, folded cb_def c_def s_def, unfolded an(1)]
  have d2: "m * r2 * r2 * a2 + m * r2 * r1 * c * a1 = s2 - m * r1 * r2 * dq1 * dq1 * s - m * g * r2 * cb"
    "m * r1 * r1 * a1 + m * r2 * r1 * c * a2 = s1 + m * r1 * r2 * (dq1 + dq2) * (dq1 + dq2) * s - m * g * r1 * (cb * c + sb * s)"
    using d by (simp_all add: ac_simps)
  have "s * s + c * c = 1" using sq by simp
  from dynamics_a1 [OF d2 this]
  have a2: "m * r2 * r2 * r1 * (s * s) * a2 = r1 * (s2 - m * r1 * r2 * dq1 * dq1 * s - m * g * r2 * cb) -
      r2 * c * (s1 + m * r1 * r2 * (dq1 + dq2) * (dq1 + dq2) * s - m * g * r1 * (cb * c + sb * s))" (is "?M * a2 = ?P") .
  define db where "db = dq1 + dq2"
  let ?R = "c3 * dq3 + s2 + I3 * (a2 - r2 / ks * (a2 * F + db * db * N) -
      k1 * (dq3 - db + r2 / ks * db * F) - k2 * (q3 - (q1 + q2) - r2 / ks * N))"
  have kR: "ks * ?R = ks * (c3 * dq3 + s2) + I3 * ((ks - r2 * F) * a2 - r2 * (db * db * N) -
      k1 * (ks * (dq3 - db) + r2 * db * F) - k2 * (ks * (q3 - (q1 + q2)) - r2 * N))"
    using ne(2) by (simp add: field_simps)
  have "x * (ks * m * r1 * (1 - 2 * y - 1)) * (r2 * r2) = - 2 * (ks * x) * (m * r2 * r2 * r1 * y)" for x y
    by (simp add: algebra_simps)
  note R = this [of ?R, unfolded kR]
  have R: "?R * (ks * m * r1 * (1 - 2 * (s * s) - 1)) * (r2 * r2) =
      - 2 * ?M * (ks * (c3 * dq3 + s2) + I3 * (- r2 * (db * db * N) -
        k1 * (ks * (dq3 - db) + r2 * db * F) - k2 * (ks * (q3 - (q1 + q2)) - r2 * N))) - 2 * I3 * (ks - r2 * F) * (?M * a2)"
    unfolding R by (simp add: algebra_simps)
  have e: "x * (- 1 / 2) = ?R * y * (r2 * r2) \<Longrightarrow> y \<noteq> 0 \<Longrightarrow> Fin (1 / (r2 * r2) * x * (- 1 / 2) / y) = Fin ?R" for x y
    using ne(1) by (simp add: field_simps)
  show ?thesis
    unfolding db_def [symmetric] stance_tauA_def
    by (simp only: fin_only ne not_False_eq_True, rule e)
      (simp only: an cb_def [symmetric] sb_def [symmetric] c_def [symmetric] s_def [symmetric] R a2,
       simp only: assms(3,4,6,7) cb_def [symmetric] sb_def [symmetric] db_def,
       simp add: algebra_simps sq sqx, rule ne(5))
qed

text \<open>
  The deviation of a spring from the torque that would give the wanted force: \<open>qm\<close> and \<open>ql\<close> are the angles of the
  motor and of the link. The force is \<open>(Fx, Fy)\<close>, its arm is the link.
\<close>

definition spring_error :: "real \<Rightarrow> real \<Rightarrow> real \<Rightarrow> real \<Rightarrow> real \<Rightarrow> real" where
  "spring_error r Fx Fy qm ql = qm - ql - r / KS * (Fy * cos ql - Fx * sin ql)"

definition spring_error_rate :: "real \<Rightarrow> real \<Rightarrow> real \<Rightarrow> real \<Rightarrow> real \<Rightarrow> real \<Rightarrow> real" where
  "spring_error_rate r Fx Fy dqm ql dql = dqm - dql + r / KS * dql * (Fx * cos ql + Fy * sin ql)"

definition spring_error_acc :: "real \<Rightarrow> real \<Rightarrow> real \<Rightarrow> real \<Rightarrow> real \<Rightarrow> real \<Rightarrow> real \<Rightarrow> real" where
  "spring_error_acc r Fx Fy am ql dql al =
     am - al + r / KS * (al * (Fx * cos ql + Fy * sin ql) + dql * dql * (Fy * cos ql - Fx * sin ql))"

lemma spring_error_deriv:
  assumes "(qm has_real_derivative dqm) (at t)" and "(ql has_real_derivative dql) (at t)"
  shows "((\<lambda>t. spring_error r Fx Fy (qm t) (ql t)) has_real_derivative
      spring_error_rate r Fx Fy dqm (ql t) dql) (at t)"
  unfolding spring_error_def spring_error_rate_def
  by (rule derivative_eq_intros assms refl | simp add: algebra_simps)+

lemma spring_error_rate_deriv:
  assumes "(dqm has_real_derivative am) (at t)" and "(ql has_real_derivative dql t) (at t)"
    and "(dql has_real_derivative al) (at t)"
  shows "((\<lambda>t. spring_error_rate r Fx Fy (dqm t) (ql t) (dql t)) has_real_derivative
      spring_error_acc r Fx Fy am (ql t) (dql t) al) (at t)"
  unfolding spring_error_rate_def spring_error_acc_def
  by (rule derivative_eq_intros assms refl | simp add: algebra_simps)+

text \<open>Angles and velocities of a leg in the frame of the model: the body pitch is removed.\<close>

definition world_angle :: "real \<Rightarrow> real \<Rightarrow> real" where
  "world_angle qb q = M_PI - (q + (qb - 3 * M_PI / 2))"

definition rotor_inertia :: real where "rotor_inertia = 0.0019 * KG * KG"

lemma linearised_current:
  assumes "J \<noteq> 0" and "J * b + c * dqm + s = t"
    and "t = c * dqm + s + J * (a - x - y - z)"
  shows "b - a + x + y + z = (0::real)"
proof -
  have "J * b = J * (a - x - y - z)" using assms(2,3) by simp
  then have "b = a - x - y - z" using assms(1) by simp
  then show ?thesis by simp
qed

text \<open>
  C10. Stance force control: for finite inputs and a bent knee the currents of
  \<open>legForceControl\<close> are finite, and when the rotors accelerate under the torques of these currents (gear ratio
  \<open>KG\<close>, torque constant \<open>KT\<close>) against the springs of a leg that carries the robot's mass, the
  deviation \<open>e\<close> of each spring from the wanted ground force satisfies \<open>e'' + k1 e' + k2 e = 0\<close>.
\<close>

theorem stance_force_linearised:
  assumes "fx F = Fin Fx" and "fz F = Fin Fz"
    and "legAngle (halfA leg) = Fin la" and "legAngle (halfB leg) = Fin lb"
    and "motorAngle (halfA leg) = Fin ma" and "motorAngle (halfB leg) = Fin mb"
    and "legVelocity (halfA leg) = Fin dla" and "legVelocity (halfB leg) = Fin dlb"
    and "motorVelocity (halfA leg) = Fin dma" and "motorVelocity (halfB leg) = Fin dmb"
    and "bodyPitch pos = Fin qb" and "bodyPitchVelocity pos = Fin dqb"
    and bent: "sin (lb - la) \<noteq> 0"
    and lA: "lA = world_angle qb la" "vA = - (dla + dqb)" and lB: "lB = world_angle qb lb" "vB = - (dlb + dqb)"
    and mA: "mA = world_angle qb ma" "uA = - (dma + dqb)" and mB: "mB = world_angle qb mb" "uB = - (dmb + dqb)"
    and sA: "sA = KS * (mA - lA) + 1.49 * (uA - vA)" and sB: "sB = KS * (mB - lB) + 1.49 * (uB - vB)"
    and plant: "leg_dynamics G_ACC ATRIAS_MASS L1 L2 lB (lA - lB) vB (vA - vB) sB sA aB aA"
  shows "\<exists>cA cB. legForceControl (Fin k1A) (Fin k1B) (Fin k2A) (Fin k2B) F leg pos = (Fin cA, Fin cB) \<and>
    (\<forall>bA. rotor_inertia * bA + 19 * uA + sA = - (KG * KT * cA) \<longrightarrow>
      spring_error_acc L2 (- Fx) (- Fz) bA lA vA aA + k1A * spring_error_rate L2 (- Fx) (- Fz) uA lA vA +
      k2A * spring_error L2 (- Fx) (- Fz) mA lA = 0) \<and>
    (\<forall>bB. rotor_inertia * bB + 19 * uB + sB = - (KG * KT * cB) \<longrightarrow>
      spring_error_acc L1 (- Fx) (- Fz) bB lB vB aB + k1B * spring_error_rate L1 (- Fx) (- Fz) uB lB vB +
      k2B * spring_error L1 (- Fx) (- Fz) mB lB = 0)"
proof -
  define q2 v2 where "q2 = lA - lB" and "v2 = vA - vB"
  have e: "lB + q2 = lA" "vB + v2 = vA" "q2 = lb - la" "v2 = dlb - dla"
    by (simp_all add: q2_def v2_def lA lB world_angle_def)
  have L: "L1 \<noteq> 0" "L2 \<noteq> 0" and K: "KG \<noteq> 0" "KT \<noteq> 0" "rotor_inertia \<noteq> 0"
    by (simp_all add: consts_simp rotor_inertia_def)
  have "cos (q2 * 2) - 1 = - 2 * (sin q2 * sin q2)" unfolding double_angles by simp
  then have ne: "KS * ATRIAS_MASS * L1 * (cos (q2 * 2) - 1) \<noteq> 0" "KS * ATRIAS_MASS * L2 * (cos (q2 * 2) - 1) \<noteq> 0"
    using bent L unfolding e(3) by (simp_all add: consts_simp ATRIAS_MASS_def)
  have p: "leg_dynamics G_ACC ATRIAS_MASS L1 L2 lB q2 vB v2 sB sA aB aA" using plant by (simp only: q2_def v2_def)
  have s2: "sA = KS * (mA - (lB + q2)) + 1.49 * (uA - (vB + v2))" unfolding e(1,2) sA ..
  note tA = tauA_linearises [OF L(2) ne(1) sB s2 p refl refl, unfolded e(1,2)]
  note tB = tauB_linearises [OF L(1) ne(2) sB s2 p refl refl]
  define I where "I = rotor_inertia"
  define NA FA NB FB where "NA = - Fz * cos lA - - Fx * sin lA" and "FA = - Fx * cos lA + - Fz * sin lA"
    and "NB = - Fz * cos lB - - Fx * sin lB" and "FB = - Fx * cos lB + - Fz * sin lB"
  define TA where "TA = 19 * uA + sA + I * (aA - L2 / KS * (aA * FA + vA * vA * NA) -
      k1A * (uA - vA + L2 / KS * vA * FA) - k2A * (mA - lA - L2 / KS * NA))"
  define TB where "TB = 19 * uB + sB + I * (aB - L1 / KS * (aB * FB + vB * vB * NB) -
      k1B * (uB - vB + L1 / KS * vB * FB) - k2B * (mB - lB - L1 / KS * NB))"
  have "legForceControl (Fin k1A) (Fin k1B) (Fin k2A) (Fin k2B) F leg pos =
      (Fin (- (TA / KG / KT)), Fin (- (TB / KG / KT)))"
  proof -
    have w: "M_PI - (lb + (qb - 3 * M_PI / 2)) = lB" "M_PI - (ma + (qb - 3 * M_PI / 2)) = mA"
      "M_PI - (mb + (qb - 3 * M_PI / 2)) = mB" "lb + (qb - 3 * M_PI / 2) - (la + (qb - 3 * M_PI / 2)) = q2"
      "- (dlb + dqb) = vB" "dlb + dqb - (dla + dqb) = v2" "- (dma + dqb) = uA" "- (dmb + dqb) = uB"
      "0.0019 * KG * KG = I"
      by (simp_all add: lA lB mA mB world_angle_def e(3,4) I_def rotor_inertia_def)
    have two: "(2::real) \<noteq> 0" by simp
    show ?thesis
      unfolding legForceControl_def Let_def assms(1-12)
      by (simp only: fin_only two K not_False_eq_True w tA tB, simp only: prod.inject dbl.inject TA_def TB_def NA_def FA_def NB_def FB_def)
  qed
  moreover have T: "- (KG * KT * - (t / KG / KT)) = t" for t using K by simp
  have "spring_error_acc L2 (- Fx) (- Fz) bA lA vA aA + k1A * spring_error_rate L2 (- Fx) (- Fz) uA lA vA +
      k2A * spring_error L2 (- Fx) (- Fz) mA lA = 0"
    if "rotor_inertia * bA + 19 * uA + sA = - (KG * KT * - (TA / KG / KT))" for bA
    using linearised_current [OF K(3) that [unfolded T], unfolded TA_def I_def, OF refl]
    unfolding spring_error_acc_def spring_error_rate_def spring_error_def NA_def FA_def .
  moreover have "spring_error_acc L1 (- Fx) (- Fz) bB lB vB aB + k1B * spring_error_rate L1 (- Fx) (- Fz) uB lB vB +
      k2B * spring_error L1 (- Fx) (- Fz) mB lB = 0"
    if "rotor_inertia * bB + 19 * uB + sB = - (KG * KT * - (TB / KG / KT))" for bB
    using linearised_current [OF K(3) that [unfolded T], unfolded TB_def I_def, OF refl]
    unfolding spring_error_acc_def spring_error_rate_def spring_error_def NB_def FB_def .
  ultimately show ?thesis by blast
qed

definition bent_leg :: robot_state_leg where
  "bent_leg = robot_state_leg_zero
     \<lparr>halfA := robot_state_legHalf_zero\<lparr>legAngle := Fin 0, motorAngle := Fin 0, legVelocity := Fin 0, motorVelocity := Fin 0\<rparr>,
      halfB := robot_state_legHalf_zero\<lparr>legAngle := Fin (pi / 2), motorAngle := Fin (pi / 2), legVelocity := Fin 0,
        motorVelocity := Fin 0\<rparr>\<rparr>"

lemma stance_force_linearised_witness:
  "\<exists>cA cB. legForceControl (Fin 2) (Fin 2) (Fin 1) (Fin 1) \<lparr>fx = Fin 30, fz = Fin (- 400), dfx = Fin 0, dfz = Fin 0\<rparr>
      bent_leg (robot_state_location_zero\<lparr>bodyPitch := Fin (5 * M_PI / 2), bodyPitchVelocity := Fin 0\<rparr>) = (Fin cA, Fin cB) \<and>
    (\<forall>bA. rotor_inertia * bA = - (KG * KT * cA) \<longrightarrow>
      spring_error_acc L2 (- 30) 400 bA 0 0 (- G_ACC / L2) + 2 * spring_error_rate L2 (- 30) 400 0 0 0 +
      spring_error L2 (- 30) 400 0 0 = 0)"
proof -
  have w: "world_angle (5 * M_PI / 2) q = - q" for q
    by (simp add: world_angle_def)
  have L: "L1 \<noteq> 0" "L2 \<noteq> 0" by (simp_all add: consts_simp)
  have p: "leg_dynamics G_ACC ATRIAS_MASS L1 L2 (- (pi / 2)) (0 - - (pi / 2)) 0 (0 - 0) 0 0 0 (- G_ACC / L2)"
    using L by (simp add: leg_dynamics_def)
  show ?thesis
    using stance_force_linearised [of "\<lparr>fx = Fin 30, fz = Fin (- 400), dfx = Fin 0, dfz = Fin 0\<rparr>" 30 "- 400" bent_leg
        0 "pi / 2" 0 "pi / 2" 0 0 0 0 "robot_state_location_zero\<lparr>bodyPitch := Fin (5 * M_PI / 2), bodyPitchVelocity := Fin 0\<rparr>"
        "5 * M_PI / 2" 0 0 0 "- (pi / 2)" 0 0 0 "- (pi / 2)" 0 0 0 0 "- G_ACC / L2" 2 2 1 1] p
    unfolding w bent_leg_def by simp blast
qed

end
