(* ===== verification/CanonicalWalking.thy ===== *)
theory CanonicalWalking
  imports Gait HipKinematics StanceForce
begin

text \<open>
  The controller ATCCanonicalWalking: standing, walking along a fixed trajectory and stopping. The trajectory is four
  Bezier polynomials over the phase of the step; the legs exchange their roles at the end of a step. The
  theorems: for any table the targets stay within the range of its rows and the target velocities are their rates when the
  two tables fit; the tables of the header fit, and the step ends where the next one starts, once the numbers of one
  row, which lacks two commas and does not compile, are separated.
\<close>

subsection \<open>Tables\<close>

definition D_OPT :: "real list list" where
  "D_OPT =
     [[1.53378042226602, - 6.73854164123482, 8.77503956762755, - 9.04766702932585, 4.71450763234033, - 2.20953363640152],
      [- 0.384299662953726, - 1.01023878074645, - 0.629306179225527, 0.349398650471944, - 0.885695635726687, - 0.500526178755031],
      [- 2.44939219902102, 8.04639344302521, - 17.2369374018324, 13.3023673000000, - 0.0717678408949780, 1.38359694414531],
      [- 0.554860410949804, - 2.02950547554476, 3.28118529112322, 5.43899300933585, - 2.73042132607544, - 0.346696209239457]]"

definition X_OPT :: "real list" where
  "X_OPT = [2.63529972490620, 3.37031174388957, 3.13058278616339, 3.88033369474228]"

definition P_LIMITS :: "real list" where
  "P_LIMITS = [- 0.286373623667230, 0.177718855319307]"

definition invT :: "real list list" where
  "invT = [[1, 0, 0, 0], [0, 1, 0, 0], [0, 0, 1, 0], [0, 0, 0, 1]]"

subsection \<open>State\<close>

datatype TauSource = STANCE_LEG_ANGLE | TauGUI | UnnamedTau int

definition TauSource_of :: "uint8 \<Rightarrow> TauSource" where
  "TauSource_of w = (if w = 0 then STANCE_LEG_ANGLE else if w = 1 then TauGUI else UnnamedTau (sint w))"

record canonical_input =
  cw_leg_pos_kp :: dbl
  cw_leg_pos_kd :: dbl
  cw_hip_pos_kp :: dbl
  cw_hip_pos_kd :: dbl
  cw_left_toe_pos :: dbl
  cw_right_toe_pos :: dbl
  cw_main_controller :: uint8
  maxCurrent :: dbl
  maxSpeed :: dbl
  maxDefl :: dbl
  maxTauRate :: dbl
  tauMode :: uint8
  manualTau :: dbl

record canonical_log =
  lqATgt :: dbl
  lqBTgt :: dbl
  rqATgt :: dbl
  rqBTgt :: dbl
  log_tau :: dbl
  log_dtau :: dbl

text \<open>
  The arrays that every call of the walking controller fills before it reads them are local in the definitions.
  The constructor leaves \<open>isInitialized\<close> as the memory was.
\<close>

record canonical_walking = atc +
  cw_guiIn :: canonical_input
  cw_logOut :: canonical_log
  pdLA :: ASCPD
  pdLB :: ASCPD
  pdLH :: ASCPD
  pdRA :: ASCPD
  pdRB :: ASCPD
  pdRH :: ASCPD
  rateLimLA :: dbl
  rateLimLB :: dbl
  rateLimLH :: dbl
  rateLimRA :: dbl
  rateLimRB :: dbl
  rateLimRH :: dbl
  rateLimTau :: dbl
  theta_limit1 :: dbl
  theta_limit2 :: dbl
  param_mat :: "dbl list list"
  diff_param_mat :: "dbl list list"
  pos_initial :: "dbl list"
  sleg :: leg_side
  cw_controllerState :: int
  cw_rate :: dbl
  isInitialized :: bool

text \<open>
  The table of the angles, \<open>A_OPT\<close>, is a parameter: as the header stands its second row lacks two commas, so that the
  declaration is not C++ and says no table. \<open>opt_angles\<close> below is the table that its numbers are when they are separated.
\<close>

definition init_param :: "real list list \<Rightarrow> canonical_walking \<Rightarrow> canonical_walking" where
  "init_param a_opt s = s
     \<lparr>param_mat := map (\<lambda>i. map (\<lambda>j. Fin (a_opt ! i ! j)) [0..<7]) [0..<4],
      diff_param_mat := map (\<lambda>i. map (\<lambda>j. Fin (D_OPT ! i ! j)) [0..<6]) [0..<4],
      theta_limit1 := Fin (P_LIMITS ! 0), theta_limit2 := Fin (P_LIMITS ! 1)\<rparr>"

definition init_pos :: "canonical_walking \<Rightarrow> canonical_walking" where
  "init_pos s = s\<lparr>pos_initial := map (\<lambda>i. Fin (X_OPT ! i)) [0..<4]\<rparr>"

definition new_ATCCanonicalWalking :: "real list list \<Rightarrow> canonical_walking \<Rightarrow> canonical_walking" where
  "new_ATCCanonicalWalking a_opt mem =
     (let s = init_pos (init_param a_opt (mem\<lparr>cw_rate := Fin 0.3\<rparr>)) in s\<lparr>sleg := LeftLeg\<rparr>)"

subsection \<open>The trajectory\<close>

primrec dbl_pow :: "dbl \<Rightarrow> nat \<Rightarrow> dbl" where
  "dbl_pow x 0 = Fin 1"
| "dbl_pow x (Suc n) = x * dbl_pow x n"

definition compute_y2d :: "dbl list list \<Rightarrow> dbl \<Rightarrow> dbl list" where
  "compute_y2d p tau = map (\<lambda>j. let a = p ! j; u = Fin 1 - tau in
     a ! 0 * dbl_pow u 6 + Fin 6 * a ! 1 * tau * dbl_pow u 5 +
     Fin 15 * a ! 2 * dbl_pow tau 2 * dbl_pow u 4 + Fin 20 * a ! 3 * dbl_pow tau 3 * dbl_pow u 3 +
     Fin 15 * a ! 4 * dbl_pow tau 4 * dbl_pow u 2 + Fin 6 * a ! 5 * dbl_pow tau 5 * u +
     a ! 6 * dbl_pow tau 6) [0..<4]"

definition compute_y2dDot :: "dbl list list \<Rightarrow> dbl \<Rightarrow> dbl \<Rightarrow> dbl list" where
  "compute_y2dDot d tau dtau = map (\<lambda>j. let a = d ! j; u = Fin 1 - tau in
     (a ! 0 * dbl_pow u 5 + Fin 5 * a ! 1 * tau * dbl_pow u 4 +
      Fin 10 * a ! 2 * dbl_pow tau 2 * dbl_pow u 3 + Fin 10 * a ! 3 * dbl_pow tau 3 * dbl_pow u 2 +
      Fin 5 * a ! 4 * dbl_pow tau 4 * u +
      a ! 5 * dbl_pow tau 5) * dtau) [0..<4]"

text \<open>The state vector of ten entries: entries 1 to 4 are the motor angles, 6 to 9 their rates.\<close>

definition phi_inverse_mat :: "dbl list \<Rightarrow> dbl list \<Rightarrow> dbl list" where
  "phi_inverse_mat y dy =
     (let row = (\<lambda>v i. foldl (\<lambda>acc j. acc + Fin (invT ! i ! j) * v ! j) (Fin 0) [0..<4])
      in [Fin 0, row y 0, row y 1, row y 2, row y 3, Fin 0, row dy 0, row dy 1, row dy 2, row dy 3])"

definition convert2torso :: "leg_side \<Rightarrow> robot_state \<Rightarrow> dbl list" where
  "convert2torso sl rs =
     (let st = (case sl of LeftLeg \<Rightarrow> lLeg rs | RightLeg \<Rightarrow> rLeg rs);
          sw = (case sl of LeftLeg \<Rightarrow> rLeg rs | RightLeg \<Rightarrow> lLeg rs);
          h = Fin PI / Fin 2
      in [bodyPitch (position rs) - Fin 3 * Fin PI / Fin 2,
          legAngle (halfA st) + h, legAngle (halfB st) + h, legAngle (halfA sw) + h, legAngle (halfB sw) + h,
          bodyPitchVelocity (position rs),
          legVelocity (halfA st), legVelocity (halfB st), legVelocity (halfA sw), legVelocity (halfB sw)])"

text \<open>Targets and their rates, for left A, left B, right A, right B.\<close>

definition convert2bodypitch :: "leg_side \<Rightarrow> dbl list \<Rightarrow> dbl list \<times> dbl list" where
  "convert2bodypitch sl xd =
     (let h = Fin PI / Fin 2
      in case sl of
           LeftLeg \<Rightarrow> ([xd ! 1 - h, xd ! 2 - h, xd ! 3 - h, xd ! 4 - h], [xd ! 6, xd ! 7, xd ! 8, xd ! 9])
         | RightLeg \<Rightarrow> ([xd ! 3 - h, xd ! 4 - h, xd ! 1 - h, xd ! 2 - h], [xd ! 8, xd ! 9, xd ! 6, xd ! 7]))"

subsection \<open>Phase\<close>

definition stance_tau :: "dbl list \<Rightarrow> canonical_walking \<Rightarrow> dbl" where
  "stance_tau xa s =
     (let th = Fin PI - (xa ! 0 + (xa ! 1 + xa ! 2) / Fin 2)
      in (th - theta_limit1 s) / (theta_limit2 s - theta_limit1 s))"

definition compute_tau :: "dbl list \<Rightarrow> canonical_walking \<Rightarrow> dbl \<times> canonical_walking" where
  "compute_tau xa s =
     (case TauSource_of (tauMode (cw_guiIn s)) of
        TauGUI \<Rightarrow>
          (let s = (if isInitialized s then s\<lparr>rateLimTau := rate_limit_reset (manualTau (cw_guiIn s)) (rateLimTau s)\<rparr> else s);
               out = rate_limit (manualTau (cw_guiIn s)) (maxTauRate (cw_guiIn s)) (rateLimTau s)
           in (out, s\<lparr>rateLimTau := out\<rparr>))
      | STANCE_LEG_ANGLE \<Rightarrow>
          (let tau = stance_tau xa s in (tau, s\<lparr>rateLimTau := rate_limit_reset tau (rateLimTau s)\<rparr>))
      | UnnamedTau _ \<Rightarrow> (Fin 0, commandEStop s))"

definition compute_dtau :: "dbl list \<Rightarrow> canonical_walking \<Rightarrow> dbl \<times> canonical_walking" where
  "compute_dtau xa s =
     (case TauSource_of (tauMode (cw_guiIn s)) of
        TauGUI \<Rightarrow> (Fin 0, s)
      | STANCE_LEG_ANGLE \<Rightarrow> (- (xa ! 5 + (xa ! 6 + xa ! 7) / Fin 2) / (theta_limit2 s - theta_limit1 s), s)
      | UnnamedTau _ \<Rightarrow> (Fin 0, commandEStop s))"

subsection \<open>The modes\<close>

definition set_leg_currents :: "dbl list \<Rightarrow> 'c atc_scheme \<Rightarrow> 'c atc_scheme" where
  "set_leg_currents c s = s\<lparr>atc_co := (atc_co s)
     \<lparr>co_lLeg := (co_lLeg (atc_co s))\<lparr>motorCurrentA := c ! 0, motorCurrentB := c ! 1\<rparr>,
      co_rLeg := (co_rLeg (atc_co s))\<lparr>motorCurrentA := c ! 2, motorCurrentB := c ! 3\<rparr>\<rparr>\<rparr>"

text \<open>The position controllers of the legs, on targets and rates in the order left A, left B, right A, right B.\<close>

definition leg_pds :: "dbl list \<Rightarrow> dbl list \<Rightarrow> canonical_walking \<Rightarrow> dbl list" where
  "leg_pds q dq s =
     (let l = lLeg (atc_rs s); r = rLeg (atc_rs s)
      in [pd_call (pdLA s) (q ! 0) (motorAngle (halfA l)) (dq ! 0) (rotorVelocity (halfA l)),
          pd_call (pdLB s) (q ! 1) (motorAngle (halfB l)) (dq ! 1) (rotorVelocity (halfB l)),
          pd_call (pdRA s) (q ! 2) (motorAngle (halfA r)) (dq ! 2) (rotorVelocity (halfA r)),
          pd_call (pdRB s) (q ! 3) (motorAngle (halfB r)) (dq ! 3) (rotorVelocity (halfB r))])"

text \<open>The parameter \<open>stop\<close> is not used.\<close>

definition cw_hipController :: "bool \<Rightarrow> bool \<Rightarrow> canonical_walking \<Rightarrow> canonical_walking" where
  "cw_hipController start stop s =
     (let rs = atc_rs s; l = hip (lLeg rs); r = hip (rLeg rs);
          s = (if \<not> isEnabled s
               then s\<lparr>rateLimLH := rate_limit_reset (legBodyAngle l) (rateLimLH s),
                      rateLimRH := rate_limit_reset (legBodyAngle r) (rateLimRH s)\<rparr> else s);
          toe = \<lparr>lr_left = cw_left_toe_pos (cw_guiIn s), lr_right = cw_right_toe_pos (cw_guiIn s)\<rparr>;
          (lhTgt, rhTgt) = iKine toe (lLeg rs) (rLeg rs) (position rs);
          s = (if \<not> start
               then s\<lparr>rateLimLH := rate_limit_reset lhTgt (rateLimLH s), rateLimRH := rate_limit_reset rhTgt (rateLimRH s)\<rparr>
               else s);
          lhTgt = rate_limit lhTgt (Fin 0.1) (rateLimLH s);
          rhTgt = rate_limit rhTgt (Fin 0.1) (rateLimRH s);
          s = s\<lparr>rateLimLH := lhTgt, rateLimRH := rhTgt\<rparr>
      in s\<lparr>atc_co := (atc_co s)
           \<lparr>co_lLeg := (co_lLeg (atc_co s))\<lparr>motorCurrentHip := pd_call (pdLH s) lhTgt (legBodyAngle l) (Fin 0) (legBodyVelocity l)\<rparr>,
            co_rLeg := (co_rLeg (atc_co s))\<lparr>motorCurrentHip := pd_call (pdRH s) rhTgt (legBodyAngle r) (Fin 0) (legBodyVelocity r)\<rparr>\<rparr>\<rparr>)"

definition cw_standingController :: "canonical_walking \<Rightarrow> canonical_walking" where
  "cw_standingController s =
     (let s = s\<lparr>isInitialized := True\<rparr>;
          h = Fin M_PI / Fin 2;
          rqA = rate_limit (pos_initial s ! 0 - h) (cw_rate s) (rateLimRA s);
          rqB = rate_limit (pos_initial s ! 1 - h) (cw_rate s) (rateLimRB s);
          lqA = rate_limit (pos_initial s ! 2 - h) (cw_rate s) (rateLimLA s);
          lqB = rate_limit (pos_initial s ! 3 - h) (cw_rate s) (rateLimLB s);
          s = s\<lparr>rateLimRA := rqA, rateLimRB := rqB, rateLimLA := lqA, rateLimLB := lqB,
                cw_logOut := (cw_logOut s)\<lparr>rqATgt := rqA, rqBTgt := rqB, lqATgt := lqA, lqBTgt := lqB\<rparr>\<rparr>;
          s = set_leg_currents (leg_pds [lqA, lqB, rqA, rqB] [Fin 0, Fin 0, Fin 0, Fin 0] s) s
      in cw_hipController True False s)"

definition cw_stoppingController :: "canonical_walking \<Rightarrow> canonical_walking" where
  "cw_stoppingController s =
     (let l = lLeg (atc_rs s); r = rLeg (atc_rs s); z = Fin 0;
          s = set_leg_currents
                [pd_call (pdLA s) z z z (rotorVelocity (halfA l)), pd_call (pdLB s) z z z (rotorVelocity (halfB l)),
                 pd_call (pdRA s) z z z (rotorVelocity (halfA r)), pd_call (pdRB s) z z z (rotorVelocity (halfB r))] s
      in cw_hipController False True s)"

definition walkingController :: "canonical_walking \<Rightarrow> canonical_walking" where
  "walkingController s =
     (let xa = convert2torso (sleg s) (atc_rs s);
          (tau, s) = compute_tau xa s;
          (dtau, s) = compute_dtau xa s;
          s = s\<lparr>cw_logOut := (cw_logOut s)\<lparr>log_tau := tau, log_dtau := dtau\<rparr>\<rparr>;
          tau_d = tau;
          tau_d = (if Fin 1 < tau_d then Fin 1 else tau_d);
          tau_d = (if tau_d < Fin (- 0.001) then Fin (- 0.001) else tau_d);
          y2d = compute_y2d (param_mat s) tau_d;
          y2dDot = compute_y2dDot (diff_param_mat s) tau_d dtau;
          xd = phi_inverse_mat y2d y2dDot;
          (qTgt, dqTgt) = convert2bodypitch (sleg s) xd;
          s = set_leg_currents (leg_pds qTgt dqTgt s) s;
          s = cw_hipController False False s
      in if TauSource_of (tauMode (cw_guiIn s)) = STANCE_LEG_ANGLE \<and> Fin 0.98 < tau_d
         then s\<lparr>sleg := (if sleg s = LeftLeg then RightLeg else LeftLeg)\<rparr> else s)"

subsection \<open>The controller\<close>

definition clampTorques :: "canonical_walking \<Rightarrow> canonical_walking" where
  "clampTorques s =
     (let m = maxCurrent (cw_guiIn s); cl = map_currents (\<lambda>x. ac_clamp x (- m) m) (\<lambda>x. ac_clamp x (- m) m)
      in s\<lparr>atc_co := (atc_co s)\<lparr>co_lLeg := cl (co_lLeg (atc_co s)), co_rLeg := cl (co_rLeg (atc_co s))\<rparr>\<rparr>)"

definition checkLimits :: "canonical_walking \<Rightarrow> canonical_walking" where
  "checkLimits s =
     (let l = lLeg (atc_rs s); r = rLeg (atc_rs s); m = maxSpeed (cw_guiIn s); d = maxDefl (cw_guiIn s);
          s = (if m < fabs (rotorVelocity (halfA l)) \<or> m < fabs (rotorVelocity (halfB l)) \<or>
                  m < fabs (rotorVelocity (halfA r)) \<or> m < fabs (rotorVelocity (halfB r)) \<or>
                  m < fabs (legBodyVelocity (hip l)) \<or> m < fabs (legBodyVelocity (hip r))
               then commandEStop s else s)
      in if d < fabs (motorAngle (halfA l) - legAngle (halfA l)) \<or> d < fabs (motorAngle (halfB l) - legAngle (halfB l)) \<or>
            d < fabs (motorAngle (halfA r) - legAngle (halfA r)) \<or> d < fabs (motorAngle (halfB r) - legAngle (halfB r))
         then commandEStop s else s)"

definition cw_updateController :: "canonical_walking \<Rightarrow> canonical_walking" where
  "cw_updateController s =
     (let gui = cw_guiIn s; rs = atc_rs s;
          pm = \<lparr>pd_P = cw_leg_pos_kp gui, pd_D = cw_leg_pos_kd gui\<rparr>;
          ph = \<lparr>pd_P = cw_hip_pos_kp gui, pd_D = cw_hip_pos_kd gui\<rparr>;
          s = s\<lparr>pdLA := pm, pdLB := pm, pdRA := pm, pdRB := pm, pdLH := ph, pdRH := ph\<rparr>;
          s = s\<lparr>cw_controllerState := sint (cw_main_controller gui)\<rparr>
      in if cw_controllerState s \<noteq> 0 \<or> \<not> isEnabled s
         then s\<lparr>rateLimLA := rate_limit_reset (motorAngle (halfA (lLeg rs))) (rateLimLA s),
                rateLimLB := rate_limit_reset (motorAngle (halfB (lLeg rs))) (rateLimLB s),
                rateLimRA := rate_limit_reset (motorAngle (halfA (rLeg rs))) (rateLimRA s),
                rateLimRB := rate_limit_reset (motorAngle (halfB (rLeg rs))) (rateLimRB s)\<rparr> else s)"

definition cw_controller :: "canonical_walking \<Rightarrow> canonical_walking" where
  "cw_controller s =
     (let s = checkLimits s;
          s = cw_updateController s;
          s = (if cw_controllerState s = 0 then cw_standingController s
               else if cw_controllerState s = 1 then walkingController s
               else if cw_controllerState s = 2 then cw_stoppingController s else s)
      in clampTorques s)"

subsection \<open>Bezier polynomials\<close>

definition bezier5 :: "real \<Rightarrow> real \<Rightarrow> real \<Rightarrow> real \<Rightarrow> real \<Rightarrow> real \<Rightarrow> real \<Rightarrow> real" where
  "bezier5 d0 d1 d2 d3 d4 d5 t = d0 * (1 - t) ^ 5 + 5 * d1 * t * (1 - t) ^ 4 + 10 * d2 * t ^ 2 * (1 - t) ^ 3 +
     10 * d3 * t ^ 3 * (1 - t) ^ 2 + 5 * d4 * t ^ 4 * (1 - t) + d5 * t ^ 5"

definition bezier6 :: "real \<Rightarrow> real \<Rightarrow> real \<Rightarrow> real \<Rightarrow> real \<Rightarrow> real \<Rightarrow> real \<Rightarrow> real \<Rightarrow> real" where
  "bezier6 a0 a1 a2 a3 a4 a5 a6 t = a0 * (1 - t) ^ 6 + 6 * a1 * t * (1 - t) ^ 5 + 15 * a2 * t ^ 2 * (1 - t) ^ 4 +
     20 * a3 * t ^ 3 * (1 - t) ^ 3 + 15 * a4 * t ^ 4 * (1 - t) ^ 2 + 6 * a5 * t ^ 5 * (1 - t) + a6 * t ^ 6"

lemma bezier6_deriv:
  "(bezier6 a0 a1 a2 a3 a4 a5 a6 has_real_derivative
    bezier5 (6 * (a1 - a0)) (6 * (a2 - a1)) (6 * (a3 - a2)) (6 * (a4 - a3)) (6 * (a5 - a4)) (6 * (a6 - a5)) t) (at t)"
  unfolding bezier6_def
  by (rule derivative_eq_intros refl | simp)+ (simp add: bezier5_def algebra_simps power_numeral_reduce)

lemma bezier_weights:
  fixes t :: real
  shows "(1 - t) ^ 5 + 5 * t * (1 - t) ^ 4 + 10 * t ^ 2 * (1 - t) ^ 3 + 10 * t ^ 3 * (1 - t) ^ 2 + 5 * t ^ 4 * (1 - t) + t ^ 5 = 1"
    and "(1 - t) ^ 6 + 6 * t * (1 - t) ^ 5 + 15 * t ^ 2 * (1 - t) ^ 4 + 20 * t ^ 3 * (1 - t) ^ 3 + 15 * t ^ 4 * (1 - t) ^ 2 +
      6 * t ^ 5 * (1 - t) + t ^ 6 = 1"
  by (simp_all add: power_numeral_reduce algebra_simps)

lemma weighted_le:
  fixes w :: real
  shows "0 \<le> w \<Longrightarrow> a \<le> m \<Longrightarrow> a * w \<le> m * w"
  by (simp add: mult_right_mono)

text \<open>A Bezier polynomial stays within the range of its coefficients.\<close>

lemma bezier6_range:
  assumes "0 \<le> t" and "t \<le> 1" and "\<forall>a \<in> {a0, a1, a2, a3, a4, a5, a6}. lo \<le> a \<and> a \<le> hi"
  shows "lo \<le> bezier6 a0 a1 a2 a3 a4 a5 a6 t" and "bezier6 a0 a1 a2 a3 a4 a5 a6 t \<le> hi"
proof -
  define w where "w = [(1 - t) ^ 6, 6 * t * (1 - t) ^ 5, 15 * t ^ 2 * (1 - t) ^ 4, 20 * t ^ 3 * (1 - t) ^ 3,
    15 * t ^ 4 * (1 - t) ^ 2, 6 * t ^ 5 * (1 - t), t ^ 6]"
  have nn: "0 \<le> w ! 0" "0 \<le> w ! 1" "0 \<le> w ! 2" "0 \<le> w ! 3" "0 \<le> w ! 4" "0 \<le> w ! 5" "0 \<le> w ! 6"
    using assms(1,2) by (simp_all add: w_def)
  have b: "bezier6 a0 a1 a2 a3 a4 a5 a6 t =
      a0 * w ! 0 + a1 * w ! 1 + a2 * w ! 2 + a3 * w ! 3 + a4 * w ! 4 + a5 * w ! 5 + a6 * w ! 6"
    by (simp add: bezier6_def w_def)
  have "w ! 0 + w ! 1 + w ! 2 + w ! 3 + w ! 4 + w ! 5 + w ! 6 = 1" using bezier_weights(2) [of t] by (simp add: w_def)
  then have m: "m * w ! 0 + m * w ! 1 + m * w ! 2 + m * w ! 3 + m * w ! 4 + m * w ! 5 + m * w ! 6 = m" for m
    by (metis distrib_left mult.right_neutral)
  from assms(3) have a: "lo \<le> a0" "lo \<le> a1" "lo \<le> a2" "lo \<le> a3" "lo \<le> a4" "lo \<le> a5" "lo \<le> a6"
    "a0 \<le> hi" "a1 \<le> hi" "a2 \<le> hi" "a3 \<le> hi" "a4 \<le> hi" "a5 \<le> hi" "a6 \<le> hi" by simp_all
  have "lo * w ! 0 + lo * w ! 1 + lo * w ! 2 + lo * w ! 3 + lo * w ! 4 + lo * w ! 5 + lo * w ! 6 \<le>
      a0 * w ! 0 + a1 * w ! 1 + a2 * w ! 2 + a3 * w ! 3 + a4 * w ! 4 + a5 * w ! 5 + a6 * w ! 6"
    by (intro add_mono weighted_le nn a)
  then show "lo \<le> bezier6 a0 a1 a2 a3 a4 a5 a6 t" by (simp only: b m)
  have "a0 * w ! 0 + a1 * w ! 1 + a2 * w ! 2 + a3 * w ! 3 + a4 * w ! 4 + a5 * w ! 5 + a6 * w ! 6 \<le>
      hi * w ! 0 + hi * w ! 1 + hi * w ! 2 + hi * w ! 3 + hi * w ! 4 + hi * w ! 5 + hi * w ! 6"
    by (intro add_mono weighted_le nn a)
  then show "bezier6 a0 a1 a2 a3 a4 a5 a6 t \<le> hi" by (simp only: b m)
qed

lemma bezier5_close:
  assumes "0 \<le> t" and "t \<le> 1"
    and "\<bar>d0 - c0\<bar> \<le> e" "\<bar>d1 - c1\<bar> \<le> e" "\<bar>d2 - c2\<bar> \<le> e" "\<bar>d3 - c3\<bar> \<le> e" "\<bar>d4 - c4\<bar> \<le> e" "\<bar>d5 - c5\<bar> \<le> e"
  shows "\<bar>bezier5 d0 d1 d2 d3 d4 d5 t - bezier5 c0 c1 c2 c3 c4 c5 t\<bar> \<le> e"
proof -
  define w where "w = [(1 - t) ^ 5, 5 * t * (1 - t) ^ 4, 10 * t ^ 2 * (1 - t) ^ 3, 10 * t ^ 3 * (1 - t) ^ 2,
    5 * t ^ 4 * (1 - t), t ^ 5]"
  have nn: "0 \<le> w ! 0" "0 \<le> w ! 1" "0 \<le> w ! 2" "0 \<le> w ! 3" "0 \<le> w ! 4" "0 \<le> w ! 5"
    using assms(1,2) by (simp_all add: w_def)
  have b: "bezier5 d0 d1 d2 d3 d4 d5 t - bezier5 c0 c1 c2 c3 c4 c5 t =
      (d0 - c0) * w ! 0 + (d1 - c1) * w ! 1 + (d2 - c2) * w ! 2 + (d3 - c3) * w ! 3 + (d4 - c4) * w ! 4 + (d5 - c5) * w ! 5"
    by (simp add: bezier5_def w_def left_diff_distrib)
  have "w ! 0 + w ! 1 + w ! 2 + w ! 3 + w ! 4 + w ! 5 = 1" using bezier_weights(1) [of t] by (simp add: w_def)
  then have m: "m * w ! 0 + m * w ! 1 + m * w ! 2 + m * w ! 3 + m * w ! 4 + m * w ! 5 = m" for m
    by (metis distrib_left mult.right_neutral)
  have d: "- e \<le> d0 - c0" "- e \<le> d1 - c1" "- e \<le> d2 - c2" "- e \<le> d3 - c3" "- e \<le> d4 - c4" "- e \<le> d5 - c5"
    "d0 - c0 \<le> e" "d1 - c1 \<le> e" "d2 - c2 \<le> e" "d3 - c3 \<le> e" "d4 - c4 \<le> e" "d5 - c5 \<le> e"
    using assms(3-8) by (simp_all add: abs_le_iff)
  have "(d0 - c0) * w ! 0 + (d1 - c1) * w ! 1 + (d2 - c2) * w ! 2 + (d3 - c3) * w ! 3 + (d4 - c4) * w ! 4 + (d5 - c5) * w ! 5 \<le>
      e * w ! 0 + e * w ! 1 + e * w ! 2 + e * w ! 3 + e * w ! 4 + e * w ! 5"
    by (intro add_mono weighted_le nn d)
  then have "bezier5 d0 d1 d2 d3 d4 d5 t - bezier5 c0 c1 c2 c3 c4 c5 t \<le> e" by (simp only: b m)
  moreover have "- e * w ! 0 + - e * w ! 1 + - e * w ! 2 + - e * w ! 3 + - e * w ! 4 + - e * w ! 5 \<le>
      (d0 - c0) * w ! 0 + (d1 - c1) * w ! 1 + (d2 - c2) * w ! 2 + (d3 - c3) * w ! 3 + (d4 - c4) * w ! 4 + (d5 - c5) * w ! 5"
    by (intro add_mono weighted_le nn d)
  then have "- e \<le> bezier5 d0 d1 d2 d3 d4 d5 t - bezier5 c0 c1 c2 c3 c4 c5 t" by (simp only: b m)
  ultimately show ?thesis by (simp add: abs_le_iff)
qed

lemma dbl_pow_Fin: "dbl_pow (Fin x) n = Fin (x ^ n)"
  by (induction n) simp_all

text \<open>A row of a table as a polynomial over the phase.\<close>

definition angle_curve :: "real list \<Rightarrow> real \<Rightarrow> real" where
  "angle_curve a = bezier6 (a ! 0) (a ! 1) (a ! 2) (a ! 3) (a ! 4) (a ! 5) (a ! 6)"

definition rate_curve :: "real list \<Rightarrow> real \<Rightarrow> real" where
  "rate_curve d = bezier5 (d ! 0) (d ! 1) (d ! 2) (d ! 3) (d ! 4) (d ! 5)"

lemma compute_y2d_row:
  assumes "j < 4" and "p ! j = map Fin a" and "length a = 7"
  shows "compute_y2d p (Fin t) ! j = Fin (angle_curve a t)"
  using assms by (simp add: compute_y2d_def Let_def dbl_pow_Fin angle_curve_def bezier6_def numeral_2_eq_2)

lemma compute_y2dDot_row:
  assumes "j < 4" and "p ! j = map Fin d" and "length d = 6"
  shows "compute_y2dDot p (Fin t) (Fin r) ! j = Fin (rate_curve d t * r)"
  using assms by (simp add: compute_y2dDot_def Let_def dbl_pow_Fin rate_curve_def bezier5_def numeral_2_eq_2)

lemma curve_ends: "angle_curve a 0 = a ! 0" "angle_curve a 1 = a ! 6"
  by (simp_all add: angle_curve_def bezier6_def)

lemma angle_curve_range:
  assumes "0 \<le> t" and "t \<le> 1" and "length a = 7"
  shows "Min (set a) \<le> angle_curve a t \<and> angle_curve a t \<le> Max (set a)"
proof -
  have "{a ! 0, a ! 1, a ! 2, a ! 3, a ! 4, a ! 5, a ! 6} \<subseteq> set a" using assms(3) by simp
  then have "\<forall>x \<in> {a ! 0, a ! 1, a ! 2, a ! 3, a ! 4, a ! 5, a ! 6}. Min (set a) \<le> x \<and> x \<le> Max (set a)"
    by (meson List.finite_set Max_ge Min_le subsetD)
  from bezier6_range [OF assms(1,2) this] show ?thesis by (simp add: angle_curve_def)
qed

lemma curve_rate:
  assumes "0 \<le> t" and "t \<le> 1" and "\<forall>k < 6. \<bar>d ! k - 6 * (a ! Suc k - a ! k)\<bar> \<le> e"
  shows "\<exists>D. (angle_curve a has_real_derivative D) (at t) \<and> \<bar>rate_curve d t - D\<bar> \<le> e"
proof (intro exI conjI)
  show "(angle_curve a has_real_derivative bezier5 (6 * (a ! 1 - a ! 0)) (6 * (a ! 2 - a ! 1)) (6 * (a ! 3 - a ! 2))
      (6 * (a ! 4 - a ! 3)) (6 * (a ! 5 - a ! 4)) (6 * (a ! 6 - a ! 5)) t) (at t)"
    unfolding angle_curve_def by (rule bezier6_deriv)
  have k: "\<bar>d ! 0 - 6 * (a ! 1 - a ! 0)\<bar> \<le> e" "\<bar>d ! 1 - 6 * (a ! 2 - a ! 1)\<bar> \<le> e" "\<bar>d ! 2 - 6 * (a ! 3 - a ! 2)\<bar> \<le> e"
    "\<bar>d ! 3 - 6 * (a ! 4 - a ! 3)\<bar> \<le> e" "\<bar>d ! 4 - 6 * (a ! 5 - a ! 4)\<bar> \<le> e" "\<bar>d ! 5 - 6 * (a ! 6 - a ! 5)\<bar> \<le> e"
    using assms(3) [THEN spec, of 0] assms(3) [THEN spec, of 1] assms(3) [THEN spec, of 2]
      assms(3) [THEN spec, of 3] assms(3) [THEN spec, of 4] assms(3) [THEN spec, of 5]
    by (simp_all add: eval_nat_numeral)
  show "\<bar>rate_curve d t - bezier5 (6 * (a ! 1 - a ! 0)) (6 * (a ! 2 - a ! 1)) (6 * (a ! 3 - a ! 2))
      (6 * (a ! 4 - a ! 3)) (6 * (a ! 5 - a ! 4)) (6 * (a ! 6 - a ! 5)) t\<bar> \<le> e"
    unfolding rate_curve_def by (rule bezier5_close [OF assms(1,2) k])
qed

text \<open>
  C31. The trajectory, for any table of seven numbers per row: over the phases from 0 to 1 each target angle is a smooth
  curve that starts at the first number of its row, ends at the last and stays within their range; and where the six numbers of
  a row of the velocity table are, up to \<open>eps\<close>, six times the differences of the row of angles, the target velocity is, up to
  \<open>eps\<close> per unit of the rate of the phase, the rate of that curve along the phase times the rate of the phase.
\<close>

theorem canonical_trajectory:
  assumes "0 \<le> t" and "t \<le> 1" and "j < 4"
    and "param_mat s ! j = map Fin a" and "length a = 7"
    and "diff_param_mat s ! j = map Fin d" and "length d = 6"
    and "\<forall>k < 6. \<bar>d ! k - 6 * (a ! Suc k - a ! k)\<bar> \<le> eps"
  shows "\<exists>y D e. (\<forall>u. compute_y2d (param_mat s) (Fin u) ! j = Fin (y u)) \<and> y 0 = a ! 0 \<and> y 1 = a ! 6 \<and>
    Min (set a) \<le> y t \<and> y t \<le> Max (set a) \<and> (y has_real_derivative D) (at t) \<and>
    compute_y2dDot (diff_param_mat s) (Fin t) (Fin r) ! j = Fin (e * r) \<and> \<bar>e - D\<bar> \<le> eps"
  using compute_y2d_row [OF assms(3-5)] compute_y2dDot_row [OF assms(3,6,7), of t r] curve_ends [of a]
    angle_curve_range [OF assms(1,2,5)] curve_rate [OF assms(1,2,8)] by blast

subsection \<open>The tables of the header\<close>

definition opt_angles :: "real list list" where
  "opt_angles =
     [[3.13058278616339, 3.38621285654106, 2.26312258300192, 3.72562917760651, 2.21768467271887, 3.00343594477559, 2.63518033870867],
      [3.88033369474228, 3.81628375091666, 3.64791062079225, 3.54302625758800, 3.60125936599999, 3.45364342671221, 3.37022239691970],
      [2.63529972490620, 2.22706769173603, 3.56813326557356, 0.695310365268170, 2.91237158193484, 2.90041027511901, 3.13100976580989],
      [3.37031174388957, 3.27783500873126, 2.93958409614047, 3.48644831132767, 4.39294714621698, 3.93787692520441, 3.88009422366450]]"

lemma upto_4: "j < 4 \<longleftrightarrow> j \<in> {0, 1, 2, 3 :: nat}"
  by auto

text \<open>The numbers of the two tables fit: the velocities are the differences of the angles, up to the printed digits.\<close>

lemma tables_fit: "j < 4 \<Longrightarrow> k < 6 \<Longrightarrow> \<bar>D_OPT ! j ! k - 6 * (opt_angles ! j ! Suc k - opt_angles ! j ! k)\<bar> \<le> 1 / 10 ^ 12"
proof -
  assume "j < 4" "k < 6"
  then have "j \<in> {0, 1, 2, 3}" "k \<in> {0, 1, 2, 3, 4, 5}" by auto
  then show ?thesis by (elim insertE emptyE; simp add: opt_angles_def D_OPT_def)
qed

lemma new_tables:
  assumes "s = new_ATCCanonicalWalking opt_angles mem" and "j < 4"
  shows "param_mat s ! j = map Fin (opt_angles ! j)" and "diff_param_mat s ! j = map Fin (D_OPT ! j)"
    and "length (opt_angles ! j) = 7" and "length (D_OPT ! j) = 6"
proof -
  show l: "length (opt_angles ! j) = 7" "length (D_OPT ! j) = 6"
    using assms(2) by (auto simp: upto_4 opt_angles_def D_OPT_def)
  show "param_mat s ! j = map Fin (opt_angles ! j)" "diff_param_mat s ! j = map Fin (D_OPT ! j)"
    using assms l by (auto simp: new_ATCCanonicalWalking_def init_param_def init_pos_def Let_def intro: nth_equalityI)
qed

definition y2d_row :: "nat \<Rightarrow> real \<Rightarrow> real" where
  "y2d_row j = angle_curve (opt_angles ! j)"

lemma four: "map f [0..<4] = [f 0, f 1, f 2, f 3]"
  by (simp add: upt_rec eval_nat_numeral)

lemma new_curves:
  assumes "s = new_ATCCanonicalWalking opt_angles mem"
  shows "compute_y2d (param_mat s) (Fin t) = map (\<lambda>j. Fin (y2d_row j t)) [0..<4]"
    and "compute_y2dDot (diff_param_mat s) (Fin t) (Fin r) = map (\<lambda>j. Fin (rate_curve (D_OPT ! j) t * r)) [0..<4]"
proof -
  have l: "length (compute_y2d p x) = 4" "length (compute_y2dDot p x y) = 4" for p x y
    by (simp_all add: compute_y2d_def compute_y2dDot_def)
  show "compute_y2d (param_mat s) (Fin t) = map (\<lambda>j. Fin (y2d_row j t)) [0..<4]"
    using new_tables [OF assms] by (intro nth_equalityI) (simp_all add: l compute_y2d_row y2d_row_def)
  show "compute_y2dDot (diff_param_mat s) (Fin t) (Fin r) = map (\<lambda>j. Fin (rate_curve (D_OPT ! j) t * r)) [0..<4]"
    using new_tables [OF assms] by (intro nth_equalityI) (simp_all add: l compute_y2dDot_row)
qed

lemma phi_Fin:
  "phi_inverse_mat [Fin a, Fin b, Fin c, Fin d] [Fin e, Fin f, Fin g, Fin h] =
   [Fin 0, Fin a, Fin b, Fin c, Fin d, Fin 0, Fin e, Fin f, Fin g, Fin h]"
  by (simp add: phi_inverse_mat_def Let_def invT_def upt_rec)

definition walking_targets :: "leg_side \<Rightarrow> canonical_walking \<Rightarrow> dbl \<Rightarrow> dbl list" where
  "walking_targets x s tau =
     fst (convert2bodypitch x (phi_inverse_mat (compute_y2d (param_mat s) tau) (compute_y2dDot (diff_param_mat s) tau (Fin 0))))"

lemma walking_targets_Fin:
  assumes "s = new_ATCCanonicalWalking opt_angles mem"
  shows "walking_targets LeftLeg s (Fin t) = map (\<lambda>j. Fin (y2d_row j t - PI / 2)) [0, 1, 2, 3]"
    and "walking_targets RightLeg s (Fin t) = map (\<lambda>j. Fin (y2d_row j t - PI / 2)) [2, 3, 0, 1]"
  unfolding walking_targets_def new_curves [OF assms] four phi_Fin by (simp_all add: convert2bodypitch_def Let_def)

lemma row_ends:
  "y2d_row j 0 = opt_angles ! j ! 0" "y2d_row j 1 = opt_angles ! j ! 6"
  by (simp_all add: y2d_row_def curve_ends)

text \<open>
  The gait is periodic: when the legs exchange their roles at the end of a step, no motor target moves by more than
  0.0005 rad; and the position that the standing controller prepares is the start of the step of the left leg.
\<close>

theorem canonical_gait_periodic:
  assumes "s = new_ATCCanonicalWalking opt_angles mem" and "i < 4"
    and "\<And>x t i. target x t i = real_of_dbl (walking_targets x s (Fin t) ! i)"
  shows "\<bar>target LeftLeg 1 i - target RightLeg 0 i\<bar> \<le> 0.0005 \<and> \<bar>target RightLeg 1 i - target LeftLeg 0 i\<bar> \<le> 0.0005 \<and>
    \<bar>real_of_dbl (pos_initial s ! ((i + 2) mod 4) - Fin M_PI / Fin 2) - target LeftLeg 0 i\<bar> \<le> 1 / 10 ^ 8 \<and>
    (\<forall>x t. isfinite (walking_targets x s (Fin t) ! i))"
proof -
  have p: "pos_initial s = map (\<lambda>i. Fin (X_OPT ! i)) [0..<4]"
    by (simp add: assms(1) new_ATCCanonicalWalking_def init_param_def init_pos_def Let_def)
  note w = walking_targets_Fin [OF assms(1)]
  have f: "isfinite (walking_targets x s (Fin t) ! i)" for x t
    using assms(2) by (cases x) (auto simp: w upto_4)
  have d: "\<bar>target LeftLeg 1 i - target RightLeg 0 i\<bar> \<le> 0.0005" "\<bar>target RightLeg 1 i - target LeftLeg 0 i\<bar> \<le> 0.0005"
    using assms(2) unfolding assms(3) w upto_4
    by (elim insertE emptyE; simp add: row_ends opt_angles_def PI_def)+
  have "\<bar>real_of_dbl (pos_initial s ! ((i + 2) mod 4) - Fin M_PI / Fin 2) - target LeftLeg 0 i\<bar> \<le> 1 / 10 ^ 8"
    using assms(2) unfolding assms(3) w p upto_4
    by (elim insertE emptyE; simp add: row_ends opt_angles_def X_OPT_def M_PI_def PI_def)
  with f d show ?thesis by blast
qed

text \<open>
  Manual phase is not rate limited: once the standing mode has run, the flag that is meant for the first call stays set, and
  the phase of the operator is taken over at once, whatever its maximal rate is.
\<close>

theorem manual_tau_unlimited:
  assumes "isInitialized s" and "tauMode (cw_guiIn s) = 1" and "manualTau (cw_guiIn s) = Fin m" and "maxTauRate (cw_guiIn s) = Fin r"
    and "0 \<le> r"
  shows "fst (compute_tau xa s) = Fin m"
  using assms by (simp add: compute_tau_def TauSource_of_def Let_def rate_limit_reset_def rate_limit_Fin)

lemma standing_initializes: "isInitialized (cw_standingController s)"
  by (simp add: cw_standingController_def cw_hipController_def Let_def split_beta set_leg_currents_def)

lemma isInitialized_kept:
  "isInitialized (snd (compute_tau xa s)) = isInitialized s" "isInitialized (snd (compute_dtau xa s)) = isInitialized s"
  "isInitialized (set_leg_currents c s) = isInitialized s" "isInitialized (cw_hipController b1 b2 s) = isInitialized s"
     apply (simp add: compute_tau_def commandEStop_def Let_def split: TauSource.split)
    apply (simp add: compute_dtau_def commandEStop_def split: TauSource.split)
   apply (simp add: set_leg_currents_def)
  apply (simp add: cw_hipController_def Let_def split_beta)
  done

lemma walking_stays_initialized: "isInitialized (walkingController s) = isInitialized s"
  by (simp add: walkingController_def Let_def split_beta isInitialized_kept)

text \<open>The hips are held in position in the stopping mode too.\<close>

lemma hip_not_relaxed: "cw_hipController start True = cw_hipController start False"
  by (simp add: cw_hipController_def fun_eq_iff)

subsection \<open>Outputs\<close>

definition over_limits :: "canonical_walking \<Rightarrow> bool" where
  "over_limits s \<longleftrightarrow> moves_faster (maxSpeed (cw_guiIn s)) (atc_rs s) \<or> deflected_over (maxDefl (cw_guiIn s)) (atc_rs s)"

definition cmd :: "'c atc_scheme \<Rightarrow> uint8" where
  "cmd s = co_command (atc_co s)"

lemma cmd_eStop: "cmd (commandEStop s) = medulla_state_error"
  by (simp add: cmd_def commandEStop_def)

lemma checkLimits_cmd: "cmd (checkLimits s) = (if over_limits s then medulla_state_error else cmd s)"
  unfolding checkLimits_def over_limits_def moves_faster_def deflected_over_def Let_def by (auto simp: cmd_eStop)

lemma checkLimits_gui: "cw_guiIn (checkLimits s) = cw_guiIn s"
  by (simp add: checkLimits_def commandEStop_def Let_def)

lemma update_kept: "cmd (cw_updateController s) = cmd s" "cw_guiIn (cw_updateController s) = cw_guiIn s"
  "cw_controllerState (cw_updateController s) = sint (cw_main_controller (cw_guiIn s))"
  by (simp_all add: cw_updateController_def cmd_def Let_def)

lemma cw_parts:
  "cmd (set_leg_currents c s) = cmd s" "cw_guiIn (set_leg_currents c s) = cw_guiIn s"
  "cmd (cw_hipController a b s) = cmd s" "cw_guiIn (cw_hipController a b s) = cw_guiIn s"
  by (simp_all add: set_leg_currents_def cw_hipController_def cmd_def Let_def split_beta)

definition unknown_tau :: "canonical_walking \<Rightarrow> bool" where
  "unknown_tau s \<longleftrightarrow> (case TauSource_of (tauMode (cw_guiIn s)) of UnnamedTau _ \<Rightarrow> True | _ \<Rightarrow> False)"

lemma cw_tau:
  "cmd (snd (compute_tau xa s)) = (if unknown_tau s then medulla_state_error else cmd s)"
  "cmd (snd (compute_dtau xa s)) = (if unknown_tau s then medulla_state_error else cmd s)"
  "cw_guiIn (snd (compute_tau xa s)) = cw_guiIn s" "cw_guiIn (snd (compute_dtau xa s)) = cw_guiIn s"
  by (simp_all add: compute_tau_def compute_dtau_def unknown_tau_def cmd_def commandEStop_def Let_def split: TauSource.split)

lemma cw_modes:
  "cmd (cw_standingController s) = cmd s" "cw_guiIn (cw_standingController s) = cw_guiIn s"
  "cmd (cw_stoppingController s) = cmd s" "cw_guiIn (cw_stoppingController s) = cw_guiIn s"
  "cmd (walkingController s) = (if unknown_tau s then medulla_state_error else cmd s)"
  "cw_guiIn (walkingController s) = cw_guiIn s"
proof -
  show "cmd (cw_standingController s) = cmd s" "cw_guiIn (cw_standingController s) = cw_guiIn s"
    "cmd (cw_stoppingController s) = cmd s" "cw_guiIn (cw_stoppingController s) = cw_guiIn s"
    by (simp_all add: cw_standingController_def cw_stoppingController_def Let_def cw_parts) (simp add: cmd_def)
  have u: "cmd (t\<lparr>cw_logOut := l\<rparr>) = cmd t" "cmd (t\<lparr>sleg := x\<rparr>) = cmd t" for t l x by (simp_all add: cmd_def)
  have k: "unknown_tau (snd (compute_tau xa s)) = unknown_tau s" for xa by (simp add: unknown_tau_def cw_tau)
  show "cmd (walkingController s) = (if unknown_tau s then medulla_state_error else cmd s)"
    "cw_guiIn (walkingController s) = cw_guiIn s"
    by (simp_all add: walkingController_def Let_def split_beta u cw_parts cw_tau k)
qed

text \<open>The last thing the controller does is to clamp; the command is that of the limits and of the phase.\<close>

lemma cw_controller_clamps:
  obtains u where "atc_co (cw_controller s) = atc_co (clampTorques u)" and "cw_guiIn u = cw_guiIn s"
    and "cmd u = (if over_limits s \<or> sint (cw_main_controller (cw_guiIn s)) = 1 \<and> unknown_tau s
      then medulla_state_error else cmd s)"
proof
  let ?t = "cw_updateController (checkLimits s)"
  let ?u = "if cw_controllerState ?t = 0 then cw_standingController ?t
    else if cw_controllerState ?t = 1 then walkingController ?t
    else if cw_controllerState ?t = 2 then cw_stoppingController ?t else ?t"
  show "atc_co (cw_controller s) = atc_co (clampTorques ?u)" by (simp add: cw_controller_def Let_def)
  have t: "cmd ?t = (if over_limits s then medulla_state_error else cmd s)" "cw_guiIn ?t = cw_guiIn s"
    "cw_controllerState ?t = sint (cw_main_controller (cw_guiIn s))"
    by (simp_all add: update_kept checkLimits_cmd checkLimits_gui)
  show "cw_guiIn ?u = cw_guiIn s" by (simp add: cw_modes t)
  have "cmd ?u = (if sint (cw_main_controller (cw_guiIn s)) = 1 \<and> unknown_tau s then medulla_state_error else cmd ?t)"
    by (simp add: cw_modes t(3)) (simp add: unknown_tau_def t(2))
  then show "cmd ?u = (if over_limits s \<or> sint (cw_main_controller (cw_guiIn s)) = 1 \<and> unknown_tau s
      then medulla_state_error else cmd s)" by (simp add: t(1))
qed

lemma clampTorques_command: "co_command (atc_co (clampTorques u)) = cmd u"
  by (simp add: clampTorques_def Let_def cmd_def)

lemma cw_controller_command:
  "co_command (atc_co (cw_controller s)) = (if over_limits s \<or> sint (cw_main_controller (cw_guiIn s)) = 1 \<and> unknown_tau s
     then medulla_state_error else co_command (atc_co s))"
  by (rule cw_controller_clamps [of s]) (simp add: clampTorques_command, simp add: cmd_def)

text \<open>
  The outputs of the canonical controller: in every mode all six currents are within the limit that the
  operator set, or NaN; the command becomes the emergency stop when a velocity or a spring deflection is over
  its limit, or when the phase comes from an unknown source while walking, and else is not changed.
\<close>

theorem canonical_outputs:
  assumes "maxCurrent (cw_guiIn s) = Fin m" and "co = atc_co (cw_controller s)"
  shows "(\<forall>l \<in> {co_lLeg co, co_rLeg co}. \<forall>x \<in> {motorCurrentA l, motorCurrentB l, motorCurrentHip l}.
      x = NaN \<or> (\<exists>r. x = Fin r \<and> \<bar>r\<bar> \<le> \<bar>m\<bar>)) \<and>
    co_command co = (if over_limits s \<or> sint (cw_main_controller (cw_guiIn s)) = 1 \<and> unknown_tau s
                     then medulla_state_error else co_command (atc_co s))"
proof (rule cw_controller_clamps [of s])
  fix u assume u: "atc_co (cw_controller s) = atc_co (clampTorques u)" "cw_guiIn u = cw_guiIn s"
  have "\<forall>l \<in> {co_lLeg co, co_rLeg co}. \<forall>x \<in> {motorCurrentA l, motorCurrentB l, motorCurrentHip l}.
      x = NaN \<or> (\<exists>r. x = Fin r \<and> \<bar>r\<bar> \<le> \<bar>m\<bar>)"
    using ac_clamp_symmetric [of _ m] by (simp add: assms u clampTorques_def Let_def map_currents_def)
  then show ?thesis using cw_controller_command [of s] assms(2) by blast
qed

subsection \<open>Instances\<close>

definition canonical_gui :: canonical_input where
  "canonical_gui = \<lparr>cw_leg_pos_kp = Fin 300, cw_leg_pos_kd = Fin 20, cw_hip_pos_kp = Fin 150, cw_hip_pos_kd = Fin 10,
     cw_left_toe_pos = Fin 2.15, cw_right_toe_pos = Fin 2.45, cw_main_controller = 1, maxCurrent = Fin 40, maxSpeed = Fin 10,
     maxDefl = Fin 0.2, maxTauRate = Fin 0.5, tauMode = 1, manualTau = Fin 0.9\<rparr>"

definition canonical_memory :: canonical_walking where
  "canonical_memory = atc.extend (new_ATC (Fin 0)) (canonical_walking.fields canonical_gui
     \<lparr>lqATgt = Fin 0, lqBTgt = Fin 0, rqATgt = Fin 0, rqBTgt = Fin 0, log_tau = Fin 0, log_dtau = Fin 0\<rparr>
     new_ASCPD new_ASCPD new_ASCPD new_ASCPD new_ASCPD new_ASCPD (Fin 0) (Fin 0) (Fin 0) (Fin 0) (Fin 0) (Fin 0) (Fin 0)
     (Fin 0) (Fin 0) [] [] [] RightLeg 0 (Fin 0) True)"

lemma canonical_trajectory_witness:
  "\<exists>y D e. y 0 = opt_angles ! 2 ! 0 \<and> y 0.5 \<le> Max (set (opt_angles ! 2)) \<and>
     compute_y2d (param_mat (new_ATCCanonicalWalking opt_angles canonical_memory)) (Fin 0.5) ! 2 = Fin (y 0.5) \<and>
     (y has_real_derivative D) (at 0.5) \<and> \<bar>e - D\<bar> \<le> 1 / 10 ^ 12"
proof -
  have j: "(0::real) \<le> 0.5" "(0.5::real) \<le> 1" "2 < (4::nat)" by simp_all
  note t = new_tables [where mem = canonical_memory, OF refl j(3)]
  have "\<forall>k < 6. \<bar>D_OPT ! 2 ! k - 6 * (opt_angles ! 2 ! Suc k - opt_angles ! 2 ! k)\<bar> \<le> 1 / 10 ^ 12" using tables_fit by simp
  from canonical_trajectory [OF j t(1,3) t(2,4) this, of 0] show ?thesis by blast
qed

lemma canonical_gait_periodic_witness:
  "\<bar>real_of_dbl (walking_targets LeftLeg (new_ATCCanonicalWalking opt_angles canonical_memory) (Fin 1) ! 2) -
    real_of_dbl (walking_targets RightLeg (new_ATCCanonicalWalking opt_angles canonical_memory) (Fin 0) ! 2)\<bar> \<le> 0.0005"
  using canonical_gait_periodic [OF refl _ refl, of 2 canonical_memory] by simp

lemma manual_tau_unlimited_witness: "fst (compute_tau [] canonical_memory) = Fin 0.9"
  by (rule manual_tau_unlimited [of _ _ "0.5"])
    (simp_all add: canonical_memory_def atc.defs canonical_walking.defs canonical_gui_def)

lemma canonical_outputs_witness:
  "\<forall>x \<in> {motorCurrentHip (co_lLeg (atc_co (cw_controller canonical_memory)))}. x = NaN \<or> (\<exists>r. x = Fin r \<and> \<bar>r\<bar> \<le> 40)"
  using canonical_outputs [of canonical_memory 40]
  by (simp add: canonical_memory_def atc.defs canonical_walking.defs canonical_gui_def)

end
