(* ===== verification/MotorControllers.thy ===== *)
theory MotorControllers
  imports StanceForce HipKinematics
begin

text \<open>
  The top-level controllers that move the motors to positions or currents the operator gives: joint positions
  (ATCJointPosition), motor positions (ATCMP, in the packages atc_motor_position and atc_motor_position_hold_imu with
  the same text), a sine wave (ATCMotorSinWave), currents (ATCMotorTorque), and the empty ATCDemo. The theorems
  show how far a target can be from where the robot was enabled, and what the sine wave and the hips really do.
\<close>

subsection \<open>The six motors\<close>

record motor_pds =
  pdLA :: ASCPD
  pdLB :: ASCPD
  pdLH :: ASCPD
  pdRA :: ASCPD
  pdRB :: ASCPD
  pdRH :: ASCPD

text \<open>The rate limiters, by their last outputs.\<close>

record motor_targets =
  tgtLA :: dbl
  tgtLB :: dbl
  tgtLH :: dbl
  tgtRA :: dbl
  tgtRB :: dbl
  tgtRH :: dbl

definition motor_positions :: "robot_state \<Rightarrow> motor_targets" where
  "motor_positions rs =
     \<lparr>tgtLA = rotorAngle (halfA (lLeg rs)), tgtLB = rotorAngle (halfB (lLeg rs)), tgtLH = legBodyAngle (hip (lLeg rs)),
      tgtRA = rotorAngle (halfA (rLeg rs)), tgtRB = rotorAngle (halfB (rLeg rs)), tgtRH = legBodyAngle (hip (rLeg rs))\<rparr>"

definition set_motors :: "dbl \<Rightarrow> dbl \<Rightarrow> dbl \<Rightarrow> dbl \<Rightarrow> dbl \<Rightarrow> dbl \<Rightarrow> 'c atc_scheme \<Rightarrow> 'c atc_scheme" where
  "set_motors la lb lh ra rb rh s = s\<lparr>atc_co := (atc_co s)
     \<lparr>co_lLeg := (co_lLeg (atc_co s))\<lparr>motorCurrentA := la, motorCurrentB := lb, motorCurrentHip := lh\<rparr>,
      co_rLeg := (co_rLeg (atc_co s))\<lparr>motorCurrentA := ra, motorCurrentB := rb, motorCurrentHip := rh\<rparr>\<rparr>\<rparr>"

text \<open>The PD controllers on the rotor angles, on the hips, and on the motor angles.\<close>

definition leg_motor_pd :: "ASCPD \<Rightarrow> dbl \<Rightarrow> robot_state_legHalf \<Rightarrow> dbl" where
  "leg_motor_pd pd tgt h = pd_call pd tgt (rotorAngle h) (Fin 0) (rotorVelocity h)"

definition hip_motor_pd :: "ASCPD \<Rightarrow> dbl \<Rightarrow> robot_state_hip \<Rightarrow> dbl" where
  "hip_motor_pd pd tgt h = pd_call pd tgt (legBodyAngle h) (Fin 0) (legBodyVelocity h)"

definition motor_pd :: "ASCPD \<Rightarrow> dbl \<Rightarrow> robot_state_legHalf \<Rightarrow> dbl" where
  "motor_pd pd tgt h = pd_call pd tgt (motorAngle h) (Fin 0) (motorVelocity h)"

text \<open>The commands of the legs alone, of the hips alone, of one leg.\<close>

definition set_leg_motors :: "dbl \<Rightarrow> dbl \<Rightarrow> dbl \<Rightarrow> dbl \<Rightarrow> 'c atc_scheme \<Rightarrow> 'c atc_scheme" where
  "set_leg_motors la lb ra rb s =
     set_motors la lb (motorCurrentHip (co_lLeg (atc_co s))) ra rb (motorCurrentHip (co_rLeg (atc_co s))) s"

definition set_hip_motors :: "dbl \<Rightarrow> dbl \<Rightarrow> 'c atc_scheme \<Rightarrow> 'c atc_scheme" where
  "set_hip_motors lh rh s =
     (let l = co_lLeg (atc_co s); r = co_rLeg (atc_co s)
      in set_motors (motorCurrentA l) (motorCurrentB l) lh (motorCurrentA r) (motorCurrentB r) rh s)"

definition set_left_leg :: "dbl \<times> dbl \<Rightarrow> 'c atc_scheme \<Rightarrow> 'c atc_scheme" where
  "set_left_leg ab s =
     (let r = co_rLeg (atc_co s) in set_leg_motors (fst ab) (snd ab) (motorCurrentA r) (motorCurrentB r) s)"

definition set_right_leg :: "dbl \<times> dbl \<Rightarrow> 'c atc_scheme \<Rightarrow> 'c atc_scheme" where
  "set_right_leg ab s =
     (let l = co_lLeg (atc_co s) in set_leg_motors (motorCurrentA l) (motorCurrentB l) (fst ab) (snd ab) s)"

definition leg_currents :: "controller_output \<Rightarrow> dbl list" where
  "leg_currents co = [motorCurrentA (co_lLeg co), motorCurrentB (co_lLeg co), motorCurrentA (co_rLeg co), motorCurrentB (co_rLeg co)]"

lemma set_leg_motors_currents: "leg_currents (atc_co (set_leg_motors a b c d s)) = [a, b, c, d]"
  by (simp add: leg_currents_def set_leg_motors_def set_motors_def)

text \<open>Whether RT Ops is enabled in a robot state.\<close>

definition state_enabled :: "robot_state \<Rightarrow> bool" where
  "state_enabled rs \<longleftrightarrow> RtOpsState_of (rtOpsState rs) = ENABLED"

subsection \<open>Motor positions\<close>

record mp_input =
  leg_motor_p_gain :: dbl
  leg_motor_d_gain :: dbl
  hip_motor_p_gain :: dbl
  hip_motor_d_gain :: dbl
  des_motor_ang :: motor_targets

record mp_status =
  mp_isEnabled :: bool
  motorPosition :: motor_targets

record motor_position = atc +
  mp_guiIn :: mp_input
  mp_guiOut :: mp_status
  mp_pds :: motor_pds
  mp_targets :: motor_targets

definition mp_controller :: "motor_position \<Rightarrow> motor_position" where
  "mp_controller s =
     (let rate = Fin 1; rs = atc_rs s; gui = mp_guiIn s; des = des_motor_ang gui; l = lLeg rs; r = rLeg rs;
          s = (if \<not> isEnabled s then s\<lparr>mp_targets := motor_positions rs\<rparr> else s);
          t = mp_targets s;
          t = \<lparr>tgtLA = rate_limit (tgtLA des) rate (tgtLA t), tgtLB = rate_limit (tgtLB des) rate (tgtLB t),
               tgtLH = rate_limit (tgtLH des) rate (tgtLH t), tgtRA = rate_limit (tgtRA des) rate (tgtRA t),
               tgtRB = rate_limit (tgtRB des) rate (tgtRB t), tgtRH = rate_limit (tgtRH des) rate (tgtRH t)\<rparr>;
          pm = \<lparr>pd_P = leg_motor_p_gain gui, pd_D = leg_motor_d_gain gui\<rparr>;
          ph = \<lparr>pd_P = hip_motor_p_gain gui, pd_D = hip_motor_d_gain gui\<rparr>;
          p = \<lparr>pdLA = pm, pdLB = pm, pdLH = ph, pdRA = pm, pdRB = pm, pdRH = ph\<rparr>;
          s = s\<lparr>mp_targets := t, mp_pds := p\<rparr>;
          s = set_motors (leg_motor_pd (pdLA p) (tgtLA t) (halfA l)) (leg_motor_pd (pdLB p) (tgtLB t) (halfB l))
                (hip_motor_pd (pdLH p) (tgtLH t) (hip l))
                (leg_motor_pd (pdRA p) (tgtRA t) (halfA r)) (leg_motor_pd (pdRB p) (tgtRB t) (halfB r))
                (hip_motor_pd (pdRH p) (tgtRH t) (hip r)) s
      in s\<lparr>mp_guiOut := \<lparr>mp_isEnabled = isEnabled s, motorPosition = motor_positions rs\<rparr>\<rparr>)"

subsection \<open>Joint positions\<close>

record joint_input =
  p_hl :: dbl
  d_hl :: dbl
  a_hl :: dbl
  p_hr :: dbl
  d_hr :: dbl
  a_hr :: dbl
  p_ll :: dbl
  d_ll :: dbl
  a_ll :: dbl
  l_ll :: dbl
  p_lr :: dbl
  d_lr :: dbl
  a_lr :: dbl
  l_lr :: dbl
  maxLegSpd :: dbl
  maxHipSpd :: dbl
  vertical :: bool
  smoothLegMotion :: bool
  smoothHipMotion :: bool

record joint_position = atc +
  jp_guiIn :: joint_input
  jp_pds :: motor_pds
  jp_targets :: motor_targets
  lHipFast :: bool
  rHipFast :: bool

text \<open>The targets of one leg, given the last ones, and the currents for them.\<close>

definition leg_targets :: "joint_input \<Rightarrow> dbl \<Rightarrow> dbl \<Rightarrow> dbl \<times> dbl \<Rightarrow> dbl \<times> dbl" where
  "leg_targets gui ang len prev =
     (let (tgtA, tgtB) = legPos2MotorPos ang len
      in if smoothLegMotion gui
         then (rate_limit tgtA (maxLegSpd gui) (fst prev), rate_limit tgtB (maxLegSpd gui) (snd prev))
         else (rate_limit_reset tgtA (fst prev), rate_limit_reset tgtB (snd prev)))"

definition runLeg ::
  "joint_input \<Rightarrow> robot_state_leg \<Rightarrow> dbl \<Rightarrow> dbl \<Rightarrow> dbl \<Rightarrow> dbl \<Rightarrow> dbl \<times> dbl \<Rightarrow> (dbl \<times> dbl) \<times> (dbl \<times> dbl) \<times> ASCPD" where
  "runLeg gui leg P D ang len prev =
     (let (tgtA, tgtB) = leg_targets gui ang len prev; pd = \<lparr>pd_P = P, pd_D = D\<rparr>
      in ((leg_motor_pd pd tgtA (halfA leg), leg_motor_pd pd tgtB (halfB leg)), (tgtA, tgtB), pd))"

text \<open>The target of a hip that follows the inverse kinematics, with the flag that it has caught up.\<close>

definition hip_follow :: "dbl \<Rightarrow> dbl \<Rightarrow> dbl \<times> bool \<Rightarrow> dbl \<times> bool" where
  "hip_follow des spd prev =
     (let tgt = rate_limit des spd (fst prev)
      in if snd prev then (rate_limit_reset des tgt, True)
         else (let tgt = rate_limit des spd tgt in (tgt, dbl_eq tgt des)))"

definition jp_controller :: "joint_position \<Rightarrow> joint_position" where
  "jp_controller s =
     (let rs = atc_rs s; gui = jp_guiIn s; l = lLeg rs; r = rLeg rs;
          s = (if \<not> isEnabled s then s\<lparr>lHipFast := False, rHipFast := False, jp_targets := motor_positions rs\<rparr> else s);
          t = jp_targets s;
          ((lTgt, lFast), (rTgt, rFast)) =
            (if vertical gui then
               (let (lDes, rDes) = iKine \<lparr>lr_left = Fin 2.15, lr_right = Fin 2.45\<rparr> l r (position rs)
                in (hip_follow lDes (maxHipSpd gui) (tgtLH t, lHipFast s),
                    hip_follow rDes (maxHipSpd gui) (tgtRH t, rHipFast s)))
             else if smoothHipMotion gui then
               ((rate_limit (a_hl gui) (maxHipSpd gui) (tgtLH t), False),
                (rate_limit (a_hr gui) (maxHipSpd gui) (tgtRH t), False))
             else ((rate_limit_reset (a_hl gui) (tgtLH t), True), (rate_limit_reset (a_hr gui) (tgtRH t), True)));
          pl = \<lparr>pd_P = p_hl gui, pd_D = d_hl gui\<rparr>; pr = \<lparr>pd_P = p_hr gui, pd_D = d_hr gui\<rparr>;
          ((lA, lB), (tlA, tlB), pdl) = runLeg gui l (p_ll gui) (d_ll gui) (a_ll gui) (l_ll gui) (tgtLA t, tgtLB t);
          ((rA, rB), (trA, trB), pdr) = runLeg gui r (p_lr gui) (d_lr gui) (a_lr gui) (l_lr gui) (tgtRA t, tgtRB t);
          s = s\<lparr>lHipFast := lFast, rHipFast := rFast,
                jp_targets := \<lparr>tgtLA = tlA, tgtLB = tlB, tgtLH = lTgt, tgtRA = trA, tgtRB = trB, tgtRH = rTgt\<rparr>,
                jp_pds := \<lparr>pdLA = pdl, pdLB = pdl, pdLH = pl, pdRA = pdr, pdRB = pdr, pdRH = pr\<rparr>\<rparr>
      in set_motors lA lB (hip_motor_pd pl lTgt (hip l)) rA rB (hip_motor_pd pr rTgt (hip r)) s)"

subsection \<open>A sine wave\<close>

record sine_input =
  leg_ang_frq :: dbl
  leg_ang_amp :: dbl
  leg_len_frq :: dbl
  leg_len_amp :: dbl
  sine_p_gain :: dbl
  sine_d_gain :: dbl

record motor_sin_wave = atc +
  sine_guiIn :: sine_input
  sine_pds :: "ASCPD list"
  sine_t :: dbl
  sine_guiOut :: bool

definition new_ATCMotorSinWave :: "motor_sin_wave \<Rightarrow> motor_sin_wave" where
  "new_ATCMotorSinWave mem =
     (let pd = \<lparr>pd_P = Fin 600, pd_D = Fin 15\<rparr>
      in snd (setStartupEnabled True (mem\<lparr>sine_pds := replicate 4 pd, sine_t := Fin 0\<rparr>)))"

text \<open>The displacement of the wave, and its velocity as the code has it.\<close>

definition sine_q :: "dbl \<Rightarrow> dbl \<Rightarrow> dbl \<Rightarrow> dbl" where
  "sine_q amp frq t = amp * dbl_sin (t * Fin M_PI * Fin 2 * frq)"

definition sine_dq :: "dbl \<Rightarrow> dbl \<Rightarrow> dbl \<Rightarrow> dbl" where
  "sine_dq amp frq t = Fin (2 * M_PI) * amp * dbl_cos (t * Fin M_PI * Fin 2 * frq)"

definition sine_controller :: "motor_sin_wave \<Rightarrow> motor_sin_wave" where
  "sine_controller s =
     (let gui = sine_guiIn s; l = lLeg (atc_rs s); r = rLeg (atc_rs s);
          s = (if \<not> isEnabled s then s\<lparr>sine_t := Fin 0\<rparr> else s);
          q = sine_q (leg_ang_amp gui) (leg_ang_frq gui) (sine_t s);
          dq = sine_dq (leg_ang_amp gui) (leg_ang_frq gui) (sine_t s);
          s = s\<lparr>sine_t := sine_t s + Fin 0.001\<rparr>;
          a = Fin (M_PI / 4); b = Fin (3 * M_PI / 4);
          pd = \<lparr>pd_P = sine_p_gain gui, pd_D = sine_d_gain gui\<rparr>;
          s = s\<lparr>sine_pds := replicate 4 pd\<rparr>;
          run = (\<lambda>tgt vel h. pd_call pd tgt (motorAngle h) vel (motorVelocity h));
          co = atc_co s;
          s = s\<lparr>atc_co := co
                  \<lparr>co_lLeg := (co_lLeg co)\<lparr>motorCurrentA := run (a + q) dq (halfA l), motorCurrentB := run (b + q) dq (halfB l)\<rparr>,
                   co_rLeg := (co_rLeg co)\<lparr>motorCurrentA := run (a - q) (- dq) (halfA r), motorCurrentB := run (b - q) (- dq) (halfB r)\<rparr>\<rparr>\<rparr>
      in s\<lparr>sine_guiOut := isEnabled s\<rparr>)"

subsection \<open>Currents, and nothing\<close>

record torque_input =
  des_motor_torque :: motor_targets

record motor_torque = atc +
  torque_guiIn :: torque_input

definition torque_controller :: "motor_torque \<Rightarrow> motor_torque" where
  "torque_controller s =
     (let d = des_motor_torque (torque_guiIn s)
      in set_motors (tgtLA d) (tgtLB d) (tgtLH d) (tgtRA d) (tgtRB d) (tgtRH d) s)"

definition new_ATCDemo :: "'c atc_scheme \<Rightarrow> 'c atc_scheme" where
  "new_ATCDemo mem = snd (setStartupEnabled True mem)"

definition demo_controller :: "'c atc_scheme \<Rightarrow> 'c atc_scheme" where
  "demo_controller s = s"

subsection \<open>Smooth enabling\<close>

lemma rate_limit_near:
  assumes "0 \<le> rate"
  shows "\<exists>y. rate_limit (Fin tgt) (Fin rate) (Fin out) = Fin y \<and> \<bar>y - out\<bar> \<le> rate / 1000"
  using assms by (auto simp: rate_limit_Fin max_def min_def abs_if)

text \<open>Every target of \<open>a\<close> is finite and within \<open>d\<close> of that of \<open>b\<close>.\<close>

definition motors_within :: "real \<Rightarrow> motor_targets \<Rightarrow> motor_targets \<Rightarrow> bool" where
  "motors_within d a b \<longleftrightarrow>
     list_all (\<lambda>f. \<exists>x y. f a = Fin x \<and> f b = Fin y \<and> \<bar>x - y\<bar> \<le> d) [tgtLA, tgtLB, tgtLH, tgtRA, tgtRB, tgtRH]"

definition motors_finite :: "motor_targets \<Rightarrow> bool" where
  "motors_finite a \<longleftrightarrow> list_all (\<lambda>f. isfinite (f a)) [tgtLA, tgtLB, tgtLH, tgtRA, tgtRB, tgtRH]"

lemma motors_within_refl: "motors_finite a \<Longrightarrow> motors_within 0 a a"
  by (auto simp: motors_finite_def motors_within_def isfinite_iff)

lemma rate_limit_within:
  assumes "isfinite tgt" and "\<exists>x y. out = Fin x \<and> p = Fin y \<and> \<bar>x - y\<bar> \<le> d" and "0 \<le> r"
  shows "\<exists>x y. rate_limit tgt (Fin r) out = Fin x \<and> p = Fin y \<and> \<bar>x - y\<bar> \<le> d + r / 1000"
proof -
  obtain t x y where e: "tgt = Fin t" "out = Fin x" "p = Fin y" "\<bar>x - y\<bar> \<le> d"
    using assms(1,2) by (auto simp: isfinite_iff)
  obtain z where "rate_limit (Fin t) (Fin r) (Fin x) = Fin z" "\<bar>z - x\<bar> \<le> r / 1000"
    using rate_limit_near [OF assms(3)] by blast
  moreover then have "\<bar>z - y\<bar> \<le> d + r / 1000" using e(4) by linarith
  ultimately show ?thesis using e by simp
qed

type_synonym mp_call = "nsecs \<times> mp_input \<times> robot_state"

definition mp_call :: "robot_variant \<Rightarrow> mp_call \<Rightarrow> motor_position \<Rightarrow> motor_position" where
  "mp_call v c s = (case c of (now, gui, rs) \<Rightarrow> snd (runController v True True mp_controller now rs (s\<lparr>mp_guiIn := gui\<rparr>)))"

lemma startupController_mp [simp]: "mp_targets (startupController v s) = mp_targets s"
  by (simp add: startupController_def Let_def)

lemma atc_publish_mp [simp]: "mp_targets (atc_publish g l now s) = mp_targets s"
  by (simp add: atc_publish_def Let_def split_beta)

lemma atc_enter_mp [simp]: "mp_targets (atc_enter rs s) = mp_targets s" "mp_guiIn (atc_enter rs s) = mp_guiIn s"
  by (simp_all add: atc_enter_def Let_def)

definition next_targets :: "motor_targets \<Rightarrow> motor_targets \<Rightarrow> motor_targets" where
  "next_targets des t =
     \<lparr>tgtLA = rate_limit (tgtLA des) (Fin 1) (tgtLA t), tgtLB = rate_limit (tgtLB des) (Fin 1) (tgtLB t),
      tgtLH = rate_limit (tgtLH des) (Fin 1) (tgtLH t), tgtRA = rate_limit (tgtRA des) (Fin 1) (tgtRA t),
      tgtRB = rate_limit (tgtRB des) (Fin 1) (tgtRB t), tgtRH = rate_limit (tgtRH des) (Fin 1) (tgtRH t)\<rparr>"

lemma set_motors_mp [simp]: "mp_targets (set_motors a b c d e f s) = mp_targets s"
  by (simp add: set_motors_def)

lemma mp_controller_targets:
  "mp_targets (mp_controller s) = next_targets (des_motor_ang (mp_guiIn s))
     (if isEnabled s then mp_targets s else motor_positions (atc_rs s))"
  by (cases "isEnabled s") (simp_all add: mp_controller_def Let_def next_targets_def)

lemma mp_call_targets:
  "mp_targets (mp_call v (now, gui, rs) s) =
     next_targets (des_motor_ang gui) (if state_enabled rs then mp_targets s else motor_positions rs)"
  by (simp add: mp_call_def runController_def Let_def mp_controller_targets isEnabled_def state_enabled_def)

lemma next_targets_within:
  assumes "motors_finite des" and "motors_within d t p"
  shows "motors_within (d + 1 / 1000) (next_targets des t) p"
  using assms unfolding motors_within_def motors_finite_def next_targets_def
  by (simp only: list.pred_inject motor_targets.simps) (blast intro: rate_limit_within [OF _ _ zero_le_one])

text \<open>
  The motor position controller does not jump: whatever targets the operator has set, the target of each
  motor after a call with the robot disabled and n calls with it enabled is within n + 1 milliradians of where the
  motor was at the disabled call.
\<close>

theorem motor_position_smooth:
  assumes "\<not> state_enabled rs" and "motors_finite (motor_positions rs)" and "motors_finite (des_motor_ang gui)"
    and "\<forall>(now', gui', rs') \<in> set calls. state_enabled rs' \<and> motors_finite (des_motor_ang gui')"
  shows "motors_within ((real (length calls) + 1) / 1000)
    (mp_targets (fold (mp_call v) calls (mp_call v (now, gui, rs) s))) (motor_positions rs)"
  using assms(4)
proof (induction calls rule: rev_induct)
  case Nil
  then show ?case
    using next_targets_within [OF assms(3) motors_within_refl [OF assms(2)]] assms(1) by (simp add: mp_call_targets)
next
  case (snoc c calls)
  obtain now' gui' rs' where c: "c = (now', gui', rs')" by (cases c)
  have e: "(real (length (calls @ [c])) + 1) / 1000 = (real (length calls) + 1) / 1000 + (1 / 1000 :: real)"
    by (simp add: add_divide_distrib)
  have "state_enabled rs'" "motors_finite (des_motor_ang gui')" using snoc.prems c by auto
  moreover have "motors_within ((real (length calls) + 1) / 1000)
      (mp_targets (fold (mp_call v) calls (mp_call v (now, gui, rs) s))) (motor_positions rs)"
    using snoc.prems by (intro snoc.IH) simp
  ultimately show ?case unfolding e using next_targets_within by (simp add: c mp_call_targets)
qed

definition mp_gui :: mp_input where
  "mp_gui = \<lparr>leg_motor_p_gain = Fin 100, leg_motor_d_gain = Fin 10, hip_motor_p_gain = Fin 100, hip_motor_d_gain = Fin 10,
     des_motor_ang = \<lparr>tgtLA = Fin 1, tgtLB = Fin 2, tgtLH = Fin 3, tgtRA = Fin 1, tgtRB = Fin 2, tgtRH = Fin 3\<rparr>\<rparr>"

lemma motor_position_smooth_witness:
  "\<forall>s :: motor_position. motors_within (3 / 1000)
    (mp_targets (fold (mp_call biped1) [(0, mp_gui, enabled_state), (0, mp_gui, enabled_state)]
      (mp_call biped1 (0, mp_gui, robot_state_zero) s))) (motor_positions robot_state_zero)"
proof
  fix s :: motor_position
  show "motors_within (3 / 1000)
      (mp_targets (fold (mp_call biped1) [(0, mp_gui, enabled_state), (0, mp_gui, enabled_state)]
        (mp_call biped1 (0, mp_gui, robot_state_zero) s))) (motor_positions robot_state_zero)"
    using motor_position_smooth [of robot_state_zero mp_gui "[(0, mp_gui, enabled_state), (0, mp_gui, enabled_state)]" biped1 0 s]
    by (simp add: state_enabled_def motors_finite_def motor_positions_def mp_gui_def robot_state_zero_def enabled_state_def
        robot_state_leg_zero_def robot_state_legHalf_zero_def robot_state_hip_zero_def)
qed

subsection \<open>The hips of the joint position controller\<close>

lemma set_motors_jp [simp]: "jp_targets (set_motors a b c d e f s) = jp_targets s"
  by (simp add: set_motors_def)

text \<open>
  A hip that follows the inverse kinematics moves at twice the speed the operator allows: the rate limiter
  is called twice in each cycle, so a call moves the target by up to 2 milliseconds of the maximal hip speed.
\<close>

theorem joint_hip_double_rate:
  assumes "isEnabled s" and "vertical (jp_guiIn s)" and "\<not> lHipFast s"
    and "maxHipSpd (jp_guiIn s) = Fin v" and "0 \<le> v" and "tgtLH (jp_targets s) = Fin x"
    and "fst (iKine \<lparr>lr_left = Fin 2.15, lr_right = Fin 2.45\<rparr> (lLeg (atc_rs s)) (rLeg (atc_rs s)) (position (atc_rs s))) = Fin d"
  shows "tgtLH (jp_targets (jp_controller s)) =
    Fin (if \<bar>d - x\<bar> \<le> 2 * (0.001 * v) then d else if x < d then x + 2 * (0.001 * v) else x - 2 * (0.001 * v))"
proof -
  have "((rate_limit (Fin d) (Fin v)) ^^ 2) (Fin x) =
    Fin (if \<bar>d - x\<bar> \<le> 2 * (0.001 * v) then d else if x < d then x + 2 * (0.001 * v) else x - 2 * (0.001 * v))"
    unfolding rate_limit_steps [OF assms(5)] using assms(5) by (auto simp: max_def min_def abs_if)
  then have h: "fst (hip_follow (Fin d) (Fin v) (Fin x, False)) = \<dots>"
    by (simp add: hip_follow_def Let_def numeral_2_eq_2)
  show ?thesis unfolding h [symmetric] using assms(1-4,6,7) by (simp add: jp_controller_def Let_def split_beta)
qed

definition hip_test_state :: robot_state where
  "hip_test_state = enabled_state\<lparr>lLeg := standing_leg, rLeg := standing_leg,
     position := robot_state_location_zero\<lparr>boomAngle := Fin pi\<rparr>\<rparr>"

definition hip_test :: "joint_position \<Rightarrow> joint_position" where
  "hip_test s = s\<lparr>atc_rs := hip_test_state, lHipFast := False,
     jp_guiIn := (jp_guiIn s)\<lparr>vertical := True, maxHipSpd := Fin 0.03\<rparr>,
     jp_targets := (jp_targets s)\<lparr>tgtLH := Fin 0\<rparr>\<rparr>"

lemma iKine_standing:
  "\<exists>d. fst (iKine \<lparr>lr_left = Fin 2.15, lr_right = Fin 2.45\<rparr> standing_leg standing_leg
      (robot_state_location_zero\<lparr>boomAngle := Fin pi\<rparr>)) = Fin d \<and> 4 \<le> d"
proof -
  have "\<bar>2.15 - lBoom - lBody * cos qBodyOffset\<bar> \<le> 1"
    using cos_ge_minus_one [of qBodyOffset] cos_le_one [of qBodyOffset]
    by (simp add: lBoom_def lBody_def abs_le_iff, intro conjI) linarith+
  then have "(2.15 - lBoom - lBody * cos qBodyOffset)\<^sup>2 \<le> lHip\<^sup>2 + 1"
    using abs_le_square_iff [of "2.15 - lBoom - lBody * cos qBodyOffset" 1] by (simp add: add_increasing)
  then obtain h where "hipAngleLeft 2.15 1 (pi / 2) pi = Fin h"
    using hipAngleLeft_solves [OF _ refl, where l = 1 and q = "pi / 2" and toe = "2.15" and b = pi] by auto
  then show ?thesis
    by (simp add: iKine_def Let_def standing_leg_def L1_def L2_def ac_clamp_Fin LEFT_HIP_MOTOR_MIN_LOC_def
        LEFT_HIP_MOTOR_MAX_LOC_def)
qed

lemma joint_hip_double_rate_witness:
  "\<forall>s :: joint_position. tgtLH (jp_targets (jp_controller (hip_test s))) = Fin (2 * (0.001 * 0.03))"
proof
  fix s :: joint_position
  show "tgtLH (jp_targets (jp_controller (hip_test s))) = Fin (2 * (0.001 * 0.03))"
  proof -
    obtain d where d: "fst (iKine \<lparr>lr_left = Fin 2.15, lr_right = Fin 2.45\<rparr> standing_leg standing_leg
        (robot_state_location_zero\<lparr>boomAngle := Fin pi\<rparr>)) = Fin d" "4 \<le> d"
      using iKine_standing by blast
    have "tgtLH (jp_targets (jp_controller (hip_test s))) =
      Fin (if \<bar>d - 0\<bar> \<le> 2 * (0.001 * 0.03) then d else if 0 < d then 0 + 2 * (0.001 * 0.03) else 0 - 2 * (0.001 * 0.03))"
      by (rule joint_hip_double_rate) (simp_all add: hip_test_def hip_test_state_def isEnabled_def enabled_state_def d(1) [simplified])
    then show ?thesis using d(2) by simp
  qed
qed

subsection \<open>The sine wave\<close>

text \<open>
  The velocity that accompanies the sine wave is not its velocity: the wave of the motor position is the
  operator's amplitude and frequency, but what the code commands as its rate is the true rate divided by the frequency.
\<close>

theorem sine_velocity_lacks_frequency:
  "\<exists>q dq. (\<forall>t. sine_q (Fin amp) (Fin frq) (Fin t) = Fin (q t) \<and> sine_dq (Fin amp) (Fin frq) (Fin t) = Fin (dq t)) \<and>
     (\<forall>t. (q has_real_derivative frq * dq t) (at t))"
proof (intro exI conjI allI)
  show "sine_q (Fin amp) (Fin frq) (Fin t) = Fin (amp * sin (t * M_PI * 2 * frq))"
    "sine_dq (Fin amp) (Fin frq) (Fin t) = Fin (2 * M_PI * amp * cos (t * M_PI * 2 * frq))" for t
    by (simp_all add: sine_q_def sine_dq_def)
  show "((\<lambda>t. amp * sin (t * M_PI * 2 * frq)) has_real_derivative
      frq * (2 * M_PI * amp * cos (t * M_PI * 2 * frq))) (at t)" for t
    by (auto intro!: derivative_eq_intros)
qed

subsection \<open>The startup ramp of a controller\<close>

lemma torque_leaves_startup: "leaves_startup torque_controller"
  by (simp add: leaves_startup_def torque_controller_def set_motors_def Let_def)

text \<open>The operator asks for 100 A in every motor, past every limit, and for no number at all in the last.\<close>

definition torque_machine :: motor_torque where
  "torque_machine = atc.extend ramping_machine (motor_torque.fields
     \<lparr>des_motor_torque = \<lparr>tgtLA = Fin 100, tgtLB = Fin 100, tgtLH = PInf, tgtRA = Fin 100, tgtRB = Fin 100, tgtRH = NaN\<rparr>\<rparr>)"

lemma startup_ramp_witness:
  "\<exists>a. motorCurrentHip (co_lLeg (fst (runController biped1 True True torque_controller 0 enabled_state torque_machine))) = Fin a \<and>
     \<bar>a\<bar> \<le> 1 / 4 * MAX_HIP_MTR_CURRENT_CMD biped1"
proof -
  have m: "atc_mode torque_machine = STARTUP" "startupTimeRem torque_machine = Fin 3" "startupEnabled torque_machine = False"
    by (simp_all add: torque_machine_def ramping_machine_def new_ATC_def atc.defs motor_torque.defs)
  have e: "\<not> startup_entered enabled_state torque_machine" by (simp add: startup_entered_def m)
  have g: "torque_guiIn (atc_enter enabled_state torque_machine) = torque_guiIn torque_machine"
    by (simp add: atc_enter_def Let_def)
  have asked: "motorCurrentHip (co_lLeg (atc_co (torque_controller (atc_enter enabled_state torque_machine)))) = PInf"
    unfolding torque_controller_def g by (simp add: set_motors_def Let_def torque_machine_def atc.defs motor_torque.defs)
  have r: "(3 :: real) \<le> STARTUP_TIME" "1 / 4 = (STARTUP_TIME - 3) / STARTUP_TIME"
    by (simp_all add: STARTUP_TIME_def)
  have "(if startup_entered enabled_state torque_machine then Fin STARTUP_TIME else startupTimeRem torque_machine) = Fin 3"
    using e m by simp
  from startup_ramp [OF torque_leaves_startup variant_ok_bipeds(1) disjI2 [OF m(1)] this r refl refl, of True True 0]
  show ?thesis by (simp add: leg_ramped_def ramped_def asked)
qed

end
