(* ===== verification/StabilizedStanding.thy ===== *)
theory StabilizedStanding
  imports MotorControllers
begin

text \<open>
  The controller ATCStabilizedStanding: it brings the legs into a pose, then balances on the right leg with a
  linear quadratic regulator. The theorems show that the pose is the fixed point of the regulator, when it is
  reached, that the loops compute the law of the regulator, and what bounds the outputs have.
\<close>

subsection \<open>The tables\<close>

definition K :: "real list list" where
  "K = [
    [-4316.0347385432214650791138410568, -1579.3932881845194060588255524635, 40.927012475551336478929442819208,
     9.6223568940005321792341419495642, -29.783665643128642841475084424019, -47.499899235357290194770030211657,
     -1598.4068522810594004113227128983, -551.3342150984306044847471639514, -1598.4068522794041200540959835052,
     -551.33421509810204952373169362545, -209.92881442173256800742819905281, -65.498501274197167276724940165877,
     -209.92881442003067604673560708761, -65.498501274029905516727012582123],
    [-4316.0347385407476394902914762497, -1579.3932881837190507212653756142, -29.783665643086933982885966543108,
     -47.499899235334268610131402965635, 40.927012475541459934902377426624, 9.6223568940229853296841611154377,
     -1598.4068522802590450737625360489, -551.33421509813956618017982691526, -1598.4068522785310051403939723969,
     -551.33421509781101121916435658932, -209.92881442157795390812680125237, -65.498501274163061225408455356956,
     -209.9288144199033467884873971343, -65.498501273998073202164960093796],
    [1756.9198654244473800645209848881, 633.96017310165871094795875251293, 11.040636103859419847594836028293,
     16.460122245224660275653150165454, 11.040636103872991213847853941843, 16.46012224522564082462849910371,
     756.77126624536322196945548057556, 252.8762666681333257656660862267, 506.77173193485486990539357066154,
     198.53209470310082451760536059737, 293.56974024348062357603339478374, 40.531931504607541683071758598089,
     -7.9837940024938234273577108979225, 12.428117952334602591690781991929],
    [1756.9198654018255183473229408264, 633.96017309337094047805294394493, 11.040636103705011805686808656901,
     16.460122244976730598864378407598, 11.040636103713239890566910617054, 16.460122244977526406728429719806,
     506.7717319273288012482225894928, 198.53209470034335026866756379604, 756.77126623666845262050628662109,
     252.87626666511550865834578871727, -7.9837940031484322389587759971619, 12.428117952070039109457866288722,
     293.56974024136559364706045016646, 40.531931504209950389849836938083]]"

definition XStar :: "real list" where
  "XStar = [1.5707963267948966192313216916398, 0, 3.936991483773936817414096367429, 0, 2.3461938234056494145818305696594, 0,
    3.5926194653860554772961677372223, 0, 2.6905658417935307546997591998661, 0, 3.5163311271867905283272648375714, 0,
    2.766854179992795703668662099517, 0]"

definition UStar :: "real list" where
  "UStar = [0, 0, -122.06134111882400361537293065339, 122.06134111882400361537293065339]"

lemma length_XStar: "length XStar = 14" by (simp add: XStar_def)

subsection \<open>State\<close>

record standing_input =
  ss_main_controller :: uint8
  ss_leg_pos_kp :: dbl
  ss_leg_pos_kd :: dbl
  ss_hip_pos_kp :: dbl
  ss_left_toe_pos :: dbl
  ss_hip_pos_kd :: dbl
  ss_right_toe_pos :: dbl
  ss_current_limit :: dbl
  ss_deflection_limit :: dbl
  ss_velocity_limit :: dbl

record stabilized_standing = atc +
  ss_guiIn :: standing_input
  ss_guiOut :: bool
  ss_pds :: motor_pds
  ss_rates :: motor_targets
  ss_controllerState :: int
  legMotorRateLimit :: dbl
  hipMotorRateLimit :: dbl
  ss_currentLimit :: dbl
  ss_deflectionLimit :: dbl
  ss_velocityLimit :: dbl

definition new_ATCStabilizedStanding :: "stabilized_standing \<Rightarrow> stabilized_standing" where
  "new_ATCStabilizedStanding mem =
     (let s = snd (setStartupEnabled True mem) in s\<lparr>legMotorRateLimit := Fin 0.25, hipMotorRateLimit := Fin 0.25\<rparr>)"

subsection \<open>The functions\<close>

text \<open>The limiters restart from the motors, not from the rotors.\<close>

definition ss_positions :: "robot_state \<Rightarrow> motor_targets" where
  "ss_positions rs =
     \<lparr>tgtLA = motorAngle (halfA (lLeg rs)), tgtLB = motorAngle (halfB (lLeg rs)), tgtLH = legBodyAngle (hip (lLeg rs)),
      tgtRA = motorAngle (halfA (rLeg rs)), tgtRB = motorAngle (halfB (rLeg rs)), tgtRH = legBodyAngle (hip (rLeg rs))\<rparr>"

definition ss_updateController :: "stabilized_standing \<Rightarrow> stabilized_standing" where
  "ss_updateController s =
     (let gui = ss_guiIn s;
          s = (if \<not> isEnabled s \<or> ss_controllerState s \<noteq> uint (ss_main_controller gui)
               then s\<lparr>ss_rates := ss_positions (atc_rs s)\<rparr> else s);
          pm = \<lparr>pd_P = ss_leg_pos_kp gui, pd_D = ss_leg_pos_kd gui\<rparr>;
          ph = \<lparr>pd_P = ss_hip_pos_kp gui, pd_D = ss_hip_pos_kd gui\<rparr>
      in s\<lparr>ss_controllerState := uint (ss_main_controller gui),
           ss_pds := \<lparr>pdLA = pm, pdLB = pm, pdLH = ph, pdRA = pm, pdRB = pm, pdRH = ph\<rparr>,
           ss_currentLimit := ss_current_limit gui, ss_deflectionLimit := ss_deflection_limit gui,
           ss_velocityLimit := ss_velocity_limit gui, ss_guiOut := isEnabled s\<rparr>)"

definition ss_checkSafeties :: "stabilized_standing \<Rightarrow> stabilized_standing" where
  "ss_checkSafeties s =
     (let cl = (\<lambda>x. ac_clamp x (- ss_currentLimit s) (ss_currentLimit s)); co = atc_co s; rs = atc_rs s;
          s = set_leg_motors (cl (motorCurrentA (co_lLeg co))) (cl (motorCurrentB (co_lLeg co)))
                (cl (motorCurrentA (co_rLeg co))) (cl (motorCurrentB (co_rLeg co))) s;
          s = (if moves_faster (ss_velocityLimit s) rs then commandEStop s else s)
      in if deflected_over (ss_deflectionLimit s) rs then commandEStop s else s)"

definition ss_hipController :: "stabilized_standing \<Rightarrow> stabilized_standing" where
  "ss_hipController s =
     (let rs = atc_rs s; l = lLeg rs; r = rLeg rs; gui = ss_guiIn s;
          (qLh, qRh) = iKine \<lparr>lr_left = ss_left_toe_pos gui, lr_right = ss_right_toe_pos gui\<rparr> l r (position rs);
          qLh = rate_limit qLh (hipMotorRateLimit s) (tgtLH (ss_rates s));
          qRh = rate_limit qRh (hipMotorRateLimit s) (tgtRH (ss_rates s));
          s = s\<lparr>ss_rates := (ss_rates s)\<lparr>tgtLH := qLh, tgtRH := qRh\<rparr>\<rparr>
      in set_hip_motors (hip_motor_pd (pdLH (ss_pds s)) qLh (hip l)) (hip_motor_pd (pdRH (ss_pds s)) qRh (hip r)) s)"

definition pose :: "nat \<Rightarrow> dbl" where
  "pose i = Fin (3 * M_PI / 2 - XStar ! i)"

definition ss_startupController :: "stabilized_standing \<Rightarrow> stabilized_standing" where
  "ss_startupController s =
     (let l = lLeg (atc_rs s); r = rLeg (atc_rs s); t = ss_rates s; v = legMotorRateLimit s; p = ss_pds s;
          la = rate_limit (pose 2) v (tgtLA t); lb = rate_limit (pose 4) v (tgtLB t);
          ra = rate_limit (pose 10) v (tgtRA t); rb = rate_limit (pose 12) v (tgtRB t);
          s = s\<lparr>ss_rates := t\<lparr>tgtLA := la, tgtLB := lb, tgtRA := ra, tgtRB := rb\<rparr>\<rparr>
      in set_leg_motors (motor_pd (pdLA p) la (halfA l)) (motor_pd (pdLB p) lb (halfB l))
           (motor_pd (pdRA p) ra (halfA r)) (motor_pd (pdRB p) rb (halfB r)) s)"

text \<open>The state in the coordinates of the regulator.\<close>

definition lqr_state :: "robot_state \<Rightarrow> dbl list" where
  "lqr_state rs =
     (let l = lLeg rs; r = rLeg rs; h = Fin (3 * M_PI / 2)
      in [Fin (2 * M_PI) - bodyPitch (position rs), - bodyPitchVelocity (position rs),
          h - rotorAngle (halfA l), - rotorVelocity (halfA l), h - rotorAngle (halfB l), - rotorVelocity (halfB l),
          h - legAngle (halfA r), - legVelocity (halfA r), h - legAngle (halfB r), - legVelocity (halfB r),
          h - rotorAngle (halfA r), - rotorVelocity (halfA r), h - rotorAngle (halfB r), - rotorVelocity (halfB r)])"

definition lqr_input :: "dbl list \<Rightarrow> nat \<Rightarrow> dbl" where
  "lqr_input X i = foldl (\<lambda>u j. u + Fin (K ! i ! j) * (Fin (XStar ! j) - X ! j)) (Fin (UStar ! i)) [0..<14]"

definition stabilizationController :: "stabilized_standing \<Rightarrow> stabilized_standing" where
  "stabilizationController s =
     (let U = lqr_input (lqr_state (atc_rs s)); c = (\<lambda>i. - U i / Fin 50 / Fin 0.0987)
      in set_leg_motors (c 0) (c 1) (c 2) (c 3) s)"

definition ss_shutdownController :: "stabilized_standing \<Rightarrow> stabilized_standing" where
  "ss_shutdownController s =
     (let l = lLeg (atc_rs s); r = rLeg (atc_rs s); p = ss_pds s; z = Fin 0
      in set_motors (pd_call (pdLA p) z z z (motorVelocity (halfA l))) (pd_call (pdLB p) z z z (motorVelocity (halfB l)))
           (pd_call (pdLH p) z z z (legBodyVelocity (hip l)))
           (pd_call (pdRA p) z z z (motorVelocity (halfA r))) (pd_call (pdRB p) z z z (motorVelocity (halfB r)))
           (pd_call (pdRH p) z z z (legBodyVelocity (hip r))) s)"

definition ss_controller :: "stabilized_standing \<Rightarrow> stabilized_standing" where
  "ss_controller s =
     (let s = ss_hipController (ss_updateController s);
          s = (if ss_controllerState s = 0 then ss_startupController s
               else if ss_controllerState s = 1 then stabilizationController s
               else if ss_controllerState s = 2 then ss_shutdownController s else s)
      in ss_checkSafeties s)"

subsection \<open>The regulator\<close>

lemma foldl_sum_Fin: "foldl (\<lambda>u j. u + Fin (f j)) (Fin a) [0..<n] = Fin (a + (\<Sum>j<n. f j))"
  by (induction n) (simp_all add: add.assoc)

lemma lqr_input_Fin:
  assumes "\<And>j. j < 14 \<Longrightarrow> X ! j = Fin (x j)"
  shows "lqr_input X i = Fin (UStar ! i + (\<Sum>j<14. K ! i ! j * (XStar ! j - x j)))"
proof -
  have "lqr_input X i = foldl (\<lambda>u j. u + Fin (K ! i ! j * (XStar ! j - x j))) (Fin (UStar ! i)) [0..<14]"
    unfolding lqr_input_def by (rule foldl_cong) (simp_all add: assms)
  then show ?thesis by (simp only: foldl_sum_Fin)
qed

lemma nth_four: "i < 4 \<Longrightarrow> [f 0, f 1, f 2, f (3::nat)] ! i = f i"
  by (auto simp: less_Suc_eq numeral_eq_Suc)

lemma stabilization_Fin:
  assumes "\<And>j. j < 14 \<Longrightarrow> lqr_state (atc_rs s) ! j = Fin (x j)" and "i < 4"
  shows "leg_currents (atc_co (stabilizationController s)) ! i =
    Fin (- (UStar ! i + (\<Sum>j<14. K ! i ! j * (XStar ! j - x j))) / 50 / 0.0987)"
proof -
  define c where "c = (\<lambda>i. - lqr_input (lqr_state (atc_rs s)) i / Fin 50 / Fin 0.0987)"
  have "leg_currents (atc_co (stabilizationController s)) = [c 0, c 1, c 2, c 3]"
    by (simp only: stabilizationController_def Let_def set_leg_motors_currents c_def)
  then have "leg_currents (atc_co (stabilizationController s)) ! i = c i" by (simp only: nth_four [OF assms(2)])
  also have "c i = Fin (- (UStar ! i + (\<Sum>j<14. K ! i ! j * (XStar ! j - x j))) / 50 / 0.0987)"
    using lqr_input_Fin [of "lqr_state (atc_rs s)" x i] assms(1) by (simp add: c_def)
  finally show ?thesis .
qed

text \<open>
  The loops of the stabilization controller compute the regulator: for a state that is finite in every
  coordinate, each current is the negative of the control of the fixed point plus the gain matrix times the
  deviation from the state of the fixed point, divided by gear ratio and torque constant.
\<close>

theorem standing_regulator:
  assumes "list_all isfinite (lqr_state (atc_rs s))" and "i < 4"
    and "x = (\<lambda>j. real_of_dbl (lqr_state (atc_rs s) ! j))"
  shows "leg_currents (atc_co (stabilizationController s)) ! i =
    Fin (- (UStar ! i + (\<Sum>j<14. K ! i ! j * (XStar ! j - x j))) / 50 / 0.0987)"
proof (rule stabilization_Fin [OF _ assms(2)])
  fix j :: nat assume j: "j < 14"
  have "length (lqr_state (atc_rs s)) = 14" by (simp add: lqr_state_def Let_def)
  with j assms(1) have "isfinite (lqr_state (atc_rs s) ! j)" by (simp add: list_all_length)
  then show "lqr_state (atc_rs s) ! j = Fin (x j)" by (auto simp: isfinite_iff assms(3))
qed

text \<open>A leg half at rest at an angle of the motor and an angle of the leg.\<close>

definition at_rest :: "dbl \<Rightarrow> dbl \<Rightarrow> robot_state_legHalf" where
  "at_rest m l = robot_state_legHalf_zero\<lparr>motorAngle := m, rotorAngle := m, legAngle := l\<rparr>"

definition posed :: robot_state where
  "posed = enabled_state
     \<lparr>lLeg := robot_state_leg_zero\<lparr>halfA := at_rest (pose 2) (pose 2), halfB := at_rest (pose 4) (pose 4)\<rparr>,
      rLeg := robot_state_leg_zero\<lparr>halfA := at_rest (pose 10) (pose 6), halfB := at_rest (pose 12) (pose 8)\<rparr>,
      position := robot_state_location_zero\<lparr>bodyPitch := Fin (2 * M_PI - XStar ! 0)\<rparr>\<rparr>"

text \<open>
  The pose of the startup controller is the fixed point of the regulator: with the motors at the targets
  of the startup controller, the springs of the right leg at the fixed point and the body upright at rest, the regulator
  commands no current to the left leg and opposite currents, those of the fixed point, to the right leg.
\<close>

theorem standing_pose_balances:
  "leg_currents (atc_co (stabilizationController (s\<lparr>atc_rs := posed\<rparr>))) =
     [Fin 0, Fin 0, Fin (UStar ! 3 / 50 / 0.0987), Fin (- UStar ! 3 / 50 / 0.0987)]"
proof -
  have x: "lqr_state posed = map Fin XStar"
    by (simp add: lqr_state_def Let_def posed_def pose_def at_rest_def XStar_def robot_state_legHalf_zero_def robot_state_location_zero_def)
  have "lqr_state (atc_rs (s\<lparr>atc_rs := posed\<rparr>)) ! j = Fin (XStar ! j)" if "j < 14" for j
    using that by (simp add: x length_XStar)
  note stabilization_Fin [OF this, simplified]
  then have c: "leg_currents (atc_co (stabilizationController (s\<lparr>atc_rs := posed\<rparr>))) ! i = Fin (- UStar ! i / 50 / 0.0987)" if "i < 4" for i
    using that by simp
  have "length (leg_currents (atc_co (stabilizationController (s\<lparr>atc_rs := posed\<rparr>)))) = 4" by (simp add: leg_currents_def)
  then have "leg_currents (atc_co (stabilizationController (s\<lparr>atc_rs := posed\<rparr>))) =
    map (\<lambda>i. Fin (- UStar ! i / 50 / 0.0987)) [0..<4]"
    by (intro nth_equalityI) (simp_all add: c)
  then show ?thesis by (simp add: UStar_def upt_rec)
qed

subsection \<open>Reaching the pose\<close>

type_synonym ss_call = "nsecs \<times> standing_input \<times> robot_state"

definition ss_call :: "robot_variant \<Rightarrow> ss_call \<Rightarrow> stabilized_standing \<Rightarrow> stabilized_standing" where
  "ss_call v c s = (case c of (now, gui, rs) \<Rightarrow> snd (runController v True True ss_controller now rs (s\<lparr>ss_guiIn := gui\<rparr>)))"

text \<open>The part of the state that steers the motion into the pose.\<close>

definition ss_motion :: "'c stabilized_standing_scheme \<Rightarrow> int \<times> dbl \<times> motor_targets" where
  "ss_motion s = (ss_controllerState s, legMotorRateLimit s, ss_rates s)"

lemma ss_motion_frame [simp]:
  fixes s :: "stabilized_standing"
  shows "ss_motion (set_motors a b c d e f s) = ss_motion s" "ss_motion (startupController v s) = ss_motion s"
    "ss_motion (atc_publish g l now s) = ss_motion s" "ss_motion (atc_enter rs s) = ss_motion s"
    "ss_motion (commandEStop s) = ss_motion s"
  by (simp_all add: ss_motion_def set_motors_def startupController_def atc_publish_def atc_enter_def commandEStop_def
      Let_def split_beta)

lemma ss_motion_leg_motors [simp]:
  fixes s :: "stabilized_standing"
  shows "ss_motion (set_leg_motors a b c d s) = ss_motion s" "ss_motion (set_hip_motors a b s) = ss_motion s"
    "ss_motion (ss_checkSafeties s) = ss_motion s"
  by (simp_all add: set_leg_motors_def set_hip_motors_def ss_checkSafeties_def Let_def)

lemma ss_enter_simps [simp]: "ss_guiIn (atc_enter rs s) = ss_guiIn s"
  by (simp add: atc_enter_def Let_def)

text \<open>The leg motors with the entries of the pose.\<close>

definition pose_legs :: "((motor_targets \<Rightarrow> dbl) \<times> nat) set" where
  "pose_legs = {(tgtLA, 2), (tgtLB, 4), (tgtRA, 10), (tgtRB, 12)}"

lemma ss_hip_motion:
  "\<exists>lh rh. ss_motion (ss_hipController s) =
     (ss_controllerState s, legMotorRateLimit s, (ss_rates s)\<lparr>tgtLH := lh, tgtRH := rh\<rparr>)"
  by (simp add: ss_hipController_def Let_def split_beta) (auto simp: ss_motion_def)

lemma ss_startup_motion:
  assumes "(f, k) \<in> pose_legs"
  shows "f (ss_rates (ss_startupController s)) = rate_limit (pose k) (legMotorRateLimit s) (f (ss_rates s))"
    and "ss_controllerState (ss_startupController s) = ss_controllerState s"
    and "legMotorRateLimit (ss_startupController s) = legMotorRateLimit s"
proof -
  have "ss_motion (ss_startupController s) = (ss_controllerState s, legMotorRateLimit s,
    (ss_rates s)\<lparr>tgtLA := rate_limit (pose 2) (legMotorRateLimit s) (tgtLA (ss_rates s)),
      tgtLB := rate_limit (pose 4) (legMotorRateLimit s) (tgtLB (ss_rates s)),
      tgtRA := rate_limit (pose 10) (legMotorRateLimit s) (tgtRA (ss_rates s)),
      tgtRB := rate_limit (pose 12) (legMotorRateLimit s) (tgtRB (ss_rates s))\<rparr>)"
    by (simp add: ss_startupController_def Let_def) (simp add: ss_motion_def)
  then show "f (ss_rates (ss_startupController s)) = rate_limit (pose k) (legMotorRateLimit s) (f (ss_rates s))"
    "ss_controllerState (ss_startupController s) = ss_controllerState s"
    "legMotorRateLimit (ss_startupController s) = legMotorRateLimit s"
    using assms by (auto simp: ss_motion_def pose_legs_def)
qed

lemma ss_controller_motion:
  assumes "(f, k) \<in> pose_legs" and "ss_main_controller (ss_guiIn s) = 0"
  shows "f (ss_rates (ss_controller s)) = rate_limit (pose k) (legMotorRateLimit s)
      (f (if isEnabled s \<and> ss_controllerState s = 0 then ss_rates s else ss_positions (atc_rs s)))"
    and "ss_controllerState (ss_controller s) = 0" and "legMotorRateLimit (ss_controller s) = legMotorRateLimit s"
proof -
  define t where "t = ss_hipController (ss_updateController s)"
  have u: "ss_controllerState (ss_updateController s) = 0" "legMotorRateLimit (ss_updateController s) = legMotorRateLimit s"
    "ss_rates (ss_updateController s) = (if isEnabled s \<and> ss_controllerState s = 0 then ss_rates s else ss_positions (atc_rs s))"
    using assms(2) by (simp_all add: ss_updateController_def Let_def)
  obtain lh rh where "ss_motion t = (0, legMotorRateLimit s,
      (if isEnabled s \<and> ss_controllerState s = 0 then ss_rates s else ss_positions (atc_rs s))\<lparr>tgtLH := lh, tgtRH := rh\<rparr>)"
    using ss_hip_motion [of "ss_updateController s"] unfolding u t_def by blast
  then have t: "ss_controllerState t = 0" "legMotorRateLimit t = legMotorRateLimit s"
    "f (ss_rates t) = f (if isEnabled s \<and> ss_controllerState s = 0 then ss_rates s else ss_positions (atc_rs s))"
    using assms(1) by (auto simp: ss_motion_def pose_legs_def)
  have "ss_motion (ss_controller s) = ss_motion (ss_startupController t)"
    unfolding ss_controller_def Let_def t_def [symmetric] by (simp add: t(1))
  then show "f (ss_rates (ss_controller s)) = rate_limit (pose k) (legMotorRateLimit s)
      (f (if isEnabled s \<and> ss_controllerState s = 0 then ss_rates s else ss_positions (atc_rs s)))"
    "ss_controllerState (ss_controller s) = 0" "legMotorRateLimit (ss_controller s) = legMotorRateLimit s"
    using ss_startup_motion [OF assms(1), of t] t by (simp_all add: ss_motion_def)
qed

lemma ss_call_motion:
  assumes "(f, k) \<in> pose_legs" and "ss_main_controller gui = 0"
  shows "f (ss_rates (ss_call v (now, gui, rs) s)) = rate_limit (pose k) (legMotorRateLimit s)
      (f (if state_enabled rs \<and> ss_controllerState s = 0 then ss_rates s else ss_positions rs))"
    and "ss_controllerState (ss_call v (now, gui, rs) s) = 0"
    and "legMotorRateLimit (ss_call v (now, gui, rs) s) = legMotorRateLimit s"
proof -
  define t where "t = atc_enter rs (s\<lparr>ss_guiIn := gui\<rparr>)"
  have m: "ss_motion t = ss_motion s" unfolding t_def ss_motion_frame by (simp add: ss_motion_def)
  have t: "ss_main_controller (ss_guiIn t) = 0" "atc_rs t = rs" "isEnabled t \<longleftrightarrow> state_enabled rs"
    using assms(2) by (simp_all add: t_def isEnabled_def state_enabled_def)
  have "ss_motion (ss_call v (now, gui, rs) s) = ss_motion (ss_controller t)"
    by (simp add: ss_call_def runController_def Let_def t_def)
  then show "f (ss_rates (ss_call v (now, gui, rs) s)) = rate_limit (pose k) (legMotorRateLimit s)
      (f (if state_enabled rs \<and> ss_controllerState s = 0 then ss_rates s else ss_positions rs))"
    "ss_controllerState (ss_call v (now, gui, rs) s) = 0"
    "legMotorRateLimit (ss_call v (now, gui, rs) s) = legMotorRateLimit s"
    using ss_controller_motion [OF assms(1) t(1)] m by (simp_all add: ss_motion_def t)
qed

text \<open>
  The startup controller brings the legs into the pose in known time: from the angle of a motor where the
  robot was disabled, its target moves straight to the pose by a quarter milliradian per call, and stays there.
\<close>

theorem standing_pose_reached:
  assumes "(f, k) \<in> pose_legs" and "\<not> state_enabled rs" and "f (ss_positions rs) = Fin p"
    and "ss_main_controller gui = 0" and "\<forall>(now', gui', rs') \<in> set calls. state_enabled rs' \<and> ss_main_controller gui' = 0"
    and "legMotorRateLimit s = Fin 0.25" and "d = 3 * M_PI / 2 - XStar ! k - p" and "n = 0.00025 * real (length calls + 1)"
  shows "f (ss_rates (fold (ss_call v) calls (ss_call v (now, gui, rs) s))) =
    Fin (if \<bar>d\<bar> \<le> n then p + d else p + sgn d * n)"
proof -
  let ?s = "\<lambda>calls. fold (ss_call v) calls (ss_call v (now, gui, rs) s)"
  have "f (ss_rates (?s calls)) = ((rate_limit (pose k) (Fin 0.25)) ^^ (length calls + 1)) (Fin p) \<and>
      ss_controllerState (?s calls) = 0 \<and> legMotorRateLimit (?s calls) = Fin 0.25"
    using assms(5)
  proof (induction calls rule: rev_induct)
    case Nil
    then show ?case using ss_call_motion [OF assms(1,4), of v now rs s] assms(2,3,6) by simp
  next
    case (snoc c calls)
    obtain now' gui' rs' where c: "c = (now', gui', rs')" by (cases c)
    with snoc.prems have "state_enabled rs'" "ss_main_controller gui' = 0" by auto
    moreover note ss_call_motion [OF assms(1) this(2), of v now' rs' "?s calls"]
    ultimately show ?case using snoc by (simp add: c)
  qed
  then have "f (ss_rates (?s calls)) = ((rate_limit (pose k) (Fin 0.25)) ^^ (length calls + 1)) (Fin p)" by blast
  also have "\<dots> = Fin (if \<bar>d\<bar> \<le> n then p + d else p + sgn d * n)"
    unfolding pose_def assms(7,8) by (subst rate_limit_steps) (auto simp: max_def min_def abs_if sgn_if field_simps)
  finally show ?thesis .
qed

subsection \<open>Outputs\<close>

text \<open>What the safety checks use.\<close>

definition ss_limits :: "'c stabilized_standing_scheme \<Rightarrow> robot_state \<times> uint8 \<times> dbl \<times> dbl \<times> dbl" where
  "ss_limits s = (atc_rs s, co_command (atc_co s), ss_currentLimit s, ss_velocityLimit s, ss_deflectionLimit s)"

lemma ss_limits_motors [simp]:
  fixes s :: "stabilized_standing"
  shows "ss_limits (set_motors a b c d e f s) = ss_limits s"
    "ss_limits (set_leg_motors a b c d s) = ss_limits s" "ss_limits (set_hip_motors a b s) = ss_limits s"
  by (simp_all add: set_leg_motors_def set_hip_motors_def Let_def set_motors_def ss_limits_def)

lemma ss_limits_modes [simp]:
  "ss_limits (ss_hipController s) = ss_limits s" "ss_limits (ss_startupController s) = ss_limits s"
  "ss_limits (stabilizationController s) = ss_limits s" "ss_limits (ss_shutdownController s) = ss_limits s"
proof -
  have "ss_limits (t\<lparr>ss_rates := x\<rparr>) = ss_limits t" for t :: stabilized_standing and x by (simp add: ss_limits_def)
  then show "ss_limits (ss_hipController s) = ss_limits s" "ss_limits (ss_startupController s) = ss_limits s"
    "ss_limits (stabilizationController s) = ss_limits s" "ss_limits (ss_shutdownController s) = ss_limits s"
    by (simp_all add: ss_hipController_def ss_startupController_def stabilizationController_def ss_shutdownController_def
        Let_def split_beta)
qed

lemma ss_checkSafeties_co:
  fixes s :: stabilized_standing
  assumes "ss_limits s = (rs, c, m, vel, defl)"
  shows "co_command (atc_co (ss_checkSafeties s)) =
      (if moves_faster vel rs \<or> deflected_over defl rs then medulla_state_error else c)"
    and "leg_currents (atc_co (ss_checkSafeties s)) = map (\<lambda>x. ac_clamp x (- m) m) (leg_currents (atc_co s))"
  using assms by (simp_all add: ss_checkSafeties_def Let_def ss_limits_def commandEStop_def set_leg_motors_def set_motors_def
      leg_currents_def)

text \<open>The last thing the controller does is to check the safeties, with the limits of the operator.\<close>

lemma ss_controller_safeties:
  obtains u where "atc_co (ss_controller s) = atc_co (ss_checkSafeties u)"
    and "ss_limits u = (atc_rs s, co_command (atc_co s), ss_current_limit (ss_guiIn s), ss_velocity_limit (ss_guiIn s),
      ss_deflection_limit (ss_guiIn s))"
proof
  let ?t = "ss_hipController (ss_updateController s)"
  let ?u = "if ss_controllerState ?t = 0 then ss_startupController ?t
    else if ss_controllerState ?t = 1 then stabilizationController ?t
    else if ss_controllerState ?t = 2 then ss_shutdownController ?t else ?t"
  show "atc_co (ss_controller s) = atc_co (ss_checkSafeties ?u)" by (simp add: ss_controller_def Let_def)
  have "ss_limits ?u = ss_limits (ss_updateController s)" by simp
  then show "ss_limits ?u = (atc_rs s, co_command (atc_co s), ss_current_limit (ss_guiIn s), ss_velocity_limit (ss_guiIn s),
      ss_deflection_limit (ss_guiIn s))"
    by (simp add: ss_limits_def ss_updateController_def Let_def)
qed

lemma ss_controller_command:
  "co_command (atc_co (ss_controller s)) =
     (if moves_faster (ss_velocity_limit (ss_guiIn s)) (atc_rs s) \<or> deflected_over (ss_deflection_limit (ss_guiIn s)) (atc_rs s)
      then medulla_state_error else co_command (atc_co s))"
  using ss_controller_safeties [of s] ss_checkSafeties_co(1) by metis

text \<open>
  The outputs of the standing controller: in every mode the currents of the leg motors are within the
  operator's limit or NaN, and the command is changed to the emergency stop exactly when a velocity or the deflection
  of a spring is over its limit.
\<close>

theorem standing_outputs:
  assumes "ss_current_limit (ss_guiIn s) = Fin m" and "co = atc_co (ss_controller s)"
  shows "(\<forall>x \<in> set (leg_currents co). x = NaN \<or> (\<exists>r. x = Fin r \<and> \<bar>r\<bar> \<le> \<bar>m\<bar>)) \<and>
    co_command co = (if moves_faster (ss_velocity_limit (ss_guiIn s)) (atc_rs s) \<or>
        deflected_over (ss_deflection_limit (ss_guiIn s)) (atc_rs s)
      then medulla_state_error else co_command (atc_co s))"
proof (rule ss_controller_safeties [of s])
  fix u assume u: "atc_co (ss_controller s) = atc_co (ss_checkSafeties u)"
    "ss_limits u = (atc_rs s, co_command (atc_co s), ss_current_limit (ss_guiIn s), ss_velocity_limit (ss_guiIn s),
      ss_deflection_limit (ss_guiIn s))"
  show ?thesis using ac_clamp_symmetric [of _ m] by (simp add: assms u(1) ss_checkSafeties_co [OF u(2)])
qed

subsection \<open>Instances\<close>

definition standing_gui :: standing_input where
  "standing_gui = \<lparr>ss_main_controller = 0, ss_leg_pos_kp = Fin 300, ss_leg_pos_kd = Fin 30, ss_hip_pos_kp = Fin 150,
     ss_left_toe_pos = Fin 2.15, ss_hip_pos_kd = Fin 10, ss_right_toe_pos = Fin 2.45, ss_current_limit = Fin 40,
     ss_deflection_limit = Fin 0.3, ss_velocity_limit = Fin 10\<rparr>"

lemma standing_regulator_witness:
  "\<forall>s :: stabilized_standing. leg_currents (atc_co (stabilizationController (s\<lparr>atc_rs := robot_state_zero\<rparr>))) ! 3 =
    Fin (- (UStar ! 3 + (\<Sum>j<14. K ! 3 ! j * (XStar ! j - real_of_dbl (lqr_state robot_state_zero ! j)))) / 50 / 0.0987)"
proof
  fix s :: stabilized_standing
  show "leg_currents (atc_co (stabilizationController (s\<lparr>atc_rs := robot_state_zero\<rparr>))) ! 3 =
      Fin (- (UStar ! 3 + (\<Sum>j<14. K ! 3 ! j * (XStar ! j - real_of_dbl (lqr_state robot_state_zero ! j)))) / 50 / 0.0987)"
    using standing_regulator [of "s\<lparr>atc_rs := robot_state_zero\<rparr>" 3]
    by (simp add: lqr_state_def Let_def robot_state_zero_def robot_state_leg_zero_def robot_state_legHalf_zero_def
        robot_state_location_zero_def)
qed

lemma standing_pose_reached_witness:
  "\<forall>s :: stabilized_standing. tgtLA (ss_rates (fold (ss_call biped1) (replicate 3 (0, standing_gui, enabled_state))
      (ss_call biped1 (0, standing_gui, robot_state_zero) (s\<lparr>legMotorRateLimit := Fin 0.25\<rparr>)))) = Fin 0.001"
proof
  fix s :: stabilized_standing
  show "tgtLA (ss_rates (fold (ss_call biped1) (replicate 3 (0, standing_gui, enabled_state))
        (ss_call biped1 (0, standing_gui, robot_state_zero) (s\<lparr>legMotorRateLimit := Fin 0.25\<rparr>)))) = Fin 0.001"
  proof -
    have "(tgtLA, 2) \<in> pose_legs" by (simp add: pose_legs_def)
    from standing_pose_reached [OF this _ _ _ _ _ refl refl, of robot_state_zero 0 standing_gui
        "replicate 3 (0, standing_gui, enabled_state)" "s\<lparr>legMotorRateLimit := Fin 0.25\<rparr>" biped1 0]
    have "tgtLA (ss_rates (fold (ss_call biped1) (replicate 3 (0, standing_gui, enabled_state))
        (ss_call biped1 (0, standing_gui, robot_state_zero) (s\<lparr>legMotorRateLimit := Fin 0.25\<rparr>)))) =
      Fin (let d = 3 * M_PI / 2 - XStar ! 2 - 0; n = 0.00025 * real (length (replicate 3 (0, standing_gui, enabled_state)) + 1)
           in if \<bar>d\<bar> \<le> n then 0 + d else 0 + sgn d * n)"
      unfolding Let_def by (simp add: state_enabled_def ss_positions_def standing_gui_def robot_state_zero_def enabled_state_def
          robot_state_leg_zero_def robot_state_legHalf_zero_def)
    then show ?thesis by (simp add: M_PI_def XStar_def Let_def)
  qed
qed

lemma standing_outputs_witness:
  "\<forall>s :: stabilized_standing. co_command (atc_co (ss_controller (s\<lparr>ss_guiIn := standing_gui, atc_rs := posed\<lparr>lLeg := robot_state_leg_zero
     \<lparr>halfA := robot_state_legHalf_zero\<lparr>motorAngle := Fin 1\<rparr>\<rparr>\<rparr>\<rparr>))) = medulla_state_error"
proof
  fix s :: stabilized_standing
  show "co_command (atc_co (ss_controller (s\<lparr>ss_guiIn := standing_gui, atc_rs := posed\<lparr>lLeg := robot_state_leg_zero
       \<lparr>halfA := robot_state_legHalf_zero\<lparr>motorAngle := Fin 1\<rparr>\<rparr>\<rparr>\<rparr>))) = medulla_state_error"
    using standing_outputs [of "s\<lparr>ss_guiIn := standing_gui, atc_rs := posed\<lparr>lLeg := robot_state_leg_zero
       \<lparr>halfA := robot_state_legHalf_zero\<lparr>motorAngle := Fin 1\<rparr>\<rparr>\<rparr>\<rparr>" 40 _, OF _ refl]
    by (simp add: standing_gui_def deflected_over_def robot_state_legHalf_zero_def)
qed

end
