(* ===== verification/SlipWalking.thy ===== *)
theory SlipWalking
  imports Gait StanceForce HipKinematics
begin

text \<open>
  The walking controller ATCSlipWalking: two states of support for each leg, a swing trajectory
  slaved to the angle of the stance leg, a virtual spring for the stance leg, detection of touchdown by
  the toe switch. The theorems relate it to an abstract gait in which the legs alternate, and show
  what bounds its outputs have.
\<close>

subsection \<open>State\<close>

record slip_input =
  main_controller :: uint8
  switch_method :: uint8
  swing_leg_retraction :: dbl
  stance_leg_extension :: dbl
  leg_length :: dbl
  torso_angle :: dbl
  in_q1 :: dbl
  in_q2 :: dbl
  in_q3 :: dbl
  in_q4 :: dbl
  leg_pos_kp :: dbl
  leg_for_kp :: dbl
  leg_for_ki :: dbl
  leg_pos_kd :: dbl
  leg_for_kd :: dbl
  hip_pos_kp :: dbl
  left_toe_pos :: dbl
  hip_pos_kd :: dbl
  right_toe_pos :: dbl
  in_qvpp :: dbl
  in_rvpp :: dbl
  current_limit :: dbl
  velocity_limit :: dbl
  deflection_limit :: dbl
  flight_to :: uint8
  flight_td :: uint8

record slip_status =
  st_isEnabled :: bool
  st_walking_state :: dbl

record slip_pds =
  ascPDLmA :: ASCPD
  ascPDLmB :: ASCPD
  ascPDRmA :: ASCPD
  ascPDRmB :: ASCPD
  ascPDLh :: ASCPD
  ascPDRh :: ASCPD

record slip_rate_limits =
  ascRateLimitLmA :: dbl
  ascRateLimitLmB :: dbl
  ascRateLimitRmA :: dbl
  ascRateLimitRmB :: dbl
  ascRateLimitLh :: dbl
  ascRateLimitRh :: dbl
  ascRateLimitLr0 :: dbl
  ascRateLimitRr0 :: dbl

text \<open>
  The members of the class that live from one call to the next, after the members of ATC. The members that every
  function assigns before it reads them (angles and lengths of the legs, targets, forces) are local in the
  definitions below. \<open>isTrigger\<close> and \<open>qb\<close> can be read before they are assigned.
\<close>

record slip_walking = atc +
  sw_guiIn :: slip_input
  sw_guiOut :: slip_status
  log_walkingState :: uint8
  sw_pds :: slip_pds
  sw_rates :: slip_rate_limits
  controllerState :: int
  walkingState :: int
  switchMethod :: int
  sw_q1 :: dbl
  sw_q2 :: dbl
  sw_q3 :: dbl
  sw_q4 :: dbl
  sw_s :: dbl
  sPrev :: dbl
  sw_r0 :: dbl
  swingLegRetraction :: dbl
  stanceLegExtension :: dbl
  torsoAngle :: dbl
  sw_qb :: dbl
  toePosition :: LeftRight
  sw_qvpp :: dbl
  sw_rvpp :: dbl
  k1_11 :: dbl
  k1_22 :: dbl
  k2_11 :: dbl
  k2_22 :: dbl
  qeFm :: dbl
  reFm :: dbl
  isTrigger :: bool
  rFilteredToe :: "dbl list"
  lFilteredToe :: "dbl list"
  legRateLimit :: dbl
  hipRateLimit :: dbl
  springRateLimit :: dbl
  currentLimit :: dbl
  velocityLimit :: dbl
  deflectionLimit :: dbl
  isManualSwingLegTO :: bool
  isManualSwingLegTD :: bool

text \<open>The constructor; \<open>mem\<close> is what the memory of the members holds that it leaves uninitialised.\<close>

definition new_ATCSlipWalking :: "slip_walking \<Rightarrow> slip_walking" where
  "new_ATCSlipWalking mem =
     (let s = snd (setStartupEnabled True mem)
      in s\<lparr>legRateLimit := Fin 0.5, hipRateLimit := Fin 0.5, springRateLimit := Fin 0.3,
           walkingState := 3, sw_s := Fin 0, sPrev := Fin 0,
           rFilteredToe := replicate 120 (Fin 5000), lFilteredToe := replicate 120 (Fin 5000)\<rparr>)"

subsection \<open>The arguments that are pointers\<close>

text \<open>
  The functions for one leg take pointers to the members of that leg; here they take the leg.
\<close>

definition rs_leg :: "leg_side \<Rightarrow> robot_state \<Rightarrow> robot_state_leg" where
  "rs_leg x rs = (case x of LeftLeg \<Rightarrow> lLeg rs | RightLeg \<Rightarrow> rLeg rs)"

definition set_currents :: "leg_side \<Rightarrow> dbl \<times> dbl \<Rightarrow> 'c atc_scheme \<Rightarrow> 'c atc_scheme" where
  "set_currents x ab s =
     (case x of
        LeftLeg \<Rightarrow> s\<lparr>atc_co := (atc_co s)\<lparr>co_lLeg := (co_lLeg (atc_co s))\<lparr>motorCurrentA := fst ab, motorCurrentB := snd ab\<rparr>\<rparr>\<rparr>
      | RightLeg \<Rightarrow> s\<lparr>atc_co := (atc_co s)\<lparr>co_rLeg := (co_rLeg (atc_co s))\<lparr>motorCurrentA := fst ab, motorCurrentB := snd ab\<rparr>\<rparr>\<rparr>)"

definition set_hips :: "dbl \<Rightarrow> dbl \<Rightarrow> 'c atc_scheme \<Rightarrow> 'c atc_scheme" where
  "set_hips l r s =
     s\<lparr>atc_co := (atc_co s)\<lparr>co_lLeg := (co_lLeg (atc_co s))\<lparr>motorCurrentHip := l\<rparr>,
                              co_rLeg := (co_rLeg (atc_co s))\<lparr>motorCurrentHip := r\<rparr>\<rparr>\<rparr>"

definition ascPDm :: "leg_side \<Rightarrow> slip_pds \<Rightarrow> ASCPD \<times> ASCPD" where
  "ascPDm x p = (case x of LeftLeg \<Rightarrow> (ascPDLmA p, ascPDLmB p) | RightLeg \<Rightarrow> (ascPDRmA p, ascPDRmB p))"

definition rate_r0 :: "leg_side \<Rightarrow> slip_rate_limits \<Rightarrow> dbl" where
  "rate_r0 x r = (case x of LeftLeg \<Rightarrow> ascRateLimitLr0 r | RightLeg \<Rightarrow> ascRateLimitRr0 r)"

definition set_rate_r0 :: "leg_side \<Rightarrow> dbl \<Rightarrow> slip_rate_limits \<Rightarrow> slip_rate_limits" where
  "set_rate_r0 x v r = (case x of LeftLeg \<Rightarrow> r\<lparr>ascRateLimitLr0 := v\<rparr> | RightLeg \<Rightarrow> r\<lparr>ascRateLimitRr0 := v\<rparr>)"

definition filteredToe :: "leg_side \<Rightarrow> 'c slip_walking_scheme \<Rightarrow> dbl list" where
  "filteredToe x s = (case x of LeftLeg \<Rightarrow> lFilteredToe s | RightLeg \<Rightarrow> rFilteredToe s)"

text \<open>The body pitch against the vertical.\<close>

definition torso_tilt :: "dbl \<Rightarrow> dbl" where
  "torso_tilt qb = qb - Fin 3 * Fin M_PI / Fin 2"

subsection \<open>Toe switches\<close>

definition dbl_sum :: "dbl list \<Rightarrow> dbl" where
  "dbl_sum xs = foldl (+) (Fin 0) xs"

definition updateToeFilter :: "uint16 \<Rightarrow> dbl list \<Rightarrow> dbl list" where
  "updateToeFilter newToe f =
     (let prevToe = hd f;
          toe = (if newToe = 4095 \<or> newToe = 0 then prevToe else of_int_dbl (uint newToe));
          toe = (if Fin 1500 < fabs (prevToe - toe) \<and> \<not> dbl_eq (last f) (Fin 5000) then prevToe else toe);
          f = butlast f;
          average = (dbl_sum (take 2 f) + toe) / Fin 3
      in average # f)"

definition detectStance :: "robot_state_leg \<Rightarrow> dbl list \<Rightarrow> bool" where
  "detectStance leg f \<longleftrightarrow>
     (let baseline = dbl_sum (drop 20 f) / (of_int_dbl (int (length f)) - Fin 20);
          threshold = Fin 600 + baseline
      in threshold < of_int_dbl (uint (toeSwitch leg)))"

subsection \<open>Settings from the operator\<close>

definition reset_rates :: "robot_state \<Rightarrow> dbl \<Rightarrow> slip_rate_limits \<Rightarrow> slip_rate_limits" where
  "reset_rates rs r0 r = r
     \<lparr>ascRateLimitLmA := rate_limit_reset (motorAngle (halfA (lLeg rs))) (ascRateLimitLmA r),
      ascRateLimitLmB := rate_limit_reset (motorAngle (halfB (lLeg rs))) (ascRateLimitLmB r),
      ascRateLimitRmA := rate_limit_reset (motorAngle (halfA (rLeg rs))) (ascRateLimitRmA r),
      ascRateLimitRmB := rate_limit_reset (motorAngle (halfB (rLeg rs))) (ascRateLimitRmB r),
      ascRateLimitLh := rate_limit_reset (legBodyAngle (hip (lLeg rs))) (ascRateLimitLh r),
      ascRateLimitRh := rate_limit_reset (legBodyAngle (hip (rLeg rs))) (ascRateLimitRh r),
      ascRateLimitLr0 := rate_limit_reset r0 (ascRateLimitLr0 r),
      ascRateLimitRr0 := rate_limit_reset r0 (ascRateLimitRr0 r)\<rparr>"

definition updateController :: "'c slip_walking_scheme \<Rightarrow> 'c slip_walking_scheme" where
  "updateController s =
     (let gui = sw_guiIn s;
          s = (if \<not> isEnabled s \<or> controllerState s \<noteq> uint (main_controller gui)
               then s\<lparr>sw_rates := reset_rates (atc_rs s) (sw_r0 s) (sw_rates s)\<rparr> else s);
          s = s\<lparr>controllerState := uint (main_controller gui), switchMethod := uint (switch_method gui)\<rparr>;
          s = s\<lparr>swingLegRetraction := swing_leg_retraction gui, stanceLegExtension := stance_leg_extension gui,
                sw_r0 := leg_length gui, torsoAngle := torso_angle gui,
                sw_q1 := in_q1 gui, sw_q2 := in_q2 gui, sw_q3 := in_q3 gui, sw_q4 := in_q4 gui\<rparr>;
          pm = \<lparr>pd_P = leg_pos_kp gui, pd_D = leg_pos_kd gui\<rparr>;
          s = s\<lparr>k1_11 := leg_for_kd gui, k1_22 := leg_for_kd gui\<rparr>;
          s = s\<lparr>k2_11 := k1_11 s * k1_11 s, k2_22 := k1_22 s * k1_22 s\<rparr>;
          ph = \<lparr>pd_P = hip_pos_kp gui, pd_D = hip_pos_kd gui\<rparr>;
          s = s\<lparr>sw_pds := \<lparr>ascPDLmA = pm, ascPDLmB = pm, ascPDRmA = pm, ascPDRmB = pm, ascPDLh = ph, ascPDRh = ph\<rparr>\<rparr>;
          s = s\<lparr>sw_qvpp := in_qvpp gui, sw_rvpp := in_rvpp gui\<rparr>;
          s = s\<lparr>currentLimit := current_limit gui, velocityLimit := velocity_limit gui,
                deflectionLimit := deflection_limit gui,
                isManualSwingLegTO := (flight_to gui \<noteq> 0), isManualSwingLegTD := (flight_td gui \<noteq> 0)\<rparr>
      in s\<lparr>sw_guiOut := \<lparr>st_isEnabled = isEnabled s, st_walking_state = of_int_dbl (walkingState s)\<rparr>\<rparr>)"

subsection \<open>Hips, standing and shutdown\<close>

definition hipController :: "'c slip_walking_scheme \<Rightarrow> 'c slip_walking_scheme" where
  "hipController s =
     (let rs = atc_rs s;
          s = s\<lparr>toePosition := \<lparr>lr_left = left_toe_pos (sw_guiIn s), lr_right = right_toe_pos (sw_guiIn s)\<rparr>\<rparr>;
          (qLh, qRh) = iKine (toePosition s) (lLeg rs) (rLeg rs) (position rs);
          qLh = rate_limit qLh (hipRateLimit s) (ascRateLimitLh (sw_rates s));
          qRh = rate_limit qRh (hipRateLimit s) (ascRateLimitRh (sw_rates s));
          s = s\<lparr>sw_rates := (sw_rates s)\<lparr>ascRateLimitLh := qLh, ascRateLimitRh := qRh\<rparr>\<rparr>
      in set_hips
           (pd_call (ascPDLh (sw_pds s)) qLh (legBodyAngle (hip (lLeg rs))) (Fin 0) (legBodyVelocity (hip (lLeg rs))))
           (pd_call (ascPDRh (sw_pds s)) qRh (legBodyAngle (hip (rLeg rs))) (Fin 0) (legBodyVelocity (hip (rLeg rs)))) s)"

definition standingController :: "'c slip_walking_scheme \<Rightarrow> 'c slip_walking_scheme" where
  "standingController s =
     (let rs = atc_rs s; gui = sw_guiIn s;
          (qmSA, qmSB) = legPos2MotorPos (sw_q3 s) (sw_r0 s);
          (qmFA, qmFB) = legPos2MotorPos (sw_q1 s) (sw_r0 s);
          s = s\<lparr>sw_qb := bodyPitch (position rs)\<rparr>;
          dqb = bodyPitchVelocity (position rs);
          qmSA = qmSA - torso_tilt (sw_qb s); qmSB = qmSB - torso_tilt (sw_qb s);
          qmFA = qmFA - torso_tilt (sw_qb s); qmFB = qmFB - torso_tilt (sw_qb s);
          qmSA = rate_limit qmSA (legRateLimit s) (ascRateLimitLmA (sw_rates s));
          qmSB = rate_limit qmSB (legRateLimit s) (ascRateLimitLmB (sw_rates s));
          qmFA = rate_limit qmFA (legRateLimit s) (ascRateLimitRmA (sw_rates s));
          qmFB = rate_limit qmFB (legRateLimit s) (ascRateLimitRmB (sw_rates s));
          s = s\<lparr>sw_rates := (sw_rates s)\<lparr>ascRateLimitLmA := qmSA, ascRateLimitLmB := qmSB,
                                              ascRateLimitRmA := qmFA, ascRateLimitRmB := qmFB\<rparr>\<rparr>;
          torsoCurrent = - (torsoAngle s - sw_qb s) * leg_pos_kp gui - (Fin 0 - dqb) * leg_pos_kd gui;
          l = lLeg rs; r = rLeg rs; p = sw_pds s;
          s = set_currents LeftLeg
                (pd_call (ascPDLmA p) qmSA (motorAngle (halfA l)) (Fin 0) (motorVelocity (halfA l)) + torsoCurrent / Fin 2,
                 pd_call (ascPDLmB p) qmSB (motorAngle (halfB l)) (Fin 0) (motorVelocity (halfB l)) + torsoCurrent / Fin 2) s
      in set_currents RightLeg
                (pd_call (ascPDRmA p) qmFA (motorAngle (halfA r)) (Fin 0) (motorVelocity (halfA r)) + torsoCurrent / Fin 2,
                 pd_call (ascPDRmB p) qmFB (motorAngle (halfB r)) (Fin 0) (motorVelocity (halfB r)) + torsoCurrent / Fin 2) s)"

definition shutdownController :: "'c slip_walking_scheme \<Rightarrow> 'c slip_walking_scheme" where
  "shutdownController s =
     (let z = Fin 0; l = lLeg (atc_rs s); r = rLeg (atc_rs s); p = sw_pds s;
          s = set_currents LeftLeg (pd_call (ascPDLmA p) z z z (motorVelocity (halfA l)),
                                    pd_call (ascPDLmB p) z z z (motorVelocity (halfB l))) s;
          s = set_currents RightLeg (pd_call (ascPDRmA p) z z z (motorVelocity (halfA r)),
                                     pd_call (ascPDRmB p) z z z (motorVelocity (halfB r))) s
      in set_hips (pd_call (ascPDLh p) z z z (legBodyVelocity (hip l)))
                  (pd_call (ascPDRh p) z z z (legBodyVelocity (hip r))) s)"

subsection \<open>Stance and swing\<close>

text \<open>The force of the virtual spring and its rate, in the world frame.\<close>

definition stance_force :: "dbl \<Rightarrow> dbl \<Rightarrow> dbl \<Rightarrow> dbl \<Rightarrow> LegForce" where
  "stance_force fa dfa q dq =
     \<lparr>fx = fa * dbl_cos q,
      fz = - fa * dbl_sin q,
      dfx = - fa * dbl_sin q * dq + dfa * dbl_cos q,
      dfz = - fa * dbl_cos q * dq - dfa * dbl_sin q\<rparr>"

definition stanceController :: "leg_side \<Rightarrow> 'c slip_walking_scheme \<Rightarrow> 'c slip_walking_scheme" where
  "stanceController sl s =
     (let rs = atc_rs s; leg = rs_leg sl rs;
          r0Sl = rate_limit (sw_r0 s) (springRateLimit s) (rate_r0 sl (sw_rates s));
          s = s\<lparr>sw_rates := set_rate_r0 sl r0Sl (sw_rates s)\<rparr>;
          (qSl, rSl) = motorPos2LegPos (legAngle (halfA leg)) (legAngle (halfB leg));
          (dqSl, drSl) = motorVel2LegVel (legAngle (halfA leg)) (legAngle (halfB leg))
                           (legVelocity (halfA leg)) (legVelocity (halfB leg));
          s = s\<lparr>sw_qb := bodyPitch (position rs)\<rparr>;
          dqb = bodyPitchVelocity (position rs);
          qSl = qSl + torso_tilt (sw_qb s);
          dqSl = dqSl + dqb;
          (fa, dfa) = ct_legForce (Fin KS) rSl drSl r0Sl;
          forceSl = stance_force fa dfa qSl dqSl
      in set_currents sl
           (legForceControl (k1_11 s) (k1_22 s) (k2_11 s) (k2_22 s) forceSl leg (position rs)) s)"

text \<open>
  The targets of the swing: gait parameter \<open>s\<close>, angle and length with their rates. A comparison with NaN is false:
  the last branch is taken when \<open>s\<close> is NaN.
\<close>

definition swing_angle :: "dbl \<Rightarrow> dbl \<Rightarrow> dbl \<Rightarrow> dbl \<Rightarrow> dbl \<times> dbl" where
  "swing_angle qe q1 s ds = ip_cubic (Fin 0) (Fin 0.90) qe q1 (Fin (- 0.5)) (Fin 1) s ds"

definition swing_length :: "dbl \<Rightarrow> dbl \<Rightarrow> dbl \<Rightarrow> dbl \<Rightarrow> dbl \<Rightarrow> dbl \<times> dbl" where
  "swing_length re rt r0 s ds =
     (if s < Fin 0.5 then ip_cubic (Fin 0) (Fin 0.5) re rt (Fin (- 1)) (Fin 0) s ds
      else if Fin 0.5 \<le> s then ip_cubic (Fin 0.5) (Fin 0.85) rt r0 (Fin 0) (Fin 0) s ds
      else (rt, Fin 0))"

text \<open>The swing controller once it knows the angle of the stance leg in the body.\<close>

definition swing_leg :: "leg_side \<Rightarrow> dbl \<Rightarrow> 'c slip_walking_scheme \<Rightarrow> 'c slip_walking_scheme" where
  "swing_leg fl qSl s =
     (let rs = atc_rs s; fleg = rs_leg fl rs;
          s = s\<lparr>sw_qb := bodyPitch (position rs)\<rparr>;
          dqb = bodyPitchVelocity (position rs);
          qSl = qSl + torso_tilt (sw_qb s);
          s = s\<lparr>sw_s := (qSl - sw_q2 s) / (sw_q3 s - sw_q2 s)\<rparr>;
          (s, ds) = (if sw_s s < sPrev s then (s\<lparr>sw_s := sPrev s\<rparr>, Fin 0) else (s\<lparr>sPrev := sw_s s\<rparr>, Fin 1.5));
          (qm, dqm) = swing_angle (qeFm s) (sw_q1 s) (sw_s s) ds;
          rtFm = sw_r0 s - swingLegRetraction s;
          (rm, drm) = swing_length (reFm s) rtFm (sw_r0 s) (sw_s s) ds;
          (qmFA, qmFB) = legPos2MotorPos qm rm;
          (dqmFA, dqmFB) = legVel2MotorVel rm dqm drm;
          qmFA = qmFA - torso_tilt (sw_qb s); dqmFA = dqmFA - dqb;
          qmFB = qmFB - torso_tilt (sw_qb s); dqmFB = dqmFB - dqb;
          (pdA, pdB) = ascPDm fl (sw_pds s)
      in set_currents fl
           (pd_call pdA qmFA (motorAngle (halfA fleg)) dqmFA (motorVelocity (halfA fleg)),
            pd_call pdB qmFB (motorAngle (halfB fleg)) dqmFB (motorVelocity (halfB fleg))) s)"

definition legSwingController :: "leg_side \<Rightarrow> leg_side \<Rightarrow> 'c slip_walking_scheme \<Rightarrow> 'c slip_walking_scheme" where
  "legSwingController sl fl s =
     (let leg = rs_leg sl (atc_rs s);
          (qSl, rSl) = motorPos2LegPos (motorAngle (halfA leg)) (motorAngle (halfB leg))
      in swing_leg fl qSl s)"

subsection \<open>Events\<close>

definition resetFlightLegParameters :: "leg_side \<Rightarrow> 'c slip_walking_scheme \<Rightarrow> 'c slip_walking_scheme" where
  "resetFlightLegParameters fl s =
     (let leg = rs_leg fl (atc_rs s);
          s = s\<lparr>sw_rates := set_rate_r0 fl (rate_limit_reset (sw_r0 s) (rate_r0 fl (sw_rates s))) (sw_rates s)\<rparr>;
          s = s\<lparr>sw_s := Fin 0, sPrev := Fin 0\<rparr>;
          (q, r) = motorPos2LegPos (motorAngle (halfA leg)) (motorAngle (halfB leg));
          s = s\<lparr>qeFm := q, reFm := r\<rparr>
      in s\<lparr>qeFm := qeFm s + torso_tilt (sw_qb s)\<rparr>)"

text \<open>
  The events, over the touchdown detection and the reset that they call: another controller has the same events
  with other ones.
\<close>

definition single_support_events ::
  "(robot_state_leg \<Rightarrow> dbl list \<Rightarrow> bool) \<Rightarrow> leg_side \<Rightarrow> leg_side \<Rightarrow> 'c slip_walking_scheme \<Rightarrow> 'c slip_walking_scheme" where
  "single_support_events detect sl fl s =
     (let rs = atc_rs s; leg = rs_leg sl rs; fleg = rs_leg fl rs;
          (qSl, rSl) = motorPos2LegPos (legAngle (halfA leg)) (legAngle (halfB leg));
          (qFl, rFl) = motorPos2LegPos (legAngle (halfA fleg)) (legAngle (halfB fleg));
          s = s\<lparr>sw_qb := bodyPitch (position rs)\<rparr>;
          qSl = qSl + torso_tilt (sw_qb s);
          qFl = qFl + torso_tilt (sw_qb s);
          isForwardStep = (qFl \<le> Fin M_PI / Fin 2);
          s = (if switchMethod s = 0 then s\<lparr>isTrigger := detect fleg (filteredToe fl s)\<rparr>
               else if switchMethod s = 1 then s\<lparr>isTrigger := (sw_q3 s \<le> qSl \<and> qFl \<le> sw_q2 s)\<rparr>
               else s)
      in if (isTrigger s \<or> isManualSwingLegTD s) \<and> isForwardStep
         then s\<lparr>walkingState := crem (walkingState s + 1) 4\<rparr> else s)"

definition singleSupportEvents :: "leg_side \<Rightarrow> leg_side \<Rightarrow> 'c slip_walking_scheme \<Rightarrow> 'c slip_walking_scheme" where
  "singleSupportEvents = single_support_events detectStance"

definition double_support_events ::
  "(leg_side \<Rightarrow> 'c slip_walking_scheme \<Rightarrow> 'c slip_walking_scheme) \<Rightarrow> leg_side \<Rightarrow> leg_side \<Rightarrow>
     'c slip_walking_scheme \<Rightarrow> 'c slip_walking_scheme" where
  "double_support_events reset sl fl s =
     (let rs = atc_rs s; leg = rs_leg sl rs; fleg = rs_leg fl rs;
          (qSl, rSl) = motorPos2LegPos (legAngle (halfA leg)) (legAngle (halfB leg));
          (qFl, rFl) = motorPos2LegPos (legAngle (halfA fleg)) (legAngle (halfB fleg));
          (qFm, rFm) = motorPos2LegPos (motorAngle (halfA fleg)) (motorAngle (halfB fleg));
          s = s\<lparr>sw_qb := bodyPitch (position rs)\<rparr>;
          qSl = qSl + torso_tilt (sw_qb s);
          qFl = qFl + torso_tilt (sw_qb s);
          rFdefl = rFm - rFl;
          s = (if switchMethod s = 0 then s\<lparr>isTrigger := (rFdefl \<le> Fin 0.005)\<rparr>
               else if switchMethod s = 1 then s\<lparr>isTrigger := (sw_q2 s \<le> qSl)\<rparr>
               else s);
          isForwardStep = (Fin M_PI / Fin 2 \<le> qFl)
      in if (isTrigger s \<or> isManualSwingLegTO s) \<and> isForwardStep
         then reset fl (s\<lparr>walkingState := crem (walkingState s + 1) 4\<rparr>) else s)"

definition doubleSupportEvents :: "leg_side \<Rightarrow> leg_side \<Rightarrow> 'c slip_walking_scheme \<Rightarrow> 'c slip_walking_scheme" where
  "doubleSupportEvents = double_support_events resetFlightLegParameters"

subsection \<open>The controller\<close>

definition checkSafeties :: "'c slip_walking_scheme \<Rightarrow> 'c slip_walking_scheme" where
  "checkSafeties s =
     (let cl = (\<lambda>x. ac_clamp x (- currentLimit s) (currentLimit s)); co = atc_co s;
          s = set_currents LeftLeg (cl (motorCurrentA (co_lLeg co)), cl (motorCurrentB (co_lLeg co))) s;
          s = set_currents RightLeg (cl (motorCurrentA (co_rLeg co)), cl (motorCurrentB (co_rLeg co))) s;
          l = lLeg (atc_rs s); r = rLeg (atc_rs s)
      in if velocityLimit s < fabs (rotorVelocity (halfA l)) \<or> velocityLimit s < fabs (rotorVelocity (halfB l)) \<or>
            velocityLimit s < fabs (rotorVelocity (halfA r)) \<or> velocityLimit s < fabs (rotorVelocity (halfB r)) \<or>
            velocityLimit s < fabs (legBodyVelocity (hip l)) \<or> velocityLimit s < fabs (legBodyVelocity (hip r))
         then commandEStop s else s)"

definition walking_step :: "'c slip_walking_scheme \<Rightarrow> 'c slip_walking_scheme" where
  "walking_step =
     walk_by walkingState legSwingController (\<lambda>sl fl. stanceController sl) singleSupportEvents doubleSupportEvents"

definition updateToes :: "'c slip_walking_scheme \<Rightarrow> 'c slip_walking_scheme" where
  "updateToes s = s
     \<lparr>rFilteredToe := updateToeFilter (toeSwitch (rLeg (atc_rs s))) (rFilteredToe s),
      lFilteredToe := updateToeFilter (toeSwitch (lLeg (atc_rs s))) (lFilteredToe s)\<rparr>"

definition slip_controller :: "'c slip_walking_scheme \<Rightarrow> 'c slip_walking_scheme" where
  "slip_controller s =
     (let s = updateController s;
          s = updateToes s;
          s = hipController s;
          s = (if controllerState s = 0 then
                 standingController ((resetFlightLegParameters LeftLeg s)\<lparr>walkingState := 3\<rparr>)
               else if controllerState s = 1 then walking_step s
               else if controllerState s = 2 then
                 (resetFlightLegParameters LeftLeg (shutdownController s))\<lparr>walkingState := 3\<rparr>
               else s);
          s = checkSafeties s
      in s\<lparr>log_walkingState := word_of_int
             (if walkingState s = 2 then 3 else if walkingState s = 3 then 6 else walkingState s)\<rparr>)"

subsection \<open>What the functions leave alone\<close>

named_theorems slip_frame

lemma set_currents_frame [slip_frame]:
  "atc_rs (set_currents x ab s) = atc_rs s" "atc_mode (set_currents x ab s) = atc_mode s"
  "startupTimeRem (set_currents x ab s) = startupTimeRem s" "startupEnabled (set_currents x ab s) = startupEnabled s"
  "co_command (atc_co (set_currents x ab s)) = co_command (atc_co s)"
  "atc.more (set_currents x ab s) = atc.more s"
  by (cases x; simp add: set_currents_def)+

lemma set_hips_frame [slip_frame]:
  "atc_rs (set_hips l r s) = atc_rs s" "atc_mode (set_hips l r s) = atc_mode s"
  "startupTimeRem (set_hips l r s) = startupTimeRem s" "startupEnabled (set_hips l r s) = startupEnabled s"
  "co_command (atc_co (set_hips l r s)) = co_command (atc_co s)"
  "atc.more (set_hips l r s) = atc.more s"
  by (simp_all add: set_hips_def)

text \<open>The fields of ATC that the sub-functions of the controller keep, and the part of the state the events read.\<close>

definition atc_kept :: "'c atc_scheme \<Rightarrow> robot_state \<times> atc_mode \<times> dbl \<times> bool" where
  "atc_kept s = (atc_rs s, atc_mode s, startupTimeRem s, startupEnabled s)"

definition settings :: "'c slip_walking_scheme \<Rightarrow> int \<times> int \<times> dbl \<times> dbl \<times> dbl \<times> bool \<times> bool \<times> dbl list \<times> dbl list \<times> dbl \<times> dbl" where
  "settings s = (controllerState s, switchMethod s, sw_r0 s, sw_q2 s, sw_q3 s,
     isManualSwingLegTO s, isManualSwingLegTD s, lFilteredToe s, rFilteredToe s, currentLimit s, velocityLimit s)"

lemma more_fields:
  fixes s t :: "'c slip_walking_scheme"
  assumes "atc.more s = atc.more t"
  shows "settings s = settings t" and "walkingState s = walkingState t" and "sPrev s = sPrev t"
  using assms by (cases s; cases t; simp add: settings_def)+

lemma kept_set [slip_frame]:
  "atc_kept (set_currents x ab s) = atc_kept s" "atc_kept (set_hips l r s) = atc_kept s"
  by (simp_all add: atc_kept_def slip_frame)

lemma settings_set [slip_frame]:
  "settings (set_currents x ab s) = settings s" "settings (set_hips l r s) = settings s"
  "walkingState (set_currents x ab s) = walkingState s" "walkingState (set_hips l r s) = walkingState s"
  "sPrev (set_currents x ab s) = sPrev s" "sPrev (set_hips l r s) = sPrev s"
  by (rule more_fields, simp add: slip_frame)+

lemmas op_defs = hipController_def standingController_def shutdownController_def stanceController_def
  swing_leg_def legSwingController_def resetFlightLegParameters_def
  singleSupportEvents_def doubleSupportEvents_def single_support_events_def double_support_events_def

lemma kept_ops [slip_frame]:
  "atc_kept (hipController s) = atc_kept s"
  "atc_kept (standingController s) = atc_kept s"
  "atc_kept (shutdownController s) = atc_kept s"
  "atc_kept (stanceController x s) = atc_kept s"
  "atc_kept (legSwingController x y s) = atc_kept s"
  "atc_kept (resetFlightLegParameters y s) = atc_kept s"
  "atc_kept (singleSupportEvents x y s) = atc_kept s"
  "atc_kept (doubleSupportEvents x y s) = atc_kept s"
  by (simp_all add: op_defs Let_def split_beta slip_frame) (simp_all add: atc_kept_def)

lemma settings_ops [slip_frame]:
  "settings (hipController s) = settings s"
  "settings (standingController s) = settings s"
  "settings (shutdownController s) = settings s"
  "settings (stanceController x s) = settings s"
  "settings (legSwingController x y s) = settings s"
  "settings (resetFlightLegParameters y s) = settings s"
  "settings (singleSupportEvents x y s) = settings s"
  "settings (doubleSupportEvents x y s) = settings s"
  by (simp_all add: op_defs Let_def split_beta slip_frame) (simp_all add: settings_def)

lemma walkingState_ops [slip_frame]:
  "walkingState (hipController s) = walkingState s"
  "walkingState (standingController s) = walkingState s"
  "walkingState (shutdownController s) = walkingState s"
  "walkingState (stanceController x s) = walkingState s"
  "walkingState (legSwingController x y s) = walkingState s"
  "walkingState (resetFlightLegParameters y s) = walkingState s"
  by (simp_all add: op_defs Let_def split_beta slip_frame)

lemma isTrigger_ops [slip_frame]:
  "isTrigger (set_currents x ab s) = isTrigger s" "isTrigger (set_hips l r s) = isTrigger s"
  "isTrigger (stanceController x s) = isTrigger s" "isTrigger (legSwingController x y s) = isTrigger s"
  "isTrigger (hipController s) = isTrigger s"
proof -
  show s: "isTrigger (set_currents x ab s) = isTrigger s" "isTrigger (set_hips l r s) = isTrigger s" for x ab l r
    and s :: "'c slip_walking_scheme"
    by (cases x; cases s; simp add: set_currents_def set_hips_def)+
  show "isTrigger (stanceController x s) = isTrigger s" "isTrigger (legSwingController x y s) = isTrigger s"
    "isTrigger (hipController s) = isTrigger s"
    by (simp_all add: op_defs Let_def split_beta s)
qed

lemma kept_simps:
  assumes "atc_kept s = atc_kept t"
  shows "atc_rs s = atc_rs t" "atc_mode s = atc_mode t" "startupTimeRem s = startupTimeRem t"
    "startupEnabled s = startupEnabled t"
  using assms by (simp_all add: atc_kept_def)

lemma settings_simps:
  assumes "settings s = settings t"
  shows "controllerState s = controllerState t" "switchMethod s = switchMethod t" "sw_q2 s = sw_q2 t" "sw_q3 s = sw_q3 t"
    "sw_r0 s = sw_r0 t" "isManualSwingLegTO s = isManualSwingLegTO t" "isManualSwingLegTD s = isManualSwingLegTD t"
    "lFilteredToe s = lFilteredToe t" "rFilteredToe s = rFilteredToe t"
    "filteredToe x s = filteredToe x t" "currentLimit s = currentLimit t" "velocityLimit s = velocityLimit t"
  using assms by (cases x; simp add: settings_def filteredToe_def)+

lemmas kept_rs = kept_simps(1)

lemma checkSafeties_frame [slip_frame]:
  "atc_kept (checkSafeties s) = atc_kept s" "settings (checkSafeties s) = settings s"
  "walkingState (checkSafeties s) = walkingState s" "sPrev (checkSafeties s) = sPrev s"
  by (simp_all add: checkSafeties_def Let_def commandEStop_def slip_frame)
    (simp_all add: atc_kept_def settings_def slip_frame [unfolded atc_kept_def settings_def])

subsection \<open>The gait\<close>

text \<open>The events, from the sensors and the settings: the angle of a leg is measured in the world.\<close>

definition world_leg :: "leg_side \<Rightarrow> robot_state \<Rightarrow> dbl" where
  "world_leg x rs = fst (motorPos2LegPos (legAngle (halfA (rs_leg x rs))) (legAngle (halfB (rs_leg x rs)))) +
     torso_tilt (bodyPitch (position rs))"

definition lands_by ::
  "(robot_state_leg \<Rightarrow> dbl list \<Rightarrow> bool) \<Rightarrow> 'c slip_walking_scheme \<Rightarrow> leg_side \<Rightarrow> bool" where
  "lands_by detect s x \<longleftrightarrow>
     ((if switchMethod s = 0 then detect (rs_leg x (atc_rs s)) (filteredToe x s)
       else if switchMethod s = 1 then sw_q3 s \<le> world_leg (other x) (atc_rs s) \<and> world_leg x (atc_rs s) \<le> sw_q2 s
       else isTrigger s) \<or> isManualSwingLegTD s) \<and>
     world_leg x (atc_rs s) \<le> Fin M_PI / Fin 2"

abbreviation lands :: "'c slip_walking_scheme \<Rightarrow> leg_side \<Rightarrow> bool" where
  "lands \<equiv> lands_by detectStance"

definition radial_deflection :: "robot_state_leg \<Rightarrow> dbl" where
  "radial_deflection leg =
     snd (motorPos2LegPos (motorAngle (halfA leg)) (motorAngle (halfB leg))) -
     snd (motorPos2LegPos (legAngle (halfA leg)) (legAngle (halfB leg)))"

definition lifts :: "'c slip_walking_scheme \<Rightarrow> leg_side \<Rightarrow> bool" where
  "lifts s x \<longleftrightarrow>
     ((if switchMethod s = 0 then radial_deflection (rs_leg x (atc_rs s)) \<le> Fin 0.005
       else if switchMethod s = 1 then sw_q2 s \<le> world_leg (other x) (atc_rs s)
       else isTrigger s) \<or> isManualSwingLegTO s) \<and>
     Fin M_PI / Fin 2 \<le> world_leg x (atc_rs s)"

lemma single_support_walkingState:
  "walkingState (single_support_events detect x (other x) s) =
     (if lands_by detect s (other x) then crem (walkingState s + 1) 4 else walkingState s)"
  by (cases x; cases "switchMethod s = 0"; cases "switchMethod s = 1";
      simp add: single_support_events_def lands_by_def world_leg_def Let_def split_beta filteredToe_def; blast?)

lemma double_support_walkingState:
  assumes "\<And>y s. walkingState (reset y s) = walkingState s"
  shows "walkingState (double_support_events reset (other x) x s) =
     (if lifts s x then crem (walkingState s + 1) 4 else walkingState s)"
  by (cases x; cases "switchMethod s = 0"; cases "switchMethod s = 1";
      simp add: double_support_events_def lifts_def world_leg_def radial_deflection_def Let_def split_beta assms; blast?)

lemma events_cong:
  assumes "atc_rs s = atc_rs t" and "settings s = settings t" and "isTrigger s = isTrigger t"
  shows "lands_by detect s = lands_by detect t" and "lifts s = lifts t"
  using assms(1,3) settings_simps [OF assms(2)] by (simp_all add: fun_eq_iff lands_by_def lifts_def)

text \<open>The walking state machine of this controller is one of the machines that refine the gait.\<close>

interpretation slip_walker: walker walkingState legSwingController "\<lambda>sl fl. stanceController sl"
  singleSupportEvents doubleSupportEvents lands lands lifts
proof
  show "lands (stanceController x (legSwingController x (other x) s)) (other x) = lands s (other x)"
    "lifts (stanceController x (stanceController z s)) = lifts s" for x z and s :: "'a slip_walking_scheme"
    by (rule events_cong fun_cong [OF events_cong(1)];
        simp add: slip_frame kept_rs [OF kept_ops(4)] kept_rs [OF kept_ops(5)])+
qed (simp_all add: slip_frame singleSupportEvents_def doubleSupportEvents_def single_support_walkingState
    double_support_walkingState)

lemma updateController_frame [slip_frame]:
  "atc_kept (updateController s) = atc_kept s" "walkingState (updateController s) = walkingState s"
  "controllerState (updateController s) = uint (main_controller (sw_guiIn s))"
  "isTrigger (updateController s) = isTrigger s" "sPrev (updateController s) = sPrev s"
  "switchMethod (updateController s) = uint (switch_method (sw_guiIn s))"
  by (simp_all add: updateController_def Let_def) (simp add: atc_kept_def)

lemma updateToes_frame [slip_frame]:
  "atc_kept (updateToes s) = atc_kept s" "walkingState (updateToes s) = walkingState s"
  "controllerState (updateToes s) = controllerState s" "isTrigger (updateToes s) = isTrigger s"
  "sPrev (updateToes s) = sPrev s" "switchMethod (updateToes s) = switchMethod s"
  by (simp_all add: updateToes_def atc_kept_def)

lemma walking_step_kept [slip_frame]: "atc_kept (walking_step s) = atc_kept s"
  by (simp add: walking_step_def walk_by_def slip_frame)

lemma slip_controller_kept: "atc_kept (slip_controller s) = atc_kept s"
proof -
  have u: "atc_kept (t\<lparr>walkingState := w\<rparr>) = atc_kept t" "atc_kept (t\<lparr>log_walkingState := v\<rparr>) = atc_kept t"
    for t :: "'a slip_walking_scheme" and w v by (simp_all add: atc_kept_def)
  show ?thesis by (simp add: slip_controller_def Let_def slip_frame u)
qed

lemma slip_leaves_startup: "leaves_startup slip_controller"
  by (simp add: leaves_startup_def kept_simps(1-3) [OF slip_controller_kept])

lemma slip_controller_walkingState:
  fixes s :: "'c slip_walking_scheme"
  defines "t \<equiv> updateToes (updateController s)"
  shows "walkingState (slip_controller s) =
    (if main_controller (sw_guiIn s) = 0 \<or> main_controller (sw_guiIn s) = 2 then 3
     else if main_controller (sw_guiIn s) = 1 then walkingState (walking_step (hipController t)) else walkingState s)"
proof -
  define m where "m = main_controller (sw_guiIn s)"
  have u: "uint m = 0 \<longleftrightarrow> m = 0" "uint m = 1 \<longleftrightarrow> m = 1" "uint m = 2 \<longleftrightarrow> m = 2"
    by (simp_all add: word_uint_eq_iff)
  have c: "controllerState (hipController t) = uint m"
    using settings_simps(1) [OF settings_ops(1), of t] by (simp add: t_def slip_frame m_def)
  show ?thesis
    unfolding slip_controller_def Let_def t_def [symmetric] m_def [symmetric]
    by (simp add: slip_frame c u) (simp add: t_def slip_frame)
qed

lemma walking_gait:
  assumes "valid_gait (walkingState s)" and "t = updateToes (updateController s)"
  shows "valid_gait (walkingState (slip_controller s))"
    and "gait_of (walkingState (slip_controller s)) =
      (if main_controller (sw_guiIn s) = 1 then gait_next (lands t) (lifts t) (gait_of (walkingState s))
       else if main_controller (sw_guiIn s) \<in> {0, 2} then Double LeftLeg
       else gait_of (walkingState s))"
proof -
  have w: "walkingState (hipController t) = walkingState s" by (simp add: assms(2) slip_frame)
  have ev: "lands (hipController t) = lands t" "lifts (hipController t) = lifts t"
    by (rule events_cong; simp add: slip_frame kept_rs [OF kept_ops(1)])+
  show "valid_gait (walkingState (slip_controller s))"
    and "gait_of (walkingState (slip_controller s)) =
      (if main_controller (sw_guiIn s) = 1 then gait_next (lands t) (lifts t) (gait_of (walkingState s))
       else if main_controller (sw_guiIn s) \<in> {0, 2} then Double LeftLeg
       else gait_of (walkingState s))"
    using slip_walker.refines [of "hipController t", folded walking_step_def] assms(1)
    by (simp_all add: slip_controller_walkingState assms(2) [symmetric] w ev) (simp_all add: gait_of_def valid_gait_def)
qed

text \<open>
  C9. The walking state machine refines the gait: a call in walking mode moves the gait by
  the touchdown and takeoff that the sensors show, and in no other way; standing and
  shutdown put it back to the double support in which the left leg takes off first.
\<close>

theorem gait_refinement:
  assumes "valid_gait (walkingState s)" and "t = updateToes (updateController s)"
  shows "valid_gait (walkingState (slip_controller s)) \<and>
    gait_of (walkingState (slip_controller s)) =
      (if main_controller (sw_guiIn s) = 1 then gait_next (lands t) (lifts t) (gait_of (walkingState s))
       else if main_controller (sw_guiIn s) \<in> {0, 2} then Double LeftLeg
       else gait_of (walkingState s))"
  using walking_gait [OF assms] by blast

subsection \<open>Runs\<close>

text \<open>A call by RT Ops with the settings that have arrived from the operator's interface before it.\<close>

type_synonym slip_call = "nsecs \<times> slip_input \<times> robot_state"

definition slip_call :: "robot_variant \<Rightarrow> slip_walking \<Rightarrow> slip_call \<Rightarrow> slip_walking" where
  "slip_call v s call = (case call of (now, gui, rs) \<Rightarrow>
     snd (runController v True True slip_controller now rs (s\<lparr>sw_guiIn := gui\<rparr>)))"

text \<open>The gaits that a run goes through.\<close>

fun slip_gaits :: "robot_variant \<Rightarrow> slip_walking \<Rightarrow> slip_call list \<Rightarrow> gait list" where
  "slip_gaits v s [] = [gait_of (walkingState s)]"
| "slip_gaits v s (c # cs) = gait_of (walkingState s) # slip_gaits v (slip_call v s c) cs"

lemma atc_more_frame [slip_frame]:
  "atc.more (atc_publish g l now s) = atc.more s"
  "atc.more (startupController v s) = atc.more s"
  "atc.more (atc_enter rs s) = atc.more s"
  by (simp_all add: atc_publish_def startupController_def atc_enter_def Let_def split_beta)

lemma slip_call_walkingState:
  "walkingState (slip_call v s (now, gui, rs)) = walkingState (slip_controller (atc_enter rs (s\<lparr>sw_guiIn := gui\<rparr>)))"
  by (rule more_fields(2)) (simp add: slip_call_def runController_def Let_def slip_frame)

lemma enter_walking [slip_frame]:
  fixes s :: slip_walking
  shows "walkingState (atc_enter rs (s\<lparr>sw_guiIn := gui\<rparr>)) = walkingState s"
    "sw_guiIn (atc_enter rs (s\<lparr>sw_guiIn := gui\<rparr>)) = gui"
proof -
  have "atc.more (atc_enter rs (s\<lparr>sw_guiIn := gui\<rparr>)) = atc.more (s\<lparr>sw_guiIn := gui\<rparr>)" by (rule slip_frame)
  then show "walkingState (atc_enter rs (s\<lparr>sw_guiIn := gui\<rparr>)) = walkingState s"
    "sw_guiIn (atc_enter rs (s\<lparr>sw_guiIn := gui\<rparr>)) = gui"
    by (cases "atc_enter rs (s\<lparr>sw_guiIn := gui\<rparr>)"; cases s; simp)+
qed

definition walks :: "slip_call \<Rightarrow> bool" where
  "walks c \<longleftrightarrow> main_controller (fst (snd c)) = 1"

lemma slip_call_gait:
  assumes "valid_gait (walkingState s)" and "walks c"
  shows "valid_gait (walkingState (slip_call v s c))"
    and "gait_of (walkingState (slip_call v s c)) = gait_of (walkingState s) \<or>
      gait_step (gait_of (walkingState s)) (gait_of (walkingState (slip_call v s c)))"
proof -
  obtain now gui rs where c: "c = (now, gui, rs)" by (cases c)
  let ?s = "atc_enter rs (s\<lparr>sw_guiIn := gui\<rparr>)"
  have p: "valid_gait (walkingState ?s)" "main_controller (sw_guiIn ?s) = 1"
    using assms by (simp_all add: slip_frame walks_def c)
  define t where "t = updateToes (updateController ?s)"
  note r = walking_gait [OF p(1) t_def]
  show "valid_gait (walkingState (slip_call v s c))" using r(1) by (simp add: c slip_call_walkingState)
  have "gait_of (walkingState (slip_call v s c)) = gait_next (lands t) (lifts t) (gait_of (walkingState s))"
    using r(2) p(2) by (simp add: c slip_call_walkingState slip_frame)
  then show "gait_of (walkingState (slip_call v s c)) = gait_of (walkingState s) \<or>
      gait_step (gait_of (walkingState s)) (gait_of (walkingState (slip_call v s c)))"
    using gait_next_step [of "lands t" "lifts t" "gait_of (walkingState s)"] by simp
qed

lemma slip_gaits_path:
  assumes "valid_gait (walkingState s)" and "list_all walks calls"
  shows "gait_path (slip_gaits v s calls) \<and> hd (slip_gaits v s calls) = gait_of (walkingState s)"
  using assms
proof (induction calls arbitrary: s)
  case (Cons c calls)
  from Cons.prems(2) have w: "walks c" "list_all walks calls" by simp_all
  note g = slip_call_gait [OF Cons.prems(1) w(1), of v]
  note ih = Cons.IH [OF g(1) w(2)]
  have "slip_gaits v (slip_call v s c) calls \<noteq> []" by (cases calls) simp_all
  then show ?case using ih g(2) by (simp add: gait_path_def successively_Cons)
qed (simp add: gait_path_def)

text \<open>
  C13. The legs alternate: however often the controller is called in walking mode, and
  whatever the sensors and the other settings are, neither leg takes off more than once more
  than the other.
\<close>

theorem legs_alternate:
  assumes "valid_gait (walkingState s)" and "list_all walks calls"
  shows "\<bar>int (takeoffs RightLeg (slip_gaits v s calls)) - int (takeoffs LeftLeg (slip_gaits v s calls))\<bar> \<le> 1"
  using takeoffs_alternate slip_gaits_path [OF assms] by blast

subsection \<open>The virtual spring\<close>

definition spring_force :: "real \<Rightarrow> real \<Rightarrow> real" where
  "spring_force r0 r = KS * (arccos r - arccos r0) * (L1 + L2) / (2 * L1 * L2 * sqrt (1 - r * r))"

definition spring_force_rate :: "real \<Rightarrow> real \<Rightarrow> real \<Rightarrow> real" where
  "spring_force_rate r0 r dr = KS * dr * (L1 + L2) / (2 * L1 * L2 * (r * r - 1)) +
     KS * dr * r * (arccos r - arccos r0) * (L1 + L2) / (2 * L1 * L2 * ((1 - r * r) * sqrt (1 - r * r)))"

lemma ct_legForce_Fin:
  assumes "\<bar>r\<bar> < 1" and "\<bar>r0\<bar> \<le> 1"
  shows "ct_legForce (Fin KS) (Fin r) (Fin dr) (Fin r0) = (Fin (spring_force r0 r), Fin (spring_force_rate r0 r dr))"
proof -
  have p: "0 < 1 - r * r" using assms(1) by (metis abs_mult_self_eq abs_mult_less diff_gt_0_iff_gt mult_1)
  have L: "2 * L1 * L2 \<noteq> 0" by (simp add: consts_simp)
  then have n: "2 * L1 * L2 * sqrt (1 - r * r) \<noteq> 0" "2 * L1 * L2 * (r * r - 1) \<noteq> 0"
    "2 * L1 * L2 * ((1 - r * r) * sqrt (1 - r * r)) \<noteq> 0" "\<not> 1 - r * r < 0"
    using p by simp_all
  have a: "dbl_acos (Fin r) = Fin (arccos r)" "dbl_acos (Fin r0) = Fin (arccos r0)"
    using assms by (simp_all add: abs_le_iff abs_less_iff)
  have m: "- (KS * (arccos r0 - arccos r) * (L1 + L2)) = KS * (arccos r - arccos r0) * (L1 + L2)"
    by (simp add: algebra_simps)
  show ?thesis
    unfolding ct_legForce_def Let_def a dbl_pow32_def
    by (simp only: fin_only n dbl_sqrt.simps if_False not_False_eq_True m prod.inject dbl.inject
        spring_force_def spring_force_rate_def simp_thms)
qed

lemma quotient_rate:
  fixes w :: real
  assumes "0 < w" and "w * w = 1 - r * r"
  shows "(inverse (- w) * d * w - (a - b) * (inverse w / 2 * (- (2 * r * d)))) / (w * w) =
    d / (r * r - 1) + d * r * (a - b) / ((1 - r * r) * w)"
proof -
  have e: "r * r - 1 = - (w * w)" "1 - r * r = w * w" using assms(2) by simp_all
  show ?thesis unfolding e using assms(1) by (simp add: field_simps)
qed

lemma spring_force_deriv:
  assumes "(r has_real_derivative dr) (at t)" and "\<bar>r t\<bar> < 1"
  shows "((\<lambda>t. spring_force r0 (r t)) has_real_derivative spring_force_rate r0 (r t) dr) (at t)"
proof -
  have p: "0 < 1 - r t * r t" using assms(2) by (metis abs_mult_self_eq abs_mult_less diff_gt_0_iff_gt mult_1)
  define w where "w = sqrt (1 - r t * r t)"
  have w: "0 < w" "w * w = 1 - r t * r t" using p by (simp_all add: w_def)
  have c: "(arccos has_real_derivative inverse (- w)) (at (r t))"
    using DERIV_arccos [of "r t"] assms(2) by (simp add: w_def power2_eq_square abs_less_iff)
  have a: "((\<lambda>t. arccos (r t) - arccos r0) has_real_derivative inverse (- w) * dr) (at t)"
    using DERIV_chain2 [OF c assms(1)] by (rule DERIV_diff [OF _ DERIV_const, simplified])
  have q: "((\<lambda>t. sqrt (1 - r t * r t)) has_real_derivative inverse w / 2 * (- (2 * r t * dr))) (at t)"
    unfolding w_def
    by (rule DERIV_chain2 [where f = sqrt and g = "\<lambda>t. 1 - r t * r t"], rule DERIV_real_sqrt [OF p])
      (rule derivative_eq_intros assms(1) refl | simp)+
  define K where "K = KS * (L1 + L2) / (2 * L1 * L2)"
  have e: "spring_force r0 x = K * ((arccos x - arccos r0) / sqrt (1 - x * x))" for x
    by (simp add: spring_force_def K_def)
  have e': "spring_force_rate r0 (r t) dr =
      K * (dr / (r t * r t - 1) + dr * r t * (arccos (r t) - arccos r0) / ((1 - r t * r t) * w))"
    unfolding spring_force_rate_def K_def w_def
    by (simp only: distrib_left [of "KS * (L1 + L2) / (2 * L1 * L2)"] times_divide_times_eq) (simp only: ac_simps)
  have "((\<lambda>t. (arccos (r t) - arccos r0) / sqrt (1 - r t * r t)) has_real_derivative
      (inverse (- w) * dr * w - (arccos (r t) - arccos r0) * (inverse w / 2 * (- (2 * r t * dr)))) / (w * w)) (at t)"
    using DERIV_divide [OF a q] w(1) by (simp add: w_def)
  from DERIV_cmult [OF this, of K] show ?thesis
    unfolding e e' quotient_rate [OF w] .
qed

text \<open>
  The virtual spring of the stance leg: while the leg is neither straight nor folded, the components of the force
  that \<open>stanceController\<close> commands have the rates that it computes: they are the derivatives for a leg whose length
  \<open>r\<close> and angle \<open>q\<close> move at \<open>dr\<close> and \<open>dq\<close>.
\<close>

theorem stance_force_rates:
  assumes "(r has_real_derivative dr) (at t)" and "(q has_real_derivative dq) (at t)"
    and "\<And>t. \<bar>r t\<bar> < 1" and "\<bar>r0\<bar> \<le> 1"
    and "\<And>t. force t = (case ct_legForce (Fin KS) (Fin (r t)) (Fin dr) (Fin r0) of
      (fa, dfa) \<Rightarrow> stance_force fa dfa (Fin (q t)) (Fin dq))"
  shows "((\<lambda>t. real_of_dbl (fx (force t))) has_real_derivative real_of_dbl (dfx (force t))) (at t) \<and>
    ((\<lambda>t. real_of_dbl (fz (force t))) has_real_derivative real_of_dbl (dfz (force t))) (at t) \<and>
    isfinite (dfx (force t)) \<and> isfinite (dfz (force t))"
proof -
  have f: "force t = stance_force (Fin (spring_force r0 (r t))) (Fin (spring_force_rate r0 (r t) dr)) (Fin (q t)) (Fin dq)" for t
    using assms(5) by (simp add: ct_legForce_Fin [OF assms(3,4)])
  note d = spring_force_deriv [OF assms(1,3), of r0]
  have "((\<lambda>t. spring_force r0 (r t) * cos (q t)) has_real_derivative
      - spring_force r0 (r t) * sin (q t) * dq + spring_force_rate r0 (r t) dr * cos (q t)) (at t)"
    by (rule derivative_eq_intros d assms(2) refl | simp add: algebra_simps)+
  moreover have "((\<lambda>t. - spring_force r0 (r t) * sin (q t)) has_real_derivative
      - spring_force r0 (r t) * cos (q t) * dq - spring_force_rate r0 (r t) dr * sin (q t)) (at t)"
    by (rule derivative_eq_intros d assms(2) refl | simp add: algebra_simps)+
  ultimately show ?thesis by (simp add: f stance_force_def)
qed
subsection \<open>Swing trajectory\<close>

definition swing_fraction :: "leg_side \<Rightarrow> 'c slip_walking_scheme \<Rightarrow> dbl" where
  "swing_fraction sl s =
     (fst (motorPos2LegPos (motorAngle (halfA (rs_leg sl (atc_rs s)))) (motorAngle (halfB (rs_leg sl (atc_rs s))))) +
       torso_tilt (bodyPitch (position (atc_rs s))) - sw_q2 s) / (sw_q3 s - sw_q2 s)"

lemma legSwing_progress:
  "sw_s (legSwingController sl fl s) = (if swing_fraction sl s < sPrev s then sPrev s else swing_fraction sl s)"
  "sPrev (legSwingController sl fl s) = sw_s (legSwingController sl fl s)"
proof -
  have c: "sw_s (set_currents x ab u) = sw_s u" "sPrev (set_currents x ab u) = sPrev u" for x ab and u :: "'a slip_walking_scheme"
    by (cases x; cases u; simp add: set_currents_def)+
  show "sw_s (legSwingController sl fl s) = (if swing_fraction sl s < sPrev s then sPrev s else swing_fraction sl s)"
    "sPrev (legSwingController sl fl s) = sw_s (legSwingController sl fl s)"
    by (simp_all add: legSwingController_def swing_leg_def Let_def split_beta c swing_fraction_def)
qed

lemma cubic_before:
  assumes "x1 < x2" and "x \<le> x1"
  shows "ip_cubic (Fin x1) (Fin x2) (Fin y1) (Fin y2) (Fin d1) (Fin d2) (Fin x) (Fin dx) = (Fin y1, Fin (dx * d1))"
  using assms by (subst ip_cubic_clamped [OF assms(1)]) (simp add: ip_cubic_left)

lemma cubic_after:
  assumes "x1 < x2" and "x2 \<le> x"
  shows "ip_cubic (Fin x1) (Fin x2) (Fin y1) (Fin y2) (Fin d1) (Fin d2) (Fin x) (Fin dx) = (Fin y2, Fin (dx * d2))"
  using assms by (subst ip_cubic_clamped [OF assms(1)]) (simp add: ip_cubic_right)

text \<open>
  The swing trajectory joins takeoff and touchdown: it starts at the angle and length the leg took off with, is
  retracted by the wanted amount half way, where its two pieces meet without a jump in position or velocity,
  and ends at the touchdown angle with the full length; past the end the positions stay, but the
  angle's target velocity stays at that of the end, which is not zero.
\<close>

theorem swing_trajectory:
  assumes "s0 \<le> 0" and "0.9 \<le> s1"
  shows "swing_angle (Fin qe) (Fin q1) (Fin s0) (Fin ds) = (Fin qe, Fin (- 0.5 * ds)) \<and>
    swing_length (Fin re) (Fin rt) (Fin r0) (Fin s0) (Fin ds) = (Fin re, Fin (- ds)) \<and>
    swing_length (Fin re) (Fin rt) (Fin r0) (Fin 0.5) (Fin ds) = (Fin rt, Fin 0) \<and>
    ip_cubic (Fin 0) (Fin 0.5) (Fin re) (Fin rt) (Fin (- 1)) (Fin 0) (Fin 0.5) (Fin ds) = (Fin rt, Fin 0) \<and>
    swing_angle (Fin qe) (Fin q1) (Fin s1) (Fin ds) = (Fin q1, Fin ds) \<and>
    swing_length (Fin re) (Fin rt) (Fin r0) (Fin s1) (Fin ds) = (Fin r0, Fin 0)"
  using assms by (simp add: swing_angle_def swing_length_def cubic_before cubic_after)

text \<open>
  Progress of the swing: with finite angles and distinct angles \<open>q2\<close>, \<open>q3\<close> the gait parameter of a call is the
  larger of the last one and of the fraction of the way from \<open>q2\<close> to \<open>q3\<close> that the stance leg has gone;
  so it never decreases, and a stance leg that falls back does not make the swing leg go back.
\<close>

theorem swing_progress:
  assumes "motorAngle (halfA (rs_leg sl (atc_rs s))) = Fin a" and "motorAngle (halfB (rs_leg sl (atc_rs s))) = Fin b"
    and "bodyPitch (position (atc_rs s)) = Fin qb" and "sw_q2 s = Fin q2" and "sw_q3 s = Fin q3" and "q2 \<noteq> q3"
    and "sPrev s = Fin p"
  shows "sw_s (legSwingController sl fl s) = Fin (max p (((a + b) / 2 + (qb - 3 * M_PI / 2) - q2) / (q3 - q2))) \<and>
    sPrev (legSwingController sl fl s) = sw_s (legSwingController sl fl s)"
  using assms by (simp add: legSwing_progress swing_fraction_def motorPos_Fin torso_tilt_def max_def)

subsection \<open>Toe switches\<close>

lemma dbl_sum_Fin: "dbl_sum (map Fin xs) = Fin (sum_list xs)"
proof -
  have "foldl (+) (Fin a) (map Fin xs) = Fin (a + sum_list xs)" for a
    by (induction xs arbitrary: a) (simp_all add: add.assoc)
  from this [of 0] show ?thesis by (simp add: dbl_sum_def)
qed

text \<open>The reading that the filter takes in: implausible ones are replaced by the latest value of the filter.\<close>

definition toe_reading :: "uint16 \<Rightarrow> real \<Rightarrow> real \<Rightarrow> real" where
  "toe_reading w prev old =
     (let toe = (if w = 4095 \<or> w = 0 then prev else of_int (uint w))
      in if 1500 < \<bar>prev - toe\<bar> \<and> old \<noteq> 5000 then prev else toe)"

lemma updateToeFilter_Fin:
  assumes "3 \<le> length f"
  shows "updateToeFilter w (map Fin f) =
    map Fin ((f ! 0 + f ! 1 + toe_reading w (f ! 0) (last f)) / 3 # butlast f)"
proof -
  obtain a b f' where f: "f = a # b # f'" "f' \<noteq> []" using assms
    by (cases f; cases "tl f") (auto simp: neq_Nil_conv Suc_le_eq)
  then have l: "last (map Fin f) = Fin (last f)" "hd (map Fin f) = Fin a" by (simp_all add: last_map)
  have t: "take 2 (butlast (map Fin f)) = map Fin [a, b]" using f by simp
  show ?thesis
    unfolding updateToeFilter_def Let_def t dbl_sum_Fin l toe_reading_def
    using f(2) by (simp add: f(1) map_butlast of_int_dbl_def)
qed

lemma detectStance_Fin:
  assumes "length f = 120"
  shows "detectStance leg (map Fin f) \<longleftrightarrow> 600 + sum_list (drop 20 f) / 100 < of_int (uint (toeSwitch leg))"
proof -
  have "drop 20 (map Fin f) = map Fin (drop 20 f)" by (simp add: drop_map)
  then show ?thesis using assms by (simp add: detectStance_def Let_def dbl_sum_Fin of_int_dbl_def)
qed

lemma baseline_bounds:
  assumes "length f = 120" and "\<forall>x \<in> set f. lo \<le> x \<and> x \<le> (hi :: real)"
  shows "lo \<le> sum_list (drop 20 f) / 100" and "sum_list (drop 20 f) / 100 \<le> hi"
proof -
  have b: "x \<in> set (drop 20 f) \<Longrightarrow> lo \<le> x \<and> x \<le> hi" for x using assms(2) by (meson in_set_dropD)
  have "sum_list (map (\<lambda>_. lo) (drop 20 f)) \<le> sum_list (map (\<lambda>x. x) (drop 20 f))"
    by (rule sum_list_mono) (use b in blast)
  moreover have "sum_list (map (\<lambda>x. x) (drop 20 f)) \<le> sum_list (map (\<lambda>_. hi) (drop 20 f))"
    by (rule sum_list_mono) (use b in blast)
  ultimately show "lo \<le> sum_list (drop 20 f) / 100" "sum_list (drop 20 f) / 100 \<le> hi"
    using assms(1) by (simp_all add: sum_list_triv)
qed

lemma toe_reading_band:
  assumes "lo \<le> prev" and "prev \<le> hi" and "w \<noteq> 0 \<and> w \<noteq> 4095 \<longrightarrow> lo \<le> of_int (uint w) \<and> of_int (uint w) \<le> hi"
  shows "lo \<le> toe_reading w prev old" and "toe_reading w prev old \<le> hi"
  using assms by (auto simp: toe_reading_def Let_def)

lemma toe_filter_band:
  assumes "length f = 120" and "\<forall>x \<in> set f. lo \<le> x \<and> x \<le> (hi :: real)"
    and "w \<noteq> 0 \<and> w \<noteq> 4095 \<longrightarrow> lo \<le> of_int (uint w) \<and> of_int (uint w) \<le> hi"
  obtains g where "updateToeFilter w (map Fin f) = map Fin g" and "length g = 120" and "\<forall>x \<in> set g. lo \<le> x \<and> x \<le> hi"
proof
  have e: "f ! 0 \<in> set f" "f ! 1 \<in> set f" using assms(1) by (simp_all add: nth_mem)
  then have "lo \<le> f ! 0" "f ! 0 \<le> hi" "lo \<le> f ! 1" "f ! 1 \<le> hi" using assms(2) by blast+
  moreover note toe_reading_band [OF this(1,2) assms(3), of "last f"]
  ultimately have n: "lo \<le> (f ! 0 + f ! 1 + toe_reading w (f ! 0) (last f)) / 3"
    "(f ! 0 + f ! 1 + toe_reading w (f ! 0) (last f)) / 3 \<le> hi" by simp_all
  show "updateToeFilter w (map Fin f) = map Fin ((f ! 0 + f ! 1 + toe_reading w (f ! 0) (last f)) / 3 # butlast f)"
    by (rule updateToeFilter_Fin) (simp add: assms(1))
  show "length ((f ! 0 + f ! 1 + toe_reading w (f ! 0) (last f)) / 3 # butlast f) = 120" using assms(1) by simp
  show "\<forall>x \<in> set ((f ! 0 + f ! 1 + toe_reading w (f ! 0) (last f)) / 3 # butlast f). lo \<le> x \<and> x \<le> hi"
    using n assms(2) by (auto dest: in_set_butlastD)
qed

text \<open>Readings one after the other: filter, then detection, as the controller does it for the leg in the air.\<close>

fun toe_run :: "dbl list \<Rightarrow> uint16 list \<Rightarrow> bool list" where
  "toe_run f [] = []"
| "toe_run f (w # ws) =
     (let f = updateToeFilter w f in detectStance (robot_state_leg_zero\<lparr>toeSwitch := w\<rparr>) f # toe_run f ws)"

text \<open>
  No false touchdown: while the readings of the toe switch and the filter stay in a band of 600 counts, no
  touchdown is detected, however many readings there are.
\<close>

theorem toe_no_false_touchdown:
  assumes "length f = 120" and "\<forall>x \<in> set f. lo \<le> x \<and> x \<le> lo + 600"
    and "\<forall>w \<in> set ws. lo \<le> of_int (uint w) \<and> of_int (uint w) \<le> lo + 600"
  shows "toe_run (map Fin f) ws = replicate (length ws) False"
  using assms
proof (induction ws arbitrary: f)
  case (Cons w ws)
  obtain g where g: "updateToeFilter w (map Fin f) = map Fin g" "length g = 120" "\<forall>x \<in> set g. lo \<le> x \<and> x \<le> lo + 600"
    using toe_filter_band [OF Cons.prems(1,2), of w] Cons.prems(3) by auto
  have "\<not> detectStance (robot_state_leg_zero\<lparr>toeSwitch := w\<rparr>) (map Fin g)"
    using baseline_bounds(1) [OF g(2,3)] Cons.prems(3) by (simp add: detectStance_Fin [OF g(2)] not_less)
  then show ?case using Cons.IH [OF g(2,3)] Cons.prems(3) by (simp add: Let_def g(1))
qed simp

text \<open>
  A single bad reading is a touchdown: the filter drops a reading of 4095, the largest of the converter,
  as bad data, but the detection compares the raw reading, so that one such reading is taken for a touchdown
  whenever the filter is below 3495.
\<close>

theorem toe_glitch_lands:
  assumes "length f = 120" and "\<forall>x \<in> set f. 0 \<le> x \<and> x < 3495"
  shows "toe_run (map Fin f) [4095] = [True] \<and>
    hd (updateToeFilter 4095 (map Fin f)) = Fin ((f ! 0 + f ! 1 + f ! 0) / 3)"
proof -
  obtain g where g: "updateToeFilter 4095 (map Fin f) = map Fin g" "length g = 120" "\<forall>x \<in> set g. 0 \<le> x \<and> x \<le> Max (set f)"
    using toe_filter_band [OF assms(1), of 0 "Max (set f)" 4095] assms(2) by auto
  have "Max (set f) \<in> set f" using assms(1) by (intro Max_in) auto
  then have "Max (set f) < 3495" using assms(2) by blast
  then have "detectStance (robot_state_leg_zero\<lparr>toeSwitch := 4095\<rparr>) (map Fin g)"
    using baseline_bounds(2) [OF g(2,3)] by (simp add: detectStance_Fin [OF g(2)])
  moreover have "hd (updateToeFilter 4095 (map Fin f)) = Fin ((f ! 0 + f ! 1 + f ! 0) / 3)"
    using assms(1) by (simp add: updateToeFilter_Fin toe_reading_def)
  ultimately show ?thesis by (simp add: Let_def g(1))
qed

subsection \<open>Outputs\<close>

lemma set_currents_co:
  "atc_co (set_currents LeftLeg ab s) = (atc_co s)\<lparr>co_lLeg := (co_lLeg (atc_co s))\<lparr>motorCurrentA := fst ab, motorCurrentB := snd ab\<rparr>\<rparr>"
  "atc_co (set_currents RightLeg ab s) = (atc_co s)\<lparr>co_rLeg := (co_rLeg (atc_co s))\<lparr>motorCurrentA := fst ab, motorCurrentB := snd ab\<rparr>\<rparr>"
  by (simp_all add: set_currents_def)

lemma set_currents_limits:
  "velocityLimit (set_currents x ab s) = velocityLimit s" "currentLimit (set_currents x ab s) = currentLimit s"
  by (cases x; cases s; simp add: set_currents_def)+

lemma checkSafeties_co:
  fixes s :: "'c slip_walking_scheme"
  defines "cl \<equiv> \<lambda>x. ac_clamp x (- currentLimit s) (currentLimit s)"
  shows "co_command (atc_co (checkSafeties s)) =
      (if moves_faster (velocityLimit s) (atc_rs s) then medulla_state_error else co_command (atc_co s))"
    and "x \<in> {co_lLeg, co_rLeg} \<Longrightarrow> x (atc_co (checkSafeties s)) =
      (x (atc_co s))\<lparr>motorCurrentA := cl (motorCurrentA (x (atc_co s))), motorCurrentB := cl (motorCurrentB (x (atc_co s)))\<rparr>"
  by (auto simp: checkSafeties_def Let_def commandEStop_def set_currents_co set_currents_limits slip_frame moves_faster_def cl_def)

lemma walking_step_settings [slip_frame]: "settings (walking_step s) = settings s"
  by (simp add: walking_step_def walk_by_def slip_frame)

definition before_safeties :: "'c slip_walking_scheme \<Rightarrow> 'c slip_walking_scheme" where
  "before_safeties s =
     (let s = hipController (updateToes (updateController s))
      in if controllerState s = 0 then standingController ((resetFlightLegParameters LeftLeg s)\<lparr>walkingState := 3\<rparr>)
         else if controllerState s = 1 then walking_step s
         else if controllerState s = 2 then (resetFlightLegParameters LeftLeg (shutdownController s))\<lparr>walkingState := 3\<rparr>
         else s)"

lemma slip_controller_co: "atc_co (slip_controller s) = atc_co (checkSafeties (before_safeties s))"
  by (simp add: slip_controller_def before_safeties_def Let_def)

lemma before_safeties_limits:
  "currentLimit (before_safeties s) = current_limit (sw_guiIn s)"
  "velocityLimit (before_safeties s) = velocity_limit (sw_guiIn s)"
  "atc_rs (before_safeties s) = atc_rs s"
proof -
  let ?t = "updateToes (updateController s)"
  have w: "settings (u\<lparr>walkingState := w\<rparr>) = settings u" "atc_kept (u\<lparr>walkingState := w\<rparr>) = atc_kept u"
    for u :: "'a slip_walking_scheme" and w by (simp_all add: settings_def atc_kept_def)
  have "settings (before_safeties s) = settings ?t" "atc_kept (before_safeties s) = atc_kept s"
    by (simp_all add: before_safeties_def Let_def slip_frame w)
  moreover have "currentLimit ?t = current_limit (sw_guiIn s)" "velocityLimit ?t = velocity_limit (sw_guiIn s)"
    by (simp_all add: updateToes_def updateController_def Let_def)
  ultimately show "currentLimit (before_safeties s) = current_limit (sw_guiIn s)"
    "velocityLimit (before_safeties s) = velocity_limit (sw_guiIn s)" "atc_rs (before_safeties s) = atc_rs s"
    using settings_simps(11,12) kept_simps(1) by metis+
qed

lemma command_ops [slip_frame]:
  "co_command (atc_co (stanceController x s)) = co_command (atc_co s)"
  "co_command (atc_co (legSwingController x y s)) = co_command (atc_co s)"
  "co_command (atc_co (singleSupportEvents x y s)) = co_command (atc_co s)"
  "co_command (atc_co (doubleSupportEvents x y s)) = co_command (atc_co s)"
  "co_command (atc_co (resetFlightLegParameters y s)) = co_command (atc_co s)"
  "co_command (atc_co (standingController s)) = co_command (atc_co s)"
  "co_command (atc_co (shutdownController s)) = co_command (atc_co s)"
  "co_command (atc_co (hipController s)) = co_command (atc_co s)"
  by (simp_all add: op_defs Let_def split_beta slip_frame)

lemma before_safeties_command: "co_command (atc_co (before_safeties s)) = co_command (atc_co s)"
proof -
  have "co_command (atc_co (updateToes (updateController s))) = co_command (atc_co s)"
    by (simp add: updateToes_def updateController_def Let_def)
  then show ?thesis by (simp add: before_safeties_def walking_step_def walk_by_def Let_def slip_frame)
qed

text \<open>
  The outputs of the walking controller: in every mode the currents of the leg motors are within the limit that
  the operator set, or NaN; and the command is changed to the emergency stop exactly when a rotor or
  a hip moves faster than the operator's limit.
\<close>

theorem slip_outputs:
  assumes "current_limit (sw_guiIn s) = Fin m" and "co = atc_co (slip_controller s)"
  shows "(\<forall>x \<in> {motorCurrentA (co_lLeg co), motorCurrentB (co_lLeg co), motorCurrentA (co_rLeg co), motorCurrentB (co_rLeg co)}.
      x = NaN \<or> (\<exists>r. x = Fin r \<and> \<bar>r\<bar> \<le> \<bar>m\<bar>)) \<and>
    co_command co = (if moves_faster (velocity_limit (sw_guiIn s)) (atc_rs s) then medulla_state_error
                     else co_command (atc_co s))"
  using ac_clamp_symmetric [of _ m]
  by (simp add: assms slip_controller_co checkSafeties_co before_safeties_limits before_safeties_command)

subsection \<open>Well-formed states\<close>

text \<open>A toe filter, and the part of the state that the code indexes and switches on.\<close>

definition filter_ok :: "dbl list \<Rightarrow> bool" where
  "filter_ok f \<longleftrightarrow> (\<exists>g. f = map Fin g \<and> length g = 120 \<and> (\<forall>x \<in> set g. 0 \<le> x \<and> x \<le> 65535))"

definition slip_ok :: "'c slip_walking_scheme \<Rightarrow> bool" where
  "slip_ok s \<longleftrightarrow> valid_gait (walkingState s) \<and> filter_ok (lFilteredToe s) \<and> filter_ok (rFilteredToe s)"

lemma filter_ok_update:
  assumes "filter_ok f"
  shows "filter_ok (updateToeFilter w f)"
proof -
  obtain g where g: "f = map Fin g" "length g = 120" "\<forall>x \<in> set g. 0 \<le> x \<and> x \<le> 65535"
    using assms by (auto simp: filter_ok_def)
  have "uint w \<le> 65535" using uint_bounded [of w] by simp
  then have "of_int (uint w) \<le> (of_int 65535 :: real)" by (simp only: of_int_le_iff)
  then have "(0 :: real) \<le> of_int (uint w) \<and> of_int (uint w) \<le> (65535 :: real)" by (simp add: uint_ge_0 del: of_int_uint)
  then obtain h where "updateToeFilter w (map Fin g) = map Fin h" "length h = 120" "\<forall>x \<in> set h. 0 \<le> x \<and> x \<le> 65535"
    using toe_filter_band [OF g(2,3), of w] by blast
  then show ?thesis unfolding filter_ok_def g(1) by blast
qed

lemma slip_controller_filters:
  "lFilteredToe (slip_controller s) = updateToeFilter (toeSwitch (lLeg (atc_rs s))) (lFilteredToe s)"
  "rFilteredToe (slip_controller s) = updateToeFilter (toeSwitch (rLeg (atc_rs s))) (rFilteredToe s)"
proof -
  let ?t = "updateToes (updateController s)"
  have w: "settings (u\<lparr>walkingState := w\<rparr>) = settings u" "settings (u\<lparr>log_walkingState := v\<rparr>) = settings u"
    for u :: "'a slip_walking_scheme" and w v by (simp_all add: settings_def)
  have "settings (slip_controller s) = settings ?t" by (simp add: slip_controller_def Let_def slip_frame w)
  moreover have "lFilteredToe ?t = updateToeFilter (toeSwitch (lLeg (atc_rs s))) (lFilteredToe s)"
    "rFilteredToe ?t = updateToeFilter (toeSwitch (rLeg (atc_rs s))) (rFilteredToe s)"
    by (simp_all add: updateToes_def updateController_def Let_def)
  ultimately show "lFilteredToe (slip_controller s) = updateToeFilter (toeSwitch (lLeg (atc_rs s))) (lFilteredToe s)"
    "rFilteredToe (slip_controller s) = updateToeFilter (toeSwitch (rLeg (atc_rs s))) (rFilteredToe s)"
    by (simp_all add: settings_def)
qed

lemma slip_ok_more:
  assumes "atc.more s = atc.more t"
  shows "slip_ok s = slip_ok t"
  using more_fields(1,2) [OF assms] by (simp add: slip_ok_def settings_def)

lemma slip_call_ok:
  assumes "slip_ok s"
  shows "slip_ok (slip_call v s c)"
proof -
  obtain now gui rs where c: "c = (now, gui, rs)" by (cases c)
  let ?s = "atc_enter rs (s\<lparr>sw_guiIn := gui\<rparr>)"
  have "slip_ok ?s = slip_ok (s\<lparr>sw_guiIn := gui\<rparr>)" by (rule slip_ok_more) (simp add: slip_frame)
  then have s: "slip_ok ?s" using assms by (simp add: slip_ok_def)
  then have "valid_gait (walkingState (slip_controller ?s))" using walking_gait [OF _ refl, of ?s] by (simp add: slip_ok_def)
  then have "slip_ok (slip_controller ?s)" using s by (simp add: slip_ok_def slip_controller_filters filter_ok_update)
  moreover have "slip_ok (slip_call v s c) = slip_ok (slip_controller ?s)"
    by (rule slip_ok_more) (simp add: slip_call_def c runController_def Let_def slip_frame)
  ultimately show ?thesis by simp
qed

text \<open>
  C14. The state of the walking controller is well formed in every run from its construction, whatever it is constructed
  over, the robot sends and the operator chooses: the walking state is one of the four that the switch of the
  code knows, and both toe filters hold 120 numbers in the range of the converter's words, never a NaN, so that the
  baseline over all but the newest 20 of them is defined.
\<close>

theorem slip_well_formed: "slip_ok (run (slip_call v) (new_ATCSlipWalking mem) calls)"
proof (rule run_invariant [of slip_ok])
  have "filter_ok (replicate 120 (Fin 5000))"
    unfolding filter_ok_def by (rule exI [of _ "replicate 120 5000"]) simp
  then show "slip_ok (new_ATCSlipWalking mem)"
    by (simp add: slip_ok_def valid_gait_def new_ATCSlipWalking_def setStartupEnabled_def Let_def)
qed (rule slip_call_ok)

subsection \<open>Instances\<close>

text \<open>Settings with the gait parameters of the walking mode, and the controller as constructed, over memory that is zero.\<close>

definition walking_input :: slip_input where
  "walking_input =
     \<lparr>main_controller = 1, switch_method = 1, swing_leg_retraction = Fin 0.1, stance_leg_extension = Fin 0,
      leg_length = Fin 0.9, torso_angle = Fin 0, in_q1 = Fin 1.3, in_q2 = Fin 1.5, in_q3 = Fin 1.7, in_q4 = Fin 1.9,
      leg_pos_kp = Fin 300, leg_for_kp = Fin 0, leg_for_ki = Fin 0, leg_pos_kd = Fin 30, leg_for_kd = Fin 50,
      hip_pos_kp = Fin 150, left_toe_pos = Fin 2.15, hip_pos_kd = Fin 10, right_toe_pos = Fin 2.45,
      in_qvpp = Fin 0, in_rvpp = Fin 0, current_limit = Fin 40, velocity_limit = Fin 10, deflection_limit = Fin 1,
      flight_to = 1, flight_td = 0\<rparr>"

definition zero_memory :: slip_walking where
  "zero_memory = atc.extend (new_ATC (Fin 0))
     (slip_walking.fields walking_input \<lparr>st_isEnabled = False, st_walking_state = Fin 0\<rparr> 0
       \<lparr>ascPDLmA = new_ASCPD, ascPDLmB = new_ASCPD, ascPDRmA = new_ASCPD, ascPDRmB = new_ASCPD,
        ascPDLh = new_ASCPD, ascPDRh = new_ASCPD\<rparr>
       \<lparr>ascRateLimitLmA = Fin 0, ascRateLimitLmB = Fin 0, ascRateLimitRmA = Fin 0, ascRateLimitRmB = Fin 0,
        ascRateLimitLh = Fin 0, ascRateLimitRh = Fin 0, ascRateLimitLr0 = Fin 0, ascRateLimitRr0 = Fin 0\<rparr>
       0 0 0 (Fin 0) (Fin 0) (Fin 0) (Fin 0) (Fin 0) (Fin 0) (Fin 0) (Fin 0) (Fin 0) (Fin 0) (Fin 0)
       \<lparr>lr_left = Fin 0, lr_right = Fin 0\<rparr> (Fin 0) (Fin 0) (Fin 0) (Fin 0) (Fin 0) (Fin 0) (Fin 0) (Fin 0) False
       [] [] (Fin 0) (Fin 0) (Fin 0) (Fin 0) (Fin 0) (Fin 0) False False)"

definition started_walking :: slip_walking where
  "started_walking = new_ATCSlipWalking zero_memory"

lemma started_simps [simp]:
  "walkingState started_walking = 3" "sw_guiIn started_walking = walking_input" "sPrev started_walking = Fin 0"
  "rFilteredToe started_walking = replicate 120 (Fin 5000)" "lFilteredToe started_walking = replicate 120 (Fin 5000)"
  by (simp_all add: started_walking_def new_ATCSlipWalking_def setStartupEnabled_def zero_memory_def atc.defs slip_walking.defs)

definition pitched_state :: robot_state where
  "pitched_state = robot_state_zero\<lparr>position := robot_state_location_zero\<lparr>bodyPitch := Fin (2 * M_PI)\<rparr>\<rparr>"

lemma gait_refinement_witness:
  "gait_of (walkingState (slip_controller (started_walking\<lparr>atc_rs := pitched_state\<rparr>))) = Single RightLeg"
proof -
  let ?s = "started_walking\<lparr>atc_rs := pitched_state\<rparr>"
  define t where "t = updateToes (updateController ?s)"
  have "atc_rs t = pitched_state" using kept_simps(1) [of t ?s] by (simp add: t_def slip_frame)
  moreover have "isManualSwingLegTO t"
    by (simp add: t_def updateToes_def updateController_def Let_def walking_input_def)
  ultimately have "lifts t LeftLeg"
    by (simp add: lifts_def world_leg_def rs_leg_def pitched_state_def robot_state_zero_def robot_state_leg_zero_def
        robot_state_legHalf_zero_def motorPos_Fin torso_tilt_def)
  then show ?thesis
    using gait_refinement [OF _ t_def] by (simp add: valid_gait_def gait_of_def gait_next_def walking_input_def)
qed

lemma legs_alternate_witness:
  "\<bar>int (takeoffs RightLeg (slip_gaits biped1 started_walking (replicate 9 (0, walking_input, pitched_state)))) -
    int (takeoffs LeftLeg (slip_gaits biped1 started_walking (replicate 9 (0, walking_input, pitched_state))))\<bar> \<le> 1"
  by (rule legs_alternate) (simp_all add: valid_gait_def walks_def walking_input_def list_all_iff)

lemma stance_force_rates_witness:
  "((\<lambda>t. real_of_dbl (fx (case ct_legForce (Fin KS) (Fin (sin t / 2)) (Fin (1 / 2)) (Fin (1 / 2)) of
      (fa, dfa) \<Rightarrow> stance_force fa dfa (Fin t) (Fin 1)))) has_real_derivative
    real_of_dbl (dfx (case ct_legForce (Fin KS) (Fin (sin 0 / 2)) (Fin (1 / 2)) (Fin (1 / 2)) of
      (fa, dfa) \<Rightarrow> stance_force fa dfa (Fin 0) (Fin 1)))) (at 0)"
proof -
  have "((\<lambda>t. sin t / 2) has_real_derivative 1 / 2) (at 0)"
    by (rule derivative_eq_intros refl | simp)+
  moreover have "\<bar>sin t / 2\<bar> < (1::real)" for t :: real
    using abs_sin_le_one [of t] by (simp only: abs_divide abs_numeral)
  ultimately show ?thesis
    using stance_force_rates [of "\<lambda>t. sin t / 2" "1 / 2" 0 "\<lambda>t. t" 1 "1 / 2"] by simp
qed

lemma swing_trajectory_witness:
  "swing_angle (Fin 2) (Fin 1) (Fin 1) (Fin 1.5) = (Fin 1, Fin 1.5) \<and>
   swing_length (Fin 0.95) (Fin 0.8) (Fin 0.9) (Fin 0) (Fin 1.5) = (Fin 0.95, Fin (- 1.5))"
  using swing_trajectory [of 0 1 2 1 "1.5" "0.95" "0.8" "0.9"] by simp

lemma swing_progress_witness:
  "sw_s (legSwingController RightLeg LeftLeg (started_walking\<lparr>atc_rs := pitched_state, sw_q2 := Fin 1, sw_q3 := Fin 2\<rparr>)) =
   Fin (max 0 (M_PI / 2 - 1))"
  using swing_progress [of RightLeg "started_walking\<lparr>atc_rs := pitched_state, sw_q2 := Fin 1, sw_q3 := Fin 2\<rparr>" 0 0 "2 * M_PI" 1 2 0 LeftLeg]
  by (simp add: rs_leg_def pitched_state_def robot_state_zero_def robot_state_leg_zero_def robot_state_legHalf_zero_def)

lemma toe_no_false_touchdown_witness:
  "toe_run (map Fin (replicate 120 400)) [300, 900, 700, 310] = [False, False, False, False]"
  using toe_no_false_touchdown [of "replicate 120 400" 300 "[300, 900, 700, 310]"] by simp

lemma toe_glitch_lands_witness:
  "toe_run (map Fin (replicate 120 400)) [4095] = [True]"
  using toe_glitch_lands [of "replicate 120 400"] by simp

lemma slip_outputs_witness:
  "\<forall>x \<in> {motorCurrentA (co_lLeg (atc_co (slip_controller started_walking)))}. x = NaN \<or> (\<exists>r. x = Fin r \<and> \<bar>r\<bar> \<le> 40)"
  using slip_outputs [of started_walking 40] by (simp add: walking_input_def)

end
