(* ===== verification/Deadbeat.thy ===== *)
theory Deadbeat
  imports SlipWalking
begin

text \<open>
  The controller ATCDeadbeatControl: the walking controller ATCSlipWalking with touchdown angles that
  depend on the speed, an energy term in the stance force, and the force sub-controller ASCLegForce in place of the
  feedback linearisation. Functions whose text is that of ATCSlipWalking are those of \<open>SlipWalking\<close>.
\<close>

subsection \<open>State\<close>

record deadbeat = slip_walking +
  db_v0 :: dbl
  PoincareSecUpdateFlag :: int
  E_ref :: dbl
  E_current :: dbl
  SpringWork :: dbl
  db_ft :: dbl
  db_dft :: dbl
  ascLegForceL :: ASCLegForce
  ascLegForceR :: ASCLegForce

text \<open>The touchdown and takeoff angles of the gait for a speed.\<close>

definition gait_angles :: "dbl \<Rightarrow> dbl \<times> dbl \<times> dbl \<times> dbl" where
  "gait_angles v =
     (Fin (- 0.639203343) * dbl_cube v + Fin 1.50730784 * dbl_sq v - Fin 1.030411268 * v + Fin 1.411227299,
      Fin (- 0.708299727) * dbl_cube v + Fin 1.704598815 * dbl_sq v - Fin 1.1412168 * v + Fin 1.566854326,
      Fin 0.708299726 * dbl_cube v - Fin 1.704598815 * dbl_sq v + Fin 1.1412168 * v + Fin 1.574738327,
      Fin 0.639203343 * dbl_cube v - Fin 1.50730784 * dbl_sq v + Fin 1.030411268 * v + Fin 1.730365355)"

definition set_angles :: "dbl \<times> dbl \<times> dbl \<times> dbl \<Rightarrow> 'c slip_walking_scheme \<Rightarrow> 'c slip_walking_scheme" where
  "set_angles q s = (case q of (a, b, c, d) \<Rightarrow> s\<lparr>sw_q1 := a, sw_q2 := b, sw_q3 := c, sw_q4 := d\<rparr>)"

text \<open>The constructor; \<open>mem\<close> as for ATCSlipWalking.\<close>

definition new_ATCDeadbeatControl :: "deadbeat \<Rightarrow> deadbeat" where
  "new_ATCDeadbeatControl mem =
     (let s = snd (setStartupEnabled True mem);
          s = s\<lparr>legRateLimit := Fin 0.5, hipRateLimit := Fin 0.5, springRateLimit := Fin 0.3,
                walkingState := 3, sw_s := Fin 0, sPrev := Fin 0,
                rFilteredToe := replicate 120 (Fin 5000), lFilteredToe := replicate 120 (Fin 5000)\<rparr>;
          s = s\<lparr>PoincareSecUpdateFlag := 0\<rparr>;
          s = set_angles (gait_angles (Fin 0.5)) s
      in s\<lparr>db_ft := Fin 0, db_dft := Fin 0, ascLegForceL := new_ASCLegForce, ascLegForceR := new_ASCLegForce\<rparr>)"

subsection \<open>The functions that differ\<close>

definition db_updateController :: "'c deadbeat_scheme \<Rightarrow> 'c deadbeat_scheme" where
  "db_updateController s =
     (let gui = sw_guiIn s;
          s = (if \<not> isEnabled s \<or> controllerState s \<noteq> uint (main_controller gui)
               then s\<lparr>sw_rates := reset_rates (atc_rs s) (sw_r0 s) (sw_rates s)\<rparr> else s);
          s = s\<lparr>controllerState := uint (main_controller gui), switchMethod := uint (switch_method gui)\<rparr>;
          s = s\<lparr>swingLegRetraction := swing_leg_retraction gui, stanceLegExtension := stance_leg_extension gui,
                sw_r0 := leg_length gui, torsoAngle := torso_angle gui\<rparr>;
          pm = \<lparr>pd_P = leg_pos_kp gui, pd_D = leg_pos_kd gui\<rparr>;
          gains = (\<lambda>f. f\<lparr>lf_kp := leg_for_kp gui, lf_ki := leg_for_ki gui, lf_kd := leg_for_kd gui\<rparr>);
          s = s\<lparr>ascLegForceL := gains (ascLegForceL s), ascLegForceR := gains (ascLegForceR s)\<rparr>;
          ph = \<lparr>pd_P = hip_pos_kp gui, pd_D = hip_pos_kd gui\<rparr>;
          s = s\<lparr>sw_pds := \<lparr>ascPDLmA = pm, ascPDLmB = pm, ascPDRmA = pm, ascPDRmB = pm, ascPDLh = ph, ascPDRh = ph\<rparr>\<rparr>;
          s = s\<lparr>sw_qvpp := in_qvpp gui, sw_rvpp := in_rvpp gui\<rparr>;
          s = s\<lparr>currentLimit := current_limit gui, velocityLimit := velocity_limit gui,
                deflectionLimit := deflection_limit gui,
                isManualSwingLegTO := (flight_to gui \<noteq> 0), isManualSwingLegTD := (flight_td gui \<noteq> 0)\<rparr>
      in s\<lparr>sw_guiOut := \<lparr>st_isEnabled = isEnabled s, st_walking_state = of_int_dbl (walkingState s)\<rparr>\<rparr>)"

text \<open>The energy that is stored in the springs of a leg.\<close>

definition spring_work :: "robot_state_leg \<Rightarrow> dbl" where
  "spring_work leg =
     Fin (0.5 * 1600) * dbl_sq (legAngle (halfA leg) - motorAngle (halfA leg)) +
     Fin (0.5 * 1600) * dbl_sq (legAngle (halfB leg) - motorAngle (halfB leg))"

text \<open>The tangential force and its rate; the force stays zero.\<close>

definition energy_term :: "dbl \<Rightarrow> dbl \<Rightarrow> dbl \<Rightarrow> dbl \<Rightarrow> dbl \<Rightarrow> dbl" where
  "energy_term E Eref rvpp fa qSl =
     (if Fin 45 < fabs (E - Eref) then Fin 0
      else let dft = (if Fin 3.14159 / Fin 2 < qSl
                      then - rvpp * (E - Eref) * fa * fabs (dbl_cos qSl) * Fin 10 else Fin 0)
           in if Fin 5000 < dft then Fin 5000 else if dft < Fin (- 5000) then Fin (- 5000) else dft)"

definition leg_force_of :: "leg_side \<Rightarrow> 'c deadbeat_scheme \<Rightarrow> ASCLegForce" where
  "leg_force_of x s = (case x of LeftLeg \<Rightarrow> ascLegForceL s | RightLeg \<Rightarrow> ascLegForceR s)"

definition set_leg_force :: "leg_side \<Rightarrow> ASCLegForce \<Rightarrow> 'c deadbeat_scheme \<Rightarrow> 'c deadbeat_scheme" where
  "set_leg_force x f s = (case x of LeftLeg \<Rightarrow> s\<lparr>ascLegForceL := f\<rparr> | RightLeg \<Rightarrow> s\<lparr>ascLegForceR := f\<rparr>)"

definition db_stanceController :: "leg_side \<Rightarrow> leg_side \<Rightarrow> 'c deadbeat_scheme \<Rightarrow> 'c deadbeat_scheme" where
  "db_stanceController sl fl s =
     (let rs = atc_rs s; leg = rs_leg sl rs; fleg = rs_leg fl rs; gui = sw_guiIn s; pos = position rs;
          r0Sl = rate_limit (sw_r0 s) (springRateLimit s) (rate_r0 sl (sw_rates s));
          s = s\<lparr>sw_rates := set_rate_r0 sl r0Sl (sw_rates s)\<rparr>;
          (qSl, rSl) = motorPos2LegPos (legAngle (halfA leg)) (legAngle (halfB leg));
          (dqSl, drSl) = motorVel2LegVel (legAngle (halfA leg)) (legAngle (halfB leg))
                           (legVelocity (halfA leg)) (legVelocity (halfB leg));
          s = s\<lparr>sw_qb := bodyPitch pos\<rparr>;
          dqb = bodyPitchVelocity pos;
          qSl = qSl + torso_tilt (sw_qb s);
          dqSl = dqSl + dqb;
          (fa, dfa) = ct_legForce (Fin KS) rSl drSl r0Sl;
          forceSl = stance_force fa dfa qSl dqSl;
          s = s\<lparr>db_v0 := dbl_sqrt (dbl_sq (xVelocity pos) + dbl_sq (yVelocity pos) + dbl_sq (zVelocity pos))\<rparr>;
          s = s\<lparr>E_ref := sw_qvpp s, SpringWork := spring_work leg\<rparr>;
          s = (if walkingState s = 1 \<or> walkingState s = 3
               then s\<lparr>SpringWork := SpringWork s +
                        (Fin (0.5 * 1600) * dbl_sq (legAngle (halfA fleg) - motorAngle (halfA fleg)) +
                         Fin (0.5 * 1600) * dbl_sq (legAngle (halfB fleg) - motorAngle (halfB fleg)))\<rparr> else s);
          s = s\<lparr>E_current := Fin (0.5 * 58) * dbl_sq (db_v0 s) + SpringWork s + Fin (58 * 9.81) * (rSl * dbl_sin qSl)\<rparr>;
          s = s\<lparr>db_ft := Fin 0, db_dft := energy_term (E_current s) (E_ref s) (sw_rvpp s) fa qSl\<rparr>;
          f = stance_force (db_ft s) (db_dft s) qSl dqSl;
          forceSl = \<lparr>fx = fx forceSl + fx f, fz = fz forceSl + fz f, dfx = dfx forceSl + dfx f, dfz = dfz forceSl + dfz f\<rparr>;
          ((curA, curB), lf) = leg_force_control forceSl leg pos (leg_force_of sl s);
          s = set_leg_force sl lf s;
          push = (sw_q1 s - qSl) * leg_pos_kp gui + (Fin 0 - dqSl) * leg_pos_kd gui
      in set_currents sl (if qSl < sw_q1 s then (curA + push, curB + push) else (curA, curB)) s)"

definition db_update_angles :: "dbl \<Rightarrow> 'c deadbeat_scheme \<Rightarrow> 'c deadbeat_scheme" where
  "db_update_angles qSl s =
     (let s = s\<lparr>db_v0 := Fin 0.75\<rparr>
      in if fabs (qSl - Fin 3.14159 / Fin 2) < Fin 0.015 then
           (let s = (if Fin 1 < db_v0 s then s\<lparr>db_v0 := Fin 1\<rparr> else s);
                s = (if db_v0 s < Fin 0.4 then s\<lparr>db_v0 := Fin 0.4\<rparr> else s)
            in (set_angles (gait_angles (db_v0 s)) s)\<lparr>PoincareSecUpdateFlag := 1\<rparr>)
         else if PoincareSecUpdateFlag s \<noteq> 1 then
           (let s = s\<lparr>db_v0 := Fin 0.5\<rparr> in set_angles (gait_angles (db_v0 s)) s)
         else s)"

definition db_legSwingController :: "leg_side \<Rightarrow> leg_side \<Rightarrow> 'c deadbeat_scheme \<Rightarrow> 'c deadbeat_scheme" where
  "db_legSwingController sl fl s =
     (let leg = rs_leg sl (atc_rs s);
          (qSl, rSl) = motorPos2LegPos (legAngle (halfA leg)) (legAngle (halfB leg));
          (dqSl, drSl) = motorVel2LegVel (legAngle (halfA leg)) (legAngle (halfB leg))
                           (legVelocity (halfA leg)) (legVelocity (halfB leg));
          s = db_update_angles qSl s;
          s = s\<lparr>db_v0 := dbl_sqrt (dbl_sq (rSl * dqSl) + dbl_sq drSl)\<rparr>
      in swing_leg fl qSl s)"

definition db_resetFlightLegParameters :: "leg_side \<Rightarrow> 'c deadbeat_scheme \<Rightarrow> 'c deadbeat_scheme" where
  "db_resetFlightLegParameters fl s =
     (let leg = rs_leg fl (atc_rs s);
          s = s\<lparr>sw_rates := set_rate_r0 fl (rate_limit_reset (sw_r0 s) (rate_r0 fl (sw_rates s))) (sw_rates s)\<rparr>;
          s = s\<lparr>sw_s := Fin 0, sPrev := Fin 0\<rparr>;
          (q, r) = motorPos2LegPos (legAngle (halfA leg)) (legAngle (halfB leg));
          s = s\<lparr>qeFm := q, reFm := r\<rparr>
      in s\<lparr>qeFm := qeFm s + torso_tilt (sw_qb s)\<rparr>)"

definition db_detectStance :: "robot_state_leg \<Rightarrow> dbl list \<Rightarrow> bool" where
  "db_detectStance leg f \<longleftrightarrow>
     (let baseline = dbl_sum (drop 20 f) / (of_int_dbl (int (length f)) - Fin 20);
          threshold = Fin 500 + baseline
      in threshold < of_int_dbl (uint (toeSwitch leg)))"

subsection \<open>The functions that are the same\<close>

definition db_updateToeFilter :: "uint16 \<Rightarrow> dbl list \<Rightarrow> dbl list" where
  "db_updateToeFilter = updateToeFilter"

definition db_hipController :: "'c deadbeat_scheme \<Rightarrow> 'c deadbeat_scheme" where
  "db_hipController = hipController"

definition db_standingController :: "'c deadbeat_scheme \<Rightarrow> 'c deadbeat_scheme" where
  "db_standingController = standingController"

definition db_shutdownController :: "'c deadbeat_scheme \<Rightarrow> 'c deadbeat_scheme" where
  "db_shutdownController = shutdownController"

definition db_checkSafeties :: "'c deadbeat_scheme \<Rightarrow> 'c deadbeat_scheme" where
  "db_checkSafeties = checkSafeties"

definition db_singleSupportEvents :: "leg_side \<Rightarrow> leg_side \<Rightarrow> 'c deadbeat_scheme \<Rightarrow> 'c deadbeat_scheme" where
  "db_singleSupportEvents = single_support_events db_detectStance"

definition db_doubleSupportEvents :: "leg_side \<Rightarrow> leg_side \<Rightarrow> 'c deadbeat_scheme \<Rightarrow> 'c deadbeat_scheme" where
  "db_doubleSupportEvents = double_support_events db_resetFlightLegParameters"

subsection \<open>The controller\<close>

definition db_updateToes :: "'c deadbeat_scheme \<Rightarrow> 'c deadbeat_scheme" where
  "db_updateToes s = s
     \<lparr>rFilteredToe := db_updateToeFilter (toeSwitch (rLeg (atc_rs s))) (rFilteredToe s),
      lFilteredToe := db_updateToeFilter (toeSwitch (lLeg (atc_rs s))) (lFilteredToe s)\<rparr>"

definition db_walking_step :: "'c deadbeat_scheme \<Rightarrow> 'c deadbeat_scheme" where
  "db_walking_step =
     walk_by walkingState db_legSwingController db_stanceController db_singleSupportEvents db_doubleSupportEvents"

definition db_controller :: "'c deadbeat_scheme \<Rightarrow> 'c deadbeat_scheme" where
  "db_controller s =
     (let s = db_updateController s;
          s = db_updateToes s;
          s = db_hipController s;
          s = (if controllerState s = 0 then
                 db_standingController ((db_resetFlightLegParameters LeftLeg s)\<lparr>walkingState := 3\<rparr>)
               else if controllerState s = 1 then db_walking_step s
               else if controllerState s = 2 then
                 (db_resetFlightLegParameters LeftLeg (db_shutdownController s))\<lparr>walkingState := 3\<rparr>
               else s);
          s = db_checkSafeties s
      in s\<lparr>log_walkingState := word_of_int
             (if walkingState s = 2 then 3 else if walkingState s = 3 then 6 else walkingState s)\<rparr>)"

subsection \<open>What the functions leave alone\<close>

named_theorems db_frame

text \<open>The part of the state that the events read, without the angles.\<close>

definition db_settings :: "'c deadbeat_scheme \<Rightarrow> robot_state \<times> int \<times> int \<times> bool \<times> bool \<times> bool \<times> dbl list \<times> dbl list" where
  "db_settings s = (atc_rs s, walkingState s, switchMethod s, isTrigger s, isManualSwingLegTO s, isManualSwingLegTD s,
     lFilteredToe s, rFilteredToe s)"

definition db_angles :: "'c deadbeat_scheme \<Rightarrow> (dbl \<times> dbl \<times> dbl \<times> dbl) \<times> int" where
  "db_angles s = ((sw_q1 s, sw_q2 s, sw_q3 s, sw_q4 s), PoincareSecUpdateFlag s)"

lemma db_set [db_frame]:
  fixes s :: "'c deadbeat_scheme"
  shows "db_settings (set_currents x ab s) = db_settings s" "db_angles (set_currents x ab s) = db_angles s"
    "db_settings (set_hips l r s) = db_settings s" "db_angles (set_hips l r s) = db_angles s"
    "db_settings (set_leg_force x f s) = db_settings s" "db_angles (set_leg_force x f s) = db_angles s"
  by (cases x; cases s; simp add: set_currents_def set_hips_def set_leg_force_def db_settings_def db_angles_def)+

lemma db_swing_leg [db_frame]:
  fixes s :: "'c deadbeat_scheme"
  shows "db_settings (swing_leg x q s) = db_settings s" "db_angles (swing_leg x q s) = db_angles s"
  by (simp_all add: swing_leg_def Let_def split_beta db_frame) (simp_all add: db_settings_def db_angles_def)

lemma db_stance [db_frame]:
  fixes s :: "'c deadbeat_scheme"
  shows "db_settings (db_stanceController x y s) = db_settings s" "db_angles (db_stanceController x y s) = db_angles s"
  by (simp_all add: db_stanceController_def Let_def split_beta db_frame) (simp_all add: db_settings_def db_angles_def)

lemma db_update_angles_settings [db_frame]:
  fixes s :: "'c deadbeat_scheme"
  shows "db_settings (db_update_angles q s) = db_settings s"
  by (simp add: db_update_angles_def set_angles_def Let_def db_settings_def split_beta)

lemma db_swing [db_frame]:
  fixes s :: "'c deadbeat_scheme"
  shows "db_settings (db_legSwingController x y s) = db_settings s"
    "db_angles (db_legSwingController x y s) = db_angles (db_update_angles
      (fst (motorPos2LegPos (legAngle (halfA (rs_leg x (atc_rs s)))) (legAngle (halfB (rs_leg x (atc_rs s)))))) s)"
proof -
  have u: "db_settings (t\<lparr>db_v0 := v\<rparr>) = db_settings t" "db_angles (t\<lparr>db_v0 := v\<rparr>) = db_angles t"
    for t :: "'c deadbeat_scheme" and v by (simp_all add: db_settings_def db_angles_def)
  show "db_settings (db_legSwingController x y s) = db_settings s"
    "db_angles (db_legSwingController x y s) = db_angles (db_update_angles
      (fst (motorPos2LegPos (legAngle (halfA (rs_leg x (atc_rs s)))) (legAngle (halfB (rs_leg x (atc_rs s)))))) s)"
    by (simp_all add: db_legSwingController_def Let_def split_beta db_frame u)
qed

lemma db_reset_walkingState: "walkingState (db_resetFlightLegParameters y s) = walkingState s"
  by (simp add: db_resetFlightLegParameters_def Let_def split_beta)

lemma db_settings_simps:
  assumes "db_settings s = db_settings t"
  shows "atc_rs s = atc_rs t" "walkingState s = walkingState t" "switchMethod s = switchMethod t"
    "isTrigger s = isTrigger t" "isManualSwingLegTO s = isManualSwingLegTO t" "isManualSwingLegTD s = isManualSwingLegTD t"
    "filteredToe x s = filteredToe x t"
  using assms by (cases x; simp add: db_settings_def filteredToe_def)+

lemma db_events_cong:
  assumes "db_settings s = db_settings t" and "db_angles s = db_angles t"
  shows "lands_by detect s = lands_by detect t" and "lifts s = lifts t"
  using db_settings_simps [OF assms(1)] assms(2) by (simp_all add: fun_eq_iff lands_by_def lifts_def db_angles_def)

subsection \<open>The gait\<close>

text \<open>A touchdown is judged by the angles as the swing has set them, from the leg that stands.\<close>

definition db_lands :: "'c deadbeat_scheme \<Rightarrow> leg_side \<Rightarrow> bool" where
  "db_lands s x = lands_by db_detectStance (db_update_angles
     (fst (motorPos2LegPos (legAngle (halfA (rs_leg (other x) (atc_rs s)))) (legAngle (halfB (rs_leg (other x) (atc_rs s)))))) s) x"

interpretation db_walker: walker walkingState db_legSwingController db_stanceController
  db_singleSupportEvents db_doubleSupportEvents db_lands "lands_by db_detectStance" lifts
proof
  show "walkingState (db_legSwingController x y s) = walkingState s"
    "walkingState (db_stanceController x y s) = walkingState s" for x y and s :: "'a deadbeat_scheme"
    by (rule db_settings_simps(2), simp add: db_frame)+
  show "lands_by db_detectStance (db_stanceController x (other x) (db_legSwingController x (other x) s)) (other x) =
      db_lands s (other x)" for x and s :: "'a deadbeat_scheme"
    unfolding db_lands_def by (rule fun_cong [OF db_events_cong(1)]) (simp_all add: db_frame)
  show "lifts (db_stanceController x y (db_stanceController z w s)) = lifts s" for x y z w and s :: "'a deadbeat_scheme"
    by (rule db_events_cong) (simp_all add: db_frame)
qed (simp_all add: db_singleSupportEvents_def db_doubleSupportEvents_def single_support_walkingState
    double_support_walkingState db_reset_walkingState)

lemma db_update_frame [db_frame]:
  "walkingState (db_updateToes (db_updateController s)) = walkingState s"
  "controllerState (db_updateToes (db_updateController s)) = uint (main_controller (sw_guiIn s))"
  "db_angles (db_updateToes (db_updateController s)) = db_angles s"
  by (simp_all add: db_updateToes_def db_updateController_def Let_def db_angles_def)

lemma db_hip [db_frame]:
  fixes s :: "'c deadbeat_scheme"
  shows "db_settings (db_hipController s) = db_settings s" "db_angles (db_hipController s) = db_angles s"
    "controllerState (db_hipController s) = controllerState s"
  by (simp_all add: db_hipController_def settings_simps(1) [OF settings_ops(1)])
    (simp_all add: hipController_def Let_def split_beta db_frame, simp_all add: db_settings_def db_angles_def)

lemma db_checkSafeties [db_frame]:
  fixes s :: "'c deadbeat_scheme"
  shows "walkingState (db_checkSafeties s) = walkingState s" "db_angles (db_checkSafeties s) = db_angles s"
proof -
  show "walkingState (db_checkSafeties s) = walkingState s" by (simp add: db_checkSafeties_def slip_frame)
  have "db_angles (commandEStop t) = db_angles t" for t :: "'c deadbeat_scheme"
    by (simp add: commandEStop_def db_angles_def)
  then show "db_angles (db_checkSafeties s) = db_angles s"
    by (simp add: db_checkSafeties_def checkSafeties_def Let_def db_frame)
qed

lemma db_other_modes [db_frame]:
  fixes s :: "'c deadbeat_scheme"
  shows "db_angles (db_standingController s) = db_angles s" "db_angles (db_shutdownController s) = db_angles s"
    "db_angles (db_resetFlightLegParameters x s) = db_angles s"
    "db_angles (db_singleSupportEvents x y s) = db_angles s" "db_angles (db_doubleSupportEvents x y s) = db_angles s"
proof -
  show r: "db_angles (db_resetFlightLegParameters x s) = db_angles s" for x and s :: "'c deadbeat_scheme"
    by (simp add: db_resetFlightLegParameters_def Let_def split_beta db_angles_def)
  show "db_angles (db_standingController s) = db_angles s" "db_angles (db_shutdownController s) = db_angles s"
    by (simp_all add: db_standingController_def db_shutdownController_def standingController_def shutdownController_def
        Let_def split_beta db_frame) (simp add: db_angles_def)
  show "db_angles (db_singleSupportEvents x y s) = db_angles s" "db_angles (db_doubleSupportEvents x y s) = db_angles s"
    by (simp_all add: db_singleSupportEvents_def db_doubleSupportEvents_def single_support_events_def double_support_events_def
        Let_def split_beta r) (simp_all add: db_angles_def)
qed

lemma db_controller_walkingState:
  fixes s :: "'c deadbeat_scheme"
  defines "t \<equiv> db_hipController (db_updateToes (db_updateController s))"
  shows "walkingState (db_controller s) =
    (if main_controller (sw_guiIn s) = 0 \<or> main_controller (sw_guiIn s) = 2 then 3
     else if main_controller (sw_guiIn s) = 1 then walkingState (db_walking_step t) else walkingState s)"
proof -
  define m where "m = main_controller (sw_guiIn s)"
  have u: "uint m = 0 \<longleftrightarrow> m = 0" "uint m = 1 \<longleftrightarrow> m = 1" "uint m = 2 \<longleftrightarrow> m = 2"
    by (simp_all add: word_uint_eq_iff)
  have c: "controllerState t = uint m" "walkingState t = walkingState s"
    by (simp_all add: t_def db_frame m_def db_settings_simps(2) [OF db_hip(1)])
  show ?thesis
    unfolding db_controller_def Let_def t_def [symmetric] m_def [symmetric]
    by (simp add: db_frame c u) (simp add: db_standingController_def slip_frame)
qed

text \<open>
  The deadbeat controller refines the same gait, by the same interface.
\<close>

theorem deadbeat_gait_refinement:
  assumes "valid_gait (walkingState s)" and "t = db_hipController (db_updateToes (db_updateController s))"
  shows "valid_gait (walkingState (db_controller s)) \<and>
    gait_of (walkingState (db_controller s)) =
      (if main_controller (sw_guiIn s) = 1 then gait_next (db_lands t) (lifts t) (gait_of (walkingState s))
       else if main_controller (sw_guiIn s) \<in> {0, 2} then Double LeftLeg
       else gait_of (walkingState s))"
proof -
  have w: "walkingState t = walkingState s"
    by (simp add: assms(2) db_frame db_settings_simps(2) [OF db_hip(1)])
  show ?thesis
    using db_walker.refines [of t, folded db_walking_step_def] assms(1)
    by (simp add: db_controller_walkingState assms(2) [symmetric] w) (simp add: gait_of_def valid_gait_def)
qed

subsection \<open>The angles of the gait\<close>

lemma angle_left:
  fixes v :: real
  assumes "0 \<le> v" and "v \<le> 1"
  shows "- 0.639203343 * (v * v * v) + 1.50730784 * (v * v) - 1.030411268 * v + 1.411227299 <
      - 0.708299727 * (v * v * v) + 1.704598815 * (v * v) - 1.1412168 * v + 1.566854326"
    and "- 0.708299727 * (v * v * v) + 1.704598815 * (v * v) - 1.1412168 * v + 1.566854326 < 1.57"
proof -
  have v: "0 \<le> v * v" "v * v * v \<le> v * v" using assms by (simp_all add: mult_left_le)
  have ord: "- 0.639203343 * c + 1.50730784 * w - 1.030411268 * x + 1.411227299 <
      - 0.708299727 * c + 1.704598815 * w - 1.1412168 * x + 1.566854326" if "0 \<le> w" "c \<le> w" "x \<le> 1" for c w x :: real
    using that by (simp add: field_simps)
  have "v * v - 2.4066 * v + 1.44793089 = (v - 1.2033) * (v - 1.2033)" by (simp add: algebra_simps)
  then have "0 \<le> v * v - 2.4066 * v + 1.44793089" by simp
  then have "0 \<le> 0.708299727 * (v * v) - 1.704598815 * v + 1.1412168"
    using assms by (simp add: field_simps)
  then have "0 \<le> v * (0.708299727 * (v * v) - 1.704598815 * v + 1.1412168)" using assms(1) by simp
  then have "0 \<le> 0.708299727 * (v * v * v) - 1.704598815 * (v * v) + 1.1412168 * v"
    by (simp only: right_diff_distrib distrib_left ac_simps)
  then show "- 0.708299727 * (v * v * v) + 1.704598815 * (v * v) - 1.1412168 * v + 1.566854326 < 1.57"
    by simp
  show "- 0.639203343 * (v * v * v) + 1.50730784 * (v * v) - 1.030411268 * v + 1.411227299 <
      - 0.708299727 * (v * v * v) + 1.704598815 * (v * v) - 1.1412168 * v + 1.566854326"
    by (rule ord) (rule v assms)+
qed

text \<open>
  The gaits for speeds up to 1: the angles of takeoff and touchdown are ordered around
  the vertical, and symmetric about it to eight digits.
\<close>

theorem gait_angles_ordered:
  assumes "0 \<le> v" and "v \<le> 1"
  shows "\<exists>a b c d. gait_angles (Fin v) = (Fin a, Fin b, Fin c, Fin d) \<and>
    a < b \<and> b < M_PI / 2 \<and> M_PI / 2 < c \<and> c < d \<and> \<bar>a + d - M_PI\<bar> < 1 / 10 ^ 8 \<and> \<bar>b + c - M_PI\<bar> < 1 / 10 ^ 8"
proof -
  have v: "0 \<le> v * v * v" "v * v * v \<le> 1" using assms by (simp_all add: mult_le_one)
  show ?thesis
    using angle_left [OF assms] v
    by (simp add: gait_angles_def dbl_cube_def dbl_sq_def M_PI_def)
qed

text \<open>Calls by RT Ops, as for ATCSlipWalking.\<close>

definition db_call :: "robot_variant \<Rightarrow> deadbeat \<Rightarrow> slip_call \<Rightarrow> deadbeat" where
  "db_call v s call = (case call of (now, gui, rs) \<Rightarrow>
     snd (runController v True True db_controller now rs (s\<lparr>sw_guiIn := gui\<rparr>)))"

definition two_gaits :: "'c deadbeat_scheme \<Rightarrow> bool" where
  "two_gaits s \<longleftrightarrow>
     PoincareSecUpdateFlag s \<in> {0, 1} \<and>
     (sw_q1 s, sw_q2 s, sw_q3 s, sw_q4 s) =
       gait_angles (if PoincareSecUpdateFlag s = 1 then Fin 0.75 else Fin 0.5)"

lemma two_gaits_cong: "db_angles s = db_angles t \<Longrightarrow> two_gaits s = two_gaits t"
  by (simp add: two_gaits_def db_angles_def)

lemma two_gaits_update: "two_gaits s \<Longrightarrow> two_gaits (db_update_angles q s)"
  by (auto simp: two_gaits_def db_update_angles_def Let_def set_angles_def split_beta)

lemma two_gaits_swing: "two_gaits s \<Longrightarrow> two_gaits (db_legSwingController x y s)"
  by (subst two_gaits_cong [OF db_swing(2)]) (rule two_gaits_update)

lemma two_gaits_stance: "two_gaits (db_stanceController x y s) = two_gaits s"
  by (rule two_gaits_cong) (rule db_frame)

lemma two_gaits_step: "two_gaits s \<Longrightarrow> two_gaits (db_walking_step s)"
  by (simp add: db_walking_step_def walk_by_def two_gaits_cong [OF db_other_modes(4)] two_gaits_cong [OF db_other_modes(5)]
      two_gaits_stance two_gaits_swing)

lemma two_gaits_controller:
  assumes "two_gaits s"
  shows "two_gaits (db_controller s)"
proof -
  have w: "db_angles (u\<lparr>walkingState := w\<rparr>) = db_angles u" "db_angles (u\<lparr>log_walkingState := l\<rparr>) = db_angles u"
    for u :: "'a deadbeat_scheme" and w l by (simp_all add: db_angles_def)
  define t where "t = db_hipController (db_updateToes (db_updateController s))"
  have t: "two_gaits t" using assms by (simp add: t_def two_gaits_cong [OF db_hip(2)] two_gaits_cong [OF db_update_frame(3)])
  show ?thesis
    unfolding db_controller_def Let_def t_def [symmetric]
    by (simp add: two_gaits_cong [OF w(1)] two_gaits_cong [OF w(2)] two_gaits_cong [OF db_checkSafeties(2)]
        two_gaits_cong [OF db_other_modes(1)] two_gaits_cong [OF db_other_modes(2)] two_gaits_cong [OF db_other_modes(3)]
        two_gaits_step t)
qed

lemma two_gaits_more:
  fixes s t :: deadbeat
  assumes "atc.more s = atc.more t"
  shows "two_gaits s = two_gaits t"
  using assms by (cases s; cases t; simp add: two_gaits_def)

lemma two_gaits_call:
  assumes "two_gaits s"
  shows "two_gaits (db_call v s c)"
proof -
  obtain now gui rs where c: "c = (now, gui, rs)" by (cases c)
  have "two_gaits (s\<lparr>sw_guiIn := gui\<rparr>)" using assms by (simp add: two_gaits_def)
  then have "two_gaits (atc_enter rs (s\<lparr>sw_guiIn := gui\<rparr>))"
    by (subst two_gaits_more [OF atc_more_frame(3)])
  then have u: "two_gaits (db_controller (atc_enter rs (s\<lparr>sw_guiIn := gui\<rparr>)))" by (rule two_gaits_controller)
  have "atc.more (db_call v s c) = atc.more (db_controller (atc_enter rs (s\<lparr>sw_guiIn := gui\<rparr>)))"
    by (simp add: c db_call_def runController_def Let_def slip_frame)
  from two_gaits_more [OF this] u show ?thesis by simp
qed

text \<open>
  The deadbeat controller knows two gaits only: in every run from its construction the angles are those of the
  speed 0.5 until the stance leg first passes the vertical in a swing, and those of the speed 0.75 from then on, whatever
  speed the robot has: the measured speed is overwritten with a constant before the table is read.
\<close>

theorem deadbeat_two_gaits:
  "two_gaits (run (db_call v) (new_ATCDeadbeatControl mem) calls)"
proof (rule run_invariant [of two_gaits])
  show "two_gaits (new_ATCDeadbeatControl mem)"
    by (simp add: two_gaits_def new_ATCDeadbeatControl_def set_angles_def gait_angles_def Let_def)
qed (rule two_gaits_call)

subsection \<open>Outputs\<close>

text \<open>What the safety checks use.\<close>

definition db_limits :: "'c deadbeat_scheme \<Rightarrow> robot_state \<times> uint8 \<times> dbl \<times> dbl" where
  "db_limits s = (atc_rs s, co_command (atc_co s), currentLimit s, velocityLimit s)"

lemma db_limits_set:
  fixes s :: "'c deadbeat_scheme"
  shows "db_limits (s\<lparr>sw_qb := x\<rparr>) = db_limits s" "db_limits (s\<lparr>sw_s := x\<rparr>) = db_limits s"
    "db_limits (s\<lparr>sPrev := x\<rparr>) = db_limits s" "db_limits (s\<lparr>db_v0 := x\<rparr>) = db_limits s"
    "db_limits (s\<lparr>PoincareSecUpdateFlag := n\<rparr>) = db_limits s" "db_limits (s\<lparr>sw_rates := r\<rparr>) = db_limits s"
    "db_limits (s\<lparr>qeFm := x\<rparr>) = db_limits s" "db_limits (s\<lparr>reFm := x\<rparr>) = db_limits s"
    "db_limits (s\<lparr>E_ref := x\<rparr>) = db_limits s" "db_limits (s\<lparr>E_current := x\<rparr>) = db_limits s"
    "db_limits (s\<lparr>SpringWork := x\<rparr>) = db_limits s" "db_limits (s\<lparr>db_ft := x\<rparr>) = db_limits s"
    "db_limits (s\<lparr>db_dft := x\<rparr>) = db_limits s" "db_limits (s\<lparr>walkingState := n\<rparr>) = db_limits s"
    "db_limits (s\<lparr>isTrigger := c\<rparr>) = db_limits s" "db_limits (set_angles q s) = db_limits s"
    "db_limits (set_leg_force z f s) = db_limits s" "db_limits (set_currents z ab s) = db_limits s"
    "db_limits (set_hips l h s) = db_limits s" "db_limits (s\<lparr>toePosition := p\<rparr>) = db_limits s"
  by (simp_all add: db_limits_def set_angles_def set_leg_force_def set_currents_def set_hips_def split_beta split: leg_side.split)

lemma db_limits_ops:
  "db_limits (db_update_angles q s) = db_limits s" "db_limits (swing_leg y q s) = db_limits s"
  "db_limits (db_legSwingController x y s) = db_limits s" "db_limits (db_stanceController x y s) = db_limits s"
  "db_limits (db_resetFlightLegParameters x s) = db_limits s"
proof -
  show a: "db_limits (db_update_angles q s) = db_limits s" for q and s :: "'a deadbeat_scheme"
    by (simp add: db_update_angles_def Let_def db_limits_set)
  show b: "db_limits (swing_leg y q s) = db_limits s" for y q and s :: "'a deadbeat_scheme"
    by (simp add: swing_leg_def Let_def split_beta db_limits_set)
  show "db_limits (db_legSwingController x y s) = db_limits s"
    by (simp add: db_legSwingController_def Let_def split_beta db_limits_set a b)
  show "db_limits (db_stanceController x y s) = db_limits s"
    by (simp add: db_stanceController_def Let_def split_beta db_limits_set)
  show "db_limits (db_resetFlightLegParameters x s) = db_limits s"
    by (simp add: db_resetFlightLegParameters_def Let_def split_beta db_limits_set)
qed

lemma db_limits_modes:
  "db_limits (db_singleSupportEvents x y s) = db_limits s" "db_limits (db_doubleSupportEvents x y s) = db_limits s"
  "db_limits (db_standingController s) = db_limits s" "db_limits (db_shutdownController s) = db_limits s"
  "db_limits (db_hipController s) = db_limits s"
      apply (simp_all add: db_singleSupportEvents_def db_doubleSupportEvents_def single_support_events_def
      double_support_events_def Let_def split_beta db_limits_ops db_limits_set)
    apply (simp_all add: db_standingController_def db_shutdownController_def db_hipController_def standingController_def
      shutdownController_def hipController_def Let_def split_beta db_limits_set)
  done

text \<open>The settings that the limits come from are read in every call.\<close>

lemma db_limits_inputs:
  "db_limits (db_updateToes s) = db_limits s"
  "db_limits (db_updateController s) =
     (atc_rs s, co_command (atc_co s), current_limit (sw_guiIn s), velocity_limit (sw_guiIn s))"
proof -
  show "db_limits (db_updateToes s) = db_limits s" by (simp add: db_limits_def db_updateToes_def)
  show "db_limits (db_updateController s) =
     (atc_rs s, co_command (atc_co s), current_limit (sw_guiIn s), velocity_limit (sw_guiIn s))"
  proof (cases "\<not> isEnabled s \<or> controllerState s \<noteq> uint (main_controller (sw_guiIn s))")
    case True
    then show ?thesis unfolding db_updateController_def Let_def by (simp add: db_limits_def)
  next
    case False
    then show ?thesis unfolding db_updateController_def Let_def by (simp add: db_limits_def)
  qed
qed

lemma db_controller_safeties:
  fixes s :: "'c deadbeat_scheme"
  obtains u :: "'c deadbeat_scheme" where "atc_co (db_controller s) = atc_co (db_checkSafeties u)"
    and "db_limits u = (atc_rs s, co_command (atc_co s), current_limit (sw_guiIn s), velocity_limit (sw_guiIn s))"
proof
  let ?t = "db_hipController (db_updateToes (db_updateController s))"
  let ?u = "if controllerState ?t = 0 then
         db_standingController ((db_resetFlightLegParameters LeftLeg ?t)\<lparr>walkingState := 3\<rparr>)
       else if controllerState ?t = 1 then db_walking_step ?t
       else if controllerState ?t = 2 then
         (db_resetFlightLegParameters LeftLeg (db_shutdownController ?t))\<lparr>walkingState := 3\<rparr>
       else ?t"
  show "atc_co (db_controller s) = atc_co (db_checkSafeties ?u)" by (simp add: db_controller_def Let_def)
  have "db_limits (db_walking_step t) = db_limits t" for t :: "'c deadbeat_scheme"
    by (simp add: db_walking_step_def walk_by_def db_limits_modes db_limits_ops)
  then have "db_limits ?u = db_limits (db_updateToes (db_updateController s))"
    by (simp add: db_limits_set db_limits_modes db_limits_ops)
  then show "db_limits ?u = (atc_rs s, co_command (atc_co s), current_limit (sw_guiIn s), velocity_limit (sw_guiIn s))"
    by (simp add: db_limits_inputs)
qed

lemma db_controller_command:
  "co_command (atc_co (db_controller s)) =
     (if moves_faster (velocity_limit (sw_guiIn s)) (atc_rs s) then medulla_state_error else co_command (atc_co s))"
proof (rule db_controller_safeties [of s])
  fix u assume u: "atc_co (db_controller s) = atc_co (db_checkSafeties u)"
    "db_limits u = (atc_rs s, co_command (atc_co s), current_limit (sw_guiIn s), velocity_limit (sw_guiIn s))"
  show ?thesis using u(2) by (simp add: u(1) db_checkSafeties_def checkSafeties_co(1) db_limits_def)
qed

subsection \<open>Energy\<close>

text \<open>
  The energy term is bounded: with finite arguments it is a number between -5000 and 5000; it is zero when the energy
  is more than 45 J away from the wanted one and while the stance leg has not passed the vertical; and without the
  bound it has the sign that opposes the deviation for a pushing leg and a positive gain.
\<close>

theorem energy_term_bounded:
  assumes "e = energy_term (Fin E) (Fin Er) (Fin k) (Fin fa) (Fin q)"
  shows "\<exists>d. e = Fin d \<and> \<bar>d\<bar> \<le> 5000 \<and> (45 < \<bar>E - Er\<bar> \<or> q \<le> 3.14159 / 2 \<longrightarrow> d = 0) \<and>
    (0 < k \<and> 0 < fa \<longrightarrow> d * (E - Er) \<le> 0)"
proof -
  define x where "x = - k * (E - Er) * fa * \<bar>cos q\<bar> * 10"
  have sign: "x * (E - Er) \<le> 0" if "0 < k" "0 < fa"
  proof -
    have "x * (E - Er) = - (k * fa * \<bar>cos q\<bar> * 10 * ((E - Er) * (E - Er)))" by (simp add: x_def algebra_simps)
    then show ?thesis using that by simp
  qed
  have cap: "min 5000 (max (- 5000) x) * (E - Er) \<le> 0" if "0 < k" "0 < fa"
    using sign [OF that] by (auto simp: min_def max_def mult_le_0_iff)
  have "e = Fin (if 45 < \<bar>E - Er\<bar> \<or> q \<le> 3.14159 / 2 then 0 else min 5000 (max (- 5000) x))"
    unfolding assms energy_term_def Let_def
    by (simp only: fin_only fabs.simps less_dbl.simps x_def [symmetric] if_distrib [of Fin] zero_neq_numeral [symmetric] not_False_eq_True)
      (auto simp: min_def max_def)
  then show ?thesis using cap by (auto simp: min_def max_def abs_if)
qed

lemma deadbeat_gait_refinement_witness:
  "valid_gait (walkingState (db_controller (slip_walking.extend started_walking (deadbeat.fields (Fin 0) 0 (Fin 0) (Fin 0)
     (Fin 0) (Fin 0) (Fin 0) new_ASCLegForce new_ASCLegForce) :: deadbeat)))"
  by (rule deadbeat_gait_refinement [OF _ refl, THEN conjunct1])
    (simp add: valid_gait_def started_walking_def new_ATCSlipWalking_def setStartupEnabled_def zero_memory_def
      slip_walking.defs atc.defs deadbeat.defs)

lemma gait_angles_ordered_witness:
  "\<exists>a b c d. gait_angles (Fin 0.75) = (Fin a, Fin b, Fin c, Fin d) \<and> a < b \<and> c < d"
  using gait_angles_ordered [of "0.75"] by auto

lemma energy_term_bounded_witness:
  "\<exists>d. energy_term (Fin 520) (Fin 500) (Fin 2) (Fin 100) (Fin 2) = Fin d \<and> \<bar>d\<bar> \<le> 5000 \<and> d \<le> 0"
  using energy_term_bounded [OF refl, of 520 500 2 100 2] by auto

end
