(* ===== verification/LoadedControllers.thy ===== *)
theory LoadedControllers
  imports RtOps CanonicalWalking StabilizedStanding Deadbeat
begin

text \<open>
  A top-level controller as RT Ops runs it: what happens to the robot when a controller commands the emergency stop. The
  locale states the contract, that a controller commands the stop when a limit of the operator is exceeded; the
  controllers with safety checks fulfil it.
\<close>

subsection \<open>Controllers as RT Ops sees them\<close>

definition loaded :: "robot_variant \<Rightarrow> ('c atc_scheme \<Rightarrow> 'c atc_scheme) \<Rightarrow> nsecs \<Rightarrow> 'c atc_scheme \<Rightarrow> controller" where
  "loaded v controller now s = (\<lambda>rs. fst (runController v True True controller now rs s))"

lemma startupController_command: "co_command (atc_co (startupController v s)) = co_command (atc_co s)"
  by (simp add: startupController_def Let_def)

lemma loaded_command: "co_command (loaded v c now s rs) = co_command (atc_co (c (atc_enter rs s)))"
  by (simp add: loaded_def runController_def Let_def startupController_command)

text \<open>When the loaded controller commands the emergency stop, the robot stops in the same iteration.\<close>

lemma commanded_stop:
  assumes "currentState m = ENABLED" and "controllerLoaded m" and "co_command (ctl (robotState m)) = medulla_state_error"
  shows "currentState (loop_body v ctl now m) = E_STOP \<and>
    (\<exists>sent. sentOutputs (loop_body v ctl now m) = sentOutputs m @ [sent] \<and> co_command sent \<noteq> medulla_state_run \<and>
      co_lLeg sent = controller_output_leg_zero \<and> co_rLeg sent = controller_output_leg_zero)"
proof -
  have a: "controller_answer ctl m = ctl (robotState m)" using assms(2) by (simp add: controller_answer_def)
  have "iteration_command ENABLED h (ctl (robotState m)) \<noteq> medulla_state_run" for h
    using assms(3) by (simp add: iteration_command_def consts_simp)
  then show ?thesis using assms
    by (simp add: loop_body_currentState calcState_on_currentState loop_body_sent a disable_unless_run_def
        clampControllerOutput_def zero_leg_eq)
qed

subsection \<open>Controllers with safety checks\<close>

locale guarded_controller =
  fixes controller :: "'c atc_scheme \<Rightarrow> 'c atc_scheme" and over :: "'c atc_scheme \<Rightarrow> bool"
  assumes stops: "over s \<Longrightarrow> co_command (atc_co (controller s)) = medulla_state_error"
begin

lemma robot_stops:
  assumes "currentState m = ENABLED" and "controllerLoaded m" and "over (atc_enter (robotState m) s)"
  shows "currentState (loop_body v (loaded v controller now s) now m) = E_STOP \<and>
    (\<exists>sent. sentOutputs (loop_body v (loaded v controller now s) now m) = sentOutputs m @ [sent] \<and>
      co_command sent \<noteq> medulla_state_run \<and>
      co_lLeg sent = controller_output_leg_zero \<and> co_rLeg sent = controller_output_leg_zero)"
  using assms by (intro commanded_stop) (simp_all add: loaded_command stops)

end

text \<open>The limits of the velocities in the operator's messages of the four controllers.\<close>

definition slip_over :: "'c slip_walking_scheme \<Rightarrow> bool" where
  "slip_over s \<longleftrightarrow> moves_faster (velocity_limit (sw_guiIn s)) (atc_rs s)"

definition standing_over :: "stabilized_standing \<Rightarrow> bool" where
  "standing_over s \<longleftrightarrow> moves_faster (ss_velocity_limit (ss_guiIn s)) (atc_rs s) \<or>
     deflected_over (ss_deflection_limit (ss_guiIn s)) (atc_rs s)"

interpretation slip_guard: guarded_controller slip_controller slip_over
  by standard (simp add: slip_controller_co checkSafeties_co before_safeties_limits slip_over_def)

interpretation standing_guard: guarded_controller ss_controller standing_over
  by standard (simp add: ss_controller_command standing_over_def)

interpretation canonical_guard: guarded_controller cw_controller over_limits
  by standard (simp add: cw_controller_command)

interpretation deadbeat_guard: guarded_controller db_controller slip_over
  by standard (simp add: db_controller_command slip_over_def)

text \<open>An enabled robot at rest but for the rotor of the left motor A.\<close>

definition spinning_machine :: "real \<Rightarrow> rt_ops" where
  "spinning_machine w = enabled_machine\<lparr>robotState := robot_state_zero
     \<lparr>lLeg := robot_state_leg_zero\<lparr>halfA := (halfA robot_state_leg_zero)\<lparr>rotorVelocity := Fin w\<rparr>\<rparr>\<rparr>\<rparr>"

lemma over_enter:
  "slip_over (atc_enter rs s) \<longleftrightarrow> moves_faster (velocity_limit (sw_guiIn s)) rs"
  "standing_over (atc_enter rs t) \<longleftrightarrow> moves_faster (ss_velocity_limit (ss_guiIn t)) rs \<or>
     deflected_over (ss_deflection_limit (ss_guiIn t)) rs"
  "over_limits (atc_enter rs u) \<longleftrightarrow> moves_faster (maxSpeed (cw_guiIn u)) rs \<or> deflected_over (maxDefl (cw_guiIn u)) rs"
  by (simp_all add: slip_over_def standing_over_def over_limits_def atc_enter_def Let_def)

text \<open>
  C6. When a rotor or a hip of an enabled robot moves faster than the operator's limit in the loaded walking
  or standing controller, in whatever mode or phase of its start-up the controller is, RT Ops is in
  E_STOP after the same iteration of its loop, and what it sends does not run the motors and has zero currents.
\<close>

theorem overspeed_stops_robot:
  assumes "currentState m = ENABLED" and "controllerLoaded m" and "moves_faster limit (robotState m)"
    and "velocity_limit (sw_guiIn walk) = limit" and "velocity_limit (sw_guiIn dead) = limit"
    and "ss_velocity_limit (ss_guiIn stand) = limit" and "maxSpeed (cw_guiIn canon) = limit"
    and "ctl \<in> {loaded v slip_controller now (walk :: slip_walking), loaded v db_controller now (dead :: deadbeat),
      loaded v ss_controller now stand, loaded v cw_controller now canon}"
  shows "currentState (loop_body v ctl now m) = E_STOP \<and>
    (\<exists>sent. sentOutputs (loop_body v ctl now m) = sentOutputs m @ [sent] \<and> co_command sent \<noteq> medulla_state_run \<and>
      co_lLeg sent = controller_output_leg_zero \<and> co_rLeg sent = controller_output_leg_zero)"
proof -
  have "slip_over (atc_enter (robotState m) walk)" "slip_over (atc_enter (robotState m) dead)"
    "standing_over (atc_enter (robotState m) stand)" "over_limits (atc_enter (robotState m) canon)"
    using assms(3-7) by (simp_all add: over_enter)
  note stops = slip_guard.robot_stops [OF assms(1,2) this(1)] deadbeat_guard.robot_stops [OF assms(1,2) this(2)]
    standing_guard.robot_stops [OF assms(1,2) this(3)] canonical_guard.robot_stops [OF assms(1,2) this(4)]
  show ?thesis using assms(8) by (elim insertE emptyE) (simp_all only: stops)
qed

lemma overspeed_stops_robot_witness:
  "currentState (loop_body biped1 (loaded biped1 slip_controller 0 zero_memory) 0 (spinning_machine 11)) = E_STOP"
proof -
  have m: "currentState (spinning_machine 11) = ENABLED" "controllerLoaded (spinning_machine 11)"
    "moves_faster (Fin 10) (robotState (spinning_machine 11))"
    by (simp_all add: spinning_machine_def enabled_machine_simps moves_faster_def)
  have w: "velocity_limit (sw_guiIn zero_memory) = Fin 10"
    by (simp add: zero_memory_def atc.defs slip_walking.defs walking_input_def)
  show ?thesis
    by (rule conjunct1, rule overspeed_stops_robot [OF m w, where dead = "undefined\<lparr>sw_guiIn := walking_input\<rparr>"
          and stand = "undefined\<lparr>ss_guiIn := standing_gui\<rparr>" and canon = canonical_memory])
      (simp_all add: walking_input_def standing_gui_def canonical_memory_def atc.defs canonical_walking.defs canonical_gui_def)
qed

end
