(* ===== verification/ForceDemo.thy ===== *)
theory ForceDemo
  imports StabilizedStanding
begin

text \<open>
  The controller ATCForceControlDemo: each leg runs one of five modes, position control, constant force, a sine wave
  of forces, and two automatic tests along a staircase and along sweeps of frequency. The theorems are about the signals
  of the tests and about what happens when the mode of a leg changes.
\<close>

subsection \<open>State\<close>

record force_input =
  fd_leg_pos_kp :: dbl
  fd_leg_pos_kd :: dbl
  fd_leg_for_kp :: dbl
  fd_leg_for_kd :: dbl
  fd_hip_pos_kp :: dbl
  fd_hip_pos_kd :: dbl
  left_leg_len :: dbl
  right_leg_len :: dbl
  left_leg_ang :: dbl
  right_leg_ang :: dbl
  left_fx :: dbl
  right_fx :: dbl
  left_fz :: dbl
  right_fz :: dbl
  left_ampz :: dbl
  right_ampz :: dbl
  left_freqz :: dbl
  right_freqz :: dbl
  left_offz :: dbl
  right_offz :: dbl
  left_controller :: uint8
  right_controller :: uint8

record force_demo = atc +
  fd_guiIn :: force_input
  fd_guiOut :: bool
  fxDes :: dbl
  fzDes :: dbl
  fd_pds :: motor_pds
  fd_rates :: motor_targets
  fd_legForceL :: ASCLegForce
  fd_legForceR :: ASCLegForce
  lLegControllerState :: int
  rLegControllerState :: int
  tL :: dbl
  tR :: dbl
  fd_k1 :: dbl
  fd_k2 :: dbl
  fd_legRateLimit :: dbl
  fd_hipRateLimit :: dbl

definition new_ATCForceControlDemo :: "force_demo \<Rightarrow> force_demo" where
  "new_ATCForceControlDemo mem =
     (let s = snd (setStartupEnabled True (mem\<lparr>fd_legForceL := new_ASCLegForce, fd_legForceR := new_ASCLegForce\<rparr>))
      in s\<lparr>fd_legRateLimit := Fin 0.5, fd_hipRateLimit := Fin 0.5, tL := Fin 0, tR := Fin 0\<rparr>)"

subsection \<open>Signals\<close>

definition sinewave :: "dbl \<Rightarrow> dbl \<Rightarrow> dbl \<Rightarrow> dbl \<Rightarrow> dbl \<times> dbl" where
  "sinewave t offset amplitude frequency =
     (offset + amplitude * dbl_sin (t * Fin 2 * Fin M_PI * frequency),
      Fin (2 * M_PI) * amplitude * frequency * dbl_cos (t * Fin 2 * Fin M_PI * frequency))"

fun dbl_floor :: "dbl \<Rightarrow> dbl" where
  "dbl_floor (Fin r) = Fin (of_int \<lfloor>r\<rfloor>)"
| "dbl_floor x = x"

text \<open>The period is a literal in every call.\<close>

definition stairStep :: "dbl \<Rightarrow> dbl \<Rightarrow> dbl \<Rightarrow> real \<Rightarrow> dbl \<Rightarrow> dbl \<times> dbl" where
  "stairStep t offset amplitude omega steps =
     (let y = Fin (omega / 2) - fabs (dbl_fmod t omega - Fin (omega / 2));
          y = offset + amplitude * dbl_floor (Fin 2 / Fin omega * y * steps + Fin 0.5) / steps
      in (y, Fin 0))"

definition sinewaveSweep :: "dbl \<Rightarrow> dbl \<Rightarrow> dbl \<Rightarrow> dbl \<Rightarrow> dbl \<Rightarrow> dbl \<Rightarrow> dbl \<times> dbl" where
  "sinewaveSweep t omega1 omega2 offset amplitude omega =
     (let a = Fin M_PI * (omega2 - omega1) / (Fin 2 * omega);
          b = Fin (2 * M_PI) * omega1;
          p = a * dbl_sq t + b * t
      in (offset + amplitude * dbl_sin p, amplitude * dbl_cos p * (b + Fin 2 * a * t)))"

text \<open>The length of the leg in the automatic position test, with the clock, which the end of the test resets.\<close>

definition position_test :: "dbl \<Rightarrow> dbl \<Rightarrow> dbl \<times> dbl" where
  "position_test t len =
     (if Fin 0 \<le> t \<and> t < Fin 20 then (fst (stairStep t len (Fin (- 0.05)) 20 (Fin 4)), t)
      else if Fin 20 \<le> t \<and> t < Fin 24 then (fst (sinewaveSweep (t - Fin 20) (Fin 0) (Fin 2) len (Fin (- 0.05)) (Fin 4)), t)
      else if Fin 24 \<le> t \<and> t < Fin 28 then (fst (sinewaveSweep (t - Fin 24) (Fin 2) (Fin 0) len (Fin (- 0.05)) (Fin 4)), t)
      else (len, Fin 0))"

definition force_test :: "dbl \<Rightarrow> dbl \<Rightarrow> LegForce" where
  "force_test t offset =
     (let (fz, dfz) = (if Fin 0 \<le> t \<and> t < Fin 20 then stairStep t offset (Fin (- 400)) 20 (Fin 4) else (offset, Fin 0))
      in \<lparr>fx = Fin 0, fz = fz, dfx = Fin 0, dfz = dfz\<rparr>)"

subsection \<open>The modes\<close>

definition fd_updateState :: "force_demo \<Rightarrow> force_demo" where
  "fd_updateState s =
     (let gui = fd_guiIn s; p = ss_positions (atc_rs s);
          s = (if \<not> isEnabled s then s\<lparr>fd_rates := p\<rparr> else s);
          s = (if lLegControllerState s \<noteq> uint (left_controller gui)
               then s\<lparr>tL := Fin 0, fd_rates := (fd_rates s)\<lparr>tgtLA := tgtLA p, tgtLB := tgtLB p\<rparr>\<rparr>
               else s\<lparr>tL := tL s + Fin 0.001\<rparr>);
          s = (if rLegControllerState s \<noteq> uint (right_controller gui)
               then s\<lparr>tR := Fin 0, fd_rates := (fd_rates s)\<lparr>tgtRA := tgtRA p, tgtRB := tgtRB p\<rparr>\<rparr>
               else s\<lparr>tR := tR s + Fin 0.001\<rparr>);
          pm = \<lparr>pd_P = fd_leg_pos_kp gui, pd_D = fd_leg_pos_kd gui\<rparr>;
          ph = \<lparr>pd_P = fd_hip_pos_kp gui, pd_D = fd_hip_pos_kd gui\<rparr>;
          gains = (\<lambda>f. f\<lparr>lf_kp := fd_leg_for_kp gui, lf_ki := Fin 0, lf_kd := fd_leg_for_kd gui\<rparr>)
      in s\<lparr>lLegControllerState := uint (left_controller gui), rLegControllerState := uint (right_controller gui),
           fd_pds := \<lparr>pdLA = pm, pdLB = pm, pdLH = ph, pdRA = pm, pdRB = pm, pdRH = ph\<rparr>,
           fd_legForceL := gains (fd_legForceL s), fd_legForceR := gains (fd_legForceR s),
           fd_k1 := fd_leg_for_kd gui, fd_k2 := fd_leg_for_kd gui * fd_leg_for_kd gui\<rparr>)"

definition fd_hipController :: "force_demo \<Rightarrow> force_demo" where
  "fd_hipController s =
     (let rs = atc_rs s; l = lLeg rs; r = rLeg rs;
          (qLh, qRh) = iKine \<lparr>lr_left = Fin 2.17, lr_right = Fin 2.5\<rparr> l r (position rs);
          qLh = rate_limit qLh (fd_hipRateLimit s) (tgtLH (fd_rates s));
          qRh = rate_limit qRh (fd_hipRateLimit s) (tgtRH (fd_rates s));
          s = s\<lparr>fd_rates := (fd_rates s)\<lparr>tgtLH := qLh, tgtRH := qRh\<rparr>\<rparr>
      in set_hip_motors (hip_motor_pd (pdLH (fd_pds s)) qLh (hip l)) (hip_motor_pd (pdRH (fd_pds s)) qRh (hip r)) s)"

text \<open>The left leg is under the feedback linearisation, which logs the desired forces.\<close>

definition left_force :: "LegForce \<Rightarrow> force_demo \<Rightarrow> force_demo" where
  "left_force f s =
     (let rs = atc_rs s; cur = legForceControl (fd_k1 s) (fd_k1 s) (fd_k2 s) (fd_k2 s) f (lLeg rs) (position rs)
      in set_left_leg cur (s\<lparr>fxDes := - fx f, fzDes := - fz f\<rparr>))"

definition right_force :: "LegForce \<Rightarrow> force_demo \<Rightarrow> force_demo" where
  "right_force f s =
     (let rs = atc_rs s; (cur, lf) = leg_force_control f (rLeg rs) (position rs) (fd_legForceR s)
      in set_right_leg cur (s\<lparr>fd_legForceR := lf\<rparr>))"

definition left_leg :: "force_demo \<Rightarrow> force_demo" where
  "left_leg s =
     (let gui = fd_guiIn s; l = lLeg (atc_rs s); p = fd_pds s; z = Fin 0
      in if lLegControllerState s = 0 then
           (let (qmA, qmB) = legPos2MotorPos (left_leg_ang gui) (left_leg_len gui);
                qmA = rate_limit qmA (fd_legRateLimit s) (tgtLA (fd_rates s));
                qmB = rate_limit qmB (fd_legRateLimit s) (tgtLB (fd_rates s));
                s = s\<lparr>fd_rates := (fd_rates s)\<lparr>tgtLA := qmA, tgtLB := qmB\<rparr>\<rparr>
            in set_left_leg (motor_pd (pdLA p) qmA (halfA l), motor_pd (pdLB p) qmB (halfB l)) s)
         else if lLegControllerState s = 1 then
           left_force \<lparr>fx = left_fx gui, fz = left_fz gui, dfx = z, dfz = z\<rparr> s
         else if lLegControllerState s = 2 then
           (let (y, dy) = sinewave (tL s) (left_offz gui) (left_ampz gui) (left_freqz gui)
            in left_force \<lparr>fx = z, fz = y, dfx = z, dfz = dy\<rparr> s)
         else if lLegControllerState s = 3 then
           (let (rl, t) = position_test (tL s) (left_leg_len gui);
                (qmA, qmB) = legPos2MotorPos (Fin (M_PI / 2)) rl
            in set_left_leg (motor_pd (pdLA p) qmA (halfA l), motor_pd (pdLB p) qmB (halfB l)) (s\<lparr>tL := t\<rparr>))
         else if lLegControllerState s = 4 then left_force (force_test (tL s) (Fin (- 20))) s
         else s)"

definition right_leg :: "force_demo \<Rightarrow> force_demo" where
  "right_leg s =
     (let gui = fd_guiIn s; r = rLeg (atc_rs s); p = fd_pds s; z = Fin 0
      in if rLegControllerState s = 0 then
           (let (qmA, qmB) = legPos2MotorPos (right_leg_ang gui) (right_leg_len gui);
                qmA = rate_limit qmA (fd_legRateLimit s) (tgtRA (fd_rates s));
                qmB = rate_limit qmB (fd_legRateLimit s) (tgtRB (fd_rates s));
                s = s\<lparr>fd_rates := (fd_rates s)\<lparr>tgtRA := qmA, tgtRB := qmB\<rparr>\<rparr>
            in set_right_leg (motor_pd (pdRA p) qmA (halfA r), motor_pd (pdRB p) qmB (halfB r)) s)
         else if rLegControllerState s = 1 then
           right_force \<lparr>fx = right_fx gui, fz = right_fz gui, dfx = z, dfz = z\<rparr> s
         else if rLegControllerState s = 2 then
           (let (y, dy) = sinewave (tR s) (right_offz gui) (right_ampz gui) (right_freqz gui)
            in right_force \<lparr>fx = z, fz = y, dfx = z, dfz = dy\<rparr> s)
         else if rLegControllerState s = 3 then
           (let (rl, t) = position_test (tR s) (right_leg_len gui);
                (qmA, qmB) = legPos2MotorPos (Fin (M_PI / 2)) rl
            in set_right_leg (motor_pd (pdRA p) qmA (halfA r), motor_pd (pdRB p) qmB (halfB r)) (s\<lparr>tR := t\<rparr>))
         else if rLegControllerState s = 4 then right_force (force_test (tR s) (Fin 0)) s
         else s)"

definition fd_controller :: "force_demo \<Rightarrow> force_demo" where
  "fd_controller s =
     (let s = right_leg (left_leg (fd_hipController (fd_updateState s)))
      in s\<lparr>fd_guiOut := isEnabled s\<rparr>)"

subsection \<open>The signals\<close>

text \<open>
  The sine wave of forces comes with its derivative, at every amplitude, offset and frequency.
\<close>

theorem sinewave_derivative:
  "\<exists>y dy. (\<forall>t. sinewave (Fin t) (Fin off) (Fin amp) (Fin frq) = (Fin (y t), Fin (dy t))) \<and>
     (\<forall>t. (y has_real_derivative dy t) (at t))"
proof (intro exI conjI allI)
  show "sinewave (Fin t) (Fin off) (Fin amp) (Fin frq) =
      (Fin (off + amp * sin (t * 2 * M_PI * frq)), Fin (2 * M_PI * amp * frq * cos (t * 2 * M_PI * frq)))" for t
    by (simp add: sinewave_def)
  show "((\<lambda>t. off + amp * sin (t * 2 * M_PI * frq)) has_real_derivative
      2 * M_PI * amp * frq * cos (t * 2 * M_PI * frq)) (at t)" for t
    by (auto intro!: derivative_eq_intros)
qed

text \<open>
  A frequency sweep ends at the wrong frequency: the signal is a sine of a phase whose rate starts at the
  first frequency, and its rate at the end of the sweep is the mean of the two frequencies, not the second one.
\<close>

theorem sweep_stops_halfway:
  assumes "0 < omega"
  shows "\<exists>p dp. (\<forall>t. sinewaveSweep (Fin t) (Fin f1) (Fin f2) (Fin off) (Fin amp) (Fin omega) =
        (Fin (off + amp * sin (p t)), Fin (amp * cos (p t) * dp t))) \<and>
      (\<forall>t. (p has_real_derivative dp t) (at t)) \<and> dp 0 = 2 * M_PI * f1 \<and> dp omega = 2 * M_PI * ((f1 + f2) / 2)"
proof (intro exI conjI allI)
  define a where "a = M_PI * (f2 - f1) / (2 * omega)"
  define b where "b = 2 * M_PI * f1"
  show "sinewaveSweep (Fin t) (Fin f1) (Fin f2) (Fin off) (Fin amp) (Fin omega) =
      (Fin (off + amp * sin (a * t\<^sup>2 + b * t)), Fin (amp * cos (a * t\<^sup>2 + b * t) * (b + 2 * a * t)))" for t
    using assms by (simp add: sinewaveSweep_def Let_def dbl_sq_def a_def b_def power2_eq_square)
  show "((\<lambda>t. a * t\<^sup>2 + b * t) has_real_derivative b + 2 * a * t) (at t)" for t
    by (auto intro!: derivative_eq_intros)
  show "b + 2 * a * 0 = 2 * M_PI * f1" by (simp add: b_def)
  show "b + 2 * a * omega = 2 * M_PI * ((f1 + f2) / 2)" using assms by (simp add: a_def b_def field_simps)
qed

lemma sweep_stops_halfway_witness:
  "\<exists>dp. dp 0 = 2 * M_PI * 0 \<and> dp 4 = 2 * M_PI * 1 \<and>
     (\<forall>t. \<exists>p. snd (sinewaveSweep (Fin t) (Fin 0) (Fin 2) (Fin 0) (Fin 1) (Fin 4)) = Fin (cos p * dp t))"
proof -
  obtain p dp where "\<forall>t. sinewaveSweep (Fin t) (Fin 0) (Fin 2) (Fin 0) (Fin 1) (Fin 4) =
      (Fin (0 + 1 * sin (p t)), Fin (1 * cos (p t) * dp t))" "dp 0 = 2 * M_PI * 0" "dp 4 = 2 * M_PI * ((0 + 2) / 2)"
    using sweep_stops_halfway [of 4 0 2 0 1] by auto
  then show ?thesis by (intro exI [of _ dp]) auto
qed

lemma real_fmod_id: "0 \<le> x \<Longrightarrow> x < y \<Longrightarrow> real_fmod x y = x"
  by (simp add: real_fmod_def real_trunc_def floor_eq_iff)

text \<open>
  The staircase of the automatic tests climbs in four steps to the full amplitude and comes down again in 20
  seconds: the signal is always one of the five levels, the one nearest to a triangle wave.
\<close>

theorem stair_levels:
  assumes "0 \<le> t" and "t < 20"
  shows "\<exists>k \<le> 4. stairStep (Fin t) (Fin off) (Fin amp) 20 (Fin 4) = (Fin (off + amp * (real k / 4)), Fin 0) \<and>
    \<bar>(10 - \<bar>t - 10\<bar>) / 10 - real k / 4\<bar> \<le> 1 / 8"
proof -
  define y where "y = 10 - \<bar>t - 10\<bar>"
  define k where "k = nat \<lfloor>2 / 20 * y * 4 + 1 / 2\<rfloor>"
  have y: "0 \<le> y" "y \<le> 10" using assms by (simp_all add: y_def abs_if)
  then have k: "real k \<le> 2 / 20 * y * 4 + 1 / 2" "2 / 20 * y * 4 + 1 / 2 < real k + 1"
    "\<lfloor>2 / 20 * y * 4 + 1 / 2\<rfloor> = int k"
    unfolding k_def by (simp_all add: of_nat_nat zero_le_floor)
  have "real k < 5" using k(1) y(2) by linarith
  then have "k \<le> 4" by simp
  moreover have "\<bar>y / 10 - real k / 4\<bar> \<le> 1 / 8" using k(1,2) unfolding abs_le_iff by linarith
  moreover have "stairStep (Fin t) (Fin off) (Fin amp) 20 (Fin 4) = (Fin (off + amp * (real k / 4)), Fin 0)"
    using k(3) by (simp add: stairStep_def Let_def real_fmod_id [OF assms] y_def [symmetric])
  ultimately show ?thesis unfolding y_def by blast
qed

lemma stair_levels_witness:
  "\<exists>k \<le> 4. stairStep (Fin 6) (Fin (- 20)) (Fin (- 400)) 20 (Fin 4) = (Fin (- 20 + - 400 * (real k / 4)), Fin 0) \<and>
    \<bar>6 / 10 - real k / 4\<bar> \<le> 1 / 8"
  using stair_levels [of 6 "- 20" "- 400"] by simp

subsection \<open>Changing the mode\<close>

lemma fd_rates_motors [simp]:
  fixes s :: force_demo
  shows "fd_rates (set_left_leg ab s) = fd_rates s" "fd_rates (set_right_leg ab s) = fd_rates s"
    "fd_rates (set_hip_motors a b s) = fd_rates s" "fd_rates (left_force f s) = fd_rates s"
    "fd_rates (right_force f s) = fd_rates s"
  by (simp_all add: set_left_leg_def set_right_leg_def set_hip_motors_def set_leg_motors_def set_motors_def
      left_force_def right_force_def Let_def split_beta)

lemma right_leg_rates: "tgtLA (fd_rates (right_leg s)) = tgtLA (fd_rates s)" "tgtLB (fd_rates (right_leg s)) = tgtLB (fd_rates s)"
  by (simp_all add: right_leg_def Let_def split_beta)

text \<open>What the left leg uses of the state.\<close>

definition left_mode :: "force_demo \<Rightarrow> int \<times> force_input \<times> dbl \<times> dbl \<times> dbl" where
  "left_mode s = (lLegControllerState s, fd_guiIn s, fd_legRateLimit s, tgtLA (fd_rates s), tgtLB (fd_rates s))"

lemma left_mode_hip: "left_mode (fd_hipController s) = left_mode s"
  by (simp add: fd_hipController_def set_hip_motors_def set_motors_def left_mode_def Let_def split_beta)

lemma left_mode_update:
  "left_mode (fd_updateState s) = (uint (left_controller (fd_guiIn s)), fd_guiIn s, fd_legRateLimit s,
     (if \<not> isEnabled s \<or> lLegControllerState s \<noteq> uint (left_controller (fd_guiIn s))
      then (motorAngle (halfA (lLeg (atc_rs s))), motorAngle (halfB (lLeg (atc_rs s))))
      else (tgtLA (fd_rates s), tgtLB (fd_rates s))))"
  by (simp add: fd_updateState_def left_mode_def ss_positions_def Let_def)

text \<open>
  A leg does not jump when it comes under position control: in a call in which the mode of the left leg changes
  to position control, or in which the robot is disabled, the targets of its motors are within half a milliradian of
  the motors, however far away the position of the operator is.
\<close>

theorem force_demo_switch_smooth:
  assumes "left_controller (fd_guiIn s) = 0" and "lLegControllerState s \<noteq> 0 \<or> \<not> isEnabled s"
    and "motorAngle (halfA (lLeg (atc_rs s))) = Fin a" and "motorAngle (halfB (lLeg (atc_rs s))) = Fin b"
    and "legPos2MotorPos (left_leg_ang (fd_guiIn s)) (left_leg_len (fd_guiIn s)) = (Fin x, Fin y)"
    and "fd_legRateLimit s = Fin 0.5"
  shows "\<exists>u w. tgtLA (fd_rates (fd_controller s)) = Fin u \<and> \<bar>u - a\<bar> \<le> 0.0005 \<and>
    tgtLB (fd_rates (fd_controller s)) = Fin w \<and> \<bar>w - b\<bar> \<le> 0.0005"
proof -
  define t where "t = fd_hipController (fd_updateState s)"
  have "left_mode t = (0, fd_guiIn s, Fin 0.5, Fin a, Fin b)"
    using assms by (auto simp: t_def left_mode_hip left_mode_update)
  then have t: "lLegControllerState t = 0" "fd_guiIn t = fd_guiIn s" "fd_legRateLimit t = Fin 0.5"
    "tgtLA (fd_rates t) = Fin a" "tgtLB (fd_rates t) = Fin b" by (simp_all add: left_mode_def)
  have "fd_rates (fd_controller s) = fd_rates (right_leg (left_leg t))"
    by (simp add: fd_controller_def Let_def t_def)
  then have "tgtLA (fd_rates (fd_controller s)) = rate_limit (Fin x) (Fin 0.5) (Fin a)"
    "tgtLB (fd_rates (fd_controller s)) = rate_limit (Fin y) (Fin 0.5) (Fin b)"
    using t assms(5) by (simp_all add: right_leg_rates) (simp_all add: left_leg_def Let_def)
  then show ?thesis using rate_limit_near [of "0.5" x a] rate_limit_near [of "0.5" y b] by auto
qed

lemma force_demo_switch_smooth_witness:
  "\<forall>s :: force_demo. \<exists>u. tgtLA (fd_rates (fd_controller (s\<lparr>fd_guiIn := (fd_guiIn s)
      \<lparr>left_controller := 0, left_leg_ang := Fin (pi / 2), left_leg_len := Fin 1\<rparr>, lLegControllerState := 2,
      fd_legRateLimit := Fin 0.5, atc_rs := posed\<rparr>))) = Fin u \<and> \<bar>u - (3 * M_PI / 2 - XStar ! 2)\<bar> \<le> 0.0005"
proof
  fix s :: force_demo
  show "\<exists>u. tgtLA (fd_rates (fd_controller (s\<lparr>fd_guiIn := (fd_guiIn s)
        \<lparr>left_controller := 0, left_leg_ang := Fin (pi / 2), left_leg_len := Fin 1\<rparr>, lLegControllerState := 2,
        fd_legRateLimit := Fin 0.5, atc_rs := posed\<rparr>))) = Fin u \<and> \<bar>u - (3 * M_PI / 2 - XStar ! 2)\<bar> \<le> 0.0005"
    using force_demo_switch_smooth [of "s\<lparr>fd_guiIn := (fd_guiIn s)
        \<lparr>left_controller := 0, left_leg_ang := Fin (pi / 2), left_leg_len := Fin 1\<rparr>, lLegControllerState := 2,
        fd_legRateLimit := Fin 0.5, atc_rs := posed\<rparr>" "3 * M_PI / 2 - XStar ! 2" "3 * M_PI / 2 - XStar ! 4" "pi / 2" "pi / 2"]
    by (simp add: posed_def at_rest_def pose_def motorPos_Fin) blast
qed

end
