(* ===== verification/EqPoint.thy ===== *)
theory EqPoint
  imports MotorControllers
begin

text \<open>
  The walking controller ATCEqPoint: an equilibrium point controller that steps from one leg to the other as a
  phase runs from 0 to 1. The theorems show what the idle mode guarantees, how states and phase evolve, and where
  the trajectory of the swing leg jumps.
\<close>

subsection \<open>State\<close>

record eq_input =
  eq_control :: uint8
  eq_gc_l :: uint8
  eq_gc_r :: uint8
  eq_aea :: dbl
  eq_pea :: dbl
  eq_lhip_pos :: dbl
  eq_rhip_pos :: dbl
  eq_pst :: dbl
  eq_pfl1 :: dbl
  eq_pfl2 :: dbl
  eq_dst :: dbl
  eq_dfl1 :: dbl
  eq_dfl2 :: dbl
  eq_lfl :: dbl
  eq_lot :: dbl
  eq_lst :: dbl
  eq_tsw :: dbl
  eq_loc :: dbl
  eq_aover :: dbl
  eq_rco :: dbl
  eq_thip :: dbl
  eq_tab :: dbl
  desiredTorsoAngle :: dbl

text \<open>
  The members that live from one call to the next; the others are assigned in each call before they are read. The
  constructor leaves the phase, the two switches and the idle mode as the memory was.
\<close>

record eq_point = atc +
  eq_guiIn :: eq_input
  eq_log :: dbl
  pd0Controller :: ASCPD
  pd1Controller :: ASCPD
  pd2Controller :: ASCPD
  pd3Controller :: ASCPD
  pd4Controller :: ASCPD
  pd5Controller :: ASCPD
  pdTorsoController :: ASCPD
  hipP :: dbl
  eq_state :: int
  sw_stance :: bool
  sw_flight :: bool
  eq_t :: dbl
  idle_mode :: bool

definition new_ATCEqPoint :: "eq_point \<Rightarrow> eq_point" where
  "new_ATCEqPoint mem =
     (let leg = \<lparr>pd_P = Fin 600, pd_D = Fin 15\<rparr>; hip = \<lparr>pd_P = Fin 150, pd_D = Fin 10\<rparr>
      in snd (setStartupEnabled True (mem
           \<lparr>hipP := Fin 150, pd0Controller := leg, pd1Controller := leg, pd2Controller := hip, pd3Controller := leg,
            pd4Controller := leg, pd5Controller := hip, pdTorsoController := \<lparr>pd_P = Fin 0, pd_D = Fin 0\<rparr>, eq_state := 0\<rparr>)))"

subsection \<open>The legs\<close>

text \<open>The corrections of the step for the inner leg on the circle: \<open>iPEA\<close> and \<open>iAEA\<close>.\<close>

definition inner_angles :: "eq_input \<Rightarrow> dbl \<times> dbl" where
  "inner_angles gui =
     (let gamma = eq_pea gui - eq_aea gui
      in (eq_pea gui - eq_rco gui * Fin 0.09 * gamma, eq_aea gui + eq_rco gui * Fin 0.09 * gamma))"

text \<open>
  The stance leg at angle \<open>phi\<close>, up to the motor position \<open>phiBs\<close>: its currents, with the share of the torso
  torque, and the switch.
\<close>

definition eq_stance :: "eq_input \<Rightarrow> dbl \<Rightarrow> dbl \<Rightarrow> dbl \<Rightarrow> robot_state_leg \<Rightarrow> bool \<Rightarrow> (dbl \<times> dbl) \<times> bool" where
  "eq_stance gui phi phiBs torsoTorque leg sw =
     (let pd = \<lparr>pd_P = eq_pst gui, pd_D = eq_dst gui\<rparr>; a = halfA leg; b = halfB leg;
          (curA, curB, sw) =
            (if motorAngle b < phiBs \<and> \<not> sw then
               (let (tgtA, tgtB) = legPos2MotorPos phi (eq_lst gui)
                in (pd_call pd tgtA (motorAngle a) (Fin 0.5) (motorVelocity a) - eq_tab gui * eq_thip gui,
                    pd_call pd tgtB (motorAngle b) (Fin 0.5) (motorVelocity b) + (Fin 1 - eq_tab gui) * eq_thip gui, sw))
             else
               (let (tgtA, tgtB) = legPos2MotorPos (eq_pea gui) (eq_lst gui)
                in (motor_pd pd tgtA a, motor_pd pd tgtB b, True)))
      in ((curA + eq_tab gui * torsoTorque, curB + (Fin 1 - eq_tab gui) * torsoTorque), sw))"

definition swing_retraction :: "eq_input \<Rightarrow> dbl \<Rightarrow> dbl" where
  "swing_retraction gui t =
     (let amp = eq_lst gui - eq_lfl gui
      in eq_lst gui - amp * (Fin (- 1) * dbl_sq (Fin 2 * t / eq_tsw gui - Fin 1) + Fin 1))"

text \<open>
  The target of the swing leg at phase \<open>t\<close>, angle and length, its gains, and the part of the swing: takeoff, swing,
  retraction. \<open>aea\<close> is the angle at which the retraction ends.
\<close>

definition flight_target :: "eq_input \<Rightarrow> dbl \<Rightarrow> dbl \<Rightarrow> dbl \<Rightarrow> dbl \<Rightarrow> (dbl \<times> dbl) \<times> ASCPD \<times> nat" where
  "flight_target gui PEA AEA aea t =
     (let fl1 = \<lparr>pd_P = eq_pfl1 gui, pd_D = eq_dfl1 gui\<rparr>; fl2 = \<lparr>pd_P = eq_pfl2 gui, pd_D = eq_dfl2 gui\<rparr>
      in if t < eq_lot gui then ((PEA, swing_retraction gui t), fl1, 1)
         else if t < eq_tsw gui then
           ((PEA - (t - eq_lot gui) / (eq_tsw gui - eq_lot gui) * (PEA - AEA) * (Fin 1 + eq_aover gui),
             swing_retraction gui t), fl1, 2)
         else ((aea - (Fin 1 - t) / (Fin 1 - eq_tsw gui) * (PEA - AEA) * eq_aover gui, eq_lst gui), fl2, 3))"

text \<open>The swing leg: its currents, its gains, the switch and the log; \<open>extra\<close> is added once the leg has arrived.\<close>

definition eq_flight ::
  "eq_input \<Rightarrow> dbl \<Rightarrow> dbl \<Rightarrow> dbl \<Rightarrow> dbl \<Rightarrow> real \<Rightarrow> dbl \<Rightarrow> robot_state_leg \<Rightarrow> bool \<Rightarrow> (dbl \<times> dbl) \<times> ASCPD \<times> bool \<times> dbl" where
  "eq_flight gui PEA AEA aea extra base t leg sw =
     (let a = halfA leg; b = halfB leg
      in if t < Fin 1 \<and> \<not> sw then
           (let ((phi, l), pd, part) = flight_target gui PEA AEA aea t;
                (tgtA, tgtB) = legPos2MotorPos phi l;
                curA = motor_pd pd tgtA a; curB = motor_pd pd tgtB b
            in if t < eq_lot gui \<and> tgtB < legAngle b - (motorAngle a - legAngle b)
               then ((curA, eq_loc gui), pd, sw, Fin (base + 1.1))
               else ((curA, curB), pd, sw, Fin (base + real part)))
         else
           (let (tgtA, tgtB) = legPos2MotorPos AEA (eq_lst gui); pd = \<lparr>pd_P = eq_pst gui, pd_D = eq_dst gui\<rparr>
            in ((motor_pd pd tgtA a, motor_pd pd tgtB b + extra), pd, True, Fin (base + 4))))"

subsection \<open>The controller\<close>

definition eq_switch_to :: "int \<Rightarrow> eq_point \<Rightarrow> eq_point" where
  "eq_switch_to x s = s\<lparr>eq_state := x, sw_stance := False, sw_flight := False, eq_t := Fin 0\<rparr>"

text \<open>The switch between the legs, commanded by the operator or automatic.\<close>

definition eq_switch :: "eq_point \<Rightarrow> eq_point" where
  "eq_switch s =
     (let gui = eq_guiIn s; rGC = (eq_gc_r gui \<noteq> 0); lGC = (eq_gc_l gui \<noteq> 0)
      in if eq_control gui = 1 then
           (let s = (if eq_state s = 2 \<and> Fin 0.98 < eq_t s \<and> rGC then eq_switch_to 1 s else s)
            in if eq_state s = 1 \<and> Fin 0.98 < eq_t s \<and> lGC then eq_switch_to 2 s else s)
         else if eq_control gui = 2 then
           (let s = (if eq_state s = 2 \<and> Fin 0.98 < eq_t s then eq_switch_to 1 s else s)
            in if eq_state s = 1 \<and> Fin 0.98 < eq_t s then eq_switch_to 2 s else s)
         else s)"

text \<open>The torso controller; both step states set its gains to zero first.\<close>

definition torso_torque :: "eq_point \<Rightarrow> dbl" where
  "torso_torque s = pd_call (pdTorsoController s) (desiredTorsoAngle (eq_guiIn s)) (bodyPitch (position (atc_rs s)))
     (Fin 0) (bodyPitchVelocity (position (atc_rs s)))"

definition eq_right_stance :: "eq_point \<Rightarrow> eq_point" where
  "eq_right_stance s =
     (let gui = eq_guiIn s; l = lLeg (atc_rs s); r = rLeg (atc_rs s); (iPEA, iAEA) = inner_angles gui;
          oPEA = eq_pea gui; oAEA = eq_aea gui; st = \<lparr>pd_P = eq_pst gui, pd_D = eq_dst gui\<rparr>;
          phi_rLeg = (motorAngle (halfA r) + motorAngle (halfB r)) / Fin 2;
          x = Fin 1 - (oPEA - phi_rLeg) / (oPEA - oAEA);
          s = (if eq_t s < x then s\<lparr>eq_t := x\<rparr> else s);
          s = s\<lparr>pd3Controller := st, pd4Controller := st, pdTorsoController := \<lparr>pd_P = Fin 0, pd_D = Fin 0\<rparr>\<rparr>;
          (cr, sw) = eq_stance gui phi_rLeg (oPEA + dbl_acos (eq_lst gui)) (torso_torque s) r (sw_stance s);
          s = set_right_leg cr (s\<lparr>sw_stance := sw\<rparr>);
          (cl, pd, sw, lg) = eq_flight gui iPEA iAEA (eq_aea gui) (Fin 0) 10 (eq_t s) l (sw_flight s)
      in set_left_leg cl (s\<lparr>pd0Controller := pd, pd1Controller := pd, sw_flight := sw, eq_log := lg\<rparr>))"

definition eq_left_stance :: "eq_point \<Rightarrow> eq_point" where
  "eq_left_stance s =
     (let gui = eq_guiIn s; l = lLeg (atc_rs s); r = rLeg (atc_rs s); (iPEA, iAEA) = inner_angles gui;
          oPEA = eq_pea gui; oAEA = eq_aea gui; st = \<lparr>pd_P = eq_pst gui, pd_D = eq_dst gui\<rparr>;
          phi_lLeg = (motorAngle (halfA l) + motorAngle (halfB l)) / Fin 2;
          x = Fin 1 - (iPEA - phi_lLeg) / (iPEA - iAEA);
          s = (if eq_t s < x then s\<lparr>eq_t := x\<rparr> else s);
          s = s\<lparr>pd0Controller := st, pd1Controller := st, pdTorsoController := \<lparr>pd_P = Fin 0, pd_D = Fin 0\<rparr>\<rparr>;
          (cl, sw) = eq_stance gui phi_lLeg (iPEA + dbl_acos (eq_lst gui)) (torso_torque s) l (sw_stance s);
          s = set_left_leg cl (s\<lparr>sw_stance := sw\<rparr>);
          (cr, pd, sw, lg) = eq_flight gui oPEA oAEA oAEA (Fin 2) 20 (eq_t s) r (sw_flight s)
      in set_right_leg cr (s\<lparr>pd3Controller := pd, pd4Controller := pd, sw_flight := sw, eq_log := lg\<rparr>))"

definition eq_start :: "eq_point \<Rightarrow> eq_point" where
  "eq_start s =
     (let gui = eq_guiIn s; l = lLeg (atc_rs s); r = rLeg (atc_rs s);
          (lA, lB) = legPos2MotorPos (eq_pea gui) (eq_lst gui);
          (rA, rB) = legPos2MotorPos (eq_aea gui) (eq_lst gui);
          s = set_leg_motors (motor_pd (pd0Controller s) lA (halfA l)) (motor_pd (pd1Controller s) lB (halfB l))
                (motor_pd (pd3Controller s) rA (halfA r)) (motor_pd (pd4Controller s) rB (halfB r)) s
      in if \<not> isStarting s then s\<lparr>eq_state := 2, sw_flight := True, sw_stance := True, eq_t := Fin 1\<rparr> else s)"

definition eq_hips :: "eq_point \<Rightarrow> eq_point" where
  "eq_hips s =
     (let gui = eq_guiIn s; rs = atc_rs s; l = lLeg rs; r = rLeg rs;
          (lh, rh) = iKine \<lparr>lr_left = eq_lhip_pos gui, lr_right = eq_rhip_pos gui\<rparr> l r (position rs)
      in set_hip_motors (hip_motor_pd (pd2Controller s) lh (hip l)) (hip_motor_pd (pd5Controller s) rh (hip r)) s)"

definition eq_idle :: "eq_point \<Rightarrow> eq_point" where
  "eq_idle s =
     (let s = s\<lparr>pd2Controller := (pd2Controller s)\<lparr>pd_P := Fin 0\<rparr>, pd5Controller := (pd5Controller s)\<lparr>pd_P := Fin 0\<rparr>\<rparr>;
          l = lLeg (atc_rs s); r = rLeg (atc_rs s)
      in set_hip_motors (hip_motor_pd (pd2Controller s) (Fin 0) (hip l)) (hip_motor_pd (pd5Controller s) (Fin 0) (hip r)) s)"

definition eq_step :: "eq_point \<Rightarrow> eq_point" where
  "eq_step s =
     (let s = eq_switch s
      in if eq_state s = 1 then eq_right_stance s else if eq_state s = 2 then eq_left_stance s else s)"

definition eq_controller :: "eq_point \<Rightarrow> eq_point" where
  "eq_controller s =
     (let s = (if \<not> isEnabled s then s\<lparr>idle_mode := False\<rparr> else s);
          s = (if eq_control (eq_guiIn s) = 0 then s\<lparr>idle_mode := True\<rparr> else s)
      in if idle_mode s then eq_idle s
         else
           (let s = s\<lparr>pd2Controller := (pd2Controller s)\<lparr>pd_P := hipP s\<rparr>, pd5Controller := (pd5Controller s)\<lparr>pd_P := hipP s\<rparr>\<rparr>
            in if \<not> isEnabled s then s
               else (let s = eq_hips s in if eq_state s = 0 then eq_start s else eq_step s)))"

subsection \<open>States and phase\<close>

text \<open>
  What a call may do to state and phase: nothing, end the smooth start, let the phase run on, or step over to the other leg.
\<close>

inductive eq_moves :: "int \<times> dbl \<Rightarrow> int \<times> dbl \<Rightarrow> bool" where
  stay: "eq_moves (q, t) (q, t)"
| start: "eq_moves (0, t) (2, Fin 1)"
| advance: "q \<in> {1, 2} \<Longrightarrow> t < t' \<Longrightarrow> eq_moves (q, t) (q, t')"
| switch: "q \<in> {1, 2} \<Longrightarrow> Fin 0.98 < t \<Longrightarrow> Fin 0 \<le> t' \<Longrightarrow> eq_moves (q, t) (3 - q, t')"

inductive_cases eq_movesE: "eq_moves (q, t) (q', t')"

definition eq_phase :: "'c eq_point_scheme \<Rightarrow> int \<times> dbl" where
  "eq_phase s = (eq_state s, eq_t s)"

lemma eq_phase_frame [simp]:
  fixes s :: eq_point
  shows "eq_phase (set_leg_motors a b c d s) = eq_phase s" "eq_phase (set_hip_motors a b s) = eq_phase s"
    "eq_phase (set_left_leg ab s) = eq_phase s" "eq_phase (set_right_leg ab s) = eq_phase s"
    "eq_phase (eq_hips s) = eq_phase s" "eq_phase (eq_idle s) = eq_phase s"
  by (simp_all add: eq_phase_def eq_hips_def eq_idle_def set_left_leg_def set_right_leg_def set_leg_motors_def
      set_hip_motors_def set_motors_def Let_def split_beta)

lemma eq_phase_updates [simp]:
  fixes s :: "'c eq_point_scheme"
  shows "eq_phase (s\<lparr>sw_stance := b\<rparr>) = eq_phase s" "eq_phase (s\<lparr>sw_flight := b\<rparr>) = eq_phase s"
    "eq_phase (s\<lparr>pd0Controller := p\<rparr>) = eq_phase s" "eq_phase (s\<lparr>pd1Controller := p\<rparr>) = eq_phase s"
    "eq_phase (s\<lparr>pd3Controller := p\<rparr>) = eq_phase s" "eq_phase (s\<lparr>pd4Controller := p\<rparr>) = eq_phase s"
    "eq_phase (s\<lparr>pdTorsoController := p\<rparr>) = eq_phase s" "eq_phase (s\<lparr>eq_log := x\<rparr>) = eq_phase s"
    "eq_phase (if eq_t s < x then s\<lparr>eq_t := x\<rparr> else s) = (eq_state s, if eq_t s < x then x else eq_t s)"
  by (simp_all add: eq_phase_def)

lemma eq_stance_phase:
  "\<exists>x. eq_phase (eq_right_stance s) = (eq_state s, if eq_t s < x then x else eq_t s)"
  "\<exists>x. eq_phase (eq_left_stance s) = (eq_state s, if eq_t s < x then x else eq_t s)"
  unfolding eq_right_stance_def eq_left_stance_def Let_def split_beta eq_phase_frame eq_phase_updates by blast+

lemma eq_switch_to_simps [simp]: "eq_state (eq_switch_to x s) = x" "eq_t (eq_switch_to x s) = Fin 0"
  by (simp_all add: eq_switch_to_def)

lemma eq_step_phase:
  "eq_state s \<notin> {1, 2} \<Longrightarrow> eq_phase (eq_step s) = eq_phase s"
  "eq_state s \<in> {1, 2} \<Longrightarrow> \<exists>x. eq_phase (eq_step s) =
     (if eq_state (eq_switch s) = eq_state s then (eq_state s, if eq_t s < x then x else eq_t s)
      else (3 - eq_state s, if Fin 0 < x then x else Fin 0)) \<and>
     (eq_state (eq_switch s) \<noteq> eq_state s \<longrightarrow> Fin 0.98 < eq_t s)"
proof -
  show "eq_state s \<notin> {1, 2} \<Longrightarrow> eq_phase (eq_step s) = eq_phase s"
    by (simp add: eq_step_def eq_switch_def Let_def)
  assume q: "eq_state s \<in> {1, 2}"
  then have sw: "eq_switch s = s \<or> eq_switch s = eq_switch_to (3 - eq_state s) s \<and> Fin 0.98 < eq_t s"
    by (elim insertE emptyE) (simp_all add: eq_switch_def Let_def)
  have "eq_state (eq_switch s) \<in> {1, 2}" using sw q by auto
  then obtain x where "eq_phase (eq_step s) = (eq_state (eq_switch s), if eq_t (eq_switch s) < x then x else eq_t (eq_switch s))"
    using eq_stance_phase [of "eq_switch s"] by (auto simp: eq_step_def Let_def)
  note x = this
  have "3 - eq_state s \<noteq> eq_state s" using q by auto
  from sw show "\<exists>x. eq_phase (eq_step s) =
     (if eq_state (eq_switch s) = eq_state s then (eq_state s, if eq_t s < x then x else eq_t s)
      else (3 - eq_state s, if Fin 0 < x then x else Fin 0)) \<and>
     (eq_state (eq_switch s) \<noteq> eq_state s \<longrightarrow> Fin 0.98 < eq_t s)"
  proof
    assume "eq_switch s = s"
    then show ?thesis unfolding x by simp blast
  next
    assume e: "eq_switch s = eq_switch_to (3 - eq_state s) s \<and> Fin 0.98 < eq_t s"
    then have "eq_state (eq_switch s) = 3 - eq_state s" "eq_t (eq_switch s) = Fin 0" by simp_all
    with e \<open>3 - eq_state s \<noteq> eq_state s\<close> show ?thesis unfolding x by simp blast
  qed
qed

lemma eq_start_phase: "eq_phase (eq_start s) = (if isStarting s then eq_phase s else (2, Fin 1))"
  by (simp add: eq_start_def Let_def split_beta) (simp add: eq_phase_def isStarting_def set_leg_motors_def set_motors_def)

lemma eq_controller_cases:
  obtains "eq_phase (eq_controller s) = eq_phase s"
  | u where "eq_phase u = eq_phase s" and "eq_state s = 0" and "eq_phase (eq_controller s) = eq_phase (eq_start u)"
  | u where "eq_phase u = eq_phase s" and "eq_phase (eq_controller s) = eq_phase (eq_step u)"
proof -
  define t where "t = (let s = (if \<not> isEnabled s then s\<lparr>idle_mode := False\<rparr> else s)
    in if eq_control (eq_guiIn s) = 0 then s\<lparr>idle_mode := True\<rparr> else s)"
  define u where "u = t\<lparr>pd2Controller := (pd2Controller t)\<lparr>pd_P := hipP t\<rparr>, pd5Controller := (pd5Controller t)\<lparr>pd_P := hipP t\<rparr>\<rparr>"
  have t: "eq_phase t = eq_phase s" by (simp add: t_def eq_phase_def Let_def)
  then have u: "eq_phase u = eq_phase s" by (simp add: u_def eq_phase_def)
  have q: "eq_state (eq_hips u) = eq_state s" using u eq_phase_frame(5) [of u] by (simp add: eq_phase_def)
  have "eq_controller s = (if idle_mode t then eq_idle t else if \<not> isEnabled u then u
      else if eq_state (eq_hips u) = 0 then eq_start (eq_hips u) else eq_step (eq_hips u))"
    by (simp only: eq_controller_def t_def u_def Let_def)
  then consider "eq_phase (eq_controller s) = eq_phase s" | "eq_state s = 0" "eq_controller s = eq_start (eq_hips u)"
    | "eq_controller s = eq_step (eq_hips u)"
    using t q eq_phase_frame(6) [of t] u by metis
  then show ?thesis
  proof cases
    case 1
    then show ?thesis by (rule that(1))
  next
    case 2
    then show ?thesis using that(2) [of "eq_hips u"] u by simp
  next
    case 3
    then show ?thesis using that(3) [of "eq_hips u"] u by simp
  qed
qed

lemma eq_point_moves:
  "eq_moves (eq_phase s) (eq_phase (eq_controller s))"
proof (cases s rule: eq_controller_cases)
  case 1
  then show ?thesis by (cases "eq_phase s") (simp add: eq_moves.stay)
next
  case (2 u)
  then have "eq_phase s = (0, eq_t u)" by (simp add: eq_phase_def)
  then show ?thesis using 2 by (auto simp: eq_start_phase intro: eq_moves.intros)
next
  case (3 u)
  show ?thesis
  proof (cases "eq_state u \<in> {1, 2}")
    case True
    obtain x where x: "eq_phase (eq_step u) =
       (if eq_state (eq_switch u) = eq_state u then (eq_state u, if eq_t u < x then x else eq_t u)
        else (3 - eq_state u, if Fin 0 < x then x else Fin 0))"
      "eq_state (eq_switch u) \<noteq> eq_state u \<Longrightarrow> Fin 0.98 < eq_t u"
      using eq_step_phase(2) [OF True] by blast
    have "Fin 0 \<le> (if Fin 0 < x then x else Fin 0)" by (cases x) auto
    then have "eq_moves (eq_state u, eq_t u) (eq_phase (eq_step u))"
      unfolding x(1) using True x(2) by (auto intro: eq_moves.intros)
    then show ?thesis using 3 by (simp add: eq_phase_def)
  next
    case False
    then show ?thesis using 3 eq_step_phase(1) [of u] by (cases "eq_phase s") (auto intro: eq_moves.stay)
  qed
qed

text \<open>
  C19. The steps of the walking controller: whatever the settings of the operator and the state of the robot, a call does
  nothing to state and phase, or ends the smooth start in the stance on the left leg with the phase complete, or
  moves the phase forward, or, from a phase over 0.98 only, steps over to the other leg with the phase restarted.
\<close>

theorem eq_point_refines:
  "eq_moves (eq_phase s) (eq_phase (eq_controller s))"
  by (rule eq_point_moves)

lemma eq_moves_stepping: "eq_moves (q, t) (q', t') \<Longrightarrow> q \<in> {1, 2} \<Longrightarrow> q' \<in> {1, 2}"
  by (erule eq_movesE) auto

type_synonym eq_call = "nsecs \<times> eq_input \<times> robot_state"

definition eq_call :: "robot_variant \<Rightarrow> eq_call \<Rightarrow> eq_point \<Rightarrow> eq_point" where
  "eq_call v c s = (case c of (now, gui, rs) \<Rightarrow> snd (runController v True True eq_controller now rs (s\<lparr>eq_guiIn := gui\<rparr>)))"

text \<open>The members that a call keeps outside the controller itself.\<close>

definition eq_members :: "'c eq_point_scheme \<Rightarrow> int \<times> dbl \<times> bool \<times> dbl \<times> dbl" where
  "eq_members s = (eq_state s, eq_t s, idle_mode s, pd_D (pd2Controller s), pd_D (pd5Controller s))"

lemma eq_members_run [simp]:
  fixes s :: eq_point
  shows "eq_members (startupController v s) = eq_members s" "eq_members (atc_publish g l now s) = eq_members s"
    "eq_members (atc_enter rs s) = eq_members s" "eq_members (s\<lparr>eq_guiIn := gui\<rparr>) = eq_members s"
  by (simp_all add: eq_members_def startupController_def atc_publish_def atc_enter_def Let_def split_beta)

lemma eq_call_members:
  "eq_members (eq_call v (now, gui, rs) s) = eq_members (eq_controller (atc_enter rs (s\<lparr>eq_guiIn := gui\<rparr>)))"
  by (simp add: eq_call_def runController_def Let_def)

lemma eq_enter [simp]:
  "eq_guiIn (atc_enter rs s) = eq_guiIn s" "isEnabled (atc_enter rs (s :: eq_point)) \<longleftrightarrow> state_enabled rs"
  by (simp_all add: atc_enter_def Let_def isEnabled_def state_enabled_def)

text \<open>
  The smooth start runs once only: from the first step on, no sequence of calls leads back to it, not even when
  the robot is disabled, carried elsewhere and enabled again.
\<close>

theorem eq_never_restarts:
  assumes "eq_state s \<in> {1, 2}"
  shows "eq_state (fold (eq_call v) calls s) \<in> {1, 2}"
  using assms
proof (induction calls arbitrary: s)
  case (Cons c calls)
  obtain now gui rs where c: "c = (now, gui, rs)" by (cases c)
  let ?u = "atc_enter rs (s\<lparr>eq_guiIn := gui\<rparr>)"
  have u: "eq_phase ?u = eq_phase s" "eq_state (eq_call v c s) = eq_state (eq_controller ?u)"
    using eq_members_run(3,4) eq_call_members [of v now gui rs s] c by (simp_all add: eq_members_def eq_phase_def)
  have "eq_moves (eq_phase s) (eq_phase (eq_controller ?u))" using eq_point_moves [of ?u] u(1) by simp
  then have "eq_state (eq_call v c s) \<in> {1, 2}"
    using eq_moves_stepping Cons.prems u(2) by (simp add: eq_phase_def)
  then show ?case using Cons.IH by simp
qed simp

subsection \<open>The idle mode\<close>

lemma eq_idle_step:
  assumes "eq_control (eq_guiIn s) = 0 \<or> idle_mode s \<and> isEnabled s"
  shows "\<exists>u. eq_controller s = eq_idle u \<and> atc_rs u = atc_rs s \<and> atc_co u = atc_co s \<and> idle_mode u \<and>
    pd_D (pd2Controller u) = pd_D (pd2Controller s) \<and> pd_D (pd5Controller u) = pd_D (pd5Controller s)"
proof -
  define u where "u = (let s = (if \<not> isEnabled s then s\<lparr>idle_mode := False\<rparr> else s)
    in if eq_control (eq_guiIn s) = 0 then s\<lparr>idle_mode := True\<rparr> else s)"
  have "eq_controller s = eq_idle u" using assms by (auto simp: eq_controller_def u_def Let_def)
  moreover have "atc_rs u = atc_rs s \<and> atc_co u = atc_co s \<and> idle_mode u \<and>
    pd_D (pd2Controller u) = pd_D (pd2Controller s) \<and> pd_D (pd5Controller u) = pd_D (pd5Controller s)"
    using assms by (auto simp: u_def Let_def)
  ultimately show ?thesis by blast
qed

lemma eq_idle_members:
  assumes "idle_mode u"
  shows "idle_mode (eq_idle u)" "pd_D (pd2Controller (eq_idle u)) = pd_D (pd2Controller u)"
    "pd_D (pd5Controller (eq_idle u)) = pd_D (pd5Controller u)"
  using assms by (simp_all add: eq_idle_def Let_def set_hip_motors_def set_motors_def)

lemma eq_idle_output:
  "leg_currents (atc_co (eq_idle u)) = leg_currents (atc_co u)"
  "motorCurrentHip (co_lLeg (atc_co (eq_idle u))) = hip_motor_pd \<lparr>pd_P = Fin 0, pd_D = pd_D (pd2Controller u)\<rparr> (Fin 0) (hip (lLeg (atc_rs u)))"
  "motorCurrentHip (co_rLeg (atc_co (eq_idle u))) = hip_motor_pd \<lparr>pd_P = Fin 0, pd_D = pd_D (pd5Controller u)\<rparr> (Fin 0) (hip (rLeg (atc_rs u)))"
proof -
  have p: "p\<lparr>pd_P := x\<rparr> = \<lparr>pd_P = x, pd_D = pd_D p\<rparr>" for p :: ASCPD and x by simp
  show "leg_currents (atc_co (eq_idle u)) = leg_currents (atc_co u)"
    "motorCurrentHip (co_lLeg (atc_co (eq_idle u))) = hip_motor_pd \<lparr>pd_P = Fin 0, pd_D = pd_D (pd2Controller u)\<rparr> (Fin 0) (hip (lLeg (atc_rs u)))"
    "motorCurrentHip (co_rLeg (atc_co (eq_idle u))) = hip_motor_pd \<lparr>pd_P = Fin 0, pd_D = pd_D (pd5Controller u)\<rparr> (Fin 0) (hip (rLeg (atc_rs u)))"
    by (simp_all add: eq_idle_def Let_def set_hip_motors_def set_motors_def leg_currents_def p)
qed

lemma enter_leg_currents: "leg_currents (atc_co (atc_enter rs s)) = [Fin 0, Fin 0, Fin 0, Fin 0]"
  by (simp add: atc_enter_def Let_def leg_currents_def map_currents_def)

text \<open>A damper on a hip: no torque but against its velocity.\<close>

lemma hip_damper:
  assumes "legBodyAngle h = Fin a" and "legBodyVelocity h = Fin u"
  shows "hip_motor_pd \<lparr>pd_P = Fin 0, pd_D = Fin d\<rparr> (Fin 0) h = Fin (- d * u)"
  using assms by (simp add: hip_motor_pd_def pd_call_def)

text \<open>
  The idle mode is latched: once the operator has selected it, the controller asks for no current in the
  legs and only damps the hips, whatever the operator selects afterwards, until the robot is disabled.
\<close>

theorem eq_idle_latched:
  assumes "eq_control gui = 0" and "\<forall>(now', gui', rs') \<in> set calls. state_enabled rs'" and "state_enabled rs'"
    and "pd_D (pd2Controller s) = Fin 10" and "pd_D (pd5Controller s) = Fin 10"
    and "legBodyAngle (hip (lLeg rs')) = Fin a" and "legBodyVelocity (hip (lLeg rs')) = Fin u"
    and "legBodyAngle (hip (rLeg rs')) = Fin b" and "legBodyVelocity (hip (rLeg rs')) = Fin w"
    and "s' = fold (eq_call v) calls (eq_call v (now, gui, rs) s)"
    and "co = atc_co (eq_controller (atc_enter rs' (s'\<lparr>eq_guiIn := gui'\<rparr>)))"
  shows "leg_currents co = [Fin 0, Fin 0, Fin 0, Fin 0] \<and>
    motorCurrentHip (co_lLeg co) = Fin (- 10 * u) \<and> motorCurrentHip (co_rLeg co) = Fin (- 10 * w)"
proof -
  have kept: "eq_members (eq_call v (now', g, r) x) = (q, t, True, pd_D (pd2Controller x), pd_D (pd5Controller x))"
    if "eq_control g = 0 \<or> idle_mode x \<and> state_enabled r"
      and "q = eq_state (eq_call v (now', g, r) x)" and "t = eq_t (eq_call v (now', g, r) x)" for now' g r x q t
  proof -
    let ?e = "atc_enter r (x\<lparr>eq_guiIn := g\<rparr>)"
    have e: "idle_mode ?e = idle_mode x" "pd_D (pd2Controller ?e) = pd_D (pd2Controller x)"
      "pd_D (pd5Controller ?e) = pd_D (pd5Controller x)"
      using eq_members_run(3,4) by (simp_all add: eq_members_def)
    with that(1) have "eq_control (eq_guiIn ?e) = 0 \<or> idle_mode ?e \<and> isEnabled ?e" by simp
    from eq_idle_step [OF this] show ?thesis
      using eq_call_members [of v now' g r x] that(2,3) e by (auto simp: eq_members_def eq_idle_members)
  qed
  have "idle_mode (fold (eq_call v) calls (eq_call v (now, gui, rs) s)) \<and>
      pd_D (pd2Controller (fold (eq_call v) calls (eq_call v (now, gui, rs) s))) = Fin 10 \<and>
      pd_D (pd5Controller (fold (eq_call v) calls (eq_call v (now, gui, rs) s))) = Fin 10"
    using assms(2)
  proof (induction calls rule: rev_induct)
    case Nil
    then show ?case using kept [of gui s rs _ now] assms(1,4,5) by (simp add: eq_members_def)
  next
    case (snoc c calls)
    obtain now' g r where c: "c = (now', g, r)" by (cases c)
    with snoc.prems have "state_enabled r" by auto
    then show ?case
      using snoc kept [of g "fold (eq_call v) calls (eq_call v (now, gui, rs) s)" r _ now'] by (simp add: c eq_members_def)
  qed
  then have s': "idle_mode s'" "pd_D (pd2Controller s') = Fin 10" "pd_D (pd5Controller s') = Fin 10"
    by (simp_all add: assms(10))
  let ?e = "atc_enter rs' (s'\<lparr>eq_guiIn := gui'\<rparr>)"
  have e: "idle_mode ?e" "pd_D (pd2Controller ?e) = Fin 10" "pd_D (pd5Controller ?e) = Fin 10"
    using eq_members_run(3,4) s' by (simp_all add: eq_members_def)
  then have "idle_mode ?e \<and> isEnabled ?e" using assms(3) by simp
  from eq_idle_step [OF disjI2 [OF this]] obtain x where x: "eq_controller ?e = eq_idle x" "atc_rs x = rs'"
    "leg_currents (atc_co x) = [Fin 0, Fin 0, Fin 0, Fin 0]" "pd_D (pd2Controller x) = Fin 10" "pd_D (pd5Controller x) = Fin 10"
    using e enter_leg_currents [of rs' "s'\<lparr>eq_guiIn := gui'\<rparr>"] by auto
  then show ?thesis
    unfolding assms(11) using hip_damper [OF assms(6,7), of 10] hip_damper [OF assms(8,9), of 10]
    by (simp add: eq_idle_output)
qed

subsection \<open>The swing\<close>

lemma flight_angle_swing:
  assumes "eq_lot gui = Fin lot" and "eq_tsw gui = Fin tsw" and "eq_aover gui = Fin ao" and "lot \<le> t" and "t < tsw"
  shows "fst (fst (flight_target gui (Fin P) (Fin A) e (Fin t))) = Fin (P - (t - lot) / (tsw - lot) * (P - A) * (1 + ao))"
  using assms by (simp add: flight_target_def Let_def)

lemma flight_angle_end:
  assumes "eq_lot gui = Fin lot" and "eq_tsw gui = Fin tsw" and "eq_aover gui = Fin ao" and "lot < tsw" and "tsw < 1"
  shows "fst (fst (flight_target gui (Fin P) (Fin A) (Fin e) (Fin tsw))) = Fin (e - (P - A) * ao)"
  using assms by (simp add: flight_target_def Let_def)

lemma flight_angle_jump:
  assumes "eq_lot gui = Fin lot" and "eq_tsw gui = Fin tsw" and "eq_aover gui = Fin ao" and "lot < tsw" and "tsw < 1"
    and "phi = (\<lambda>t. real_of_dbl (fst (fst (flight_target gui (Fin P) (Fin A) (Fin e) (Fin t)))))"
  shows "(phi \<longlongrightarrow> phi tsw + (A - e)) (at_left tsw)"
proof -
  let ?f = "\<lambda>t. P - (t - lot) / (tsw - lot) * (P - A) * (1 + ao)"
  have "(?f \<longlongrightarrow> ?f tsw) (at_left tsw)"
    using assms(4) by (intro tendsto_intros) simp
  moreover have "phi tsw = e - (P - A) * ao" unfolding assms(6) flight_angle_end [OF assms(1-5)] by simp
  then have "?f tsw = phi tsw + (A - e)" using assms(4) by (simp add: algebra_simps)
  moreover have "\<forall>\<^sub>F t in at_left tsw. ?f t = phi t"
    using eventually_at_left_real [OF assms(4)]
    by (rule eventually_mono) (simp add: assms(6) flight_angle_swing [OF assms(1-3)])
  ultimately show ?thesis using tendsto_cong [of ?f phi "at_left tsw"] by simp
qed

text \<open>
  The swing of the left leg jumps: at the end of the swing proper the target angle of the inner leg leaps by
  the correction of the step, 9 percent of the sweep times the operator's circle parameter, because the retraction ends at
  the angle of the outer leg. The right leg, which is not corrected, does not jump.
\<close>

theorem left_swing_jumps:
  assumes "eq_lot gui = Fin lot" and "eq_tsw gui = Fin tsw" and "eq_aover gui = Fin ao" and "lot < tsw" and "tsw < 1"
    and "eq_pea gui = Fin pea" and "eq_aea gui = Fin aea" and "eq_rco gui = Fin rco"
    and "inner = (\<lambda>t. real_of_dbl (fst (fst (flight_target gui (fst (inner_angles gui)) (snd (inner_angles gui)) (eq_aea gui) (Fin t)))))"
    and "outer = (\<lambda>t. real_of_dbl (fst (fst (flight_target gui (eq_pea gui) (eq_aea gui) (eq_aea gui) (Fin t)))))"
  shows "(inner \<longlongrightarrow> inner tsw + 0.09 * rco * (pea - aea)) (at_left tsw) \<and> (outer \<longlongrightarrow> outer tsw) (at_left tsw)"
proof
  have i: "inner_angles gui = (Fin (pea - rco * 0.09 * (pea - aea)), Fin (aea + rco * 0.09 * (pea - aea)))"
    using assms(6-8) by (simp add: inner_angles_def Let_def)
  show "(inner \<longlongrightarrow> inner tsw + 0.09 * rco * (pea - aea)) (at_left tsw)"
    using flight_angle_jump [OF assms(1-5), of inner "pea - rco * 0.09 * (pea - aea)" "aea + rco * 0.09 * (pea - aea)" aea]
    by (simp add: assms(7,9) i algebra_simps)
  show "(outer \<longlongrightarrow> outer tsw) (at_left tsw)"
    using flight_angle_jump [OF assms(1-5), of outer pea aea aea] by (simp add: assms(6,7,10))
qed

text \<open>The torso controller has no effect in the steps.\<close>

lemma torso_control_off:
  assumes "isfinite (desiredTorsoAngle (eq_guiIn s))" and "isfinite (bodyPitch (position (atc_rs s)))"
    and "isfinite (bodyPitchVelocity (position (atc_rs s)))"
  shows "torso_torque (s\<lparr>pdTorsoController := \<lparr>pd_P = Fin 0, pd_D = Fin 0\<rparr>\<rparr>) = Fin 0"
  using assms by (auto simp: torso_torque_def pd_call_def isfinite_iff)

subsection \<open>Instances\<close>

definition eq_gui :: eq_input where
  "eq_gui = \<lparr>eq_control = 2, eq_gc_l = 0, eq_gc_r = 0, eq_aea = Fin 1.3, eq_pea = Fin 1.8, eq_lhip_pos = Fin 2.15,
     eq_rhip_pos = Fin 2.45, eq_pst = Fin 600, eq_pfl1 = Fin 400, eq_pfl2 = Fin 400, eq_dst = Fin 15, eq_dfl1 = Fin 15,
     eq_dfl2 = Fin 15, eq_lfl = Fin 0.8, eq_lot = Fin 0.1, eq_lst = Fin 0.9, eq_tsw = Fin 0.7, eq_loc = Fin 0,
     eq_aover = Fin 0.2, eq_rco = Fin 1, eq_thip = Fin 0, eq_tab = Fin 0.5, desiredTorsoAngle = Fin 4.7\<rparr>"

lemma eq_never_restarts_witness:
  "\<forall>s. eq_state (fold (eq_call biped1) [(0, eq_gui, robot_state_zero), (0, eq_gui, enabled_state)] (s\<lparr>eq_state := 2\<rparr>)) \<in> {1, 2}"
  by (intro allI eq_never_restarts) simp

lemma eq_idle_latched_witness:
  "\<forall>s. leg_currents (atc_co (eq_controller (atc_enter enabled_state
     ((eq_call biped1 (0, eq_gui\<lparr>eq_control := 0\<rparr>, enabled_state) (new_ATCEqPoint s))\<lparr>eq_guiIn := eq_gui\<rparr>)))) =
   [Fin 0, Fin 0, Fin 0, Fin 0]"
proof
  fix s
  have "pd_D (pd2Controller (new_ATCEqPoint s)) = Fin 10" "pd_D (pd5Controller (new_ATCEqPoint s)) = Fin 10"
    by (simp_all add: new_ATCEqPoint_def setStartupEnabled_def Let_def)
  then show "leg_currents (atc_co (eq_controller (atc_enter enabled_state
     ((eq_call biped1 (0, eq_gui\<lparr>eq_control := 0\<rparr>, enabled_state) (new_ATCEqPoint s))\<lparr>eq_guiIn := eq_gui\<rparr>)))) =
   [Fin 0, Fin 0, Fin 0, Fin 0]"
    using eq_idle_latched [of "eq_gui\<lparr>eq_control := 0\<rparr>" "[]" enabled_state "new_ATCEqPoint s" 0 0 0 0 _ biped1 0 enabled_state, OF _ _ _ _ _ _ _ _ _ refl refl]
    by (simp add: state_enabled_def enabled_state_def robot_state_zero_def robot_state_leg_zero_def robot_state_hip_zero_def)
qed

lemma left_swing_jumps_witness:
  "((\<lambda>t. real_of_dbl (fst (fst (flight_target eq_gui (fst (inner_angles eq_gui)) (snd (inner_angles eq_gui)) (Fin 1.3) (Fin t)))))
    \<longlongrightarrow> real_of_dbl (fst (fst (flight_target eq_gui (fst (inner_angles eq_gui)) (snd (inner_angles eq_gui)) (Fin 1.3) (Fin 0.7)))) + 0.09 * 0.5) (at_left 0.7)"
  using left_swing_jumps [of eq_gui "0.1" "0.7" "0.2" "1.8" "1.3" 1, OF _ _ _ _ _ _ _ _ refl refl] by (simp add: eq_gui_def)

end
