(* ===== verification/SlipHopping.thy ===== *)
theory SlipHopping
  imports SlipModel SlipWalking StabilizedStanding
begin

text \<open>
  The controller ATCSlipHopping: both legs hop together, in the air held at a fixed length, on the ground as a passive
  or a virtual spring. The functions that the source has commented out are not part of it. The theorems show the
  machine of the two phases, what the passive stance does, and three ways in which the code misses its intention.
\<close>

subsection \<open>State\<close>

record hop_input =
  hop_standing_leg :: dbl
  hop_hop_height :: dbl
  hop_slip_leg :: dbl
  hop_main_controller :: uint8
  hop_spring_type :: uint8
  hop_force_type :: uint8
  hop_stance_controller :: uint8
  hop_hop_type :: uint8
  force_threshold_td :: dbl
  force_threshold_to :: dbl
  position_threshold_td :: dbl
  hop_leg_pos_kp :: dbl
  hop_leg_for_kp :: dbl
  hop_leg_pos_kd :: dbl
  hop_leg_for_kd :: dbl
  hop_hip_pos_kp :: dbl
  hop_hip_pos_kd :: dbl
  hop_left_toe_pos :: dbl
  hop_right_toe_pos :: dbl

record hop_status =
  hop_isEnabled :: bool
  hopping_state :: dbl

text \<open>The members that live from one call to the next.\<close>

record slip_hopping = atc +
  hop_guiIn :: hop_input
  hop_guiOut :: hop_status
  hop_slipModel :: ASCSlipModel
  hop_legForceL :: ASCLegForce
  hop_legForceR :: ASCLegForce
  hop_pds :: motor_pds
  hop_rates :: motor_targets
  forceThresholdTO :: dbl
  forceThresholdTD :: dbl
  positionThresholdTD :: dbl
  hop_controllerState :: int
  hoppingState :: int
  hop_legRateLimit :: dbl
  hop_hipRateLimit :: dbl
  stanceControlType :: int
  hoppingType :: int
  forceControlType :: int
  springType :: int
  hopHeight :: dbl
  hop_r0 :: dbl

definition new_ATCSlipHopping :: "slip_hopping \<Rightarrow> slip_hopping" where
  "new_ATCSlipHopping mem =
     (let s = mem\<lparr>hop_slipModel := new_ASCSlipModel, hop_legForceL := new_ASCLegForce, hop_legForceR := new_ASCLegForce\<rparr>;
          s = snd (setStartupEnabled True s)
      in s\<lparr>hop_legRateLimit := Fin 0.5, hop_hipRateLimit := Fin 0.5, hoppingState := 0\<rparr>)"

subsection \<open>One leg\<close>

text \<open>The members of a leg, which the code passes by pointers.\<close>

definition leg_pdA :: "leg_side \<Rightarrow> motor_pds \<Rightarrow> ASCPD" where
  "leg_pdA x p = (case x of LeftLeg \<Rightarrow> pdLA p | RightLeg \<Rightarrow> pdRA p)"

definition leg_pdB :: "leg_side \<Rightarrow> motor_pds \<Rightarrow> ASCPD" where
  "leg_pdB x p = (case x of LeftLeg \<Rightarrow> pdLB p | RightLeg \<Rightarrow> pdRB p)"

definition leg_rates :: "leg_side \<Rightarrow> motor_targets \<Rightarrow> dbl \<times> dbl" where
  "leg_rates x t = (case x of LeftLeg \<Rightarrow> (tgtLA t, tgtLB t) | RightLeg \<Rightarrow> (tgtRA t, tgtRB t))"

definition set_leg_rates :: "leg_side \<Rightarrow> dbl \<Rightarrow> dbl \<Rightarrow> motor_targets \<Rightarrow> motor_targets" where
  "set_leg_rates x a b t = (case x of LeftLeg \<Rightarrow> t\<lparr>tgtLA := a, tgtLB := b\<rparr> | RightLeg \<Rightarrow> t\<lparr>tgtRA := a, tgtRB := b\<rparr>)"

definition set_leg :: "leg_side \<Rightarrow> dbl \<times> dbl \<Rightarrow> 'c atc_scheme \<Rightarrow> 'c atc_scheme" where
  "set_leg x ab s = (case x of LeftLeg \<Rightarrow> set_left_leg ab s | RightLeg \<Rightarrow> set_right_leg ab s)"

text \<open>Position control of a leg that hangs straight, at a given length, with limited rate.\<close>

definition hold_leg :: "leg_side \<Rightarrow> dbl \<Rightarrow> slip_hopping \<Rightarrow> slip_hopping" where
  "hold_leg x len s =
     (let leg = rs_leg x (atc_rs s); p = hop_pds s; (ta, tb) = leg_rates x (hop_rates s);
          (qA, qB) = legPos2MotorPos (Fin (M_PI / 2)) len;
          qA = rate_limit qA (hop_legRateLimit s) ta;
          qB = rate_limit qB (hop_legRateLimit s) tb;
          s = s\<lparr>hop_rates := set_leg_rates x qA qB (hop_rates s)\<rparr>
      in set_leg x (motor_pd (leg_pdA x p) qA (halfA leg), motor_pd (leg_pdB x p) qB (halfB leg)) s)"

definition ballisticStanceLegController :: "leg_side \<Rightarrow> slip_hopping \<Rightarrow> slip_hopping" where
  "ballisticStanceLegController x s = hold_leg x (sm_r0 (hop_slipModel s)) s"

text \<open>Called by nothing.\<close>

definition ballisticFlightLegController :: "leg_side \<Rightarrow> slip_hopping \<Rightarrow> slip_hopping" where
  "ballisticFlightLegController x s = hold_leg x (sm_r0 (hop_slipModel s) * Fin 0.85) s"

definition passive_targets :: "dbl \<Rightarrow> robot_state_leg \<Rightarrow> dbl \<times> dbl" where
  "passive_targets r0 leg =
     (let (qSl, rSl) = motorPos2LegPos (legAngle (halfA leg)) (legAngle (halfB leg)) in legPos2MotorPos qSl r0)"

definition passiveStanceController :: "leg_side \<Rightarrow> slip_hopping \<Rightarrow> slip_hopping" where
  "passiveStanceController x s =
     (let leg = rs_leg x (atc_rs s); p = hop_pds s; (qSmA, qSmB) = passive_targets (sm_r0 (hop_slipModel s)) leg
      in set_leg x (motor_pd (leg_pdA x p) qSmA (halfA leg), motor_pd (leg_pdB x p) qSmB (halfB leg)) s)"

definition virtual_spring :: "dbl \<Rightarrow> robot_state_leg \<Rightarrow> LegForce" where
  "virtual_spring r0 leg =
     (let a = halfA leg; b = halfB leg;
          (qSl, rSl) = motorPos2LegPos (legAngle a) (legAngle b);
          (dqSl, drSl) = motorVel2LegVel (legAngle a) (legAngle b) (legVelocity a) (legVelocity b);
          (fa, dfa) = ct_legForce (Fin KS) rSl drSl r0
      in \<lparr>fx = - fa * dbl_cos qSl, fz = fa * dbl_sin qSl,
          dfx = dqSl * dbl_sin qSl * fa - dfa * dbl_cos qSl, dfz = dqSl * dbl_cos qSl * fa + dfa * dbl_sin qSl\<rparr>)"

definition virtualSpringStanceController :: "leg_side \<Rightarrow> slip_hopping \<Rightarrow> slip_hopping" where
  "virtualSpringStanceController x s =
     (let leg = rs_leg x (atc_rs s); f = virtual_spring (hop_r0 s) leg; pos = position (atc_rs s)
      in case x of
           LeftLeg \<Rightarrow> (let (cur, lf) = leg_force_control f leg pos (hop_legForceL s)
                       in set_leg x cur (s\<lparr>hop_legForceL := lf\<rparr>))
         | RightLeg \<Rightarrow> (let (cur, lf) = leg_force_control f leg pos (hop_legForceR s)
                        in set_leg x cur (s\<lparr>hop_legForceR := lf\<rparr>)))"

subsection \<open>Events\<close>

definition takes_off :: "slip_hopping \<Rightarrow> bool" where
  "takes_off s \<longleftrightarrow>
     (let rs = atc_rs s; pos = position rs
      in - forceThresholdTO s \<le> fz (leg_force_compute (lLeg rs) pos) \<and>
         - forceThresholdTO s \<le> fz (leg_force_compute (rLeg rs) pos))"

definition stanceEvents :: "slip_hopping \<Rightarrow> slip_hopping" where
  "stanceEvents s = (if takes_off s then s\<lparr>hoppingState := (hoppingState s + 1) mod 2\<rparr> else s)"

text \<open>The two conditions of the touchdown are the same text, for the left leg.\<close>

definition touches_down :: "slip_hopping \<Rightarrow> bool" where
  "touches_down s \<longleftrightarrow>
     (let rs = atc_rs s; pos = position rs;
          (qLl, rLl) = motorPos2LegPos (legAngle (halfA (lLeg rs))) (legAngle (halfB (lLeg rs)));
          forceL = leg_force_compute (lLeg rs) pos;
          isLeftLegTD = (fz forceL \<le> - forceThresholdTD s \<and> zPosition pos - positionThresholdTD s \<le> rLl * dbl_sin qLl);
          isRightLegTD = (fz forceL \<le> - forceThresholdTD s \<and> zPosition pos - positionThresholdTD s \<le> rLl * dbl_sin qLl)
      in isLeftLegTD \<or> isRightLegTD)"

definition ballisticEvents :: "slip_hopping \<Rightarrow> slip_hopping" where
  "ballisticEvents s = (if touches_down s then s\<lparr>hoppingState := (hoppingState s + 1) mod 2\<rparr> else s)"

subsection \<open>The controller\<close>

text \<open>The forces that the code computes here go to the log only.\<close>

definition hop_updateController :: "slip_hopping \<Rightarrow> slip_hopping" where
  "hop_updateController s =
     (if \<not> isEnabled s \<or> \<not> hop_controllerState s = uint (hop_main_controller (hop_guiIn s))
      then s\<lparr>hop_rates := ss_positions (atc_rs s)\<rparr> else s)"

definition hop_updateGui :: "slip_hopping \<Rightarrow> slip_hopping" where
  "hop_updateGui s =
     (let gui = hop_guiIn s;
          s = s\<lparr>hop_controllerState := uint (hop_main_controller gui), hoppingType := uint (hop_hop_type gui),
                stanceControlType := uint (hop_stance_controller gui), forceControlType := uint (hop_force_type gui),
                springType := uint (hop_spring_type gui)\<rparr>;
          s = s\<lparr>forceThresholdTO := force_threshold_td gui\<rparr>;
          s = s\<lparr>forceThresholdTO := force_threshold_to gui\<rparr>;
          s = s\<lparr>positionThresholdTD := position_threshold_td gui\<rparr>;
          s = s\<lparr>hop_r0 := hop_slip_leg gui, hopHeight := hop_hop_height gui\<rparr>;
          pm = \<lparr>pd_P = hop_leg_pos_kp gui, pd_D = hop_leg_pos_kd gui\<rparr>;
          ph = \<lparr>pd_P = hop_hip_pos_kp gui, pd_D = hop_hip_pos_kd gui\<rparr>;
          gains = (\<lambda>f. f\<lparr>lf_kp := hop_leg_for_kp gui, lf_ki := Fin 0, lf_kd := hop_leg_for_kd gui\<rparr>);
          s = s\<lparr>hop_pds := \<lparr>pdLA = pm, pdLB = pm, pdLH = ph, pdRA = pm, pdRB = pm, pdRH = ph\<rparr>,
                hop_legForceL := gains (hop_legForceL s), hop_legForceR := gains (hop_legForceR s)\<rparr>
      in s\<lparr>hop_guiOut := \<lparr>hop_isEnabled = isEnabled s, hopping_state = of_int_dbl (hoppingState s)\<rparr>\<rparr>)"

definition hop_hipController :: "slip_hopping \<Rightarrow> slip_hopping" where
  "hop_hipController s =
     (let rs = atc_rs s; l = lLeg rs; r = rLeg rs; gui = hop_guiIn s;
          (qLh, qRh) = iKine \<lparr>lr_left = hop_left_toe_pos gui, lr_right = hop_right_toe_pos gui\<rparr> l r (position rs);
          qLh = rate_limit qLh (hop_hipRateLimit s) (tgtLH (hop_rates s));
          qRh = rate_limit qRh (hop_hipRateLimit s) (tgtRH (hop_rates s));
          s = s\<lparr>hop_rates := (hop_rates s)\<lparr>tgtLH := qLh, tgtRH := qRh\<rparr>\<rparr>
      in set_hip_motors (hip_motor_pd (pdLH (hop_pds s)) qLh (hip l)) (hip_motor_pd (pdRH (hop_pds s)) qRh (hip r)) s)"

definition hop_standingController :: "slip_hopping \<Rightarrow> slip_hopping" where
  "hop_standingController s =
     (let len = hop_standing_leg (hop_guiIn s) in hold_leg RightLeg len (hold_leg LeftLeg len s))"

definition hop_shutdownController :: "slip_hopping \<Rightarrow> slip_hopping" where
  "hop_shutdownController s =
     (let l = lLeg (atc_rs s); r = rLeg (atc_rs s); p = hop_pds s; z = Fin 0
      in set_motors (pd_call (pdLA p) z z z (motorVelocity (halfA l))) (pd_call (pdLB p) z z z (motorVelocity (halfB l)))
           (pd_call (pdLH p) z z z (legBodyVelocity (hip l)))
           (pd_call (pdRA p) z z z (motorVelocity (halfA r))) (pd_call (pdRB p) z z z (motorVelocity (halfB r)))
           (pd_call (pdRH p) z z z (legBodyVelocity (hip r))) s)"

definition stance_phase :: "slip_hopping \<Rightarrow> slip_hopping" where
  "stance_phase s =
     (if stanceControlType s = 0 then passiveStanceController RightLeg (passiveStanceController LeftLeg s)
      else if stanceControlType s = 2 then virtualSpringStanceController RightLeg (virtualSpringStanceController LeftLeg s)
      else s)"

definition hop_controller :: "slip_hopping \<Rightarrow> slip_hopping" where
  "hop_controller s =
     (let s = hop_hipController (hop_updateGui (hop_updateController s))
      in if hop_controllerState s = 0 then (hop_standingController s)\<lparr>hoppingState := 0\<rparr>
         else if hop_controllerState s = 1 then
           (if hoppingState s = 0 then
              ballisticEvents (ballisticStanceLegController RightLeg (ballisticStanceLegController LeftLeg s))
            else if hoppingState s = 1 then stanceEvents (stance_phase s)
            else s)
         else if hop_controllerState s = 2 then hop_shutdownController s
         else s)"

subsection \<open>The machine of the phases\<close>

text \<open>What the machine and its events depend on.\<close>

definition hop_view :: "slip_hopping \<Rightarrow> robot_state \<times> int \<times> int \<times> dbl \<times> dbl \<times> dbl \<times> dbl" where
  "hop_view s = (atc_rs s, hop_controllerState s, hoppingState s, forceThresholdTO s, forceThresholdTD s,
     positionThresholdTD s, sm_r0 (hop_slipModel s))"

lemma hop_view_set [simp]:
  fixes s :: slip_hopping
  shows "hop_view (s\<lparr>hop_rates := t\<rparr>) = hop_view s" "hop_view (s\<lparr>hop_legForceL := f\<rparr>) = hop_view s"
    "hop_view (s\<lparr>hop_legForceR := f\<rparr>) = hop_view s" "hop_view (set_motors a b c d e h s) = hop_view s"
  by (simp_all add: hop_view_def set_motors_def)

lemma hop_view_motors [simp]:
  fixes s :: slip_hopping
  shows "hop_view (set_hip_motors a b s) = hop_view s" "hop_view (set_leg x ab s) = hop_view s"
   apply (simp add: set_hip_motors_def Let_def)
  apply (simp add: set_leg_def set_left_leg_def set_right_leg_def set_leg_motors_def Let_def split: leg_side.split)
  done

lemma hop_view_ops [simp]:
  "hop_view (hold_leg x len s) = hop_view s" "hop_view (ballisticStanceLegController x s) = hop_view s"
  "hop_view (passiveStanceController x s) = hop_view s" "hop_view (virtualSpringStanceController x s) = hop_view s"
  "hop_view (stance_phase s) = hop_view s" "hop_view (hop_hipController s) = hop_view s"
  "hop_view (hop_standingController s) = hop_view s" "hop_view (hop_shutdownController s) = hop_view s"
proof -
  show h: "hop_view (hold_leg x len s) = hop_view s" for x len s
    by (simp add: hold_leg_def Let_def split_beta)
  show "hop_view (ballisticStanceLegController x s) = hop_view s" "hop_view (hop_standingController s) = hop_view s"
    by (simp_all add: ballisticStanceLegController_def hop_standingController_def Let_def h)
  show p: "hop_view (passiveStanceController x s) = hop_view s" for x s
    by (simp add: passiveStanceController_def Let_def split_beta)
  show v: "hop_view (virtualSpringStanceController x s) = hop_view s" for x s
    by (cases x) (simp_all add: virtualSpringStanceController_def Let_def split_beta)
  show "hop_view (stance_phase s) = hop_view s" by (simp add: stance_phase_def p v)
  show "hop_view (hop_hipController s) = hop_view s" by (simp add: hop_hipController_def Let_def split_beta)
  show "hop_view (hop_shutdownController s) = hop_view s" by (simp add: hop_shutdownController_def Let_def)
qed

lemma hop_view_cong:
  assumes "hop_view s = hop_view t"
  shows "takes_off s = takes_off t" "touches_down s = touches_down t" "hoppingState s = hoppingState t"
    "hop_controllerState s = hop_controllerState t" "forceThresholdTD s = forceThresholdTD t"
    "sm_r0 (hop_slipModel s) = sm_r0 (hop_slipModel t)"
  using assms by (simp_all add: hop_view_def takes_off_def touches_down_def)

lemma hop_updates:
  "hop_view (hop_updateGui (hop_updateController s)) =
     (atc_rs s, uint (hop_main_controller (hop_guiIn s)), hoppingState s, force_threshold_to (hop_guiIn s), forceThresholdTD s,
      position_threshold_td (hop_guiIn s), sm_r0 (hop_slipModel s))"
  by (simp add: hop_view_def hop_updateGui_def hop_updateController_def Let_def)

text \<open>The state after a call, over the state as the operator's message leaves it.\<close>

lemma hop_controller_view:
  defines "t s \<equiv> hop_updateGui (hop_updateController s)"
  shows "hoppingState (hop_controller s) =
      (if hop_main_controller (hop_guiIn s) = 0 then 0
       else if hop_main_controller (hop_guiIn s) = 1 \<and>
         (hoppingState s = 0 \<and> touches_down (t s) \<or> hoppingState s = 1 \<and> takes_off (t s)) then 1 - hoppingState s
       else hoppingState s)"
    and "forceThresholdTD (hop_controller s) = forceThresholdTD s"
    and "sm_r0 (hop_slipModel (hop_controller s)) = sm_r0 (hop_slipModel s)"
proof -
  let ?u = "hop_hipController (t s)"
  have v: "hop_view ?u = hop_view (t s)" by simp
  have k: "hop_controllerState ?u = uint (hop_main_controller (hop_guiIn s))" "hoppingState ?u = hoppingState s"
    "forceThresholdTD ?u = forceThresholdTD s" "sm_r0 (hop_slipModel ?u) = sm_r0 (hop_slipModel s)"
    using trans [OF v, unfolded t_def, OF hop_updates] by (simp_all add: hop_view_def t_def)
  have n: "uint (hop_main_controller (hop_guiIn s)) = 0 \<longleftrightarrow> hop_main_controller (hop_guiIn s) = 0"
    "uint (hop_main_controller (hop_guiIn s)) = 1 \<longleftrightarrow> hop_main_controller (hop_guiIn s) = 1"
    by (auto simp: word_uint_eq_iff)
  note c = hop_view_cong [where t = "t s"] hop_view_cong(3-6) [where t = ?u]
  have b: "hop_view (ballisticStanceLegController RightLeg (ballisticStanceLegController LeftLeg ?u)) = hop_view ?u"
    "hop_view (stance_phase ?u) = hop_view ?u" "hop_view (hop_standingController ?u) = hop_view ?u"
    "hop_view (hop_shutdownController ?u) = hop_view ?u" by simp_all
  note bb = hop_view_cong [OF b(1)] hop_view_cong [OF b(2)] hop_view_cong [OF b(3)] hop_view_cong [OF b(4)]
    hop_view_cong(1,2) [OF v]
  show "hoppingState (hop_controller s) =
      (if hop_main_controller (hop_guiIn s) = 0 then 0
       else if hop_main_controller (hop_guiIn s) = 1 \<and>
         (hoppingState s = 0 \<and> touches_down (t s) \<or> hoppingState s = 1 \<and> takes_off (t s)) then 1 - hoppingState s
       else hoppingState s)"
    by (simp add: hop_controller_def Let_def t_def [symmetric] k bb n ballisticEvents_def stanceEvents_def)
  show "forceThresholdTD (hop_controller s) = forceThresholdTD s"
    "sm_r0 (hop_slipModel (hop_controller s)) = sm_r0 (hop_slipModel s)"
    by (simp_all add: hop_controller_def Let_def t_def [symmetric] k bb ballisticEvents_def stanceEvents_def)
qed

subsection \<open>The stance\<close>

lemma compute_forces_Fin:
  assumes "legAngle (halfA leg) = Fin la" and "legAngle (halfB leg) = Fin lb" and "motorAngle (halfA leg) = Fin ma"
    and "motorAngle (halfB leg) = Fin mb" and "bodyPitch pos = Fin qb" and "sin (la - lb) \<noteq> 0"
    and "tA = KS * (ma - la)" and "tB = KS * (mb - lb)"
  shows "fx (leg_force_compute leg pos) = Fin (- 2 * (tB * sin (qb + la) - tA * sin (qb + lb)) / sin (la - lb))"
    and "fz (leg_force_compute leg pos) = Fin (- 2 * (tB * cos (qb + la) - tA * cos (qb + lb)) / sin (la - lb))"
  using assms by (simp_all add: leg_force_compute_def Let_def consts_simp)

text \<open>The force of a leg whose springs are deflected by the same angle in opposite directions is along the leg.\<close>

lemma opposite_deflections:
  assumes "legAngle (halfA leg) = Fin la" and "legAngle (halfB leg) = Fin lb" and "sin (la - lb) \<noteq> 0"
    and "motorAngle (halfA leg) = Fin (la + d)" and "motorAngle (halfB leg) = Fin (lb - d)" and "bodyPitch pos = Fin qb"
    and "m = (la + lb) / 2 + qb" and "F = 4 * KS * d * cos ((la - lb) / 2) / sin (la - lb)"
  shows "fx (leg_force_compute leg pos) = Fin (F * sin m)" and "fz (leg_force_compute leg pos) = Fin (F * cos m)"
proof -
  define e where "e = (la - lb) / 2"
  have a: "qb + la = m + e" "qb + lb = m - e" by (simp_all add: assms(7) e_def field_simps)
  have "sin (m + e) + sin (m - e) = 2 * cos e * sin m" "cos (m + e) + cos (m - e) = 2 * cos e * cos m"
    by (simp_all add: sin_add sin_diff cos_add cos_diff)
  then have "- 2 * (KS * - d * sin (m + e) - KS * d * sin (m - e)) = 4 * KS * d * cos e * sin m"
    "- 2 * (KS * - d * cos (m + e) - KS * d * cos (m - e)) = 4 * KS * d * cos e * cos m" by algebra+
  then show "fx (leg_force_compute leg pos) = Fin (F * sin m)" "fz (leg_force_compute leg pos) = Fin (F * cos m)"
    using compute_forces_Fin [OF assms(1,2,4,5,6,3) refl refl] by (simp_all add: a assms(8) e_def)
qed

text \<open>
  The passive stance does what its comment says: when the motors have reached their targets the springs push
  along the leg, from the hip to the toe, whatever the pitch of the body is, so that there is no torque about the hip.
\<close>

theorem passive_stance_axial:
  assumes "legAngle (halfA leg) = Fin la" and "legAngle (halfB leg) = Fin lb" and "sin (la - lb) \<noteq> 0"
    and "\<bar>r0\<bar> \<le> 1" and "(motorAngle (halfA leg), motorAngle (halfB leg)) = passive_targets (Fin r0) leg"
    and "bodyPitch pos = Fin qb" and "m = (la + lb) / 2 + qb"
  shows "\<exists>F. fx (leg_force_compute leg pos) = Fin (F * sin m) \<and> fz (leg_force_compute leg pos) = Fin (F * cos m)"
proof -
  define d where "d = (lb - la) / 2 - arccos r0"
  have "passive_targets (Fin r0) leg = (Fin (la + d), Fin (lb - d))"
    using assms(4) by (simp add: passive_targets_def motorPos_Fin assms(1,2) d_def abs_le_iff field_simps)
  then have "motorAngle (halfA leg) = Fin (la + d)" "motorAngle (halfB leg) = Fin (lb - d)" using assms(5) by simp_all
  from opposite_deflections [OF assms(1-3) this assms(6,7) refl] show ?thesis by blast
qed

text \<open>
  The virtual spring pushes the wrong way: with the body upright, it asks the force controller for the opposite of
  the force that the springs of the leg exert at the same length, when the motors hold the rest length. For a compressed leg
  below the body that force carries the robot (it is negative, as the force controller counts); the virtual spring
  asks for one that pulls the body down.
\<close>

theorem virtual_spring_inverted:
  assumes "legAngle (halfA leg) = Fin (q - arccos r)" and "legAngle (halfB leg) = Fin (q + arccos r)"
    and "motorAngle (halfA leg) = Fin (q - arccos r0)" and "motorAngle (halfB leg) = Fin (q + arccos r0)"
    and "bodyPitch pos = Fin (3 * pi / 2)" and "0 < r" and "r < 1" and "0 < r0" and "r0 \<le> 1"
    and "legVelocity (halfA leg) = Fin va" and "legVelocity (halfB leg) = Fin vb"
  shows "\<exists>x z. fx (leg_force_compute leg pos) = Fin x \<and> fz (leg_force_compute leg pos) = Fin z \<and>
    fx (virtual_spring (Fin r0) leg) = Fin (- x) \<and> fz (virtual_spring (Fin r0) leg) = Fin (- z) \<and>
    (r < r0 \<and> 0 < sin q \<longrightarrow> z < 0)"
proof -
  define d where "d = arccos r - arccos r0"
  have "sin (2 * arccos r) = 2 * sqrt (1 - r\<^sup>2) * r" using assms(6,7) by (simp add: sin_double sin_arccos)
  moreover have p: "0 < sqrt (1 - r\<^sup>2)" using assms(6,7) by (simp add: power_less_one_iff abs_square_less_1)
  moreover have e: "q - arccos r - (q + arccos r) = - (2 * arccos r)" by simp
  ultimately have s: "sin (q - arccos r - (q + arccos r)) = - 2 * sqrt (1 - r\<^sup>2) * r" "- 2 * sqrt (1 - r\<^sup>2) * r \<noteq> 0"
    using assms(6) by (simp_all add: e)
  have m: "motorAngle (halfA leg) = Fin (q - arccos r + d)" "motorAngle (halfB leg) = Fin (q + arccos r - d)"
    by (simp_all add: assms(3,4) d_def)
  have F: "- spring_force r0 r = 4 * KS * d * cos ((q - arccos r - (q + arccos r)) / 2) / sin (q - arccos r - (q + arccos r))"
    using assms(6,7) p unfolding s(1) by (simp add: spring_force_def d_def consts_simp power2_eq_square field_simps)
  have q: "sin (q + 3 * pi / 2) = - cos q" "cos (q + 3 * pi / 2) = sin q"
    using sin_3over2_pi cos_3over2_pi by (simp_all add: sin_add cos_add)
  have f: "fx (leg_force_compute leg pos) = Fin (spring_force r0 r * cos q)"
    "fz (leg_force_compute leg pos) = Fin (- (spring_force r0 r * sin q))"
    using opposite_deflections [OF assms(1,2) _ m assms(5) refl F] s by (simp_all add: q)
  have v: "fx (virtual_spring (Fin r0) leg) = Fin (- (spring_force r0 r * cos q))"
    "fz (virtual_spring (Fin r0) leg) = Fin (spring_force r0 r * sin q)"
    using assms(6-9) by (simp_all add: virtual_spring_def Let_def split_beta assms(1,2,10,11) motorPos_Fin motorVel2LegVel_def
        ct_legForce_Fin abs_if)
  have "z < 0" if "r < r0" "0 < sin q" "z = - (spring_force r0 r * sin q)" for z
  proof -
    have "arccos r0 < arccos r" using that(1) assms(6,9) by (intro arccos_less_arccos) auto
    then have "0 < spring_force r0 r" using p by (simp add: spring_force_def consts_simp power2_eq_square)
    then show ?thesis using that by simp
  qed
  then show ?thesis using f v by auto
qed

subsection \<open>The phases\<close>

datatype hop_phase = InAir | OnGround

text \<open>What the controller promises: standing returns to the air phase, hopping follows the events, shutting down changes nothing.\<close>

fun hop_next :: "uint8 \<Rightarrow> bool \<Rightarrow> bool \<Rightarrow> hop_phase \<Rightarrow> hop_phase" where
  "hop_next mode td to p =
     (if mode = 0 then InAir
      else if mode = 1 then (case p of InAir \<Rightarrow> if td then OnGround else InAir | OnGround \<Rightarrow> if to then InAir else OnGround)
      else p)"

definition phase_number :: "hop_phase \<Rightarrow> int" where
  "phase_number p = (case p of InAir \<Rightarrow> 0 | OnGround \<Rightarrow> 1)"

text \<open>
  The state machine of the hopping controller refines that of the phases: one call makes the step of the abstract
  machine on the events that the state, updated by the operator's message, has.
\<close>

theorem hop_refines:
  assumes "hoppingState s = phase_number p" and "t = hop_updateGui (hop_updateController s)"
  shows "hoppingState (hop_controller s) =
    phase_number (hop_next (hop_main_controller (hop_guiIn s)) (touches_down t) (takes_off t) p)"
  using assms hop_controller_view(1) [of s] by (cases p) (simp_all add: phase_number_def)

text \<open>The touchdown of the right leg is judged by the left leg: nothing the right leg does ends the air phase.\<close>

theorem hop_right_leg_ignored:
  assumes "hop_main_controller (hop_guiIn s) = 1" and "hoppingState s = 0"
  shows "hoppingState (hop_controller (s\<lparr>atc_rs := (atc_rs s)\<lparr>rLeg := leg\<rparr>\<rparr>)) = hoppingState (hop_controller s)"
proof -
  let ?s = "s\<lparr>atc_rs := (atc_rs s)\<lparr>rLeg := leg\<rparr>\<rparr>"
  have "touches_down (hop_updateGui (hop_updateController ?s)) = touches_down (hop_updateGui (hop_updateController s))"
    using hop_updates [of s] hop_updates [of ?s] by (simp add: hop_view_def touches_down_def Let_def split_beta)
  then show ?thesis using assms by (simp add: hop_controller_view(1))
qed

subsection \<open>What the operator cannot set\<close>

type_synonym hop_call = "nsecs \<times> hop_input \<times> robot_state"

definition hop_call :: "robot_variant \<Rightarrow> hop_call \<Rightarrow> slip_hopping \<Rightarrow> slip_hopping" where
  "hop_call v call s = (case call of (now, gui, rs) \<Rightarrow> snd (runController v True True hop_controller now rs (s\<lparr>hop_guiIn := gui\<rparr>)))"

definition hop_unset :: "'c slip_hopping_scheme \<Rightarrow> dbl \<times> dbl \<times> int" where
  "hop_unset s = (forceThresholdTD s, sm_r0 (hop_slipModel s), hoppingState s)"

lemma hop_unset_more:
  assumes "atc.more s = atc.more t"
  shows "hop_unset s = hop_unset t"
  using assms by (cases s; cases t; simp add: hop_unset_def)

lemma hop_unset_enter: "hop_unset (atc_enter rs (s\<lparr>hop_guiIn := gui\<rparr>)) = hop_unset (s :: slip_hopping)"
proof -
  have "hop_unset (atc_enter rs (s\<lparr>hop_guiIn := gui\<rparr>)) = hop_unset (s\<lparr>hop_guiIn := gui\<rparr>)"
    by (rule hop_unset_more) (simp add: slip_frame)
  then show ?thesis by (simp add: hop_unset_def)
qed

lemma hop_call_unset:
  assumes "hop_unset s = (td, r0, n)" and "n \<in> {0, 1}"
  shows "\<exists>n \<in> {0, 1}. hop_unset (hop_call v c s) = (td, r0, n)"
proof -
  obtain now gui rs where c: "c = (now, gui, rs)" by (cases c)
  let ?s = "atc_enter rs (s\<lparr>hop_guiIn := gui\<rparr>)"
  have u: "hop_unset (hop_call v c s) = hop_unset (hop_controller ?s)"
    by (rule hop_unset_more) (simp add: hop_call_def c runController_def Let_def slip_frame)
  have e: "hop_unset ?s = (td, r0, n)" using assms(1) by (simp add: hop_unset_enter)
  then have "hoppingState (hop_controller ?s) \<in> {0, 1}"
    using assms(2) hop_controller_view(1) [of ?s] by (auto simp: hop_unset_def)
  then show ?thesis using e unfolding u by (auto simp: hop_unset_def hop_controller_view(2,3))
qed

text \<open>
  Two settings of the operator have no effect. In every run the threshold of the touchdown stays what the memory held
  before the controller was constructed, since its value is assigned to the threshold of the takeoff; and the
  length that the legs are held at in the air stays 0.85, since the assignment of the operator's length is commented out.
\<close>

theorem hop_settings_ignored:
  "\<exists>n \<in> {0, 1}. hop_unset (fold (hop_call v) calls (new_ATCSlipHopping mem)) = (forceThresholdTD mem, Fin 0.85, n)"
proof (induction calls rule: rev_induct)
  case Nil
  show ?case by (simp add: hop_unset_def new_ATCSlipHopping_def setStartupEnabled_def new_ASCSlipModel_def Let_def)
next
  case (snoc c cs)
  then show ?case using hop_call_unset by fastforce
qed

subsection \<open>Instances\<close>

definition hop_gui :: hop_input where
  "hop_gui = \<lparr>hop_standing_leg = Fin 0.9, hop_hop_height = Fin 0.05, hop_slip_leg = Fin 0.9, hop_main_controller = 1,
     hop_spring_type = 0, hop_force_type = 0, hop_stance_controller = 0, hop_hop_type = 0, force_threshold_td = Fin 100,
     force_threshold_to = Fin 50, position_threshold_td = Fin 0.05, hop_leg_pos_kp = Fin 300, hop_leg_for_kp = Fin 300,
     hop_leg_pos_kd = Fin 30, hop_leg_for_kd = Fin 5, hop_hip_pos_kp = Fin 150, hop_hip_pos_kd = Fin 10,
     hop_left_toe_pos = Fin 2.15, hop_right_toe_pos = Fin 2.45\<rparr>"

text \<open>A leg at the angles \<open>a\<close> and \<open>b\<close> with its motors at \<open>c\<close> and \<open>d\<close>, at rest.\<close>

definition posed_leg :: "real \<Rightarrow> real \<Rightarrow> real \<Rightarrow> real \<Rightarrow> robot_state_leg" where
  "posed_leg a b c d = robot_state_leg_zero
     \<lparr>halfA := robot_state_legHalf_zero\<lparr>legAngle := Fin a, motorAngle := Fin c, legVelocity := Fin 0\<rparr>,
      halfB := robot_state_legHalf_zero\<lparr>legAngle := Fin b, motorAngle := Fin d, legVelocity := Fin 0\<rparr>\<rparr>"

lemma passive_stance_axial_witness:
  "\<exists>F. fx (leg_force_compute (posed_leg (pi / 6) (5 * pi / 6) (pi / 2) (pi / 2)) robot_state_location_zero) =
     Fin (F * sin (pi / 2))"
proof -
  have "sin (pi / 6 - 5 * pi / 6) \<noteq> 0"
  proof -
    have "pi / 6 - 5 * pi / 6 = - (2 * pi / 3)" by simp
    then show ?thesis by (simp only: sin_minus sin_120) simp
  qed
  have "\<exists>F. fx (leg_force_compute (posed_leg (pi / 6) (5 * pi / 6) (pi / 2) (pi / 2)) robot_state_location_zero) = Fin (F * sin (pi / 2)) \<and>
      fz (leg_force_compute (posed_leg (pi / 6) (5 * pi / 6) (pi / 2) (pi / 2)) robot_state_location_zero) = Fin (F * cos (pi / 2))"
    by (rule passive_stance_axial [OF _ _ \<open>sin (pi / 6 - 5 * pi / 6) \<noteq> 0\<close>, of _ 1])
      (simp_all add: posed_leg_def passive_targets_def motorPos_Fin robot_state_location_zero_def)
  then show ?thesis by blast
qed

lemma virtual_spring_inverted_witness:
  "\<exists>z < 0. fz (virtual_spring (Fin 0.9) (posed_leg (pi / 2 - arccos 0.8) (pi / 2 + arccos 0.8) (pi / 2 - arccos 0.9) (pi / 2 + arccos 0.9))) = Fin (- z)"
  using virtual_spring_inverted [of "posed_leg (pi / 2 - arccos 0.8) (pi / 2 + arccos 0.8) (pi / 2 - arccos 0.9) (pi / 2 + arccos 0.9)"
      "pi / 2" "0.8" "0.9" "robot_state_location_zero\<lparr>bodyPitch := Fin (3 * pi / 2)\<rparr>" 0 0]
  by (auto simp: posed_leg_def)

lemma hop_refines_witness:
  "\<forall>s. hoppingState (hop_controller (s\<lparr>hop_guiIn := hop_gui\<lparr>hop_main_controller := 0\<rparr>, hoppingState := 1\<rparr>)) = 0"
proof
  fix s :: slip_hopping
  show "hoppingState (hop_controller (s\<lparr>hop_guiIn := hop_gui\<lparr>hop_main_controller := 0\<rparr>, hoppingState := 1\<rparr>)) = 0"
    using hop_refines [of "s\<lparr>hop_guiIn := hop_gui\<lparr>hop_main_controller := 0\<rparr>, hoppingState := 1\<rparr>" OnGround, OF _ refl]
    by (simp add: phase_number_def)
qed

lemma hop_right_leg_ignored_witness:
  "\<forall>s leg. hoppingState (hop_controller (s\<lparr>hop_guiIn := hop_gui, hoppingState := 0, atc_rs := robot_state_zero\<lparr>rLeg := leg\<rparr>\<rparr>)) =
     hoppingState (hop_controller (s\<lparr>hop_guiIn := hop_gui, hoppingState := 0, atc_rs := robot_state_zero\<rparr>))"
proof (intro allI)
  fix s :: slip_hopping and leg
  show "hoppingState (hop_controller (s\<lparr>hop_guiIn := hop_gui, hoppingState := 0, atc_rs := robot_state_zero\<lparr>rLeg := leg\<rparr>\<rparr>)) =
      hoppingState (hop_controller (s\<lparr>hop_guiIn := hop_gui, hoppingState := 0, atc_rs := robot_state_zero\<rparr>))"
    using hop_right_leg_ignored [of "s\<lparr>hop_guiIn := hop_gui, hoppingState := 0, atc_rs := robot_state_zero\<rparr>" leg]
    by (simp add: hop_gui_def)
qed

end
