(* ===== verification/Gui.thy ===== *)
theory Gui
  imports ControllerManager Firmware
begin

text \<open>
  The operator's interface (atrias_gui): which commands its buttons, its tabs and its list of controllers publish. The
  theorems: the tabs and the tables behind them stay in step, so that no event makes it call a null pointer or read past
  the end of a table; a tab requests the controller whose widgets it shows; and the emergency stop button, in every
  reachable state in which the motors are commanded to run, makes the controller manager stop the robot.

  The widgets, the dynamic linker and the parameter server are not part of the repository: what they answer is a
  \<open>gui_env\<close>, what they are asked to do is appended to \<open>gui_actions\<close>. A call of a null pointer and an access past the
  end of a vector are \<open>None\<close>.
\<close>

subsection \<open>State\<close>

record gui_env =
  dlopen_ok :: "string \<Rightarrow> bool"
  dlsym_ok :: "string \<Rightarrow> string \<Rightarrow> bool"
  builder_ok :: "string \<Rightarrow> bool"
  tab_widget_ok :: "string \<Rightarrow> string \<Rightarrow> bool"
  guiInit_ok :: "string \<Rightarrow> bool"
  has_params :: bool

datatype gui_action =
    ErrorDialog string
  | CallPlugin string string
  | Rosparam "string list"
  | SetPage nat
  | SetRow nat bool
  | EstopActive
  | EstopColor string
  | LogRequest bool
  | DrawLeg
  | StatusUpdate

text \<open>
  A library is named by its path, the widgets of a controller by their description file and the name of their tab. The
  pages are those behind the first one, which holds the list of the controllers.
\<close>

record gui =
  go :: gui_output
  controllerNames :: "string list"
  controllerDetectedIDs :: "nat list"
  controllerResourcesLoaded :: "bool list"
  controllerHandles :: "string \<rightharpoonup> string"
  controllerTabs :: "string \<rightharpoonup> string \<times> string"
  gui_metadata :: "string \<rightharpoonup> ControllerMetadata"
  gui_controllerName :: string
  currentControllerID :: uint8
  controllerUpdate :: "string option"
  controllerTakedown :: "string option"
  controllerGetParameters :: "string option"
  controllerSetParameters :: "string option"
  gui_controller_loaded :: bool
  robotStateInitialized :: bool
  newRobotState :: bool
  gui_pages :: "(string \<times> string) list"
  toCm :: "gui_output list"
  gui_actions :: "gui_action list"

definition new_gui :: gui where
  "new_gui = \<lparr>go = \<lparr>gui_requestedController = ''none'', gui_command = UserCommand_STOP\<rparr>, controllerNames = [],
     controllerDetectedIDs = [], controllerResourcesLoaded = [], controllerHandles = Map.empty,
     controllerTabs = Map.empty, gui_metadata = Map.empty, gui_controllerName = [], currentControllerID = 0,
     controllerUpdate = None, controllerTakedown = None, controllerGetParameters = None,
     controllerSetParameters = None, gui_controller_loaded = False, robotStateInitialized = False,
     newRobotState = False, gui_pages = [], toCm = [], gui_actions = []\<rparr>"

definition gui_act :: "gui_action \<Rightarrow> gui \<Rightarrow> gui" where
  "gui_act a s = s\<lparr>gui_actions := gui_actions s @ [a]\<rparr>"

definition publish :: "gui \<Rightarrow> gui" where
  "publish s = s\<lparr>toCm := toCm s @ [go s]\<rparr>"

definition send_command :: "uint8 \<Rightarrow> gui \<Rightarrow> gui" where
  "send_command c s = publish (s\<lparr>go := (go s)\<lparr>gui_command := c\<rparr>\<rparr>)"

definition metadata_of :: "gui \<Rightarrow> string \<Rightarrow> ControllerMetadata" where
  "metadata_of s name = (case gui_metadata s name of None \<Rightarrow> no_metadata | Some md \<Rightarrow> md)"

subsection \<open>Buttons\<close>

definition show_error_dialog :: "string \<Rightarrow> gui \<Rightarrow> gui" where
  "show_error_dialog message = gui_act (ErrorDialog message)"

definition enable_motors :: "gui \<Rightarrow> gui" where
  "enable_motors s = (if gui_controller_loaded s then send_command UserCommand_RUN s else s)"

definition disable_motors :: "gui \<Rightarrow> gui" where
  "disable_motors s = send_command UserCommand_STOP s"

definition estop_button_clicked :: "gui \<Rightarrow> gui" where
  "estop_button_clicked s =
     (if gui_controller_loaded s \<and> gui_command (go s) = UserCommand_RUN then send_command UserCommand_E_STOP s else s)"

definition restart_robot :: "gui \<Rightarrow> gui" where
  "restart_robot s = send_command UserCommand_STOP (send_command UserCommand_UNLOAD_CONTROLLER s)"

definition log_chkbox_toggled :: "bool \<Rightarrow> gui \<Rightarrow> gui" where
  "log_chkbox_toggled active = gui_act (LogRequest active)"

definition save_parameters :: "gui \<Rightarrow> gui" where
  "save_parameters s =
     (if gui_controller_loaded s then
        (case controllerSetParameters s of
           None \<Rightarrow> s
         | Some h \<Rightarrow> gui_act (Rosparam [''dump'', guiConfigPath (metadata_of s (gui_controllerName s)), ''/atrias_gui''])
                       (gui_act (CallPlugin h ''setParameters'') s))
      else s)"

definition load_parameters :: "gui \<Rightarrow> gui" where
  "load_parameters s =
     (if gui_controller_loaded s then
        (case controllerGetParameters s of
           None \<Rightarrow> s
         | Some h \<Rightarrow> gui_act (CallPlugin h ''getParameters'')
                       (gui_act (Rosparam [''load'', guiConfigPath (metadata_of s (gui_controllerName s)), ''/atrias_gui'']) s))
      else s)"

subsection \<open>Messages\<close>

definition changeEstopButtonColor :: "string \<Rightarrow> gui \<Rightarrow> gui" where
  "changeEstopButtonColor c = gui_act (EstopColor c)"

definition controllerManagerCallback :: "gui_input \<Rightarrow> gui \<Rightarrow> gui" where
  "controllerManagerCallback gi s =
     (let s = (if gui_errorType gi = ControllerManagerError_t CONTROLLER_PACKAGE_NOT_FOUND
               then show_error_dialog (''Control machine encountered an error loading the controller:'' @ [CHR 0x0A] @
                      ''Controller package not found'') s
               else s)
      in if gui_status gi = ControllerManagerState_t CONTROLLER_ESTOPPED
         then changeEstopButtonColor ''estopStateColor'' (gui_act EstopActive s)
         else if gui_status gi = ControllerManagerState_t CM_NO_CONTROLLER_LOADED
         then changeEstopButtonColor ''disableStateColor'' s
         else if gui_status gi = ControllerManagerState_t CONTROLLER_RUNNING
         then changeEstopButtonColor ''runStateColor'' s
         else if gui_status gi = ControllerManagerState_t CONTROLLER_STOPPED
         then changeEstopButtonColor ''disableStateColor'' s
         else s)"

definition rtOpsCallback :: "gui \<Rightarrow> gui" where
  "rtOpsCallback s =
     (gui_act StatusUpdate (gui_act DrawLeg (s\<lparr>robotStateInitialized := True\<rparr>)))\<lparr>newRobotState := True\<rparr>"

definition callSpinOnce :: "gui \<Rightarrow> gui option" where
  "callSpinOnce s =
     (let status = (\<lambda>s. if newRobotState s then (gui_act StatusUpdate s)\<lparr>newRobotState := False\<rparr> else s)
      in if gui_controller_loaded s then
           (case controllerUpdate s of
              None \<Rightarrow> None
            | Some h \<Rightarrow> Some (status (gui_act (CallPlugin h ''guiUpdate'') s)))
         else Some (status s))"

text \<open>The errors of a medulla, in words.\<close>

definition update_medulla_errors :: "medulla_error_t \<Rightarrow> uint8 \<Rightarrow> string" where
  "update_medulla_errors flags switches =
     concat (map (\<lambda>(flag, text). if and flags flag \<noteq> 0 then text else [])
       [(medulla_error_estop, ''EStop pressed, ''), (medulla_error_limit_switch, ''Limit switch, ''),
        (medulla_error_thermistor, ''Motor over temperature, ''), (medulla_error_motor_voltage, ''Motor voltage low, ''),
        (medulla_error_logic_voltage, ''Logic voltage low, ''), (medulla_error_encoder, ''Encoder error, ''),
        (medulla_error_halt, ''Halt mode activated, ''), (medulla_error_amplifier, ''Amplifier error, '')]) @
     concat (map (\<lambda>(n, text). if and switches (push_bit n 1) \<noteq> 0 then text else [])
       [(0, ''Positive limit switch, ''), (1, ''Negative limit switch, ''),
        (2, ''Positive deflection limit switch, ''), (3, ''Negative deflection limit switch, ''),
        (4, ''Retraction limit switch, ''), (5, ''Extension limit switch, '')])"

text \<open>The bar of a motor: the share of the limit of the current.\<close>

definition progress_fraction :: "robot_variant \<Rightarrow> real \<Rightarrow> real" where
  "progress_fraction v current = min \<bar>current\<bar> (MAX_MTR_CURRENT_CMD v) / MAX_MTR_CURRENT_CMD v"

subsection \<open>Tabs\<close>

definition takedown_current_controller :: "gui_env \<Rightarrow> gui \<Rightarrow> gui" where
  "takedown_current_controller env s =
     (let s = (if gui_controller_loaded s \<and> controllerUpdate s \<noteq> None then
                 (case controllerTakedown s of
                    None \<Rightarrow> s
                  | Some h \<Rightarrow> gui_act (CallPlugin h ''guiTakedown'') s)
               else s);
          s = (if has_params env then gui_act (Rosparam [''delete'', ''/atrias_gui'']) s else s);
          s = s\<lparr>go := \<lparr>gui_requestedController = ''none'', gui_command = UserCommand_UNLOAD_CONTROLLER\<rparr>\<rparr>
      in (publish s)\<lparr>gui_controller_loaded := False\<rparr>)"

text \<open>The functions of the library \<open>h\<close>; a controller without the first two is not loaded.\<close>

definition open_library :: "gui_env \<Rightarrow> string \<Rightarrow> gui \<Rightarrow> gui" where
  "open_library env h s =
     (let sym = (\<lambda>f. if dlsym_ok env h f then Some h else None);
          s = s\<lparr>controllerUpdate := sym ''guiUpdate'', controllerTakedown := sym ''guiTakedown'',
                controllerGetParameters := sym ''getParameters'', controllerSetParameters := sym ''setParameters''\<rparr>
      in if controllerTakedown s \<noteq> None \<and> controllerUpdate s \<noteq> None then s\<lparr>gui_controller_loaded := True\<rparr>
         else show_error_dialog (''Controller failed to load:'' @ [CHR 0x0A] @ ''Could not load library functions'') s)"

definition switch_controllers :: "gui_env \<Rightarrow> nat \<Rightarrow> gui \<Rightarrow> gui option" where
  "switch_controllers env page_num s =
     (if gui_command (go s) \<noteq> UserCommand_STOP then Some (gui_act (SetPage (unat (currentControllerID s) + 1)) s)
      else if page_num = 0 then
        (let s = publish (takedown_current_controller env s)
         in Some (s\<lparr>go := (go s)\<lparr>gui_command := UserCommand_STOP\<rparr>\<rparr>))
      else
        (let s = takedown_current_controller env s; n = page_num - 1
         in if length (controllerDetectedIDs s) \<le> n \<or> length (controllerNames s) \<le> controllerDetectedIDs s ! n then None
            else
              (let name = controllerNames s ! (controllerDetectedIDs s ! n); s = s\<lparr>gui_controllerName := name\<rparr>
               in case controllerHandles s name of
                    None \<Rightarrow> None
                  | Some h \<Rightarrow>
                      (let s = open_library env h s
                       in Some (publish (s\<lparr>currentControllerID := of_nat n,
                                           go := \<lparr>gui_requestedController = name, gui_command = UserCommand_STOP\<rparr>\<rparr>))))))"

subsection \<open>The list of controllers\<close>

definition gui_load_error :: "string \<Rightarrow> string" where
  "gui_load_error name = ''Could not load GUI for controller '' @ name @ ''!'' @ [CHR 0x0A] @
     ''Please verify your metadata.txt and GUI description files.''"

text \<open>\<open>insert\<close> of a map keeps what is there.\<close>

definition map_insert :: "'k \<Rightarrow> 'v \<Rightarrow> ('k \<rightharpoonup> 'v) \<Rightarrow> 'k \<rightharpoonup> 'v" where
  "map_insert k v m = (if m k = None then m(k \<mapsto> v) else m)"

definition add_page :: "string \<times> string \<Rightarrow> nat \<Rightarrow> gui \<Rightarrow> gui" where
  "add_page tab controllerID s =
     s\<lparr>gui_pages := gui_pages s @ [tab], controllerDetectedIDs := controllerDetectedIDs s @ [controllerID]\<rparr>"

definition keep_resources :: "string \<Rightarrow> string \<Rightarrow> string \<times> string \<Rightarrow> nat \<Rightarrow> gui \<Rightarrow> gui" where
  "keep_resources name handle tab controllerID s =
     s\<lparr>controllerHandles := map_insert name handle (controllerHandles s),
       controllerTabs := map_insert name tab (controllerTabs s),
       controllerResourcesLoaded := (controllerResourcesLoaded s)[controllerID := True]\<rparr>"

definition load_controller :: "gui_env \<Rightarrow> nat \<Rightarrow> gui \<Rightarrow> (bool \<times> gui) option" where
  "load_controller env controllerID s =
     (let name = controllerNames s ! controllerID; md = metadata_of s name; path = guiLibPath md
      in if gui_controller_loaded s then Some (False, s)
         else if \<not> dlopen_ok env path then
           Some (False, show_error_dialog
             (if loadSuccessful md
              then ''Failed to open shared library'' @ path @ '' for controller '' @ name @ ''! Please verify your metadata.txt file.''
              else ''Could not load metadata for controller'' @ name @ '' and an attempt to use default values failed!'') s)
         else if \<not> controllerResourcesLoaded s ! controllerID then
           (let s = (if loadSuccessful md then s
                     else show_error_dialog (''Could not load metadata for controller '' @ name @ ''!'' @ [CHR 0x0A] @
                            ''Attempting to use default values.'') s)
            in if \<not> builder_ok env (guiDescriptionPath md) \<or>
                  \<not> tab_widget_ok env (guiDescriptionPath md) (guiTabWidgetName md)
               then Some (False, show_error_dialog (gui_load_error name) s)
               else if \<not> dlsym_ok env path ''guiInit'' then None
               else
                 (let s = gui_act (CallPlugin path ''guiInit'') s; tab = (guiDescriptionPath md, guiTabWidgetName md)
                  in if guiInit_ok env path
                     then Some (True, add_page tab controllerID (keep_resources name path tab controllerID s))
                     else Some (False, show_error_dialog (''Controller initialization function reported an error!'' @
                            [CHR 0x0A] @ ''Controller '' @ name @ '' has not been loaded.'') s)))
         else
           (case controllerTabs s name of
              None \<Rightarrow> None
            | Some tab \<Rightarrow> Some (True, add_page tab controllerID s)))"

definition drop_nth :: "nat \<Rightarrow> 'a list \<Rightarrow> 'a list" where
  "drop_nth i xs = take i xs @ drop (Suc i) xs"

definition unload_controller :: "string \<Rightarrow> gui \<Rightarrow> gui" where
  "unload_controller name s =
     (let i = length (takeWhile (\<lambda>d. controllerNames s ! d \<noteq> name) (controllerDetectedIDs s))
      in if \<not> gui_controller_loaded s \<and> i < length (controllerDetectedIDs s)
         then s\<lparr>gui_pages := drop_nth i (gui_pages s), controllerDetectedIDs := drop_nth i (controllerDetectedIDs s)\<rparr>
         else s)"

text \<open>Unchecking the box of a controller that failed to load changes the row again, which unloads it.\<close>

definition controller_checkbox_toggled :: "gui_env \<Rightarrow> nat \<Rightarrow> bool \<Rightarrow> gui \<Rightarrow> gui option" where
  "controller_checkbox_toggled env row active s =
     (let name = controllerNames s ! row
      in if active then
           (case load_controller env row s of
              None \<Rightarrow> None
            | Some (ok, s) \<Rightarrow> Some (if ok then s else unload_controller name (gui_act (SetRow row False) s)))
         else Some (unload_controller name s))"

text \<open>The packages that are controllers, with their paths.\<close>

fun detect_controllers :: "(string \<Rightarrow> string option) \<Rightarrow> (string \<times> string) list \<Rightarrow> gui \<Rightarrow> gui option" where
  "detect_controllers file [] s = Some s"
| "detect_controllers file ((package, path) # packages) s =
     (if prefix ''atc_'' package then
        (case loadControllerMetadata file path package True of
           None \<Rightarrow> None
         | Some md \<Rightarrow> detect_controllers file packages
             (s\<lparr>gui_metadata := map_insert package md (gui_metadata s),
                controllerNames := controllerNames s @ [package],
                controllerResourcesLoaded := controllerResourcesLoaded s @ [False]\<rparr>))
      else detect_controllers file packages s)"

subsection \<open>Events\<close>

datatype gui_event =
    EnableClicked
  | DisableClicked
  | EstopClicked
  | LogToggled bool
  | SaveClicked
  | LoadClicked
  | PageSwitched nat
  | RowToggled nat bool
  | CmMessage gui_input
  | RtMessage
  | Timeout

fun gui_next :: "gui_env \<Rightarrow> gui_event \<Rightarrow> gui \<Rightarrow> gui option" where
  "gui_next env EnableClicked s = Some (enable_motors s)"
| "gui_next env DisableClicked s = Some (disable_motors s)"
| "gui_next env EstopClicked s = Some (estop_button_clicked s)"
| "gui_next env (LogToggled b) s = Some (log_chkbox_toggled b s)"
| "gui_next env SaveClicked s = Some (save_parameters s)"
| "gui_next env LoadClicked s = Some (load_parameters s)"
| "gui_next env (PageSwitched n) s = switch_controllers env n s"
| "gui_next env (RowToggled row active) s = controller_checkbox_toggled env row active s"
| "gui_next env (CmMessage gi) s = Some (controllerManagerCallback gi s)"
| "gui_next env RtMessage s = Some (rtOpsCallback s)"
| "gui_next env Timeout s = callSpinOnce s"

text \<open>The window is closed: \<open>main\<close> goes on behind its loop.\<close>

definition gui_close :: "gui_env \<Rightarrow> gui \<Rightarrow> gui" where
  "gui_close env s = takedown_current_controller env (disable_motors s)"

text \<open>The widgets switch to pages and toggle rows that are there.\<close>

fun gui_possible :: "gui \<Rightarrow> gui_event \<Rightarrow> bool" where
  "gui_possible s (PageSwitched n) \<longleftrightarrow> n \<le> length (gui_pages s)"
| "gui_possible s (RowToggled row active) \<longleftrightarrow> row < length (controllerNames s)"
| "gui_possible s _ \<longleftrightarrow> True"

inductive gui_reach :: "gui_env \<Rightarrow> gui \<Rightarrow> bool" for env where
  gui_start: "detect_controllers file packages new_gui = Some s \<Longrightarrow> distinct (map fst packages) \<Longrightarrow> gui_reach env s"
| gui_event: "gui_reach env s \<Longrightarrow> gui_possible s e \<Longrightarrow> gui_next env e s = Some s' \<Longrightarrow> gui_reach env s'"

subsection \<open>The tabs and their tables\<close>

text \<open>
  Behind every page is a controller of the list whose library is open; its widgets and its library are those of its
  metadata. A loaded controller has the functions that are called, and the motors run only with one.
\<close>

definition row_ok :: "gui \<Rightarrow> nat \<Rightarrow> bool" where
  "row_ok s d \<longleftrightarrow>
     (let n = controllerNames s ! d; md = metadata_of s n in
        controllerHandles s n = (if controllerResourcesLoaded s ! d then Some (guiLibPath md) else None) \<and>
        controllerTabs s n = (if controllerResourcesLoaded s ! d then Some (guiDescriptionPath md, guiTabWidgetName md) else None))"

definition tables_ok :: "gui \<Rightarrow> bool" where
  "tables_ok s \<longleftrightarrow> distinct (controllerNames s) \<and> length (controllerResourcesLoaded s) = length (controllerNames s) \<and>
     (\<forall>d < length (controllerNames s). row_ok s d)"

definition page_of :: "gui \<Rightarrow> nat \<Rightarrow> string \<times> string" where
  "page_of s d = (let md = metadata_of s (controllerNames s ! d) in (guiDescriptionPath md, guiTabWidgetName md))"

definition pages_ok :: "gui \<Rightarrow> bool" where
  "pages_ok s \<longleftrightarrow> gui_pages s = map (page_of s) (controllerDetectedIDs s) \<and>
     (\<forall>d \<in> set (controllerDetectedIDs s). d < length (controllerNames s) \<and> controllerResourcesLoaded s ! d)"

definition command_ok :: "gui \<Rightarrow> bool" where
  "command_ok s \<longleftrightarrow>
     (gui_controller_loaded s \<longrightarrow> controllerUpdate s \<noteq> None \<and> controllerTakedown s \<noteq> None \<and>
        gui_requestedController (go s) = gui_controllerName s) \<and>
     (gui_command (go s) = UserCommand_RUN \<longrightarrow> gui_controller_loaded s)"

definition gui_ok :: "gui \<Rightarrow> bool" where
  "gui_ok s \<longleftrightarrow> tables_ok s \<and> pages_ok s \<and> command_ok s"

text \<open>What the tables are made of; most operations leave it alone.\<close>

definition gui_tables where
  "gui_tables s = (controllerNames s, controllerResourcesLoaded s, controllerHandles s, controllerTabs s, gui_metadata s,
     controllerDetectedIDs s, gui_pages s)"

lemma tables_frame:
  assumes "gui_tables s' = gui_tables s"
  shows "tables_ok s' = tables_ok s" and "pages_ok s' = pages_ok s" and "page_of s' = page_of s" and "row_ok s' = row_ok s"
proof -
  have f: "controllerNames s' = controllerNames s" "controllerResourcesLoaded s' = controllerResourcesLoaded s"
    "controllerHandles s' = controllerHandles s" "controllerTabs s' = controllerTabs s" "gui_pages s' = gui_pages s"
    "controllerDetectedIDs s' = controllerDetectedIDs s" "metadata_of s' = metadata_of s"
    using assms by (auto simp: gui_tables_def metadata_of_def fun_eq_iff)
  show "page_of s' = page_of s" "row_ok s' = row_ok s" by (simp_all add: page_of_def row_ok_def f fun_eq_iff)
  then show "tables_ok s' = tables_ok s" and "pages_ok s' = pages_ok s" by (simp_all add: tables_ok_def pages_ok_def f)
qed

lemma gui_tables_updates [simp]:
  "gui_tables (s\<lparr>go := g\<rparr>) = gui_tables s" "gui_tables (s\<lparr>toCm := t\<rparr>) = gui_tables s"
  "gui_tables (s\<lparr>gui_actions := a\<rparr>) = gui_tables s" "gui_tables (s\<lparr>gui_controllerName := n\<rparr>) = gui_tables s"
  "gui_tables (s\<lparr>controllerUpdate := f1\<rparr>) = gui_tables s" "gui_tables (s\<lparr>controllerTakedown := f2\<rparr>) = gui_tables s"
  "gui_tables (s\<lparr>controllerGetParameters := f3\<rparr>) = gui_tables s"
  "gui_tables (s\<lparr>controllerSetParameters := f4\<rparr>) = gui_tables s"
  "gui_tables (s\<lparr>gui_controller_loaded := b\<rparr>) = gui_tables s" "gui_tables (s\<lparr>currentControllerID := c\<rparr>) = gui_tables s"
  "gui_tables (s\<lparr>robotStateInitialized := b\<rparr>) = gui_tables s" "gui_tables (s\<lparr>newRobotState := b\<rparr>) = gui_tables s"
  by (simp_all add: gui_tables_def)

text \<open>What the buttons are made of.\<close>

definition gui_core where
  "gui_core s = (go s, gui_controller_loaded s, controllerUpdate s, controllerTakedown s, gui_controllerName s)"

lemma gui_ok_frame: "gui_tables s' = gui_tables s \<Longrightarrow> gui_core s' = gui_core s \<Longrightarrow> gui_ok s' = gui_ok s"
  using tables_frame [of s' s] by (simp add: gui_ok_def command_ok_def gui_core_def)

lemma gui_act_simps [simp]:
  "go (gui_act a s) = go s" "controllerNames (gui_act a s) = controllerNames s"
  "controllerDetectedIDs (gui_act a s) = controllerDetectedIDs s"
  "controllerResourcesLoaded (gui_act a s) = controllerResourcesLoaded s"
  "controllerHandles (gui_act a s) = controllerHandles s" "controllerTabs (gui_act a s) = controllerTabs s"
  "controllerUpdate (gui_act a s) = controllerUpdate s" "controllerTakedown (gui_act a s) = controllerTakedown s"
  "gui_controller_loaded (gui_act a s) = gui_controller_loaded s" "gui_pages (gui_act a s) = gui_pages s"
  "toCm (gui_act a s) = toCm s" "newRobotState (gui_act a s) = newRobotState s"
  "metadata_of (gui_act a s) = metadata_of s" "gui_controllerName (gui_act a s) = gui_controllerName s"
  "gui_tables (gui_act a s) = gui_tables s" "gui_core (gui_act a s) = gui_core s"
  by (simp_all add: gui_act_def gui_core_def metadata_of_def fun_eq_iff)

lemma publish_simps [simp]:
  "go (publish s) = go s" "toCm (publish s) = toCm s @ [go s]" "gui_tables (publish s) = gui_tables s"
  "gui_core (publish s) = gui_core s" "gui_controller_loaded (publish s) = gui_controller_loaded s"
  by (simp_all add: publish_def gui_core_def)

lemma gui_act_ok [simp]: "gui_ok (gui_act a s) = gui_ok s" by (rule gui_ok_frame) simp_all
lemma publish_ok [simp]: "gui_ok (publish s) = gui_ok s" by (rule gui_ok_frame) simp_all

lemma send_command_ok:
  assumes "gui_ok s" and "c \<noteq> UserCommand_RUN \<or> gui_controller_loaded s"
  shows "gui_ok (send_command c s)"
proof -
  have "gui_tables (send_command c s) = gui_tables s" by (simp add: send_command_def)
  then show ?thesis using assms tables_frame [of "send_command c s" s]
    by (auto simp: gui_ok_def command_ok_def send_command_def publish_def)
qed

lemma takedown_simps [simp]:
  "gui_tables (takedown_current_controller env s) = gui_tables s"
  "\<not> gui_controller_loaded (takedown_current_controller env s)"
  "go (takedown_current_controller env s) =
     \<lparr>gui_requestedController = ''none'', gui_command = UserCommand_UNLOAD_CONTROLLER\<rparr>"
  "toCm (takedown_current_controller env s) =
     toCm s @ [\<lparr>gui_requestedController = ''none'', gui_command = UserCommand_UNLOAD_CONTROLLER\<rparr>]"
  by (simp_all add: takedown_current_controller_def Let_def split: option.splits)

text \<open>A state without a controller is in order when its tables are and its command is not RUN.\<close>

lemma gui_ok_unloaded:
  assumes "gui_ok s" and "gui_tables s' = gui_tables s" and "\<not> gui_controller_loaded s'" and "gui_command (go s') \<noteq> UserCommand_RUN"
  shows "gui_ok s'"
  using assms tables_frame [OF assms(2)] by (simp add: gui_ok_def command_ok_def)

lemma takedown_ok: "gui_ok s \<Longrightarrow> gui_ok (takedown_current_controller env s)"
  by (rule gui_ok_unloaded) (simp_all add: consts_simp)

lemma open_library_simps [simp]:
  "gui_tables (open_library env h s) = gui_tables s" "go (open_library env h s) = go s"
  "toCm (open_library env h s) = toCm s" "gui_controllerName (open_library env h s) = gui_controllerName s"
  by (simp_all add: open_library_def show_error_dialog_def Let_def)

lemma open_library_functions:
  assumes "gui_controller_loaded (open_library env h s)" and "\<not> gui_controller_loaded s"
  shows "controllerUpdate (open_library env h s) \<noteq> None \<and> controllerTakedown (open_library env h s) \<noteq> None"
  using assms unfolding open_library_def show_error_dialog_def Let_def by (simp split: if_splits)

text \<open>What switching to a page does.\<close>

lemma switch_controllers_cases:
  assumes "switch_controllers env n s = Some s'"
  obtains (refused) "gui_command (go s) \<noteq> UserCommand_STOP" "s' = gui_act (SetPage (unat (currentControllerID s) + 1)) s"
  | (list) "gui_command (go s) = UserCommand_STOP" "n = 0"
      "s' = (publish (takedown_current_controller env s))\<lparr>go := \<lparr>gui_requestedController = ''none'', gui_command = UserCommand_STOP\<rparr>\<rparr>"
  | (page) d name h s1 where "gui_command (go s) = UserCommand_STOP" "0 < n" "n \<le> length (controllerDetectedIDs s)"
      "d = controllerDetectedIDs s ! (n - 1)" "d < length (controllerNames s)" "name = controllerNames s ! d"
      "controllerHandles s name = Some h"
      "s1 = open_library env h ((takedown_current_controller env s)\<lparr>gui_controllerName := name\<rparr>)"
      "s' = publish (s1\<lparr>currentControllerID := of_nat (n - 1),
         go := \<lparr>gui_requestedController = name, gui_command = UserCommand_STOP\<rparr>\<rparr>)"
proof -
  have t: "controllerDetectedIDs (takedown_current_controller env s) = controllerDetectedIDs s"
    "controllerNames (takedown_current_controller env s) = controllerNames s"
    "controllerHandles (takedown_current_controller env s) = controllerHandles s"
    using takedown_simps(1) [of env s] by (simp_all add: gui_tables_def)
  show ?thesis
    using assms refused list page unfolding switch_controllers_def Let_def
    by (simp add: t split: if_splits option.splits)
qed

lemma switch_controllers_ok:
  assumes "gui_ok s" and "switch_controllers env n s = Some s'"
  shows "gui_ok s'"
  using assms(2)
proof (cases rule: switch_controllers_cases)
  case refused
  then show ?thesis using assms(1) by simp
next
  case list
  show ?thesis unfolding list(3) by (rule gui_ok_unloaded [OF assms(1)]) (simp_all add: consts_simp)
next
  case (page d name h s1)
  have "gui_tables s' = gui_tables s" by (simp add: page(8,9))
  moreover have "command_ok s'"
    using open_library_functions [of env h "(takedown_current_controller env s)\<lparr>gui_controllerName := name\<rparr>"]
    by (auto simp: page(8,9) command_ok_def publish_def consts_simp)
  ultimately show ?thesis using assms(1) tables_frame [of s' s] by (simp add: gui_ok_def)
qed

lemma metadata_updates [simp]:
  "metadata_of (s\<lparr>controllerHandles := h, controllerTabs := t, controllerResourcesLoaded := r\<rparr>) = metadata_of s"
  "metadata_of (s\<lparr>gui_pages := p, controllerDetectedIDs := q\<rparr>) = metadata_of s"
  by (simp_all add: metadata_of_def fun_eq_iff)

lemma page_updates [simp]:
  "page_of (s\<lparr>gui_pages := p, controllerDetectedIDs := q\<rparr>) = page_of s"
  "row_ok (s\<lparr>gui_pages := p, controllerDetectedIDs := q\<rparr>) = row_ok s"
  by (simp_all add: page_of_def row_ok_def metadata_of_def fun_eq_iff)

lemma drop_nth_map: "drop_nth i (map f xs) = map f (drop_nth i xs)"
  by (simp add: drop_nth_def take_map drop_map)

lemma set_drop_nth: "set (drop_nth i xs) \<subseteq> set xs"
  by (auto simp: drop_nth_def dest: in_set_takeD in_set_dropD)

lemma unload_controller_ok:
  assumes "gui_ok s"
  shows "gui_ok (unload_controller name s)"
proof (cases "unload_controller name s = s")
  case False
  then obtain i where "unload_controller name s =
      s\<lparr>gui_pages := drop_nth i (gui_pages s), controllerDetectedIDs := drop_nth i (controllerDetectedIDs s)\<rparr>"
    by (auto simp: unload_controller_def Let_def split: if_splits)
  then show ?thesis using assms set_drop_nth [of i "controllerDetectedIDs s"]
    by (auto simp: gui_ok_def tables_ok_def pages_ok_def command_ok_def drop_nth_map)
qed (use assms in simp)

text \<open>A new page: its controller has its resources.\<close>

lemma new_page_ok:
  assumes "gui_ok s" and "d < length (controllerNames s)" and "controllerResourcesLoaded s ! d" and "tab = page_of s d"
  shows "gui_ok (add_page tab d s)"
  using assms by (auto simp: add_page_def gui_ok_def tables_ok_def pages_ok_def command_ok_def)

lemma new_resources_ok:
  assumes "gui_ok s" and "d < length (controllerNames s)" and "\<not> controllerResourcesLoaded s ! d"
    and "name = controllerNames s ! d" and "path = guiLibPath (metadata_of s name)" and "tab = page_of s d"
  shows "gui_ok (keep_resources name path tab d s)"
proof -
  let ?s' = "s\<lparr>controllerHandles := map_insert name path (controllerHandles s),
    controllerTabs := map_insert name tab (controllerTabs s), controllerResourcesLoaded := (controllerResourcesLoaded s)[d := True]\<rparr>"
  have md: "metadata_of ?s' = metadata_of s" "page_of ?s' = page_of s" by (simp_all add: page_of_def fun_eq_iff)
  have t: "tables_ok s" "pages_ok s" "command_ok s" using assms(1) by (simp_all add: gui_ok_def)
  have "row_ok ?s' e" if e: "e < length (controllerNames s)" for e
  proof (cases "e = d")
    case True
    have "row_ok s d" "length (controllerResourcesLoaded s) = length (controllerNames s)"
      using t(1) assms(2) by (auto simp: tables_ok_def)
    then show ?thesis using True assms(2-6) by (simp add: row_ok_def md map_insert_def page_of_def Let_def)
  next
    case False
    then have "controllerNames s ! e \<noteq> name" using t(1) e assms(2,4) by (auto simp: tables_ok_def nth_eq_iff_index_eq)
    moreover have "row_ok s e" using t(1) e by (simp add: tables_ok_def)
    ultimately show ?thesis using False by (simp add: row_ok_def md map_insert_def)
  qed
  then have "tables_ok ?s'" using t(1) by (simp add: tables_ok_def)
  moreover have "pages_ok ?s'" using t(1,2) assms(2) by (auto simp: pages_ok_def md tables_ok_def nth_list_update)
  moreover have "command_ok ?s'" using t(3) by (simp add: command_ok_def)
  ultimately show ?thesis unfolding keep_resources_def by (simp add: gui_ok_def)
qed

lemma keep_resources_simps [simp]:
  "page_of (keep_resources name handle tab d s) = page_of s"
  "controllerNames (keep_resources name handle tab d s) = controllerNames s"
  "controllerResourcesLoaded (keep_resources name handle tab d s) = (controllerResourcesLoaded s)[d := True]"
  by (simp_all add: keep_resources_def page_of_def fun_eq_iff)

text \<open>What loading a controller does: errors and calls only, its first page, or another page.\<close>

lemma load_controller_cases:
  assumes "load_controller env d s = Some (ok, s')"
  obtains (failed) "gui_tables s' = gui_tables s" "gui_core s' = gui_core s"
  | (first) m name where "\<not> controllerResourcesLoaded s ! d" "name = controllerNames s ! d" "gui_tables m = gui_tables s"
      "gui_core m = gui_core s" "s' = add_page (page_of s d) d (keep_resources name (guiLibPath (metadata_of s name)) (page_of s d) d m)"
  | (again) tab where "controllerResourcesLoaded s ! d" "controllerTabs s (controllerNames s ! d) = Some tab" "s' = add_page tab d s"
proof -
  define name where "name = controllerNames s ! d"
  define md where "md = metadata_of s name"
  define m where "m = gui_act (CallPlugin (guiLibPath md) ''guiInit'') (if loadSuccessful md then s
    else show_error_dialog (''Could not load metadata for controller '' @ name @ ''!'' @ [CHR 0x0A] @ ''Attempting to use default values.'') s)"
  have m: "gui_tables m = gui_tables s" "gui_core m = gui_core s" by (simp_all add: m_def show_error_dialog_def)
  have tab: "(guiDescriptionPath md, guiTabWidgetName md) = page_of s d" by (simp add: page_of_def md_def name_def Let_def)
  note eq = assms[unfolded load_controller_def Let_def, folded name_def, folded md_def, folded m_def, unfolded tab]
  show ?thesis
  proof (cases "gui_controller_loaded s \<or> \<not> dlopen_ok env (guiLibPath md)")
    case True
    then show ?thesis using eq failed by (auto simp: show_error_dialog_def split: if_splits)
  next
    case False
    show ?thesis
    proof (cases "controllerResourcesLoaded s ! d")
      case True
      then show ?thesis using eq False again by (auto simp: name_def split: option.splits)
    next
      case loaded: False
      consider "s' = add_page (page_of s d) d (keep_resources name (guiLibPath md) (page_of s d) d m)"
        | e where "s' = show_error_dialog e m"
        | e where "s' = show_error_dialog e (if loadSuccessful md then s
            else show_error_dialog (''Could not load metadata for controller '' @ name @ ''!'' @ [CHR 0x0A] @ ''Attempting to use default values.'') s)"
        using eq False loaded by (auto split: if_splits simp del: append_Cons)
      then show ?thesis
        using failed first [OF loaded name_def m] m by cases (auto simp: md_def show_error_dialog_def)
    qed
  qed
qed

lemma load_controller_ok:
  assumes "gui_ok s" and "load_controller env d s = Some (ok, s')" and "d < length (controllerNames s)"
  shows "gui_ok s'"
  using assms(2)
proof (cases rule: load_controller_cases)
  case failed
  then show ?thesis using gui_ok_frame assms(1) by blast
next
  case (first m name)
  have m: "controllerNames m = controllerNames s" "controllerResourcesLoaded m = controllerResourcesLoaded s"
    "page_of m = page_of s" "metadata_of m = metadata_of s"
    using first(3) tables_frame(3) [OF first(3)] by (auto simp: gui_tables_def metadata_of_def fun_eq_iff)
  have len: "length (controllerResourcesLoaded s) = length (controllerNames s)"
    using assms(1) by (simp add: gui_ok_def tables_ok_def)
  have "gui_ok (keep_resources name (guiLibPath (metadata_of s name)) (page_of s d) d m)"
    using gui_ok_frame [OF first(3,4)] assms(1,3) first(1,2) by (intro new_resources_ok) (simp_all add: m)
  then show ?thesis unfolding first(5) by (rule new_page_ok) (use assms(3) len in \<open>simp_all add: m\<close>)
next
  case (again tab)
  have "row_ok s d" using assms(1,3) by (simp add: gui_ok_def tables_ok_def)
  then have "tab = page_of s d" using again(1,2) by (simp add: row_ok_def page_of_def Let_def)
  then show ?thesis unfolding again(3) using new_page_ok [OF assms(1,3) again(1)] by simp
qed

lemma toggled_ok:
  assumes "gui_ok s" and "controller_checkbox_toggled env d active s = Some s'" and "d < length (controllerNames s)"
  shows "gui_ok s'"
  using assms unload_controller_ok load_controller_ok [OF assms(1) _ assms(3)]
  by (auto simp: controller_checkbox_toggled_def Let_def split: if_splits option.splits)

lemma detect_controllers_ok:
  assumes "detect_controllers file packages s = Some s'" and "gui_ok s" and "controllerDetectedIDs s = []"
    and "\<forall>n. controllerHandles s n = None \<and> controllerTabs s n = None" and "True \<notin> set (controllerResourcesLoaded s)"
    and "distinct (controllerNames s @ map fst packages)"
  shows "gui_ok s'"
  using assms
proof (induction packages arbitrary: s)
  case (Cons p packages)
  obtain package path where p: "p = (package, path)" by fastforce
  show ?case
  proof (cases "prefix ''atc_'' package")
    case True
    then obtain md where md: "loadControllerMetadata file path package True = Some md"
      using Cons.prems(1) p by (auto split: option.splits)
    let ?s = "s\<lparr>gui_metadata := map_insert package md (gui_metadata s), controllerNames := controllerNames s @ [package],
      controllerResourcesLoaded := controllerResourcesLoaded s @ [False]\<rparr>"
    have len: "length (controllerResourcesLoaded s) = length (controllerNames s)"
      using Cons.prems(2) by (simp add: gui_ok_def tables_ok_def)
    have "row_ok ?s d" if "d < length (controllerNames ?s)" for d
    proof -
      have "\<not> controllerResourcesLoaded ?s ! d"
        using that len Cons.prems(5) by (auto simp: nth_append in_set_conv_nth)
      then show ?thesis using Cons.prems(4) by (simp add: row_ok_def Let_def)
    qed
    then have "gui_ok ?s" using Cons.prems(2,3,6) len p by (auto simp: gui_ok_def tables_ok_def pages_ok_def command_ok_def)
    then show ?thesis using Cons.IH [of ?s] Cons.prems True md p by simp
  next
    case False
    then show ?thesis using Cons.IH [of s] Cons.prems p by auto
  qed
qed simp

lemma button_ok:
  "gui_ok s \<Longrightarrow> gui_ok (enable_motors s)" "gui_ok s \<Longrightarrow> gui_ok (disable_motors s)"
  "gui_ok s \<Longrightarrow> gui_ok (estop_button_clicked s)" "gui_ok s \<Longrightarrow> gui_ok (restart_robot s)"
  by (auto simp: enable_motors_def disable_motors_def estop_button_clicked_def restart_robot_def consts_simp
      intro!: send_command_ok)

lemma message_ok:
  assumes "gui_ok s"
  shows "gui_ok (save_parameters s)" and "gui_ok (load_parameters s)" and "gui_ok (controllerManagerCallback gi s)"
    and "gui_ok (rtOpsCallback s)" and "callSpinOnce s = Some s' \<Longrightarrow> gui_ok s'" and "gui_ok (log_chkbox_toggled b s)"
proof -
  have n: "gui_ok (s\<lparr>newRobotState := b\<rparr>) = gui_ok s" "gui_ok (s\<lparr>robotStateInitialized := b\<rparr>) = gui_ok s" for s b
    by (rule gui_ok_frame; simp add: gui_core_def)+
  show "gui_ok (save_parameters s)" "gui_ok (load_parameters s)" "gui_ok (log_chkbox_toggled b s)"
    using assms by (auto simp: save_parameters_def load_parameters_def log_chkbox_toggled_def split: option.splits)
  show "gui_ok (controllerManagerCallback gi s)"
    using assms by (simp add: controllerManagerCallback_def changeEstopButtonColor_def show_error_dialog_def Let_def)
  show "gui_ok (rtOpsCallback s)" using assms by (simp add: rtOpsCallback_def n)
  show "callSpinOnce s = Some s' \<Longrightarrow> gui_ok s'"
    using assms by (auto simp: callSpinOnce_def n split: if_splits option.splits)
qed

lemma gui_next_ok:
  assumes "gui_ok s" and "gui_possible s e" and "gui_next env e s = Some s'"
  shows "gui_ok s'"
proof (cases e)
  case (PageSwitched n)
  then show ?thesis using assms switch_controllers_ok by simp
next
  case (RowToggled row active)
  then show ?thesis using assms toggled_ok by simp
next
  case Timeout
  then show ?thesis using assms message_ok(5) by simp
qed (use assms button_ok message_ok(1-4,6) in auto)

lemma gui_reach_ok: "gui_reach env s \<Longrightarrow> gui_ok s"
proof (induction rule: gui_reach.induct)
  case (gui_start f packages s)
  then show ?case
    by (intro detect_controllers_ok [OF gui_start(1)])
      (auto simp: new_gui_def gui_ok_def tables_ok_def pages_ok_def command_ok_def consts_simp)
qed (rule gui_next_ok)


subsection \<open>What the operator relies on\<close>

text \<open>
  C33. No event that the widgets can deliver makes the interface call a null pointer or read past the end of a table, in
  any reachable state, as long as every library that can be opened has its initialisation function.
\<close>

theorem gui_never_crashes:
  assumes "gui_reach env s" and "gui_possible s e" and "\<And>path. dlopen_ok env path \<Longrightarrow> dlsym_ok env path ''guiInit''"
  shows "gui_next env e s \<noteq> None"
proof -
  have ok: "tables_ok s" "pages_ok s" "command_ok s" using gui_reach_ok [OF assms(1)] by (simp_all add: gui_ok_def)
  have row: "d < length (controllerNames s) \<Longrightarrow> row_ok s d" for d using ok(1) by (simp add: tables_ok_def)
  show ?thesis
  proof (cases e)
    case (PageSwitched n)
    show ?thesis
    proof (cases "gui_command (go s) \<noteq> UserCommand_STOP \<or> n = 0")
      case False
      let ?d = "controllerDetectedIDs s ! (n - 1)"
      have n: "n - 1 < length (controllerDetectedIDs s)"
        using assms(2) ok(2) PageSwitched False by (auto simp: pages_ok_def)
      then have "?d \<in> set (controllerDetectedIDs s)" by simp
      then have d: "?d < length (controllerNames s)" "controllerResourcesLoaded s ! ?d" using ok(2) by (auto simp: pages_ok_def)
      then have "controllerHandles s (controllerNames s ! ?d) \<noteq> None" using row [of ?d] by (simp add: row_ok_def Let_def)
      then show ?thesis using n d(1) takedown_simps(1) [of env s] PageSwitched
        by (auto simp: switch_controllers_def Let_def gui_tables_def)
    qed (use PageSwitched in \<open>auto simp: switch_controllers_def Let_def\<close>)
  next
    case (RowToggled d active)
    have d: "d < length (controllerNames s)" using assms(2) RowToggled by simp
    have "load_controller env d s \<noteq> None"
      using row [OF d] assms(3) by (auto simp: load_controller_def Let_def row_ok_def split: option.split)
    then show ?thesis using RowToggled by (auto simp: controller_checkbox_toggled_def Let_def split: option.split)
  next
    case Timeout
    then show ?thesis using ok(3) by (auto simp: callSpinOnce_def command_ok_def Let_def split: option.split)
  qed simp_all
qed

text \<open>
  C20. Switching to a page publishes, after the command to unload the old controller, the request for exactly that
  controller of the list whose widgets the page shows, and never to run it; while the motors are commanded to run or an
  emergency stop is not yet cleared it publishes nothing and sets the page back.
\<close>

theorem page_selects_controller:
  assumes "gui_reach env s" and "0 < n" and "n \<le> length (gui_pages s)" and "gui_next env (PageSwitched n) s = Some s'"
  shows "if gui_command (go s) = UserCommand_STOP
    then \<exists>d < length (controllerNames s). gui_pages s ! (n - 1) = page_of s d \<and>
      toCm s' = toCm s @ [\<lparr>gui_requestedController = ''none'', gui_command = UserCommand_UNLOAD_CONTROLLER\<rparr>,
        \<lparr>gui_requestedController = controllerNames s ! d, gui_command = UserCommand_STOP\<rparr>]
    else toCm s' = toCm s \<and> (\<exists>k. gui_actions s' = gui_actions s @ [SetPage k])"
proof -
  have ok: "pages_ok s" using gui_reach_ok [OF assms(1)] by (simp add: gui_ok_def)
  from assms(4) have "switch_controllers env n s = Some s'" by simp
  then show ?thesis
  proof (cases rule: switch_controllers_cases)
    case refused
    then show ?thesis by (auto simp: gui_act_def)
  next
    case list
    then show ?thesis using assms(2) by simp
  next
    case (page d name h s1)
    have "gui_pages s ! (n - 1) = page_of s d" using ok page(2-4) by (simp add: pages_ok_def)
    moreover have "toCm s' = toCm s @ [\<lparr>gui_requestedController = ''none'', gui_command = UserCommand_UNLOAD_CONTROLLER\<rparr>,
        \<lparr>gui_requestedController = controllerNames s ! d, gui_command = UserCommand_STOP\<rparr>]"
      by (simp add: page(6,8,9))
    ultimately show ?thesis using page(1,5) by auto
  qed
qed

text \<open>
  C7. The emergency stop button: in every reachable state in which the last command is RUN it publishes E_STOP, and a
  running controller manager that has no request outstanding and no command queued takes the message, whatever events of RT Ops arrive with it:
  it is in CONTROLLER_ESTOPPED, and E_STOP is on its way to RT Ops.
\<close>

theorem estop_button_stops:
  assumes "gui_reach env s" and "gui_command (go s) = UserCommand_RUN" and "gui_next env EstopClicked s = Some s'"
    and "cm_state m = CONTROLLER_RUNNING" and "\<not> commandPending m" and "commandBuffer m = []" and "\<not> cm_dead m"
    and m': "m' = updateHook_cm cm events (drop (length (toCm s)) (toCm s')) [True] m"
  shows "gui_command (go s') = UserCommand_E_STOP \<and> cm_state m' = CONTROLLER_ESTOPPED \<and> \<not> cm_dead m' \<and>
    toRtOps m' = toRtOps m @ [RtOpsState_t E_STOP]"
proof -
  have "gui_controller_loaded s" using gui_reach_ok [OF assms(1)] assms(2) by (simp add: gui_ok_def command_ok_def)
  then have s': "s' = send_command UserCommand_E_STOP s" using assms(2,3) by (simp add: estop_button_clicked_def)
  have "drop (length (toCm s)) (toCm s') = [(go s)\<lparr>gui_command := UserCommand_E_STOP\<rparr>]" by (simp add: s' send_command_def publish_def)
  then show ?thesis using assms(4-7)
    by (simp add: m' updateHook_cm_def Let_def eventCallbacks tryProcessCommand_def handleUserCommand_def s'
        send_command_def consts_simp)
qed

text \<open>The errors are shown exactly when there are some, and the bar is a fraction.\<close>

lemma concat_if_empty:
  "concat (map (\<lambda>(f, text). if c f then text else []) xs) = [] \<longleftrightarrow> (\<forall>(f, text) \<in> set xs. c f \<longrightarrow> text = [])"
  by (induction xs) auto

lemma no_errors_shown: "update_medulla_errors e l = [] \<longleftrightarrow> e = 0 \<and> (\<forall>n < 6. \<not> bit l n)"
proof -
  have e: "e = 0 \<longleftrightarrow> (\<forall>n < 8. \<not> bit e n)"
    by (auto intro!: bit_word_eqI)
  have lt: "(\<forall>n < 8. P n) \<longleftrightarrow> P 0 \<and> P 1 \<and> P 2 \<and> P 3 \<and> P 4 \<and> P 5 \<and> P 6 \<and> P (7 :: nat)"
    "(\<forall>n < 6. P n) \<longleftrightarrow> P 0 \<and> P 1 \<and> P 2 \<and> P 3 \<and> P 4 \<and> P (5 :: nat)" for P
    by (simp_all add: numeral_eq_Suc All_less_Suc conj_ac)
  have b: "and w (push_bit n 1) = 0 \<longleftrightarrow> \<not> bit w n" for w :: uint8 and n
    by (simp add: push_bit_of_1 and_exp_eq_0_iff_not_bit)
  show ?thesis unfolding e lt update_medulla_errors_def append_is_Nil_conv concat_if_empty medulla_error_estop_def medulla_error_limit_switch_def
      medulla_error_thermistor_def medulla_error_motor_voltage_def medulla_error_logic_voltage_def
      medulla_error_encoder_def medulla_error_halt_def medulla_error_amplifier_def
    by (simp only: list.set ball_simps prod.case b list.distinct not_not simp_thms)
qed

lemma progress_fraction_range:
  assumes "variant_ok v"
  shows "0 \<le> progress_fraction v c \<and> progress_fraction v c \<le> 1"
  using assms by (simp add: progress_fraction_def variant_ok_def min_le_iff_disj)

text \<open>
  An interface that has just been started knows of no controller: its emergency stop button does nothing, even when the
  robot runs.
\<close>

lemma estop_button_dead_after_start: "toCm (estop_button_clicked new_gui) = toCm new_gui"
  by (simp add: estop_button_clicked_def new_gui_def)

subsection \<open>A session\<close>

fun gui_run :: "gui_env \<Rightarrow> gui_event list \<Rightarrow> gui \<Rightarrow> gui option" where
  "gui_run env [] s = Some s"
| "gui_run env (e # es) s =
     (if gui_possible s e then (case gui_next env e s of None \<Rightarrow> None | Some s \<Rightarrow> gui_run env es s) else None)"

lemma gui_run_reach: "gui_reach env s \<Longrightarrow> gui_run env es s = Some s' \<Longrightarrow> gui_reach env s'"
  by (induction es arbitrary: s) (auto intro: gui_reach.gui_event split: if_splits option.splits)

lemma gui_run_the: "gui_reach env s \<Longrightarrow> gui_run env es s \<noteq> None \<Longrightarrow> gui_reach env (the (gui_run env es s))"
  by (rule gui_run_reach) (simp_all add: option.collapse)

definition good_env :: gui_env where
  "good_env = \<lparr>dlopen_ok = \<lambda>_. True, dlsym_ok = \<lambda>_ _. True, builder_ok = \<lambda>_. True, tab_widget_ok = \<lambda>_ _. True,
     guiInit_ok = \<lambda>_. True, has_params = False\<rparr>"

text \<open>One controller is found; its box is checked, its page opened and the motors enabled.\<close>

definition started_gui :: gui where
  "started_gui = the (detect_controllers (\<lambda>_. None) [(''atc_walk'', ''/atc_walk''), (''rviz'', ''/rviz'')] new_gui)"

definition listed_gui :: gui where
  "listed_gui = the (gui_run good_env [RowToggled 0 True] started_gui)"

definition running_gui :: gui where
  "running_gui = the (gui_run good_env [PageSwitched 1, EnableClicked] listed_gui)"

lemma started_gui_reach: "gui_reach good_env started_gui"
proof -
  have "detect_controllers (\<lambda>_. None) [(''atc_walk'', ''/atc_walk''), (''rviz'', ''/rviz'')] new_gui \<noteq> None" by code_simp
  from gui_start [OF option.collapse [OF this, symmetric]] show ?thesis by (simp add: started_gui_def)
qed

lemma listed_gui_reach: "gui_reach good_env listed_gui"
proof -
  have "gui_run good_env [RowToggled 0 True] started_gui \<noteq> None" by code_simp
  then show ?thesis unfolding listed_gui_def by (rule gui_run_the [OF started_gui_reach])
qed

lemma running_gui_reach: "gui_reach good_env running_gui"
proof -
  have "gui_run good_env [PageSwitched 1, EnableClicked] listed_gui \<noteq> None" by code_simp
  then show ?thesis unfolding running_gui_def by (rule gui_run_the [OF listed_gui_reach])
qed

lemma gui_never_crashes_witness: "gui_next good_env Timeout running_gui \<noteq> None"
  by (rule gui_never_crashes [OF running_gui_reach]) (simp_all add: good_env_def)

lemma page_selects_controller_witness:
  "if gui_command (go listed_gui) = UserCommand_STOP
   then \<exists>d < length (controllerNames listed_gui). gui_pages listed_gui ! 0 = page_of listed_gui d \<and>
     toCm (the (gui_next good_env (PageSwitched 1) listed_gui)) = toCm listed_gui @
       [\<lparr>gui_requestedController = ''none'', gui_command = UserCommand_UNLOAD_CONTROLLER\<rparr>,
        \<lparr>gui_requestedController = controllerNames listed_gui ! d, gui_command = UserCommand_STOP\<rparr>]
   else False"
proof -
  have c: "gui_command (go listed_gui) = UserCommand_STOP" by code_simp
  have p: "(1 :: nat) \<le> length (gui_pages listed_gui)" by code_simp
  have "gui_next good_env (PageSwitched 1) listed_gui \<noteq> None" by code_simp
  then have "gui_next good_env (PageSwitched 1) listed_gui = Some (the (gui_next good_env (PageSwitched 1) listed_gui))" by simp
  from page_selects_controller [OF listed_gui_reach _ p this] c show ?thesis by simp
qed

lemma estop_button_stops_witness:
  "cm_state (updateHook_cm plain_env [] [\<lparr>gui_requestedController = ''atc_walk'', gui_command = UserCommand_E_STOP\<rparr>] [True]
     loaded_machine) = CONTROLLER_ESTOPPED"
proof -
  have r: "gui_command (go running_gui) = UserCommand_RUN" by code_simp
  have m: "cm_state loaded_machine = CONTROLLER_RUNNING" "\<not> commandPending loaded_machine"
    "commandBuffer loaded_machine = []" "\<not> cm_dead loaded_machine" by code_simp+
  have d: "drop (length (toCm running_gui)) (toCm (estop_button_clicked running_gui)) =
      [\<lparr>gui_requestedController = ''atc_walk'', gui_command = UserCommand_E_STOP\<rparr>]" by code_simp
  show ?thesis
    using estop_button_stops [OF running_gui_reach r _ m refl, of "estop_button_clicked running_gui" plain_env "[]"] d by simp
qed

end
