(* ===== verification/AscLoader.thy ===== *)
theory AscLoader
  imports ControllerManager
begin

text \<open>
  The loader of sub-controllers (atrias_asc_loader): it asks the deployer of the middleware for a component with a name
  that the controller manager makes up, and takes the component down again when it is destroyed. The lemmas: when a load
  succeeds and what it has called then, and that a component that was loaded is unloaded, except where the deployer
  denies knowing it.

  The deployer and the component are not part of the repository: their answers are a \<open>loader_env\<close>, what they are asked
  is appended to \<open>loader_calls\<close>.
\<close>

record loader_env =
  peer_deployer :: bool
  import_ready :: bool
  import_ok :: bool
  peer_cm :: bool
  getUniqueName_ready :: bool
  loadComponent_ready :: bool
  loadComponent_ok :: bool
  peer_sub :: bool
  addPeer_ok :: bool
  configure_ready :: bool
  configure_ok :: bool
  start_ready :: bool
  start_ok :: bool
  stop_ready :: bool
  cleanup_ready :: bool
  cleanup_ok :: bool
  unloadComponent_ready :: bool
  unloadComponent_ok :: bool

datatype loader_call =
    Import string
  | LoadComponent string string bool
  | AddPeer string
  | Configure
  | StartComponent
  | StopComponent
  | Cleanup
  | UnloadComponent string
  | LoadError string
  | UnloadError string

record asc_loader =
  subcontroller :: bool
  asc_name :: string
  loader_calls :: "loader_call list"

definition new_ASCLoader :: asc_loader where
  "new_ASCLoader = \<lparr>subcontroller = False, asc_name = [], loader_calls = []\<rparr>"

definition loader_call :: "loader_call \<Rightarrow> asc_loader \<Rightarrow> asc_loader" where
  "loader_call c s = s\<lparr>loader_calls := loader_calls s @ [c]\<rparr>"

definition reportLoadError :: "string \<Rightarrow> asc_loader \<times> cman \<Rightarrow> bool \<times> asc_loader \<times> cman" where
  "reportLoadError message sc = (False, loader_call (LoadError message) (fst sc), snd sc)"

text \<open>The part of \<open>load\<close> behind the creation of the component.\<close>

definition start_subcontroller :: "loader_env \<Rightarrow> asc_loader \<times> cman \<Rightarrow> bool \<times> asc_loader \<times> cman" where
  "start_subcontroller env sc =
     (let (s, cm) = sc; s = s\<lparr>subcontroller := peer_sub env\<rparr>
      in if \<not> subcontroller s then reportLoadError ''Could not connect with the subcontroller!'' (s, cm)
         else let s = loader_call (AddPeer (asc_name s)) s
         in if \<not> addPeer_ok env then reportLoadError ''Could not add the deployer as a peer of the subcontroller!'' (s, cm)
         else if \<not> configure_ready env then reportLoadError ''Unable to get subcontroller's configure operation!'' (s, cm)
         else let s = loader_call Configure s
         in if \<not> configure_ok env then reportLoadError ''Subcontroller configuration failed!'' (s, cm)
         else if \<not> start_ready env then reportLoadError ''Unable to get the subcontroller's start operation!'' (s, cm)
         else let s = loader_call StartComponent s
         in if \<not> start_ok env then reportLoadError ''Subcontroller starting failed!'' (s, cm)
         else (True, s, cm))"

definition asc_load ::
  "loader_env \<Rightarrow> string option \<Rightarrow> string \<Rightarrow> string \<Rightarrow> asc_loader \<times> cman \<Rightarrow> bool \<times> asc_loader \<times> cman" where
  "asc_load env task_context package type sc =
     (let (s, cm) = sc
      in case task_context of
           None \<Rightarrow> reportLoadError ''Null task_context!'' sc
         | Some caller \<Rightarrow>
             if package = [] then reportLoadError ''Empty package name given!'' sc
             else if type = [] then reportLoadError ''Empty component type given!'' sc
             else if subcontroller s then reportLoadError ''load() has already been called!'' sc
             else if \<not> peer_deployer env then reportLoadError ''Unable to access the deployer!'' sc
             else if \<not> import_ready env then reportLoadError ''Could not access deployer's import operation!'' sc
             else let s = loader_call (Import package) s
             in if \<not> import_ok env then reportLoadError ''Unable to import package!'' (s, cm)
             else if \<not> peer_cm env then reportLoadError ''Could not access the Controller Manager!'' (s, cm)
             else if \<not> getUniqueName_ready env
             then reportLoadError ''Could not get the Controller Manager's getUniqueName Operation!'' (s, cm)
             else let (nm, cm) = getUniqueName caller type cm; s = s\<lparr>asc_name := nm\<rparr>
             in if \<not> loadComponent_ready env
                then reportLoadError ''Could not get the deployer's loadComponent Operation!'' (s, cm)
             else let s = loader_call (LoadComponent nm type (loadComponent_ok env)) s
             in if \<not> loadComponent_ok env then reportLoadError ''Could not load the subcontroller!'' (s, cm)
             else start_subcontroller env (s, cm))"

definition reportUnloadError :: "string \<Rightarrow> asc_loader \<Rightarrow> asc_loader" where
  "reportUnloadError message s = loader_call (UnloadError message) s"

text \<open>The destructor.\<close>

definition asc_unload :: "loader_env \<Rightarrow> asc_loader \<Rightarrow> asc_loader" where
  "asc_unload env s =
     (if \<not> subcontroller s then s
      else
        let s = (if stop_ready env then loader_call StopComponent s else reportUnloadError ''Could not acquire stop operation!'' s);
            s = (if \<not> cleanup_ready env then reportUnloadError ''Unable to acquire cleanup operation!'' s
                 else (if cleanup_ok env then loader_call Cleanup s
                       else reportUnloadError ''Unable to cleanup subcontroller!'' (loader_call Cleanup s)))
        in if \<not> unloadComponent_ready env then reportUnloadError ''Unable to acquire deployer's unloadComponent operation!'' s
           else (if unloadComponent_ok env then loader_call (UnloadComponent (asc_name s)) s
                 else reportUnloadError ''Unable to unload the component!'' (loader_call (UnloadComponent (asc_name s)) s)))"

subsection \<open>Loading and unloading\<close>

definition all_ready :: "loader_env \<Rightarrow> bool" where
  "all_ready env \<longleftrightarrow> peer_deployer env \<and> import_ready env \<and> import_ok env \<and> peer_cm env \<and> getUniqueName_ready env \<and>
     loadComponent_ready env \<and> loadComponent_ok env \<and> peer_sub env \<and> addPeer_ok env \<and> configure_ready env \<and>
     configure_ok env \<and> start_ready env \<and> start_ok env"

lemma asc_load_ok:
  "fst (asc_load env caller package type (s, cm)) \<longleftrightarrow>
     caller \<noteq> None \<and> package \<noteq> [] \<and> type \<noteq> [] \<and> \<not> subcontroller s \<and> all_ready env"
  by (auto simp: asc_load_def start_subcontroller_def reportLoadError_def all_ready_def loader_call_def Let_def
      split: option.split prod.split)

lemma asc_load_calls:
  assumes "asc_load env (Some caller) package type (s, cm) = (True, s', cm')"
  shows "loader_calls s' = loader_calls s @ [Import package, LoadComponent (asc_name s') type True, AddPeer (asc_name s'),
      Configure, StartComponent] \<and> subcontroller s' \<and> (asc_name s', cm') = getUniqueName caller type cm"
proof -
  have "all_ready env" "package \<noteq> []" "type \<noteq> []" "\<not> subcontroller s"
    using asc_load_ok [of env "Some caller" package type s cm] assms by simp_all
  then show ?thesis using assms
    by (auto simp: asc_load_def start_subcontroller_def all_ready_def loader_call_def Let_def split: prod.splits)
qed

text \<open>The components that were created, and those that were taken down.\<close>

definition components_loaded :: "asc_loader \<Rightarrow> string list" where
  "components_loaded s = concat (map (\<lambda>c. case c of LoadComponent n t ok \<Rightarrow> if ok then [n] else [] | _ \<Rightarrow> []) (loader_calls s))"

definition components_unloaded :: "asc_loader \<Rightarrow> string list" where
  "components_unloaded s = concat (map (\<lambda>c. case c of UnloadComponent n \<Rightarrow> [n] | _ \<Rightarrow> []) (loader_calls s))"

text \<open>
  However far a load gets, the destructor unloads what it created, provided the deployer, which has just created it,
  knows the component.
\<close>

lemma loader_unloads:
  assumes "asc_load env caller package type (new_ASCLoader, cm) = (r, s, cm')" and "peer_sub env" and "unloadComponent_ready env"
  shows "components_unloaded (asc_unload env s) = components_loaded s"
proof -
  have "subcontroller s \<and> components_loaded s = [asc_name s] \<and> components_unloaded s = [] \<or>
    \<not> subcontroller s \<and> components_loaded s = [] \<and> components_unloaded s = []"
    using assms(1,2) unfolding asc_load_def start_subcontroller_def reportLoadError_def Let_def new_ASCLoader_def
    by (auto simp: loader_call_def components_loaded_def components_unloaded_def split: if_splits option.splits prod.splits)
  then show ?thesis using assms(3)
    by (auto simp: asc_unload_def Let_def reportUnloadError_def loader_call_def components_unloaded_def)
qed

text \<open>A component that the deployer does not name back is never unloaded.\<close>

lemma lost_component_stays:
  assumes "asc_load env (Some caller) package type (new_ASCLoader, cm) = (r, s, cm')" and "\<not> peer_sub env"
    and "all_ready (env\<lparr>peer_sub := True\<rparr>)" and "package \<noteq> []" and "type \<noteq> []"
  shows "components_loaded s = [asc_name s] \<and> components_unloaded (asc_unload env s) = []"
proof -
  have "\<not> subcontroller s \<and> components_loaded s = [asc_name s] \<and> components_unloaded s = []"
    using assms unfolding asc_load_def start_subcontroller_def reportLoadError_def Let_def new_ASCLoader_def all_ready_def
    by (auto simp: loader_call_def components_loaded_def components_unloaded_def split: if_splits option.splits prod.splits)
  then show ?thesis by (simp add: asc_unload_def)
qed

end
