(* ===== verification/Spec2Isabelle.thy ===== *)
theory Spec2Isabelle
  imports RtOps MedullaManager EcatConn CSimConn ControllerManager LegKinematics
    LegFirmware HipFirmware BoomFirmware ImuFirmware ImuSensor Wire
    LoadedControllers ForceDemo EqPoint SlipHopping Gui AscLoader
begin

text \<open>
  ATRIAS is a walking robot. This development models the software that stands between its
  controllers and its motors.

  The program. On the control computer runs RT Ops (\<open>src/software/atrias_rt_ops\<close>): once per
  millisecond it passes the state of the robot to the loaded controller, checks and clamps the
  answer, and sends it out; a state machine decides what the robot may do, and an emergency stop
  latches. The controller manager (\<open>atrias_controller_manager\<close>) loads controllers and asks
  RT Ops for state changes on behalf of the operator. A connector links RT Ops to a robot: the
  EtherCAT connector (\<open>atrias_ecat_conn\<close>) with one driver for each kind of microcontroller board
  on the robot, a "medulla" (\<open>atrias_medulla_drivers\<close>), or a simulation (\<open>atrias_noop_conn\<close>,
  \<open>atrias_sim_conn\<close>, \<open>atrias_csim_conn\<close>). The controllers derive from \<open>atrias_control_lib\<close> and use
  the sub-controllers in \<open>atrias_controllers/asc_*\<close>. The boards run the firmware
  \<open>src/firmware/atrias2.1\<close>, whose state machine and watchdogs are the last line of defence.

  The theories, in the order of their imports, with the code they model:

  \<^item> Prelude: integer types as words, C division, wrap-around, lists of operations (\<open>run\<close>), the
    locale of a latched setter. Doubles: the C++ \<open>double\<close> as a real number, an infinity or NaN, and
    its conversion to integers, undefined (\<open>None\<close>) out of range. Globals: \<open>globals.h\<close>, \<open>robot_invariant_defs.h\<close>, the robots' variant
    headers. Messages: the messages of \<open>atrias_msgs\<close>.
  \<^item> RT Ops. OpsLogger, RtState (\<open>RobotStateHandler.cpp\<close>, \<open>TimestampHandler.cpp\<close>,
    \<open>EStopDiags.cpp\<close>, \<open>setState\<close>), Safety (\<open>Safety.cpp\<close>), StateMachine (\<open>StateMachine.cpp\<close>),
    ControllerLoop (\<open>ControllerLoop.cpp\<close>), RtOps (\<open>RTOps.cpp\<close>): the objects that point at each
    other in C++ are the record \<open>rt_ops\<close>; each method is a function of the same name on it. The
    step relation \<open>rt_step\<close> interleaves the parts of an iteration of the control loop with the
    callbacks of the other threads; \<open>rt_reach\<close> are the reachable states. The theorems: the safety
    of every output, the latch of the emergency stop, the exact output of an iteration, what
    stops the robot and how that is reported, the reset.
  \<^item> ControllerManager (\<open>ControllerManager-component.cpp\<close>, \<open>EventManager-activity.cpp\<close>), Metadata
    (\<open>controller_metadata.cpp\<close>): the record \<open>cman\<close>, one step for each hook, handler and turn of
    the event thread (\<open>cm_step\<close>, \<open>cm_run\<close>). The theorems: the protocol towards RT Ops, the latch
    and the recovery from the emergency stop, no lost wake-up of the event thread.
  \<^item> Drivers. Encoder, Medulla (conversions, process data tables), LegMedulla, HipMedulla,
    BoomMedulla, ImuMedulla: one record for each driver object, the process data as records
    decoded from bytes at the offsets that \<open>MedullaManager\<close> lays out. The theorems: encoders
    follow through rollovers, debouncing, current conversion within full scale.
  \<^item> Connectors. Connector (no-op, Gazebo, and the deadline watch that all share), MedullaManager,
    EcatConn, CSimConn. The theorems: stale data is not processed twice, the phase of the
    real-time loop, missed deadlines are reported exactly.
  \<^item> Base classes and sub-controllers. ControlLib (clamp, mode machine and start-up ramp),
    Subcontrollers, LegKinematics, HipKinematics, SlipModel, StanceForce. The theorems: the
    start-up ramp and its end, round trips of the leg coordinates, inversion of the force
    controller, the hips solve the triangle of the boom, one of the two integrators is a
    Runge-Kutta method of its order and the other is not, the stance torques realise the force.
  \<^item> Walking controllers. Gait states what a gait promises as an abstract machine and the locale
    \<open>walker\<close>; SlipWalking (\<open>ATCSlipWalking.cpp\<close>) and Deadbeat (\<open>ATCDeadbeatControl.cpp\<close>) refine it.
    CanonicalWalking (\<open>ATCCanonicalWalking.cpp\<close>) follows fixed curves of the phase variable.
    EqPoint (\<open>ATCEqPoint.cpp\<close>) refines a machine of its own, \<open>eq_moves\<close>.
  \<^item> Other top-level controllers. MotorControllers (\<open>atc_motor_position\<close>, \<open>atc_joint_position\<close>,
    \<open>atc_motor_sin_wave\<close>, \<open>atc_motor_torque\<close>, \<open>atc_demo\<close>), StabilizedStanding, ForceDemo, SlipHopping. The
    theorems: targets move at the rate limit, the pose of the standing controller is the fixed
    point of its regulator and reached in known time, the test signals and their derivatives. Each controller is a record that
    extends that of the base class; its method \<open>controller()\<close> is a function on the record.
    LoadedControllers runs them under RT Ops: the locale \<open>guarded_controller\<close> is the contract of a
    controller that commands the emergency stop at its limits, and the robot then stops.
  \<^item> Gui (\<open>atrias_gui.cpp\<close>): the operator's interface as events on its tables (\<open>gui_next\<close>, \<open>gui_reach\<close>);
    the theorems: it never calls a null pointer, a page requests the controller that it shows, and
    its emergency stop reaches RT Ops. AscLoader (\<open>ASCLoader.cpp\<close>): loading of sub-controllers.
  \<^item> Firmware (\<open>medulla.c\<close>): the main loop as a turn that ends early at \<open>continue\<close> (\<open>fw_turn\<close>), the
    interrupts between turns (\<open>fw_step\<close>, \<open>fw_reach\<close>), and the contract \<open>medulla_board\<close> that the
    function pointers of a board fulfil. Amplifier (\<open>amplifier.c\<close>), LegFirmware, HipFirmware,
    BoomFirmware, ImuFirmware (\<open>medulla_*.c\<close>), Crc (\<open>crc.c\<close>): the boards, each an interpretation
    of the contract. The theorems: motors are powered only in run and halt, watchdogs, halts,
    resets and duties; the checksum against serial division, and that it detects bursts.
    ImuSensor is the separate board for another sensor (\<open>imu_medulla/src/imu.c\<close>): its parser of the
    stream (\<open>sync_step\<close>) accepts exactly the packets of a sliding window (\<open>scan\<close>), and settings
    survive coding.
  \<^item> Wire: the transmit tables of the boards (\<open>*_tx_pdos\<close>), shown to agree with the drivers' layout of
    the process data, and the way of a leg board's state into the state of the robot.
  \<^item> This theory: the properties that span components, from RT Ops over the bus to the motors.

  Abstractions. Arithmetic on doubles is exact: there is no rounding, NaN is one value, and
  overflow to infinity does not happen in finite operations. Integers have their width where the
  code can wrap. Methods run atomically except where the code releases the state to other
  threads: there the step relations cut them, and a lock that is only tried is an input. The
  middleware (Orocos ports and peers), SOEM (frames and slaves), the peripheral libraries of
  the microcontroller and the clocks are not part of the repository: what they answer is an input
  of the steps, what they are asked is appended to a list of the state. Controllers are arbitrary
  functions from robot states to outputs. The tables of a robot are a parameter, \<open>variant_ok\<close> says
  what the theorems need of them, and it holds for the two bipeds that define every constant.

  Bounds. No definition takes fuel: loops of the code are recursion over lists, and the endless
  loops of the threads are step relations or \<open>run\<close> over a list of turns. The constants in the
  theorems (six cycles of a reset, ten edges of the watchdog, 102 edges of a halt, 4000 calls of
  the start-up) are the code's; times in nanoseconds are bounded where the code stores them in 32
  or 64 bits, as the theorems say.

  Not modelled. The drawing of the interface, the recorder and the Gazebo plugins: display and physics
  of other programs. The controller for running does not compile: it
  calls \<open>legStiffness\<close>, which the repository does not define, and misspells its own class; the packages marked \<open>ROS_NOBUILD\<close>
  and the copies
  \<open>ATCSlipWalking_Demo*.cpp\<close> are not built. The initialisation of peripherals, the
  debug modes and the bring-up programs of the firmware: register writes. The Orocos hooks that
  connect components: calls of the middleware.
\<close>

section \<open>Outputs on the bus\<close>

lemma leg_out_ok:
  assumes "safe_output v co" and "variant_ok v"
  shows "\<exists>out d'. leg_processTransmitData v ident co d = Some (out, d') \<and>
    \<bar>out_current (LegOut out)\<bar> \<le> MTR_MAX_COUNT \<and>
    (co_command co \<noteq> medulla_state_run \<longrightarrow> out_current (LegOut out) = 0)"
proof -
  have "\<exists>w. leg_calcMotorCurrentOut v ident co = Some w \<and> \<bar>sint w\<bar> \<le> MTR_MAX_COUNT \<and>
    (co_command co \<noteq> medulla_state_run \<longrightarrow> w = 0)"
  proof (cases "leg_slot_of ident")
    case None
    have "0 < MTR_MAX_CURRENT v" using assms(2) by (simp add: variant_ok_def)
    moreover obtain w where "to_int32 (Fin 0) = Some w" "\<bar>sint w\<bar> \<le> 0"
      using to_int32_bounded [of 0 0] by auto
    moreover from this(2) have "sint w = sint (0 :: uint32)" by simp
    then have "w = 0" by (rule signed_word_eqI)
    ultimately show ?thesis
      by (simp add: leg_calcMotorCurrentOut_def None of_int_dbl_def consts_simp zero_dbl_def
          del: to_int32.simps)
  next
    case (Some sl)
    have "isfinite (motor_command sl co)"
      "\<bar>real_of_dbl (motor_command sl co)\<bar> \<le> MAX_MTR_CURRENT_CMD v"
      using assms by (cases sl; auto simp: safe_output_def leg_within_def leg_finite_def variant_ok_def)+
    from leg_current_bounded [OF assms(2) this Some] show ?thesis .
  qed
  then show ?thesis by (auto simp: leg_processTransmitData_def Let_def)
qed

lemma hip_out_ok:
  assumes "safe_output v co" and "variant_ok v"
  shows "\<exists>out d'. hip_processTransmitData v ident co d = Some (out, d') \<and>
    \<bar>out_current (HipOut out)\<bar> \<le> MTR_MAX_COUNT \<and>
    (co_command co \<noteq> medulla_state_run \<longrightarrow> out_current (HipOut out) = 0)"
proof -
  have "isfinite (motorCurrentHip (co_lLeg co))" "isfinite (motorCurrentHip (co_rLeg co))"
    "\<bar>real_of_dbl (motorCurrentHip (co_lLeg co))\<bar> \<le> MAX_HIP_MTR_CURRENT_CMD v"
    "\<bar>real_of_dbl (motorCurrentHip (co_rLeg co))\<bar> \<le> MAX_HIP_MTR_CURRENT_CMD v"
    using assms by (auto simp: safe_output_def leg_within_def leg_finite_def variant_ok_def)
  note * = hip_current_bounded [OF assms(2) this, of ident]
  have "motorCurrentHip (co_lLeg co) = 0 \<and> motorCurrentHip (co_rLeg co) = 0"
    if "co_command co \<noteq> medulla_state_run"
    using assms(1) that by (simp add: safe_output_def controller_output_leg_zero_def)
  with * show ?thesis by (auto simp: hip_processTransmitData_def Let_def)
qed

lemma transmit_safe_output:
  assumes "safe_output v co" and "variant_ok v"
  shows "\<exists>mm' outs. mm_processTransmitData v inputs co mm = Some (mm', outs) \<and>
    (\<forall>x \<in> set outs. \<bar>out_current (snd x)\<bar> \<le> MTR_MAX_COUNT \<and>
      (co_command co \<noteq> medulla_state_run \<longrightarrow> out_current (snd x) = 0))"
proof -
  define R where "R out \<longleftrightarrow> \<bar>out_current out\<bar> \<le> MTR_MAX_COUNT \<and>
    (co_command co \<noteq> medulla_state_run \<longrightarrow> out_current out = 0)" for out
  have leg: "\<exists>d' outs. transmit_opt (\<lambda>n. leg_processTransmitData v (li_id (leg_inputs_of (inputs n))) co)
      LegOut d = Some (d', outs) \<and> (\<forall>x \<in> set outs. R (snd x))" for d
    using leg_out_ok [OF assms] by (intro transmit_opt_ok) (simp add: R_def)
  have hip: "\<exists>d' outs. transmit_opt (\<lambda>n. hip_processTransmitData v (hi_id (hip_inputs_of (inputs n))) co)
      HipOut d = Some (d', outs) \<and> (\<forall>x \<in> set outs. R (snd x))" for d
    using hip_out_ok [OF assms] by (intro transmit_opt_ok) (simp add: R_def)
  have boom: "\<exists>d' outs. transmit_opt (\<lambda>n d. Some (boom_processTransmitData co d)) BoomOut d =
      Some (d', outs) \<and> (\<forall>x \<in> set outs. R (snd x))" for d
    by (rule transmit_opt_ok) (simp add: R_def consts_simp split: prod.split)
  have imu: "\<exists>d' outs. transmit_opt (\<lambda>n d. Some (imu_processTransmitData co d)) ImuOut d =
      Some (d', outs) \<and> (\<forall>x \<in> set outs. R (snd x))" for d
    by (rule transmit_opt_ok) (simp add: R_def consts_simp split: prod.split)
  obtain a1 o1 where 1: "transmit_opt (\<lambda>n. leg_processTransmitData v (li_id (leg_inputs_of (inputs n))) co)
      LegOut (lLegA mm) = Some (a1, o1)" "\<forall>x \<in> set o1. R (snd x)" using leg by blast
  obtain a2 o2 where 2: "transmit_opt (\<lambda>n. leg_processTransmitData v (li_id (leg_inputs_of (inputs n))) co)
      LegOut (lLegB mm) = Some (a2, o2)" "\<forall>x \<in> set o2. R (snd x)" using leg by blast
  obtain a3 o3 where 3: "transmit_opt (\<lambda>n. leg_processTransmitData v (li_id (leg_inputs_of (inputs n))) co)
      LegOut (rLegA mm) = Some (a3, o3)" "\<forall>x \<in> set o3. R (snd x)" using leg by blast
  obtain a4 o4 where 4: "transmit_opt (\<lambda>n. leg_processTransmitData v (li_id (leg_inputs_of (inputs n))) co)
      LegOut (rLegB mm) = Some (a4, o4)" "\<forall>x \<in> set o4. R (snd x)" using leg by blast
  obtain a5 o5 where 5: "transmit_opt (\<lambda>n d. Some (boom_processTransmitData co d)) BoomOut (boom mm) =
      Some (a5, o5)" "\<forall>x \<in> set o5. R (snd x)" using boom by blast
  obtain a6 o6 where 6: "transmit_opt (\<lambda>n d. Some (imu_processTransmitData co d)) ImuOut (imu mm) =
      Some (a6, o6)" "\<forall>x \<in> set o6. R (snd x)" using imu by blast
  obtain a7 o7 where 7: "transmit_opt (\<lambda>n. hip_processTransmitData v (hi_id (hip_inputs_of (inputs n))) co)
      HipOut (lLegHip mm) = Some (a7, o7)" "\<forall>x \<in> set o7. R (snd x)" using hip by blast
  obtain a8 o8 where 8: "transmit_opt (\<lambda>n. hip_processTransmitData v (hi_id (hip_inputs_of (inputs n))) co)
      HipOut (rLegHip mm) = Some (a8, o8)" "\<forall>x \<in> set o8. R (snd x)" using hip by blast
  have "mm_processTransmitData v inputs co mm =
       Some (\<lparr>lLegA = a1, lLegB = a2, rLegA = a3, rLegB = a4, boom = a5, imu = a6,
         lLegHip = a7, rLegHip = a8, mm_robotState = mm_robotState mm\<rparr>,
         o1 @ o2 @ o3 @ o4 @ o5 @ o6 @ o7 @ o8)"
    by (simp add: mm_processTransmitData_def Let_def 1(1) 2(1) 3(1) 4(1) 5(1) 6(1) 7(1) 8(1))
  moreover have "\<forall>x \<in> set (o1 @ o2 @ o3 @ o4 @ o5 @ o6 @ o7 @ o8). R (snd x)"
    using 1(2) 2(2) 3(2) 4(2) 5(2) 6(2) 7(2) 8(2) by auto
  ultimately show ?thesis unfolding R_def by blast
qed

text \<open>
  C17. Every output that RT Ops sends in a reachable state goes out on the bus: whatever medullas
  were found and whatever their process images hold, no driver's conversion is undefined, every
  motor current is within full scale, and it is zero unless the output commands run.
\<close>

theorem sent_output_transmitted:
  assumes "rt_reach v s" and "variant_ok v" and "co \<in> set (sentOutputs s)"
    and "c' = ecat_sendControllerOutput v (co, frame) c"
  shows "ecat_undefined c' = ecat_undefined c \<and>
    (\<exists>outs. ecat_sent c' = ecat_sent c @ [outs] \<and>
      (\<forall>x \<in> set outs. \<bar>out_current (snd x)\<bar> \<le> MTR_MAX_COUNT \<and>
        (co_command co \<noteq> medulla_state_run \<longrightarrow> out_current (snd x) = 0)))"
proof -
  have "safe_output v co" using outputs_inv_reach [OF assms(1,2)] assms(3) by (simp add: outputs_inv_def)
  from transmit_safe_output [OF this assms(2), of "ecat_inputs c" "medullaManager c"]
  show ?thesis unfolding assms(4) by (auto simp: ecat_sendControllerOutput_def Let_def)
qed

lemma sent_output_transmitted_witness:
  "\<exists>s co. rt_reach biped1 s \<and> co \<in> set (sentOutputs s) \<and>
     \<not> ecat_undefined (ecat_sendControllerOutput biped1
         (co, \<lparr>frame_inputs = (\<lambda>_. []), frame_DCtime = 0\<rparr>) new_EcatConn)"
proof -
  let ?s = "(loop_body biped1 nan_controller 0 enabled_machine)\<lparr>loop_at := AtWait\<rparr>"
  have r: "rt_reach biped1 ?s"
    by (rule rt_reach_run [OF loop_body_run enabled_machine_reach]) (simp_all add: enabled_machine_simps)
  have m: "last (sentOutputs ?s) \<in> set (sentOutputs ?s)" by (simp add: loop_body_sent)
  have "\<not> ecat_undefined new_EcatConn" by (simp add: new_EcatConn_def)
  with sent_output_transmitted [OF r variant_ok_bipeds(1) m refl] r m show ?thesis by blast
qed

section \<open>The clock\<close>

text \<open>
  C16. The clock from end to end: after the iteration of its loop that takes up a new robot state,
  the time that RT Ops hands out, by \<open>getTimestamp\<close> and by \<open>getTimestampHeader\<close>, is the
  distributed clock of the frame that brought the state, plus the offset of the loop and rounded
  down to its period, for clocks up to 4e9 seconds; the number and the header are the same time.
\<close>

theorem clock_end_to_end:
  assumes "0 \<le> frame_DCtime frame"
    and "frame_DCtime frame < 4000000000 * SECOND_IN_NANOSECONDS"
    and "snd (ecat_receive v float_of (now, frame) c) = c'"
    and "last (ecat_calls c') = NewState st"
    and "s' = snd (loop_compute ctl (newStateCallback t0 t1 st s))"
    and "h = getTimestampHeader s'"
  shows "sint (getTimestamp s') =
      (frame_DCtime frame + CONTROLLER_LOOP_OFFSET_NS) div CONTROLLER_LOOP_PERIOD_NS * CONTROLLER_LOOP_PERIOD_NS \<and>
    1000000000 * uint (stamp_sec h) + uint (stamp_nsec h) = sint (getTimestamp s')"
proof -
  obtain locals where r: "ecat_receive v float_of (now, frame) c = (locals, c')"
    using assms(3) by (cases "ecat_receive v float_of (now, frame) c") simp
  note rcv = ecat_receive_header [OF assms(1,2) r]
  let ?t = "frame_DCtime frame + 300000"
  have T: "uint (controllerTime (timingInfo c')) = ?t div 1000000 * 1000000" by (rule rcv(1))
  have "?t div 1000000 * 1000000 \<le> ?t"
    using div_mult_mod_eq [of ?t 1000000] pos_mod_sign [of 1000000 ?t] by linarith
  then have "uint (controllerTime (timingInfo c')) < 4294967296 * 1000000000"
    using T assms(2) by (simp add: SECOND_IN_NANOSECONDS_def)
  note hdr = timing_header_exact [OF this]
  have st: "st = mm_robotState (medullaManager c')"
    using rcv(3) assms(4) by (simp add: mm_getRobotState_def)
  have ns: "uint (stamp_nsec (header st)) < SECOND_IN_NANOSECONDS"
    "1000000000 * uint (stamp_sec (header st)) + uint (stamp_nsec (header st)) =
     ?t div 1000000 * 1000000"
    using hdr T unfolding st rcv(2) by (simp_all add: SECOND_IN_NANOSECONDS_def)
  have "header (robotState (newStateCallback t0 t1 st s)) = header st"
    by (simp add: newStateCallback_def setRobotState_def Let_def)
  then have "s' = setTimestamp (header st) (newStateCallback t0 t1 st s)"
    unfolding assms(5) by (simp add: loop_compute_def Let_def getRobotState_def)
  with timestamp_roundtrip [OF ns(1)] ns(2) assms(6) show ?thesis
    by (simp add: CONTROLLER_LOOP_OFFSET_NS_def CONTROLLER_LOOP_PERIOD_NS_def)
qed

definition noon_frame :: ecat_frame where
  "noon_frame = \<lparr>frame_inputs = (\<lambda>_. []), frame_DCtime = 1400000000123456789\<rparr>"

lemma clock_end_to_end_witness:
  "\<exists>c' st. snd (ecat_receive biped1 (\<lambda>_. 0) (0, noon_frame) new_EcatConn) = c' \<and>
     sint (getTimestamp (snd (loop_compute nan_controller (newStateCallback 0 0 st enabled_machine)))) =
       1400000000123000000"
proof -
  let ?c = "snd (ecat_receive biped1 (\<lambda>_. 0) (0, noon_frame) new_EcatConn)"
  have t: "0 \<le> frame_DCtime noon_frame" "frame_DCtime noon_frame < 4000000000 * SECOND_IN_NANOSECONDS"
    by (simp_all add: noon_frame_def SECOND_IN_NANOSECONDS_def)
  obtain locals where "ecat_receive biped1 (\<lambda>_. 0) (0, noon_frame) new_EcatConn = (locals, ?c)"
    by (metis prod.collapse)
  from ecat_receive_header(3) [OF t this]
  have "last (ecat_calls ?c) = NewState (mm_getRobotState (medullaManager ?c))" .
  from clock_end_to_end [OF t refl this refl refl, of nan_controller 0 0 enabled_machine]
  show ?thesis
    by (simp add: noon_frame_def CONTROLLER_LOOP_OFFSET_NS_def CONTROLLER_LOOP_PERIOD_NS_def) blast
qed

section \<open>The two managers\<close>

text \<open>
  The controller manager and RT Ops can come apart: when the operator sends STOP and RUN in a
  row to a running robot, RT Ops obeys both and ends ENABLED, acknowledging both; the first of
  the two acknowledgements, when the manager was still waiting for one like it, puts the manager
  into CONTROLLER_STOPPED, where a further STOP or E_STOP of the operator sends RT Ops nothing.
\<close>

theorem stop_then_run_desynchronises:
  assumes "cm_state s = CONTROLLER_RUNNING" and "eventBeingWaitedOn s = RtOpsEvent_t ACK_DISABLE"
    and "incomingEvents s = []" and "em_at s = EM_loop" and "\<not> em_done s" and "\<not> cm_dead s"
    and "commandBuffer s = []" and "\<not> commandPending s"
    and "currentState r \<noteq> E_STOP" and "\<not> must_halt (robotState r)"
    and "gui_command stop = UserCommand_STOP" and "gui_command start = UserCommand_RUN"
    and "gui_command again \<in> {UserCommand_STOP, UserCommand_E_STOP}"
    and s1: "s1 = updateHook_cm env [] [stop, start] [True, True] s"
    and s2: "s2 = em_turn env locks (updateHook_cm env [RtOpsEvent_t ACK_DISABLE] [] [] s1)"
  shows "\<exists>w1 w2. toRtOps s1 = toRtOps s @ [w1, w2] \<and>
      currentState (updateHook (Some w2) (updateHook (Some w1) r)) = ENABLED \<and>
      events (updateHook (Some w2) (updateHook (Some w1) r)) =
        events r @ [event_msg ACK_DISABLE 0, event_msg ACK_ENABLE 0] \<and>
      cm_state s2 = CONTROLLER_STOPPED \<and>
      toRtOps (updateHook_cm env' [] [again] locks' s2) = toRtOps s1"
proof -
  have s1': "toRtOps s1 = toRtOps s @ [RtOpsState_t DISABLED, RtOpsState_t ENABLED]"
    "cm_state s1 = CONTROLLER_RUNNING" "eventBeingWaitedOn s1 = RtOpsEvent_t ACK_DISABLE"
    "incomingEvents s1 = []" "em_at s1 = EM_loop" "\<not> em_done s1" "\<not> cm_dead s1" "commandBuffer s1 = []"
    using assms(1-8,11,12) unfolding s1
    by (simp_all add: updateHook_cm_def tryProcessCommand_def handleUserCommand_def send_RtOps_def
        updateGui_def consts_simp Let_def)
  define u where "u = updateHook_cm env [RtOpsEvent_t ACK_DISABLE] [] [] s1"
  have u: "cm_state u = CONTROLLER_RUNNING" "eventBeingWaitedOn u = RtOpsEvent_t ACK_DISABLE"
    "incomingEvents u = [RtOpsEvent_t ACK_DISABLE]" "em_at u = EM_loop" "\<not> em_done u"
    "\<not> cm_dead u" "commandBuffer u = []" "toRtOps u = toRtOps s1"
    using s1' by (simp_all add: u_def updateHook_cm_def eventCallback_def em_signal_def updateGui_def Let_def)
  note late = late_disable_ack_hides_running [OF u(1-7) assms(13), of env locks env' "[]" locks']
  have w: "RtOpsState_of (RtOpsState_t DISABLED) = DISABLED" "RtOpsState_of (RtOpsState_t ENABLED) = ENABLED"
    by simp_all
  let ?r1 = "newCMState DISABLED r"
  have d: "currentState ?r1 = DISABLED" "robotState ?r1 = robotState r"
    "events ?r1 = events r @ [event_msg ACK_DISABLE 0]"
    using assms(9) by (simp_all add: newCMState_def ackCMState_def setControllerLoaded_def setState_def sendEvent_def)
  have e: "currentState (newCMState ENABLED ?r1) = ENABLED"
    "events (newCMState ENABLED ?r1) = events ?r1 @ [event_msg ACK_ENABLE 0]"
    using assms(10) d shouldHalt_quiet [of ?r1]
    by (simp_all add: newCMState_def [of ENABLED] ackCMState_def setState_def sendEvent_def)
  have r: "updateHook (Some (RtOpsState_t ENABLED)) (updateHook (Some (RtOpsState_t DISABLED)) r) =
      newCMState ENABLED (newCMState DISABLED r)"
    by (simp only: updateHook_def w option.case)
  have "s2 = em_turn env locks u" by (simp only: s2 u_def)
  with late have "cm_state s2 = CONTROLLER_STOPPED"
    "toRtOps (updateHook_cm env' [] [again] locks' s2) = toRtOps s1"
    using u(8) by simp_all
  moreover have "events (newCMState ENABLED (newCMState DISABLED r)) =
      events r @ [event_msg ACK_DISABLE 0, event_msg ACK_ENABLE 0]"
    using d(3) e(2) by simp
  ultimately show ?thesis
    using s1'(1) e(1) r by metis
qed

definition running_machine :: cman where
  "running_machine = cm_run loaded_machine [(plain_env, CM_event_loop [])]"

lemma stop_then_run_desynchronises_witness:
  "\<exists>w1 w2. currentState (updateHook (Some w2) (updateHook (Some w1) enabled_machine)) = ENABLED \<and>
     cm_state (em_turn plain_env [] (updateHook_cm plain_env [RtOpsEvent_t ACK_DISABLE] [] []
       (updateHook_cm plain_env [] [gui_msg UserCommand_STOP, gui_msg UserCommand_RUN] [True, True]
         running_machine))) = CONTROLLER_STOPPED"
proof -
  have "cm_state running_machine = CONTROLLER_RUNNING"
    "eventBeingWaitedOn running_machine = RtOpsEvent_t ACK_DISABLE"
    "incomingEvents running_machine = []" "em_at running_machine = EM_loop"
    "\<not> em_done running_machine" "\<not> cm_dead running_machine"
    "commandBuffer running_machine = []" "\<not> commandPending running_machine"
    by code_simp+
  note * = stop_then_run_desynchronises [OF this]
  have "currentState enabled_machine \<noteq> E_STOP" "\<not> must_halt (robotState enabled_machine)"
    by (simp_all add: enabled_machine_simps not_must_halt_zero)
  note * = * [OF this]
  have "gui_command (gui_msg UserCommand_STOP) = UserCommand_STOP"
    "gui_command (gui_msg UserCommand_RUN) = UserCommand_RUN"
    "gui_command (gui_msg UserCommand_STOP) \<in> {UserCommand_STOP, UserCommand_E_STOP}"
    by (simp_all add: gui_msg_def)
  from * [OF this refl refl] show ?thesis by blast
qed

section \<open>The hips\<close>

text \<open>
  A hip medulla that halts is not noticed: on every robot state that the connector can produce,
  whatever the hip medullas reported, the halt check looks at the boom and the legs alone.
\<close>

theorem hip_halt_unnoticed:
  assumes "mm_reach v float_of mm" and "robotState s = mm_getRobotState mm" and "st = robotState s"
    and "medulla_state_halt \<notin> {boomMedullaState st, medullaState (halfA (lLeg st)),
      medullaState (halfB (lLeg st)), medullaState (halfA (rLeg st)), medullaState (halfB (rLeg st))}"
  shows "fst (shouldHalt s) \<longleftrightarrow>
    \<not> safeties_disabled st \<and> (robot_danger motorAngle st \<or> robot_danger rotorAngle st)"
proof -
  have "hipMedullaState (lLeg st) = 0" "hipMedullaState (rLeg st) = 0"
    using hip_state_field_never_written [OF assms(1)] assms(2,3) by simp_all
  with assms(4) have "\<not> medulla_halted st"
    by (simp add: medulla_halted_def medulla_state_halt_def)
  then show ?thesis
    using assms(3) by (simp add: shouldHalt_fst must_halt_def)
qed

text \<open>A left hip alone on the bus, which starts and then reports halt.\<close>

definition hip_image :: "uint8 \<Rightarrow> uint8 \<Rightarrow> area" where
  "hip_image st counter = [MEDULLA_LEFT_HIP_ID, st, counter] @ replicate 44 0"

definition halting_hip :: "new_memory \<Rightarrow> MedullaManager" where
  "halting_hip g = mm_processReceiveData biped1 (\<lambda>_. 0) (\<lambda>_. hip_image medulla_state_halt 1)
     (mm_start biped1 (\<lambda>_. 0) g [\<lparr>eep_man = MEDULLA_VENDOR_ID, eep_id = MEDULLA_HIP_PRODUCT_CODE,
        slave_inputs = hip_image medulla_state_idle 0\<rparr>] new_MedullaManager)"

lemma halting_hip_reach: "mm_reach biped1 (\<lambda>_. 0) (halting_hip g)"
  unfolding halting_hip_def by (intro mm_reach.intros)

lemma hip_halt_unnoticed_witness:
  "\<forall>g. hip_medullaState (hip (lLeg (mm_getRobotState (halting_hip g)))) = medulla_state_halt \<and>
     fst (shouldHalt (enabled_machine\<lparr>robotState := mm_getRobotState (halting_hip g)\<rparr>)) =
       (\<not> safeties_disabled (mm_getRobotState (halting_hip g)) \<and>
        (robot_danger motorAngle (mm_getRobotState (halting_hip g)) \<or>
         robot_danger rotorAngle (mm_getRobotState (halting_hip g))))"
proof
  fix g
  let ?st = "mm_getRobotState (halting_hip g)"
  have img: "\<And>s c. hi_id (hip_inputs_of (hip_image s c)) = MEDULLA_LEFT_HIP_ID"
    "\<And>s c. hi_state (hip_inputs_of (hip_image s c)) = s"
    "\<And>s c. hi_timingCounter (hip_inputs_of (hip_image s c)) = c"
    by (simp_all add: hip_inputs_of_def hip_image_def fillInPDORegData_def hip_PDORegData_def
        rd8_def Let_def consts_simp)
  note evaluate = halting_hip_def mm_start_def medullasInit_def medulla_init_def initHipMedulla_def
    mm_processReceiveData_def receive_opt_def hip_processReceiveData_def hip_process_def
    hip_sensors_def updateEncoderValues_def hip_postOpInit_def
    new_MedullaManager_def mm_getRobotState_def setRobotConfiguration_def
  have "hip_medullaState (hip (lLeg ?st)) = medulla_state_halt \<and> boomMedullaState ?st = 0 \<and>
      medullaState (halfA (lLeg ?st)) = 0 \<and> medullaState (halfB (lLeg ?st)) = 0 \<and>
      medullaState (halfA (rLeg ?st)) = 0 \<and> medullaState (halfB (rLeg ?st)) = 0"
    by (simp add: evaluate img Let_def split_beta consts_simp robot_state_zero_def
        robot_state_leg_zero_def robot_state_legHalf_zero_def)
  then show "hip_medullaState (hip (lLeg ?st)) = medulla_state_halt \<and>
     fst (shouldHalt (enabled_machine\<lparr>robotState := ?st\<rparr>)) =
       (\<not> safeties_disabled ?st \<and> (robot_danger motorAngle ?st \<or> robot_danger rotorAngle ?st))"
    using hip_halt_unnoticed [OF halting_hip_reach, of "enabled_machine\<lparr>robotState := ?st\<rparr>" g ?st]
    by (simp add: medulla_state_halt_def)
qed

section \<open>From RT Ops to the motors\<close>

text \<open>The edge at which a leg medulla finds an output of the connector in its process data.\<close>

definition leg_received :: "leg_outputs \<Rightarrow> bool \<Rightarrow> bool \<Rightarrow> leg_sensors \<Rightarrow> leg_sensors dc_edge" where
  "leg_received out pressed pressed_init readings =
     \<lparr>rx_command = lo_command out, rx_counter = lo_counter out, rx_current = lo_motorCurrent out,
      estop_pressed = pressed, estop_pressed_init = pressed_init, sensors = readings\<rparr>"

lemma leg_received_simps [simp]:
  "rx_command (leg_received out p q r) = lo_command out"
  "rx_counter (leg_received out p q r) = lo_counter out"
  "rx_current (leg_received out p q r) = lo_motorCurrent out"
  by (simp_all add: leg_received_def)

lemma leg_transmit_command:
  "leg_processTransmitData v ident co d = Some (out, d') \<Longrightarrow> lo_command out = co_command co"
  by (auto simp: leg_processTransmitData_def Let_def split: option.splits)

text \<open>
  C4. From the emergency stop to the motors: of the outputs that RT Ops sends after it has entered
  E_STOP, in any interleaving without a RESET, any two that a leg medulla receives in a row over
  the bus leave its motor without power, whatever the sensors read, in every reachable state of
  the medulla but halt, as long as its firmware has not hung; a medulla that was running is in
  error, without power, after the first. The one output that the loop may already have been
  preparing when the stop came does not count.
\<close>

theorem estop_unpowers_legs:
  assumes "rt_run v s ls s'" and "currentState s = E_STOP" and "CMCommand 3 \<notin> set ls"
    and "sentOutputs s' = sentOutputs s @ outs"
    and "{co1, co2} \<subseteq> set (if loop_at s \<in> {AtTop, AtWait} \<union> range RunDone then outs else tl outs)"
    and "leg_processTransmitData v ident co1 d1 = Some (out1, d1')"
    and "leg_processTransmitData v ident co2 d2 = Some (out2, d2')"
    and "fw_reach leg_ops (leg_initialize ident) m" and "\<not> fw_hung m"
    and "current_state m \<noteq> medulla_state_halt"
    and "i1 = leg_received out1 p1 q1 r1" and "i2 = leg_received out2 p2 q2 r2"
  shows "\<not> leg_powered (board (fw_turns leg_ops [i1, i2] m)) \<and>
    (current_state m = medulla_state_run \<longrightarrow>
      current_state (fw_turns leg_ops [i1] m) = medulla_state_error \<and>
      \<not> leg_powered (board (fw_turns leg_ops [i1] m)))"
proof -
  have "list_all stop_output (if between_outputs s then outs else tl outs)"
    using estop_outputs [OF assms(1-3)] assms(4) by auto
  then have "stop_output co1" "stop_output co2"
    using assms(5) by (auto simp: list_all_iff between_outputs_def split: if_splits)
  then have c: "rx_command i1 = medulla_state_error" "rx_command i2 = medulla_state_error"
    using leg_transmit_command assms(6,7,11,12) by (auto simp: stop_output_def)
  show ?thesis
    using leg_error_commands [OF assms(8,9) c assms(10)] by (simp add: fw_turns_def)
qed

lemma estop_unpowers_legs_witness:
  "\<exists>out. lo_command out = medulla_state_error \<and>
     \<not> leg_powered (board (fw_turns leg_ops
       [leg_received out False False (quiet_sensors 0), leg_received out False False (quiet_sensors 1)]
       running_leg))"
proof -
  let ?s0 = "eStop MEDULLA_ESTOP enabled_machine"
  let ?s1 = "(loop_body biped1 nan_controller 0 ?s0)\<lparr>loop_at := AtWait\<rparr>"
  have r: "rt_run biped1 ?s0 [LoopStep, LoopStep, LoopStep, LoopStep] ?s1"
    by (rule loop_body_run) (simp_all add: enabled_machine_simps)
  let ?co = "last (sentOutputs ?s1)"
  have outs: "sentOutputs ?s1 = sentOutputs ?s0 @ [?co]" by (simp add: loop_body_sent)
  have "safe_output biped1 ?co"
    by (simp add: loop_body_sent iteration_command_def)
      (rule sent_output_safe [OF variant_ok_bipeds(1)], simp add: consts_simp)
  from leg_out_ok [OF this variant_ok_bipeds(1), of MEDULLA_LEFT_LEG_A_ID leg_driver_zero]
  obtain out d' where t: "leg_processTransmitData biped1 MEDULLA_LEFT_LEG_A_ID ?co leg_driver_zero = Some (out, d')" by blast
  have "co_command ?co = medulla_state_error"
    by (simp add: loop_body_sent iteration_command_def disable_unless_run_def clampControllerOutput_def)
  with leg_transmit_command [OF t] have c: "lo_command out = medulla_state_error" by simp
  have h: "\<not> fw_hung running_leg" by (simp add: running_leg_def fw_turns_def fw_start_def)
  have "CMCommand 3 \<notin> set [LoopStep, LoopStep, LoopStep, LoopStep]" by simp
  from estop_unpowers_legs [OF r _ this outs _ t t running_leg_reach h _ refl refl,
      of False False "quiet_sensors 0" False False "quiet_sensors 1"] running_leg_state c
  show ?thesis by (intro exI [of _ out]) (simp add: enabled_machine_simps consts_simp)
qed

lemma iterate_loop_reset_sent:
  assumes "currentState s = RESET" and "0 \<le> resetCounter s"
    and "resetCounter s + int (length cs) \<le> MEDULLA_RESET_TIME_MS + 1"
  shows "\<exists>outs. sentOutputs (iterate_loop v s cs) = sentOutputs s @ outs \<and> length outs = length cs \<and>
    (\<forall>co \<in> set outs. co_command co = medulla_state_reset)"
  using assms
proof (induction cs arbitrary: s)
  case (Cons c cs)
  obtain ctl now where c: "c = (ctl, now)" by (cases c)
  let ?s = "loop_body v ctl now s"
  have one: "\<exists>co. sentOutputs ?s = sentOutputs s @ [co] \<and> co_command co = medulla_state_reset"
    using Cons.prems(1)
    by (simp add: loop_body_sent iteration_command_def disable_unless_run_def clampControllerOutput_def)
  show ?case
  proof (cases cs)
    case Nil
    with one show ?thesis by (auto simp: c iterate_loop_def)
  next
    case (Cons c' cs')
    then have "currentState ?s = RESET" "resetCounter ?s = resetCounter s + 1"
      using Cons.prems loop_body_reset [OF Cons.prems(1), of v ctl now] by simp_all
    with Cons.IH [of ?s] Cons.prems one show ?thesis by (auto simp: c iterate_loop_def)
  qed
qed (simp add: iterate_loop_def)

lemma medulla_in_error_half: "medullaState (get_half sl st) = medulla_state_error \<Longrightarrow> medulla_in_error st"
  by (cases sl) (simp_all add: medulla_in_error_def)

text \<open>
  C27. A reset that comes too early reverts itself: six undisturbed iterations after its entry into RESET, RT Ops is in
  NO_CONTROLLER_LOADED and has acknowledged the reset. A leg medulla that has received their commands and whose count of
  turns in error, modulo its 16 bits, was at most 995 when the first of them arrived - in the first second after its error, and
  for a second after each wrap of the count - is still in error; and any robot state that reports its state, in whichever of
  the four slots, puts RT Ops back into E_STOP.
\<close>

theorem early_reset_reverts:
  assumes "currentState s = RESET" and "resetCounter s = 0" and "length cs = 6"
    and "s' = iterate_loop v s cs" and "sentOutputs s' = sentOutputs s @ outs"
    and "current_state m = medulla_state_error" and "estop_timeout_counter m = 0"
    and "\<forall>i \<in> set waiting. rx_command i \<noteq> medulla_state_reset"
    and "map rx_command resets = map co_command outs"
    and "m' = fw_turns leg_ops (waiting @ resets) m"
    and "medullaState (get_half sl st) = current_state m'"
  shows "currentState s' = NO_CONTROLLER_LOADED \<and> events s' = events s @ [event_msg ACK_RESET 0] \<and>
    ((length waiting + 1) mod 65536 \<le> 995 \<longrightarrow>
      currentState (newStateCallback t0 t1 st s') = E_STOP \<and>
      events (newStateCallback t0 t1 st s') = events s' @ [event_msg MEDULLA_ESTOP 0])"
proof -
  have len: "resetCounter s + int (length cs) = MEDULLA_RESET_TIME_MS + 1"
    using assms(2,3) by (simp add: consts_simp)
  obtain c ds where cs: "cs = ds @ [c]" "length ds = 5" using assms(3) by (cases cs rule: rev_cases) auto
  obtain ctl now where c: "c = (ctl, now)" by (cases c)
  have r: "currentState (iterate_loop v s ds) = RESET" "resetCounter (iterate_loop v s ds) = 5"
    "events (iterate_loop v s ds) = events s"
    using reset_iterations [OF assms(1), of ds v] assms(2) cs(2) by (simp_all add: consts_simp)
  have s': "s' = loop_body v ctl now (iterate_loop v s ds)"
    by (simp add: assms(4) cs c iterate_loop_def)
  have n: "currentState s' = NO_CONTROLLER_LOADED" "events s' = events s @ [event_msg ACK_RESET 0]"
    using loop_body_reset [OF r(1), of v ctl now] r(2,3) by (simp_all add: s' consts_simp)
  have e: "currentState (newStateCallback t0 t1 st s') = E_STOP"
    "events (newStateCallback t0 t1 st s') = events s' @ [event_msg MEDULLA_ESTOP 0]"
    if "(length waiting + 1) mod 65536 \<le> 995"
  proof -
    have "length outs = 6" "\<forall>co \<in> set outs. co_command co = medulla_state_reset"
      using iterate_loop_reset_sent [OF assms(1), of cs v] assms(2-5) by (auto simp: consts_simp)
    then have "length resets = 6" "\<forall>i \<in> set resets. rx_command i = medulla_state_reset"
      using assms(9) map_eq_imp_length_eq [OF assms(9)] by (auto dest!: arg_cong [of _ _ set])
    from reset_window [OF assms(6-8) this(2,1), of leg_ops] that
    have "current_state m' = medulla_state_error" by (simp add: assms(10))
    then have "medulla_in_error st" using assms(11) by (intro medulla_in_error_half) simp
    then show "currentState (newStateCallback t0 t1 st s') = E_STOP"
      "events (newStateCallback t0 t1 st s') = events s' @ [event_msg MEDULLA_ESTOP 0]"
      using n(1) by (simp_all add: newStateCallback_currentState, simp add: newStateCallback_def
          setRobotState_def Let_def checkForNewErrors_def getRtOpsState_def medulla_in_error_def)
  qed
  show ?thesis using n e by blast
qed

lemma early_reset_reverts_witness:
  "\<exists>s' m'. currentState s' = NO_CONTROLLER_LOADED \<and> current_state m' = medulla_state_error \<and>
     currentState (newStateCallback 0 0 (robot_state_zero\<lparr>lLeg := robot_state_leg_zero
       \<lparr>halfA := robot_state_legHalf_zero\<lparr>medullaState := current_state (m' :: leg_board firmware)\<rparr>\<rparr>\<rparr>) s') = E_STOP"
proof -
  let ?s = "updateHook (Some 3) enabled_machine" and ?cs = "replicate 6 (nan_controller, 0)"
  let ?m = "enter_error running_leg"
  have s: "currentState ?s = RESET" "resetCounter ?s = 0"
    by (simp_all add: enabled_machine_simps updateHook_def newCMState_currentState)
      (simp add: enabled_machine_def)
  then obtain outs where o: "sentOutputs (iterate_loop biped1 ?s ?cs) = sentOutputs ?s @ outs"
    "length outs = 6" "\<forall>co \<in> set outs. co_command co = medulla_state_reset"
    using iterate_loop_reset_sent [of ?s ?cs biped1] by (auto simp: consts_simp)
  let ?is = "map (\<lambda>co. leg_edge (co_command co) 0) outs"
  have r: "map rx_command ?is = map co_command outs" by (simp add: leg_edge_def)
  have m: "current_state ?m = medulla_state_error" "estop_timeout_counter ?m = 0"
    by (simp_all add: enter_error_def)
  have "length ?is = 6" "\<forall>i \<in> set ?is. rx_command i = medulla_state_reset"
    using o by (simp_all add: leg_edge_def)
  from reset_window [OF m _ this(2,1), of "[]" leg_ops]
  have e: "current_state (fw_turns leg_ops ([] @ ?is) ?m) = medulla_state_error" by simp
  from early_reset_reverts [OF s _ refl o(1) m _ r refl, of "[]" LeftA "robot_state_zero\<lparr>lLeg := robot_state_leg_zero
       \<lparr>halfA := robot_state_legHalf_zero\<lparr>medullaState := current_state (fw_turns leg_ops ([] @ ?is) ?m)\<rparr>\<rparr>\<rparr>" 0 0] e
  show ?thesis by (intro exI [of _ "iterate_loop biped1 ?s ?cs"] exI [of _ "fw_turns leg_ops ([] @ ?is) ?m"]) simp
qed

lemma ecat_receive_last:
  assumes "snd (ecat_receive v float_of (now, frame) c) = c'" and "last (ecat_calls c') = NewState st"
  shows "medullaState (get_half sl st) = medullaState (get_half sl
    (mm_robotState (mm_processReceiveData v float_of (frame_inputs frame) (medullaManager c))))"
proof -
  obtain info where "st = mm_robotState (setTimingInfo info
      (mm_processReceiveData v float_of (frame_inputs frame) (medullaManager c)))"
    using assms by (auto simp: ecat_receive_def Let_def mm_getRobotState_def)
  then show ?thesis by (cases sl) (simp_all add: setTimingInfo_def Let_def)
qed

text \<open>
  C5. An error on one leg board stops the whole robot: when the image of a leg medulla that is in
  error arrives with a new packet counter, in whichever slot and from no other board as well, while
  RT Ops is neither stopped nor in RESET, which ignores errors, RT Ops enters E_STOP and reports
  MEDULLA_ESTOP, and whatever happens until the operator resets, every output it sends to the
  connector commands error to all medullas with zero currents, but for the one that its loop may
  already be preparing.
\<close>

theorem medulla_error_stops_robot:
  assumes "fw_reach leg_ops (leg_initialize ident) m" and "current_state m = medulla_state_error"
    and "\<And>entries. slave entries = concat entries" and "frame_inputs frame n = slave (leg_tx amps m)"
    and "leg_slot_of ident = Some sl" and "leg_driver_of sl (medullaManager c) = Some (n, d)"
    and "packet_counter m \<noteq> lm_timingCounterValue d"
    and "\<And>sl' n' d'. sl' \<noteq> sl \<Longrightarrow> leg_driver_of sl' (medullaManager c) = Some (n', d') \<Longrightarrow>
      leg_slot_of (li_id (leg_inputs_of (frame_inputs frame n'))) \<noteq> Some sl"
    and "snd (ecat_receive v float_of (now, frame) c) = c'" and "last (ecat_calls c') = NewState st"
    and "currentState s \<notin> {E_STOP, RESET}"
    and "s0 = newStateCallback t0 t1 st s" and "rt_run v s0 ls s'" and "CMCommand 3 \<notin> set ls"
  shows "currentState s0 = E_STOP \<and> events s0 = events s @ [event_msg MEDULLA_ESTOP 0] \<and>
    currentState s' = E_STOP \<and>
    (\<exists>outs. sentOutputs s' = sentOutputs s0 @ outs \<and>
      (\<forall>co \<in> set (if loop_at s \<in> {AtTop, AtWait} \<union> range RunDone then outs else tl outs).
         co_command co = medulla_state_error \<and>
         co_lLeg co = controller_output_leg_zero \<and> co_rLeg co = controller_output_leg_zero))"
proof -
  have i: "leg_inputs_of (frame_inputs frame n) = leg_sees amps m"
    using leg_wire [OF leg_thermistors [OF assms(1)], of amps] by (simp add: assms(3,4))
  have "medullaState (get_half sl st) = medulla_state_error"
    unfolding ecat_receive_last [OF assms(9,10)]
    by (subst mm_receive_state [OF assms(6) _ _ assms(8)])
      (use assms(2,5,7) leg_ident [OF assms(1)] in \<open>simp_all add: i leg_sees_def Let_def\<close>)
  then have e: "medulla_in_error st" by (rule medulla_in_error_half)
  then have s0: "currentState s0 = E_STOP" "events s0 = events s @ [event_msg MEDULLA_ESTOP 0]"
    using assms(11) by (simp_all add: assms(12) newStateCallback_currentState,
      simp add: newStateCallback_def setRobotState_def Let_def checkForNewErrors_def
        getRtOpsState_def medulla_in_error_def)
  have "loop_at s0 = loop_at s" by (simp add: assms(12))
  with estop_outputs [OF assms(13) s0(1) assms(14)] s0 show ?thesis
    by (simp add: list_all_iff stop_output_def between_outputs_def)
qed

lemma medulla_error_stops_robot_witness:
  "\<exists>st. currentState (newStateCallback 0 0 st enabled_machine) = E_STOP \<and>
     medullaState (halfA (lLeg st)) =
       current_state (fw_turns leg_ops [leg_edge medulla_state_error 0] running_leg)"
proof -
  let ?m = "fw_turns leg_ops [leg_edge medulla_state_error 0] running_leg"
  let ?d = "leg_driver_zero\<lparr>lm_timingCounterValue := packet_counter ?m + 1\<rparr>"
  let ?c = "new_EcatConn\<lparr>medullaManager := new_MedullaManager\<lparr>lLegA := Some (0, ?d)\<rparr>\<rparr>"
  let ?frame = "\<lparr>frame_inputs = (\<lambda>_. concat (leg_tx (0, 0) ?m)), frame_DCtime = 0\<rparr>"
  let ?c' = "snd (ecat_receive biped1 (\<lambda>_. 0) (0, ?frame) ?c)"
  have r: "fw_reach leg_ops (leg_initialize MEDULLA_LEFT_LEG_A_ID) ?m"
    by (rule fw_turns_reach [OF running_leg_reach]) (simp add: running_leg_def fw_turns_def fw_start_def)
  have "\<not> fw_hung running_leg" by (simp add: running_leg_def fw_turns_def fw_start_def)
  from leg_error_commands [OF running_leg_reach this, of "leg_edge medulla_state_error 0" "leg_edge medulla_state_error 0"]
  have e: "current_state ?m = medulla_state_error"
    using running_leg_state by (simp add: leg_edge_def fw_turns_def consts_simp)
  obtain st where st: "last (ecat_calls ?c') = NewState st"
    by (simp add: ecat_receive_def Let_def)
  have slot: "leg_slot_of MEDULLA_LEFT_LEG_A_ID = Some LeftA" by (simp add: leg_slot_of_def)
  have o: "leg_driver_of sl' (medullaManager ?c) = None" if "sl' \<noteq> LeftA" for sl'
    using that by (cases sl') (simp_all add: new_MedullaManager_def)
  have "medullaState (get_half LeftA st) = medullaState (get_half LeftA
      (mm_robotState (mm_processReceiveData biped1 (\<lambda>_. 0) (frame_inputs ?frame) (medullaManager ?c))))"
    by (rule ecat_receive_last [OF refl st])
  moreover have "\<dots> = li_state (leg_inputs_of (frame_inputs ?frame 0))"
    by (rule mm_receive_state) (use o slot leg_wire [OF leg_thermistors [OF r]] leg_ident [OF r] in \<open>auto simp: leg_sees_def Let_def\<close>)
  moreover have "\<dots> = current_state ?m"
    using leg_wire [OF leg_thermistors [OF r]] by (simp add: leg_sees_def Let_def)
  moreover have "currentState (newStateCallback 0 0 st enabled_machine) = E_STOP"
    using medulla_error_stops_robot [OF r e, of concat ?frame 0 "(0, 0)" LeftA ?c ?d biped1 "\<lambda>_. 0" 0 ?c' st
        enabled_machine "newStateCallback 0 0 st enabled_machine" 0 0 "[]"
        "newStateCallback 0 0 st enabled_machine"] slot o st
    by (auto simp: enabled_machine_simps intro: rt_run.intros)
  ultimately show ?thesis by (intro exI [of _ st]) simp
qed

text \<open>
  C11. The current that RT Ops allows is the duty that the amplifier gets: a leg medulla that is still
  in run after receiving any output that RT Ops ever sends sets the pulse width to exactly the
  size of the current in counts, at most full scale; the sixteen bits of the duty lose nothing.
\<close>

theorem sent_current_is_duty:
  assumes "rt_reach v s" and "variant_ok v" and "co \<in> set (sentOutputs s)"
    and "leg_processTransmitData v ident co d = Some (out, d')"
    and "current_state m = medulla_state_run" and "i = leg_received out p q r"
    and "current_state (fw_turn leg_ops (Some i) m) = medulla_state_run"
  shows "\<exists>w. last_duty (leg_hw (board (fw_turn leg_ops (Some i) m))) = Some w \<and>
    uint w = \<bar>sint (lo_motorCurrent out)\<bar> \<and> uint w \<le> MTR_MAX_COUNT"
proof -
  have "safe_output v co" using outputs_inv_reach [OF assms(1,2)] assms(3) by (simp add: outputs_inv_def)
  from leg_out_ok [OF this assms(2), of ident d] assms(4)
  have w: "\<bar>sint (lo_motorCurrent out)\<bar> \<le> MTR_MAX_COUNT" by auto
  then have "\<bar>sint (lo_motorCurrent out)\<bar> < 65536" by (simp add: consts_simp)
  moreover obtain b where "board (fw_turn leg_ops (Some i) m) = leg_update_outputs (lo_motorCurrent out) b"
    using leg_fw.run_stays(2) [OF assms(5,7)] assms(6) by auto
  ultimately show ?thesis
    using set_amp_output_duty [of "lo_motorCurrent out" "leg_hw b"] w by (auto simp: leg_update_outputs_def)
qed

definition pushing_controller :: controller where
  "pushing_controller st =
     controller_output_zero\<lparr>co_command := medulla_state_run,
       co_lLeg := controller_output_leg_zero\<lparr>motorCurrentA := Fin (- 10)\<rparr>\<rparr>"

lemma sent_current_is_duty_witness:
  "\<exists>out w. last_duty (leg_hw (board (fw_turn leg_ops (Some (leg_received out False False (quiet_sensors 0)))
       ((fw_start 0 (leg_initialize 1))\<lparr>current_state := medulla_state_run\<rparr>)))) = Some w \<and>
     uint w = \<bar>sint (lo_motorCurrent out)\<bar>"
proof -
  let ?s = "(loop_body biped1 pushing_controller 0 enabled_machine)\<lparr>loop_at := AtWait\<rparr>"
  have r: "rt_reach biped1 ?s"
    by (rule rt_reach_run [OF loop_body_run enabled_machine_reach]) (simp_all add: enabled_machine_simps)
  let ?co = "last (sentOutputs ?s)"
  have co: "?co \<in> set (sentOutputs ?s)" by (simp add: loop_body_sent)
  have "safe_output biped1 ?co" using outputs_inv_reach [OF r variant_ok_bipeds(1)] co by (simp add: outputs_inv_def)
  from leg_out_ok [OF this variant_ok_bipeds(1), of 1 leg_driver_zero]
  obtain out d' where t: "leg_processTransmitData biped1 1 ?co leg_driver_zero = Some (out, d')" by blast
  have "output_finite (pushing_controller st)" for st
    by (simp add: pushing_controller_def output_finite_def leg_finite_def controller_output_zero_def
        controller_output_leg_zero_def)
  then have "co_command ?co = medulla_state_run"
    using not_must_halt_zero
    by (simp add: loop_body_sent iteration_command_def disable_unless_run_def clampControllerOutput_def
        enabled_machine_simps controller_answer_def pushing_controller_def)
  with leg_transmit_command [OF t] have c: "lo_command out = medulla_state_run" by simp
  let ?m = "(fw_start 0 (leg_initialize 1))\<lparr>current_state := medulla_state_run\<rparr> :: leg_board firmware"
  let ?i = "leg_received out False False (quiet_sensors 0)"
  have "estop_debounce (fw_sense leg_ops ?i ?m) = 0"
    by (simp add: fw_sense_def Let_def fw_start_def leg_received_def)
  moreover have "\<not> (10 :: uint8) \<le> 1" by (simp add: word_le_nat_alt)
  ultimately have "current_state (snd (fw_run leg_ops (fw_sense leg_ops ?i ?m))) = medulla_state_run"
    using c by (simp add: leg_fw.run_state leg_check_error_never fw_obey_def fw_start_def consts_simp)
  then have "current_state (fw_turn leg_ops (Some ?i) ?m) = medulla_state_run"
    using leg_fw.run_turn [of ?m _ ?i] by (simp add: fw_turn_some)
  from sent_current_is_duty [OF r variant_ok_bipeds(1) co t _ refl this] show ?thesis by auto
qed

end
